(* ===== verification/Go_Base.thy ===== *)
theory Go_Base
  imports Main "HOL-Library.Word" "HOL-Library.AList" "HOL-Library.Char_ord" "HOL-Library.List_Lexorder"
begin

text \<open>
  The shared prelude of the development: the Go values every component uses and the generic
  lemmas their proofs share.

  \<^item> A Go \<open>string\<close> or \<open>[]byte\<close> is a list of characters, one per byte.
  \<^item> A Go \<open>error\<close> is \<open>err option\<close>: \<open>None\<close> is \<open>nil\<close>. The sentinels the code tests
    with \<open>errors.Is\<close> are constructors; every other error carries the format text
    of its message, without the formatted operands.
  \<^item> A \<open>time.Time\<close> is the number of nanoseconds since Go's zero time (UTC), so \<open>IsZero\<close>
    is equality with 0 and \<open>UTC()\<close> is the identity.
  \<^item> Paths follow \<open>path/filepath\<close> of the Unix builds; on those \<open>runtime.GOOS\<close> is not
    \<open>windows\<close>.

  The collection \<open>go_simps\<close> holds the rewrite rules of this layer.
\<close>

named_theorems go_simps

subsection \<open>Errors\<close>

datatype err =
    Err string
  | Wrap string err
  | Join "err list"
  | ErrNotExist
  | ErrLockTimeout
  | ErrTargetReservationConflict
  | BarrierAuthorityError string
  | ErrNoShutdownInProgress
  | ErrPlatformUnsupported
  | ErrPrivilegeUnavailable
  | ErrPowerActionConflict
  | ErrContextDone
  | ErrWouldBlock

text \<open>\<open>errors.Is(e, target)\<close> for a sentinel: wrapped and joined errors are searched.\<close>

fun errors_Is :: "err \<Rightarrow> err \<Rightarrow> bool" where
  "errors_Is (Wrap m e) t = (Wrap m e = t \<or> errors_Is e t)"
| "errors_Is (Join es) t = (Join es = t \<or> (\<exists>e \<in> set es. errors_Is e t))"
| "errors_Is e t = (e = t)"

text \<open>\<open>errors.Is\<close> on an \<open>error\<close> value that may be \<open>nil\<close>.\<close>

definition err_is :: "err option \<Rightarrow> err \<Rightarrow> bool" where
  "err_is e t = (case e of None \<Rightarrow> False | Some x \<Rightarrow> errors_Is x t)"

text \<open>\<open>errors.As\<close> for \<open>*BarrierAuthorityError\<close>: the first one found.\<close>

fun as_barrier :: "err \<Rightarrow> string option"
  and as_barriers :: "err list \<Rightarrow> string option" where
  "as_barrier (BarrierAuthorityError r) = Some r"
| "as_barrier (Wrap m e) = as_barrier e"
| "as_barrier (Join es) = as_barriers es"
| "as_barrier e = None"
| "as_barriers [] = None"
| "as_barriers (e # es) = (case as_barrier e of Some r \<Rightarrow> Some r | None \<Rightarrow> as_barriers es)"

text \<open>\<open>errors.Join\<close>: nil when every operand is nil.\<close>

definition errors_Join :: "err option list \<Rightarrow> err option" where
  "errors_Join es = (case List.map_filter (\<lambda>e. e) es of [] \<Rightarrow> None | xs \<Rightarrow> Some (Join xs))"

lemma errors_Is_refl [simp]: "errors_Is e e"
  by (cases e) simp_all

lemma err_is_simps [simp]:
  "err_is None t = False"
  "err_is (Some e) t = errors_Is e t"
  by (simp_all add: err_is_def)

lemma errors_Join_None: "errors_Join es = None \<longleftrightarrow> (\<forall>e \<in> set es. e = None)"
proof -
  have "List.map_filter (\<lambda>e. e) es = [] \<longleftrightarrow> (\<forall>e \<in> set es. e = None)"
    by (induction es) (auto simp: List.map_filter_simps split: option.splits)
  then show ?thesis
    by (cases "List.map_filter (\<lambda>e. e) es") (auto simp: errors_Join_def)
qed

text \<open>The shape every validator has: a chain of guards that each return an error.\<close>

lemma guard_None [simp, go_simps]:
  "((if b then Some e else r) = None) \<longleftrightarrow> \<not> b \<and> r = None"
  by simp

lemma guard_chain [go_simps]:
  "((case m of None \<Rightarrow> r | Some e \<Rightarrow> Some e) = None) \<longleftrightarrow> m = None \<and> r = None"
  by (cases m) simp_all

lemma guard_Inr [simp, go_simps]:
  "((if b then Inl e else m) = Inr r) \<longleftrightarrow> \<not> b \<and> m = Inr r"
  by simp

text \<open>The first error of a list of checks, in order.\<close>

fun first_err :: "('a \<Rightarrow> err option) \<Rightarrow> 'a list \<Rightarrow> err option" where
  "first_err f [] = None"
| "first_err f (x # xs) = (case f x of None \<Rightarrow> first_err f xs | Some e \<Rightarrow> Some e)"

lemma first_err_None [simp, go_simps]: "first_err f xs = None \<longleftrightarrow> (\<forall>x \<in> set xs. f x = None)"
  by (induction xs) (auto split: option.splits)

text \<open>A validator as the list of its checks; \<open>reject b m\<close> is \<open>if b { return errors.New(m) }\<close>.\<close>

definition checks :: "err option list \<Rightarrow> err option" where
  "checks cs = first_err (\<lambda>c. c) cs"

definition reject :: "bool \<Rightarrow> string \<Rightarrow> err option" where
  "reject b m = (if b then Some (Err m) else None)"

lemma reject_None [simp, go_simps]: "reject b m = None \<longleftrightarrow> \<not> b"
  by (simp add: reject_def)

lemma checks_None [simp, go_simps]:
  "checks [] = None"
  "checks (c # cs) = None \<longleftrightarrow> c = None \<and> checks cs = None"
  by (simp add: checks_def, cases c) (simp_all add: checks_def)

lemma checks_Some [go_simps]:
  "checks (c # cs) = Some e \<longleftrightarrow> c = Some e \<or> (c = None \<and> checks cs = Some e)"
  by (auto simp: checks_def split: option.splits)

lemma if_None [go_simps]:
  "((if b then m else n) = (None :: 'a option)) \<longleftrightarrow> (b \<longrightarrow> m = None) \<and> (\<not> b \<longrightarrow> n = None)"
  by simp

lemma case_None_iff [go_simps]:
  "((case m of None \<Rightarrow> None | Some x \<Rightarrow> f x) = None) \<longleftrightarrow> (\<forall>x. m = Some x \<longrightarrow> f x = None)"
  by (cases m) simp_all

subsection \<open>Times and durations\<close>

type_synonym time = int
type_synonym duration = int

abbreviation Millisecond :: duration where "Millisecond \<equiv> 1000000"
abbreviation Second :: duration where "Second \<equiv> 1000000000"
abbreviation Minute :: duration where "Minute \<equiv> 60000000000"
abbreviation Hour :: duration where "Hour \<equiv> 3600000000000"

definition IsZero :: "time \<Rightarrow> bool" where
  "IsZero t \<longleftrightarrow> t = 0"

subsection \<open>Characters and strings\<close>

type_synonym code = nat

definition char_code :: "char \<Rightarrow> nat" where
  "char_code c = of_char c"

definition char_between :: "nat \<Rightarrow> nat \<Rightarrow> char \<Rightarrow> bool" where
  "char_between lo hi c \<longleftrightarrow> lo \<le> char_code c \<and> char_code c \<le> hi"

definition is_digit :: "char \<Rightarrow> bool" where "is_digit c \<longleftrightarrow> char_between 48 57 c"
definition is_lower :: "char \<Rightarrow> bool" where "is_lower c \<longleftrightarrow> char_between 97 122 c"
definition is_upper :: "char \<Rightarrow> bool" where "is_upper c \<longleftrightarrow> char_between 65 90 c"

definition HasPrefix :: "string \<Rightarrow> string \<Rightarrow> bool" where
  "HasPrefix s p \<longleftrightarrow> take (length p) s = p"

definition HasSuffix :: "string \<Rightarrow> string \<Rightarrow> bool" where
  "HasSuffix s p \<longleftrightarrow> HasPrefix (rev s) (rev p)"

definition TrimPrefix :: "string \<Rightarrow> string \<Rightarrow> string" where
  "TrimPrefix s p = (if HasPrefix s p then drop (length p) s else s)"

text \<open>\<open>strings.ToLower\<close> on ASCII letters; the code applies it to ASCII keywords and digests.\<close>

definition lower_char :: "char \<Rightarrow> char" where
  "lower_char c = (if is_upper c then char_of (char_code c + 32) else c)"

definition ToLower :: "string \<Rightarrow> string" where
  "ToLower s = map lower_char s"

text \<open>
  \<open>strings.TrimSpace\<close> strips the code points of \<open>unicode.IsSpace\<close> at both ends, here by
  their UTF-8 encodings.
\<close>

definition space_runes :: "string list" where
  "space_runes =
     map (map char_of)
       ([[9], [10], [11], [12], [13], [32], [0xC2, 0x85], [0xC2, 0xA0], [0xE1, 0x9A, 0x80]]
        @ map (\<lambda>n. [0xE2, 0x80, n]) [0x80, 0x81, 0x82, 0x83, 0x84, 0x85, 0x86, 0x87, 0x88, 0x89, 0x8A]
        @ [[0xE2, 0x80, 0xA8], [0xE2, 0x80, 0xA9], [0xE2, 0x80, 0xAF], [0xE2, 0x81, 0x9F],
           [0xE3, 0x80, 0x80 :: nat]])"

fun strip_left :: "nat \<Rightarrow> string list \<Rightarrow> string \<Rightarrow> string" where
  "strip_left 0 ws s = s"
| "strip_left (Suc n) ws s =
     (case find (HasPrefix s) ws of None \<Rightarrow> s | Some w \<Rightarrow> strip_left n ws (drop (length w) s))"

text \<open>Every round removes at least one byte, so \<open>length s\<close> rounds are enough.\<close>

definition TrimSpace :: "string \<Rightarrow> string" where
  "TrimSpace s =
     (let l = strip_left (length s) space_runes s
      in rev (strip_left (length l) (map rev space_runes) (rev l)))"

lemma HasPrefix_append [simp]: "HasPrefix (p @ s) p"
  by (simp add: HasPrefix_def)

lemma TrimSpace_empty [simp]: "TrimSpace [] = []"
  by (simp add: TrimSpace_def)

lemma strip_left_length: "length (strip_left n ws s) \<le> length s"
proof (induction n arbitrary: s)
  case (Suc n)
  then show ?case
    using Suc.IH [of "drop (length w) s" for w]
    by (auto split: option.splits intro: order_trans [OF Suc.IH])
qed simp

lemma TrimSpace_length: "length (TrimSpace s) \<le> length s"
  by (simp add: TrimSpace_def Let_def) (metis length_rev order_trans strip_left_length)

text \<open>A string that starts and ends with a plain ASCII character is its own trim.\<close>

lemma find_HasPrefix_None:
  assumes "\<forall>w \<in> set ws. w \<noteq> [] \<and> hd w \<noteq> c"
  shows "find (HasPrefix (c # s)) ws = None"
  using assms by (auto simp: find_None_iff HasPrefix_def neq_Nil_conv)

lemma strip_left_keep:
  assumes "\<forall>w \<in> set ws. w \<noteq> [] \<and> hd w \<noteq> c"
  shows "strip_left n ws (c # s) = c # s"
  using find_HasPrefix_None [OF assms] by (cases n) simp_all

text \<open>A string that starts with a lower-case letter is not blank.\<close>

lemma strip_left_last:
  assumes "\<forall>w \<in> set ws. w \<noteq> [] \<and> last w \<noteq> c"
  shows "\<exists>ys. strip_left n ws (xs @ [c]) = ys @ [c]"
proof (induction n arbitrary: xs)
  case (Suc n)
  show ?case
  proof (cases "find (HasPrefix (xs @ [c])) ws")
    case (Some w)
    then have w: "w \<noteq> []" "last w \<noteq> c" "take (length w) (xs @ [c]) = w"
      using assms by (auto simp: find_Some_iff HasPrefix_def)
    have "length w \<le> length xs"
    proof (rule ccontr)
      assume "\<not> length w \<le> length xs"
      then have "take (length w) (xs @ [c]) = xs @ [c]" by simp
      then show False using w by (metis last_snoc)
    qed
    then have "drop (length w) (xs @ [c]) = drop (length w) xs @ [c]" by simp
    then show ?thesis using Suc Some by simp
  qed simp
qed simp

lemma space_runes_lower: "\<forall>w \<in> set space_runes. w \<noteq> [] \<and> \<not> is_lower (hd w)"
  by (simp add: space_runes_def is_lower_def char_between_def char_code_def)

lemma TrimSpace_lower:
  assumes "is_lower c"
  shows "TrimSpace (c # s) \<noteq> []"
proof -
  have r: "\<forall>w \<in> set space_runes. w \<noteq> [] \<and> hd w \<noteq> c" using space_runes_lower assms by auto
  then have l: "strip_left n space_runes (c # s) = c # s" for n by (rule strip_left_keep)
  have "\<forall>w \<in> set (map rev space_runes). w \<noteq> [] \<and> last w \<noteq> c" using r by (auto simp: last_rev)
  then obtain ys where "strip_left (length (c # s)) (map rev space_runes) (rev s @ [c]) = ys @ [c]"
    using strip_left_last by blast
  then show ?thesis by (simp only: TrimSpace_def l Let_def rev.simps) simp
qed

subsection \<open>UTF-8\<close>

text \<open>
  The number of bytes of the valid encoding at the head of a string, 0 when there is none
  (the first-byte ranges of \<open>unicode/utf8\<close>).
\<close>

fun rune_size :: "nat list \<Rightarrow> nat" where
  "rune_size [] = 0"
| "rune_size (b # bs) =
     (let cont = (\<lambda>lo hi i. i < length bs \<and> lo \<le> bs ! i \<and> bs ! i \<le> hi)
      in if b < 0x80 then 1
      else if b < 0xC2 then 0
      else if b < 0xE0 then (if cont 0x80 0xBF 0 then 2 else 0)
      else if b < 0xF0 then
        (if cont (if b = 0xE0 then 0xA0 else 0x80) (if b = 0xED then 0x9F else 0xBF) 0 \<and>
            cont 0x80 0xBF 1 then 3 else 0)
      else if b < 0xF5 then
        (if cont (if b = 0xF0 then 0x90 else 0x80) (if b = 0xF4 then 0x8F else 0xBF) 0 \<and>
            cont 0x80 0xBF 1 \<and> cont 0x80 0xBF 2 then 4 else 0)
      else 0)"

definition string_codes :: "string \<Rightarrow> nat list" where
  "string_codes s = map char_code s"

declare rune_size.simps [simp del]

fun rune_count :: "nat list \<Rightarrow> nat" where
  "rune_count [] = 0"
| "rune_count (b # bs) = Suc (rune_count (drop (rune_size (b # bs) - 1) bs))"

fun utf8_valid :: "nat list \<Rightarrow> bool" where
  "utf8_valid [] = True"
| "utf8_valid (b # bs) =
     (if rune_size (b # bs) = 0 then False else utf8_valid (drop (rune_size (b # bs) - 1) bs))"

text \<open>\<open>utf8.RuneCountInString\<close> (an invalid byte counts as one rune) and \<open>utf8.Valid\<close>.\<close>

definition RuneCountInString :: "string \<Rightarrow> nat" where
  "RuneCountInString s = rune_count (string_codes s)"

definition utf8_Valid :: "string \<Rightarrow> bool" where
  "utf8_Valid s = utf8_valid (string_codes s)"

lemma rune_count_le: "rune_count bs \<le> length bs"
  by (induction bs rule: rune_count.induct) (auto intro: order_trans)

lemma RuneCountInString_le: "RuneCountInString s \<le> length s"
  using rune_count_le [of "string_codes s"] by (simp add: RuneCountInString_def string_codes_def)

lemma RuneCountInString_0 [simp]: "RuneCountInString s = 0 \<longleftrightarrow> s = []"
  by (cases s) (simp_all add: RuneCountInString_def string_codes_def)

lemma rune_count_ascii: "\<forall>b \<in> set bs. b < 0x80 \<Longrightarrow> rune_count bs = length bs \<and> utf8_valid bs"
  by (induction bs) (simp_all add: rune_size.simps)

end
