(* ===== verification/Go_World.thy ===== *)
theory Go_World
  imports Go_Base "HOL-Library.State_Monad"
begin

text \<open>
  Effects. A stateful Go function is a program of the state monad over a \<open>world\<close>: the data it
  reads and writes (the disk of a component), and the environment that answers its system
  calls.

  \<^item> Every system call takes one \<open>tick\<close>. Its outcome is the entry of the script \<open>io\<close> at that
    tick: \<open>None\<close> when it succeeds, the error otherwise.
  \<^item> \<open>clock\<close> is what \<open>time.Now\<close> returns at a tick, with no assumption that it advances.
  \<^item> \<open>others\<close> is what the other processes do to the disk. Between two critical sections, and
    before a read without the lock, it may change the disk; code that holds the lock sees no
    change.

  A function that returns several values returns their tuple, on every path. The predicate
  \<open>wp m Q w\<close> says that running \<open>m\<close> from \<open>w\<close> ends in a result and a world that satisfy \<open>Q\<close>; the
  rules for it are collected in \<open>wp_rules\<close> (rewrite rules) and \<open>wp_calls\<close> (one rule per
  system call, which forgets the script and keeps the effect).
\<close>

record 'd world =
  disk :: 'd
  tick :: nat
  io :: "nat \<Rightarrow> err option"
  clock :: "nat \<Rightarrow> time"
  others :: "nat \<Rightarrow> 'd \<Rightarrow> 'd"

abbreviation "ret \<equiv> State_Monad.return"

definition gets :: "('d world \<Rightarrow> 'a) \<Rightarrow> ('d world, 'a) state" where
  "gets f = do { w \<leftarrow> State_Monad.get; ret (f w) }"

definition advance :: "('d world, unit) state" where
  "advance = do { w \<leftarrow> State_Monad.get; State_Monad.set (w\<lparr>tick := Suc (tick w)\<rparr>) }"

definition read_disk :: "('d world, 'd) state" where
  "read_disk = gets disk"

definition change_disk :: "('d \<Rightarrow> 'd) \<Rightarrow> ('d world, unit) state" where
  "change_disk f = do { w \<leftarrow> State_Monad.get; State_Monad.set (w\<lparr>disk := f (disk w)\<rparr>) }"

text \<open>One system call, \<open>time.Now\<close>, and the point where other processes may act.\<close>

definition call :: "('d world, err option) state" where
  "call = do { r \<leftarrow> gets (\<lambda>w. io w (tick w)); advance; ret r }"

definition time_Now :: "('d world, time) state" where
  "time_Now = do { t \<leftarrow> gets (\<lambda>w. clock w (tick w)); advance; ret t }"

definition sync :: "('d world, unit) state" where
  "sync = do { f \<leftarrow> gets (\<lambda>w. others w (tick w)); advance; change_disk f }"

text \<open>A read without the lock.\<close>

definition observe :: "('d world, 'd) state" where
  "observe = do { sync; read_disk }"

text \<open>\<open>if err != nil { return r }\<close>.\<close>

definition or_return :: "err option \<Rightarrow> (err \<Rightarrow> 'a) \<Rightarrow> ('w, 'a) state \<Rightarrow> ('w, 'a) state" where
  "or_return e r k = (case e of Some x \<Rightarrow> ret (r x) | None \<Rightarrow> k)"

text \<open>System calls in order, up to the first that fails; each wraps its error.\<close>

fun calls :: "string list \<Rightarrow> ('d world, err option) state" where
  "calls [] = ret None"
| "calls (m # ms) = do { r \<leftarrow> call; or_return r (\<lambda>e. Some (Wrap m e)) (calls ms) }"

subsection \<open>Weakest preconditions\<close>

named_theorems wp_rules
named_theorems wp_calls

definition wp :: "('w, 'a) state \<Rightarrow> ('a \<Rightarrow> 'w \<Rightarrow> bool) \<Rightarrow> 'w \<Rightarrow> bool" where
  "wp m Q w = (case run_state m w of (r, w') \<Rightarrow> Q r w')"

lemma wp_return [simp, wp_rules]: "wp (ret r) Q = Q r"
  by (simp add: wp_def fun_eq_iff)

lemma wp_bind [simp, wp_rules]: "wp (m \<bind> f) Q w = wp m (\<lambda>r w'. wp (f r) Q w') w"
  by (simp add: wp_def split: prod.splits)

lemma wp_get [simp]: "wp State_Monad.get Q w = Q w w"
  by (simp add: wp_def)

lemma wp_set [simp]: "wp (State_Monad.set v) Q w = Q () v"
  by (simp add: wp_def)

lemma wp_gets [simp, wp_rules]: "wp (gets f) Q w = Q (f w) w"
  by (simp add: gets_def)

lemma wp_read_disk [simp, wp_rules]: "wp read_disk Q w = Q (disk w) w"
  by (simp add: read_disk_def)

lemma wp_change_disk [simp, wp_rules]: "wp (change_disk f) Q w = Q () (w\<lparr>disk := f (disk w)\<rparr>)"
  by (simp add: change_disk_def)

lemma wp_advance [simp, wp_rules]: "wp advance Q w = Q () (w\<lparr>tick := Suc (tick w)\<rparr>)"
  by (simp add: advance_def)

lemma wp_or_return [simp, wp_rules]:
  "wp (or_return e r k) Q w \<longleftrightarrow> (\<forall>x. e = Some x \<longrightarrow> Q (r x) w) \<and> (e = None \<longrightarrow> wp k Q w)"
  by (simp add: or_return_def split: option.splits)

lemma wp_if [wp_rules]: "wp (if b then m else k) Q w \<longleftrightarrow> (b \<longrightarrow> wp m Q w) \<and> (\<not> b \<longrightarrow> wp k Q w)"
  by simp

lemma wp_case_option [wp_rules]:
  "wp (case x of None \<Rightarrow> m | Some y \<Rightarrow> k y) Q w \<longleftrightarrow>
     (x = None \<longrightarrow> wp m Q w) \<and> (\<forall>y. x = Some y \<longrightarrow> wp (k y) Q w)"
  by (cases x) simp_all

lemma wp_case_sum [wp_rules]:
  "wp (case x of Inl e \<Rightarrow> m e | Inr y \<Rightarrow> k y) Q w \<longleftrightarrow>
     (\<forall>e. x = Inl e \<longrightarrow> wp (m e) Q w) \<and> (\<forall>y. x = Inr y \<longrightarrow> wp (k y) Q w)"
  by (cases x) simp_all

lemma wp_case_prod [wp_rules]:
  "wp (case x of (a, b) \<Rightarrow> k a b) Q w \<longleftrightarrow> (\<forall>a b. x = (a, b) \<longrightarrow> wp (k a b) Q w)"
  by (cases x) simp_all

lemma wp_Let [wp_rules]: "wp (let x = v in k x) Q w \<longleftrightarrow> (\<forall>x. x = v \<longrightarrow> wp (k x) Q w)"
  by simp

text \<open>
  The same rules as introduction rules that follow the structure of a program: every branch
  becomes a goal of its own, with the case it is in as a premise.
\<close>

named_theorems wp_intros

lemma wp_retI [wp_intros]: "Q r w \<Longrightarrow> wp (ret r) Q w"
  by simp

lemma wp_bindI [wp_intros]: "wp m (\<lambda>r w'. wp (f r) Q w') w \<Longrightarrow> wp (m \<bind> f) Q w"
  by simp

lemma wp_readI [wp_intros]: "Q (disk w) w \<Longrightarrow> wp read_disk Q w"
  by simp

lemma wp_changeI [wp_intros]: "Q () (w\<lparr>disk := f (disk w)\<rparr>) \<Longrightarrow> wp (change_disk f) Q w"
  by simp

lemma wp_or_returnI [wp_intros]: "(\<And>x. e = Some x \<Longrightarrow> Q (r x) w) \<Longrightarrow> (e = None \<Longrightarrow> wp k Q w) \<Longrightarrow> wp (or_return e r k) Q w"
  by simp

lemma wp_ifI [wp_intros]: "(b \<Longrightarrow> wp m Q w) \<Longrightarrow> (\<not> b \<Longrightarrow> wp k Q w) \<Longrightarrow> wp (if b then m else k) Q w"
  by simp

lemma wp_optionI [wp_intros]:
  "(x = None \<Longrightarrow> wp m Q w) \<Longrightarrow> (\<And>y. x = Some y \<Longrightarrow> wp (k y) Q w) \<Longrightarrow>
     wp (case x of None \<Rightarrow> m | Some y \<Rightarrow> k y) Q w"
  by (cases x) simp_all

lemma wp_sumI [wp_intros]:
  "(\<And>e. x = Inl e \<Longrightarrow> wp (m e) Q w) \<Longrightarrow> (\<And>y. x = Inr y \<Longrightarrow> wp (k y) Q w) \<Longrightarrow>
     wp (case x of Inl e \<Rightarrow> m e | Inr y \<Rightarrow> k y) Q w"
  by (cases x) simp_all

lemma wp_prodI [wp_intros]:
  "(\<And>a b. x = (a, b) \<Longrightarrow> wp (k a b) Q w) \<Longrightarrow> wp (case x of (a, b) \<Rightarrow> k a b) Q w"
  by (cases x) simp

lemma wp_LetI [wp_intros]: "(\<And>x. x = v \<Longrightarrow> wp (k x) Q w) \<Longrightarrow> wp (let x = v in k x) Q w"
  by simp

lemma wp_mono: "wp m P w \<Longrightarrow> (\<And>r w'. P r w' \<Longrightarrow> Q r w') \<Longrightarrow> wp m Q w"
  by (auto simp: wp_def split: prod.splits)

lemma wp_conj: "wp m P w \<Longrightarrow> wp m Q w \<Longrightarrow> wp m (\<lambda>r w'. P r w' \<and> Q r w') w"
  by (auto simp: wp_def split: prod.splits)

lemma wp_run: "wp m Q w \<Longrightarrow> run_state m w = (r, w') \<Longrightarrow> Q r w'"
  by (simp add: wp_def)

lemma wp_any: "(\<And>r w'. Q r w') \<Longrightarrow> wp m Q w"
  by (simp add: wp_def split: prod.splits)

lemma wp_runI: "(\<And>r w'. run_state m w = (r, w') \<Longrightarrow> Q r w') \<Longrightarrow> wp m Q w"
  by (auto simp: wp_def split: prod.splits)

text \<open>
  \<open>at w d n\<close> is \<open>w\<close> with another disk and tick; every program of this theory leaves the environment
  alone and so ends in such a world. Calls change the tick only: the script decides the outcome.
\<close>

definition at :: "'d world \<Rightarrow> 'd \<Rightarrow> nat \<Rightarrow> 'd world" where
  "at w d n = w\<lparr>disk := d, tick := n\<rparr>"

lemma at_simps [simp]:
  "disk (at w d n) = d" "tick (at w d n) = n" "io (at w d n) = io w" "clock (at w d n) = clock w"
  "others (at w d n) = others w" "at (at w d n) d' n' = at w d' n'" "at w (disk w) (tick w) = w"
  by (simp_all add: at_def)

lemma at_upd [simp]: "w\<lparr>disk := d\<rparr> = at w d (tick w)" "w\<lparr>tick := n\<rparr> = at w (disk w) n"
  by (simp_all add: at_def)

text \<open>The later world differs in the disk and the tick only.\<close>

definition evolves :: "'d world \<Rightarrow> 'd world \<Rightarrow> bool" where
  "evolves w w' \<longleftrightarrow> io w' = io w \<and> clock w' = clock w \<and> others w' = others w"

lemma evolves_at [simp]: "evolves w (at w' d n) = evolves w w'" "evolves (at w d n) w' = evolves w w'" "evolves w w"
  by (auto simp: evolves_def)

lemma evolves_trans [trans]: "evolves w w' \<Longrightarrow> evolves w' w'' \<Longrightarrow> evolves w w''"
  by (simp add: evolves_def)

lemma wp_call [wp_calls]: "(\<And>r n. Q r (at w (disk w) n)) \<Longrightarrow> wp call Q w"
  by (simp add: call_def)

lemma wp_time_Now [wp_calls]: "(\<And>k n. Q (clock w k) (at w (disk w) n)) \<Longrightarrow> wp time_Now Q w"
  by (simp add: time_Now_def)

lemma wp_sync [wp_calls]: "(\<And>k n. Q () (at w (others w k (disk w)) n)) \<Longrightarrow> wp sync Q w"
  by (simp add: sync_def)

lemma wp_observe [wp_calls]:
  "(\<And>k n. Q (others w k (disk w)) (at w (others w k (disk w)) n)) \<Longrightarrow> wp observe Q w"
  by (simp add: observe_def sync_def)

lemma wp_calls_seq [wp_calls]: "(\<And>r n. Q r (at w (disk w) n)) \<Longrightarrow> wp (calls ms) Q w"
proof (induction ms arbitrary: w)
  case Nil
  from Nil [of None "tick w"] show ?case by simp
next
  case (Cons m ms)
  have "wp (calls ms) Q (at w (disk w) n)" for n
    by (rule Cons.IH) (simp add: Cons.prems)
  then show ?case
    by (auto intro!: wp_call Cons.prems)
qed

subsection \<open>The lock and the atomic write\<close>

text \<open>
  \<open>acquireStateLock\<close> (\<open>internal/pluginstate/lock_other.go\<close>) opens and secures the lock file, then
  polls \<open>flock\<close> until it succeeds, fails with another error than \<open>EWOULDBLOCK\<close>, or the deadline
  has passed. Every poll sleeps for 5 ms, so with a clock that follows the sleeps the deadline
  of 500 ms is reached within the 101 polls of the fuel; running out of fuel is the timeout
  as well.
\<close>

fun flock_poll :: "nat \<Rightarrow> time \<Rightarrow> ('d world, err option) state" where
  "flock_poll 0 deadline = ret (Some ErrLockTimeout)"
| "flock_poll (Suc fuel) deadline = do {
     r \<leftarrow> call;
     case r of
       None \<Rightarrow> do { sync; ret None }
     | Some e \<Rightarrow>
         if \<not> errors_Is e ErrWouldBlock then ret (Some (Wrap ''lock plugin state: %w'' e))
         else do {
           t \<leftarrow> time_Now;
           if \<not> t < deadline then ret (Some ErrLockTimeout) else flock_poll fuel deadline } }"

definition acquireStateLock :: "duration \<Rightarrow> ('d world, err option) state" where
  "acquireStateLock timeout = do {
     r \<leftarrow> calls [''open plugin state lock: %w'', ''secure plugin state lock: %w''];
     or_return r Some (do {
       t \<leftarrow> time_Now;
       flock_poll (Suc (nat (timeout div (5 * Millisecond)))) (t + timeout) }) }"

lemma wp_flock_poll:
  "(\<And>k n. Q None (at w (others w k (disk w)) n)) \<Longrightarrow> (\<And>e n. Q (Some e) (at w (disk w) n)) \<Longrightarrow>
     wp (flock_poll fuel d) Q w"
proof (induction fuel arbitrary: w)
  case 0
  from 0(2) [of _ "tick w"] show ?case by simp
next
  case (Suc fuel)
  have "wp (flock_poll fuel d) Q (at w (disk w) n)" for n
    by (rule Suc.IH) (simp_all add: Suc.prems)
  then show ?case
    unfolding flock_poll.simps wp_bind
    by (intro wp_call) (auto simp: wp_case_option wp_if Suc.prems intro!: wp_sync wp_time_Now)
qed

lemma wp_acquireStateLock [wp_calls]:
  "(\<And>k n. Q None (at w (others w k (disk w)) n)) \<Longrightarrow> (\<And>e n. Q (Some e) (at w (disk w) n)) \<Longrightarrow>
     wp (acquireStateLock t) Q w"
  unfolding acquireStateLock_def wp_bind
  by (intro wp_calls_seq) (auto simp del: flock_poll.simps intro!: wp_time_Now wp_flock_poll)

text \<open>
  \<open>AtomicWriteJSON\<close> (\<open>internal/store/atomic.go\<close>): every call before the rename leaves the record as
  it was, the rename replaces it, and the calls after the rename can only report an error on a
  record that has been replaced.
\<close>

definition AtomicWriteJSON :: "('d \<Rightarrow> 'd) \<Rightarrow> ('d world, err option) state" where
  "AtomicWriteJSON put = do {
     r \<leftarrow> calls [''create record directory: %w'', ''secure record directory: %w'', ''inspect record directory: %w'',
       ''record directory must be owner controlled: %w'', ''create temporary record: %w'',
       ''set temporary record permissions: %w'', ''secure temporary record: %w'', ''encode record: %w'',
       ''flush record: %w'', ''close record: %w'', ''replace record: %w''];
     or_return r Some (do {
       change_disk put;
       calls [''secure record: %w'', ''inspect record: %w'', ''record must be owner controlled: %w''] }) }"

lemma wp_AtomicWriteJSON [wp_calls]:
  "(\<And>e n. Q (Some e) (at w (disk w) n)) \<Longrightarrow> (\<And>r n. Q r (at w (put (disk w)) n)) \<Longrightarrow>
     wp (AtomicWriteJSON put) Q w"
  unfolding AtomicWriteJSON_def wp_bind
  by (intro wp_calls_seq) (auto simp del: calls.simps intro!: wp_calls_seq)

text \<open>\<open>filetrust.EnsureOwnerControlledDirectory\<close> on a directory that \<open>made\<close> adds when it is missing.\<close>

definition ensure_directory :: "('d \<Rightarrow> 'd) \<Rightarrow> ('d world, err option) state" where
  "ensure_directory made = do {
     r \<leftarrow> call;
     or_return r (\<lambda>e. Some (Wrap ''create %s: %w'' e)) (do {
       change_disk made;
       calls [''secure %s: %w'', ''inspect %s: %w'', ''%s must be owner controlled: %w''] }) }"

fun ensure_all :: "nat \<Rightarrow> ('d world, err option) state" where
  "ensure_all 0 = ret None"
| "ensure_all (Suc n) = do { r \<leftarrow> ensure_directory id; or_return r Some (ensure_all n) }"

text \<open>
  The create-once files of \<open>internal/pluginstate\<close> (\<open>writeRevocationCreateOnce\<close>,
  \<open>writeRecoveryCreateOnce\<close>), after \<open>os.OpenFile\<close> with \<open>O_EXCL\<close> has succeeded: the file is empty,
  then secured, written, flushed and closed; on an error the deferred function removes it, if
  the removal succeeds. \<open>blank\<close>, \<open>full\<close> and \<open>gone\<close> put the file in these states.
\<close>

definition remove_after :: "('d \<Rightarrow> 'd) \<Rightarrow> err \<Rightarrow> ('d world, err option) state" where
  "remove_after gone e = do {
     r \<leftarrow> call;
     (if r = None then change_disk gone else ret ());
     ret (Some e) }"

definition create_new_file ::
    "string list \<Rightarrow> string list \<Rightarrow> ('d \<Rightarrow> 'd) \<Rightarrow> ('d \<Rightarrow> 'd) \<Rightarrow> ('d \<Rightarrow> 'd) \<Rightarrow> ('d world, err option) state" where
  "create_new_file before after blank full gone = do {
     change_disk blank;
     r \<leftarrow> calls before;
     case r of
       Some e \<Rightarrow> remove_after gone e
     | None \<Rightarrow> do {
         change_disk full;
         r \<leftarrow> calls after;
         case r of Some e \<Rightarrow> remove_after gone e | None \<Rightarrow> ret None } }"

lemma wp_remove_after:
  "(\<And>n. Q (Some e) (at w (disk w) n)) \<Longrightarrow> (\<And>n. Q (Some e) (at w (gone (disk w)) n)) \<Longrightarrow> wp (remove_after gone e) Q w"
  unfolding remove_after_def wp_bind wp_if by (intro wp_call) simp

lemma wp_create_new_file:
  assumes "\<And>n. Q None (at w (full (blank (disk w))) n)"
    and "\<And>e n d. d \<in> {blank (disk w), full (blank (disk w)), gone (blank (disk w)), gone (full (blank (disk w)))} \<Longrightarrow>
       Q (Some e) (at w d n)"
  shows "wp (create_new_file before after blank full gone) Q w"
  unfolding create_new_file_def wp_bind wp_case_option
  using assms by (auto intro!: wp_calls_seq wp_remove_after)

text \<open>What the other processes may do: they keep a property of the disk.\<close>

definition stable :: "('d \<Rightarrow> bool) \<Rightarrow> 'd world \<Rightarrow> bool" where
  "stable P w \<longleftrightarrow> (\<forall>k d. P d \<longrightarrow> P (others w k d))"

lemma stable_at [simp]: "stable P (at w d n) = stable P w"
  by (simp add: stable_def)

text \<open>A disk the program may find: the one it knew, or that disk after the other processes.\<close>

definition may_see :: "'d world \<Rightarrow> 'd \<Rightarrow> bool" where
  "may_see w d \<longleftrightarrow> d = disk w \<or> (\<exists>k. d = others w k (disk w))"

lemma may_see_intros [simp, intro]: "may_see w (disk w)" "may_see w (others w k (disk w))"
  by (auto simp: may_see_def)

lemma may_see_stable: "may_see w d \<Longrightarrow> stable P w \<Longrightarrow> P (disk w) \<Longrightarrow> P d"
  by (auto simp: may_see_def stable_def)

lemma stable_evolves: "evolves w w' \<Longrightarrow> stable P w' = stable P w"
  by (simp add: stable_def evolves_def)

lemma stableD [intro]: "stable P w \<Longrightarrow> P d \<Longrightarrow> P (others w k d)"
  by (simp add: stable_def)

text \<open>A world where nothing fails and nobody interferes; its clock advances with every call.\<close>

definition quiet_world :: "'d \<Rightarrow> 'd world" where
  "quiet_world d = \<lparr>disk = d, tick = 0, io = (\<lambda>_. None), clock = (\<lambda>k. 20 + int k), others = (\<lambda>_ d. d)\<rparr>"

lemma quiet_world_simps [simp]: "stable P (quiet_world d)" "disk (quiet_world d) = d"
  by (simp_all add: stable_def quiet_world_def)

end
