(* ===== verification/Go_Files.thy ===== *)
theory Go_Files
  imports Go_World "HOL-Library.AList"
begin

text \<open>
  The files of a data directory as the readers of the program can tell them apart, and the trusted read
  of \<open>internal/filetrust/filetrust.go\<close>.
\<close>

subsection \<open>Files\<close>

datatype 'a body = Parsed 'a | Oversized | Undecodable | Trailing

datatype 'a node = Unreadable | Untrusted | File "'a body"

text \<open>
  \<open>OpenOwnerControlled\<close>: the file is inspected through its path, validated, opened, and compared
  with the inspected one. A missing file reports \<open>os.ErrNotExist\<close>.
\<close>

definition OpenOwnerControlled :: "'a node option \<Rightarrow> err + 'a body" where
  "OpenOwnerControlled f =
     (case f of
        None \<Rightarrow> Inl (Wrap ''inspect %s: %w'' ErrNotExist)
      | Some Unreadable \<Rightarrow> Inl (Wrap ''inspect %s: %w'' (Err ''input/output error''))
      | Some Untrusted \<Rightarrow> Inl (Err ''%s must be an owner-controlled regular file'')
      | Some (File b) \<Rightarrow> Inr b)"

text \<open>An entry of a directory that should hold only \<open>.json\<close> files.\<close>

datatype 'a dirent = Stray | Entry "'a node"

text \<open>\<open>os.ReadDir\<close> lists a directory in the order of the file names.\<close>

definition ReadDir :: "(string \<times> 'a) list \<Rightarrow> (string \<times> 'a) list" where
  "ReadDir al = sort_key fst al"

lemma set_ReadDir [simp]: "set (ReadDir al) = set al"
  by (simp add: ReadDir_def)

lemma OpenOwnerControlled_simps [simp]:
  "OpenOwnerControlled (Some (File b)) = Inr b"
  "OpenOwnerControlled None = Inl (Wrap ''inspect %s: %w'' ErrNotExist)"
  by (simp_all add: OpenOwnerControlled_def)

lemma OpenOwnerControlled_Inr [simp]: "OpenOwnerControlled f = Inr b \<longleftrightarrow> f = Some (File b)"
  by (simp add: OpenOwnerControlled_def split: option.splits node.splits)

lemma OpenOwnerControlled_NotExist [simp]:
  "OpenOwnerControlled f = Inl e \<Longrightarrow> errors_Is e ErrNotExist \<longleftrightarrow> f = None"
  by (auto simp: OpenOwnerControlled_def split: option.splits node.splits)

end
