(* ===== verification/Go_Encoding.thy ===== *)
theory Go_Encoding
  imports Go_Base
begin

text \<open>
  The encodings of the Go standard library that give the program's records their identities:
  SHA-256 (FIPS 180-4) with \<open>hex.EncodeToString\<close>, the text that \<open>json.Marshal\<close> produces,
  \<open>time.RFC3339\<close> and \<open>RFC3339Nano\<close>, base32, and the two functions of \<open>internal/identity\<close>.
\<close>

unbundle bit_operations_syntax

type_synonym u8 = "8 word"
type_synonym u32 = "32 word"
type_synonym u64 = "64 word"

subsection \<open>SHA-256\<close>

definition sha_k :: "u32 list" where
  "sha_k = [
    1116352408, 1899447441, 3049323471, 3921009573, 961987163, 1508970993, 2453635748, 2870763221,
    3624381080, 310598401, 607225278, 1426881987, 1925078388, 2162078206, 2614888103, 3248222580,
    3835390401, 4022224774, 264347078, 604807628, 770255983, 1249150122, 1555081692, 1996064986,
    2554220882, 2821834349, 2952996808, 3210313671, 3336571891, 3584528711, 113926993, 338241895,
    666307205, 773529912, 1294757372, 1396182291, 1695183700, 1986661051, 2177026350, 2456956037,
    2730485921, 2820302411, 3259730800, 3345764771, 3516065817, 3600352804, 4094571909, 275423344,
    430227734, 506948616, 659060556, 883997877, 958139571, 1322822218, 1537002063, 1747873779,
    1955562222, 2024104815, 2227730452, 2361852424, 2428436474, 2756734187, 3204031479, 3329325298]"

definition sha_h0 :: "u32 list" where
  "sha_h0 = [
    1779033703, 3144134277, 1013904242, 2773480762, 1359893119, 2600822924, 528734635, 1541459225]"

text \<open>The message schedule, newest word first.\<close>

fun sha_schedule :: "nat \<Rightarrow> u32 list \<Rightarrow> u32 list" where
  "sha_schedule 0 w = w"
| "sha_schedule (Suc n) w =
     (let t2 = w ! 1; t7 = w ! 6; t15 = w ! 14; t16 = w ! 15;
          s0 = word_rotr 7 t15 XOR word_rotr 18 t15 XOR drop_bit 3 t15;
          s1 = word_rotr 17 t2 XOR word_rotr 19 t2 XOR drop_bit 10 t2
      in sha_schedule n ((t16 + s0 + t7 + s1) # w))"

fun sha_round :: "u32 list \<Rightarrow> u32 \<times> u32 \<Rightarrow> u32 list" where
  "sha_round [a, b, c, d, e, f, g, h] (k, w) =
     (let s1 = word_rotr 6 e XOR word_rotr 11 e XOR word_rotr 25 e;
          ch = (e AND f) XOR (NOT e AND g);
          t1 = h + s1 + ch + k + w;
          s0 = word_rotr 2 a XOR word_rotr 13 a XOR word_rotr 22 a;
          maj = (a AND b) XOR (a AND c) XOR (b AND c)
      in [t1 + s0 + maj, a, b, c, d + t1, e, f, g])"
| "sha_round xs _ = xs"

fun chunks :: "nat \<Rightarrow> 'a list \<Rightarrow> 'a list list" where
  "chunks n [] = []"
| "chunks n (x # xs) = (x # take (n - 1) xs) # chunks n (drop (n - 1) xs)"

fun be32 :: "u8 list \<Rightarrow> u32" where
  "be32 [a, b, c, d] = push_bit 24 (ucast a) OR push_bit 16 (ucast b) OR push_bit 8 (ucast c) OR ucast d"
| "be32 _ = 0"

definition be_bytes32 :: "u32 \<Rightarrow> u8 list" where
  "be_bytes32 x = [ucast (drop_bit 24 x), ucast (drop_bit 16 x), ucast (drop_bit 8 x), ucast x]"

definition be_bytes64 :: "u64 \<Rightarrow> u8 list" where
  "be_bytes64 x = be_bytes32 (ucast (drop_bit 32 x)) @ be_bytes32 (ucast x)"

definition sha_compress :: "u32 list \<Rightarrow> u32 list \<Rightarrow> u32 list" where
  "sha_compress h w = map2 (+) h (foldl sha_round h (zip sha_k (rev (sha_schedule 48 (rev w)))))"

definition sha_pad :: "u8 list \<Rightarrow> u8 list" where
  "sha_pad bs =
     bs @ [128] @ replicate ((119 - length bs mod 64) mod 64) 0 @ be_bytes64 (of_nat (8 * length bs))"

definition sha256_Sum256 :: "u8 list \<Rightarrow> u8 list" where
  "sha256_Sum256 bs =
     concat (map be_bytes32
       (foldl sha_compress sha_h0 (map (map be32 \<circ> chunks 4) (chunks 64 (sha_pad bs)))))"

definition nibble :: "u8 \<Rightarrow> char" where
  "nibble n = ''0123456789abcdef'' ! unat (n AND 15)"

definition hex_EncodeToString :: "u8 list \<Rightarrow> string" where
  "hex_EncodeToString bs = concat (map (\<lambda>b. [nibble (drop_bit 4 b), nibble b]) bs)"

definition bytes_of :: "string \<Rightarrow> u8 list" where
  "bytes_of s = map of_char s"

text \<open>\<open>identity.SHA256\<close>.\<close>

definition SHA256 :: "string \<Rightarrow> string" where
  "SHA256 s = hex_EncodeToString (sha256_Sum256 (bytes_of s))"

subsection \<open>The shape of a digest\<close>

definition hex_char :: "char \<Rightarrow> bool" where
  "hex_char c \<longleftrightarrow> is_digit c \<or> char_between 97 102 c"

lemma nibble_hex: "hex_char (nibble n)"
proof -
  have "unat (n AND 15) \<le> unat (15 :: u8)"
    by (rule word_and_le1 [THEN word_le_nat_alt [THEN iffD1]])
  then have "unat (n AND 15) \<in> set [0..<16]" by simp
  then show ?thesis
    by (auto simp: nibble_def hex_char_def is_digit_def char_between_def char_code_def upt_rec)
qed

lemma length_sha_round [simp]: "length (sha_round h kw) = length h"
  by (cases "(h, kw)" rule: sha_round.cases) (simp_all add: Let_def)

lemma length_foldl_round: "length (foldl sha_round h ws) = length h"
  by (induction ws arbitrary: h) simp_all

lemma length_foldl_compress: "length (foldl sha_compress h ws) = length h"
  by (induction ws arbitrary: h) (simp_all add: sha_compress_def length_foldl_round)

lemma length_Sum256: "length (sha256_Sum256 bs) = 32"
proof -
  have "length (concat (map be_bytes32 ws)) = 4 * length ws" for ws
    by (induction ws) (simp_all add: be_bytes32_def)
  then show ?thesis
    by (simp add: sha256_Sum256_def length_foldl_compress sha_h0_def)
qed

lemma hex_props:
  "length (hex_EncodeToString bs) = 2 * length bs \<and> list_all hex_char (hex_EncodeToString bs)"
  by (induction bs) (simp_all add: hex_EncodeToString_def nibble_hex)

lemma SHA256_length [simp]: "length (SHA256 s) = 64"
  by (simp add: SHA256_def hex_props length_Sum256)

lemma SHA256_hex: "list_all hex_char (SHA256 s)"
  by (simp add: SHA256_def hex_props)

lemma SHA256_ne [simp]: "SHA256 s \<noteq> []"
  using SHA256_length [of s] by fastforce

subsection \<open>Decimal numbers and RFC 3339\<close>

definition digit_char :: "nat \<Rightarrow> char" where
  "digit_char n = char_of (48 + n mod 10)"

fun nat_str :: "nat \<Rightarrow> string" where
  "nat_str n = (if n < 10 then [digit_char n] else nat_str (n div 10) @ [digit_char (n mod 10)])"

declare nat_str.simps [simp del]

definition int_str :: "int \<Rightarrow> string" where
  "int_str i = (if i < 0 then CHR ''-'' # nat_str (nat (- i)) else nat_str (nat i))"

fun fixed_str :: "nat \<Rightarrow> nat \<Rightarrow> string" where
  "fixed_str 0 n = []"
| "fixed_str (Suc k) n = fixed_str k (n div 10) @ [digit_char n]"

text \<open>
  The civil date of a day number, counted from 1 January of year 1 (306 days after 1 March of
  year 0, where the 400-year cycles start).
\<close>

definition civil :: "int \<Rightarrow> int \<times> int \<times> int" where
  "civil days =
     (let z = days + 306; era = z div 146097; doe = z mod 146097;
          yoe = (doe - doe div 1460 + doe div 36524 - doe div 146096) div 365;
          doy = doe - (365 * yoe + yoe div 4 - yoe div 100);
          mp = (5 * doy + 2) div 153;
          d = doy - (153 * mp + 2) div 5 + 1;
          m = (if mp < 10 then mp + 3 else mp - 9);
          y = yoe + era * 400 + (if m \<le> 2 then 1 else 0)
      in (y, m, d))"

definition rfc3339_seconds :: "time \<Rightarrow> string" where
  "rfc3339_seconds t =
     (let (y, m, d) = civil (t div (24 * Hour)); r = t mod (24 * Hour)
      in fixed_str 4 (nat y) @ ''-'' @ fixed_str 2 (nat m) @ ''-'' @ fixed_str 2 (nat d) @ ''T'' @
         fixed_str 2 (nat (r div Hour)) @ '':'' @ fixed_str 2 (nat (r mod Hour div Minute)) @ '':'' @
         fixed_str 2 (nat (r mod Minute div Second)))"

definition rfc3339_frac :: "time \<Rightarrow> string" where
  "rfc3339_frac t =
     (let ds = rev (dropWhile (\<lambda>c. c = CHR ''0'') (rev (fixed_str 9 (nat (t mod Second)))))
      in if ds = [] then [] else ''.'' @ ds)"

definition Format_RFC3339 :: "time \<Rightarrow> string" where
  "Format_RFC3339 t = rfc3339_seconds t @ ''Z''"

definition Format_RFC3339Nano :: "time \<Rightarrow> string" where
  "Format_RFC3339Nano t = rfc3339_seconds t @ rfc3339_frac t @ ''Z''"

text \<open>\<open>MarshalJSON\<close> of a time refuses years outside four digits.\<close>

definition time_marshals :: "time \<Rightarrow> bool" where
  "time_marshals t \<longleftrightarrow> (let (y, m, d) = civil (t div (24 * Hour)) in 0 \<le> y \<and> y \<le> 9999)"

subsection \<open>JSON\<close>

datatype json =
    JStr string
  | JInt int
  | JBool bool
  | JTime time
  | JNull
  | JArr "json list"
  | JObj "(string \<times> json) list"

abbreviation backslash :: char where "backslash \<equiv> CHR 0x5C"
abbreviation dquote :: char where "dquote \<equiv> CHR 0x22"

text \<open>One ASCII byte of a JSON string, with \<open>EscapeHTML\<close> on, as in \<open>json.Marshal\<close>.\<close>

definition json_ascii :: "char \<Rightarrow> string" where
  "json_ascii c =
     (let n = char_code c in
      if c = backslash \<or> c = dquote then [backslash, c]
      else if n = 8 then [backslash, CHR ''b'']
      else if n = 12 then [backslash, CHR ''f'']
      else if n = 10 then [backslash, CHR ''n'']
      else if n = 13 then [backslash, CHR ''r'']
      else if n = 9 then [backslash, CHR ''t'']
      else if n < 32 \<or> n = 60 \<or> n = 62 \<or> n = 38 then
        [backslash] @ ''u00'' @ [nibble (drop_bit 4 (of_nat n)), nibble (of_nat n)]
      else [c])"

fun json_escape :: "string \<Rightarrow> string" where
  "json_escape [] = []"
| "json_escape (c # cs) =
     (let n = rune_size (string_codes (c # cs)) in
      if n = 0 then [backslash] @ ''ufffd'' @ json_escape cs
      else if n = 1 then json_ascii c @ json_escape cs
      else (let r = take n (c # cs) in
            (if string_codes r = [0xE2, 0x80, 0xA8] then [backslash] @ ''u2028''
             else if string_codes r = [0xE2, 0x80, 0xA9] then [backslash] @ ''u2029''
             else r) @ json_escape (drop (n - 1) cs)))"

definition json_string :: "string \<Rightarrow> string" where
  "json_string s = [dquote] @ json_escape s @ [dquote]"

fun json_render :: "json \<Rightarrow> string"
  and json_items :: "json list \<Rightarrow> string"
  and json_fields :: "(string \<times> json) list \<Rightarrow> string" where
  "json_render (JStr s) = json_string s"
| "json_render (JInt i) = int_str i"
| "json_render (JBool b) = (if b then ''true'' else ''false'')"
| "json_render (JTime t) = [dquote] @ Format_RFC3339Nano t @ [dquote]"
| "json_render JNull = ''null''"
| "json_render (JArr js) = ''['' @ json_items js @ '']''"
| "json_render (JObj fs) = ''{'' @ json_fields fs @ ''}''"
| "json_items [] = []"
| "json_items [j] = json_render j"
| "json_items (j # k # js) = json_render j @ '','' @ json_items (k # js)"
| "json_fields [] = []"
| "json_fields [(n, j)] = json_string n @ '':'' @ json_render j"
| "json_fields ((n, j) # f # fs) = json_string n @ '':'' @ json_render j @ '','' @ json_fields (f # fs)"

fun json_ok :: "json \<Rightarrow> bool"
  and json_items_ok :: "json list \<Rightarrow> bool"
  and json_fields_ok :: "(string \<times> json) list \<Rightarrow> bool" where
  "json_ok (JTime t) = time_marshals t"
| "json_ok (JArr js) = json_items_ok js"
| "json_ok (JObj fs) = json_fields_ok fs"
| "json_ok _ = True"
| "json_items_ok [] = True"
| "json_items_ok (j # js) = (json_ok j \<and> json_items_ok js)"
| "json_fields_ok [] = True"
| "json_fields_ok ((n, j) # fs) = (json_ok j \<and> json_fields_ok fs)"

text \<open>\<open>json.Marshal\<close>: the text, or nothing when a value refuses to marshal.\<close>

definition json_Marshal :: "json \<Rightarrow> string option" where
  "json_Marshal j = (if json_ok j then Some (json_render j) else None)"

text \<open>A field tagged \<open>omitempty\<close>.\<close>

definition omitempty :: "bool \<Rightarrow> string \<Rightarrow> json \<Rightarrow> (string \<times> json) list" where
  "omitempty skip n j = (if skip then [] else [(n, j)])"

subsection \<open>Job identities\<close>

definition bits_of_byte :: "u8 \<Rightarrow> bool list" where
  "bits_of_byte b = map (bit b) [7, 6, 5, 4, 3, 2, 1, 0]"

definition base32_char :: "bool list \<Rightarrow> char" where
  "base32_char bs =
     ''ABCDEFGHIJKLMNOPQRSTUVWXYZ234567'' ! (foldl (\<lambda>n b. 2 * n + of_bool b) 0 (take 5 (bs @ replicate 4 False)) mod 32)"

text \<open>\<open>base32.StdEncoding.WithPadding(NoPadding).EncodeToString\<close>.\<close>

definition base32_EncodeToString :: "u8 list \<Rightarrow> string" where
  "base32_EncodeToString bs = map base32_char (chunks 5 (concat (map bits_of_byte bs)))"

record JobIdentity =
  ji_JobID :: string
  ji_NonceHash :: string

text \<open>
  \<open>identity.New\<close>: the two reads of \<open>crypto/rand\<close> are arguments, \<open>None\<close> when the read fails.
\<close>

definition identity_New :: "u8 list option \<Rightarrow> u8 list option \<Rightarrow> err + JobIdentity" where
  "identity_New jobBytes nonce =
     (case jobBytes of None \<Rightarrow> Inl (Err ''generate job id: %w'')
      | Some jb \<Rightarrow>
          (case nonce of None \<Rightarrow> Inl (Err ''generate job nonce: %w'')
           | Some n \<Rightarrow> Inr \<lparr>ji_JobID = ''dt_'' @ base32_EncodeToString jb,
                           ji_NonceHash = ''sha256:'' @ hex_EncodeToString (sha256_Sum256 n)\<rparr>))"

end
