(* ===== verification/Actions.thy ===== *)
theory Actions
  imports Go_Encoding
begin

text \<open>
  \<open>internal/actions/backend.go\<close> and \<open>comment.go\<close>: the power request, the capability report, the
  sealed receipt and their validators, the intent receipt that is built before an external
  scheduler is called, and the fixed comments. The lemmas show that sealing makes the
  checksum check pass, that an intent receipt is valid but is never taken for a scheduler
  receipt, and that the identities \<open>identity.New\<close> produces are valid job ids.
\<close>

subsection \<open>Data\<close>

abbreviation ReceiptSchemaVersion :: string where "ReceiptSchemaVersion \<equiv> ''2''"
abbreviation legacyReceiptSchemaVersion :: string where "legacyReceiptSchemaVersion \<equiv> ''1''"

datatype CancelScope = CancelScopeJob | CancelScopeSystemGlobal | CancelScopeOther string

fun scope_string :: "CancelScope \<Rightarrow> string" where
  "scope_string CancelScopeJob = ''job''"
| "scope_string CancelScopeSystemGlobal = ''system-global''"
| "scope_string (CancelScopeOther s) = s"

record Capabilities =
  cap_Platform :: string
  cap_BackendID :: string
  cap_ExecuteSupported :: bool
  cap_CancelScope :: CancelScope
  cap_MinimumDelay :: duration
  cap_MaximumDelay :: duration
  cap_ReconcileSupported :: bool
  cap_Reason :: string

record PowerRequest =
  req_JobID :: string
  req_Action :: string
  req_Delay :: duration
  req_Comment :: string
  req_RequestedAt :: time

record Receipt =
  rcp_SchemaVersion :: string
  rcp_Platform :: string
  rcp_BackendID :: string
  rcp_BackendVersion :: string
  rcp_JobID :: string
  rcp_Action :: string
  rcp_RequestedAt :: time
  rcp_ScheduledAt :: time
  rcp_Deadline :: time
  rcp_ExternalToken :: string
  rcp_CancelScope :: CancelScope
  rcp_BootID :: string
  rcp_ResultCode :: int
  rcp_ResultSummary :: string
  rcp_Checksum :: string

record CancelResult =
  cr_Cancelled :: bool
  cr_NoActionInProgress :: bool
  cr_Scope :: CancelScope
  cr_ResultCode :: int
  cr_ResultSummary :: string

datatype ReconcileState = ReconcileScheduled | ReconcileUnverified | ReconcileConfirmed | ReconcileOther string

fun reconcile_string :: "ReconcileState \<Rightarrow> string" where
  "reconcile_string ReconcileScheduled = ''scheduled''"
| "reconcile_string ReconcileUnverified = ''execution_unverified''"
| "reconcile_string ReconcileConfirmed = ''executed_confirmed''"
| "reconcile_string (ReconcileOther s) = s"

record ReconcileResult =
  rr_State :: ReconcileState
  rr_CheckedAt :: time
  rr_CurrentBootID :: string
  rr_Evidence :: string

text \<open>Go's zero values.\<close>

definition zero_Capabilities :: Capabilities where
  "zero_Capabilities = \<lparr>cap_Platform = [], cap_BackendID = [], cap_ExecuteSupported = False,
     cap_CancelScope = CancelScopeOther [], cap_MinimumDelay = 0, cap_MaximumDelay = 0,
     cap_ReconcileSupported = False, cap_Reason = []\<rparr>"

definition zero_Receipt :: Receipt where
  "zero_Receipt = \<lparr>rcp_SchemaVersion = [], rcp_Platform = [], rcp_BackendID = [], rcp_BackendVersion = [],
     rcp_JobID = [], rcp_Action = [], rcp_RequestedAt = 0, rcp_ScheduledAt = 0, rcp_Deadline = 0,
     rcp_ExternalToken = [], rcp_CancelScope = CancelScopeOther [], rcp_BootID = [],
     rcp_ResultCode = 0, rcp_ResultSummary = [], rcp_Checksum = []\<rparr>"

definition zero_CancelResult :: CancelResult where
  "zero_CancelResult = \<lparr>cr_Cancelled = False, cr_NoActionInProgress = False, cr_Scope = CancelScopeOther [],
     cr_ResultCode = 0, cr_ResultSummary = []\<rparr>"

definition zero_ReconcileResult :: ReconcileResult where
  "zero_ReconcileResult = \<lparr>rr_State = ReconcileOther [], rr_CheckedAt = 0, rr_CurrentBootID = [], rr_Evidence = []\<rparr>"

subsection \<open>Identities and comments\<close>

definition job_id_char :: "char \<Rightarrow> bool" where
  "job_id_char c \<longleftrightarrow> is_lower c \<or> is_upper c \<or> is_digit c \<or> c = CHR ''_'' \<or> c = CHR ''-''"

definition ValidateJobID :: "string \<Rightarrow> err option" where
  "ValidateJobID jobID =
     (if \<not> HasPrefix jobID ''dt_'' \<or> length jobID < 6 \<or> length jobID > 80 then Some (Err ''invalid job id %q'')
      else first_err (\<lambda>c. if job_id_char c then None else Some (Err ''invalid job id %q'')) jobID)"

definition SystemdUnitToken :: "string \<Rightarrow> string" where
  "SystemdUnitToken jobID =
     (if ValidateJobID jobID \<noteq> None then []
      else ''donethen-shutdown-'' @ hex_EncodeToString (take 12 (sha256_Sum256 (bytes_of jobID))))"

definition powerCommentJobID :: "string \<Rightarrow> string" where
  "powerCommentJobID jobID = (if length jobID \<le> 20 then jobID else take 20 jobID)"

definition ClassicPowerComment :: "string \<Rightarrow> string" where
  "ClassicPowerComment jobID = ''DoneThen job '' @ powerCommentJobID jobID @ '' completed''"

definition PluginPowerComment :: "string \<Rightarrow> string" where
  "PluginPowerComment jobID = ''DoneThen plugin job '' @ powerCommentJobID jobID @ '' completed''"

definition AfterStopPowerComment :: "string \<Rightarrow> string" where
  "AfterStopPowerComment jobID = ''DoneThen job '' @ powerCommentJobID jobID @ '': Codex stopped''"

definition IsFixedPowerComment :: "string \<Rightarrow> string \<Rightarrow> bool" where
  "IsFixedPowerComment jobID comment \<longleftrightarrow>
     comment = ClassicPowerComment jobID \<or> comment = PluginPowerComment jobID \<or>
     comment = AfterStopPowerComment jobID"

subsection \<open>Validators\<close>

definition ValidateRequest :: "PowerRequest \<Rightarrow> duration \<Rightarrow> duration \<Rightarrow> err option" where
  "ValidateRequest request minimum maximum =
     (case ValidateJobID (req_JobID request) of Some e \<Rightarrow> Some e | None \<Rightarrow>
      if req_Action request \<noteq> ''shutdown'' then Some (Err ''unsupported power action %q'')
      else if req_Delay request < minimum \<or> req_Delay request > maximum \<or> req_Delay request mod Second \<noteq> 0 then
        Some (Err ''shutdown delay must be between %s and %s in whole seconds'')
      else if IsZero (req_RequestedAt request) then Some (Err ''power request timestamp is required'')
      else if TrimSpace (req_Comment request) = [] \<or> length (req_Comment request) > 256 then
        Some (Err ''power request comment must contain 1 to 256 bytes'')
      else None)"

definition receipt_json :: "Receipt \<Rightarrow> json" where
  "receipt_json r = JObj
     ([(''schema_version'', JStr (rcp_SchemaVersion r)), (''platform'', JStr (rcp_Platform r)),
       (''backend_id'', JStr (rcp_BackendID r)), (''backend_version'', JStr (rcp_BackendVersion r)),
       (''job_id'', JStr (rcp_JobID r)), (''action'', JStr (rcp_Action r)),
       (''requested_at'', JTime (rcp_RequestedAt r)), (''scheduled_at'', JTime (rcp_ScheduledAt r)),
       (''deadline'', JTime (rcp_Deadline r))]
      @ omitempty (rcp_ExternalToken r = []) ''external_token'' (JStr (rcp_ExternalToken r))
      @ [(''cancel_scope'', JStr (scope_string (rcp_CancelScope r)))]
      @ omitempty (rcp_BootID r = []) ''boot_id'' (JStr (rcp_BootID r))
      @ [(''result_code'', JInt (rcp_ResultCode r))]
      @ omitempty (rcp_ResultSummary r = []) ''result_summary'' (JStr (rcp_ResultSummary r))
      @ omitempty (rcp_Checksum r = []) ''checksum'' (JStr (rcp_Checksum r)))"

text \<open>The error of \<open>json.Marshal\<close> is discarded: the payload is then empty.\<close>

definition receiptChecksum :: "Receipt \<Rightarrow> string" where
  "receiptChecksum receipt =
     (let payload = (case json_Marshal (receipt_json (receipt\<lparr>rcp_Checksum := []\<rparr>)) of None \<Rightarrow> [] | Some p \<Rightarrow> p)
      in ''sha256:'' @ SHA256 payload)"

definition ValidateReceipt :: "Receipt \<Rightarrow> err option" where
  "ValidateReceipt receipt =
     (if rcp_SchemaVersion receipt \<noteq> ReceiptSchemaVersion \<and> rcp_SchemaVersion receipt \<noteq> legacyReceiptSchemaVersion then
        Some (Err ''unsupported power receipt schema %q'')
      else case ValidateJobID (rcp_JobID receipt) of Some e \<Rightarrow> Some e | None \<Rightarrow>
      if rcp_Platform receipt = [] \<or> rcp_BackendID receipt = [] \<or> rcp_BackendVersion receipt = [] then
        Some (Err ''power receipt backend identity is required'')
      else if rcp_Action receipt \<noteq> ''shutdown'' then Some (Err ''unsupported receipt action %q'')
      else if IsZero (rcp_RequestedAt receipt) \<or> IsZero (rcp_ScheduledAt receipt) \<or> IsZero (rcp_Deadline receipt) then
        Some (Err ''power receipt timestamps are required'')
      else if rcp_Deadline receipt < rcp_ScheduledAt receipt then
        Some (Err ''power receipt deadline precedes scheduling'')
      else if rcp_CancelScope receipt \<noteq> CancelScopeJob \<and> rcp_CancelScope receipt \<noteq> CancelScopeSystemGlobal then
        Some (Err ''invalid cancellation scope %q'')
      else if rcp_SchemaVersion receipt = ReceiptSchemaVersion \<and>
              (rcp_Checksum receipt = [] \<or> rcp_Checksum receipt \<noteq> receiptChecksum receipt) then
        Some (Err ''power receipt checksum is missing or invalid'')
      else None)"

text \<open>\<open>Time.Sub\<close> saturates at the range of a 64-bit duration.\<close>

definition time_Sub :: "time \<Rightarrow> time \<Rightarrow> duration" where
  "time_Sub a b = max (- (2 ^ 63)) (min (2 ^ 63 - 1) (a - b))"

definition ValidateReceiptForRequest :: "Receipt \<Rightarrow> PowerRequest \<Rightarrow> Capabilities \<Rightarrow> err option" where
  "ValidateReceiptForRequest receipt request capabilities =
     (case ValidateReceipt receipt of Some e \<Rightarrow> Some e | None \<Rightarrow>
      case ValidateRequest request (cap_MinimumDelay capabilities) (cap_MaximumDelay capabilities) of
        Some e \<Rightarrow> Some e | None \<Rightarrow>
      if rcp_JobID receipt \<noteq> req_JobID request \<or> rcp_Action receipt \<noteq> req_Action request \<or>
         rcp_Platform receipt \<noteq> cap_Platform capabilities \<or> rcp_BackendID receipt \<noteq> cap_BackendID capabilities \<or>
         rcp_CancelScope receipt \<noteq> cap_CancelScope capabilities then
        Some (Err ''power receipt does not match the request or preflight capabilities'')
      else if rcp_RequestedAt receipt \<noteq> req_RequestedAt request then
        Some (Err ''power receipt request timestamp changed'')
      else if time_Sub (rcp_Deadline receipt) (rcp_ScheduledAt receipt) \<noteq> req_Delay request then
        Some (Err ''power receipt deadline does not match the requested delay'')
      else if rcp_ResultCode receipt \<noteq> 0 then
        Some (Err ''power receipt does not record a successful scheduler result'')
      else if rcp_CancelScope receipt = CancelScopeJob \<and> TrimSpace (rcp_ExternalToken receipt) = [] then
        Some (Err ''job-scoped power receipt is missing its cancellation token'')
      else None)"

definition SealReceipt :: "Receipt \<Rightarrow> Receipt" where
  "SealReceipt receipt =
     (let r = receipt\<lparr>rcp_SchemaVersion := ReceiptSchemaVersion, rcp_Checksum := []\<rparr>
      in r\<lparr>rcp_Checksum := receiptChecksum r\<rparr>)"

definition BuildIntentReceipt ::
    "string \<Rightarrow> string \<Rightarrow> time \<Rightarrow> duration \<Rightarrow> Capabilities \<Rightarrow> err + Receipt" where
  "BuildIntentReceipt jobID action requestedAt delay capabilities =
     (case ValidateJobID jobID of Some e \<Rightarrow> Inl e | None \<Rightarrow>
      if action \<noteq> ''shutdown'' then Inl (Err ''unsupported intent action %q'')
      else if IsZero requestedAt \<or> delay \<le> 0 \<or> delay mod Second \<noteq> 0 then
        Inl (Err ''intent timestamp and whole-second delay are required'')
      else if cap_Platform capabilities = [] \<or> cap_BackendID capabilities = [] then
        Inl (Err ''intent backend identity is required'')
      else if cap_CancelScope capabilities \<noteq> CancelScopeJob \<and> cap_CancelScope capabilities \<noteq> CancelScopeSystemGlobal then
        Inl (Err ''intent cancellation scope is invalid'')
      else if cap_MinimumDelay capabilities > 0 \<and> delay < cap_MinimumDelay capabilities then
        Inl (Err ''intent delay is below the backend minimum'')
      else if cap_MaximumDelay capabilities > 0 \<and> delay > cap_MaximumDelay capabilities then
        Inl (Err ''intent delay exceeds the backend maximum'')
      else
        let externalToken =
              (if cap_Platform capabilities = ''linux-systemd'' \<and> cap_BackendID capabilities = ''linux-systemd-helper''
               then SystemdUnitToken jobID else [])
        in Inr (SealReceipt (zero_Receipt\<lparr>
             rcp_Platform := cap_Platform capabilities,
             rcp_BackendID := cap_BackendID capabilities,
             rcp_BackendVersion := ''intent-recovery-v1'',
             rcp_JobID := jobID,
             rcp_Action := action,
             rcp_RequestedAt := requestedAt,
             rcp_ScheduledAt := requestedAt,
             rcp_Deadline := requestedAt + delay,
             rcp_ExternalToken := externalToken,
             rcp_CancelScope := cap_CancelScope capabilities,
             rcp_ResultCode := -1,
             rcp_ResultSummary := ''action intent persisted before external scheduling''\<rparr>)))"

subsection \<open>What the validators accept\<close>

lemma ValidateJobID_None:
  "ValidateJobID j = None \<longleftrightarrow>
     HasPrefix j ''dt_'' \<and> 6 \<le> length j \<and> length j \<le> 80 \<and> list_all job_id_char j"
  by (auto simp: ValidateJobID_def list_all_iff)

lemma ValidateJobID_ne: "ValidateJobID j = None \<Longrightarrow> j \<noteq> []"
  by (auto simp: ValidateJobID_None)

lemma ValidateReceipt_None:
  "ValidateReceipt r = None \<longleftrightarrow>
     (rcp_SchemaVersion r = ReceiptSchemaVersion \<or> rcp_SchemaVersion r = legacyReceiptSchemaVersion) \<and>
     ValidateJobID (rcp_JobID r) = None \<and>
     rcp_Platform r \<noteq> [] \<and> rcp_BackendID r \<noteq> [] \<and> rcp_BackendVersion r \<noteq> [] \<and>
     rcp_Action r = ''shutdown'' \<and>
     rcp_RequestedAt r \<noteq> 0 \<and> rcp_ScheduledAt r \<noteq> 0 \<and> rcp_Deadline r \<noteq> 0 \<and>
     rcp_ScheduledAt r \<le> rcp_Deadline r \<and>
     (rcp_CancelScope r = CancelScopeJob \<or> rcp_CancelScope r = CancelScopeSystemGlobal) \<and>
     (rcp_SchemaVersion r = ReceiptSchemaVersion \<longrightarrow>
        rcp_Checksum r \<noteq> [] \<and> rcp_Checksum r = receiptChecksum r)"
  by (cases "ValidateJobID (rcp_JobID r)") (auto simp: ValidateReceipt_def IsZero_def not_less)

lemma ValidateRequest_None:
  "ValidateRequest q lo hi = None \<longleftrightarrow>
     ValidateJobID (req_JobID q) = None \<and> req_Action q = ''shutdown'' \<and>
     lo \<le> req_Delay q \<and> req_Delay q \<le> hi \<and> req_Delay q mod Second = 0 \<and>
     req_RequestedAt q \<noteq> 0 \<and> TrimSpace (req_Comment q) \<noteq> [] \<and> length (req_Comment q) \<le> 256"
  by (cases "ValidateJobID (req_JobID q)") (auto simp: ValidateRequest_def IsZero_def not_less)

lemma ValidateReceiptForRequest_None:
  "ValidateReceiptForRequest r q c = None \<longleftrightarrow>
     ValidateReceipt r = None \<and> ValidateRequest q (cap_MinimumDelay c) (cap_MaximumDelay c) = None \<and>
     rcp_JobID r = req_JobID q \<and> rcp_Action r = req_Action q \<and> rcp_Platform r = cap_Platform c \<and>
     rcp_BackendID r = cap_BackendID c \<and> rcp_CancelScope r = cap_CancelScope c \<and>
     rcp_RequestedAt r = req_RequestedAt q \<and>
     time_Sub (rcp_Deadline r) (rcp_ScheduledAt r) = req_Delay q \<and> rcp_ResultCode r = 0 \<and>
     (rcp_CancelScope r = CancelScopeJob \<longrightarrow> TrimSpace (rcp_ExternalToken r) \<noteq> [])"
  by (cases "ValidateReceipt r"; cases "ValidateRequest q (cap_MinimumDelay c) (cap_MaximumDelay c)")
     (auto simp: ValidateReceiptForRequest_def)

subsection \<open>Sealing and intent receipts\<close>

lemma receiptChecksum_ne [simp]: "receiptChecksum r \<noteq> []"
  by (simp add: receiptChecksum_def)

lemma receiptChecksum_upd [simp]: "receiptChecksum (r\<lparr>rcp_Checksum := c\<rparr>) = receiptChecksum r"
  by (simp add: receiptChecksum_def)

lemma SealReceipt_fields [simp]:
  "rcp_SchemaVersion (SealReceipt r) = ReceiptSchemaVersion"
  "rcp_Platform (SealReceipt r) = rcp_Platform r"
  "rcp_BackendID (SealReceipt r) = rcp_BackendID r"
  "rcp_BackendVersion (SealReceipt r) = rcp_BackendVersion r"
  "rcp_JobID (SealReceipt r) = rcp_JobID r"
  "rcp_Action (SealReceipt r) = rcp_Action r"
  "rcp_RequestedAt (SealReceipt r) = rcp_RequestedAt r"
  "rcp_ScheduledAt (SealReceipt r) = rcp_ScheduledAt r"
  "rcp_Deadline (SealReceipt r) = rcp_Deadline r"
  "rcp_ExternalToken (SealReceipt r) = rcp_ExternalToken r"
  "rcp_CancelScope (SealReceipt r) = rcp_CancelScope r"
  "rcp_BootID (SealReceipt r) = rcp_BootID r"
  "rcp_ResultCode (SealReceipt r) = rcp_ResultCode r"
  "rcp_ResultSummary (SealReceipt r) = rcp_ResultSummary r"
  by (simp_all add: SealReceipt_def Let_def)

lemma SealReceipt_checksum [simp]: "receiptChecksum (SealReceipt r) = rcp_Checksum (SealReceipt r)"
  by (simp add: SealReceipt_def Let_def)

lemma SealReceipt_checksum_ne [simp]: "rcp_Checksum (SealReceipt r) \<noteq> []"
  by (simp add: SealReceipt_def Let_def)

text \<open>A sealed receipt is valid as soon as its plain fields are.\<close>

lemma ValidateReceipt_Seal:
  "ValidateReceipt (SealReceipt r) = None \<longleftrightarrow>
     ValidateJobID (rcp_JobID r) = None \<and>
     rcp_Platform r \<noteq> [] \<and> rcp_BackendID r \<noteq> [] \<and> rcp_BackendVersion r \<noteq> [] \<and>
     rcp_Action r = ''shutdown'' \<and>
     rcp_RequestedAt r \<noteq> 0 \<and> rcp_ScheduledAt r \<noteq> 0 \<and> rcp_Deadline r \<noteq> 0 \<and>
     rcp_ScheduledAt r \<le> rcp_Deadline r \<and>
     (rcp_CancelScope r = CancelScopeJob \<or> rcp_CancelScope r = CancelScopeSystemGlobal)"
  by (simp add: ValidateReceipt_None)

text \<open>Sealing is idempotent: the checksum never covers itself.\<close>

lemma SealReceipt_idem: "SealReceipt (SealReceipt r) = SealReceipt r"
  by (simp add: SealReceipt_def Let_def)

text \<open>
  The receipt that is built before the scheduler is called: valid whenever its deadline is not
  the zero time, and with the fields the recovery records rely on.
\<close>

definition intent_receipt_body :: "string \<Rightarrow> string \<Rightarrow> time \<Rightarrow> duration \<Rightarrow> Capabilities \<Rightarrow> Receipt" where
  "intent_receipt_body j a t d c =
     \<lparr>rcp_SchemaVersion = [], rcp_Platform = cap_Platform c, rcp_BackendID = cap_BackendID c,
      rcp_BackendVersion = ''intent-recovery-v1'', rcp_JobID = j, rcp_Action = a,
      rcp_RequestedAt = t, rcp_ScheduledAt = t, rcp_Deadline = t + d,
      rcp_ExternalToken = (if cap_Platform c = ''linux-systemd'' \<and> cap_BackendID c = ''linux-systemd-helper''
                           then SystemdUnitToken j else []),
      rcp_CancelScope = cap_CancelScope c, rcp_BootID = [], rcp_ResultCode = -1,
      rcp_ResultSummary = ''action intent persisted before external scheduling'', rcp_Checksum = []\<rparr>"

lemma BuildIntentReceipt_eq:
  "BuildIntentReceipt j a t d c = Inr r \<longleftrightarrow>
     ValidateJobID j = None \<and> a = ''shutdown'' \<and> t \<noteq> 0 \<and> 0 < d \<and> d mod Second = 0 \<and>
     cap_Platform c \<noteq> [] \<and> cap_BackendID c \<noteq> [] \<and>
     (cap_CancelScope c = CancelScopeJob \<or> cap_CancelScope c = CancelScopeSystemGlobal) \<and>
     (0 < cap_MinimumDelay c \<longrightarrow> cap_MinimumDelay c \<le> d) \<and>
     (0 < cap_MaximumDelay c \<longrightarrow> d \<le> cap_MaximumDelay c) \<and>
     SealReceipt (intent_receipt_body j a t d c) = r"
proof (cases "ValidateJobID j")
  case None
  then show ?thesis
    unfolding BuildIntentReceipt_def Let_def IsZero_def zero_Receipt_def intent_receipt_body_def
    by (simp only: guard_Inr option.case Receipt.update_convs sum.inject de_Morgan_disj de_Morgan_conj
          not_less not_le not_not simp_thms imp_conv_disj conj_assoc)
next
  case (Some e)
  then show ?thesis by (simp add: BuildIntentReceipt_def)
qed

lemma BuildIntentReceipt_Inr:
  assumes "BuildIntentReceipt j a t d c = Inr r"
  shows "rcp_JobID r = j" "rcp_Action r = a" "a = ''shutdown''" "rcp_RequestedAt r = t" "t \<noteq> 0"
    "rcp_ScheduledAt r = t" "rcp_Deadline r = t + d" "0 < d" "rcp_BackendVersion r = ''intent-recovery-v1''"
    "rcp_ResultCode r = -1" "rcp_CancelScope r = cap_CancelScope c" "rcp_Platform r = cap_Platform c"
    "rcp_BackendID r = cap_BackendID c" "ValidateJobID j = None"
    "t + d \<noteq> 0 \<Longrightarrow> ValidateReceipt r = None"
  using assms unfolding BuildIntentReceipt_eq
  by (auto simp: intent_receipt_body_def ValidateReceipt_Seal)

lemma intent_receipt_not_scheduled:
  assumes "BuildIntentReceipt j a t d c = Inr r"
  shows "ValidateReceiptForRequest r q c' \<noteq> None"
  using BuildIntentReceipt_Inr(10) [OF assms] by (auto simp: ValidateReceiptForRequest_None)

subsection \<open>Comments\<close>

lemma length_powerCommentJobID: "length (powerCommentJobID j) \<le> 20"
  by (simp add: powerCommentJobID_def)

lemma fixed_comment_length: "IsFixedPowerComment j c \<Longrightarrow> length c \<le> 256"
  using length_powerCommentJobID [of j]
  by (auto simp: IsFixedPowerComment_def ClassicPowerComment_def PluginPowerComment_def AfterStopPowerComment_def)

lemma space_runes_not_D: "\<forall>w \<in> set space_runes. w \<noteq> [] \<and> hd w \<noteq> CHR ''D''"
  by (simp add: space_runes_def char_of_eq_iff)

lemma rev_space_runes_not_d:
  "\<forall>w \<in> set (map rev space_runes). w \<noteq> [] \<and> hd w \<noteq> CHR ''d''"
  by (simp add: space_runes_def char_of_eq_iff)

text \<open>The fixed comments start with \<open>D\<close> and end with \<open>d\<close>, so trimming keeps them.\<close>

lemma TrimSpace_D_d: "TrimSpace (CHR ''D'' # s @ ''d'') = CHR ''D'' # s @ ''d''"
  using strip_left_keep [OF space_runes_not_D] strip_left_keep [OF rev_space_runes_not_d]
  by (simp add: TrimSpace_def)

lemma fixed_comment_form:
  assumes "IsFixedPowerComment j c" shows "\<exists>s. c = CHR ''D'' # s @ ''d''"
proof -
  have "ClassicPowerComment j = CHR ''D'' # (''oneThen job '' @ powerCommentJobID j @ '' complete'') @ ''d''"
    and "PluginPowerComment j = CHR ''D'' # (''oneThen plugin job '' @ powerCommentJobID j @ '' complete'') @ ''d''"
    and "AfterStopPowerComment j = CHR ''D'' # (''oneThen job '' @ powerCommentJobID j @ '': Codex stoppe'') @ ''d''"
    by (simp_all add: ClassicPowerComment_def PluginPowerComment_def AfterStopPowerComment_def)
  with assms show ?thesis
    unfolding IsFixedPowerComment_def by metis
qed

lemma fixed_comment_trim: "IsFixedPowerComment j c \<Longrightarrow> TrimSpace c \<noteq> []"
  using fixed_comment_form TrimSpace_D_d by fastforce

lemma comments_fixed [simp]:
  "IsFixedPowerComment j (ClassicPowerComment j)"
  "IsFixedPowerComment j (PluginPowerComment j)"
  "IsFixedPowerComment j (AfterStopPowerComment j)"
  by (simp_all add: IsFixedPowerComment_def)

subsection \<open>Fresh identities\<close>

lemma length_chunks: "0 < n \<Longrightarrow> length (chunks n xs) = (length xs + n - 1) div n"
proof (induction n xs rule: chunks.induct)
  case (2 n x xs)
  show ?case
  proof (cases "length xs \<le> n - 1")
    case True
    then have "Suc (length xs + n - 1) div n = 1"
      using "2.prems" by (intro div_nat_eqI) simp_all
    with "2" True show ?thesis by simp
  next
    case False
    then obtain k where k: "length xs = n - 1 + k" by (metis le_Suc_ex nat_le_linear)
    with "2.prems" have "Suc (length xs) + n - 1 = (k + n - 1) + n" by simp
    moreover have "((k + n - 1) + n) div n = Suc ((k + n - 1) div n)"
      using "2.prems" by (subst div_add_self2) simp_all
    ultimately show ?thesis using "2" k by simp
  qed
qed simp

lemma base32_char_ok: "is_upper (base32_char bs) \<or> is_digit (base32_char bs)"
proof -
  let ?abc = "''ABCDEFGHIJKLMNOPQRSTUVWXYZ234567''"
  have "list_all (\<lambda>c. is_upper c \<or> is_digit c) ?abc"
    by (simp add: is_upper_def is_digit_def char_between_def char_code_def)
  moreover have "base32_char bs \<in> set ?abc"
    unfolding base32_char_def by (rule nth_mem) simp
  ultimately show ?thesis unfolding list_all_iff by blast
qed

lemma base32_props:
  "length (base32_EncodeToString bs) = (8 * length bs + 4) div 5 \<and>
   list_all (\<lambda>c. is_upper c \<or> is_digit c) (base32_EncodeToString bs)"
proof -
  have "length (concat (map bits_of_byte bs)) = 8 * length bs"
    by (induction bs) (simp_all add: bits_of_byte_def)
  then show ?thesis
    by (auto simp: base32_EncodeToString_def length_chunks list_all_iff base32_char_ok)
qed

lemma identity_New_valid:
  assumes "identity_New (Some jb) (Some n) = Inr i" and "length jb = 10"
  shows "ValidateJobID (ji_JobID i) = None"
proof -
  have "ji_JobID i = ''dt_'' @ base32_EncodeToString jb"
    using assms(1) by (auto simp: identity_New_def)
  moreover have "list_all job_id_char (base32_EncodeToString jb)" "length (base32_EncodeToString jb) = 16"
    using base32_props [of jb] assms(2) by (auto simp: job_id_char_def list_all_iff)
  ultimately show ?thesis
    by (simp add: ValidateJobID_None HasPrefix_def job_id_char_def is_lower_def char_between_def char_code_def)
qed

end
