(* ===== verification/Go_Path.thy ===== *)
theory Go_Path
  imports Go_Base
begin

text \<open>
  Lexical paths of \<open>path/filepath\<close> on Unix, as far as the program uses them: \<open>IsAbs\<close> and
  \<open>Clean\<close>, and the workspace comparison \<open>pluginstate.WorkspaceMatches\<close> built on them. The
  main results are that \<open>Clean\<close> is idempotent and keeps absolute paths absolute, so a
  workspace that a hook pinned in its cleaned form matches the path it came from.
\<close>

abbreviation slash :: char where "slash \<equiv> CHR 0x2F"

abbreviation dot :: string where "dot \<equiv> ''.''"
abbreviation dotdot :: string where "dotdot \<equiv> ''..''"

definition path_IsAbs :: "string \<Rightarrow> bool" where
  "path_IsAbs p \<longleftrightarrow> HasPrefix p [slash]"

fun split_slash :: "string \<Rightarrow> string list" where
  "split_slash [] = [[]]"
| "split_slash (x # xs) =
     (if x = slash then [] # split_slash xs
      else (case split_slash xs of [] \<Rightarrow> [[x]] | y # ys \<Rightarrow> (x # y) # ys))"

fun join_slash :: "string list \<Rightarrow> string" where
  "join_slash [] = []"
| "join_slash [x] = x"
| "join_slash (x # y # ys) = x @ [slash] @ join_slash (y # ys)"

text \<open>One path element against the output so far (last element first).\<close>

definition clean_elem :: "bool \<Rightarrow> string list \<Rightarrow> string \<Rightarrow> string list" where
  "clean_elem rooted out e =
     (if e = [] \<or> e = dot then out
      else if e = dotdot then
        (case out of
           [] \<Rightarrow> (if rooted then [] else [dotdot])
         | t # ts \<Rightarrow> (if t = dotdot then dotdot # out else ts))
      else e # out)"

definition clean_elems :: "bool \<Rightarrow> string list \<Rightarrow> string list" where
  "clean_elems rooted es = rev (foldl (clean_elem rooted) [] es)"

definition path_Clean :: "string \<Rightarrow> string" where
  "path_Clean p =
     (let rooted = path_IsAbs p; body = join_slash (clean_elems rooted (split_slash p))
      in if rooted then slash # body else if body = [] then dot else body)"

subsection \<open>Clean is idempotent\<close>

text \<open>
  The cleaned elements are plain names, after a run of \<open>..\<close> that only a relative path has.
\<close>

definition plain_elem :: "string \<Rightarrow> bool" where
  "plain_elem e \<longleftrightarrow> e \<noteq> [] \<and> e \<noteq> dot \<and> slash \<notin> set e"

fun clean_form :: "bool \<Rightarrow> string list \<Rightarrow> bool" where
  "clean_form rooted [] = True"
| "clean_form rooted (e # es) =
     (plain_elem e \<and> clean_form rooted es \<and>
      (e = dotdot \<longrightarrow> \<not> rooted \<and> (case es of [] \<Rightarrow> True | t # _ \<Rightarrow> t = dotdot)))"

lemma split_slash_ne [simp]: "split_slash p \<noteq> []"
  by (cases p) (auto split: list.splits)

lemma split_slash_no_slash: "e \<in> set (split_slash p) \<Longrightarrow> slash \<notin> set e"
  by (induction p arbitrary: e) (auto split: if_splits list.splits)

lemma clean_elem_form:
  assumes "clean_form rooted out" and "slash \<notin> set e"
  shows "clean_form rooted (clean_elem rooted out e)"
  using assms by (cases out) (auto simp: clean_elem_def plain_elem_def)

lemma foldl_clean_form:
  assumes "clean_form rooted out" and "\<forall>e \<in> set es. slash \<notin> set e"
  shows "clean_form rooted (foldl (clean_elem rooted) out es)"
  using assms by (induction es arbitrary: out) (simp_all add: clean_elem_form)

lemma foldl_clean_id: "clean_form rooted out \<Longrightarrow> foldl (clean_elem rooted) [] (rev out) = out"
proof (induction out)
  case Nil
  then show ?case by simp
next
  case (Cons e out)
  then show ?case
    by (cases out) (auto simp: clean_elem_def plain_elem_def)
qed

lemma clean_form_elems: "clean_form rooted es \<Longrightarrow> e \<in> set es \<Longrightarrow> e \<noteq> [] \<and> slash \<notin> set e"
  by (induction es) (auto simp: plain_elem_def)

lemma split_no_slash: "slash \<notin> set e \<Longrightarrow> split_slash e = [e]"
  by (induction e) auto

lemma split_append: "slash \<notin> set e \<Longrightarrow> split_slash (e @ slash # s) = e # split_slash s"
  by (induction e) auto

lemma split_join:
  "es \<noteq> [] \<Longrightarrow> \<forall>e \<in> set es. slash \<notin> set e \<Longrightarrow> split_slash (join_slash es) = es"
  by (induction es rule: join_slash.induct) (simp_all add: split_no_slash split_append)

lemma join_slash_head:
  "es \<noteq> [] \<Longrightarrow> \<forall>e \<in> set es. e \<noteq> [] \<and> slash \<notin> set e \<Longrightarrow>
     join_slash es \<noteq> [] \<and> \<not> path_IsAbs (join_slash es)"
  by (cases es rule: join_slash.cases) (auto simp: path_IsAbs_def HasPrefix_def neq_Nil_conv)

lemma clean_elems_form: "clean_form rooted (rev (clean_elems rooted (split_slash p)))"
  by (auto simp: clean_elems_def intro!: foldl_clean_form dest: split_slash_no_slash)

lemma clean_elems_props:
  "e \<in> set (clean_elems rooted (split_slash p)) \<Longrightarrow> e \<noteq> [] \<and> slash \<notin> set e"
  using clean_form_elems [OF clean_elems_form] by simp

lemma clean_elems_again:
  "clean_elems rooted (clean_elems rooted (split_slash p)) = clean_elems rooted (split_slash p)"
proof -
  let ?es = "clean_elems rooted (split_slash p)"
  have "foldl (clean_elem rooted) [] (rev (rev ?es)) = rev ?es"
    by (rule foldl_clean_id) (rule clean_elems_form)
  then show ?thesis by (simp add: clean_elems_def)
qed

lemma clean_elems_empty [simp]: "clean_elems rooted ([] # es) = clean_elems rooted es"
  by (simp add: clean_elems_def clean_elem_def)

lemma IsAbs_Cons [simp]: "path_IsAbs (c # s) \<longleftrightarrow> c = slash" "\<not> path_IsAbs []"
  by (simp_all add: path_IsAbs_def HasPrefix_def)

lemma path_Clean_IsAbs [simp]: "path_IsAbs (path_Clean p) = path_IsAbs p"
proof (cases "path_IsAbs p \<or> clean_elems False (split_slash p) = []")
  case True
  then show ?thesis by (auto simp: path_Clean_def Let_def)
next
  case False
  then show ?thesis
    using join_slash_head [of "clean_elems False (split_slash p)"] clean_elems_props [of _ False p]
    by (auto simp: path_Clean_def Let_def)
qed

theorem path_Clean_idem: "path_Clean (path_Clean p) = path_Clean p"
proof -
  let ?es = "\<lambda>r. clean_elems r (split_slash p)"
  have split: "?es r \<noteq> [] \<Longrightarrow> split_slash (join_slash (?es r)) = ?es r" for r
    using clean_elems_props by (intro split_join) blast+
  show ?thesis
  proof (cases "path_IsAbs p")
    case True
    then show ?thesis
      using split [of True] clean_elems_again [of True p]
      by (cases "?es True = []") (simp_all add: path_Clean_def Let_def clean_elems_def clean_elem_def)
  next
    case False
    then show ?thesis
      using split [of False] clean_elems_again [of False p]
        join_slash_head [of "?es False"] clean_elems_props [of _ False p]
      by (cases "?es False = []") (auto simp: path_Clean_def Let_def clean_elems_def clean_elem_def)
  qed
qed

subsection \<open>Workspace comparison\<close>

text \<open>\<open>pluginstate.WorkspaceMatches\<close>; the case-insensitive branch is for Windows builds.\<close>

definition WorkspaceMatches :: "string \<Rightarrow> string \<Rightarrow> bool" where
  "WorkspaceMatches expected observed =
     (if expected = [] then True
      else if \<not> path_IsAbs expected \<or> \<not> path_IsAbs observed then False
      else path_Clean expected = path_Clean observed)"

lemma WorkspaceMatches_Clean:
  "path_IsAbs cwd \<Longrightarrow> WorkspaceMatches (path_Clean cwd) cwd"
  by (simp add: WorkspaceMatches_def path_Clean_idem)

lemma WorkspaceMatches_sym:
  "expected \<noteq> [] \<Longrightarrow> WorkspaceMatches expected observed \<Longrightarrow> WorkspaceMatches observed expected"
  by (auto simp: WorkspaceMatches_def split: if_splits)

lemma path_Clean_ne [simp]: "path_Clean p \<noteq> []"
  by (auto simp: path_Clean_def Let_def)

subsection \<open>Joining\<close>

text \<open>\<open>filepath.Join\<close> skips empty elements and cleans the result.\<close>

definition filepath_Join :: "string list \<Rightarrow> string" where
  "filepath_Join es =
     (let parts = filter (\<lambda>e. e \<noteq> []) es in if parts = [] then [] else path_Clean (join_slash parts))"

text \<open>\<open>filepath.Ext\<close>: the suffix from the last dot of the last element.\<close>

definition filepath_Ext :: "string \<Rightarrow> string" where
  "filepath_Ext path =
     (let tail = rev (takeWhile (\<lambda>c. c \<noteq> slash) (rev path));
          ext = takeWhile (\<lambda>c. c \<noteq> CHR ''.'') (rev tail)
      in if length ext = length tail then [] else CHR ''.'' # rev ext)"

definition TrimSuffix :: "string \<Rightarrow> string \<Rightarrow> string" where
  "TrimSuffix s suffix = (if HasSuffix s suffix then take (length s - length suffix) s else s)"

text \<open>\<open>filepath.Abs\<close> asks for the working directory only for a relative path.\<close>

definition filepath_Abs :: "err + string \<Rightarrow> string \<Rightarrow> err + string" where
  "filepath_Abs cwd path =
     (if path_IsAbs path then Inr (path_Clean path)
      else (case cwd of Inl e \<Rightarrow> Inl e | Inr d \<Rightarrow> Inr (filepath_Join [d, path])))"

lemma split_slash_append: "split_slash (a @ slash # b) = split_slash a @ split_slash b"
proof (induction a)
  case (Cons x a)
  then show ?case by (cases "split_slash a") (auto split: list.splits)
qed simp

lemma clean_elems_plain:
  assumes "plain_elem n" "n \<noteq> dotdot"
  shows "clean_elems rooted (es @ [n]) = clean_elems rooted es @ [n]"
  using assms by (simp add: clean_elems_def clean_elem_def plain_elem_def)

lemma split_plain: "plain_elem n \<Longrightarrow> split_slash n = [n]"
  by (simp add: plain_elem_def split_no_slash)

lemma join_slash_snoc: "es \<noteq> [] \<Longrightarrow> join_slash (es @ [n]) = join_slash es @ slash # n"
  by (induction es rule: join_slash.induct) auto

text \<open>A plain name below an absolute directory is cleaned to the directory, a slash and the name.\<close>

lemma Join_plain:
  assumes "path_IsAbs p" "plain_elem n" "n \<noteq> dotdot"
  shows "filepath_Join [p, n] = slash # join_slash (clean_elems True (split_slash p) @ [n])"
proof -
  have ne: "p \<noteq> []" "n \<noteq> []" using assms by (auto simp: path_IsAbs_def HasPrefix_def plain_elem_def)
  moreover have "path_IsAbs (p @ slash # n)"
    using assms(1) by (cases p) simp_all
  ultimately show ?thesis
    using assms(2,3) by (simp add: filepath_Join_def path_Clean_def Let_def split_slash_append split_plain clean_elems_plain)
qed

lemma Join_below:
  assumes "path_IsAbs p" "plain_elem m" "m \<noteq> dotdot" "plain_elem n" "n \<noteq> dotdot"
  shows "filepath_Join [filepath_Join [p, m], n] = filepath_Join [p, m] @ slash # n"
proof -
  let ?es = "clean_elems True (split_slash p) @ [m]"
  have elems: "\<forall>e \<in> set ?es. slash \<notin> set e"
    using clean_elems_props [of _ True p] assms(2) by (auto simp: plain_elem_def)
  have "clean_elems True (split_slash (slash # join_slash ?es)) = ?es"
    using split_join [OF _ elems] clean_elems_plain [OF assms(2,3)] clean_elems_again [of True p] by simp
  then show ?thesis
    using Join_plain [OF assms(1-3)] Join_plain [OF _ assms(4,5), of "filepath_Join [p, m]"]
    using join_slash_snoc [of ?es n] by simp
qed

end
