(* ===== verification/Plugin_Job.thy ===== *)
theory Plugin_Job
  imports Actions Go_Path Go_World
begin

text \<open>
  \<open>internal/pluginstate/job.go\<close>: the persisted plugin job, its states and trigger policies, the
  stop-barrier targets, the unresolved-power test and the validator every stored job has to
  pass. A \<open>*StopTarget\<close> that the store hands to a mutator points into \<open>job.StopTargets\<close>; in the
  model it is the index of that element, so writes through it are writes to the job.
\<close>

subsection \<open>States and policies\<close>

abbreviation CurrentSchemaVersion :: string where "CurrentSchemaVersion \<equiv> ''4''"
abbreviation MinimumStopTargets :: nat where "MinimumStopTargets \<equiv> 2"
abbreviation MaximumStopTargets :: nat where "MaximumStopTargets \<equiv> 16"
abbreviation MaximumBarrierEventKeys :: nat where "MaximumBarrierEventKeys \<equiv> 4096"
abbreviation MaximumLegacyEventKeys :: nat where "MaximumLegacyEventKeys \<equiv> 128"

datatype TriggerPolicy =
  TriggerAfterStop | TriggerAfterAllStop | TriggerVerifiedSuccess | TriggerOther string

fun policy_string :: "TriggerPolicy \<Rightarrow> string" where
  "policy_string TriggerAfterStop = ''after_stop''"
| "policy_string TriggerAfterAllStop = ''after_all_stop''"
| "policy_string TriggerVerifiedSuccess = ''verified_success''"
| "policy_string (TriggerOther s) = s"

definition policy_of :: "string \<Rightarrow> TriggerPolicy" where
  "policy_of s =
     (if s = ''after_stop'' then TriggerAfterStop
      else if s = ''after_all_stop'' then TriggerAfterAllStop
      else if s = ''verified_success'' then TriggerVerifiedSuccess
      else TriggerOther s)"

definition policy_Valid :: "TriggerPolicy \<Rightarrow> bool" where
  "policy_Valid p \<longleftrightarrow> p = TriggerAfterStop \<or> p = TriggerAfterAllStop \<or> p = TriggerVerifiedSuccess"

datatype State =
    StateArmPendingBind | StateArmed | StateWaiting | StateVerifying | StateReadyPendingStop
  | StateStopObserved | StateHostMonitoring | StateActionIntent | StateActionScheduled
  | StateDryRunComplete | StateHookConflict | StateHookUnavailable | StateNotDone
  | StateVerificationFailed | StateExpired | StateCancelled | StateOrphaned
  | StateHostUnavailable | StateInventoryPartial | StateConcurrentConflict
  | StatePlatformUnsupported | StatePrivilegeUnavailable | StateActionFailed
  | StateActionExecutionUnverified | StateActionExecutedConfirmed
  | StateOther string

fun state_string :: "State \<Rightarrow> string" where
  "state_string StateArmPendingBind = ''ARM_PENDING_BIND''"
| "state_string StateArmed = ''ARMED''"
| "state_string StateWaiting = ''WAITING''"
| "state_string StateVerifying = ''VERIFYING''"
| "state_string StateReadyPendingStop = ''READY_PENDING_STOP''"
| "state_string StateStopObserved = ''STOP_OBSERVED''"
| "state_string StateHostMonitoring = ''HOST_MONITORING''"
| "state_string StateActionIntent = ''ACTION_INTENT_RECORDED''"
| "state_string StateActionScheduled = ''ACTION_SCHEDULED''"
| "state_string StateDryRunComplete = ''DRY_RUN_COMPLETE''"
| "state_string StateHookConflict = ''HOOK_CONFLICT''"
| "state_string StateHookUnavailable = ''HOOK_UNAVAILABLE''"
| "state_string StateNotDone = ''NOT_DONE''"
| "state_string StateVerificationFailed = ''VERIFICATION_FAILED''"
| "state_string StateExpired = ''EXPIRED''"
| "state_string StateCancelled = ''CANCELLED''"
| "state_string StateOrphaned = ''ORPHANED''"
| "state_string StateHostUnavailable = ''HOST_AUTHORITY_UNAVAILABLE''"
| "state_string StateInventoryPartial = ''TASK_INVENTORY_PARTIAL''"
| "state_string StateConcurrentConflict = ''CONCURRENT_TASK_CONFLICT''"
| "state_string StatePlatformUnsupported = ''PLATFORM_UNSUPPORTED''"
| "state_string StatePrivilegeUnavailable = ''PRIVILEGE_UNAVAILABLE''"
| "state_string StateActionFailed = ''ACTION_FAILED''"
| "state_string StateActionExecutionUnverified = ''ACTION_EXECUTION_UNVERIFIED''"
| "state_string StateActionExecutedConfirmed = ''ACTION_EXECUTED_CONFIRMED''"
| "state_string (StateOther s) = s"

definition terminal_states :: "State list" where
  "terminal_states =
     [StateDryRunComplete, StateHookConflict, StateHookUnavailable,
      StateNotDone, StateVerificationFailed, StateExpired, StateCancelled,
      StateOrphaned, StateHostUnavailable, StateInventoryPartial,
      StateConcurrentConflict, StatePlatformUnsupported,
      StatePrivilegeUnavailable, StateActionFailed,
      StateActionExecutionUnverified, StateActionExecutedConfirmed]"

definition IsTerminal :: "State \<Rightarrow> bool" where
  "IsTerminal s \<longleftrightarrow> s \<in> set terminal_states"

definition IsActive :: "State \<Rightarrow> bool" where
  "IsActive s \<longleftrightarrow> \<not> IsTerminal s"

definition state_known :: "State \<Rightarrow> bool" where
  "state_known s \<longleftrightarrow> (case s of StateOther _ \<Rightarrow> False | _ \<Rightarrow> True)"

subsection \<open>Records\<close>

record StopTarget =
  tg_SessionHash :: string
  tg_WorkspaceCWD :: string
  tg_CurrentTurnHash :: string
  tg_StopTurnHash :: string
  tg_ContinuationTurnHash :: string
  tg_FirstSeenAt :: "time option"
  tg_StopObservedAt :: "time option"

record Job =
  SchemaVersion :: string
  JobID :: string
  NonceHash :: string
  State :: State
  ReasonCode :: string
  DryRun :: bool
  Action :: string
  TriggerPolicy :: TriggerPolicy
  StopWithoutSuccessAck :: bool
  DelaySeconds :: int
  ExpiresAt :: time
  CreatedAt :: time
  UpdatedAt :: time
  SessionID :: string
  ArmTurnID :: string
  CurrentTurnID :: string
  ReadyTurnID :: string
  StopTurnID :: string
  Generation :: u64
  CompletionStatus :: string
  CompletionEvidenceHash :: string
  VerifierProfile :: string
  AllowAgentOnlySuccess :: bool
  HookCompatibility :: string
  ArmObserved :: bool
  FinishObserved :: bool
  ProcessedEventKeys :: "string list"
  WorkspaceCWD :: string
  PowerPolicyFingerprint :: string
  SupervisorPID :: int
  VerifierFingerprint :: string
  VerifierPassed :: bool
  VerifierExitCode :: "int option"
  HookFingerprintH1 :: string
  HookFingerprintH2 :: string
  HookFingerprintH3 :: string
  HostSnapshotReason :: string
  HostInstanceID :: string
  ActionIntentAt :: "time option"
  ScheduledFor :: "time option"
  PowerCapabilities :: "Capabilities option"
  PowerReceipt :: "Receipt option"
  JobCancelResult :: "CancelResult option"
  CancelRequested :: bool
  CancelReason :: string
  JobReconcileResult :: "ReconcileResult option"
  ControllerSessionHash :: string
  ControllerArmTurnHash :: string
  StopTargets :: "StopTarget list"
  TargetReservationsCommitted :: bool
  TargetIndexesReady :: bool
  TargetBindingID :: string
  BarrierAcrossTurnsAck :: bool

definition zero_StopTarget :: StopTarget where
  "zero_StopTarget = \<lparr>tg_SessionHash = [], tg_WorkspaceCWD = [], tg_CurrentTurnHash = [], tg_StopTurnHash = [],
     tg_ContinuationTurnHash = [], tg_FirstSeenAt = None, tg_StopObservedAt = None\<rparr>"

text \<open>\<open>Job{}\<close>.\<close>

definition zero_Job :: Job where
  "zero_Job = \<lparr>SchemaVersion = [], JobID = [], NonceHash = [], State = StateOther [], ReasonCode = [],
     DryRun = False, Action = [], TriggerPolicy = TriggerOther [], StopWithoutSuccessAck = False,
     DelaySeconds = 0, ExpiresAt = 0, CreatedAt = 0, UpdatedAt = 0, SessionID = [], ArmTurnID = [],
     CurrentTurnID = [], ReadyTurnID = [], StopTurnID = [], Generation = 0, CompletionStatus = [],
     CompletionEvidenceHash = [], VerifierProfile = [], AllowAgentOnlySuccess = False,
     HookCompatibility = [], ArmObserved = False, FinishObserved = False, ProcessedEventKeys = [],
     WorkspaceCWD = [], PowerPolicyFingerprint = [], SupervisorPID = 0, VerifierFingerprint = [],
     VerifierPassed = False, VerifierExitCode = None, HookFingerprintH1 = [], HookFingerprintH2 = [],
     HookFingerprintH3 = [], HostSnapshotReason = [], HostInstanceID = [], ActionIntentAt = None,
     ScheduledFor = None, PowerCapabilities = None, PowerReceipt = None, JobCancelResult = None,
     CancelRequested = False, CancelReason = [], JobReconcileResult = None, ControllerSessionHash = [],
     ControllerArmTurnHash = [], StopTargets = [], TargetReservationsCommitted = False,
     TargetIndexesReady = False, TargetBindingID = [], BarrierAcrossTurnsAck = False\<rparr>"

subsection \<open>Operations on targets and jobs\<close>

definition Stopped :: "StopTarget \<Rightarrow> bool" where
  "Stopped t \<longleftrightarrow>
     tg_CurrentTurnHash t \<noteq> [] \<and> tg_StopTurnHash t = tg_CurrentTurnHash t \<and> tg_ContinuationTurnHash t = []"

definition IsStopBarrier :: "Job \<Rightarrow> bool" where
  "IsStopBarrier j \<longleftrightarrow> TriggerPolicy j = TriggerAfterAllStop"

definition BarrierSatisfied :: "Job \<Rightarrow> bool" where
  "BarrierSatisfied j \<longleftrightarrow>
     \<not> (length (StopTargets j) < MinimumStopTargets \<or> length (StopTargets j) > MaximumStopTargets) \<and>
     list_all Stopped (StopTargets j)"

fun barrier_progress :: "StopTarget list \<Rightarrow> nat \<times> nat \<Rightarrow> nat \<times> nat" where
  "barrier_progress [] (stopped, unseen) = (stopped, unseen)"
| "barrier_progress (t # ts) (stopped, unseen) =
     barrier_progress ts
       (if Stopped t then Suc stopped else stopped, if tg_FirstSeenAt t = None then Suc unseen else unseen)"

definition BarrierProgress :: "Job \<Rightarrow> nat \<times> nat" where
  "BarrierProgress j = barrier_progress (StopTargets j) (0, 0)"

text \<open>\<open>(*Job).StopTarget\<close>: the index of the first target with the hash.\<close>

fun find_target :: "string \<Rightarrow> StopTarget list \<Rightarrow> nat option" where
  "find_target h [] = None"
| "find_target h (t # ts) = (if tg_SessionHash t = h then Some 0 else map_option Suc (find_target h ts))"

definition job_StopTarget :: "Job \<Rightarrow> string \<Rightarrow> nat option" where
  "job_StopTarget j h = find_target h (StopTargets j)"

text \<open>A write through a target pointer.\<close>

definition set_target :: "nat \<Rightarrow> StopTarget \<Rightarrow> Job \<Rightarrow> Job" where
  "set_target i t j = j\<lparr>StopTargets := (StopTargets j)[i := t]\<rparr>"

definition Expired :: "Job \<Rightarrow> time \<Rightarrow> bool" where
  "Expired j now \<longleftrightarrow> \<not> IsZero (ExpiresAt j) \<and> \<not> now < ExpiresAt j"

definition HasUnresolvedPowerAction :: "Job \<Rightarrow> bool" where
  "HasUnresolvedPowerAction j =
     (if DryRun j then False
      else if State j = StateActionIntent \<or> State j = StateActionScheduled then True
      else State j = StateOrphaned \<and> ActionIntentAt j \<noteq> None \<and> PowerCapabilities j \<noteq> None)"

definition RecoveryReceipt :: "Job \<Rightarrow> err + Receipt" where
  "RecoveryReceipt j =
     (case PowerReceipt j of
        Some r \<Rightarrow> (case ValidateReceipt r of Some e \<Rightarrow> Inl e | None \<Rightarrow> Inr r)
      | None \<Rightarrow>
          (case PowerCapabilities j of
             None \<Rightarrow> Inl (Err ''power recovery capabilities are unavailable'')
           | Some c \<Rightarrow>
               let requestedAt = (case ActionIntentAt j of Some t \<Rightarrow> t | None \<Rightarrow> CreatedAt j)
               in BuildIntentReceipt (JobID j) (Action j) requestedAt (DelaySeconds j * Second) c))"

text \<open>\<open>job.Generation++\<close> on an unsigned 64-bit counter.\<close>

definition bump :: "Job \<Rightarrow> Job" where
  "bump j = j\<lparr>Generation := Generation j + 1\<rparr>"

definition ValidIdentityHash :: "string \<Rightarrow> bool" where
  "ValidIdentityHash v \<longleftrightarrow> length v = 64 \<and> list_all hex_char v"

subsection \<open>Validate\<close>

text \<open>One target of the loop in \<open>validateStopBarrier\<close>; \<open>continue\<close> ends the list of checks.\<close>

definition validate_target :: "string list \<Rightarrow> StopTarget \<Rightarrow> err option" where
  "validate_target seen t = checks [
     reject (\<not> ValidIdentityHash (tg_SessionHash t)) ''barrier target has an invalid session hash'',
     reject (tg_SessionHash t \<in> set seen) ''barrier target session hashes must be unique'',
     reject (tg_WorkspaceCWD t \<noteq> [] \<and> \<not> path_IsAbs (tg_WorkspaceCWD t))
       ''barrier target workspace must be absolute'',
     first_err (\<lambda>h. reject (h \<noteq> [] \<and> \<not> ValidIdentityHash h) ''barrier target has an invalid turn hash'')
       [tg_CurrentTurnHash t, tg_StopTurnHash t, tg_ContinuationTurnHash t],
     reject (tg_FirstSeenAt t = Some 0) ''barrier target first-seen timestamp is invalid'',
     reject (tg_StopObservedAt t = Some 0) ''barrier target stop timestamp is invalid'',
     (if tg_CurrentTurnHash t = [] then
        reject (tg_WorkspaceCWD t \<noteq> [] \<or> tg_FirstSeenAt t \<noteq> None \<or> tg_StopTurnHash t \<noteq> [] \<or>
                tg_ContinuationTurnHash t \<noteq> [] \<or> tg_StopObservedAt t \<noteq> None)
          ''unseen barrier target carries observed state''
      else checks [
        reject (tg_WorkspaceCWD t = [] \<or> tg_FirstSeenAt t = None)
          ''observed barrier target is missing workspace or timestamp'',
        reject (tg_StopTurnHash t \<noteq> [] \<and> tg_StopTurnHash t \<noteq> tg_CurrentTurnHash t)
          ''barrier target stop turn does not match its current turn'',
        reject (tg_ContinuationTurnHash t \<noteq> [] \<and> tg_ContinuationTurnHash t \<noteq> tg_CurrentTurnHash t)
          ''barrier target continuation does not match its current turn'',
        reject (tg_StopTurnHash t \<noteq> [] \<and> tg_ContinuationTurnHash t \<noteq> [])
          ''barrier target cannot be stopped and continued on the same turn'',
        reject ((tg_StopObservedAt t \<noteq> None) \<noteq> Stopped t)
          ''barrier target stop timestamp does not match stopped state''])]"

fun validate_targets :: "string list \<Rightarrow> StopTarget list \<Rightarrow> err option" where
  "validate_targets seen [] = None"
| "validate_targets seen (t # ts) =
     (case validate_target seen t of
        Some e \<Rightarrow> Some e
      | None \<Rightarrow> validate_targets (tg_SessionHash t # seen) ts)"

definition validateStopBarrier :: "Job \<Rightarrow> err option" where
  "validateStopBarrier job = checks [
     reject (SessionID job \<noteq> [] \<or> ArmTurnID job \<noteq> [] \<or> CurrentTurnID job \<noteq> [] \<or> StopTurnID job \<noteq> [])
       ''after-all-stop job cannot persist raw session or turn bindings'',
     reject (length (StopTargets job) < MinimumStopTargets \<or> length (StopTargets job) > MaximumStopTargets)
       ''after-all-stop job must contain %d to %d targets'',
     map_option (Wrap ''invalid target binding identity: %w'') (ValidateJobID (TargetBindingID job)),
     reject (TargetIndexesReady job \<and> \<not> TargetReservationsCommitted job)
       ''barrier target indexes cannot be ready before reservations commit'',
     validate_targets [] (StopTargets job),
     reject (ControllerSessionHash job \<noteq> [] \<and> \<not> ValidIdentityHash (ControllerSessionHash job))
       ''barrier controller session hash is invalid'',
     reject (ControllerArmTurnHash job \<noteq> [] \<and> \<not> ValidIdentityHash (ControllerArmTurnHash job))
       ''barrier controller turn hash is invalid'',
     reject ((ControllerSessionHash job = []) \<noteq> (ControllerArmTurnHash job = []))
       ''barrier controller binding is incomplete'',
     (if State job = StateArmPendingBind then
        reject (ControllerSessionHash job \<noteq> [] \<or> ControllerArmTurnHash job \<noteq> [] \<or> ArmObserved job \<or>
                TargetIndexesReady job)
          ''pending barrier job cannot already be controller-bound''
      else if IsActive (State job) then
        reject (ControllerSessionHash job = [] \<or> ControllerArmTurnHash job = [] \<or> \<not> ArmObserved job \<or>
                \<not> TargetReservationsCommitted job \<or> \<not> TargetIndexesReady job)
          ''active barrier job is missing its complete hook binding''
      else None)]"

definition stop_policy :: "TriggerPolicy \<Rightarrow> bool" where
  "stop_policy p \<longleftrightarrow> p = TriggerAfterStop \<or> p = TriggerAfterAllStop"

definition Validate :: "Job \<Rightarrow> err option" where
  "Validate job = checks [
     reject (SchemaVersion job \<noteq> CurrentSchemaVersion) ''unsupported plugin job schema %q'',
     ValidateJobID (JobID job),
     reject (\<not> HasPrefix (NonceHash job) ''sha256:'' \<or> length (NonceHash job) \<noteq> length ''sha256:'' + 64)
       ''invalid nonce hash'',
     reject (\<not> state_known (State job)) ''unknown plugin job state %q'',
     reject (Action job \<noteq> ''shutdown'') ''unsupported plugin action %q'',
     reject (\<not> policy_Valid (TriggerPolicy job)) ''unsupported plugin trigger policy %q'',
     reject (DelaySeconds job < 30 \<or> DelaySeconds job > 3600) ''invalid shutdown delay %d'',
     reject (IsZero (CreatedAt job) \<or> IsZero (UpdatedAt job) \<or> IsZero (ExpiresAt job))
       ''plugin job timestamps are required'',
     reject (\<not> ExpiresAt job > CreatedAt job) ''plugin job expiry must be after creation'',
     reject (Generation job = 0) ''plugin job generation must be positive'',
     reject (VerifierProfile job = []) ''verifier profile is required'',
     reject (HookCompatibility job = []) ''hook compatibility is required'',
     (if \<not> DryRun job then checks [
        reject (\<not> path_IsAbs (WorkspaceCWD job)) ''execute plugin job requires an absolute workspace'',
        (if stop_policy (TriggerPolicy job) then checks [
           reject (\<not> StopWithoutSuccessAck job)
             ''observable-stop execute job requires explicit stop-without-success acknowledgement'',
           reject (TriggerPolicy job = TriggerAfterAllStop \<and> \<not> BarrierAcrossTurnsAck job)
             ''after-all-stop execute job requires explicit cross-turn acknowledgement'']
         else checks [
           reject (VerifierProfile job = ''none'' \<and> \<not> AllowAgentOnlySuccess job)
             ''verified-success execute job requires a verifier or explicit agent-only approval'',
           reject (PowerPolicyFingerprint job = [])
             ''verified-success execute job requires a fixed power policy fingerprint''])]
      else None),
     (if stop_policy (TriggerPolicy job) then checks [
        reject (VerifierProfile job \<noteq> ''none'' \<or> AllowAgentOnlySuccess job)
          ''observable-stop job cannot use semantic completion verification'',
        reject (PowerPolicyFingerprint job \<noteq> [])
          ''observable-stop job cannot carry a verified-success power policy'']
      else reject (StopWithoutSuccessAck job) ''verified-success job cannot acknowledge after-stop semantics''),
     (if TriggerPolicy job = TriggerAfterAllStop then validateStopBarrier job
      else checks [
        reject (BarrierAcrossTurnsAck job \<or> ControllerSessionHash job \<noteq> [] \<or> ControllerArmTurnHash job \<noteq> [] \<or>
                StopTargets job \<noteq> [] \<or> TargetReservationsCommitted job \<or> TargetIndexesReady job \<or>
                TargetBindingID job \<noteq> [])
          ''non-barrier job carries multi-session barrier state'',
        (if State job = StateArmPendingBind then
           reject (SessionID job \<noteq> [] \<or> ArmTurnID job \<noteq> [] \<or> ArmObserved job)
             ''pending plugin job cannot already be bound''
         else if IsActive (State job) then
           reject (SessionID job = [] \<or> ArmTurnID job = [] \<or> \<not> ArmObserved job)
             ''active plugin job is missing its hook binding''
         else None)]),
     reject (TriggerPolicy job = TriggerVerifiedSuccess \<and>
             (State job = StateReadyPendingStop \<or> State job = StateStopObserved) \<and>
             (ReadyTurnID job = [] \<or> CompletionEvidenceHash job = []))
       ''ready plugin job is missing completion evidence'',
     (if State job = StateStopObserved then
        (if TriggerPolicy job = TriggerAfterAllStop then
           reject (\<not> BarrierSatisfied job) ''stop-observed barrier job is not satisfied''
         else reject (StopTurnID job = []) ''stop-observed plugin job is missing the stop turn'')
      else None),
     reject (State job = StateDryRunComplete \<and> TriggerPolicy job = TriggerAfterAllStop \<and> \<not> BarrierSatisfied job)
       ''completed dry-run barrier job is not satisfied'',
     reject (VerifierPassed job \<and> VerifierProfile job \<noteq> ''none'' \<and> VerifierFingerprint job = [])
       ''verified plugin job is missing its verifier fingerprint'',
     reject (State job = StateActionIntent \<and> (ActionIntentAt job = None \<or> PowerCapabilities job = None))
       ''action intent is missing its timestamp or capabilities'',
     (case PowerReceipt job of None \<Rightarrow> None | Some r \<Rightarrow> checks [
        map_option (Wrap ''invalid plugin power receipt: %w'') (ValidateReceipt r),
        reject (rcp_JobID r \<noteq> JobID job \<or> rcp_Action r \<noteq> Action job)
          ''plugin power receipt does not match the job'']),
     reject (CancelRequested job \<and> TrimSpace (CancelReason job) = [])
       ''plugin cancellation request is missing its reason'',
     reject ((State job = StateActionScheduled \<or> State job = StateActionExecutionUnverified \<or>
              State job = StateActionExecutedConfirmed) \<and>
             (ActionIntentAt job = None \<or> ScheduledFor job = None \<or> PowerReceipt job = None))
       ''scheduled plugin job is missing its power receipt'',
     (let maximumEventKeys =
            (if TriggerPolicy job = TriggerAfterAllStop then MaximumBarrierEventKeys else MaximumLegacyEventKeys)
      in reject (length (ProcessedEventKeys job) > maximumEventKeys) ''plugin job has more than %d event keys''),
     first_err (\<lambda>k. reject (\<not> ValidIdentityHash k) ''invalid processed event key'') (ProcessedEventKeys job)]"

subsection \<open>What Validate accepts\<close>

lemma IsTerminal_simps [simp]:
  "IsTerminal StateDryRunComplete" "IsTerminal StateHookConflict" "IsTerminal StateHookUnavailable"
  "IsTerminal StateNotDone" "IsTerminal StateVerificationFailed" "IsTerminal StateExpired"
  "IsTerminal StateCancelled" "IsTerminal StateOrphaned" "IsTerminal StateHostUnavailable"
  "IsTerminal StateInventoryPartial" "IsTerminal StateConcurrentConflict"
  "IsTerminal StatePlatformUnsupported" "IsTerminal StatePrivilegeUnavailable"
  "IsTerminal StateActionFailed" "IsTerminal StateActionExecutionUnverified"
  "IsTerminal StateActionExecutedConfirmed"
  "\<not> IsTerminal StateArmPendingBind" "\<not> IsTerminal StateArmed" "\<not> IsTerminal StateWaiting"
  "\<not> IsTerminal StateVerifying" "\<not> IsTerminal StateReadyPendingStop" "\<not> IsTerminal StateStopObserved"
  "\<not> IsTerminal StateHostMonitoring" "\<not> IsTerminal StateActionIntent" "\<not> IsTerminal StateActionScheduled"
  "\<not> IsTerminal (StateOther s)"
  by (simp_all add: IsTerminal_def terminal_states_def)

lemma IsActive_iff [simp]: "IsActive s \<longleftrightarrow> \<not> IsTerminal s"
  by (simp add: IsActive_def)

lemma state_known_simps [simp]: "\<not> state_known (StateOther s)"
  "IsTerminal s' \<Longrightarrow> state_known s'"
   apply (simp add: state_known_def)
  apply (cases s')
                           apply (simp_all add: state_known_def)
  done

lemma state_known_active [simp]:
  "state_known StateArmPendingBind" "state_known StateArmed" "state_known StateWaiting"
  "state_known StateVerifying" "state_known StateReadyPendingStop" "state_known StateStopObserved"
  "state_known StateHostMonitoring" "state_known StateActionIntent" "state_known StateActionScheduled"
  by (simp_all add: state_known_def)

lemma stop_policy_simps [simp]:
  "stop_policy TriggerAfterStop" "stop_policy TriggerAfterAllStop" "\<not> stop_policy TriggerVerifiedSuccess"
  "\<not> stop_policy (TriggerOther s)"
  by (simp_all add: stop_policy_def)

text \<open>A well-formed target, apart from uniqueness among its siblings.\<close>

definition target_ok :: "StopTarget \<Rightarrow> bool" where
  "target_ok t \<longleftrightarrow> validate_target [] t = None"

lemma target_ok_iff:
  "target_ok t \<longleftrightarrow>
     ValidIdentityHash (tg_SessionHash t) \<and>
     (tg_WorkspaceCWD t \<noteq> [] \<longrightarrow> path_IsAbs (tg_WorkspaceCWD t)) \<and>
     (\<forall>h \<in> {tg_CurrentTurnHash t, tg_StopTurnHash t, tg_ContinuationTurnHash t}. h \<noteq> [] \<longrightarrow> ValidIdentityHash h) \<and>
     tg_FirstSeenAt t \<noteq> Some 0 \<and> tg_StopObservedAt t \<noteq> Some 0 \<and>
     (if tg_CurrentTurnHash t = [] then
        tg_WorkspaceCWD t = [] \<and> tg_FirstSeenAt t = None \<and> tg_StopTurnHash t = [] \<and>
        tg_ContinuationTurnHash t = [] \<and> tg_StopObservedAt t = None
      else
        tg_WorkspaceCWD t \<noteq> [] \<and> tg_FirstSeenAt t \<noteq> None \<and>
        tg_StopTurnHash t \<in> {[], tg_CurrentTurnHash t} \<and>
        tg_ContinuationTurnHash t \<in> {[], tg_CurrentTurnHash t} \<and>
        (tg_StopTurnHash t = [] \<or> tg_ContinuationTurnHash t = []) \<and>
        (tg_StopObservedAt t \<noteq> None \<longleftrightarrow> Stopped t))"
  unfolding target_ok_def validate_target_def by (simp only: checks_None reject_None first_err_None) auto

lemma validate_target_None:
  "validate_target seen t = None \<longleftrightarrow> target_ok t \<and> tg_SessionHash t \<notin> set seen"
  unfolding target_ok_def validate_target_def by (simp only: checks_None reject_None) auto

lemma validate_targets_None:
  "validate_targets seen ts = None \<longleftrightarrow>
     list_all target_ok ts \<and> distinct (map tg_SessionHash ts) \<and>
     set (map tg_SessionHash ts) \<inter> set seen = {}"
proof (induction ts arbitrary: seen)
  case (Cons t ts)
  show ?case
    using validate_target_None [of seen t] Cons.IH [of "tg_SessionHash t # seen"]
    by (cases "validate_target seen t") auto
qed simp

text \<open>
  \<open>Validate\<close> in five groups: what is fixed when a job is armed, the fields every write
  advances, the hook binding, the evidence that goes with a state, and the event keys.
\<close>

definition job_fixed :: "Job \<Rightarrow> bool" where
  "job_fixed j \<longleftrightarrow>
     SchemaVersion j = CurrentSchemaVersion \<and> ValidateJobID (JobID j) = None \<and>
     HasPrefix (NonceHash j) ''sha256:'' \<and> length (NonceHash j) = 71 \<and>
     Action j = ''shutdown'' \<and> policy_Valid (TriggerPolicy j) \<and>
     30 \<le> DelaySeconds j \<and> DelaySeconds j \<le> 3600 \<and>
     CreatedAt j \<noteq> 0 \<and> ExpiresAt j \<noteq> 0 \<and> CreatedAt j < ExpiresAt j \<and> VerifierProfile j \<noteq> [] \<and>
     (\<not> DryRun j \<longrightarrow>
        (if stop_policy (TriggerPolicy j)
         then StopWithoutSuccessAck j \<and> (TriggerPolicy j = TriggerAfterAllStop \<longrightarrow> BarrierAcrossTurnsAck j)
         else (VerifierProfile j \<noteq> ''none'' \<or> AllowAgentOnlySuccess j) \<and> PowerPolicyFingerprint j \<noteq> [])) \<and>
     (if stop_policy (TriggerPolicy j)
      then VerifierProfile j = ''none'' \<and> \<not> AllowAgentOnlySuccess j \<and> PowerPolicyFingerprint j = []
      else \<not> StopWithoutSuccessAck j) \<and>
     (if TriggerPolicy j = TriggerAfterAllStop then ValidateJobID (TargetBindingID j) = None
      else \<not> BarrierAcrossTurnsAck j \<and> TargetBindingID j = [])"

definition job_clock :: "Job \<Rightarrow> bool" where
  "job_clock j \<longleftrightarrow>
     state_known (State j) \<and> UpdatedAt j \<noteq> 0 \<and> Generation j \<noteq> 0 \<and> HookCompatibility j \<noteq> [] \<and>
     (\<not> DryRun j \<longrightarrow> path_IsAbs (WorkspaceCWD j))"

definition controller_ok :: "string \<Rightarrow> string \<Rightarrow> bool" where
  "controller_ok s t \<longleftrightarrow> s = [] \<and> t = [] \<or> ValidIdentityHash s \<and> ValidIdentityHash t"

lemma not_ValidIdentityHash_Nil [simp]: "\<not> ValidIdentityHash []"
  by (simp add: ValidIdentityHash_def)

lemma controller_ok_simps [simp]:
  "controller_ok [] [] = True" "controller_ok s [] = (s = [])"
  "t \<noteq> [] \<Longrightarrow> controller_ok s t = (ValidIdentityHash s \<and> ValidIdentityHash t)"
  by (auto simp: controller_ok_def)

definition job_binding :: "Job \<Rightarrow> bool" where
  "job_binding j \<longleftrightarrow>
     (if TriggerPolicy j = TriggerAfterAllStop then
        SessionID j = [] \<and> ArmTurnID j = [] \<and> CurrentTurnID j = [] \<and> StopTurnID j = [] \<and>
        MinimumStopTargets \<le> length (StopTargets j) \<and> length (StopTargets j) \<le> MaximumStopTargets \<and>
        (TargetIndexesReady j \<longrightarrow> TargetReservationsCommitted j) \<and>
        list_all target_ok (StopTargets j) \<and> distinct (map tg_SessionHash (StopTargets j)) \<and>
        controller_ok (ControllerSessionHash j) (ControllerArmTurnHash j) \<and>
        (State j = StateArmPendingBind \<longrightarrow>
           ControllerSessionHash j = [] \<and> \<not> ArmObserved j \<and> \<not> TargetIndexesReady j) \<and>
        (State j \<noteq> StateArmPendingBind \<longrightarrow> \<not> IsTerminal (State j) \<longrightarrow>
           ControllerSessionHash j \<noteq> [] \<and> ArmObserved j \<and> TargetReservationsCommitted j \<and> TargetIndexesReady j)
      else
        ControllerSessionHash j = [] \<and> ControllerArmTurnHash j = [] \<and> StopTargets j = [] \<and>
        \<not> TargetReservationsCommitted j \<and> \<not> TargetIndexesReady j \<and>
        (State j = StateArmPendingBind \<longrightarrow> SessionID j = [] \<and> ArmTurnID j = [] \<and> \<not> ArmObserved j) \<and>
        (State j \<noteq> StateArmPendingBind \<longrightarrow> \<not> IsTerminal (State j) \<longrightarrow>
           SessionID j \<noteq> [] \<and> ArmTurnID j \<noteq> [] \<and> ArmObserved j))"

definition job_evidence :: "Job \<Rightarrow> bool" where
  "job_evidence j \<longleftrightarrow>
     (TriggerPolicy j \<noteq> TriggerVerifiedSuccess \<or> State j \<noteq> StateReadyPendingStop \<and> State j \<noteq> StateStopObserved \<or>
        ReadyTurnID j \<noteq> [] \<and> CompletionEvidenceHash j \<noteq> []) \<and>
     (State j = StateStopObserved \<longrightarrow>
        (if TriggerPolicy j = TriggerAfterAllStop then BarrierSatisfied j else StopTurnID j \<noteq> [])) \<and>
     (State j = StateDryRunComplete \<and> TriggerPolicy j = TriggerAfterAllStop \<longrightarrow> BarrierSatisfied j) \<and>
     (VerifierPassed j \<longrightarrow> VerifierProfile j = ''none'' \<or> VerifierFingerprint j \<noteq> []) \<and>
     (State j = StateActionIntent \<longrightarrow> ActionIntentAt j \<noteq> None \<and> PowerCapabilities j \<noteq> None) \<and>
     (\<forall>r. PowerReceipt j = Some r \<longrightarrow>
        ValidateReceipt r = None \<and> rcp_JobID r = JobID j \<and> rcp_Action r = Action j) \<and>
     (CancelRequested j \<longrightarrow> TrimSpace (CancelReason j) \<noteq> []) \<and>
     (State j \<noteq> StateActionScheduled \<and> State j \<noteq> StateActionExecutionUnverified \<and>
      State j \<noteq> StateActionExecutedConfirmed \<or>
        ActionIntentAt j \<noteq> None \<and> ScheduledFor j \<noteq> None \<and> PowerReceipt j \<noteq> None)"

definition job_keys :: "Job \<Rightarrow> bool" where
  "job_keys j \<longleftrightarrow>
     length (ProcessedEventKeys j) \<le>
       (if TriggerPolicy j = TriggerAfterAllStop then MaximumBarrierEventKeys else MaximumLegacyEventKeys) \<and>
     list_all ValidIdentityHash (ProcessedEventKeys j)"

lemmas validate_flat =
  checks_None reject_None first_err_None if_None case_None_iff option.map_disc_iff
  validate_targets_None not_less list_all_iff IsActive_iff not_not de_Morgan_disj de_Morgan_conj

lemma Validate_NoneD:
  assumes "Validate j = None"
  shows "job_fixed j" and "job_clock j" and "job_binding j" and "job_evidence j" and "job_keys j"
proof -
  note F = assms [unfolded Validate_def validateStopBarrier_def IsZero_def Let_def validate_flat]
  show "job_fixed j"
    using F unfolding job_fixed_def by (cases "TriggerPolicy j") (simp_all add: policy_Valid_def)
  show "job_clock j"
    using F unfolding job_clock_def by (simp add: policy_Valid_def)
  show "job_keys j"
    using F unfolding job_keys_def by (simp add: list_all_iff)
  show "job_binding j"
    using F unfolding job_binding_def
    by (cases "TriggerPolicy j"; cases "ControllerArmTurnHash j = []") (simp_all add: list_all_iff)
  show "job_evidence j"
    using F unfolding job_evidence_def by (cases "TriggerPolicy j") (simp_all add: list_all_iff)
qed

lemma Validate_NoneI:
  assumes "job_fixed j" and "job_clock j" and "job_binding j" and "job_evidence j" and "job_keys j"
  shows "Validate j = None"
proof -
  note F = assms [unfolded job_fixed_def job_clock_def job_binding_def job_evidence_def job_keys_def]
  show ?thesis
    unfolding Validate_def validateStopBarrier_def IsZero_def Let_def validate_flat
    using F by (cases "TriggerPolicy j"; cases "ControllerArmTurnHash j = []"; cases "DryRun j";
        cases "State j = StateArmPendingBind"; cases "ControllerSessionHash j = []")
      (simp_all add: list_all_iff policy_Valid_def)
qed

lemma Validate_None:
  "Validate j = None \<longleftrightarrow> job_fixed j \<and> job_clock j \<and> job_binding j \<and> job_evidence j \<and> job_keys j"
  using Validate_NoneD Validate_NoneI by blast

text \<open>
  Which writes concern which group. Arming fixes the fields of \<open>job_fixed\<close>: no later write
  concerns it.
\<close>

lemma BarrierSatisfied_cong: "StopTargets j = StopTargets j' \<Longrightarrow> BarrierSatisfied j = BarrierSatisfied j'"
  by (simp add: BarrierSatisfied_def)

lemma job_fixed_frame [simp]:
  "job_fixed (j\<lparr>State := v0\<rparr>) = job_fixed j" "job_fixed (j\<lparr>ReasonCode := v1\<rparr>) = job_fixed j"
  "job_fixed (j\<lparr>UpdatedAt := v2\<rparr>) = job_fixed j" "job_fixed (j\<lparr>SessionID := v3\<rparr>) = job_fixed j"
  "job_fixed (j\<lparr>ArmTurnID := v4\<rparr>) = job_fixed j" "job_fixed (j\<lparr>CurrentTurnID := v5\<rparr>) = job_fixed j"
  "job_fixed (j\<lparr>ReadyTurnID := v6\<rparr>) = job_fixed j" "job_fixed (j\<lparr>StopTurnID := v7\<rparr>) = job_fixed j"
  "job_fixed (j\<lparr>Generation := v8\<rparr>) = job_fixed j" "job_fixed (j\<lparr>CompletionStatus := v9\<rparr>) = job_fixed j"
  "job_fixed (j\<lparr>CompletionEvidenceHash := v10\<rparr>) = job_fixed j" "job_fixed (j\<lparr>HookCompatibility := v11\<rparr>) = job_fixed j"
  "job_fixed (j\<lparr>ArmObserved := v12\<rparr>) = job_fixed j" "job_fixed (j\<lparr>FinishObserved := v13\<rparr>) = job_fixed j"
  "job_fixed (j\<lparr>ProcessedEventKeys := v14\<rparr>) = job_fixed j" "job_fixed (j\<lparr>WorkspaceCWD := v15\<rparr>) = job_fixed j"
  "job_fixed (j\<lparr>SupervisorPID := v16\<rparr>) = job_fixed j" "job_fixed (j\<lparr>VerifierPassed := v17\<rparr>) = job_fixed j"
  "job_fixed (j\<lparr>VerifierExitCode := v18\<rparr>) = job_fixed j" "job_fixed (j\<lparr>HookFingerprintH1 := v19\<rparr>) = job_fixed j"
  "job_fixed (j\<lparr>HookFingerprintH2 := v20\<rparr>) = job_fixed j" "job_fixed (j\<lparr>HookFingerprintH3 := v21\<rparr>) = job_fixed j"
  "job_fixed (j\<lparr>HostSnapshotReason := v22\<rparr>) = job_fixed j" "job_fixed (j\<lparr>HostInstanceID := v23\<rparr>) = job_fixed j"
  "job_fixed (j\<lparr>ActionIntentAt := v24\<rparr>) = job_fixed j" "job_fixed (j\<lparr>ScheduledFor := v25\<rparr>) = job_fixed j"
  "job_fixed (j\<lparr>PowerCapabilities := v26\<rparr>) = job_fixed j" "job_fixed (j\<lparr>PowerReceipt := v27\<rparr>) = job_fixed j"
  "job_fixed (j\<lparr>JobCancelResult := v28\<rparr>) = job_fixed j" "job_fixed (j\<lparr>CancelRequested := v29\<rparr>) = job_fixed j"
  "job_fixed (j\<lparr>CancelReason := v30\<rparr>) = job_fixed j" "job_fixed (j\<lparr>JobReconcileResult := v31\<rparr>) = job_fixed j"
  "job_fixed (j\<lparr>ControllerSessionHash := v32\<rparr>) = job_fixed j" "job_fixed (j\<lparr>ControllerArmTurnHash := v33\<rparr>) = job_fixed j"
  "job_fixed (j\<lparr>StopTargets := v34\<rparr>) = job_fixed j" "job_fixed (j\<lparr>TargetReservationsCommitted := v35\<rparr>) = job_fixed j"
  "job_fixed (j\<lparr>TargetIndexesReady := v36\<rparr>) = job_fixed j"
  by (simp_all add: job_fixed_def)

lemma job_clock_frame [simp]:
  "job_clock (j\<lparr>ReasonCode := v0\<rparr>) = job_clock j" "job_clock (j\<lparr>SessionID := v1\<rparr>) = job_clock j"
  "job_clock (j\<lparr>ArmTurnID := v2\<rparr>) = job_clock j" "job_clock (j\<lparr>CurrentTurnID := v3\<rparr>) = job_clock j"
  "job_clock (j\<lparr>ReadyTurnID := v4\<rparr>) = job_clock j" "job_clock (j\<lparr>StopTurnID := v5\<rparr>) = job_clock j"
  "job_clock (j\<lparr>CompletionStatus := v6\<rparr>) = job_clock j" "job_clock (j\<lparr>CompletionEvidenceHash := v7\<rparr>) = job_clock j"
  "job_clock (j\<lparr>ArmObserved := v8\<rparr>) = job_clock j" "job_clock (j\<lparr>FinishObserved := v9\<rparr>) = job_clock j"
  "job_clock (j\<lparr>ProcessedEventKeys := v10\<rparr>) = job_clock j" "job_clock (j\<lparr>SupervisorPID := v11\<rparr>) = job_clock j"
  "job_clock (j\<lparr>VerifierPassed := v12\<rparr>) = job_clock j" "job_clock (j\<lparr>VerifierExitCode := v13\<rparr>) = job_clock j"
  "job_clock (j\<lparr>HookFingerprintH1 := v14\<rparr>) = job_clock j" "job_clock (j\<lparr>HookFingerprintH2 := v15\<rparr>) = job_clock j"
  "job_clock (j\<lparr>HookFingerprintH3 := v16\<rparr>) = job_clock j" "job_clock (j\<lparr>HostSnapshotReason := v17\<rparr>) = job_clock j"
  "job_clock (j\<lparr>HostInstanceID := v18\<rparr>) = job_clock j" "job_clock (j\<lparr>ActionIntentAt := v19\<rparr>) = job_clock j"
  "job_clock (j\<lparr>ScheduledFor := v20\<rparr>) = job_clock j" "job_clock (j\<lparr>PowerCapabilities := v21\<rparr>) = job_clock j"
  "job_clock (j\<lparr>PowerReceipt := v22\<rparr>) = job_clock j" "job_clock (j\<lparr>JobCancelResult := v23\<rparr>) = job_clock j"
  "job_clock (j\<lparr>CancelRequested := v24\<rparr>) = job_clock j" "job_clock (j\<lparr>CancelReason := v25\<rparr>) = job_clock j"
  "job_clock (j\<lparr>JobReconcileResult := v26\<rparr>) = job_clock j" "job_clock (j\<lparr>ControllerSessionHash := v27\<rparr>) = job_clock j"
  "job_clock (j\<lparr>ControllerArmTurnHash := v28\<rparr>) = job_clock j" "job_clock (j\<lparr>StopTargets := v29\<rparr>) = job_clock j"
  "job_clock (j\<lparr>TargetReservationsCommitted := v30\<rparr>) = job_clock j" "job_clock (j\<lparr>TargetIndexesReady := v31\<rparr>) = job_clock j"
  by (simp_all add: job_clock_def)

lemma job_keys_frame [simp]:
  "job_keys (j\<lparr>State := v0\<rparr>) = job_keys j" "job_keys (j\<lparr>ReasonCode := v1\<rparr>) = job_keys j"
  "job_keys (j\<lparr>UpdatedAt := v2\<rparr>) = job_keys j" "job_keys (j\<lparr>SessionID := v3\<rparr>) = job_keys j"
  "job_keys (j\<lparr>ArmTurnID := v4\<rparr>) = job_keys j" "job_keys (j\<lparr>CurrentTurnID := v5\<rparr>) = job_keys j"
  "job_keys (j\<lparr>ReadyTurnID := v6\<rparr>) = job_keys j" "job_keys (j\<lparr>StopTurnID := v7\<rparr>) = job_keys j"
  "job_keys (j\<lparr>Generation := v8\<rparr>) = job_keys j" "job_keys (j\<lparr>CompletionStatus := v9\<rparr>) = job_keys j"
  "job_keys (j\<lparr>CompletionEvidenceHash := v10\<rparr>) = job_keys j" "job_keys (j\<lparr>HookCompatibility := v11\<rparr>) = job_keys j"
  "job_keys (j\<lparr>ArmObserved := v12\<rparr>) = job_keys j" "job_keys (j\<lparr>FinishObserved := v13\<rparr>) = job_keys j"
  "job_keys (j\<lparr>WorkspaceCWD := v14\<rparr>) = job_keys j" "job_keys (j\<lparr>SupervisorPID := v15\<rparr>) = job_keys j"
  "job_keys (j\<lparr>VerifierPassed := v16\<rparr>) = job_keys j" "job_keys (j\<lparr>VerifierExitCode := v17\<rparr>) = job_keys j"
  "job_keys (j\<lparr>HookFingerprintH1 := v18\<rparr>) = job_keys j" "job_keys (j\<lparr>HookFingerprintH2 := v19\<rparr>) = job_keys j"
  "job_keys (j\<lparr>HookFingerprintH3 := v20\<rparr>) = job_keys j" "job_keys (j\<lparr>HostSnapshotReason := v21\<rparr>) = job_keys j"
  "job_keys (j\<lparr>HostInstanceID := v22\<rparr>) = job_keys j" "job_keys (j\<lparr>ActionIntentAt := v23\<rparr>) = job_keys j"
  "job_keys (j\<lparr>ScheduledFor := v24\<rparr>) = job_keys j" "job_keys (j\<lparr>PowerCapabilities := v25\<rparr>) = job_keys j"
  "job_keys (j\<lparr>PowerReceipt := v26\<rparr>) = job_keys j" "job_keys (j\<lparr>JobCancelResult := v27\<rparr>) = job_keys j"
  "job_keys (j\<lparr>CancelRequested := v28\<rparr>) = job_keys j" "job_keys (j\<lparr>CancelReason := v29\<rparr>) = job_keys j"
  "job_keys (j\<lparr>JobReconcileResult := v30\<rparr>) = job_keys j" "job_keys (j\<lparr>ControllerSessionHash := v31\<rparr>) = job_keys j"
  "job_keys (j\<lparr>ControllerArmTurnHash := v32\<rparr>) = job_keys j" "job_keys (j\<lparr>StopTargets := v33\<rparr>) = job_keys j"
  "job_keys (j\<lparr>TargetReservationsCommitted := v34\<rparr>) = job_keys j" "job_keys (j\<lparr>TargetIndexesReady := v35\<rparr>) = job_keys j"
  by (simp_all add: job_keys_def)

lemma BarrierSatisfied_frame [simp]:
  "BarrierSatisfied (j\<lparr>State := v0\<rparr>) = BarrierSatisfied j" "BarrierSatisfied (j\<lparr>ReasonCode := v1\<rparr>) = BarrierSatisfied j"
  "BarrierSatisfied (j\<lparr>UpdatedAt := v2\<rparr>) = BarrierSatisfied j" "BarrierSatisfied (j\<lparr>SessionID := v3\<rparr>) = BarrierSatisfied j"
  "BarrierSatisfied (j\<lparr>ArmTurnID := v4\<rparr>) = BarrierSatisfied j"
  "BarrierSatisfied (j\<lparr>CurrentTurnID := v5\<rparr>) = BarrierSatisfied j"
  "BarrierSatisfied (j\<lparr>ReadyTurnID := v6\<rparr>) = BarrierSatisfied j"
  "BarrierSatisfied (j\<lparr>StopTurnID := v7\<rparr>) = BarrierSatisfied j" "BarrierSatisfied (j\<lparr>Generation := v8\<rparr>) = BarrierSatisfied j"
  "BarrierSatisfied (j\<lparr>CompletionStatus := v9\<rparr>) = BarrierSatisfied j"
  "BarrierSatisfied (j\<lparr>CompletionEvidenceHash := v10\<rparr>) = BarrierSatisfied j"
  "BarrierSatisfied (j\<lparr>HookCompatibility := v11\<rparr>) = BarrierSatisfied j"
  "BarrierSatisfied (j\<lparr>ArmObserved := v12\<rparr>) = BarrierSatisfied j"
  "BarrierSatisfied (j\<lparr>FinishObserved := v13\<rparr>) = BarrierSatisfied j"
  "BarrierSatisfied (j\<lparr>ProcessedEventKeys := v14\<rparr>) = BarrierSatisfied j"
  "BarrierSatisfied (j\<lparr>WorkspaceCWD := v15\<rparr>) = BarrierSatisfied j"
  "BarrierSatisfied (j\<lparr>SupervisorPID := v16\<rparr>) = BarrierSatisfied j"
  "BarrierSatisfied (j\<lparr>VerifierPassed := v17\<rparr>) = BarrierSatisfied j"
  "BarrierSatisfied (j\<lparr>VerifierExitCode := v18\<rparr>) = BarrierSatisfied j"
  "BarrierSatisfied (j\<lparr>HookFingerprintH1 := v19\<rparr>) = BarrierSatisfied j"
  "BarrierSatisfied (j\<lparr>HookFingerprintH2 := v20\<rparr>) = BarrierSatisfied j"
  "BarrierSatisfied (j\<lparr>HookFingerprintH3 := v21\<rparr>) = BarrierSatisfied j"
  "BarrierSatisfied (j\<lparr>HostSnapshotReason := v22\<rparr>) = BarrierSatisfied j"
  "BarrierSatisfied (j\<lparr>HostInstanceID := v23\<rparr>) = BarrierSatisfied j"
  "BarrierSatisfied (j\<lparr>ActionIntentAt := v24\<rparr>) = BarrierSatisfied j"
  "BarrierSatisfied (j\<lparr>ScheduledFor := v25\<rparr>) = BarrierSatisfied j"
  "BarrierSatisfied (j\<lparr>PowerCapabilities := v26\<rparr>) = BarrierSatisfied j"
  "BarrierSatisfied (j\<lparr>PowerReceipt := v27\<rparr>) = BarrierSatisfied j"
  "BarrierSatisfied (j\<lparr>JobCancelResult := v28\<rparr>) = BarrierSatisfied j"
  "BarrierSatisfied (j\<lparr>CancelRequested := v29\<rparr>) = BarrierSatisfied j"
  "BarrierSatisfied (j\<lparr>CancelReason := v30\<rparr>) = BarrierSatisfied j"
  "BarrierSatisfied (j\<lparr>JobReconcileResult := v31\<rparr>) = BarrierSatisfied j"
  "BarrierSatisfied (j\<lparr>ControllerSessionHash := v32\<rparr>) = BarrierSatisfied j"
  "BarrierSatisfied (j\<lparr>ControllerArmTurnHash := v33\<rparr>) = BarrierSatisfied j"
  "BarrierSatisfied (j\<lparr>TargetReservationsCommitted := v34\<rparr>) = BarrierSatisfied j"
  "BarrierSatisfied (j\<lparr>TargetIndexesReady := v35\<rparr>) = BarrierSatisfied j"
  by (simp_all add: BarrierSatisfied_def)

lemma job_binding_frame [simp]:
  "job_binding (j\<lparr>ReasonCode := v0\<rparr>) = job_binding j" "job_binding (j\<lparr>UpdatedAt := v1\<rparr>) = job_binding j"
  "job_binding (j\<lparr>ReadyTurnID := v2\<rparr>) = job_binding j" "job_binding (j\<lparr>Generation := v3\<rparr>) = job_binding j"
  "job_binding (j\<lparr>CompletionStatus := v4\<rparr>) = job_binding j" "job_binding (j\<lparr>CompletionEvidenceHash := v5\<rparr>) = job_binding j"
  "job_binding (j\<lparr>HookCompatibility := v6\<rparr>) = job_binding j" "job_binding (j\<lparr>FinishObserved := v7\<rparr>) = job_binding j"
  "job_binding (j\<lparr>ProcessedEventKeys := v8\<rparr>) = job_binding j" "job_binding (j\<lparr>WorkspaceCWD := v9\<rparr>) = job_binding j"
  "job_binding (j\<lparr>SupervisorPID := v10\<rparr>) = job_binding j" "job_binding (j\<lparr>VerifierPassed := v11\<rparr>) = job_binding j"
  "job_binding (j\<lparr>VerifierExitCode := v12\<rparr>) = job_binding j" "job_binding (j\<lparr>HookFingerprintH1 := v13\<rparr>) = job_binding j"
  "job_binding (j\<lparr>HookFingerprintH2 := v14\<rparr>) = job_binding j" "job_binding (j\<lparr>HookFingerprintH3 := v15\<rparr>) = job_binding j"
  "job_binding (j\<lparr>HostSnapshotReason := v16\<rparr>) = job_binding j" "job_binding (j\<lparr>HostInstanceID := v17\<rparr>) = job_binding j"
  "job_binding (j\<lparr>ActionIntentAt := v18\<rparr>) = job_binding j" "job_binding (j\<lparr>ScheduledFor := v19\<rparr>) = job_binding j"
  "job_binding (j\<lparr>PowerCapabilities := v20\<rparr>) = job_binding j" "job_binding (j\<lparr>PowerReceipt := v21\<rparr>) = job_binding j"
  "job_binding (j\<lparr>JobCancelResult := v22\<rparr>) = job_binding j" "job_binding (j\<lparr>CancelRequested := v23\<rparr>) = job_binding j"
  "job_binding (j\<lparr>CancelReason := v24\<rparr>) = job_binding j" "job_binding (j\<lparr>JobReconcileResult := v25\<rparr>) = job_binding j"
  by (simp_all add: job_binding_def)

lemma job_evidence_frame [simp]:
  "job_evidence (j\<lparr>ReasonCode := v0\<rparr>) = job_evidence j" "job_evidence (j\<lparr>UpdatedAt := v1\<rparr>) = job_evidence j"
  "job_evidence (j\<lparr>SessionID := v2\<rparr>) = job_evidence j" "job_evidence (j\<lparr>ArmTurnID := v3\<rparr>) = job_evidence j"
  "job_evidence (j\<lparr>CurrentTurnID := v4\<rparr>) = job_evidence j" "job_evidence (j\<lparr>Generation := v5\<rparr>) = job_evidence j"
  "job_evidence (j\<lparr>CompletionStatus := v6\<rparr>) = job_evidence j" "job_evidence (j\<lparr>HookCompatibility := v7\<rparr>) = job_evidence j"
  "job_evidence (j\<lparr>ArmObserved := v8\<rparr>) = job_evidence j" "job_evidence (j\<lparr>FinishObserved := v9\<rparr>) = job_evidence j"
  "job_evidence (j\<lparr>ProcessedEventKeys := v10\<rparr>) = job_evidence j" "job_evidence (j\<lparr>WorkspaceCWD := v11\<rparr>) = job_evidence j"
  "job_evidence (j\<lparr>SupervisorPID := v12\<rparr>) = job_evidence j" "job_evidence (j\<lparr>VerifierExitCode := v13\<rparr>) = job_evidence j"
  "job_evidence (j\<lparr>HookFingerprintH1 := v14\<rparr>) = job_evidence j" "job_evidence (j\<lparr>HookFingerprintH2 := v15\<rparr>) = job_evidence j"
  "job_evidence (j\<lparr>HookFingerprintH3 := v16\<rparr>) = job_evidence j"
  "job_evidence (j\<lparr>HostSnapshotReason := v17\<rparr>) = job_evidence j" "job_evidence (j\<lparr>HostInstanceID := v18\<rparr>) = job_evidence j"
  "job_evidence (j\<lparr>JobCancelResult := v19\<rparr>) = job_evidence j" "job_evidence (j\<lparr>JobReconcileResult := v20\<rparr>) = job_evidence j"
  "job_evidence (j\<lparr>ControllerSessionHash := v21\<rparr>) = job_evidence j"
  "job_evidence (j\<lparr>ControllerArmTurnHash := v22\<rparr>) = job_evidence j"
  "job_evidence (j\<lparr>TargetReservationsCommitted := v23\<rparr>) = job_evidence j"
  "job_evidence (j\<lparr>TargetIndexesReady := v24\<rparr>) = job_evidence j"
  by (simp_all add: job_evidence_def BarrierSatisfied_def)

text \<open>Closing a valid job in a terminal state that needs no evidence keeps it valid.\<close>

definition plain_terminal :: "State \<Rightarrow> bool" where
  "plain_terminal s \<longleftrightarrow> IsTerminal s \<and> s \<noteq> StateDryRunComplete \<and> s \<noteq> StateActionExecutionUnverified \<and>
     s \<noteq> StateActionExecutedConfirmed"

lemma plain_terminalD:
  "plain_terminal s \<Longrightarrow> IsTerminal s \<and> state_known s \<and> s \<noteq> StateDryRunComplete \<and> s \<noteq> StateActionExecutionUnverified \<and>
     s \<noteq> StateActionExecutedConfirmed \<and> s \<noteq> StateArmPendingBind \<and> s \<noteq> StateReadyPendingStop \<and>
     s \<noteq> StateStopObserved \<and> s \<noteq> StateActionIntent \<and> s \<noteq> StateActionScheduled"
  by (auto simp: plain_terminal_def)

lemma plain_terminal_simps [simp]:
  "plain_terminal StateHookUnavailable" "plain_terminal StateHookConflict" "plain_terminal StateExpired"
  "plain_terminal StateCancelled" "plain_terminal StateOrphaned" "plain_terminal StateNotDone"
  "plain_terminal StateVerificationFailed" "plain_terminal StateActionFailed"
  by (simp_all add: plain_terminal_def)

lemma close_groups:
  assumes "plain_terminal s"
  shows "job_clock j \<Longrightarrow> job_clock (j\<lparr>State := s\<rparr>)"
    and "job_binding j \<Longrightarrow> job_binding (j\<lparr>State := s\<rparr>)"
    and "job_evidence j \<Longrightarrow> job_evidence (j\<lparr>State := s\<rparr>)"
  using plain_terminalD [OF assms]
  by (auto simp: job_clock_def job_binding_def job_evidence_def split: if_splits)

lemma clock_groups:
  "job_clock j \<Longrightarrow> now \<noteq> 0 \<Longrightarrow> job_clock (j\<lparr>UpdatedAt := now\<rparr>)"
  "job_clock j \<Longrightarrow> g \<noteq> 0 \<Longrightarrow> job_clock (j\<lparr>Generation := g\<rparr>)"
  by (simp_all add: job_clock_def)

lemma cancel_groups:
  "job_evidence j \<Longrightarrow> TrimSpace reason \<noteq> [] \<Longrightarrow> job_evidence (j\<lparr>CancelRequested := True, CancelReason := reason\<rparr>)"
  by (simp add: job_evidence_def)

lemma Validate_close:
  assumes "Validate j = None" and "plain_terminal s" and "now \<noteq> 0" and "g \<noteq> 0"
  shows "Validate (j\<lparr>Generation := g, State := s, ReasonCode := r, UpdatedAt := now\<rparr>) = None"
  using Validate_NoneD [OF assms(1)] assms(2-)
  by (intro Validate_NoneI) (simp_all add: close_groups clock_groups)

lemma Validate_cancel:
  assumes "Validate j = None" and "TrimSpace reason \<noteq> []" and "now \<noteq> 0" and "g \<noteq> 0"
  shows "Validate (j\<lparr>Generation := g, CancelRequested := True, CancelReason := reason, ReasonCode := r, UpdatedAt := now\<rparr>) = None"
  using Validate_NoneD [OF assms(1)] assms(2-)
  by (intro Validate_NoneI) (simp_all add: cancel_groups clock_groups)

end
