(* ===== verification/Plugin_Disk.thy ===== *)
theory Plugin_Disk
  imports Go_Files Plugin_Job
begin

text \<open>
  The persistent data of \<open>internal/pluginstate\<close>: the records of \<open>store.go\<close> and \<open>recovery.go\<close>,
  the files that hold them, and the trusted read of \<open>internal/filetrust/filetrust.go\<close>.

  The directory tree below the store's root is a record of association lists, keyed by what the
  file names spell: job files by job id, session indexes by session hash, event logs by job id,
  revocation directories by job and binding id, recovery files by job id. A file is what the
  reading code can tell apart: unreadable, not owner controlled, too large, not decodable (a
  partly written file is of this kind), decodable with trailing data, or one decoded record.
\<close>

subsection \<open>Records of store.go\<close>

record Event =
  ev_SchemaVersion :: string
  ev_Timestamp :: time
  ev_JobID :: string
  ev_Name :: string
  ev_EventKey :: string
  ev_OldState :: State
  ev_NewState :: State
  ev_ReasonCode :: string
  ev_Generation :: u64
  ev_SessionHash :: string
  ev_TurnHash :: string

record sessionIndex =
  ix_SchemaVersion :: string
  ix_JobID :: string
  ix_TargetBindingID :: string
  ix_TargetSessionHash :: string

record RevocationMarker =
  rm_SchemaVersion :: string
  rm_JobID :: string
  rm_TargetBindingID :: string
  rm_TargetHash :: string
  rm_TurnHash :: string
  rm_EventKey :: string
  rm_Reason :: string
  rm_Timestamp :: time

definition zero_Marker :: RevocationMarker where
  "zero_Marker = \<lparr>rm_SchemaVersion = [], rm_JobID = [], rm_TargetBindingID = [], rm_TargetHash = [],
     rm_TurnHash = [], rm_EventKey = [], rm_Reason = [], rm_Timestamp = 0\<rparr>"

subsection \<open>Records of recovery.go\<close>

abbreviation (input) recoveryRecordSchema :: string where "recoveryRecordSchema \<equiv> ''1''"

record RecoveryEnvelope =
  re_SchemaVersion :: string
  re_JobID :: string
  re_BindingID :: string
  re_Action :: string
  re_TriggerPolicy :: TriggerPolicy
  re_CreatedAt :: time
  re_IntentReceipt :: Receipt
  re_EnvelopeHash :: string

record ScheduleCallStarted =
  sc_SchemaVersion :: string
  sc_JobID :: string
  sc_EnvelopeHash :: string
  sc_StartedAt :: time
  sc_CallHash :: string

record ScheduleReceiptSeal =
  ss_SchemaVersion :: string
  ss_JobID :: string
  ss_EnvelopeHash :: string
  ss_CallHash :: string
  ss_SealedAt :: time
  ss_Receipt :: Receipt
  ss_SealHash :: string

record RecoveryResolution =
  rr_SchemaVersion :: string
  rr_JobID :: string
  rr_EnvelopeHash :: string
  rr_CallHash :: string
  rr_ReceiptHash :: string
  rr_Outcome :: string
  rr_Reason :: string
  rr_ResolvedAt :: time
  rr_CancelResult :: "CancelResult option"
  rr_ResolutionHash :: string

subsection \<open>The directory tree\<close>

record recovery_files =
  rf_envelope :: "RecoveryEnvelope node option"
  rf_call :: "ScheduleCallStarted node option"
  rf_receipt :: "ScheduleReceiptSeal node option"
  rf_resolution :: "RecoveryResolution node option"

record plugin_disk =
  d_jobs :: "(string \<times> Job node) list"
  d_sessions :: "(string \<times> sessionIndex node) list"
  d_events :: "(string \<times> Event list) list"
  d_revocations :: "((string \<times> string) \<times> (string \<times> RevocationMarker dirent) list) list"
  d_recovery :: "(string \<times> recovery_files) list"

definition empty_disk :: plugin_disk where
  "empty_disk = \<lparr>d_jobs = [], d_sessions = [], d_events = [], d_revocations = [], d_recovery = []\<rparr>"

type_synonym pworld = "plugin_disk world"
type_synonym 'a pop = "(pworld, 'a) state"

definition job_file :: "plugin_disk \<Rightarrow> string \<Rightarrow> Job node option" where
  "job_file d i = map_of (d_jobs d) i"

definition index_file :: "plugin_disk \<Rightarrow> string \<Rightarrow> sessionIndex node option" where
  "index_file d h = map_of (d_sessions d) h"

definition events_of :: "plugin_disk \<Rightarrow> string \<Rightarrow> Event list" where
  "events_of d i = (case map_of (d_events d) i of None \<Rightarrow> [] | Some es \<Rightarrow> es)"

definition put_job_at :: "string \<Rightarrow> Job \<Rightarrow> plugin_disk \<Rightarrow> plugin_disk" where
  "put_job_at i j d = d\<lparr>d_jobs := AList.update i (File (Parsed j)) (d_jobs d)\<rparr>"

abbreviation put_job :: "Job \<Rightarrow> plugin_disk \<Rightarrow> plugin_disk" where
  "put_job j \<equiv> put_job_at (JobID j) j"

definition put_index :: "string \<Rightarrow> sessionIndex \<Rightarrow> plugin_disk \<Rightarrow> plugin_disk" where
  "put_index h ix d = d\<lparr>d_sessions := AList.update h (File (Parsed ix)) (d_sessions d)\<rparr>"

definition remove_index :: "string \<Rightarrow> plugin_disk \<Rightarrow> plugin_disk" where
  "remove_index h d = d\<lparr>d_sessions := AList.delete h (d_sessions d)\<rparr>"

definition append_event :: "Event \<Rightarrow> plugin_disk \<Rightarrow> plugin_disk" where
  "append_event e d = d\<lparr>d_events := AList.update (ev_JobID e) (events_of d (ev_JobID e) @ [e]) (d_events d)\<rparr>"

named_theorems disk_simps

lemma job_file_put [simp, disk_simps]:
  "job_file (put_job_at i' j d) i = (if i = i' then Some (File (Parsed j)) else job_file d i)"
  "job_file (put_index h ix d) i = job_file d i" "job_file (remove_index h d) i = job_file d i"
  "job_file (append_event e d) i = job_file d i"
  by (simp_all add: job_file_def put_job_at_def put_index_def remove_index_def append_event_def update_conv')

lemma index_file_put [simp, disk_simps]:
  "index_file (put_index h ix d) h' = (if h' = h then Some (File (Parsed ix)) else index_file d h')"
  "index_file (remove_index h d) h' = (if h' = h then None else index_file d h')"
  "index_file (put_job_at i' j d) h' = index_file d h'" "index_file (append_event e d) h' = index_file d h'"
  by (simp_all add: index_file_def put_job_at_def put_index_def remove_index_def append_event_def update_conv' delete_conv')

lemma events_of_put [simp, disk_simps]:
  "events_of (append_event e d) i = (if i = ev_JobID e then events_of d i @ [e] else events_of d i)"
  "events_of (put_job_at i' j d) i = events_of d i" "events_of (put_index h ix d) i = events_of d i"
  "events_of (remove_index h d) i = events_of d i"
  by (simp_all add: events_of_def put_job_at_def put_index_def remove_index_def append_event_def update_conv')

lemma d_revocations_put [simp, disk_simps]:
  "d_revocations (put_job_at i' j d) = d_revocations d" "d_revocations (put_index h ix d) = d_revocations d"
  "d_revocations (remove_index h d) = d_revocations d" "d_revocations (append_event e d) = d_revocations d"
  by (simp_all add: put_job_at_def put_index_def remove_index_def append_event_def)

lemma d_recovery_put [simp, disk_simps]:
  "d_recovery (put_job_at i' j d) = d_recovery d" "d_recovery (put_index h ix d) = d_recovery d"
  "d_recovery (remove_index h d) = d_recovery d" "d_recovery (append_event e d) = d_recovery d"
  by (simp_all add: put_job_at_def put_index_def remove_index_def append_event_def)

end
