(* ===== verification/Plugin_Store.thy ===== *)
theory Plugin_Store
  imports Plugin_Disk
begin

text \<open>
  \<open>internal/pluginstate/store.go\<close>: loading and migrating jobs, session indexes, the event log, the
  update of a job under the lock, the binding of a session, and barrier reservations. Reads are
  functions of the disk; an operation with effects is a program over the store's world. The
  functions whose names end in \<open>Unlocked\<close> run while their caller holds the lock. The closures
  that Go passes to the update functions are functions from the job (and the index of the
  observed target) and the time to an error and the job they leave behind.
\<close>

abbreviation stateLockTimeout :: duration where "stateLockTimeout \<equiv> 500 * Millisecond"

subsection \<open>Loading\<close>

definition migrate :: "Job \<Rightarrow> err option \<times> Job" where
  "migrate job =
     (if SchemaVersion job = CurrentSchemaVersion then (None, job)
      else if SchemaVersion job = ''3'' then (None, job\<lparr>SchemaVersion := CurrentSchemaVersion\<rparr>)
      else if SchemaVersion job = ''2'' then
        (None, job\<lparr>SchemaVersion := CurrentSchemaVersion, TriggerPolicy := TriggerVerifiedSuccess,
           StopWithoutSuccessAck := False\<rparr>)
      else if SchemaVersion job = ''1'' then
        (if \<not> DryRun job then (Some (Err ''legacy plugin schema unexpectedly contains an execute job''), job)
         else (None, job\<lparr>SchemaVersion := CurrentSchemaVersion, TriggerPolicy := TriggerVerifiedSuccess,
                StopWithoutSuccessAck := False\<rparr>))
      else (Some (Err ''unsupported plugin job schema %q''), job))"

definition loadPath :: "plugin_disk \<Rightarrow> string \<Rightarrow> err + Job" where
  "loadPath d expectedJobID =
     (case OpenOwnerControlled (job_file d expectedJobID) of
        Inl e \<Rightarrow> Inl e
      | Inr Oversized \<Rightarrow> Inl (Err ''plugin job %s exceeds %d bytes'')
      | Inr Undecodable \<Rightarrow> Inl (Wrap ''decode plugin job %s: %w'' (Err ''unexpected EOF''))
      | Inr Trailing \<Rightarrow> Inl (Err ''plugin job %s contains trailing data'')
      | Inr (Parsed job) \<Rightarrow>
          if JobID job \<noteq> expectedJobID then Inl (Err ''plugin job %s has an invalid identity'')
          else case migrate job of
            (Some e, _) \<Rightarrow> Inl (Wrap ''plugin job %s cannot be migrated: %w'' e)
          | (None, job') \<Rightarrow>
              (case Validate job' of
                 Some e \<Rightarrow> Inl (Wrap ''plugin job %s is invalid: %w'' e)
               | None \<Rightarrow> Inr job'))"

definition store_Load :: "string \<Rightarrow> (err + Job) pop" where
  "store_Load jobID =
     or_return (ValidateJobID jobID) Inl (do { d \<leftarrow> observe; ret (loadPath d jobID) })"

text \<open>\<open>List\<close>: every job in the order of the file names, then the newest first.\<close>

fun load_all :: "plugin_disk \<Rightarrow> string list \<Rightarrow> err + Job list" where
  "load_all d [] = Inr []"
| "load_all d (i # is) =
     (case ValidateJobID i of Some e \<Rightarrow> Inl e | None \<Rightarrow>
      case loadPath d i of Inl e \<Rightarrow> Inl e | Inr j \<Rightarrow>
      case load_all d is of Inl e \<Rightarrow> Inl e | Inr js \<Rightarrow> Inr (j # js))"

definition store_List :: "(err + Job list) pop" where
  "store_List = do {
     r \<leftarrow> call;
     or_return r (\<lambda>e. Inl (Wrap ''list plugin jobs: %w'' e)) (do {
       d \<leftarrow> observe;
       ret (case load_all d (map fst (ReadDir (d_jobs d))) of
              Inl e \<Rightarrow> Inl e
            | Inr js \<Rightarrow> Inr (sort_key (\<lambda>j. - CreatedAt j) js)) }) }"

lemma migrate_cases:
  "migrate job = (e, job') \<Longrightarrow>
     (e = None \<longrightarrow> SchemaVersion job' = CurrentSchemaVersion) \<and> JobID job' = JobID job \<and>
     State job' = State job \<and> Generation job' = Generation job \<and>
     ProcessedEventKeys job' = ProcessedEventKeys job"
  by (auto simp: migrate_def split: if_splits)

lemma migrate_current [simp]: "SchemaVersion j = CurrentSchemaVersion \<Longrightarrow> migrate j = (None, j)"
  by (simp add: migrate_def)

lemma loadPath_Inr:
  "loadPath d i = Inr j \<longleftrightarrow>
     (\<exists>j0. job_file d i = Some (File (Parsed j0)) \<and> JobID j0 = i \<and> migrate j0 = (None, j) \<and> Validate j = None)"
  by (auto simp: loadPath_def split: sum.splits body.splits prod.splits option.splits)

lemma loadPath_valid: "loadPath d i = Inr j \<Longrightarrow> Validate j = None \<and> JobID j = i"
  by (auto simp: loadPath_Inr dest: migrate_cases)

lemma Validate_schema: "Validate j = None \<Longrightarrow> SchemaVersion j = CurrentSchemaVersion"
  by (drule Validate_NoneD(1)) (simp add: job_fixed_def)

lemma loadPath_put [simp]:
  "Validate j = None \<Longrightarrow> loadPath (put_job j d) (JobID j) = Inr j"
  by (simp add: loadPath_Inr Validate_schema)

lemma loadPath_cong: "job_file d i = job_file d' i \<Longrightarrow> loadPath d i = loadPath d' i"
  by (simp add: loadPath_def)

lemma loadPath_frame [simp]:
  "loadPath (append_event e d) i = loadPath d i" "loadPath (put_index h ix d) i = loadPath d i"
  "loadPath (remove_index h d) i = loadPath d i"
  by (simp_all add: loadPath_def)

subsection \<open>Event keys\<close>

definition hasEventKey :: "Job \<Rightarrow> string \<Rightarrow> bool" where
  "hasEventKey job eventKey \<longleftrightarrow> eventKey \<in> set (ProcessedEventKeys job)"

definition appendEventKey :: "string list \<Rightarrow> string \<Rightarrow> string list" where
  "appendEventKey keys eventKey =
     (let keys = keys @ [eventKey]
      in if length keys > MaximumLegacyEventKeys then drop (length keys - MaximumLegacyEventKeys) keys else keys)"

definition appendProcessedEventKey :: "Job \<Rightarrow> string \<Rightarrow> err option \<times> Job" where
  "appendProcessedEventKey job eventKey =
     (if TriggerPolicy job \<noteq> TriggerAfterAllStop then
        (None, job\<lparr>ProcessedEventKeys := appendEventKey (ProcessedEventKeys job) eventKey\<rparr>)
      else if length (ProcessedEventKeys job) \<ge> MaximumBarrierEventKeys then
        (Some (Err ''barrier processed-event capacity is exhausted''), job)
      else (None, job\<lparr>ProcessedEventKeys := ProcessedEventKeys job @ [eventKey]\<rparr>))"

definition validateEventKey :: "string \<Rightarrow> err option" where
  "validateEventKey eventKey = reject (eventKey \<noteq> [] \<and> \<not> ValidIdentityHash eventKey) ''invalid hook event key''"

definition validateBinding :: "string \<Rightarrow> string \<Rightarrow> err option" where
  "validateBinding sessionID turnID = checks [
     reject (TrimSpace sessionID = [] \<or> length sessionID > 1024) ''invalid hook session id'',
     reject (TrimSpace turnID = [] \<or> length turnID > 1024) ''invalid hook turn id'']"

definition validateTargetSessionID :: "string \<Rightarrow> err option" where
  "validateTargetSessionID sessionID =
     reject (sessionID = [] \<or> length sessionID > 1024 \<or> TrimSpace sessionID \<noteq> sessionID) ''invalid target session id''"

definition hashOptional :: "string \<Rightarrow> string" where
  "hashOptional v = (if v = [] then [] else SHA256 v)"

definition shouldReleaseBarrierIndexes :: "Job \<Rightarrow> bool" where
  "shouldReleaseBarrierIndexes job \<longleftrightarrow>
     TriggerPolicy job = TriggerAfterAllStop \<and> IsTerminal (State job) \<and> \<not> HasUnresolvedPowerAction job"

lemma appendEventKey_last [simp]: "eventKey \<in> set (appendEventKey keys eventKey)"
  by (simp add: appendEventKey_def Let_def)

lemma appendEventKey_length: "length (appendEventKey keys k) \<le> MaximumLegacyEventKeys"
  by (simp add: appendEventKey_def Let_def)

lemma appendEventKey_set: "set (appendEventKey keys k) \<subseteq> insert k (set keys)"
proof -
  have "set (drop n (keys @ [k])) \<subseteq> insert k (set keys)" for n
    using set_drop_subset [of n "keys @ [k]"] by simp
  then show ?thesis by (simp add: appendEventKey_def Let_def)
qed

lemma ValidIdentityHash_SHA256 [simp]: "ValidIdentityHash (SHA256 s)"
  by (simp add: ValidIdentityHash_def SHA256_hex)

subsection \<open>Expiry\<close>

definition expire :: "Job \<Rightarrow> time \<Rightarrow> bool \<times> Job" where
  "expire job now =
     (if IsActive (State job) \<and> State job \<noteq> StateActionIntent \<and> State job \<noteq> StateActionScheduled \<and> Expired job now
      then (True, (bump job)\<lparr>State := StateExpired, ReasonCode := ''arm_expired'', CompletionEvidenceHash := [],
              ReadyTurnID := [], StopTurnID := []\<rparr>)
      else (False, job))"

definition ObservedBindingID :: "Job \<Rightarrow> string" where
  "ObservedBindingID job = (if TriggerPolicy job = TriggerAfterAllStop then TargetBindingID job else JobID job)"

lemma expire_cases:
  "expire job now = (b, job') \<Longrightarrow> (b \<longleftrightarrow> State job' = StateExpired \<and> \<not> IsTerminal (State job)) \<and> (\<not> b \<longrightarrow> job' = job)"
  by (auto simp: expire_def bump_def split: if_splits)

subsection \<open>Session indexes\<close>

text \<open>\<open>readSessionIndexHashUnlocked\<close>: the index, whether it was found, and the error.\<close>

definition zero_index :: sessionIndex where
  "zero_index = \<lparr>ix_SchemaVersion = [], ix_JobID = [], ix_TargetBindingID = [], ix_TargetSessionHash = []\<rparr>"

definition check_index :: "string \<Rightarrow> sessionIndex \<Rightarrow> err option" where
  "check_index sessionHash index = checks [
     reject (ix_SchemaVersion index \<noteq> ''1'' \<and> ix_SchemaVersion index \<noteq> ''2'') ''unsupported plugin session index'',
     reject (ValidateJobID (ix_JobID index) \<noteq> None) ''plugin session index has an invalid job id'',
     (if ix_SchemaVersion index = ''1'' then
        reject (ix_TargetBindingID index \<noteq> [] \<or> ix_TargetSessionHash index \<noteq> [])
          ''legacy plugin session index carries barrier fields''
      else checks [
        reject (ix_TargetSessionHash index \<noteq> sessionHash \<or> \<not> ValidIdentityHash (ix_TargetSessionHash index))
          ''barrier session index hash mismatch'',
        reject (ValidateJobID (ix_TargetBindingID index) \<noteq> None)
          ''barrier session index has an invalid binding id''])]"

definition readSessionIndexHashUnlocked :: "plugin_disk \<Rightarrow> string \<Rightarrow> sessionIndex \<times> bool \<times> err option" where
  "readSessionIndexHashUnlocked d sessionHash =
     (if \<not> ValidIdentityHash sessionHash then (zero_index, False, Some (Err ''invalid session hash''))
      else case OpenOwnerControlled (index_file d sessionHash) of
        Inl e \<Rightarrow> (zero_index, False, if errors_Is e ErrNotExist then None else Some e)
      | Inr Oversized \<Rightarrow> (zero_index, False, Some (Err ''plugin session index exceeds 4096 bytes''))
      | Inr Undecodable \<Rightarrow> (zero_index, False, Some (Wrap ''decode plugin session index: %w'' (Err ''unexpected EOF'')))
      | Inr Trailing \<Rightarrow> (zero_index, False, Some (Err ''plugin session index contains trailing data''))
      | Inr (Parsed index) \<Rightarrow>
          (case check_index sessionHash index of
             Some e \<Rightarrow> (zero_index, False, Some e)
           | None \<Rightarrow> (index, True, None)))"

definition writeSessionIndexUnlocked :: "string \<Rightarrow> string \<Rightarrow> err option pop" where
  "writeSessionIndexUnlocked sessionID jobID =
     AtomicWriteJSON (put_index (SHA256 sessionID) (zero_index\<lparr>ix_SchemaVersion := ''1'', ix_JobID := jobID\<rparr>))"

definition writeSessionIndexHashUnlocked :: "string \<Rightarrow> sessionIndex \<Rightarrow> err option pop" where
  "writeSessionIndexHashUnlocked sessionHash index =
     (if \<not> ValidIdentityHash sessionHash \<or> ix_TargetSessionHash index \<noteq> sessionHash \<or>
         ix_SchemaVersion index \<noteq> ''2'' then ret (Some (Err ''invalid barrier session index''))
      else AtomicWriteJSON (put_index sessionHash index))"

text \<open>The index a committed barrier target has to have.\<close>

definition index_for :: "Job \<Rightarrow> string \<Rightarrow> sessionIndex" where
  "index_for job h =
     \<lparr>ix_SchemaVersion = ''2'', ix_JobID = JobID job, ix_TargetBindingID = TargetBindingID job,
      ix_TargetSessionHash = h\<rparr>"

definition barrierIndexesMatchUnlocked :: "plugin_disk \<Rightarrow> Job \<Rightarrow> bool" where
  "barrierIndexesMatchUnlocked d job \<longleftrightarrow>
     \<not> (TriggerPolicy job \<noteq> TriggerAfterAllStop \<or> \<not> TargetReservationsCommitted job) \<and>
     list_all (\<lambda>target.
       (case readSessionIndexHashUnlocked d (tg_SessionHash target) of (index, found, err) \<Rightarrow>
          \<not> (err \<noteq> None \<or> \<not> found \<or> ix_SchemaVersion index \<noteq> ''2'' \<or> ix_JobID index \<noteq> JobID job \<or>
             ix_TargetBindingID index \<noteq> TargetBindingID job \<or>
             ix_TargetSessionHash index \<noteq> tg_SessionHash target))) (StopTargets job)"

text \<open>\<open>os.Remove\<close> answers \<open>ErrNotExist\<close> when the file is gone already.\<close>

definition removeMatchingSessionIndexUnlocked :: "string \<Rightarrow> string \<Rightarrow> string \<Rightarrow> err option pop" where
  "removeMatchingSessionIndexUnlocked sessionHash jobID bindingID = do {
     d \<leftarrow> read_disk;
     case readSessionIndexHashUnlocked d sessionHash of (index, found, err) \<Rightarrow>
       if err \<noteq> None \<or> \<not> found then ret err
       else if ix_JobID index \<noteq> jobID \<or> ix_TargetBindingID index \<noteq> bindingID \<or>
               ix_TargetSessionHash index \<noteq> sessionHash then ret None
       else do {
         r \<leftarrow> call;
         case r of
           None \<Rightarrow> do { change_disk (remove_index sessionHash); ret None }
         | Some e \<Rightarrow>
             if errors_Is e ErrNotExist then do { change_disk (remove_index sessionHash); ret None }
             else ret (Some (Wrap ''remove barrier session index: %w'' e)) } }"

fun release_indexes :: "Job \<Rightarrow> StopTarget list \<Rightarrow> err option pop" where
  "release_indexes job [] = ret None"
| "release_indexes job (t # ts) = do {
     r \<leftarrow> removeMatchingSessionIndexUnlocked (tg_SessionHash t) (JobID job) (TargetBindingID job);
     or_return r Some (release_indexes job ts) }"

definition releaseBarrierIndexesUnlocked :: "Job \<Rightarrow> err option pop" where
  "releaseBarrierIndexesUnlocked job = release_indexes job (StopTargets job)"

text \<open>\<open>findBySessionUnlocked\<close>.\<close>

definition findBySessionUnlocked :: "plugin_disk \<Rightarrow> string \<Rightarrow> Job \<times> bool \<times> err option" where
  "findBySessionUnlocked d sessionID =
     (let sessionHash = SHA256 sessionID in
      case readSessionIndexHashUnlocked d sessionHash of (index, found, err) \<Rightarrow>
      if err \<noteq> None \<or> \<not> found then (zero_Job, found, err)
      else case loadPath d (ix_JobID index) of
        Inl e \<Rightarrow> (zero_Job, False, Some e)
      | Inr job \<Rightarrow>
          if ix_SchemaVersion index = ''1'' then
            (if SessionID job \<noteq> sessionID \<or> TriggerPolicy job = TriggerAfterAllStop then
               (zero_Job, False, Some (Err ''plugin session index does not match job binding''))
             else (job, True, None))
          else if TriggerPolicy job \<noteq> TriggerAfterAllStop \<or> TargetBindingID job \<noteq> ix_TargetBindingID index \<or>
                  ix_TargetSessionHash index \<noteq> sessionHash then
            (zero_Job, False, Some (Err ''barrier session index does not match job binding''))
          else if job_StopTarget job sessionHash = None then
            (zero_Job, False, Some (Err ''barrier session index is not a job target''))
          else (job, True, None))"

subsection \<open>The event log\<close>

definition event_of :: "Job \<Rightarrow> string \<Rightarrow> string \<Rightarrow> string \<Rightarrow> string \<Rightarrow> State \<Rightarrow> time \<Rightarrow> Event" where
  "event_of job name eventKey sessionHash turnHash oldState t =
     \<lparr>ev_SchemaVersion = ''1'', ev_Timestamp = t, ev_JobID = JobID job, ev_Name = name,
      ev_EventKey = eventKey, ev_OldState = oldState, ev_NewState = State job,
      ev_ReasonCode = ReasonCode job, ev_Generation = Generation job,
      ev_SessionHash = (if sessionHash = [] \<and> TriggerPolicy job \<noteq> TriggerAfterAllStop \<and> SessionID job \<noteq> []
                        then SHA256 (SessionID job) else sessionHash),
      ev_TurnHash = turnHash\<rparr>"

definition appendEventUnlocked :: "Job \<Rightarrow> string \<Rightarrow> string \<Rightarrow> string \<Rightarrow> string \<Rightarrow> State \<Rightarrow> err option pop" where
  "appendEventUnlocked job name eventKey sessionHash turnHash oldState = do {
     t \<leftarrow> time_Now;
     r \<leftarrow> calls [''create %s: %w'', ''secure %s: %w'', ''inspect %s: %w'', ''%s must be owner controlled: %w'',
       ''open %s: %w'', ''secure %s: %w'', ''inspect %s: %w'', ''%s must be owner controlled: %w'',
       ''inspect opened %s: %w''];
     or_return r (\<lambda>e. Some (Wrap ''open plugin event log: %w'' e)) (do {
       encodeErr \<leftarrow> call;
       flushErr \<leftarrow> call;
       (if encodeErr = None \<and> flushErr = None then change_disk (append_event (event_of job name eventKey sessionHash turnHash oldState t)) else ret ());
       syncErr \<leftarrow> call;
       closeErr \<leftarrow> call;
       ret (first_err (map_option (Wrap ''write plugin event log: %w'')) [encodeErr, flushErr, syncErr, closeErr]) }) }"

lemma wp_appendEventUnlocked [wp_calls]:
  assumes "\<And>e n. Q (Some e) (at w (disk w) n)"
    and "\<And>r t n. Q r (at w (append_event (event_of job name key sh th old t) (disk w)) n)"
  shows "wp (appendEventUnlocked job name key sh th old) Q w"
  unfolding appendEventUnlocked_def wp_bind
  by (intro wp_time_Now wp_calls_seq)
     (auto simp del: calls.simps simp: wp_if first_err.simps assms split: option.splits intro!: wp_call)

text \<open>
  What removing the indexes of a job does: an index disappears only when it is the job's own
  reservation, and when no error is reported none of them is left.
\<close>

definition released :: "Job \<Rightarrow> plugin_disk \<Rightarrow> plugin_disk \<Rightarrow> bool" where
  "released job d d' \<longleftrightarrow>
     job_file d' = job_file d \<and> events_of d' = events_of d \<and>
     d_revocations d' = d_revocations d \<and> d_recovery d' = d_recovery d \<and>
     (\<forall>h. index_file d' h = index_file d h \<or>
          index_file d' h = None \<and> index_file d h = Some (File (Parsed (index_for job h))))"

definition holds_index :: "Job \<Rightarrow> plugin_disk \<Rightarrow> string \<Rightarrow> bool" where
  "holds_index job d h \<longleftrightarrow> index_file d h = Some (File (Parsed (index_for job h)))"

lemma released_refl [simp]: "released job d d"
  by (simp add: released_def)

lemma released_trans: "released job d d' \<Longrightarrow> released job d' d'' \<Longrightarrow> released job d d''"
  by (auto simp: released_def) metis+

lemma readSessionIndex_found:
  assumes "readSessionIndexHashUnlocked d h = (ix, True, e)"
  shows "e = None \<and> index_file d h = Some (File (Parsed ix)) \<and> check_index h ix = None \<and> ValidIdentityHash h"
  using assms
  by (auto simp: readSessionIndexHashUnlocked_def split: if_splits sum.splits body.splits option.splits)

lemma readSessionIndex_absent:
  assumes "readSessionIndexHashUnlocked d h = (ix, False, None)"
  shows "index_file d h = None \<and> ValidIdentityHash h"
  using assms
  by (auto simp: readSessionIndexHashUnlocked_def split: if_splits sum.splits body.splits option.splits)

lemma check_index_own:
  assumes "check_index h ix = None" and "ix_JobID ix = JobID job" and "ix_TargetBindingID ix = TargetBindingID job"
    and "ix_TargetSessionHash ix = h" and "ValidIdentityHash h"
  shows "ix = index_for job h"
  using assms
  by (cases ix) (auto simp: check_index_def index_for_def if_None ValidIdentityHash_def split: if_splits)

lemma wp_remove:
  assumes "\<And>r n. (r = None \<Longrightarrow> \<not> holds_index job (disk w) h) \<Longrightarrow> Q r (at w (disk w) n)"
    and "\<And>n. holds_index job (disk w) h \<Longrightarrow> Q None (at w (remove_index h (disk w)) n)"
  shows "wp (removeMatchingSessionIndexUnlocked h (JobID job) (TargetBindingID job)) Q w"
proof -
  obtain ix found e where r: "readSessionIndexHashUnlocked (disk w) h = (ix, found, e)"
    by (metis prod_cases3)
  have keep: "Q r w" if "r = None \<Longrightarrow> \<not> holds_index job (disk w) h" for r
    using assms(1) [of r "tick w"] that by simp
  show ?thesis
  proof (cases "e = None \<and> found")
    case False
    have "\<not> holds_index job (disk w) h" if "e = None"
      using r False that readSessionIndex_absent by (auto simp: holds_index_def)
    then show ?thesis
      using r False keep by (auto simp: removeMatchingSessionIndexUnlocked_def)
  next
    case True
    then have ix: "index_file (disk w) h = Some (File (Parsed ix))" "check_index h ix = None" "ValidIdentityHash h"
      using r readSessionIndex_found by auto
    show ?thesis
    proof (cases "ix = index_for job h")
      case own: True
      then have "holds_index job (disk w) h" using ix by (simp add: holds_index_def)
      then show ?thesis
        using r True own assms
        by (auto simp: removeMatchingSessionIndexUnlocked_def index_for_def wp_case_option wp_if intro!: wp_call)
    next
      case other: False
      then have "\<not> holds_index job (disk w) h" using ix by (simp add: holds_index_def)
      moreover have "\<not> (ix_JobID ix = JobID job \<and> ix_TargetBindingID ix = TargetBindingID job \<and> ix_TargetSessionHash ix = h)"
        using other ix check_index_own by blast
      ultimately show ?thesis
        using r True keep by (auto simp: removeMatchingSessionIndexUnlocked_def)
    qed
  qed
qed

lemma released_remove: "holds_index job d h \<Longrightarrow> released job d (remove_index h d)"
  by (auto simp: released_def holds_index_def fun_eq_iff)

lemma released_holds: "released job d d' \<Longrightarrow> holds_index job d' h \<Longrightarrow> holds_index job d h"
  by (auto simp: released_def holds_index_def) (metis option.distinct(1))

definition changed_within :: "string set \<Rightarrow> plugin_disk \<Rightarrow> plugin_disk \<Rightarrow> bool" where
  "changed_within H d d' \<longleftrightarrow> (\<forall>h. index_file d' h \<noteq> index_file d h \<longrightarrow> h \<in> H)"

lemma changed_within_simps [simp]:
  "changed_within H d d" "changed_within H d (remove_index h d) \<longleftrightarrow> index_file d h = None \<or> h \<in> H"
  by (auto simp: changed_within_def)

lemma changed_within_trans: "changed_within H d d' \<Longrightarrow> changed_within K d' d'' \<Longrightarrow> changed_within (H \<union> K) d d''"
  unfolding changed_within_def by (metis UnCI)

lemma wp_release_indexes:
  assumes "\<And>r d n. released job (disk w) d \<Longrightarrow> changed_within (tg_SessionHash ` set ts) (disk w) d \<Longrightarrow>
      (r = None \<Longrightarrow> \<forall>t \<in> set ts. \<not> holds_index job d (tg_SessionHash t)) \<Longrightarrow> Q r (at w d n)"
  shows "wp (release_indexes job ts) Q w"
  using assms
proof (induction ts arbitrary: w)
  case Nil
  from Nil [of "disk w" None "tick w"] show ?case by simp
next
  case (Cons t ts)
  let ?h = "tg_SessionHash t"
  have rest: "wp (release_indexes job ts) Q (at w d n)"
    if d: "released job (disk w) d" "\<not> holds_index job d ?h" "changed_within {?h} (disk w) d" for d n
  proof (rule Cons.IH)
    fix r :: "err option" and d' m
    assume d': "released job (disk (at w d n)) d'" "changed_within (tg_SessionHash ` set ts) (disk (at w d n)) d'"
      "r = None \<Longrightarrow> \<forall>t \<in> set ts. \<not> holds_index job d' (tg_SessionHash t)"
    have "released job (disk w) d'"
      using d'(1) d(1) released_trans by simp
    moreover have "\<not> holds_index job d' ?h"
      using d'(1) d(2) released_holds by auto
    moreover have "changed_within (tg_SessionHash ` set (t # ts)) (disk w) d'"
      using changed_within_trans [OF d(3), of _ d'] d'(2) by simp
    ultimately show "Q r (at (at w d n) d' m)"
      using d' Cons.prems [of d' r m] by auto
  qed
  have keep: "wp (release_indexes job ts) Q (at w (disk w) n)" if "\<not> holds_index job (disk w) ?h" for n
    using that by (intro rest) simp_all
  show ?case
    unfolding release_indexes.simps wp_bind wp_or_return
    by (rule wp_remove [where job = job])
       (auto intro!: rest keep Cons.prems released_remove simp: holds_index_def)
qed

lemmas wp_releaseBarrierIndexes =
  wp_release_indexes [of job w "StopTargets job" for job w, folded releaseBarrierIndexesUnlocked_def]

subsection \<open>Create\<close>

text \<open>\<open>os.Lstat\<close> of a job file that must not exist yet.\<close>

definition job_absent :: "plugin_disk \<Rightarrow> string \<Rightarrow> err option" where
  "job_absent d jobID =
     (case job_file d jobID of
        None \<Rightarrow> None
      | Some Unreadable \<Rightarrow> Some (Wrap ''inspect plugin job: %w'' (Err ''input/output error''))
      | Some _ \<Rightarrow> Some (Err ''plugin job %s already exists''))"

definition store_Create :: "Job \<Rightarrow> err option pop" where
  "store_Create job0 =
     (case migrate job0 of
        (Some e, _) \<Rightarrow> ret (Some e)
      | (None, job) \<Rightarrow>
          or_return (Validate job) Some (do {
            lock \<leftarrow> acquireStateLock stateLockTimeout;
            or_return lock Some (do {
              d \<leftarrow> read_disk;
              or_return (job_absent d (JobID job)) Some (do {
                r \<leftarrow> AtomicWriteJSON (put_job job);
                or_return r Some (appendEventUnlocked job ''mcp.arm'' [] [] [] StateArmPendingBind) }) }) }))"

subsection \<open>UpdateJob\<close>

definition record_event_key :: "string \<Rightarrow> Job \<Rightarrow> err option \<times> Job" where
  "record_event_key eventKey job = (if eventKey \<noteq> [] then appendProcessedEventKey job eventKey else (None, job))"

type_synonym update_result = "Job \<times> bool \<times> err option"

abbreviation failed :: "err \<Rightarrow> update_result" where "failed e \<equiv> (zero_Job, False, Some e)"

definition release_if_done :: "Job \<Rightarrow> err option pop" where
  "release_if_done job = (if shouldReleaseBarrierIndexes job then releaseBarrierIndexesUnlocked job else ret None)"

text \<open>
  The common end of the updates: the changed job is validated, written, loses its barrier
  indexes once it is done, and is logged. They differ in the message of a failed validation, in
  the hashes they log and in what they do when the event log cannot be written.
\<close>

definition write_update ::
    "string \<Rightarrow> string \<Rightarrow> string \<Rightarrow> string \<Rightarrow> string \<Rightarrow> string \<Rightarrow> State \<Rightarrow> (Job \<Rightarrow> unit pop) \<Rightarrow> Job \<Rightarrow> update_result pop" where
  "write_update message path eventName eventKey sessionHash turnHash oldState on_log_error job =
     or_return (map_option (Wrap message) (Validate job)) failed (do {
       r \<leftarrow> AtomicWriteJSON (put_job_at path job);
       or_return r failed (do {
         r \<leftarrow> release_if_done job;
         or_return r failed (do {
           r \<leftarrow> appendEventUnlocked job eventName eventKey sessionHash turnHash oldState;
           case r of
             Some e \<Rightarrow> do { on_log_error job; ret (failed e) }
           | None \<Rightarrow> ret (job, True, None) }) }) })"

text \<open>\<open>UpdateJob\<close> while it holds the lock.\<close>

definition UpdateJob_locked ::
    "string \<Rightarrow> string \<Rightarrow> string \<Rightarrow> (Job \<Rightarrow> time \<Rightarrow> err option \<times> Job) \<Rightarrow> update_result pop" where
  "UpdateJob_locked jobID eventName eventKey mutate = do {
     d \<leftarrow> read_disk;
     case loadPath d jobID of
       Inl e \<Rightarrow> ret (failed e)
     | Inr job \<Rightarrow>
         if eventKey \<noteq> [] \<and> hasEventKey job eventKey then ret (job, False, None)
         else do {
           now \<leftarrow> time_Now;
           case mutate job now of
             (Some e, job1) \<Rightarrow> ret (job1, False, Some e)
           | (None, job1) \<Rightarrow>
               (case record_event_key eventKey job1 of
                  (Some e, _) \<Rightarrow> ret (failed e)
                | (None, job2) \<Rightarrow>
                    write_update ''validate updated plugin job: %w'' jobID eventName eventKey [] [] (State job)
                      (\<lambda>_. ret ()) (job2\<lparr>UpdatedAt := now\<rparr>)) } }"

definition UpdateJob :: "string \<Rightarrow> string \<Rightarrow> string \<Rightarrow> (Job \<Rightarrow> time \<Rightarrow> err option \<times> Job) \<Rightarrow> update_result pop" where
  "UpdateJob jobID eventName eventKey mutate =
     or_return (ValidateJobID jobID) failed (or_return (validateEventKey eventKey) failed (do {
       lock \<leftarrow> acquireStateLock stateLockTimeout;
       or_return lock failed (UpdateJob_locked jobID eventName eventKey mutate) }))"

text \<open>\<open>RefreshExpiry\<close>.\<close>

definition RefreshExpiry :: "string \<Rightarrow> (Job \<times> err option) pop" where
  "RefreshExpiry jobID = do {
     l \<leftarrow> store_Load jobID;
     case l of
       Inl e \<Rightarrow> ret (zero_Job, Some e)
     | Inr current \<Rightarrow> do {
         now \<leftarrow> time_Now;
         if \<not> IsActive (State current) \<or> \<not> Expired current now then ret (current, None)
         else do {
           r \<leftarrow> UpdateJob jobID ''state.expiry_check'' [] (\<lambda>job now. (None, snd (expire job now)));
           case r of (job, _, err) \<Rightarrow> ret (job, err) } } }"

subsection \<open>What an update does\<close>

text \<open>How the disk changes when job \<open>j\<close> is written to the path of \<open>i\<close>, up to and including the log.\<close>

definition saved :: "string \<Rightarrow> Job \<Rightarrow> plugin_disk \<Rightarrow> plugin_disk \<Rightarrow> bool" where
  "saved i j d d' \<longleftrightarrow>
     (if shouldReleaseBarrierIndexes j then released j (put_job_at i j d) d' else d' = put_job_at i j d)"

definition written :: "string \<Rightarrow> Job \<Rightarrow> plugin_disk \<Rightarrow> plugin_disk \<Rightarrow> bool" where
  "written i j d d' \<longleftrightarrow>
     (\<exists>d1. saved i j d d1 \<and> (d' = d1 \<or> (\<exists>e. ev_JobID e = JobID j \<and> d' = append_event e d1)))"

text \<open>A finished job leaves no index behind.\<close>

definition indexes_gone :: "Job \<Rightarrow> plugin_disk \<Rightarrow> bool" where
  "indexes_gone j d \<longleftrightarrow>
     (shouldReleaseBarrierIndexes j \<longrightarrow> (\<forall>t \<in> set (StopTargets j). \<not> holds_index j d (tg_SessionHash t)))"

lemma written_saved [intro]: "saved i j d d' \<Longrightarrow> written i j d d'"
  by (auto simp: written_def)

lemma written_event [intro]: "saved i j d d1 \<Longrightarrow> ev_JobID e = JobID j \<Longrightarrow> written i j d (append_event e d1)"
  by (auto simp: written_def)

lemma saved_put [intro]: "saved i j d (put_job_at i j d)"
  by (simp add: saved_def)

lemma saved_job_file: "saved i j d d' \<Longrightarrow> job_file d' k = (if k = i then Some (File (Parsed j)) else job_file d k)"
  by (auto simp: saved_def released_def split: if_splits)

lemma written_job_file: "written i j d d' \<Longrightarrow> job_file d' k = (if k = i then Some (File (Parsed j)) else job_file d k)"
  by (auto simp: written_def saved_job_file)

lemma event_of_JobID [simp]: "ev_JobID (event_of j name key sh th old t) = JobID j"
  by (simp add: event_of_def)

lemma wp_release_if_done:
  assumes "\<And>r d n. (if shouldReleaseBarrierIndexes job then released job (disk w) d else d = disk w) \<Longrightarrow>
      (r = None \<Longrightarrow> indexes_gone job d) \<Longrightarrow> Q r (at w d n)"
  shows "wp (release_if_done job) Q w"
proof (cases "shouldReleaseBarrierIndexes job")
  case True
  then show ?thesis
    by (auto simp: release_if_done_def indexes_gone_def intro!: wp_releaseBarrierIndexes assms)
next
  case False
  then show ?thesis
    using assms [of "disk w" None "tick w"] by (simp add: release_if_done_def indexes_gone_def)
qed

lemma wp_write_update:
  assumes fail: "\<And>e n. Q (failed e) (at w (disk w) n)"
    and part: "\<And>e d n. Validate j = None \<Longrightarrow> saved i j (disk w) d \<Longrightarrow> Q (failed e) (at w d n)"
    and ok: "\<And>d t n. Validate j = None \<Longrightarrow> saved i j (disk w) d \<Longrightarrow> indexes_gone j d \<Longrightarrow>
        Q (j, True, None) (at w (append_event (event_of j name key sh th old t) d) n)"
    and log: "\<And>e d n. Validate j = None \<Longrightarrow> written i j (disk w) d \<Longrightarrow>
        wp (h j) (\<lambda>_. Q (failed e)) (at w d n)"
  shows "wp (write_update msg i name key sh th old h j) Q w"
proof (cases "Validate j")
  case (Some e)
  then show ?thesis
    using fail [of _ "tick w"] by (simp add: write_update_def)
next
  case None
  have append: "wp (do {
        r \<leftarrow> appendEventUnlocked j name key sh th old;
        case r of Some e \<Rightarrow> do { h j; ret (failed e) } | None \<Rightarrow> ret (j, True, None) }) Q (at w d n)"
    if d: "saved i j (disk w) d" "indexes_gone j d" for d n
    using d None
    by (auto simp: wp_case_option intro!: wp_appendEventUnlocked ok log written_event)
  have release: "wp (do {
        r \<leftarrow> release_if_done j;
        or_return r failed (do {
          r \<leftarrow> appendEventUnlocked j name key sh th old;
          case r of Some e \<Rightarrow> do { h j; ret (failed e) } | None \<Rightarrow> ret (j, True, None) }) }) Q
      (at w (put_job_at i j (disk w)) n)" for n
    unfolding wp_bind wp_or_return
    by (rule wp_release_if_done) (auto simp: saved_def None intro!: part append [unfolded wp_bind])
  show ?thesis
    unfolding write_update_def None option.map wp_or_return wp_bind
    by (auto intro!: wp_AtomicWriteJSON fail part release [unfolded wp_bind wp_or_return] saved_put None)
qed

subsection \<open>UpdateJob as a step\<close>

text \<open>
  \<open>next_job i key f d now old j\<close>: with the lock on disk \<open>d\<close>, the update of job \<open>i\<close> at \<open>now\<close> by
  the closure \<open>f\<close> under the event key \<open>key\<close> turns the stored job \<open>old\<close> into \<open>j\<close>, and \<open>j\<close> passes
  validation.
\<close>

definition duplicate_event :: "string \<Rightarrow> Job \<Rightarrow> bool" where
  "duplicate_event key job \<longleftrightarrow> key \<noteq> [] \<and> hasEventKey job key"

definition next_job ::
    "string \<Rightarrow> string \<Rightarrow> (Job \<Rightarrow> time \<Rightarrow> err option \<times> Job) \<Rightarrow> plugin_disk \<Rightarrow> time \<Rightarrow> Job \<Rightarrow> Job \<Rightarrow> bool" where
  "next_job i key f d now old j \<longleftrightarrow>
     loadPath d i = Inr old \<and> \<not> duplicate_event key old \<and>
     (\<exists>job1 job2. f old now = (None, job1) \<and> record_event_key key job1 = (None, job2) \<and>
                  j = job2\<lparr>UpdatedAt := now\<rparr>) \<and>
     Validate j = None"

inductive update_step ::
    "string \<Rightarrow> string \<Rightarrow> string \<Rightarrow> (Job \<Rightarrow> time \<Rightarrow> err option \<times> Job) \<Rightarrow> plugin_disk \<Rightarrow> update_result \<Rightarrow> plugin_disk \<Rightarrow> bool"
  for i name key f d where
  refused: "update_step i name key f d (failed e) d"
| duplicate: "loadPath d i = Inr job \<Longrightarrow> duplicate_event key job \<Longrightarrow> update_step i name key f d (job, False, None) d"
| rejected: "loadPath d i = Inr job \<Longrightarrow> \<not> duplicate_event key job \<Longrightarrow> f job now = (Some e, job1) \<Longrightarrow>
    update_step i name key f d (job1, False, Some e) d"
| incomplete: "next_job i key f d now old j \<Longrightarrow> written i j d d' \<Longrightarrow> update_step i name key f d (failed e) d'"
| committed: "next_job i key f d now old j \<Longrightarrow> saved i j d d1 \<Longrightarrow> indexes_gone j d1 \<Longrightarrow>
    update_step i name key f d (j, True, None) (append_event (event_of j name key [] [] (State old) t) d1)"

inductive_cases update_stepE: "update_step i name key f d r d'"
inductive_cases update_changedE: "update_step i name key f d (j, True, e) d'"

text \<open>Every run of \<open>UpdateJob\<close> is one of these steps, on the disk it sees under the lock.\<close>

lemma UpdateJob_locked_step:
  "wp (UpdateJob_locked i name key f) (\<lambda>r w'. evolves w w' \<and> update_step i name key f (disk w) r (disk w')) w"
proof (cases "loadPath (disk w) i")
  case (Inl e)
  then show ?thesis
    by (simp add: UpdateJob_locked_def refused)
next
  case (Inr job)
  show ?thesis
  proof (cases "duplicate_event key job")
    case True
    then show ?thesis
      using Inr by (auto simp: UpdateJob_locked_def duplicate_event_def intro!: update_step.duplicate)
  next
    case fresh: False
    have update: "wp (write_update msg i name key [] [] (State job) (\<lambda>_. ret ()) (job2\<lparr>UpdatedAt := now\<rparr>))
        (\<lambda>r w'. evolves w w' \<and> update_step i name key f (disk w) r (disk w')) (at w (disk w) n)"
      if "f job now = (None, job1)" "record_event_key key job1 = (None, job2)" for msg now job1 job2 n
    proof -
      have "next_job i key f (disk w) now job (job2\<lparr>UpdatedAt := now\<rparr>)"
        if "Validate (job2\<lparr>UpdatedAt := now\<rparr>) = None"
        using that \<open>f job now = _\<close> \<open>record_event_key key job1 = _\<close> fresh Inr by (auto simp: next_job_def)
      then show ?thesis
        by (intro wp_write_update) (auto intro: refused incomplete committed)
    qed
    show ?thesis
      using Inr fresh
      by (auto simp: UpdateJob_locked_def duplicate_event_def [symmetric] wp_if wp_case_prod wp_case_option
            intro!: wp_time_Now update refused update_step.rejected split: prod.splits option.splits)
  qed
qed

text \<open>The disk under the lock is the disk as other processes left it.\<close>

lemma UpdateJob_step:
  "wp (UpdateJob i name key f)
     (\<lambda>r w'. evolves w w' \<and> (\<exists>d. may_see w d \<and> update_step i name key f d r (disk w'))) w"
proof -
  have "wp (UpdateJob_locked i name key f)
     (\<lambda>r w'. evolves w w' \<and> (\<exists>d. may_see w d \<and> update_step i name key f d r (disk w')))
     (at w (others w k (disk w)) n)" for k n
    using UpdateJob_locked_step [of i name key f "at w (others w k (disk w)) n"]
    by (rule wp_mono) auto
  then show ?thesis
    unfolding UpdateJob_def wp_or_return wp_bind
    by (auto intro: refused intro!: wp_acquireStateLock exI [of _ "disk w"])
qed

end
