(* ===== verification/Plugin_Bind.thy ===== *)
theory Plugin_Bind
  imports Plugin_Store
begin

text \<open>
  \<open>internal/pluginstate/store.go\<close>, arming: the hook that binds a pending job to its session
  (\<open>BindSession\<close>), the controller binding of a stop barrier
  (\<open>bindBarrierControllerUnlocked\<close>), and the reservation of the barrier's target sessions
  (\<open>CreateBarrierReservations\<close>) with its two compensations.
\<close>

subsection \<open>Compensation\<close>

definition fail_observer_job :: "string \<Rightarrow> Job \<Rightarrow> Job" where
  "fail_observer_job reason job =
     (if HasUnresolvedPowerAction (bump job)
      then (bump job)\<lparr>CancelRequested := True, CancelReason := reason, ReasonCode := reason\<rparr>
      else (bump job)\<lparr>State := StateHookUnavailable, ReasonCode := reason\<rparr>)"

definition failBarrierObserverWriteUnlocked :: "string \<Rightarrow> Job \<Rightarrow> unit pop" where
  "failBarrierObserverWriteUnlocked reason job = do {
     now \<leftarrow> time_Now;
     let job = (fail_observer_job reason job)\<lparr>UpdatedAt := now\<rparr>;
     AtomicWriteJSON (put_job job);
     release_if_done job;
     ret () }"

fun remove_written :: "Job \<Rightarrow> string list \<Rightarrow> unit pop" where
  "remove_written job [] = ret ()"
| "remove_written job (h # hs) = do {
     removeMatchingSessionIndexUnlocked h (JobID job) (TargetBindingID job);
     remove_written job hs }"

definition partial_reservation :: "Job \<Rightarrow> time \<Rightarrow> Job" where
  "partial_reservation job now =
     (bump job)\<lparr>State := StateHookUnavailable, ReasonCode := ''barrier_reservation_partial'', UpdatedAt := now\<rparr>"

definition failBarrierReservationUnlocked :: "Job \<Rightarrow> string list \<Rightarrow> unit pop" where
  "failBarrierReservationUnlocked job indexes = do {
     now \<leftarrow> time_Now;
     let job = partial_reservation job now;
     AtomicWriteJSON (put_job job);
     remove_written job indexes }"

subsection \<open>CreateBarrierReservations\<close>

fun check_target_ids :: "string list \<Rightarrow> StopTarget list \<Rightarrow> err option" where
  "check_target_ids (i # is) (t # ts) = checks [
     validateTargetSessionID i,
     reject (SHA256 i \<noteq> tg_SessionHash t) ''barrier target hash does not match its session identity'',
     check_target_ids is ts]"
| "check_target_ids _ _ = None"

definition reservation_request :: "Job \<Rightarrow> string list \<Rightarrow> err option" where
  "reservation_request job targetSessionIDs = checks [
     reject (TriggerPolicy job \<noteq> TriggerAfterAllStop \<or> State job \<noteq> StateArmPendingBind)
       ''barrier reservations require a pending after-all-stop job'',
     reject (TargetReservationsCommitted job \<or> TargetIndexesReady job)
       ''new barrier job already claims committed reservations'',
     reject (length targetSessionIDs \<noteq> length (StopTargets job))
       ''barrier target identities do not match persisted targets'',
     check_target_ids targetSessionIDs (StopTargets job),
     Validate job]"

text \<open>The reservation of a target by a barrier that never committed its reservations.\<close>

definition abandoned :: "Job \<Rightarrow> sessionIndex \<Rightarrow> bool" where
  "abandoned existing index \<longleftrightarrow>
     TriggerPolicy existing = TriggerAfterAllStop \<and> \<not> TargetReservationsCommitted existing \<and>
     ix_TargetBindingID index = TargetBindingID existing"

fun claim_targets :: "StopTarget list \<Rightarrow> err option pop" where
  "claim_targets [] = ret None"
| "claim_targets (t # ts) = do {
     d \<leftarrow> read_disk;
     case readSessionIndexHashUnlocked d (tg_SessionHash t) of (index, found, readErr) \<Rightarrow>
       or_return readErr Some (
         if \<not> found then claim_targets ts
         else case loadPath d (ix_JobID index) of
           Inl e \<Rightarrow> ret (Some (Wrap ''inspect existing target reservation: %w'' e))
         | Inr existing \<Rightarrow>
             if abandoned existing index then do {
               r \<leftarrow> removeMatchingSessionIndexUnlocked (tg_SessionHash t) (JobID existing) (TargetBindingID existing);
               or_return r Some (claim_targets ts) }
             else if IsActive (State existing) \<or> HasUnresolvedPowerAction existing then
               ret (Some (Wrap ''%w: %s'' ErrTargetReservationConflict))
             else claim_targets ts) }"

fun write_indexes :: "Job \<Rightarrow> string list \<Rightarrow> StopTarget list \<Rightarrow> (err option \<times> string list) pop" where
  "write_indexes job held [] = ret (None, held)"
| "write_indexes job held (t # ts) = do {
     r \<leftarrow> writeSessionIndexHashUnlocked (tg_SessionHash t) (index_for job (tg_SessionHash t));
     case r of
       Some e \<Rightarrow> ret (Some (Wrap ''write barrier target reservation: %w'' e), held)
     | None \<Rightarrow> write_indexes job (held @ [tg_SessionHash t]) ts }"

text \<open>The commit, once every index is written, and the event that ends it.\<close>

definition log_reservation :: "Job \<Rightarrow> (Job \<times> err option) pop" where
  "log_reservation job = do {
     r \<leftarrow> appendEventUnlocked job ''mcp.arm.barrier_reserved'' [] [] [] StateArmPendingBind;
     case r of
       None \<Rightarrow> ret (job, None)
     | Some e \<Rightarrow> do {
         now \<leftarrow> time_Now;
         let job = partial_reservation job now;
         AtomicWriteJSON (put_job job);
         releaseBarrierIndexesUnlocked job;
         ret (zero_Job, Some e) } }"

definition commit_reservations :: "Job \<Rightarrow> string list \<Rightarrow> (Job \<times> err option) pop" where
  "commit_reservations job0 indexes = do {
     now \<leftarrow> time_Now;
     let job = job0\<lparr>TargetReservationsCommitted := True, UpdatedAt := now\<rparr>;
     case Validate job of
       Some e \<Rightarrow> do { failBarrierReservationUnlocked job indexes; ret (zero_Job, Some e) }
     | None \<Rightarrow> do {
         r \<leftarrow> AtomicWriteJSON (put_job job);
         case r of
           Some e \<Rightarrow> do {
             failBarrierReservationUnlocked job indexes;
             ret (zero_Job, Some (Wrap ''commit barrier target reservations: %w'' e)) }
         | None \<Rightarrow> log_reservation job } }"

definition reserve_locked :: "Job \<Rightarrow> (Job \<times> err option) pop" where
  "reserve_locked job = do {
     d \<leftarrow> read_disk;
     or_return (job_absent d (JobID job)) (\<lambda>e. (zero_Job, Some e)) (do {
       r \<leftarrow> claim_targets (StopTargets job);
       or_return r (\<lambda>e. (zero_Job, Some e)) (do {
         r \<leftarrow> AtomicWriteJSON (put_job job);
         or_return r (\<lambda>e. (zero_Job, Some e)) (do {
           w \<leftarrow> write_indexes job [] (StopTargets job);
           case w of
             (Some e, indexes) \<Rightarrow> do { failBarrierReservationUnlocked job indexes; ret (zero_Job, Some e) }
           | (None, indexes) \<Rightarrow> commit_reservations job indexes }) }) }) }"

definition CreateBarrierReservations :: "Job \<Rightarrow> string list \<Rightarrow> (Job \<times> err option) pop" where
  "CreateBarrierReservations job0 targetSessionIDs =
     (case migrate job0 of
        (Some e, _) \<Rightarrow> ret (zero_Job, Some e)
      | (None, job) \<Rightarrow>
          or_return (reservation_request job targetSessionIDs) (\<lambda>e. (zero_Job, Some e)) (do {
            lock \<leftarrow> acquireStateLock stateLockTimeout;
            or_return lock (\<lambda>e. (zero_Job, Some e)) (reserve_locked job) }))"

subsection \<open>BindSession\<close>

text \<open>What the arm hook does to a single-session job; the mismatch of an existing binding is an error.\<close>

definition bind_session :: "plugin_disk \<Rightarrow> string \<Rightarrow> string \<Rightarrow> string \<Rightarrow> Job \<Rightarrow> time \<Rightarrow> err option \<times> Job" where
  "bind_session d sessionID turnID workspace job now =
     (case expire job now of
        (True, job') \<Rightarrow> (None, job')
      | (False, _) \<Rightarrow>
          if State job = StateArmPendingBind then
            (let bad_workspace =
                   (if TriggerPolicy job = TriggerAfterStop \<and> \<not> DryRun job then
                      reject (\<not> path_IsAbs workspace) ''after-stop execute hook is missing an absolute workspace''
                    else reject (TriggerPolicy job = TriggerVerifiedSuccess \<and> \<not> WorkspaceMatches (WorkspaceCWD job) workspace)
                           ''arm hook workspace does not match the MCP workspace'');
                 job1 = (if TriggerPolicy job = TriggerAfterStop \<and> \<not> DryRun job
                         then job\<lparr>WorkspaceCWD := path_Clean workspace\<rparr> else job)
             in case bad_workspace of
                  Some e \<Rightarrow> (Some e, job)
                | None \<Rightarrow>
                    (case findBySessionUnlocked d sessionID of (existing, found, err) \<Rightarrow>
                       if err \<noteq> None then (err, job)
                       else if found \<and> JobID existing \<noteq> JobID job \<and> IsActive (State existing) then
                         (Some (Err ''session already has active plugin job %s''), job)
                       else (None, job1\<lparr>SessionID := sessionID, ArmTurnID := turnID, CurrentTurnID := turnID,
                              ArmObserved := True, State := StateArmed, ReasonCode := ''hook_bound'',
                              HookCompatibility := (if TriggerPolicy job1 = TriggerAfterStop then ''session_bound''
                                                    else HookCompatibility job1)\<rparr>)))
          else if SessionID job \<noteq> sessionID \<or> ArmTurnID job \<noteq> turnID then
            (Some (Err ''arm hook binding does not match the existing job binding''), job)
          else (None, job))"

definition bind_controller ::
    "plugin_disk \<Rightarrow> string \<Rightarrow> string \<Rightarrow> string \<Rightarrow> Job \<Rightarrow> time \<Rightarrow> err option \<times> Job" where
  "bind_controller d controllerHash turnHash workspace job now =
     (case expire job now of
        (True, job') \<Rightarrow> (None, job')
      | (False, _) \<Rightarrow>
          if State job = StateArmPendingBind then
            (if \<not> TargetReservationsCommitted job \<or> \<not> path_IsAbs workspace \<or> \<not> barrierIndexesMatchUnlocked d job then
               (None, (bump job)\<lparr>State := StateHookUnavailable, ReasonCode := ''barrier_binding_incomplete'',
                  TargetIndexesReady := False\<rparr>)
             else
               (let job1 = bump (job\<lparr>ControllerSessionHash := controllerHash, ControllerArmTurnHash := turnHash,
                      WorkspaceCWD := path_Clean workspace, ArmObserved := True, TargetIndexesReady := True,
                      HookCompatibility := ''multi_session_bound''\<rparr>)
                in (None,
                    if BarrierSatisfied job1 then
                      (if DryRun job1 then
                         job1\<lparr>State := StateDryRunComplete, ReasonCode := ''after_all_stop_observed_no_action''\<rparr>
                       else job1\<lparr>State := StateStopObserved, ReasonCode := ''after_all_stop_observed_awaiting_countdown''\<rparr>)
                    else job1\<lparr>State := StateArmed, ReasonCode := ''after_all_stop_barrier_partial''\<rparr>)))
          else if ControllerSessionHash job \<noteq> controllerHash \<or> ControllerArmTurnHash job \<noteq> turnHash then
            (Some (Err ''arm hook controller binding does not match the existing barrier binding''), job)
          else (None, job))"

definition bindBarrierControllerUnlocked :: "Job \<Rightarrow> string \<Rightarrow> string \<Rightarrow> string \<Rightarrow> string \<Rightarrow> update_result pop" where
  "bindBarrierControllerUnlocked job sessionID turnID workspace eventKey =
     (if eventKey \<noteq> [] \<and> hasEventKey job eventKey then ret (job, False, None)
      else do {
        now \<leftarrow> time_Now;
        d \<leftarrow> read_disk;
        case bind_controller d (SHA256 sessionID) (SHA256 turnID) workspace job now of
          (Some e, _) \<Rightarrow> ret (failed e)
        | (None, job1) \<Rightarrow>
            (case record_event_key eventKey job1 of
               (Some e, _) \<Rightarrow> ret (failed e)
             | (None, job2) \<Rightarrow>
                 write_update ''validate bound barrier job: %w'' (JobID job2) ''hook.post_tool.arm'' eventKey
                   (SHA256 sessionID) (SHA256 turnID) (State job)
                   (failBarrierObserverWriteUnlocked ''barrier_event_log_unavailable'') (job2\<lparr>UpdatedAt := now\<rparr>)) })"

text \<open>The single-session end of \<open>BindSession\<close>: the session index is written after the job.\<close>

definition write_binding :: "string \<Rightarrow> string \<Rightarrow> string \<Rightarrow> string \<Rightarrow> State \<Rightarrow> Job \<Rightarrow> update_result pop" where
  "write_binding jobID sessionID turnID eventKey oldState job =
     or_return (map_option (Wrap ''validate bound plugin job: %w'') (Validate job)) failed (do {
       r \<leftarrow> AtomicWriteJSON (put_job_at jobID job);
       or_return r failed (do {
         r \<leftarrow> (if SessionID job \<noteq> [] then writeSessionIndexUnlocked sessionID (JobID job) else ret None);
         or_return r failed (do {
           r \<leftarrow> appendEventUnlocked job ''hook.post_tool.arm'' eventKey (SHA256 sessionID) (SHA256 turnID) oldState;
           or_return r failed (ret (job, True, None)) }) }) })"

definition BindSession_locked :: "string \<Rightarrow> string \<Rightarrow> string \<Rightarrow> string \<Rightarrow> string \<Rightarrow> update_result pop" where
  "BindSession_locked jobID sessionID turnID workspace eventKey = do {
     d \<leftarrow> read_disk;
     case loadPath d jobID of
       Inl e \<Rightarrow> ret (failed e)
     | Inr job \<Rightarrow>
         if TriggerPolicy job = TriggerAfterAllStop then
           bindBarrierControllerUnlocked job sessionID turnID workspace eventKey
         else if eventKey \<noteq> [] \<and> hasEventKey job eventKey then
           (if SessionID job = sessionID then do {
              r \<leftarrow> writeSessionIndexUnlocked sessionID (JobID job);
              or_return r failed (ret (job, False, None)) }
            else ret (job, False, None))
         else do {
           now \<leftarrow> time_Now;
           case bind_session d sessionID turnID workspace job now of
             (Some e, _) \<Rightarrow> ret (failed e)
           | (None, job1) \<Rightarrow>
               write_binding jobID sessionID turnID eventKey (State job)
                 (job1\<lparr>ProcessedEventKeys := (if eventKey \<noteq> [] then appendEventKey (ProcessedEventKeys job1) eventKey
                                             else ProcessedEventKeys job1),
                       UpdatedAt := now\<rparr>) } }"

definition BindSession :: "string \<Rightarrow> string \<Rightarrow> string \<Rightarrow> string \<Rightarrow> string \<Rightarrow> update_result pop" where
  "BindSession jobID sessionID turnID workspace eventKey =
     or_return (validateBinding sessionID turnID) failed (
     or_return (ValidateJobID jobID) failed (
     or_return (validateEventKey eventKey) failed (do {
       lock \<leftarrow> acquireStateLock stateLockTimeout;
       or_return lock failed (BindSession_locked jobID sessionID turnID workspace eventKey) })))"

subsection \<open>What binding does to a job\<close>

lemma bind_session_cases:
  assumes "bind_session d s t ws job now = (None, job')"
  shows "job' = job \<and> SessionID job = s \<and> ArmTurnID job = t \<and> State job \<noteq> StateArmPendingBind \<or>
    expire job now = (True, job') \<or>
    State job = StateArmPendingBind \<and> \<not> fst (expire job now) \<and> State job' = StateArmed \<and> SessionID job' = s \<and>
      ArmTurnID job' = t \<and> ArmObserved job' \<and>
      (\<forall>e. findBySessionUnlocked d s = (e, True, None) \<longrightarrow> JobID e = JobID job \<or> IsTerminal (State e))"
  using assms
  by (auto simp: bind_session_def Let_def split: prod.splits bool.splits if_splits option.splits)

lemma bind_session_keeps:
  assumes "bind_session d s t ws job now = (None, job')"
  shows "JobID job' = JobID job \<and> TriggerPolicy job' = TriggerPolicy job \<and> ProcessedEventKeys job' = ProcessedEventKeys job"
  using assms
  by (auto simp: bind_session_def Let_def expire_def bump_def split: prod.splits bool.splits if_splits option.splits)

lemma bind_controller_cases:
  assumes "bind_controller d ch th ws job now = (None, job')"
  shows "job' = job \<and> ControllerSessionHash job = ch \<and> ControllerArmTurnHash job = th \<and> State job \<noteq> StateArmPendingBind \<or>
    expire job now = (True, job') \<or>
    State job = StateArmPendingBind \<and> \<not> fst (expire job now) \<and>
      (State job' = StateHookUnavailable \<or>
       TargetReservationsCommitted job \<and> barrierIndexesMatchUnlocked d job \<and> path_IsAbs ws \<and>
       ControllerSessionHash job' = ch \<and> ControllerArmTurnHash job' = th \<and> ArmObserved job' \<and> TargetIndexesReady job' \<and>
       StopTargets job' = StopTargets job \<and>
       State job' = (if \<not> BarrierSatisfied job then StateArmed
                     else if DryRun job then StateDryRunComplete else StateStopObserved))"
  using assms
  by (auto simp: bind_controller_def Let_def bump_def split: prod.splits bool.splits if_splits)

lemma bind_controller_keeps:
  assumes "bind_controller d ch th ws job now = (e, job')"
  shows "JobID job' = JobID job \<and> TriggerPolicy job' = TriggerPolicy job \<and> ProcessedEventKeys job' = ProcessedEventKeys job"
  using assms
  by (auto simp: bind_controller_def expire_def bump_def Let_def split: prod.splits bool.splits if_splits)

lemma record_event_key_keeps:
  assumes "record_event_key key job = (None, job')"
  shows "job' = job\<lparr>ProcessedEventKeys := ProcessedEventKeys job'\<rparr> \<and> (key \<noteq> [] \<longrightarrow> hasEventKey job' key)"
  using assms
  by (auto simp: record_event_key_def appendProcessedEventKey_def hasEventKey_def split: if_splits)

lemma record_event_key_None:
  "record_event_key key job = (None, job') \<Longrightarrow> JobID job' = JobID job \<and> State job' = State job \<and>
     TriggerPolicy job' = TriggerPolicy job \<and> SessionID job' = SessionID job \<and> StopTargets job' = StopTargets job \<and>
     Generation job' = Generation job"
  by (auto simp: record_event_key_def appendProcessedEventKey_def split: if_splits)

text \<open>The job a successful binding leaves behind.\<close>

definition bound_job ::
    "plugin_disk \<Rightarrow> string \<Rightarrow> string \<Rightarrow> string \<Rightarrow> string \<Rightarrow> Job \<Rightarrow> time \<Rightarrow> Job \<Rightarrow> bool" where
  "bound_job d s t ws key old now j \<longleftrightarrow>
     \<not> duplicate_event key old \<and> Validate j = None \<and>
     (\<exists>job1 job2.
        (if TriggerPolicy old = TriggerAfterAllStop then bind_controller d (SHA256 s) (SHA256 t) ws old now = (None, job1)
         else bind_session d s t ws old now = (None, job1)) \<and>
        record_event_key key job1 = (None, job2) \<and> j = job2\<lparr>UpdatedAt := now\<rparr>)"

lemma bound_job_keys: "bound_job d s t ws key old now j \<Longrightarrow> key \<noteq> [] \<Longrightarrow> hasEventKey j key"
  by (auto simp: bound_job_def hasEventKey_def dest!: record_event_key_keeps)

lemma bound_job_JobID: "bound_job d s t ws key old now j \<Longrightarrow> JobID j = JobID old"
  by (auto simp: bound_job_def dest!: record_event_key_None bind_session_keeps bind_controller_keeps split: if_splits)

text \<open>A late hook never revives a job.\<close>

lemma bound_job_terminal:
  assumes "bound_job d s t ws key old now j" and "IsTerminal (State old)"
  shows "State j = State old \<and> Generation j = Generation old"
  using assms
  by (auto simp: bound_job_def expire_def dest!: record_event_key_None bind_session_cases bind_controller_cases
      split: if_splits)

lemma bound_job_expired:
  assumes "bound_job d s t ws key old now j" and "Expired old now" and "\<not> IsTerminal (State old)"
    and "State old \<noteq> StateActionIntent" and "State old \<noteq> StateActionScheduled"
  shows "State j = StateExpired"
proof -
  obtain jx where e: "expire old now = (True, jx)" "State jx = StateExpired"
    using assms(2-) by (simp add: expire_def)
  then have "bind_session d s t ws old now = (None, jx)"
    and "bind_controller d (SHA256 s) (SHA256 t) ws old now = (None, jx)"
    by (simp_all add: bind_session_def bind_controller_def)
  then show ?thesis
    using assms(1) e(2) by (auto simp: bound_job_def dest!: record_event_key_None split: if_splits)
qed

subsection \<open>Runs of BindSession\<close>

text \<open>
  The outcome of \<open>BindSession\<close> on the disk \<open>d\<close> it sees under the lock. An error may leave a
  partly recorded binding behind; a duplicate event writes at most the session index again.
\<close>

definition bind_outcome ::
    "string \<Rightarrow> string \<Rightarrow> string \<Rightarrow> string \<Rightarrow> string \<Rightarrow> plugin_disk \<Rightarrow> update_result \<Rightarrow> plugin_disk \<Rightarrow> bool" where
  "bind_outcome i s t ws key d r d' \<longleftrightarrow>
     (case r of
        (j, True, None) \<Rightarrow>
          (\<exists>old now. loadPath d i = Inr old \<and> bound_job d s t ws key old now j) \<and> loadPath d' i = Inr j \<and>
          (\<exists>e es. events_of d' i = es @ [e] \<and> ev_EventKey e = key \<and> ev_NewState e = State j)
      | (j, False, None) \<Rightarrow> loadPath d i = Inr j \<and> duplicate_event key j \<and> job_file d' = job_file d
      | (_, changed, Some e) \<Rightarrow> \<not> changed)"

lemma wp_write_binding:
  assumes "JobID j = i"
    and "\<And>e d n. Q (failed e) (at w d n)"
    and "\<And>d n. Validate j = None \<Longrightarrow> loadPath d i = Inr j \<Longrightarrow> 
       (\<exists>e es. events_of d i = es @ [e] \<and> ev_EventKey e = key \<and> ev_NewState e = State j) \<Longrightarrow> Q (j, True, None) (at w d n)"
  shows "wp (write_binding i s t key old j) Q w"
proof (cases "Validate j")
  case (Some e)
  then show ?thesis
    using assms(2) [of _ "disk w" "tick w"] by (simp add: write_binding_def)
next
  case None
  have i: "i = JobID j" using assms(1) by simp
  have log: "wp (appendEventUnlocked j nm key sh th old)
      (\<lambda>r w'. (\<forall>x. r = Some x \<longrightarrow> Q (failed x) w') \<and> (r = None \<longrightarrow> Q (j, True, None) w')) (at w d n)"
    if "loadPath d i = Inr j" for nm sh th d n
    using that None
    by (auto simp: event_of_def i intro!: wp_appendEventUnlocked assms)
  show ?thesis
    unfolding write_binding_def None option.map wp_or_return wp_bind wp_if
    by (auto simp: writeSessionIndexUnlocked_def None i
        intro!: wp_AtomicWriteJSON assms(2) log [unfolded i])
qed

lemma bind_outcome_failed [simp]: "bind_outcome i s t ws key d (failed e) d'"
  by (simp add: bind_outcome_def)

lemma bind_outcome_committed:
  assumes "loadPath d i = Inr old" and "bound_job d s t ws key old now j" and "loadPath d' i = Inr j"
    and "\<exists>e es. events_of d' i = es @ [e] \<and> ev_EventKey e = key \<and> ev_NewState e = State j"
  shows "bind_outcome i s t ws key d (j, True, None) d'"
  using assms by (auto simp: bind_outcome_def)

lemma bind_outcome_duplicate:
  "loadPath d i = Inr j \<Longrightarrow> duplicate_event key j \<Longrightarrow> job_file d' = job_file d \<Longrightarrow>
     bind_outcome i s t ws key d (j, False, None) d'"
  by (simp add: bind_outcome_def)

lemma saved_loadPath: "saved i j d d' \<Longrightarrow> Validate j = None \<Longrightarrow> JobID j = i \<Longrightarrow> loadPath d' i = Inr j"
  by (simp add: loadPath_Inr saved_job_file Validate_schema)

lemma saved_events: "saved i j d d' \<Longrightarrow> events_of d' = events_of d"
  by (auto simp: saved_def released_def fun_eq_iff split: if_splits)

lemma bindBarrier_outcome:
  assumes load: "loadPath (disk w) i = Inr old" and b: "TriggerPolicy old = TriggerAfterAllStop"
  shows "wp (bindBarrierControllerUnlocked old s t ws key) (\<lambda>r w'. bind_outcome i s t ws key (disk w) r (disk w')) w"
proof (cases "duplicate_event key old")
  case True
  then show ?thesis
    using load by (auto simp: bindBarrierControllerUnlocked_def duplicate_event_def [symmetric] bind_outcome_duplicate)
next
  case fresh: False
  have i: "JobID old = i" using loadPath_valid [OF load] by simp
  have update: "wp (write_update msg (JobID job2) nm key (SHA256 s) (SHA256 t) (State old) h (job2\<lparr>UpdatedAt := now\<rparr>))
      (\<lambda>r w'. bind_outcome i s t ws key (disk w) r (disk w')) (at w (disk w) n)"
    if "bind_controller (disk w) (SHA256 s) (SHA256 t) ws old now = (None, job1)"
      "record_event_key key job1 = (None, job2)" for msg nm h now job1 job2 n
  proof -
    have bj: "bound_job (disk w) s t ws key old now (job2\<lparr>UpdatedAt := now\<rparr>)"
      if "Validate (job2\<lparr>UpdatedAt := now\<rparr>) = None"
      using that \<open>bind_controller _ _ _ _ _ _ = _\<close> \<open>record_event_key _ _ = _\<close> fresh b by (auto simp: bound_job_def)
    have i2: "JobID job2 = i"
      using that i by (auto dest!: record_event_key_None bind_controller_keeps)
    have "bind_outcome i s t ws key (disk w) (j, True, None) (append_event (event_of j nm key sh th old' t') d)"
      if "Validate j = None" "saved i j (disk w) d" "j = job2\<lparr>UpdatedAt := now\<rparr>" for j sh th old' t' d
    proof -
      have "loadPath d i = Inr j" using saved_loadPath that i2 by simp
      then show ?thesis
        by (intro bind_outcome_committed [OF load])
           (use that bj i2 in \<open>auto simp: event_of_def intro: exI [of _ "events_of d i"]\<close>)
    qed
    then show ?thesis
      unfolding i2 by (intro wp_write_update) (auto intro: wp_any)
  qed
  show ?thesis
    using fresh
    by (auto simp: bindBarrierControllerUnlocked_def duplicate_event_def [symmetric] wp_case_prod wp_case_option wp_if
        intro!: wp_time_Now update split: prod.splits option.splits)
qed

lemma BindSession_locked_outcome:
  "wp (BindSession_locked i s t ws key) (\<lambda>r w'. bind_outcome i s t ws key (disk w) r (disk w')) w"
proof (cases "loadPath (disk w) i")
  case (Inl e)
  then show ?thesis by (simp add: BindSession_locked_def)
next
  case load: (Inr old)
  show ?thesis
  proof (cases "TriggerPolicy old = TriggerAfterAllStop")
    case True
    then show ?thesis
      using load bindBarrier_outcome [OF load] by (simp add: BindSession_locked_def)
  next
    case single: False
    have i: "JobID old = i" using loadPath_valid [OF load] by simp
    have dup: "wp (if SessionID old = s then do {
              r \<leftarrow> writeSessionIndexUnlocked s (JobID old);
              or_return r failed (ret (old, False, None)) }
            else ret (old, False, None)) (\<lambda>r w'. bind_outcome i s t ws key (disk w) r (disk w')) w"
      if "duplicate_event key old"
      using that load
      by (auto simp: wp_if writeSessionIndexUnlocked_def fun_eq_iff intro!: wp_AtomicWriteJSON bind_outcome_duplicate)
    have bind: "wp (write_binding i s t key (State old)
         (job1\<lparr>ProcessedEventKeys := (if key \<noteq> [] then appendEventKey (ProcessedEventKeys job1) key
                                     else ProcessedEventKeys job1), UpdatedAt := now\<rparr>))
        (\<lambda>r w'. bind_outcome i s t ws key (disk w) r (disk w')) (at w (disk w) n)" (is "wp (write_binding _ _ _ _ _ ?j) _ _")
      if b: "bind_session (disk w) s t ws old now = (None, job1)" and fresh: "\<not> duplicate_event key old" for job1 now n
    proof -
      note k = bind_session_keeps [OF b]
      have "bound_job (disk w) s t ws key old now ?j" if "Validate ?j = None"
        using that b fresh single k
        by (auto simp: bound_job_def record_event_key_def appendProcessedEventKey_def)
      then show ?thesis
        using load k i by (intro wp_write_binding) (auto intro!: bind_outcome_committed)
    qed
    show ?thesis
      using load single dup bind
      by (auto simp: BindSession_locked_def duplicate_event_def [symmetric] wp_case_prod wp_case_option wp_if
          intro!: wp_time_Now split: prod.splits option.splits)
  qed
qed

subsection \<open>Reservations are exclusive\<close>

text \<open>
  \<open>owned d h i\<close>: the index of session hash \<open>h\<close> names job \<open>i\<close>, whose reservation counts: it is not
  one of a barrier that never committed, and the job is active or has an unresolved power action.
\<close>

definition counts :: "Job \<Rightarrow> sessionIndex \<Rightarrow> bool" where
  "counts existing ix \<longleftrightarrow> \<not> abandoned existing ix \<and> (IsActive (State existing) \<or> HasUnresolvedPowerAction existing)"

definition owned :: "plugin_disk \<Rightarrow> string \<Rightarrow> string \<Rightarrow> bool" where
  "owned d h i \<longleftrightarrow>
     (\<exists>ix e. index_file d h = Some (File (Parsed ix)) \<and> ix_JobID ix = i \<and> loadPath d i = Inr e \<and> counts e ix)"

text \<open>A target nobody owns: without index, or with one that does not count.\<close>

definition unowned :: "plugin_disk \<Rightarrow> string \<Rightarrow> bool" where
  "unowned d h \<longleftrightarrow> index_file d h = None \<or>
     (\<exists>ix e. index_file d h = Some (File (Parsed ix)) \<and> loadPath d (ix_JobID ix) = Inr e \<and> \<not> counts e ix)"

lemma unowned_not_owned: "unowned d h \<Longrightarrow> \<not> owned d h i"
  by (auto simp: unowned_def owned_def)

text \<open>Indexes only disappear, and only those that do not count.\<close>

definition cleared :: "plugin_disk \<Rightarrow> plugin_disk \<Rightarrow> bool" where
  "cleared d d' \<longleftrightarrow> job_file d' = job_file d \<and> events_of d' = events_of d \<and>
     (\<forall>h. index_file d' h = index_file d h \<or> index_file d' h = None \<and> unowned d h)"

lemma cleared_refl [simp]: "cleared d d"
  by (simp add: cleared_def)

lemma cleared_loadPath: "cleared d d' \<Longrightarrow> loadPath d' = loadPath d"
  by (auto simp: cleared_def loadPath_def fun_eq_iff)

lemma cleared_unowned: "cleared d d' \<Longrightarrow> unowned d' h \<Longrightarrow> unowned d h"
  using cleared_loadPath [of d d'] by (auto simp: unowned_def cleared_def) metis+

lemma unowned_cleared: "cleared d d' \<Longrightarrow> unowned d h \<Longrightarrow> unowned d' h"
  using cleared_loadPath [of d d'] by (auto simp: unowned_def cleared_def) (metis option.distinct(1))+

lemma cleared_trans: "cleared d d' \<Longrightarrow> cleared d' d'' \<Longrightarrow> cleared d d''"
  using cleared_unowned [of d d'] by (auto simp: cleared_def) metis+

lemma cleared_owned: "cleared d d' \<Longrightarrow> owned d h i \<Longrightarrow> owned d' h i"
  using cleared_loadPath [of d d'] unowned_not_owned [of d h i] by (auto simp: owned_def cleared_def) metis+

lemma wp_claim_targets:
  assumes "\<And>r d n. cleared (disk w) d \<Longrightarrow> (r = None \<Longrightarrow> \<forall>t \<in> set ts. unowned d (tg_SessionHash t)) \<Longrightarrow> Q r (at w d n)"
  shows "wp (claim_targets ts) Q w"
  using assms
proof (induction ts arbitrary: w)
  case Nil
  from Nil [of "disk w" None "tick w"] show ?case by simp
next
  case (Cons t ts)
  let ?h = "tg_SessionHash t"
  have rest: "wp (claim_targets ts) Q (at w d n)" if d: "cleared (disk w) d" "unowned d ?h" for d n
  proof (rule Cons.IH)
    fix r :: "err option" and d' m
    assume d': "cleared (disk (at w d n)) d'" "r = None \<Longrightarrow> \<forall>t \<in> set ts. unowned d' (tg_SessionHash t)"
    then show "Q r (at (at w d n) d' m)"
      using Cons.prems [of d' r m] cleared_trans [OF d(1), of d'] unowned_cleared [OF _ d(2), of d'] by auto
  qed
  have stop: "Q (Some e) w" for e
    using Cons.prems [of "disk w" "Some e" "tick w"] by simp
  obtain ix found e where r: "readSessionIndexHashUnlocked (disk w) ?h = (ix, found, e)"
    by (metis prod_cases3)
  have rest0: "wp (claim_targets ts) Q w" if "unowned (disk w) ?h"
    using rest [of "disk w" "tick w"] that by simp
  show ?case
  proof (cases "e = None \<and> found")
    case False
    then show ?thesis
      using r stop rest0 readSessionIndex_absent [of "disk w" ?h ix] by (auto simp: unowned_def)
  next
    case True
    then have ix: "index_file (disk w) ?h = Some (File (Parsed ix))"
      using r readSessionIndex_found by auto
    show ?thesis
    proof (cases "loadPath (disk w) (ix_JobID ix)")
      case (Inl e)
      then show ?thesis using r True stop by simp
    next
      case (Inr ex)
      have un: "unowned (disk w) ?h" if "\<not> counts ex ix"
        using that ix Inr by (auto simp: unowned_def)
      have del: "cleared (disk w) (remove_index ?h (disk w))" if "unowned (disk w) ?h"
        using that by (auto simp: cleared_def fun_eq_iff)
      have gone: "unowned (remove_index ?h (disk w)) ?h" by (simp add: unowned_def)
      have "wp (do { r \<leftarrow> removeMatchingSessionIndexUnlocked ?h (JobID ex) (TargetBindingID ex);
                or_return r Some (claim_targets ts) }) Q w" if a: "abandoned ex ix"
      proof -
        have u: "unowned (disk w) ?h" using a un by (simp add: counts_def)
        then show ?thesis
          unfolding wp_bind wp_or_return
          by (intro wp_remove [where job = ex]) (auto intro!: rest del gone Cons.prems)
      qed
      then show ?thesis
        using r True Inr stop rest0 un by (auto simp: counts_def)
    qed
  qed
qed
text \<open>Writing and compensating a reservation concerns the job's own file and its own indexes.\<close>

definition own_changes :: "Job \<Rightarrow> plugin_disk \<Rightarrow> plugin_disk \<Rightarrow> bool" where
  "own_changes job d d' \<longleftrightarrow>
     (\<forall>i. i \<noteq> JobID job \<longrightarrow> job_file d' i = job_file d i) \<and>
     (\<forall>h. index_file d' h = index_file d h \<or>
        h \<in> tg_SessionHash ` set (StopTargets job) \<and> index_file d' h \<in> {None, Some (File (Parsed (index_for job h)))})"

lemma own_changes_refl [simp]: "own_changes job d d"
  by (simp add: own_changes_def)

lemma own_changes_trans: "own_changes job d d' \<Longrightarrow> own_changes job d' d'' \<Longrightarrow> own_changes job d d''"
  by (auto simp: own_changes_def) metis+

lemma own_changes_put [simp]:
  "JobID j = JobID job \<Longrightarrow> own_changes job d (put_job_at (JobID job) j d)"
  "own_changes job d (append_event e d)"
  by (simp_all add: own_changes_def)

lemma own_changes_released:
  assumes "released j d d'" and "JobID j = JobID job" and "TargetBindingID j = TargetBindingID job"
    and "\<forall>h. index_file d' h \<noteq> index_file d h \<longrightarrow> h \<in> tg_SessionHash ` set (StopTargets job)"
  shows "own_changes job d d'"
  using assms by (auto simp: own_changes_def released_def)

lemma same_index_for: "JobID j = JobID job \<Longrightarrow> TargetBindingID j = TargetBindingID job \<Longrightarrow> index_for j = index_for job"
  by (simp add: index_for_def fun_eq_iff)

lemma index_for_simps [simp]:
  "ix_JobID (index_for job h) = JobID job" "ix_SchemaVersion (index_for job h) = ''2''"
  "ix_TargetBindingID (index_for job h) = TargetBindingID job" "ix_TargetSessionHash (index_for job h) = h"
  by (simp_all add: index_for_def)

lemma wp_write_indexes:
  assumes "\<And>r hs d n. own_changes job (disk w) d \<Longrightarrow> job_file d = job_file (disk w) \<Longrightarrow>
      set hs \<subseteq> set held \<union> tg_SessionHash ` set ts \<Longrightarrow>
      (r = None \<Longrightarrow> \<forall>t \<in> set ts. holds_index job d (tg_SessionHash t)) \<Longrightarrow>
      (\<forall>h. holds_index job (disk w) h \<longrightarrow> holds_index job d h) \<Longrightarrow> Q (r, hs) (at w d n)"
    and "set ts \<subseteq> set (StopTargets job)"
  shows "wp (write_indexes job held ts) Q w"
  using assms
proof (induction ts arbitrary: w held)
  case Nil
  from Nil(1) [of "disk w" held None "tick w"] show ?case by simp
next
  case (Cons t ts)
  let ?h = "tg_SessionHash t" and ?put = "put_index (tg_SessionHash t) (index_for job (tg_SessionHash t))"
  have put: "own_changes job (disk w) (?put (disk w))"
    using Cons.prems(2) by (auto simp: own_changes_def)
  have rest: "wp (write_indexes job (held @ [?h]) ts) Q (at w (?put (disk w)) n)" for n
  proof (rule Cons.IH)
    show "set ts \<subseteq> set (StopTargets job)" using Cons.prems(2) by simp
  next
    fix r :: "err option" and hs d m
    assume "own_changes job (disk (at w (?put (disk w)) n)) d" "job_file d = job_file (disk (at w (?put (disk w)) n))"
      "set hs \<subseteq> set (held @ [?h]) \<union> tg_SessionHash ` set ts"
      "r = None \<Longrightarrow> \<forall>t \<in> set ts. holds_index job d (tg_SessionHash t)"
      "\<forall>h. holds_index job (disk (at w (?put (disk w)) n)) h \<longrightarrow> holds_index job d h"
    then show "Q (r, hs) (at (at w (?put (disk w)) n) d m)"
      using own_changes_trans [OF put, of d]
      by simp (rule Cons.prems(1), auto simp: holds_index_def)
  qed
  have fail: "Q (Some e, held) (at w d n)" if "d = disk w \<or> d = ?put (disk w)" for e d n
    using that put by (intro Cons.prems(1)) (auto simp: holds_index_def)
  show ?case
    unfolding write_indexes.simps writeSessionIndexHashUnlocked_def wp_bind wp_if wp_case_option
    using fail [of "disk w" _ "tick w"]
    by (auto intro!: wp_AtomicWriteJSON fail rest)
qed

lemma wp_remove_written:
  assumes "\<And>d n. released job (disk w) d \<Longrightarrow> changed_within (set hs) (disk w) d \<Longrightarrow> Q () (at w d n)"
  shows "wp (remove_written job hs) Q w"
  using assms
proof (induction hs arbitrary: w)
  case Nil
  from Nil [of "disk w" "tick w"] show ?case by simp
next
  case (Cons h hs)
  have rest: "wp (remove_written job hs) Q (at w d n)"
    if d: "released job (disk w) d" "changed_within {h} (disk w) d" for d n
  proof (rule Cons.IH)
    fix d' m
    assume "released job (disk (at w d n)) d'" "changed_within (set hs) (disk (at w d n)) d'"
    then show "Q () (at (at w d n) d' m)"
      using released_trans [OF d(1), of d'] changed_within_trans [OF d(2), of _ d'] by (simp, intro Cons.prems) simp_all
  qed
  have keep: "wp (remove_written job hs) Q (at w (disk w) n)" for n
    by (rule rest) simp_all
  show ?case
    unfolding remove_written.simps wp_bind
    by (rule wp_remove [where job = job]) (auto intro!: rest keep released_remove)
qed

lemma wp_failBarrierReservation:
  assumes "JobID j = JobID job" and "TargetBindingID j = TargetBindingID job" and "StopTargets j = StopTargets job"
    and "set hs \<subseteq> tg_SessionHash ` set (StopTargets job)"
    and "\<And>d n. own_changes job (disk w) d \<Longrightarrow> Q () (at w d n)"
  shows "wp (failBarrierReservationUnlocked j hs) Q w"
proof -
  let ?p = "partial_reservation j"
  have p: "JobID (?p now) = JobID job" "TargetBindingID (?p now) = TargetBindingID job" for now
    using assms(1-3) by (simp_all add: partial_reservation_def bump_def)
  have "wp (remove_written (?p now) hs) Q (at w d n)" if "own_changes job (disk w) d" for now d n
  proof (rule wp_remove_written)
    fix d' m
    assume "released (?p now) (disk (at w d n)) d'"
      "changed_within (set hs) (disk (at w d n)) d'"
    then have "own_changes job d d'"
      using p assms(4) by (intro own_changes_released [of "?p now"]) (auto simp: changed_within_def)
    then show "Q () (at (at w d n) d' m)"
      using that own_changes_trans by (auto intro!: assms(5))
  qed
  then show ?thesis
    unfolding failBarrierReservationUnlocked_def wp_bind
    by (auto intro!: wp_time_Now wp_AtomicWriteJSON simp: p Let_def)
qed

definition reserved :: "Job \<Rightarrow> plugin_disk \<Rightarrow> Job \<times> err option \<Rightarrow> plugin_disk \<Rightarrow> bool" where
  "reserved job d r d' \<longleftrightarrow>
     own_changes job d d' \<and>
     (snd r = None \<longrightarrow>
        (\<exists>now. fst r = job\<lparr>TargetReservationsCommitted := True, UpdatedAt := now\<rparr>) \<and> Validate (fst r) = None \<and>
        loadPath d' (JobID job) = Inr (fst r) \<and>
        (\<forall>t \<in> set (StopTargets job). holds_index job d' (tg_SessionHash t)))"

lemma commit_reserved:
  assumes hs: "set hs \<subseteq> tg_SessionHash ` set (StopTargets job)"
    and own: "own_changes job d0 (disk w)" and held: "\<forall>t \<in> set (StopTargets job). holds_index job (disk w) (tg_SessionHash t)"
  shows "wp (commit_reservations job hs) (\<lambda>r w'. reserved job d0 r (disk w')) w"
proof -
  let ?j = "\<lambda>now. job\<lparr>TargetReservationsCommitted := True, UpdatedAt := now\<rparr>"
  have err: "reserved job d0 (zero_Job, Some e) d" if "own_changes job (disk w) d" for e d
    using that own own_changes_trans by (auto simp: reserved_def)
  have fail: "wp (failBarrierReservationUnlocked (?j now) hs) (\<lambda>_ w'. reserved job d0 (zero_Job, Some e) (disk w')) (at w d n)"
    if "own_changes job (disk w) d" for now d n e
    using that own_changes_trans
    by (intro wp_failBarrierReservation [OF _ _ _ hs]) (auto intro!: err)
  have put: "own_changes job (disk w) (put_job_at (JobID job) j (disk w))" if "JobID j = JobID job" for j
    using that by simp
  have late: "wp (releaseBarrierIndexesUnlocked (partial_reservation (?j now) now'))
      (\<lambda>_ w'. reserved job d0 (zero_Job, Some e) (disk w')) (at w d n)"
    if "own_changes job (disk w) d" for now now' d n e
  proof (rule wp_releaseBarrierIndexes)
    fix r :: "err option" and d' m
    assume "released (partial_reservation (?j now) now') (disk (at w d n)) d'"
      "changed_within (tg_SessionHash ` set (StopTargets (partial_reservation (?j now) now'))) (disk (at w d n)) d'"
    then have "own_changes job d d'"
      by (intro own_changes_released [of "partial_reservation (?j now) now'"])
         (simp_all add: partial_reservation_def bump_def changed_within_def)
    then show "reserved job d0 (zero_Job, Some e) (disk (at (at w d n) d' m))"
      using that own_changes_trans by (auto intro!: err)
  qed
  have log: "wp (log_reservation (?j now)) (\<lambda>r w'. reserved job d0 r (disk w')) (at w (put_job_at (JobID job) (?j now) (disk w)) n)"
    if "Validate (?j now) = None" for now n
  proof -
    have p: "JobID (partial_reservation (?j now) now') = JobID job" for now'
      by (simp add: partial_reservation_def bump_def)
    have ok: "reserved job d0 (?j now, None) (append_event e (put_job_at (JobID job) (?j now) (disk w)))" for e
    proof -
      have "own_changes job d0 (append_event e (put_job_at (JobID job) (?j now) (disk w)))"
        by (rule own_changes_trans [OF own]) (simp add: own_changes_def)
      moreover have "loadPath (put_job_at (JobID job) (?j now) (disk w)) (JobID job) = Inr (?j now)"
        using loadPath_put [OF that, of "disk w"] by simp
      ultimately show ?thesis
        using that held by (auto simp: reserved_def holds_index_def)
    qed
    have ch: "own_changes job (disk w) (append_event e (put_job_at (JobID job) (?j now) (disk w)))"
      "own_changes job (disk w) (put_job_at (JobID job) j' (append_event e (put_job_at (JobID job) (?j now) (disk w))))"
      "own_changes job (disk w) (put_job_at (JobID job) j' (put_job_at (JobID job) (?j now) (disk w)))"
      for e j'
      by (simp_all add: own_changes_def)
    show ?thesis
      unfolding log_reservation_def wp_bind wp_case_option
      by (auto simp: p Let_def ch intro!: wp_appendEventUnlocked wp_time_Now wp_AtomicWriteJSON late ok)
  qed
  show ?thesis
    unfolding commit_reservations_def wp_bind
    by (auto simp: Let_def wp_case_option intro!: wp_time_Now wp_AtomicWriteJSON fail log)
qed

text \<open>What the whole reservation does to the disk seen under the lock.\<close>

definition reservation_outcome :: "Job \<Rightarrow> plugin_disk \<Rightarrow> Job \<times> err option \<Rightarrow> plugin_disk \<Rightarrow> bool" where
  "reservation_outcome job d r d' \<longleftrightarrow>
     (\<exists>d1. cleared d d1 \<and>
        (d' = d1 \<and> snd r \<noteq> None \<or>
         job_absent d (JobID job) = None \<and> (\<forall>t \<in> set (StopTargets job). unowned d1 (tg_SessionHash t)) \<and>
         reserved job d1 r d'))"

lemma reserve_locked_outcome:
  "wp (reserve_locked job) (\<lambda>r w'. reservation_outcome job (disk w) r (disk w')) w"
proof (cases "job_absent (disk w) (JobID job)")
  case (Some e)
  then show ?thesis
    by (auto simp: reserve_locked_def reservation_outcome_def intro: exI [of _ "disk w"])
next
  case absent: None
  have commit: "wp (commit_reservations job hs) (\<lambda>r w'. reservation_outcome job (disk w) r (disk w')) (at w d n)"
    if "cleared (disk w) d1" "\<forall>t \<in> set (StopTargets job). unowned d1 (tg_SessionHash t)" "own_changes job d1 d"
      "set hs \<subseteq> tg_SessionHash ` set (StopTargets job)" "\<forall>t \<in> set (StopTargets job). holds_index job d (tg_SessionHash t)"
    for hs d1 d n
    by (rule wp_mono [OF commit_reserved [of hs job d1]])
       (use that absent in \<open>auto simp: reservation_outcome_def\<close>)
  have fail: "wp (failBarrierReservationUnlocked job hs)
      (\<lambda>_ w'. reservation_outcome job (disk w) (zero_Job, Some e) (disk w')) (at w d n)"
    if "cleared (disk w) d1" "\<forall>t \<in> set (StopTargets job). unowned d1 (tg_SessionHash t)" "own_changes job d1 d"
      "set hs \<subseteq> tg_SessionHash ` set (StopTargets job)" for hs d1 d n e
    using that absent own_changes_trans [of job d1 d]
    by (intro wp_failBarrierReservation [OF refl refl refl])
       (auto simp: reservation_outcome_def reserved_def)
  have indexes: "wp (write_indexes job [] (StopTargets job))
      (\<lambda>r. wp (case r of (Some e, indexes) \<Rightarrow> do { failBarrierReservationUnlocked job indexes; ret (zero_Job, Some e) }
             | (None, indexes) \<Rightarrow> commit_reservations job indexes)
         (\<lambda>r w'. reservation_outcome job (disk w) r (disk w'))) (at w (put_job job d1) n)"
    if d1: "cleared (disk w) d1" "\<forall>t \<in> set (StopTargets job). unowned d1 (tg_SessionHash t)" for d1 n
  proof (rule wp_write_indexes)
    fix r :: "err option" and hs d m
    assume w: "own_changes job (disk (at w (put_job job d1) n)) d" "set hs \<subseteq> set [] \<union> tg_SessionHash ` set (StopTargets job)"
      "r = None \<Longrightarrow> \<forall>t \<in> set (StopTargets job). holds_index job d (tg_SessionHash t)"
    have "own_changes job d1 d"
      using own_changes_trans [of job d1 "put_job job d1"] w(1) by simp
    then show "wp (case (r, hs) of (Some e, indexes) \<Rightarrow> do { failBarrierReservationUnlocked job indexes; ret (zero_Job, Some e) }
             | (None, indexes) \<Rightarrow> commit_reservations job indexes)
         (\<lambda>r w'. reservation_outcome job (disk w) r (disk w')) (at (at w (put_job job d1) n) d m)"
      using w(2,3) by (cases r) (auto intro!: commit [OF d1] fail [OF d1])
  qed simp
  have stop: "reservation_outcome job (disk w) (zero_Job, Some e) d1" if "cleared (disk w) d1" for d1 e
    using that by (auto simp: reservation_outcome_def)
  have half: "reservation_outcome job (disk w) (zero_Job, Some e) (put_job job d1)"
    if "cleared (disk w) d1" "\<forall>t \<in> set (StopTargets job). unowned d1 (tg_SessionHash t)" for d1 e
    using that absent by (auto simp: reservation_outcome_def reserved_def)
  show ?thesis
    unfolding reserve_locked_def wp_bind wp_read_disk wp_or_return absent
    by (auto intro!: wp_claim_targets wp_AtomicWriteJSON half indexes intro: stop)
qed

text \<open>The reservation of other jobs survives every outcome, and no target of a granted one was theirs.\<close>

lemma reservation_keeps_others:
  assumes "reservation_outcome job d r d'" and "owned d h i" and "i \<noteq> JobID job"
  shows "owned d' h i"
proof -
  obtain d1 where d1: "cleared d d1" and
    cs: "d' = d1 \<or> (\<forall>t \<in> set (StopTargets job). unowned d1 (tg_SessionHash t)) \<and> own_changes job d1 d'"
    using assms(1) by (auto simp: reservation_outcome_def reserved_def)
  have o: "owned d1 h i" using cleared_owned [OF d1 assms(2)] .
  show ?thesis
  proof (cases "d' = d1")
    case False
    then have "h \<notin> tg_SessionHash ` set (StopTargets job)"
      using cs o unowned_not_owned by auto
    then have "index_file d' h = index_file d1 h" and "loadPath d' i = loadPath d1 i"
      using False cs assms(3) by (auto simp: own_changes_def intro: loadPath_cong)
    then show ?thesis using o by (auto simp: owned_def)
  qed (use o in simp)
qed

lemma reservation_granted:
  assumes "reservation_outcome job d (j, None) d'" and "t \<in> set (StopTargets job)"
  shows "unowned d (tg_SessionHash t) \<and> holds_index j d' (tg_SessionHash t) \<and> loadPath d' (JobID job) = Inr j \<and>
     Validate j = None \<and> TargetReservationsCommitted j"
proof -
  obtain d1 now where d1: "cleared d d1" "unowned d1 (tg_SessionHash t)" "holds_index job d' (tg_SessionHash t)"
    "j = job\<lparr>TargetReservationsCommitted := True, UpdatedAt := now\<rparr>" "Validate j = None" "loadPath d' (JobID job) = Inr j"
    using assms by (auto simp: reservation_outcome_def reserved_def)
  then show ?thesis
    using cleared_unowned [OF d1(1,2)] by (simp add: holds_index_def index_for_def)
qed

end
