(* ===== verification/Plugin_Observed.thy ===== *)
theory Plugin_Observed
  imports Plugin_Bind
begin

text \<open>
  \<open>internal/pluginstate/store.go\<close>, observing: lifecycle hooks update the job that owns their
  session (\<open>updateObservedSessionBinding\<close>), revocation markers record a withdrawal of the stop
  that could not be applied yet, and \<open>BarrierAuthority\<close> decides under the lock whether a stop
  barrier may act. \<open>Status\<close> is what the status tools show of a job.
\<close>

subsection \<open>Lookup without the lock\<close>

type_synonym lookup_result = "Job \<times> StopTarget \<times> bool \<times> err option"

definition LookupObservedSession :: "string \<Rightarrow> lookup_result pop" where
  "LookupObservedSession sessionID =
     or_return (validateTargetSessionID sessionID) (\<lambda>e. (zero_Job, zero_StopTarget, False, Some e)) (do {
       d \<leftarrow> observe;
       ret (case findBySessionUnlocked d sessionID of (job, found, err) \<Rightarrow>
              if err \<noteq> None \<or> \<not> found then (zero_Job, zero_StopTarget, found, err)
              else if TriggerPolicy job \<noteq> TriggerAfterAllStop then (job, zero_StopTarget, True, None)
              else if \<not> TargetReservationsCommitted job \<or> \<not> TargetIndexesReady job \<or> \<not> ArmObserved job then
                (zero_Job, zero_StopTarget, False, None)
              else case job_StopTarget job (SHA256 sessionID) of
                None \<Rightarrow> (zero_Job, zero_StopTarget, False, Some (Err ''barrier target reservation is inconsistent''))
              | Some n \<Rightarrow> (job, StopTargets job ! n, True, None)) })"

definition LookupTargetSession :: "string \<Rightarrow> lookup_result pop" where
  "LookupTargetSession sessionID = do {
     r \<leftarrow> LookupObservedSession sessionID;
     ret (case r of (job, target, found, err) \<Rightarrow>
            if err \<noteq> None \<or> \<not> found then (zero_Job, zero_StopTarget, found, err)
            else if TriggerPolicy job \<noteq> TriggerAfterAllStop \<or> \<not> TargetReservationsCommitted job then
              (zero_Job, zero_StopTarget, False, None)
            else (job, target, True, None)) }"

subsection \<open>updateObservedSessionBinding\<close>

type_synonym mutator = "Job \<Rightarrow> nat option \<Rightarrow> time \<Rightarrow> err option \<times> Job"
type_synonym observed_result = "Job \<times> bool \<times> bool \<times> err option"

abbreviation missed :: "bool \<Rightarrow> err \<Rightarrow> observed_result" where
  "missed found e \<equiv> (zero_Job, False, found, Some e)"

definition capacity_exhausted :: "Job \<Rightarrow> Job" where
  "capacity_exhausted job =
     (if HasUnresolvedPowerAction (bump job)
      then (bump job)\<lparr>CancelRequested := True, CancelReason := ''barrier_event_capacity_exhausted'',
             ReasonCode := ''barrier_event_capacity_exhausted''\<rparr>
      else (bump job)\<lparr>State := StateHookUnavailable, ReasonCode := ''barrier_event_capacity_exhausted''\<rparr>)"

text \<open>The branch for a barrier whose event keys are used up.\<close>

definition write_exhausted :: "string \<Rightarrow> string \<Rightarrow> string \<Rightarrow> Job \<Rightarrow> time \<Rightarrow> observed_result pop" where
  "write_exhausted eventName sessionHash turnID job0 now = do {
     let job = (capacity_exhausted job0)\<lparr>UpdatedAt := now\<rparr>;
     or_return (Validate job) (missed True) (do {
       r \<leftarrow> AtomicWriteJSON (put_job job);
       or_return r (missed True) (do {
         release_if_done job;
         appendEventUnlocked job eventName [] sessionHash (hashOptional turnID) (State job0);
         ret (job, True, True, None) }) }) }"

definition observed_locked ::
    "string \<Rightarrow> string \<Rightarrow> string \<Rightarrow> string \<Rightarrow> string \<Rightarrow> string \<Rightarrow> bool \<Rightarrow> mutator \<Rightarrow> observed_result pop" where
  "observed_locked sessionID turnID eventName eventKey expectedJobID expectedBindingID requireCapturedBinding mutate = do {
     d \<leftarrow> read_disk;
     case findBySessionUnlocked d sessionID of (job, found, err) \<Rightarrow>
       if err \<noteq> None \<or> \<not> found then ret (zero_Job, False, found, err)
       else if requireCapturedBinding \<and> (expectedJobID = [] \<or> expectedBindingID = [] \<or> JobID job \<noteq> expectedJobID \<or>
               ObservedBindingID job \<noteq> expectedBindingID) then ret (job, False, True, None)
       else if TriggerPolicy job = TriggerAfterAllStop \<and>
               (\<not> TargetReservationsCommitted job \<or> \<not> TargetIndexesReady job \<or> \<not> ArmObserved job) then
         ret (job, False, True, None)
       else if eventKey \<noteq> [] \<and> hasEventKey job eventKey then ret (job, False, True, None)
       else do {
         now \<leftarrow> time_Now;
         let target = (if TriggerPolicy job = TriggerAfterAllStop then job_StopTarget job (SHA256 sessionID) else None);
         if TriggerPolicy job = TriggerAfterAllStop \<and> target = None then
           ret (missed True (Err ''barrier session index does not name a target''))
         else if TriggerPolicy job = TriggerAfterAllStop \<and> eventKey \<noteq> [] \<and>
                 length (ProcessedEventKeys job) \<ge> MaximumBarrierEventKeys then
           write_exhausted eventName (SHA256 sessionID) turnID job now
         else case mutate job target now of
           (Some e, job1) \<Rightarrow> ret (job1, False, True, Some e)
         | (None, job1) \<Rightarrow>
             (case record_event_key eventKey job1 of
                (Some e, _) \<Rightarrow> ret (missed True e)
              | (None, job2) \<Rightarrow> do {
                  r \<leftarrow> write_update ''validate observed plugin job: %w'' (JobID job2) eventName eventKey (SHA256 sessionID)
                    (hashOptional turnID) (State job)
                    (\<lambda>j. if TriggerPolicy j = TriggerAfterAllStop
                          then failBarrierObserverWriteUnlocked ''barrier_event_log_unavailable'' j else ret ())
                    (job2\<lparr>UpdatedAt := now\<rparr>);
                  case r of (j, changed, err) \<Rightarrow> ret (j, changed, True, err) }) } }"

definition updateObservedSessionBinding ::
    "string \<Rightarrow> string \<Rightarrow> string \<Rightarrow> string \<Rightarrow> string \<Rightarrow> string \<Rightarrow> bool \<Rightarrow> mutator \<Rightarrow> observed_result pop" where
  "updateObservedSessionBinding sessionID turnID eventName eventKey expectedJobID expectedBindingID
     requireCapturedBinding mutate =
     or_return (reject (TrimSpace sessionID = [] \<or> length sessionID > 1024) ''invalid hook session id'') (missed False) (
     or_return (reject (length turnID > 1024) ''invalid hook turn id'') (missed False) (
     or_return (validateEventKey eventKey) (missed False) (do {
       lock \<leftarrow> acquireStateLock stateLockTimeout;
       or_return lock (missed False) (observed_locked sessionID turnID eventName eventKey expectedJobID
         expectedBindingID requireCapturedBinding mutate) })))"

definition UpdateObservedSession :: "string \<Rightarrow> string \<Rightarrow> string \<Rightarrow> string \<Rightarrow> mutator \<Rightarrow> observed_result pop" where
  "UpdateObservedSession sessionID turnID eventName eventKey mutate =
     updateObservedSessionBinding sessionID turnID eventName eventKey [] [] False mutate"

definition UpdateObservedSessionBinding ::
    "string \<Rightarrow> string \<Rightarrow> string \<Rightarrow> string \<Rightarrow> string \<Rightarrow> string \<Rightarrow> mutator \<Rightarrow> observed_result pop" where
  "UpdateObservedSessionBinding sessionID turnID eventName eventKey expectedJobID expectedBindingID mutate =
     updateObservedSessionBinding sessionID turnID eventName eventKey expectedJobID expectedBindingID True mutate"

definition UpdateSession ::
    "string \<Rightarrow> string \<Rightarrow> string \<Rightarrow> string \<Rightarrow> (Job \<Rightarrow> time \<Rightarrow> err option \<times> Job) \<Rightarrow> observed_result pop" where
  "UpdateSession sessionID turnID eventName eventKey mutate =
     UpdateObservedSession sessionID turnID eventName eventKey (\<lambda>job _ now. mutate job now)"

subsection \<open>Revocation markers\<close>

text \<open>
  The directory of a job and binding, and the marker file named by an event key in it. A missing
  directory and an empty one are read alike.
\<close>

definition rev_dir :: "plugin_disk \<Rightarrow> string \<Rightarrow> string \<Rightarrow> (string \<times> RevocationMarker dirent) list" where
  "rev_dir d jobID bindingID = (case map_of (d_revocations d) (jobID, bindingID) of None \<Rightarrow> [] | Some es \<Rightarrow> es)"

definition rev_file :: "plugin_disk \<Rightarrow> string \<Rightarrow> string \<Rightarrow> string \<Rightarrow> RevocationMarker node option" where
  "rev_file d jobID bindingID eventKey =
     (case map_of (rev_dir d jobID bindingID) eventKey of
        None \<Rightarrow> None | Some Stray \<Rightarrow> Some Untrusted | Some (Entry n) \<Rightarrow> Some n)"

definition set_rev_dir ::
    "((string \<times> RevocationMarker dirent) list \<Rightarrow> (string \<times> RevocationMarker dirent) list) \<Rightarrow>
     RevocationMarker \<Rightarrow> plugin_disk \<Rightarrow> plugin_disk" where
  "set_rev_dir f m d = d\<lparr>d_revocations :=
     AList.update (rm_JobID m, rm_TargetBindingID m) (f (rev_dir d (rm_JobID m) (rm_TargetBindingID m))) (d_revocations d)\<rparr>"

definition put_marker :: "RevocationMarker body \<Rightarrow> RevocationMarker \<Rightarrow> plugin_disk \<Rightarrow> plugin_disk" where
  "put_marker b m = set_rev_dir (AList.update (rm_EventKey m) (Entry (File b))) m"

definition remove_marker :: "RevocationMarker \<Rightarrow> plugin_disk \<Rightarrow> plugin_disk" where
  "remove_marker m = set_rev_dir (AList.delete (rm_EventKey m)) m"

definition invalid_marker :: "RevocationMarker \<Rightarrow> bool" where
  "invalid_marker m \<longleftrightarrow>
     rm_SchemaVersion m \<noteq> ''1'' \<or> \<not> ValidIdentityHash (rm_TargetHash m) \<or>
     rm_TurnHash m \<noteq> [] \<and> \<not> ValidIdentityHash (rm_TurnHash m) \<or> validateEventKey (rm_EventKey m) \<noteq> None \<or>
     ValidateJobID (rm_JobID m) \<noteq> None \<or> ValidateJobID (rm_TargetBindingID m) \<noteq> None \<or>
     TrimSpace (rm_Reason m) = [] \<or> IsZero (rm_Timestamp m)"

definition loadRevocation :: "RevocationMarker node option \<Rightarrow> err + RevocationMarker" where
  "loadRevocation f =
     (case OpenOwnerControlled f of
        Inl e \<Rightarrow> Inl e
      | Inr Oversized \<Rightarrow> Inl (Err ''barrier revocation marker is too large'')
      | Inr Undecodable \<Rightarrow> Inl (Wrap ''decode barrier revocation marker: %w'' (Err ''unexpected EOF''))
      | Inr Trailing \<Rightarrow> Inl (Err ''barrier revocation marker contains trailing data'')
      | Inr (Parsed m) \<Rightarrow> if invalid_marker m then Inl (Err ''invalid barrier revocation marker'') else Inr m)"

definition revocationPath :: "RevocationMarker \<Rightarrow> err option" where
  "revocationPath m =
     reject (ValidateJobID (rm_JobID m) \<noteq> None \<or> ValidateJobID (rm_TargetBindingID m) \<noteq> None \<or>
             validateEventKey (rm_EventKey m) \<noteq> None \<or> rm_EventKey m = [])
       ''invalid revocation marker identity''"

definition marker_file :: "plugin_disk \<Rightarrow> RevocationMarker \<Rightarrow> RevocationMarker node option" where
  "marker_file d m = rev_file d (rm_JobID m) (rm_TargetBindingID m) (rm_EventKey m)"

definition same_marker :: "RevocationMarker \<Rightarrow> RevocationMarker \<Rightarrow> bool" where
  "same_marker a b \<longleftrightarrow> rm_JobID a = rm_JobID b \<and> rm_TargetBindingID a = rm_TargetBindingID b \<and>
     rm_TargetHash a = rm_TargetHash b \<and> rm_EventKey a = rm_EventKey b"

definition writeRevocationCreateOnce :: "RevocationMarker \<Rightarrow> err option pop" where
  "writeRevocationCreateOnce marker =
     or_return (revocationPath marker) Some (do {
       r \<leftarrow> calls [''create %s: %w'', ''secure %s: %w'', ''inspect %s: %w'', ''%s must be owner controlled: %w'',
         ''create revocation marker: %w''];
       or_return r Some (do {
         d \<leftarrow> observe;
         case marker_file d marker of
           Some _ \<Rightarrow>
             ret (case loadRevocation (marker_file d marker) of
                    Inl e \<Rightarrow> Some e
                  | Inr existing \<Rightarrow>
                      reject (\<not> (same_marker existing marker \<and> rm_Reason existing = rm_Reason marker))
                        ''revocation event key collision'')
         | None \<Rightarrow>
             create_new_file [''secure revocation marker: %w'', ''encode revocation marker: %w'']
               [''flush revocation marker: %w'', ''close revocation marker: %w'']
               (put_marker Undecodable marker) (put_marker (Parsed marker) marker) (remove_marker marker) }) })"

text \<open>The job and binding a marker is for: the found job's, or the ones captured earlier.\<close>

definition CreateRevocationMarker ::
    "string \<Rightarrow> string \<Rightarrow> string \<Rightarrow> string \<Rightarrow> string \<Rightarrow> string \<Rightarrow> (RevocationMarker \<times> bool \<times> err option) pop" where
  "CreateRevocationMarker sessionID turnID eventKey reason expectedJobID expectedBindingID =
     (if validateEventKey eventKey \<noteq> None then ret (zero_Marker, False, validateEventKey eventKey)
      else if eventKey = [] then ret (zero_Marker, False, Some (Err ''revocation marker requires an event key''))
      else if TrimSpace reason = [] \<or> length reason > 256 then
        ret (zero_Marker, False, Some (Err ''invalid revocation reason''))
      else do {
        l \<leftarrow> LookupObservedSession sessionID;
        case l of (job, _, found, lookupErr) \<Rightarrow>
          if found \<and> expectedJobID \<noteq> [] \<and>
             (JobID job \<noteq> expectedJobID \<or> ObservedBindingID job \<noteq> expectedBindingID) then
            ret (zero_Marker, False, None)
          else if \<not> found \<and> expectedJobID = [] then ret (zero_Marker, False, lookupErr)
          else if found \<and> IsTerminal (State job) \<and> \<not> HasUnresolvedPowerAction job then
            ret (zero_Marker, False, lookupErr)
          else (let jobID = (if found then JobID job else expectedJobID);
                    bindingID = (if found then ObservedBindingID job else expectedBindingID)
                in if ValidateJobID jobID \<noteq> None \<or> ValidateJobID bindingID \<noteq> None then
                     ret (zero_Marker, expectedJobID \<noteq> [],
                          errors_Join [lookupErr, Some (Err ''revocation binding is unavailable'')])
                   else do {
                     t \<leftarrow> time_Now;
                     let marker = \<lparr>rm_SchemaVersion = ''1'', rm_JobID = jobID, rm_TargetBindingID = bindingID,
                       rm_TargetHash = SHA256 sessionID, rm_TurnHash = hashOptional turnID, rm_EventKey = eventKey,
                       rm_Reason = reason, rm_Timestamp = t\<rparr>;
                     r \<leftarrow> writeRevocationCreateOnce marker;
                     (case r of
                        Some e \<Rightarrow> ret (marker, True, errors_Join [lookupErr, Some e])
                      | None \<Rightarrow> ret (marker, True, lookupErr)) }) })"

definition CompleteRevocation :: "RevocationMarker \<Rightarrow> err option pop" where
  "CompleteRevocation marker =
     or_return (revocationPath marker) Some (do {
       d \<leftarrow> observe;
       case loadRevocation (marker_file d marker) of
         Inl e \<Rightarrow> ret (if errors_Is e ErrNotExist then None else Some e)
       | Inr current \<Rightarrow>
           if \<not> same_marker current marker then ret (Some (Err ''revocation marker changed before cleanup''))
           else do {
             r \<leftarrow> call;
             case r of
               None \<Rightarrow> do { change_disk (remove_marker marker); ret None }
             | Some e \<Rightarrow>
                 if errors_Is e ErrNotExist then do { change_disk (remove_marker marker); ret None }
                 else ret (Some (Wrap ''remove processed revocation marker: %w'' e)) } })"

fun complete_entries :: "string \<Rightarrow> string \<Rightarrow> (string \<times> RevocationMarker dirent) list \<Rightarrow> err option pop" where
  "complete_entries jobID bindingID [] = ret None"
| "complete_entries jobID bindingID ((name, Stray) # es) =
     ret (Some (Err ''revocation directory contains an unexpected entry''))"
| "complete_entries jobID bindingID ((name, Entry _) # es) = do {
     d \<leftarrow> observe;
     case loadRevocation (rev_file d jobID bindingID name) of
       Inl e \<Rightarrow> ret (Some e)
     | Inr marker \<Rightarrow>
         if rm_JobID marker \<noteq> jobID \<or> rm_TargetBindingID marker \<noteq> bindingID then
           ret (Some (Err ''revocation marker binding mismatch''))
         else do {
           r \<leftarrow> CompleteRevocation marker;
           or_return r Some (complete_entries jobID bindingID es) } }"

definition CompletePendingRevocations :: "string \<Rightarrow> string \<Rightarrow> err option pop" where
  "CompletePendingRevocations jobID bindingID =
     (if ValidateJobID jobID \<noteq> None \<or> ValidateJobID bindingID \<noteq> None then
        ret (Some (Err ''invalid revocation binding''))
      else do {
        r \<leftarrow> call;
        or_return r (\<lambda>e. Some (Wrap ''read revocation directory: %w'' e)) (do {
          d \<leftarrow> observe;
          complete_entries jobID bindingID (ReadDir (rev_dir d jobID bindingID)) }) })"

text \<open>The markers of a job, the oldest first.\<close>

fun load_pending :: "Job \<Rightarrow> string \<Rightarrow> (string \<times> RevocationMarker dirent) list \<Rightarrow> err + RevocationMarker list" where
  "load_pending job bindingID [] = Inr []"
| "load_pending job bindingID ((name, Stray) # es) =
     Inl (Err ''barrier revocation directory contains an unexpected entry'')"
| "load_pending job bindingID ((name, Entry n) # es) =
     (case loadRevocation (Some n) of
        Inl e \<Rightarrow> Inl e
      | Inr marker \<Rightarrow>
          if rm_JobID marker \<noteq> JobID job \<or> rm_TargetBindingID marker \<noteq> bindingID then
            Inl (Err ''revocation marker binding mismatch'')
          else if TriggerPolicy job = TriggerAfterAllStop \<and> job_StopTarget job (rm_TargetHash marker) = None then
            Inl (Err ''barrier revocation marker target mismatch'')
          else if TriggerPolicy job \<noteq> TriggerAfterAllStop \<and>
                  (SessionID job = [] \<or> rm_TargetHash marker \<noteq> SHA256 (SessionID job)) then
            Inl (Err ''revocation marker session mismatch'')
          else case load_pending job bindingID es of Inl e \<Rightarrow> Inl e | Inr ms \<Rightarrow> Inr (marker # ms))"

definition pendingRevocationsUnlocked :: "plugin_disk \<Rightarrow> Job \<Rightarrow> err + RevocationMarker list" where
  "pendingRevocationsUnlocked d job =
     (let bindingID = ObservedBindingID job in
      if ValidateJobID bindingID \<noteq> None then Inl (Err ''job revocation binding is invalid'')
      else case load_pending job bindingID (ReadDir (rev_dir d (JobID job) bindingID)) of
        Inl e \<Rightarrow> Inl e
      | Inr ms \<Rightarrow> Inr (sort_key rm_Timestamp ms))"

text \<open>The directory itself may be unreadable: one more call.\<close>

definition read_pending :: "Job \<Rightarrow> (err + RevocationMarker list) pop" where
  "read_pending job = do {
     r \<leftarrow> call;
     or_return r (\<lambda>e. Inl (Wrap ''read barrier revocation directory: %w'' e)) (do {
       d \<leftarrow> read_disk;
       ret (pendingRevocationsUnlocked d job) }) }"

definition PendingRevocation :: "string \<Rightarrow> (RevocationMarker \<times> bool \<times> err option) pop" where
  "PendingRevocation jobID = do {
     lock \<leftarrow> acquireStateLock stateLockTimeout;
     or_return lock (\<lambda>e. (zero_Marker, False, Some e)) (do {
       d \<leftarrow> read_disk;
       case loadPath d jobID of
         Inl e \<Rightarrow> ret (zero_Marker, False, Some e)
       | Inr job \<Rightarrow> do {
           p \<leftarrow> read_pending job;
           case p of
             Inl e \<Rightarrow> ret (zero_Marker, False, Some e)
           | Inr [] \<Rightarrow> ret (zero_Marker, False, None)
           | Inr (m # _) \<Rightarrow> ret (m, True, None) } }) }"

subsection \<open>BarrierAuthority\<close>

definition valueOr :: "string \<Rightarrow> string \<Rightarrow> string" where
  "valueOr v fallback = (if v \<noteq> [] then v else fallback)"

definition barrier_unbound :: "Job \<Rightarrow> bool" where
  "barrier_unbound job \<longleftrightarrow>
     TriggerPolicy job \<noteq> TriggerAfterAllStop \<or> \<not> StopWithoutSuccessAck job \<or> ControllerSessionHash job = [] \<or>
     ControllerArmTurnHash job = [] \<or> \<not> ArmObserved job \<or> \<not> TargetReservationsCommitted job \<or>
     \<not> TargetIndexesReady job"

definition BarrierAuthority :: "string \<Rightarrow> (Job \<times> err option) pop" where
  "BarrierAuthority jobID = do {
     lock \<leftarrow> acquireStateLock stateLockTimeout;
     or_return lock (\<lambda>e. (zero_Job, Some e)) (do {
       d \<leftarrow> read_disk;
       case loadPath d jobID of
         Inl e \<Rightarrow> ret (zero_Job, Some e)
       | Inr job \<Rightarrow>
           if barrier_unbound job then ret (job, Some (BarrierAuthorityError ''barrier_binding_incomplete''))
           else if \<not> BarrierSatisfied job then ret (job, Some (BarrierAuthorityError ''after_all_stop_target_resumed''))
           else if \<not> list_all (\<lambda>t. \<not> (tg_WorkspaceCWD t = [] \<or> \<not> path_IsAbs (tg_WorkspaceCWD t))) (StopTargets job) then
             ret (job, Some (BarrierAuthorityError ''target_workspace_changed''))
           else if \<not> barrierIndexesMatchUnlocked d job then
             ret (job, Some (BarrierAuthorityError ''target_index_changed''))
           else do {
             p \<leftarrow> read_pending job;
             ret (case p of
                    Inl e \<Rightarrow> (job, Some (BarrierAuthorityError ''revocation_channel_unavailable''))
                  | Inr (m # _) \<Rightarrow> (job, Some (BarrierAuthorityError (''revocation_pending:'' @ rm_Reason m)))
                  | Inr [] \<Rightarrow>
                      if CancelRequested job then
                        (job, Some (BarrierAuthorityError (valueOr (CancelReason job) ''barrier_cancel_requested'')))
                      else (job, None)) } }) }"

subsection \<open>What an observed event does\<close>

lemma findBySession_found:
  assumes "findBySessionUnlocked d s = (job, True, e)"
  shows "e = None \<and> loadPath d (JobID job) = Inr job \<and>
     (TriggerPolicy job = TriggerAfterAllStop \<longrightarrow>
        job_StopTarget job (SHA256 s) \<noteq> None \<and> holds_index job d (SHA256 s)) \<and>
     (TriggerPolicy job \<noteq> TriggerAfterAllStop \<longrightarrow> SessionID job = s)"
proof -
  obtain ix fd er where r: "readSessionIndexHashUnlocked d (SHA256 s) = (ix, fd, er)"
    by (metis prod_cases3)
  then have ix: "er = None" "fd" "index_file d (SHA256 s) = Some (File (Parsed ix))" "check_index (SHA256 s) ix = None"
    using assms readSessionIndex_found [of d "SHA256 s" ix er]
    by (auto simp: findBySessionUnlocked_def Let_def split: if_splits)
  then have l: "loadPath d (ix_JobID ix) = Inr job"
    using r assms by (auto simp: findBySessionUnlocked_def Let_def split: if_splits sum.splits)
  then have j: "JobID job = ix_JobID ix" using loadPath_valid by auto
  have c: "e = None" "TriggerPolicy job \<noteq> TriggerAfterAllStop \<and> SessionID job = s \<or>
      TriggerPolicy job = TriggerAfterAllStop \<and> ix_TargetBindingID ix = TargetBindingID job \<and>
      ix_TargetSessionHash ix = SHA256 s \<and> job_StopTarget job (SHA256 s) \<noteq> None"
    using r ix l assms by (auto simp: findBySessionUnlocked_def Let_def split: if_splits)
  moreover have "holds_index job d (SHA256 s)" if "ix_TargetBindingID ix = TargetBindingID job" "ix_TargetSessionHash ix = SHA256 s"
    using check_index_own [OF ix(4) _ that(1,2)] ix(3) j by (simp add: holds_index_def)
  ultimately show ?thesis
    using l j by auto
qed

definition target_of :: "string \<Rightarrow> Job \<Rightarrow> nat option" where
  "target_of s job = (if TriggerPolicy job = TriggerAfterAllStop then job_StopTarget job (SHA256 s) else None)"

text \<open>A barrier listens to its targets only once the controller has armed it.\<close>

definition listening :: "Job \<Rightarrow> bool" where
  "listening job \<longleftrightarrow>
     (TriggerPolicy job = TriggerAfterAllStop \<longrightarrow> TargetReservationsCommitted job \<and> TargetIndexesReady job \<and> ArmObserved job)"

definition observed_job :: "string \<Rightarrow> string \<Rightarrow> mutator \<Rightarrow> Job \<Rightarrow> time \<Rightarrow> Job \<Rightarrow> bool" where
  "observed_job s key f old now j \<longleftrightarrow>
     listening old \<and> \<not> duplicate_event key old \<and> Validate j = None \<and>
     (if TriggerPolicy old = TriggerAfterAllStop \<and> key \<noteq> [] \<and> MaximumBarrierEventKeys \<le> length (ProcessedEventKeys old)
      then j = (capacity_exhausted old)\<lparr>UpdatedAt := now\<rparr>
      else \<exists>job1 job2. f old (target_of s old) now = (None, job1) \<and> record_event_key key job1 = (None, job2) \<and>
                       j = job2\<lparr>UpdatedAt := now\<rparr>)"

text \<open>
  The outcome on the disk \<open>d\<close> under the lock: an applied event is stored, an ignored one changes
  nothing.
\<close>

definition observed_outcome ::
    "string \<Rightarrow> string \<Rightarrow> mutator \<Rightarrow> plugin_disk \<Rightarrow> observed_result \<Rightarrow> plugin_disk \<Rightarrow> bool" where
  "observed_outcome s key f d r d' \<longleftrightarrow>
     (case r of
        (j, True, found, None) \<Rightarrow>
          found \<and> (\<exists>old now. findBySessionUnlocked d s = (old, True, None) \<and> observed_job s key f old now j) \<and>
          loadPath d' (JobID j) = Inr j
      | (j, False, True, None) \<Rightarrow> findBySessionUnlocked d s = (j, True, None) \<and> d' = d
      | (j, False, False, None) \<Rightarrow> d' = d
      | (_, changed, _, Some e) \<Rightarrow> \<not> changed)"

lemma observed_outcome_missed [simp]: "observed_outcome s key f d (j, False, b, Some e) d'"
  by (cases b) (simp_all add: observed_outcome_def)

lemma capacity_exhausted_JobID [simp]: "JobID (capacity_exhausted job) = JobID job"
  by (simp add: capacity_exhausted_def bump_def)

lemma wp_write_exhausted:
  assumes "\<And>e d n. Q (missed True e) (at w d n)"
    and "\<And>d n. Validate ((capacity_exhausted job)\<lparr>UpdatedAt := now\<rparr>) = None \<Longrightarrow>
       loadPath d (JobID job) = Inr ((capacity_exhausted job)\<lparr>UpdatedAt := now\<rparr>) \<Longrightarrow>
       Q ((capacity_exhausted job)\<lparr>UpdatedAt := now\<rparr>, True, True, None) (at w d n)"
  shows "wp (write_exhausted name sh tid job now) Q w"
proof (cases "Validate ((capacity_exhausted job)\<lparr>UpdatedAt := now\<rparr>)")
  case (Some e)
  then show ?thesis
    using assms(1) [of _ "disk w" "tick w"] by (simp add: write_exhausted_def Let_def)
next
  case None
  let ?j = "(capacity_exhausted job)\<lparr>UpdatedAt := now\<rparr>"
  have log: "wp (appendEventUnlocked ?j name [] sh th old) (\<lambda>_. Q (?j, True, True, None)) (at w d n)"
    if "loadPath d (JobID job) = Inr ?j" for d n th old
    using that by (auto intro!: wp_appendEventUnlocked assms None)
  have "wp (release_if_done ?j) (\<lambda>_. wp (appendEventUnlocked ?j name [] sh th old) (\<lambda>_. Q (?j, True, True, None)))
      (at w (put_job_at (JobID job) ?j (disk w)) n)" for n th old
  proof (rule wp_release_if_done)
    fix r d m
    assume "if shouldReleaseBarrierIndexes ?j then released ?j (disk (at w (put_job_at (JobID job) ?j (disk w)) n)) d
      else d = disk (at w (put_job_at (JobID job) ?j (disk w)) n)"
    then have "saved (JobID job) ?j (disk w) d"
      by (cases "shouldReleaseBarrierIndexes ?j") (simp_all add: saved_def)
    then have "loadPath d (JobID job) = Inr ?j"
      by (simp add: loadPath_Inr saved_job_file Validate_schema None)
    then show "wp (appendEventUnlocked ?j name [] sh th old) (\<lambda>_. Q (?j, True, True, None))
        (at (at w (put_job_at (JobID job) ?j (disk w)) n) d m)"
      by (simp add: log)
  qed
  then show ?thesis
    unfolding write_exhausted_def Let_def None wp_bind wp_or_return
    by (auto intro!: wp_AtomicWriteJSON assms(1))
qed

definition keeps_identity :: "mutator \<Rightarrow> bool" where
  "keeps_identity f \<longleftrightarrow> (\<forall>j t now. JobID (snd (f j t now)) = JobID j)"

lemma observed_locked_outcome:
  assumes f: "keeps_identity f"
  shows "wp (observed_locked s t name key ej eb req f) (\<lambda>r w'. observed_outcome s key f (disk w) r (disk w')) w"
proof -
  obtain job found err where r: "findBySessionUnlocked (disk w) s = (job, found, err)"
    by (metis prod_cases3)
  show ?thesis
  proof (cases "err = None \<and> found")
    case False
    have "err \<noteq> None \<longrightarrow> \<not> found"
      using findBySession_found [of "disk w" s job err] r by (cases found) auto
    then show ?thesis
      using r False by (auto simp: observed_locked_def observed_outcome_def split: option.splits)
  next
    case True
    then have r: "findBySessionUnlocked (disk w) s = (job, True, None)" using r by simp
    have skip: "observed_outcome s key f (disk w) (job, False, True, None) (disk w)"
      using r by (simp add: observed_outcome_def)
    have ok: "observed_outcome s key f (disk w) (j, True, True, None) d"
      if "observed_job s key f job now j" "loadPath d (JobID job) = Inr j" for j now d
      using that r loadPath_valid [OF that(2)] by (auto simp: observed_outcome_def)
    have full: "wp (write_exhausted name (SHA256 s) t job now)
        (\<lambda>r w'. observed_outcome s key f (disk w) r (disk w')) (at w (disk w) n)"
      if "listening job" "\<not> duplicate_event key job" "TriggerPolicy job = TriggerAfterAllStop" "key \<noteq> []"
        "MaximumBarrierEventKeys \<le> length (ProcessedEventKeys job)" for now n
      using that by (intro wp_write_exhausted) (auto intro!: ok simp: observed_job_def)
    have update: "wp (write_update msg (JobID job2) name key sh th old h (job2\<lparr>UpdatedAt := now\<rparr>))
        (\<lambda>r w'. wp (case r of (j, changed, err) \<Rightarrow> ret (j, changed, True, err))
           (\<lambda>r w'. observed_outcome s key f (disk w) r (disk w')) w') (at w (disk w) n)"
      if "listening job" "\<not> duplicate_event key job" "f job (target_of s job) now = (None, job1)"
        "record_event_key key job1 = (None, job2)"
        "\<not> (TriggerPolicy job = TriggerAfterAllStop \<and> key \<noteq> [] \<and> MaximumBarrierEventKeys \<le> length (ProcessedEventKeys job))"
      for msg sh th old h now job1 job2 n
    proof -
      have "JobID job1 = JobID job"
        using f that(3) by (auto simp: keeps_identity_def dest: spec [of _ job] split: prod.splits) (metis snd_conv)
      then have id: "JobID job2 = JobID job"
        using record_event_key_None [OF that(4)] by simp
      have "observed_job s key f job now (job2\<lparr>UpdatedAt := now\<rparr>)" if "Validate (job2\<lparr>UpdatedAt := now\<rparr>) = None"
        using that \<open>listening job\<close> \<open>\<not> duplicate_event key job\<close> \<open>f job _ now = _\<close> \<open>record_event_key _ _ = _\<close>
          \<open>\<not> (_ \<and> _ \<and> _)\<close> by (auto simp: observed_job_def)
      then have "observed_outcome s key f (disk w) (j, True, True, None) (append_event e d)"
        if "Validate j = None" "saved (JobID job) j (disk w) d" "j = job2\<lparr>UpdatedAt := now\<rparr>" for j d e
        using that id saved_loadPath [OF that(2,1)] by (intro ok) auto
      then show ?thesis
        unfolding id by (intro wp_write_update) (auto intro: wp_any)
    qed
    show ?thesis
      using r skip full update
      by (auto simp: observed_locked_def duplicate_event_def [symmetric] wp_if wp_case_prod wp_case_option Let_def
          listening_def target_of_def intro!: wp_time_Now split: prod.splits option.splits)
  qed
qed

subsection \<open>What the authority grants\<close>

definition barrier_ready :: "plugin_disk \<Rightarrow> Job \<Rightarrow> bool" where
  "barrier_ready d job \<longleftrightarrow>
     loadPath d (JobID job) = Inr job \<and> \<not> barrier_unbound job \<and> BarrierSatisfied job \<and>
     (\<forall>t \<in> set (StopTargets job). path_IsAbs (tg_WorkspaceCWD t) \<and> holds_index job d (tg_SessionHash t)) \<and>
     rev_dir d (JobID job) (TargetBindingID job) = [] \<and> \<not> CancelRequested job"

lemma load_pending_length: "load_pending job b es = Inr ms \<Longrightarrow> length ms = length es"
  by (induction job b es arbitrary: ms rule: load_pending.induct) (auto split: sum.splits if_splits)

lemma pendingRevocations_Nil:
  "pendingRevocationsUnlocked d job = Inr [] \<Longrightarrow> rev_dir d (JobID job) (ObservedBindingID job) = []"
  by (auto simp: pendingRevocationsUnlocked_def Let_def ReadDir_def dest!: load_pending_length
      split: if_splits sum.splits)
    (metis length_0_conv length_sort)+

lemma barrierIndexesMatch_holds:
  assumes "barrierIndexesMatchUnlocked d job" and "t \<in> set (StopTargets job)"
  shows "holds_index job d (tg_SessionHash t)"
proof -
  obtain ix fd er where r: "readSessionIndexHashUnlocked d (tg_SessionHash t) = (ix, fd, er)"
    by (metis prod_cases3)
  then have m: "er = None" "fd" "ix = index_for job (tg_SessionHash t)"
    using assms by (auto simp: barrierIndexesMatchUnlocked_def list_all_iff index_for_def)
  then show ?thesis
    using r readSessionIndex_found by (auto simp: holds_index_def)
qed

lemma BarrierAuthority_ready:
  "wp (BarrierAuthority i) (\<lambda>(j, e) w'. may_see w (disk w') \<and> (e = None \<longrightarrow> JobID j = i \<and> barrier_ready (disk w') j)) w"
proof -
  let ?Q = "\<lambda>(j, e) w'. may_see w (disk w') \<and> (e = None \<longrightarrow> JobID j = i \<and> barrier_ready (disk w') j)"
  have ready: "JobID job = i \<and> barrier_ready d job"
    if "loadPath d i = Inr job" "\<not> barrier_unbound job" "BarrierSatisfied job"
      "list_all (\<lambda>t. \<not> (tg_WorkspaceCWD t = [] \<or> \<not> path_IsAbs (tg_WorkspaceCWD t))) (StopTargets job)"
      "barrierIndexesMatchUnlocked d job" "pendingRevocationsUnlocked d job = Inr []" "\<not> CancelRequested job" for d job
    using that loadPath_valid [OF that(1)] pendingRevocations_Nil [OF that(6)] barrierIndexesMatch_holds [OF that(5)]
    by (auto simp: barrier_ready_def list_all_iff ObservedBindingID_def barrier_unbound_def)
  show ?thesis
    unfolding BarrierAuthority_def read_pending_def wp_bind wp_or_return
    by (rule wp_acquireStateLock)
       (auto simp: wp_case_sum wp_if ready intro!: wp_call split: sum.splits list.splits)
qed

end
