(* ===== verification/Plugin_Examples.thy ===== *)
theory Plugin_Examples
  imports Plugin_Job
begin

text \<open>
  Concrete jobs and a world, the inputs of the witnesses of the other theories: a real \<open>after_stop\<close> job that is
  bound to a session and armed, and an \<open>after_all_stop\<close> barrier over two targets, one of them stopped.
\<close>

definition hash_of :: "char \<Rightarrow> string" where
  "hash_of c = replicate 64 c"

definition id_of :: "char \<Rightarrow> string" where
  "id_of c = ''dt_'' @ replicate 26 c"

definition sample_job :: Job where
  "sample_job = zero_Job\<lparr>SchemaVersion := CurrentSchemaVersion, JobID := id_of CHR ''a'',
     NonceHash := ''sha256:'' @ hash_of CHR ''0'', State := StateArmed, Action := ''shutdown'',
     TriggerPolicy := TriggerAfterStop, StopWithoutSuccessAck := True, DelaySeconds := 60,
     ExpiresAt := 1000, CreatedAt := 10, UpdatedAt := 10, SessionID := ''session'', ArmTurnID := ''turn'',
     CurrentTurnID := ''turn'', Generation := 1, VerifierProfile := ''none'', HookCompatibility := ''verified'',
     ArmObserved := True, WorkspaceCWD := ''/work''\<rparr>"

definition stopped_target :: StopTarget where
  "stopped_target = \<lparr>tg_SessionHash = hash_of CHR ''a'', tg_WorkspaceCWD = ''/work'', tg_CurrentTurnHash = hash_of CHR ''b'',
     tg_StopTurnHash = hash_of CHR ''b'', tg_ContinuationTurnHash = [], tg_FirstSeenAt = Some 11, tg_StopObservedAt = Some 12\<rparr>"

definition waiting_target :: StopTarget where
  "waiting_target = zero_StopTarget\<lparr>tg_SessionHash := hash_of CHR ''c''\<rparr>"

definition sample_barrier :: Job where
  "sample_barrier = sample_job\<lparr>TriggerPolicy := TriggerAfterAllStop, SessionID := [], ArmTurnID := [], CurrentTurnID := [],
     WorkspaceCWD := ''/work'', ControllerSessionHash := hash_of CHR ''d'', ControllerArmTurnHash := hash_of CHR ''e'',
     StopTargets := [stopped_target, waiting_target], TargetReservationsCommitted := True, TargetIndexesReady := True,
     TargetBindingID := id_of CHR ''b'', BarrierAcrossTurnsAck := True\<rparr>"

lemmas sample_defs = sample_job_def sample_barrier_def stopped_target_def waiting_target_def zero_Job_def zero_StopTarget_def

lemma sample_barrier_fields [simp]:
  "TriggerPolicy sample_barrier = TriggerAfterAllStop" "StopTargets sample_barrier = [stopped_target, waiting_target]"
  "State sample_barrier = StateArmed" "JobID sample_barrier = id_of CHR ''a''" "Generation sample_barrier = 1"
  "TargetBindingID sample_barrier = id_of CHR ''b''" "DryRun sample_barrier = False" "ProcessedEventKeys sample_barrier = []"
  by (simp_all add: sample_barrier_def sample_job_def zero_Job_def)

lemma sample_job_fields [simp]:
  "TriggerPolicy sample_job = TriggerAfterStop" "SessionID sample_job = ''session''" "DryRun sample_job = False"
  "State sample_job = StateArmed" "JobID sample_job = id_of CHR ''a''" "Generation sample_job = 1"
  "ProcessedEventKeys sample_job = []" "ExpiresAt sample_job = 1000"
  by (simp_all add: sample_job_def zero_Job_def)

lemma hash_of_valid [simp]: "hex_char c \<Longrightarrow> ValidIdentityHash (hash_of c)" "length (hash_of c) = 64" "hash_of c \<noteq> []"
  by (simp_all add: ValidIdentityHash_def hash_of_def list_all_iff)

lemma hash_of_eq [simp]: "hash_of c = hash_of d \<longleftrightarrow> c = d"
  by (simp add: hash_of_def)

lemma sample_targets [simp]: "target_ok stopped_target" "target_ok waiting_target"
  by (simp_all add: target_ok_iff stopped_target_def waiting_target_def zero_StopTarget_def Stopped_def path_IsAbs_def
      HasPrefix_def hex_char_def is_digit_def char_between_def char_code_def)

lemma sample_targets_Stopped [simp]: "Stopped stopped_target" "\<not> Stopped waiting_target"
  by (simp_all add: stopped_target_def waiting_target_def zero_StopTarget_def Stopped_def)

lemma id_of_valid [simp]: "is_lower c \<Longrightarrow> ValidateJobID (id_of c) = None"
  by (simp add: ValidateJobID_None id_of_def HasPrefix_def list_all_iff job_id_char_def is_lower_def char_between_def char_code_def)

lemma some_lower [simp]: "is_lower CHR ''a''" "is_lower CHR ''b''"
  by (simp_all add: is_lower_def char_between_def char_code_def)

theorem sample_job_valid [simp]: "Validate sample_job = None"
proof (rule Validate_NoneI)
  show "job_fixed sample_job" by (simp add: job_fixed_def sample_defs HasPrefix_def policy_Valid_def)
  show "job_clock sample_job" by (simp add: job_clock_def sample_defs state_known_def path_IsAbs_def HasPrefix_def)
  show "job_binding sample_job" by (simp add: job_binding_def sample_defs)
  show "job_evidence sample_job" by (simp add: job_evidence_def sample_defs)
  show "job_keys sample_job" by (simp add: job_keys_def sample_defs)
qed

theorem sample_barrier_valid [simp]: "Validate sample_barrier = None"
proof (rule Validate_NoneI)
  show "job_fixed sample_barrier" by (simp add: job_fixed_def sample_defs HasPrefix_def policy_Valid_def)
  show "job_clock sample_barrier" by (simp add: job_clock_def sample_defs state_known_def path_IsAbs_def HasPrefix_def)
  show "job_binding sample_barrier"
    using sample_targets
    by (simp add: job_binding_def sample_barrier_def sample_job_def zero_Job_def stopped_target_def waiting_target_def zero_StopTarget_def
       controller_ok_def hex_char_def is_digit_def char_between_def char_code_def)
  show "job_evidence sample_barrier" by (simp add: job_evidence_def sample_defs)
  show "job_keys sample_barrier" by (simp add: job_keys_def sample_defs)
qed

end
