(* ===== verification/Plugin_Status.thy ===== *)
theory Plugin_Status
  imports Plugin_Observed Plugin_Examples
begin

text \<open>
  \<open>Status\<close> of \<open>internal/pluginstate/store.go\<close>: the view of a job that the status tools print. It
  never reports execution as available, and it names barrier targets by the shortest prefixes
  of their session hashes, of at least eight characters, that tell them apart.
\<close>

record BarrierTargetStatus =
  bt_Index :: nat
  bt_SessionRef :: string
  bt_State :: string
  bt_TurnBound :: bool
  bt_WorkspaceBound :: bool

record BarrierStatus =
  bs_TargetsTotal :: nat
  bs_TargetsStopped :: nat
  bs_TargetsPending :: nat
  bs_TargetsUnseen :: nat
  bs_ReservationsCommitted :: bool
  bs_IndexesReady :: bool
  bs_Targets :: "BarrierTargetStatus list"

record Status =
  st_JobID :: string
  st_State :: State
  st_ReasonCode :: string
  st_Mode :: string
  st_Action :: string
  st_TriggerPolicy :: string
  st_DelaySeconds :: int
  st_ExpiresAt :: string
  st_Generation :: u64
  st_SessionBound :: bool
  st_CompletionStatus :: string
  st_HookCompatibility :: string
  st_ExecuteAvailable :: bool
  st_CancelCommand :: string
  st_ReconcileCommand :: string
  st_HostSnapshots :: string
  st_VerifierStatus :: string
  st_ScheduledFor :: string
  st_PowerBackend :: string
  st_CancelScope :: string
  st_CancelRequested :: bool
  st_CancelReason :: string
  st_Barrier :: "BarrierStatus option"

text \<open>The loop over the prefix length.\<close>

definition prefix_unique :: "StopTarget list \<Rightarrow> nat \<Rightarrow> nat \<Rightarrow> bool" where
  "prefix_unique targets i l \<longleftrightarrow>
     list_all (\<lambda>k. k = i \<or> \<not> HasPrefix (tg_SessionHash (targets ! k)) (take l (tg_SessionHash (targets ! i))))
       [0..<length targets]"

function prefix_length :: "StopTarget list \<Rightarrow> nat \<Rightarrow> nat \<Rightarrow> nat" where
  "prefix_length targets i l =
     (if l < length (tg_SessionHash (targets ! i)) \<and> \<not> prefix_unique targets i l
      then prefix_length targets i (Suc l) else l)"
  by pat_completeness auto

termination
  by (relation "measure (\<lambda>(ts, i, l). length (tg_SessionHash (ts ! i)) - l)") auto

declare prefix_length.simps [simp del]

text \<open>Slicing a hash shorter than the prefix panics in Go; validated hashes have 64 characters.\<close>

definition uniqueSessionPrefixes :: "StopTarget list \<Rightarrow> string list" where
  "uniqueSessionPrefixes targets =
     map (\<lambda>i. take (prefix_length targets i 8) (tg_SessionHash (targets ! i))) [0..<length targets]"

definition target_status :: "string list \<Rightarrow> nat \<Rightarrow> StopTarget \<Rightarrow> BarrierTargetStatus" where
  "target_status prefixes i target =
     \<lparr>bt_Index = i + 1, bt_SessionRef = ''sha256:'' @ prefixes ! i,
      bt_State = (if tg_FirstSeenAt target = None then ''unseen''
                  else if Stopped target then ''stopped'' else ''running''),
      bt_TurnBound = tg_CurrentTurnHash target \<noteq> [], bt_WorkspaceBound = tg_WorkspaceCWD target \<noteq> []\<rparr>"

definition barrier_status :: "Job \<Rightarrow> BarrierStatus" where
  "barrier_status job =
     (case BarrierProgress job of (stopped, unseen) \<Rightarrow>
        \<lparr>bs_TargetsTotal = length (StopTargets job), bs_TargetsStopped = stopped,
         bs_TargetsPending = length (StopTargets job) - stopped, bs_TargetsUnseen = unseen,
         bs_ReservationsCommitted = TargetReservationsCommitted job, bs_IndexesReady = TargetIndexesReady job,
         bs_Targets = map (\<lambda>i. target_status (uniqueSessionPrefixes (StopTargets job)) i (StopTargets job ! i))
                        [0..<length (StopTargets job)]\<rparr>)"

definition host_snapshots :: "Job \<Rightarrow> string" where
  "host_snapshots job =
     (if stop_policy (TriggerPolicy job) then ''not_required''
      else nat_str (length (filter (\<lambda>f. f \<noteq> [])
             [HookFingerprintH1 job, HookFingerprintH2 job, HookFingerprintH3 job])) @ ''/3'')"

definition verifier_status :: "Job \<Rightarrow> string" where
  "verifier_status job =
     (if stop_policy (TriggerPolicy job) then ''not_required''
      else if VerifierProfile job = ''none'' then ''agent-only''
      else if VerifierPassed job then ''passed''
      else if State job = StateVerificationFailed then ''failed'' else ''pending'')"

definition store_Status :: "Job \<Rightarrow> Status" where
  "store_Status job =
     \<lparr>st_JobID = JobID job, st_State = State job, st_ReasonCode = ReasonCode job,
      st_Mode = (if DryRun job then ''dry_run'' else ''execute''), st_Action = Action job,
      st_TriggerPolicy = policy_string (TriggerPolicy job), st_DelaySeconds = DelaySeconds job,
      st_ExpiresAt = Format_RFC3339 (ExpiresAt job), st_Generation = Generation job,
      st_SessionBound =
        (if TriggerPolicy job = TriggerAfterAllStop
         then ControllerSessionHash job \<noteq> [] \<and> ControllerArmTurnHash job \<noteq> [] \<and> TargetIndexesReady job
         else SessionID job \<noteq> []),
      st_CompletionStatus = CompletionStatus job, st_HookCompatibility = HookCompatibility job,
      st_ExecuteAvailable = False, st_CancelCommand = ''donethen cancel '' @ JobID job,
      st_ReconcileCommand = ''donethen reconcile '' @ JobID job, st_HostSnapshots = host_snapshots job,
      st_VerifierStatus = verifier_status job,
      st_ScheduledFor = (case ScheduledFor job of None \<Rightarrow> [] | Some t \<Rightarrow> Format_RFC3339 t),
      st_PowerBackend = (case PowerCapabilities job of None \<Rightarrow> [] | Some c \<Rightarrow> cap_BackendID c),
      st_CancelScope = (case PowerCapabilities job of None \<Rightarrow> [] | Some c \<Rightarrow> scope_string (cap_CancelScope c)),
      st_CancelRequested = CancelRequested job, st_CancelReason = CancelReason job,
      st_Barrier = (if TriggerPolicy job = TriggerAfterAllStop then Some (barrier_status job) else None)\<rparr>"

lemma prefix_length_props:
  assumes "l \<le> length (tg_SessionHash (ts ! i))"
  shows "l \<le> prefix_length ts i l \<and> prefix_length ts i l \<le> length (tg_SessionHash (ts ! i)) \<and>
     (prefix_length ts i l = length (tg_SessionHash (ts ! i)) \<or> prefix_unique ts i (prefix_length ts i l))"
  using assms
proof (induction ts i l rule: prefix_length.induct)
  case (1 ts i l)
  show ?case
  proof (cases "l < length (tg_SessionHash (ts ! i)) \<and> \<not> prefix_unique ts i l")
    case True
    then have "prefix_length ts i l = prefix_length ts i (Suc l)"
      by (subst prefix_length.simps) simp
    then show ?thesis using 1(1) [OF True] True by (simp add: Suc_le_eq)
  next
    case False
    then have "prefix_length ts i l = l"
      by (subst prefix_length.simps) (simp only: if_False)
    then show ?thesis using 1(2) False by auto
  qed
qed

text \<open>The prefixes of a valid barrier's targets are pairwise different.\<close>

lemma uniqueSessionPrefixes_distinct:
  assumes len: "\<forall>t \<in> set ts. length (tg_SessionHash t) = 64" and dist: "distinct (map tg_SessionHash ts)"
  shows "distinct (uniqueSessionPrefixes ts) \<and> (\<forall>p \<in> set (uniqueSessionPrefixes ts). 8 \<le> length p)"
proof -
  let ?h = "\<lambda>i. tg_SessionHash (ts ! i)" and ?l = "\<lambda>i. prefix_length ts i 8"
  have l: "8 \<le> ?l i" "?l i \<le> 64" "?l i = 64 \<or> prefix_unique ts i (?l i)" "length (?h i) = 64" if "i < length ts" for i
    using prefix_length_props [of 8 ts i] that len by auto
  have "take (?l i) (?h i) \<noteq> take (?l k) (?h k)" if ik: "i < length ts" "k < length ts" "i \<noteq> k" for i k
  proof
    assume eq: "take (?l i) (?h i) = take (?l k) (?h k)"
    then have same: "?l i = ?l k"
      using l [OF ik(1)] l [OF ik(2)] by (metis length_take min.absorb2)
    show False
    proof (cases "?l i = 64")
      case True
      then have "?h i = ?h k" using eq same l(4) [OF ik(1)] l(4) [OF ik(2)] by simp
      then show False using dist ik by (simp add: distinct_conv_nth)
    next
      case False
      then have "prefix_unique ts i (?l i)" using l(3) [OF ik(1)] by simp
      then have "\<not> HasPrefix (?h k) (take (?l i) (?h i))"
        using ik by (auto simp: prefix_unique_def list_all_iff)
      moreover have "HasPrefix (?h k) (take (?l i) (?h i))"
        using eq same l(2,4) [OF ik(1)] l(4) [OF ik(2)] by (simp add: HasPrefix_def)
      ultimately show False by simp
    qed
  qed
  then have "distinct (uniqueSessionPrefixes ts)"
    by (simp add: uniqueSessionPrefixes_def distinct_conv_nth)
  moreover have "8 \<le> length p" if "p \<in> set (uniqueSessionPrefixes ts)" for p
    using that l by (auto simp: uniqueSessionPrefixes_def)
  ultimately show ?thesis by simp
qed

lemma valid_targets_hashes:
  assumes "Validate j = None"
  shows "(\<forall>t \<in> set (StopTargets j). length (tg_SessionHash t) = 64) \<and> distinct (map tg_SessionHash (StopTargets j))"
  using Validate_NoneD(3) [OF assms]
  by (auto simp: job_binding_def list_all_iff target_ok_iff ValidIdentityHash_def split: if_splits)

lemma barrier_progress_counts:
  "barrier_progress ts (a, b) =
     (a + length (filter Stopped ts), b + length (filter (\<lambda>t. tg_FirstSeenAt t = None) ts))"
  by (induction ts arbitrary: a b) simp_all

text \<open>
  The status of a valid barrier job is unambiguous. Its targets are shown under pairwise different
  references of at least eight hash characters; the pending count is the number of targets that
  are not stopped, and it is zero exactly when the barrier is satisfied; and no stored job is
  reported as executable.
\<close>

theorem status_unambiguous:
  assumes "Validate job = None" and "TriggerPolicy job = TriggerAfterAllStop"
  shows "\<exists>b. st_Barrier (store_Status job) = Some b \<and> distinct (map bt_SessionRef (bs_Targets b)) \<and>
     (\<forall>t \<in> set (bs_Targets b). 15 \<le> length (bt_SessionRef t)) \<and>
     bs_TargetsPending b = length (filter (\<lambda>t. \<not> Stopped t) (StopTargets job)) \<and>
     (bs_TargetsPending b = 0 \<longleftrightarrow> BarrierSatisfied job) \<and> \<not> st_ExecuteAvailable (store_Status job)"
proof -
  let ?ts = "StopTargets job" and ?b = "barrier_status job"
  have u: "distinct (uniqueSessionPrefixes ?ts)" "\<forall>p \<in> set (uniqueSessionPrefixes ?ts). 8 \<le> length p"
    using uniqueSessionPrefixes_distinct valid_targets_hashes [OF assms(1)] by auto
  have n: "length (uniqueSessionPrefixes ?ts) = length ?ts" by (simp add: uniqueSessionPrefixes_def)
  have refs: "map bt_SessionRef (bs_Targets ?b) = map (\<lambda>p. ''sha256:'' @ p) (uniqueSessionPrefixes ?ts)"
    by (auto simp: barrier_status_def target_status_def n intro!: nth_equalityI split: prod.splits)
  have pend: "bs_TargetsPending ?b = length (filter (\<lambda>t. \<not> Stopped t) ?ts)"
    using sum_length_filter_compl [of Stopped ?ts]
    by (simp add: barrier_status_def BarrierProgress_def barrier_progress_counts)
  have "2 \<le> length ?ts" "length ?ts \<le> 16"
    using Validate_NoneD(3) [OF assms(1)] assms(2) by (simp_all add: job_binding_def)
  then have "bs_TargetsPending ?b = 0 \<longleftrightarrow> BarrierSatisfied job"
    by (simp add: pend BarrierSatisfied_def filter_empty_conv list_all_iff)
  moreover have "distinct (map bt_SessionRef (bs_Targets ?b))"
    unfolding refs using u(1) by (simp add: distinct_map inj_on_def)
  moreover have "15 \<le> length (bt_SessionRef t)" if "t \<in> set (bs_Targets ?b)" for t
  proof -
    have "bt_SessionRef t \<in> set (map (\<lambda>p. ''sha256:'' @ p) (uniqueSessionPrefixes ?ts))"
      using that refs by (metis image_eqI image_set)
    then show ?thesis using u(2) by auto
  qed
  ultimately show ?thesis
    using assms(2) pend by (auto simp: store_Status_def)
qed

theorem status_unambiguous_witness:
  "\<exists>b. st_Barrier (store_Status sample_barrier) = Some b \<and> distinct (map bt_SessionRef (bs_Targets b)) \<and>
     bs_TargetsPending b = 1"
proof -
  obtain b where b: "st_Barrier (store_Status sample_barrier) = Some b" "distinct (map bt_SessionRef (bs_Targets b))"
    "bs_TargetsPending b = length (filter (\<lambda>t. \<not> Stopped t) (StopTargets sample_barrier))"
    using status_unambiguous [OF sample_barrier_valid] by auto
  then show ?thesis
    by auto
qed

end
