(* ===== verification/Plugin_Update.thy ===== *)
theory Plugin_Update
  imports Plugin_Observed Plugin_Examples
begin

text \<open>
  What the updates of the plugin state store promise their callers: a committed update is on disk,
  is logged once and is applied once per event key; binding never revives a job; reservations
  exclude each other; an authorised barrier is complete at the moment of the authorisation.
\<close>

subsection \<open>Shared facts\<close>

definition keeps_id :: "(Job \<Rightarrow> time \<Rightarrow> err option \<times> Job) \<Rightarrow> bool" where
  "keeps_id f \<longleftrightarrow> (\<forall>j now. JobID (snd (f j now)) = JobID j)"

lemma next_job_JobID:
  assumes "next_job i key f d now old j" and "keeps_id f"
  shows "JobID j = i"
proof -
  obtain job1 job2 where "f old now = (None, job1)" "record_event_key key job1 = (None, job2)"
    "j = job2\<lparr>UpdatedAt := now\<rparr>" "loadPath d i = Inr old"
    using assms(1) by (auto simp: next_job_def)
  moreover from this have "JobID job1 = JobID old" using assms(2) by (metis keeps_id_def snd_conv)
  ultimately show ?thesis using loadPath_valid record_event_key_None by auto
qed

lemma next_job_key: "next_job i key f d now old j \<Longrightarrow> key \<noteq> [] \<Longrightarrow> hasEventKey j key"
  by (auto simp: next_job_def hasEventKey_def dest!: record_event_key_keeps)

lemma saved_indexes_event [simp]: "indexes_gone j (append_event e d) = indexes_gone j d"
  by (simp add: indexes_gone_def holds_index_def)

text \<open>A committed update, seen from the outside.\<close>

lemma committed_facts:
  assumes "update_step i name key f d (j, True, e) d'"
  obtains now old t where "e = None" "next_job i key f d now old j" "indexes_gone j d'"
    "job_file d' i = Some (File (Parsed j))"
    "events_of d' (JobID j) = events_of d (JobID j) @ [event_of j name key [] [] (State old) t]"
  using assms
  by (cases rule: update_changedE) (auto simp: saved_job_file saved_events)

lemma committed_load:
  "job_file d' i = Some (File (Parsed j)) \<Longrightarrow> Validate j = None \<Longrightarrow> JobID j = i \<Longrightarrow> loadPath d' i = Inr j"
  by (simp add: loadPath_Inr Validate_schema)

text \<open>A program under the lock: it starts on the disk as the other processes left it.\<close>

lemma wp_locked:
  assumes "\<And>e w'. disk w' = disk w \<Longrightarrow> Q (on_error e) w'" and "\<And>k n. wp m Q (at w (others w k (disk w)) n)"
  shows "wp (do { lock \<leftarrow> acquireStateLock t; or_return lock on_error m }) Q w"
  unfolding wp_bind by (rule wp_acquireStateLock) (simp_all add: assms)

subsection \<open>Loading\<close>

lemma loaded_facts:
  assumes "loadPath d i = Inr j"
  shows "Validate j = None \<and> JobID j = i \<and> SchemaVersion j = CurrentSchemaVersion \<and> Suc 0 \<le> length (NonceHash j) \<and>
    (TriggerPolicy j = TriggerVerifiedSuccess \<or> TriggerPolicy j = TriggerAfterStop \<or> TriggerPolicy j = TriggerAfterAllStop)"
  using loadPath_valid [OF assms] Validate_NoneD(1) [of j]
  by (cases "TriggerPolicy j") (simp_all add: job_fixed_def policy_Valid_def)

text \<open>
  C33: Whatever is on disk, \<open>Load\<close> only ever hands out a job that passes validation, has the current
  schema and the identity it was asked for, and it leaves the disk to the other processes.
\<close>

theorem load_valid:
  "wp (store_Load i) (\<lambda>r w'. may_see w (disk w') \<and>
     (case r of Inl _ \<Rightarrow> True
      | Inr j \<Rightarrow> Validate j = None \<and> JobID j = i \<and> SchemaVersion j = CurrentSchemaVersion \<and>
          1 \<le> length (NonceHash j) \<and> TriggerPolicy j \<in> {TriggerVerifiedSuccess, TriggerAfterStop, TriggerAfterAllStop})) w"
  unfolding store_Load_def wp_or_return wp_bind
  by (auto intro!: wp_observe dest!: loaded_facts split: sum.split)

subsection \<open>UpdateJob\<close>

text \<open>
  C17: An update that reports a change has made it durable: the job file holds exactly the job that is
  returned, which is valid and is the result of the closure on the job as it was stored under the
  lock, under an event key that job had not processed; one event with this key and the new state
  ends its log; and if the job is a barrier that is done, none of its session indexes is left. An
  update that reports no change and no error has found the event key processed and has changed
  nothing.
\<close>

theorem update_commits:
  "wp (UpdateJob i name key f) (\<lambda>(j, changed, e) w'. \<exists>d. may_see w d \<and>
     (if changed then
        e = None \<and> (\<exists>now old. next_job i key f d now old j) \<and> job_file (disk w') i = Some (File (Parsed j)) \<and>
        indexes_gone j (disk w') \<and>
        (\<exists>old t. events_of (disk w') (JobID j) = events_of d (JobID j) @ [event_of j name key [] [] old t])
      else case e of Some _ \<Rightarrow> True
        | None \<Rightarrow> disk w' = d \<and> loadPath d i = Inr j \<and> duplicate_event key j)) w"
proof (rule wp_mono [OF UpdateJob_step], goal_cases)
  case (1 r w')
  then obtain d where d: "may_see w d" "update_step i name key f d r (disk w')" by blast
  obtain j c e where r: "r = (j, c, e)" by (cases r)
  show ?case
  proof (cases c)
    case True
    then show ?thesis
      using d(2) unfolding r by simp (erule committed_facts, use d(1) in blast)
  next
    case False
    then show ?thesis
      using d unfolding r by (auto elim!: update_stepE split: option.split)
  qed
qed

text \<open>The key was processed, and at most \<open>n\<close> keys after it.\<close>

definition remembers :: "string \<Rightarrow> string \<Rightarrow> nat \<Rightarrow> plugin_disk \<Rightarrow> bool" where
  "remembers i key n d \<longleftrightarrow> (\<exists>j xs ys. loadPath d i = Inr j \<and> ProcessedEventKeys j = xs @ key # ys \<and> length ys \<le> n)"

text \<open>A closure that leaves the identity and the processed keys alone, as all closures of the program do.\<close>

definition keeps_keys :: "(Job \<Rightarrow> time \<Rightarrow> err option \<times> Job) \<Rightarrow> bool" where
  "keeps_keys f \<longleftrightarrow> (\<forall>j now. JobID (snd (f j now)) = JobID j \<and> ProcessedEventKeys (snd (f j now)) = ProcessedEventKeys j)"

lemma appendEventKey_remembers:
  assumes "keys = xs @ key # ys" "length ys \<le> n" "Suc n < MaximumLegacyEventKeys"
  shows "\<exists>xs' ys'. appendEventKey keys k = xs' @ key # ys' \<and> length ys' \<le> Suc n"
proof -
  let ?m = "length (keys @ [k]) - MaximumLegacyEventKeys"
  have "drop ?m (keys @ [k]) = drop ?m xs @ key # (ys @ [k])"
    using assms by simp
  then have "appendEventKey keys k = drop ?m xs @ key # (ys @ [k])"
    by (simp add: appendEventKey_def Let_def assms(1))
  then show ?thesis using assms(2) by fastforce
qed

lemma recorded_remembers:
  assumes "record_event_key k j = (None, j')" "ProcessedEventKeys j = xs @ key # ys" "length ys \<le> n" "Suc n < MaximumLegacyEventKeys"
  shows "\<exists>xs' ys'. ProcessedEventKeys j' = xs' @ key # ys' \<and> length ys' \<le> Suc n"
proof (cases "k = []")
  case True
  then show ?thesis using assms(1-3) by (intro exI [of _ xs] exI [of _ ys]) (simp add: record_event_key_def)
next
  case False
  show ?thesis
  proof (cases "TriggerPolicy j = TriggerAfterAllStop")
    case True
    then have "ProcessedEventKeys j' = xs @ key # (ys @ [k])"
      using assms(1,2) False by (auto simp: record_event_key_def appendProcessedEventKey_def split: if_splits)
    then show ?thesis
      using assms(3) by (intro exI [of _ xs] exI [of _ "ys @ [k]"]) simp
  next
    case legacy: False
    then have "ProcessedEventKeys j' = appendEventKey (ProcessedEventKeys j) k"
      using assms(1) False by (auto simp: record_event_key_def appendProcessedEventKey_def)
    then show ?thesis
      using appendEventKey_remembers [OF assms(2-4)] by simp
  qed
qed

lemma recorded_last:
  assumes "record_event_key k j = (None, j')" "k \<noteq> []"
  shows "\<exists>xs. ProcessedEventKeys j' = xs @ [k]"
  using assms by (auto simp: record_event_key_def appendProcessedEventKey_def appendEventKey_def Let_def split: if_splits)

text \<open>What one update does to the memory of a key.\<close>

lemma written_load:
  assumes "next_job i k f d now old j" "keeps_keys f" "written i j d d'"
  shows "loadPath d' i = Inr j"
proof -
  have "Validate j = None" using assms(1) by (simp add: next_job_def)
  moreover have "JobID j = i"
    by (rule next_job_JobID [OF assms(1)]) (use assms(2) in \<open>simp add: keeps_keys_def keeps_id_def\<close>)
  ultimately show ?thesis
    using committed_load written_job_file [OF assms(3)] by simp
qed

lemma step_written:
  assumes "update_step i name k f d r d'"
  shows "d' = d \<and> \<not> fst (snd r) \<or> (\<exists>now old j. next_job i k f d now old j \<and> written i j d d')"
  using assms
proof (cases rule: update_step.cases)
  case (committed now old j d1 t)
  then have "written i j d d'" by (auto intro: written_event)
  then show ?thesis using committed by blast
qed auto

lemma step_remembers:
  assumes "update_step i name k f d r d'" "keeps_keys f" "remembers i key n d" "Suc n < MaximumLegacyEventKeys"
  shows "remembers i key (Suc n) d'"
proof -
  have "remembers i key (Suc n) d'" if "next_job i k f d now old j" "written i j d d'" for now old j
  proof -
    note change = that
    have "loadPath d i = Inr old" using change(1) by (simp add: next_job_def)
    then obtain xs ys where keys: "ProcessedEventKeys old = xs @ key # ys" "length ys \<le> n"
      using assms(3) by (auto simp: remembers_def)
    obtain job1 job2 where step: "f old now = (None, job1)" "record_event_key k job1 = (None, job2)" "j = job2\<lparr>UpdatedAt := now\<rparr>"
      using change(1) by (auto simp: next_job_def)
    have "ProcessedEventKeys job1 = ProcessedEventKeys old"
      using assms(2) step(1) by (metis keeps_keys_def snd_conv)
    then show ?thesis
      using step keys recorded_remembers [of k job1 job2 xs key ys n] assms(4) written_load [OF change(1) assms(2) change(2)]
      by (auto simp: remembers_def)
  qed
  then show ?thesis
    using step_written [OF assms(1)] assms(3) unfolding remembers_def by (blast intro: le_SucI)
qed

lemma step_first:
  assumes "update_step i name key f d r d'" "keeps_keys f" "fst (snd r)" "key \<noteq> []"
  shows "remembers i key 0 d'"
proof -
  obtain now old j where change: "next_job i key f d now old j" "written i j d d'"
    using step_written [OF assms(1)] assms(3) by blast
  then obtain job1 job2 where "record_event_key key job1 = (None, job2)" "j = job2\<lparr>UpdatedAt := now\<rparr>"
    by (auto simp: next_job_def)
  then obtain xs where "ProcessedEventKeys j = xs @ [key]"
    using recorded_last assms(4) by fastforce
  then show ?thesis
    unfolding remembers_def by (intro exI [of _ j] exI [of _ xs] exI [of _ "[]"]) (use written_load [OF change(1) assms(2) change(2)] in simp)
qed

lemma step_again: "update_step i name key f d r d' \<Longrightarrow> remembers i key n d \<Longrightarrow> key \<noteq> [] \<Longrightarrow> \<not> fst (snd r)"
  by (auto simp: remembers_def next_job_def duplicate_event_def hasEventKey_def elim!: update_stepE)

text \<open>A sequence of updates of one job, and how often an event was applied.\<close>

type_synonym job_update = "string \<times> string \<times> (Job \<Rightarrow> time \<Rightarrow> err option \<times> Job)"

fun run_updates :: "string \<Rightarrow> job_update list \<Rightarrow> bool list pop" where
  "run_updates i [] = ret []"
| "run_updates i ((name, key, f) # us) = do {
     (_, changed, _) \<leftarrow> UpdateJob i name key f;
     cs \<leftarrow> run_updates i us;
     ret (changed # cs) }"

definition applied :: "string \<Rightarrow> job_update list \<Rightarrow> bool list \<Rightarrow> nat" where
  "applied key us cs = length (filter (\<lambda>((_, k, _), c). k = key \<and> c) (zip us cs))"

lemma applied_Cons [simp]: "applied key ((name, k, f) # us) (c # cs) = (if k = key \<and> c then 1 else 0) + applied key us cs"
  by (simp add: applied_def)

text \<open>Whatever the other processes do outside the sequence, they do not push the key further back.\<close>

definition others_remember :: "string \<Rightarrow> string \<Rightarrow> plugin_disk world \<Rightarrow> bool" where
  "others_remember i key w \<longleftrightarrow> (\<forall>n. stable (remembers i key n) w)"

lemma others_evolve: "evolves w w' \<Longrightarrow> others_remember i key w' = others_remember i key w"
  by (simp add: others_remember_def stable_evolves)

lemma never_again:
  assumes "others_remember i key w" "list_all (\<lambda>(_, _, f). keeps_keys f) us" "key \<noteq> []"
    and "remembers i key n (disk w)" "n + length us < MaximumLegacyEventKeys"
  shows "wp (run_updates i us) (\<lambda>cs _. applied key us cs = 0) w"
  using assms
proof (induction us arbitrary: n w)
  case Nil
  then show ?case by (simp add: applied_def)
next
  case (Cons u us n w)
  obtain name k f where u: "u = (name, k, f)" by (cases u)
  show ?case
    unfolding u run_updates.simps wp_bind
  proof (rule wp_mono [OF UpdateJob_step])
    fix r w'
    assume r: "evolves w w' \<and> (\<exists>d. may_see w d \<and> update_step i name k f d r (disk w'))"
    obtain j c e where r_parts: "r = (j, c, e)" by (cases r)
    obtain d where w': "evolves w w'" "may_see w d" "update_step i name k f d (j, c, e) (disk w')"
      using r r_parts by blast
    have d: "remembers i key n d"
      by (rule may_see_stable [OF w'(2)]) (use Cons.prems in \<open>auto simp: others_remember_def\<close>)
    have next_n: "remembers i key (Suc n) (disk w')"
      by (rule step_remembers [OF w'(3) _ d]) (use Cons.prems u in auto)
    have "\<not> (k = key \<and> c)"
      using step_again [OF w'(3)] d Cons.prems(3) by auto
    then show "wp (case r of (_, changed, _) \<Rightarrow> run_updates i us \<bind> (\<lambda>cs. ret (changed # cs)))
        (\<lambda>cs _. applied key ((name, k, f) # us) cs = 0) w'"
      unfolding r_parts
      using Cons.IH [OF _ _ _ next_n] Cons.prems others_evolve [OF w'(1)] by (auto simp: r_parts elim!: wp_mono)
  qed
qed

text \<open>
  C24: Among any 128 successive updates of a job an event is applied at most once. The sequence is the one of
  all processes, in the order in which they get the lock, with any names, event keys and closures that leave the
  processed keys alone; at most one of its updates with the same event key reports a change, and this holds when
  updates with other keys come in between and when an update fails after it has written the job. Beyond 128
  updates a job without a barrier may have forgotten the key. The condition is that whatever else is written to
  the job in between does not push the key further back.
\<close>

theorem events_applied_once:
  assumes "others_remember i key w" "list_all (\<lambda>(_, _, f). keeps_keys f) us" "key \<noteq> []" "length us \<le> MaximumLegacyEventKeys"
  shows "wp (run_updates i us) (\<lambda>cs _. applied key us cs \<le> 1) w"
  using assms
proof (induction us arbitrary: w)
  case Nil
  then show ?case by (simp add: applied_def)
next
  case (Cons u us w)
  obtain name k f where u: "u = (name, k, f)" by (cases u)
  show ?case
    unfolding u run_updates.simps wp_bind
  proof (rule wp_mono [OF UpdateJob_step])
    fix r w'
    assume r: "evolves w w' \<and> (\<exists>d. may_see w d \<and> update_step i name k f d r (disk w'))"
    obtain j c e where r_parts: "r = (j, c, e)" by (cases r)
    obtain d where w': "evolves w w'" "may_see w d" "update_step i name k f d (j, c, e) (disk w')"
      using r r_parts by blast
    show "wp (case r of (_, changed, _) \<Rightarrow> run_updates i us \<bind> (\<lambda>cs. ret (changed # cs)))
        (\<lambda>cs _. applied key ((name, k, f) # us) cs \<le> 1) w'"
    proof (cases "k = key \<and> c")
      case True
      then have "remembers i key 0 (disk w')"
        using step_first [of i name key f d "(j, c, e)"] w'(3) Cons.prems u by auto
      then show ?thesis
        using never_again [of i key w' us 0] Cons.prems others_evolve [OF w'(1)] True by (auto simp: r_parts elim!: wp_mono)
    next
      case False
      then show ?thesis
        using Cons.IH [of w'] Cons.prems others_evolve [OF w'(1)] by (auto simp: r_parts elim!: wp_mono)
    qed
  qed
qed

theorem events_applied_once_witness:
  "wp (run_updates (id_of CHR ''a'')
       [(''first'', hash_of CHR ''0'', \<lambda>j _. (None, j)), (''other'', hash_of CHR ''1'', \<lambda>j _. (None, j)),
        (''again'', hash_of CHR ''0'', \<lambda>j _. (None, j\<lparr>ReasonCode := ''again''\<rparr>))])
     (\<lambda>cs _. applied (hash_of CHR ''0'')
       [(''first'', hash_of CHR ''0'', \<lambda>j _. (None, j)), (''other'', hash_of CHR ''1'', \<lambda>j _. (None, j)),
        (''again'', hash_of CHR ''0'', \<lambda>j _. (None, j\<lparr>ReasonCode := ''again''\<rparr>))] cs \<le> 1)
     (quiet_world (put_job sample_job empty_disk))"
  by (rule events_applied_once) (simp_all add: keeps_keys_def others_remember_def)

subsection \<open>Creating and loading\<close>

text \<open>
  A job that \<open>Create\<close> accepts is loaded back unchanged: creating a job of the current schema and
  loading it by its identity gives the same job, as long as the other processes leave its file
  alone, and a job that is refused is not found to have been accepted.
\<close>

theorem create_load:
  assumes "SchemaVersion job = CurrentSchemaVersion" and "stable (\<lambda>d. job_file d (JobID job) = Some (File (Parsed job))) w"
  shows "wp (do { e \<leftarrow> store_Create job; r \<leftarrow> store_Load (JobID job); ret (e, r) })
     (\<lambda>(e, r) _. e \<noteq> None \<or> Validate job = None \<and> r = Inr job) w"
proof (cases "Validate job")
  case (Some x)
  then show ?thesis
    by (simp add: store_Create_def assms(1) wp_any)
next
  case valid: None
  have id: "ValidateJobID (JobID job) = None"
    using Validate_NoneD(1) [OF valid] by (simp add: job_fixed_def)
  have load: "wp (store_Load (JobID job)) (\<lambda>r _. r = Inr job) w'"
    if "job_file (disk w') (JobID job) = Some (File (Parsed job))" "others w' = others w" for w'
  proof -
    have "job_file (others w' k (disk w')) (JobID job) = Some (File (Parsed job))" for k
      using assms(2) that unfolding stable_def by simp
    then show ?thesis
      using that id valid unfolding store_Load_def wp_or_return wp_bind
      by (auto intro!: wp_observe committed_load)
  qed
  have "wp (store_Create job) (\<lambda>e w'. e \<noteq> None \<or> job_file (disk w') (JobID job) = Some (File (Parsed job)) \<and> others w' = others w) w"
    unfolding store_Create_def
    by (auto simp: assms(1) valid intro!: wp_acquireStateLock wp_AtomicWriteJSON wp_appendEventUnlocked)
  then show ?thesis
    unfolding wp_bind by (rule wp_mono) (auto simp: valid wp_any intro: wp_mono [OF load])
qed

theorem create_load_witness:
  "wp (do { e \<leftarrow> store_Create sample_job; r \<leftarrow> store_Load (JobID sample_job); ret (e, r) })
     (\<lambda>(e, r) _. e \<noteq> None \<or> Validate sample_job = None \<and> r = Inr sample_job) (quiet_world empty_disk)"
  by (rule create_load) (simp_all add: sample_job_def)

subsection \<open>Binding\<close>

definition bound_to :: "string \<Rightarrow> string \<Rightarrow> Job \<Rightarrow> bool" where
  "bound_to s t j \<longleftrightarrow>
     (if TriggerPolicy j = TriggerAfterAllStop
      then ControllerSessionHash j = SHA256 s \<and> ControllerArmTurnHash j = SHA256 t
      else SessionID j = s \<and> ArmTurnID j = t)"

text \<open>A terminal job stays as it is; any other ends up bound to the session, expired or withdrawn.\<close>

definition settles :: "string \<Rightarrow> string \<Rightarrow> Job \<Rightarrow> Job \<Rightarrow> bool" where
  "settles s t old j \<longleftrightarrow>
     (if IsTerminal (State old) then State j = State old \<and> Generation j = Generation old
      else State j = StateExpired \<or> State j = StateHookUnavailable \<or> bound_to s t j)"

lemma bound_job_bound:
  assumes "bound_job d s t ws key old now j" and "\<not> IsTerminal (State old)"
  shows "State j = StateExpired \<or> State j = StateHookUnavailable \<or> bound_to s t j"
proof -
  obtain job1 job2 where k: "record_event_key key job1 = (None, job2)" "j = job2\<lparr>UpdatedAt := now\<rparr>"
    and b: "if TriggerPolicy old = TriggerAfterAllStop then bind_controller d (SHA256 s) (SHA256 t) ws old now = (None, job1)
      else bind_session d s t ws old now = (None, job1)"
    using assms(1) by (auto simp: bound_job_def)
  have "State job1 = StateExpired \<or> State job1 = StateHookUnavailable \<or> bound_to s t job1"
  proof (cases "TriggerPolicy old = TriggerAfterAllStop")
    case True
    then have c: "bind_controller d (SHA256 s) (SHA256 t) ws old now = (None, job1)" using b by simp
    show ?thesis
      using bind_controller_cases [OF c] bind_controller_keeps [OF c] True
      by (elim disjE) (simp_all add: bound_to_def expire_def split: if_splits, auto)
  next
    case False
    then have c: "bind_session d s t ws old now = (None, job1)" using b by simp
    show ?thesis
      using bind_session_cases [OF c] bind_session_keeps [OF c] False
      by (elim disjE) (simp_all add: bound_to_def expire_def split: if_splits, auto)
  qed
  moreover obtain ks where "job2 = job1\<lparr>ProcessedEventKeys := ks\<rparr>"
    using record_event_key_keeps [OF k(1)] by blast
  then have "bound_to s t j = bound_to s t job1" and "State j = State job1"
    by (simp_all add: k(2) bound_to_def)
  ultimately show ?thesis by simp
qed

text \<open>
  Binding a session never revives a job. When the arm hook changes a job, the job stored under
  the lock had not processed its event; a job that was terminal keeps its state and generation,
  and any other job ends up bound to exactly this session and turn, expired, or withdrawn. The
  result is what is loaded afterwards. A hook that changes nothing and reports no error is a
  duplicate and has left every job file alone.
\<close>

theorem bind_never_revives:
  "wp (BindSession i s t ws key) (\<lambda>(j, changed, e) w'. \<exists>d. may_see w d \<and>
     (if changed then
        e = None \<and> loadPath (disk w') i = Inr j \<and>
        (\<exists>old. loadPath d i = Inr old \<and> \<not> duplicate_event key old \<and> settles s t old j)
      else case e of Some _ \<Rightarrow> True
        | None \<Rightarrow> loadPath d i = Inr j \<and> duplicate_event key j \<and> job_file (disk w') = job_file d)) w"
  (is "wp _ ?P w")
proof -
  have old: "\<not> duplicate_event key old \<and> settles s t old j" if "bound_job d s t ws key old now j" for d old now j
    using that bound_job_terminal [OF that] bound_job_bound [OF that] by (auto simp: settles_def bound_job_def)
  have out: "?P r w'" if "may_see w d" "bind_outcome i s t ws key d r (disk w')" for d r w'
  proof -
    obtain j c e where r: "r = (j, c, e)" by (cases r rule: prod_cases3)
    show ?thesis
    proof (cases c)
      case True
      then show ?thesis
        using that old [of d _ _ j] unfolding r by (fastforce simp: bind_outcome_def split: option.splits)
    next
      case False
      then show ?thesis
        using that unfolding r by (auto simp: bind_outcome_def split: option.splits option.split)
    qed
  qed
  have locked: "wp (BindSession_locked i s t ws key) ?P (at w (others w k (disk w)) n)" for k n
    by (rule wp_mono [OF BindSession_locked_outcome], rule out [of "others w k (disk w)"]) simp_all
  show ?thesis
    unfolding BindSession_def by (intro wp_or_returnI wp_locked locked) (auto intro: exI [of _ "disk w"])
qed

subsection \<open>Reservations\<close>

lemma reservation_others:
  "reservation_outcome job d r d' \<Longrightarrow> {(h, i). owned d h i \<and> i \<noteq> JobID job} \<subseteq> {(h, i). owned d' h i}"
  using reservation_keeps_others by blast

text \<open>
  C27: Reservations exclude each other. Whatever happens while a barrier reserves its targets, every
  session reserved by another live job on the disk seen under the lock is still reserved by it
  afterwards; and a granted reservation has committed the job as returned, which is valid, on
  targets that no live job had reserved, each of which now carries this job's index.
\<close>

theorem reservations_exclude:
  "wp (CreateBarrierReservations job ids) (\<lambda>(j, e) w'. \<exists>d. may_see w d \<and>
     {(h, i). owned d h i \<and> i \<noteq> JobID job} \<subseteq> {(h, i). owned (disk w') h i} \<and>
     (case e of Some _ \<Rightarrow> True
      | None \<Rightarrow> loadPath (disk w') (JobID job) = Inr j \<and> Validate j = None \<and> TargetReservationsCommitted j \<and>
          list_all (\<lambda>t. unowned d (tg_SessionHash t) \<and> holds_index j (disk w') (tg_SessionHash t)) (StopTargets j))) w"
  (is "wp _ ?P w")
proof -
  obtain e job' where m: "migrate job = (e, job')" by (cases "migrate job")
  then have id: "JobID job' = JobID job" using migrate_cases by blast
  have out: "?P r w'" if d: "may_see w d" "reservation_outcome job' d r (disk w')" for d r w'
  proof -
    obtain j e' where r: "r = (j, e')" by (cases r)
    have "StopTargets j = StopTargets job' \<and> TargetReservationsCommitted j \<and> Validate j = None \<and>
        loadPath (disk w') (JobID job') = Inr j" if "e' = None"
      using d(2) that by (auto simp: r reservation_outcome_def reserved_def)
    then have "case e' of Some _ \<Rightarrow> True
      | None \<Rightarrow> loadPath (disk w') (JobID job) = Inr j \<and> Validate j = None \<and> TargetReservationsCommitted j \<and>
          list_all (\<lambda>t. unowned d (tg_SessionHash t) \<and> holds_index j (disk w') (tg_SessionHash t)) (StopTargets j)"
      using d(2) reservation_granted [of job' d j "disk w'"] id by (auto simp: r list_all_iff split: option.split)
    then show ?thesis
      unfolding r prod.case using d(1) reservation_others [OF d(2)] id by (intro exI [of _ d]) simp
  qed
  have locked: "wp (reserve_locked job') ?P (at w (others w k (disk w)) n)" for k n
    by (rule wp_mono [OF reserve_locked_outcome], rule out [of "others w k (disk w)"]) simp_all
  show ?thesis
  proof (cases e)
    case None
    show ?thesis
      unfolding CreateBarrierReservations_def m None option.case prod.case
      by (intro wp_or_returnI wp_locked locked) (auto intro!: exI [of _ "disk w"])
  next
    case (Some x)
    then show ?thesis
      by (auto simp: CreateBarrierReservations_def m intro!: exI [of _ "disk w"])
  qed
qed

subsection \<open>Authority\<close>

text \<open>
  C6: When \<open>BarrierAuthority\<close> lets a stop barrier act, then at that moment, under the lock, the stored
  job is the one returned, it is bound, every target has stopped in a pinned absolute workspace
  and is still reserved by this job, no revocation is pending and no cancellation is requested.
\<close>

theorem authority_complete:
  "wp (BarrierAuthority i) (\<lambda>(j, e) w'. may_see w (disk w') \<and>
     (case e of Some _ \<Rightarrow> True
      | None \<Rightarrow> JobID j = i \<and> loadPath (disk w') i = Inr j \<and> \<not> barrier_unbound j \<and> BarrierSatisfied j \<and>
        list_all (\<lambda>t. path_IsAbs (tg_WorkspaceCWD t) \<and> holds_index j (disk w') (tg_SessionHash t)) (StopTargets j) \<and>
        rev_dir (disk w') i (TargetBindingID j) = [] \<and> \<not> CancelRequested j)) w"
  by (rule wp_mono [OF BarrierAuthority_ready]) (auto simp: barrier_ready_def list_all_iff split: option.split)

end
