(* ===== verification/Hook_Rules.thy ===== *)
theory Hook_Rules
  imports Plugin_Observed
begin

text \<open>
  \<open>internal/hookobserver/observer.go\<close>, the rules: what each lifecycle hook does to the job it
  concerns. These are the closures that the observer hands to the store, as functions of the
  job, the observed target (an index into its targets) and the time. \<open>hookInput\<close> is the decoded
  input of a hook; its two raw JSON members are given by what \<open>json.Unmarshal\<close> makes of them.
\<close>

subsection \<open>Input\<close>

text \<open>The \<open>structuredContent\<close> member of a tool response: absent, not of the expected type, or decoded.\<close>

datatype structured = NoContent | BadContent | Content "bool option" string

datatype nested_response = NoResult | BadResult | Nested bool structured structured

text \<open>
  A tool response: empty, not decodable, or the members \<open>isError\<close>, \<open>structuredContent\<close>,
  \<open>structured_content\<close> and \<open>result\<close>.
\<close>

datatype tool_response = EmptyResponse | BadResponse | Response bool structured structured nested_response

datatype tool_input = EmptyInput | BadInput | InputJobID string

record hookInput =
  hi_SessionID :: string
  hi_TurnID :: string
  hi_CWD :: string
  hi_HookEventName :: string
  hi_ToolName :: string
  hi_ToolUseID :: string
  hi_ToolInput :: tool_input
  hi_ToolResponse :: tool_response
  hi_StopHookActive :: bool

definition validateTurnInput :: "hookInput \<Rightarrow> err option" where
  "validateTurnInput input = checks [
     reject (TrimSpace (hi_SessionID input) = [] \<or> length (hi_SessionID input) > 1024)
       ''hook input has an invalid session_id'',
     reject (TrimSpace (hi_TurnID input) = [] \<or> length (hi_TurnID input) > 1024) ''hook input has an invalid turn_id'',
     reject (length (hi_ToolUseID input) > 1024) ''hook input has an invalid tool_use_id'',
     reject (length (hi_CWD input) > 32768) ''hook input has an invalid cwd'']"

definition inputIdentity :: "tool_input \<Rightarrow> err + string" where
  "inputIdentity raw =
     (case raw of
        EmptyInput \<Rightarrow> Inl (Err ''tool_input is empty'')
      | BadInput \<Rightarrow> Inl (Err ''json: cannot unmarshal tool_input'')
      | InputJobID i \<Rightarrow> Inr i)"

text \<open>The effective content: the snake-case member replaces an absent camel-case one.\<close>

definition content_or :: "structured \<Rightarrow> structured \<Rightarrow> structured" where
  "content_or camel snake = (if camel = NoContent then snake else camel)"

definition structured_identity :: "bool \<Rightarrow> structured \<Rightarrow> err + (string \<times> bool)" where
  "structured_identity isError content =
     (if isError then Inr ([], False)
      else case content of
        NoContent \<Rightarrow> Inl (Err ''tool response has no structuredContent'')
      | BadContent \<Rightarrow> Inl (Err ''json: cannot unmarshal structuredContent'')
      | Content None _ \<Rightarrow> Inl (Err ''tool response has no ok field'')
      | Content (Some ok) jobID \<Rightarrow> Inr (jobID, ok))"

definition responseIdentity :: "tool_response \<Rightarrow> err + (string \<times> bool)" where
  "responseIdentity raw =
     (case raw of
        EmptyResponse \<Rightarrow> Inl (Err ''tool_response is empty'')
      | BadResponse \<Rightarrow> Inl (Err ''json: cannot unmarshal tool_response'')
      | Response isError camel snake result \<Rightarrow>
          if content_or camel snake = NoContent \<and> result \<noteq> NoResult then
            (case result of
               Nested isError' camel' snake' \<Rightarrow> structured_identity isError' (content_or camel' snake')
             | _ \<Rightarrow> Inl (Err ''json: cannot unmarshal result''))
          else structured_identity isError (content_or camel snake))"

text \<open>The key of an event: the hash of the JSON tuple of what identifies it.\<close>

definition hookEventKey :: "hookInput \<Rightarrow> string \<Rightarrow> string" where
  "hookEventKey input jobID =
     (case json_Marshal (JArr [JStr (hi_SessionID input), JStr (hi_TurnID input), JStr (hi_HookEventName input),
             JStr (hi_CWD input), JStr (hi_ToolUseID input), JStr jobID, JBool (hi_StopHookActive input)]) of
        None \<Rightarrow> SHA256 ''invalid-hook-event-key''
      | Some v \<Rightarrow> SHA256 v)"

subsection \<open>Shared changes\<close>

definition clearCompletion :: "Job \<Rightarrow> Job" where
  "clearCompletion job = job\<lparr>CompletionStatus := [], CompletionEvidenceHash := [], ReadyTurnID := [],
     StopTurnID := [], FinishObserved := False, VerifierPassed := False, VerifierExitCode := None,
     HookFingerprintH1 := [], HookFingerprintH2 := [], HookFingerprintH3 := [],
     HookCompatibility := ''not_evaluated'', HostSnapshotReason := [], HostInstanceID := [],
     CancelRequested := False, CancelReason := []\<rparr>"

text \<open>\<open>requestPowerCancellation\<close> reports whether there was a power action to cancel.\<close>

definition requestPowerCancellation :: "string \<Rightarrow> Job \<Rightarrow> bool \<times> Job" where
  "requestPowerCancellation reason job =
     (if \<not> HasUnresolvedPowerAction job then (False, job)
      else (True, (bump job)\<lparr>CancelRequested := True, CancelReason := reason, ReasonCode := reason\<rparr>))"

definition goto_state :: "State \<Rightarrow> string \<Rightarrow> Job \<Rightarrow> Job" where
  "goto_state s reason job = (bump job)\<lparr>State := s, ReasonCode := reason\<rparr>"

definition cancel_grant :: "string \<Rightarrow> Job \<Rightarrow> Job" where
  "cancel_grant reason job =
     (goto_state StateCancelled reason job)\<lparr>CancelRequested := True, CancelReason := reason\<rparr>"

definition failOrCancelBarrier :: "string \<Rightarrow> Job \<Rightarrow> Job" where
  "failOrCancelBarrier reason job =
     (case requestPowerCancellation reason job of
        (True, job') \<Rightarrow> job'
      | (False, _) \<Rightarrow> goto_state StateHookUnavailable reason job)"

definition armBarrierAfterTargetChange :: "string \<Rightarrow> Job \<Rightarrow> Job" where
  "armBarrierAfterTargetChange reason job =
     (if State job \<noteq> StateArmPendingBind then job\<lparr>State := StateArmed\<rparr> else job)\<lparr>ReasonCode := reason\<rparr>"

definition pinBarrierWorkspace :: "StopTarget \<Rightarrow> string \<Rightarrow> time \<Rightarrow> bool \<times> StopTarget" where
  "pinBarrierWorkspace target cwd now =
     (if \<not> path_IsAbs cwd then (False, target)
      else if tg_WorkspaceCWD target = [] then
        (True, target\<lparr>tg_WorkspaceCWD := path_Clean cwd, tg_FirstSeenAt := Some now\<rparr>)
      else (WorkspaceMatches (tg_WorkspaceCWD target) cwd, target))"

subsection \<open>Stop barriers\<close>

text \<open>A barrier that is done ignores its targets.\<close>

definition barrier_done :: "Job \<Rightarrow> bool" where
  "barrier_done job \<longleftrightarrow> IsTerminal (State job) \<and> \<not> HasUnresolvedPowerAction job"

definition applyBarrierPrompt :: "hookInput \<Rightarrow> Job \<Rightarrow> nat option \<Rightarrow> time \<Rightarrow> Job" where
  "applyBarrierPrompt input job target now =
     (case target of
        None \<Rightarrow> job
      | Some i \<Rightarrow>
          if barrier_done job then job
          else if Expired job now \<and> \<not> HasUnresolvedPowerAction job then goto_state StateExpired ''arm_expired'' job
          else case pinBarrierWorkspace (StopTargets job ! i) (hi_CWD input) now of
            (False, _) \<Rightarrow> failOrCancelBarrier ''target_workspace_changed'' job
          | (True, t) \<Rightarrow>
              (let turnHash = SHA256 (hi_TurnID input);
                   changed = tg_CurrentTurnHash t \<noteq> turnHash \<or> tg_StopTurnHash t \<noteq> [] \<or> tg_StopObservedAt t \<noteq> None;
                   t' = t\<lparr>tg_ContinuationTurnHash := (if tg_CurrentTurnHash t \<noteq> turnHash then [] else tg_ContinuationTurnHash t),
                          tg_CurrentTurnHash := turnHash, tg_StopTurnHash := [], tg_StopObservedAt := None\<rparr>;
                   job1 = set_target i t' job
               in if HasUnresolvedPowerAction job1 then
                    (if changed \<or> \<not> CancelRequested job1
                     then snd (requestPowerCancellation ''after_all_stop_target_resumed'' job1) else job1)
                  else armBarrierAfterTargetChange ''after_all_stop_target_resumed'' (if changed then bump job1 else job1)))"

definition barrier_continue :: "string \<Rightarrow> nat \<Rightarrow> StopTarget \<Rightarrow> Job \<Rightarrow> Job" where
  "barrier_continue turnHash i t job =
     (let changed = tg_CurrentTurnHash t \<noteq> turnHash \<or> tg_StopTurnHash t \<noteq> [] \<or> tg_StopObservedAt t \<noteq> None \<or>
                    tg_ContinuationTurnHash t \<noteq> turnHash;
          t' = t\<lparr>tg_CurrentTurnHash := turnHash, tg_StopTurnHash := [], tg_StopObservedAt := None,
                 tg_ContinuationTurnHash := turnHash\<rparr>;
          job1 = set_target i t' job
      in if HasUnresolvedPowerAction job1 then
           (if changed \<or> \<not> CancelRequested job1
            then snd (requestPowerCancellation ''after_all_stop_target_resumed'' job1) else job1)
         else armBarrierAfterTargetChange ''after_all_stop_target_resumed'' (if changed then bump job1 else job1))"

definition barrier_advance :: "Job \<Rightarrow> Job" where
  "barrier_advance job =
     (if TargetIndexesReady job \<and> ArmObserved job \<and> BarrierSatisfied job then
        (if DryRun job then job\<lparr>State := StateDryRunComplete, ReasonCode := ''after_all_stop_observed_no_action''\<rparr>
         else job\<lparr>State := StateStopObserved, ReasonCode := ''after_all_stop_observed_awaiting_countdown''\<rparr>)
      else if State job \<noteq> StateArmPendingBind then
        job\<lparr>State := StateArmed, ReasonCode := ''after_all_stop_barrier_partial''\<rparr>
      else job\<lparr>ReasonCode := ''awaiting_post_tool_hook''\<rparr>)"

definition applyBarrierStop :: "hookInput \<Rightarrow> Job \<Rightarrow> nat option \<Rightarrow> time \<Rightarrow> Job" where
  "applyBarrierStop input job target now =
     (case target of
        None \<Rightarrow> job
      | Some i \<Rightarrow>
          if barrier_done job then job
          else if Expired job now \<and> \<not> HasUnresolvedPowerAction job then goto_state StateExpired ''arm_expired'' job
          else case pinBarrierWorkspace (StopTargets job ! i) (hi_CWD input) now of
            (False, _) \<Rightarrow> failOrCancelBarrier ''target_workspace_changed'' job
          | (True, t) \<Rightarrow>
              (let turnHash = SHA256 (hi_TurnID input) in
               if hi_StopHookActive input then barrier_continue turnHash i t job
               else if HasUnresolvedPowerAction job then set_target i t job
               else if tg_CurrentTurnHash t \<noteq> [] \<and> tg_CurrentTurnHash t \<noteq> turnHash then set_target i t job
               else (let t1 = t\<lparr>tg_CurrentTurnHash := turnHash\<rparr> in
                     if tg_ContinuationTurnHash t1 = tg_CurrentTurnHash t1 \<or> Stopped t1 then set_target i t1 job
                     else barrier_advance (bump (set_target i
                            (t1\<lparr>tg_StopTurnHash := tg_CurrentTurnHash t1, tg_StopObservedAt := Some now\<rparr>) job)))))"

definition applyBarrierSessionEnd :: "Job \<Rightarrow> nat option \<Rightarrow> Job" where
  "applyBarrierSessionEnd job target =
     (case target of
        None \<Rightarrow> job
      | Some i \<Rightarrow>
          if barrier_done job \<or> Stopped (StopTargets job ! i) then job
          else case requestPowerCancellation ''target_session_ended_before_stop'' job of
            (True, job') \<Rightarrow> job'
          | (False, _) \<Rightarrow> goto_state StateExpired ''target_session_ended_before_stop'' job)"

subsection \<open>The four hooks\<close>

text \<open>The tool hook, for the tools other than \<open>arm\<close>.\<close>

definition tool_rule :: "string \<Rightarrow> hookInput \<Rightarrow> Job \<Rightarrow> time \<Rightarrow> Job" where
  "tool_rule tool input job now =
     (if tool = ''cancel'' then job
      else
        (let controllerMatches =
               (if TriggerPolicy job = TriggerAfterAllStop then ControllerSessionHash job = SHA256 (hi_SessionID input)
                else SessionID job = hi_SessionID input)
         in if \<not> controllerMatches then
              (case requestPowerCancellation ''tool_session_mismatch_after_power_intent'' job of
                 (True, job') \<Rightarrow> job'
               | (False, _) \<Rightarrow>
                   if IsActive (State job) then
                     clearCompletion (goto_state StateHookUnavailable ''tool_session_mismatch'' job)
                   else job)
            else if IsActive (State job) \<and> Expired job now then
              clearCompletion (goto_state StateExpired ''arm_expired'' job)
            else if tool = ''finish'' \<and> State job = StateReadyPendingStop then
              (if ReadyTurnID job = [] \<or> ReadyTurnID job \<noteq> hi_TurnID input then
                 clearCompletion ((goto_state StateArmed ''finish_turn_mismatch'' job)\<lparr>CurrentTurnID := hi_TurnID input\<rparr>)
               else job\<lparr>FinishObserved := True, ReasonCode := ''finish_hook_observed''\<rparr>)
            else job))"

definition prompt_rule :: "hookInput \<Rightarrow> Job \<Rightarrow> nat option \<Rightarrow> time \<Rightarrow> Job" where
  "prompt_rule input job target now =
     (if TriggerPolicy job = TriggerAfterAllStop then applyBarrierPrompt input job target now
      else if IsTerminal (State job) then job
      else case requestPowerCancellation ''new_prompt_requested_power_cancel'' job of
        (True, job') \<Rightarrow> job'
      | (False, _) \<Rightarrow>
          if Expired job now then clearCompletion (goto_state StateExpired ''arm_expired'' job)
          else if TriggerPolicy job = TriggerAfterStop then cancel_grant ''new_prompt_cancelled_after_stop_grant'' job
          else clearCompletion ((bump job)\<lparr>CurrentTurnID := hi_TurnID input, State := StateArmed,
                 ReasonCode := ''new_prompt_invalidated_evidence''\<rparr>))"

text \<open>The stop of a job with trigger \<open>after_stop\<close> that is neither expired nor in a power action.\<close>

definition after_stop_rule :: "hookInput \<Rightarrow> Job \<Rightarrow> Job" where
  "after_stop_rule input job =
     (if hi_StopHookActive input then cancel_grant ''stop_hook_continuation_cancelled_grant'' job
      else if \<not> DryRun job \<and> \<not> WorkspaceMatches (WorkspaceCWD job) (hi_CWD input) then
        goto_state StateHookUnavailable ''stop_workspace_mismatch'' job
      else if State job = StateStopObserved then cancel_grant ''continuation_after_stop_cancelled_grant'' job
      else if State job \<noteq> StateArmed \<or> hi_TurnID input \<noteq> CurrentTurnID job then job
      else if DryRun job then
        job\<lparr>StopTurnID := hi_TurnID input, State := StateDryRunComplete, ReasonCode := ''after_stop_observed_no_action''\<rparr>
      else
        job\<lparr>StopTurnID := hi_TurnID input, State := StateStopObserved,
            ReasonCode := ''after_stop_observed_awaiting_countdown''\<rparr>)"

definition verified_stop_rule :: "hookInput \<Rightarrow> Job \<Rightarrow> Job" where
  "verified_stop_rule input job =
     (if State job \<noteq> StateReadyPendingStop then job
      else if \<not> FinishObserved job \<or> ReadyTurnID job \<noteq> hi_TurnID input then
        clearCompletion ((goto_state StateArmed ''stop_turn_mismatch'' job)\<lparr>CurrentTurnID := hi_TurnID input\<rparr>)
      else job\<lparr>State := StateStopObserved, StopTurnID := hi_TurnID input,
               ReasonCode := (if DryRun job then ''matching_stop_observed_no_action''
                              else ''matching_stop_observed_awaiting_final_gate'')\<rparr>)"

definition stop_rule :: "hookInput \<Rightarrow> Job \<Rightarrow> nat option \<Rightarrow> time \<Rightarrow> Job" where
  "stop_rule input job target now =
     (if TriggerPolicy job = TriggerAfterAllStop then applyBarrierStop input job target now
      else if IsTerminal (State job) then job
      else if HasUnresolvedPowerAction job then
        (if TriggerPolicy job = TriggerAfterStop \<or> hi_TurnID input \<noteq> StopTurnID job
         then snd (requestPowerCancellation ''continuation_after_stop_requested_power_cancel'' job) else job)
      else if Expired job now then clearCompletion (goto_state StateExpired ''arm_expired'' job)
      else if TriggerPolicy job = TriggerAfterStop then after_stop_rule input job
      else verified_stop_rule input job)"

definition session_end_rule :: "Job \<Rightarrow> nat option \<Rightarrow> time \<Rightarrow> Job" where
  "session_end_rule job target now =
     (if TriggerPolicy job = TriggerAfterAllStop then applyBarrierSessionEnd job target
      else if IsTerminal (State job) then job
      else if TriggerPolicy job = TriggerAfterStop \<and>
              (State job = StateStopObserved \<or> HasUnresolvedPowerAction job) then job
      else case requestPowerCancellation ''session_end_requested_power_cancel'' job of
        (True, job') \<Rightarrow> job'
      | (False, _) \<Rightarrow> clearCompletion (goto_state StateExpired ''session_ended'' job))"

subsection \<open>The rules leave the power action and terminal states alone\<close>

lemma HasUnresolved_cong:
  "DryRun j' = DryRun j \<Longrightarrow> State j' = State j \<Longrightarrow> ActionIntentAt j' = ActionIntentAt j \<Longrightarrow>
     PowerCapabilities j' = PowerCapabilities j \<Longrightarrow> HasUnresolvedPowerAction j' = HasUnresolvedPowerAction j"
  by (simp add: HasUnresolvedPowerAction_def)

lemma HasUnresolved_frame [simp]:
  "HasUnresolvedPowerAction (set_target i t job) = HasUnresolvedPowerAction job"
  "HasUnresolvedPowerAction (bump job) = HasUnresolvedPowerAction job"
  "HasUnresolvedPowerAction (job\<lparr>UpdatedAt := now\<rparr>) = HasUnresolvedPowerAction job"
  "HasUnresolvedPowerAction (job\<lparr>ProcessedEventKeys := ks\<rparr>) = HasUnresolvedPowerAction job"
  by (simp_all add: HasUnresolvedPowerAction_def set_target_def bump_def)

text \<open>What every rule keeps: the identity and the fields fixed when the job was armed.\<close>

definition same_grant :: "Job \<Rightarrow> Job \<Rightarrow> bool" where
  "same_grant j j' \<longleftrightarrow> JobID j' = JobID j \<and> TriggerPolicy j' = TriggerPolicy j \<and> DryRun j' = DryRun j \<and>
     Action j' = Action j \<and> DelaySeconds j' = DelaySeconds j \<and> ExpiresAt j' = ExpiresAt j \<and>
     TargetBindingID j' = TargetBindingID j \<and> StopWithoutSuccessAck j' = StopWithoutSuccessAck j \<and>
     PowerPolicyFingerprint j' = PowerPolicyFingerprint j \<and>
     map tg_SessionHash (StopTargets j') = map tg_SessionHash (StopTargets j) \<and>
     ActionIntentAt j' = ActionIntentAt j \<and> PowerCapabilities j' = PowerCapabilities j \<and>
     PowerReceipt j' = PowerReceipt j \<and> ProcessedEventKeys j' = ProcessedEventKeys j"

lemmas rule_defs =
  prompt_rule_def stop_rule_def session_end_rule_def tool_rule_def after_stop_rule_def verified_stop_rule_def
  applyBarrierPrompt_def applyBarrierStop_def applyBarrierSessionEnd_def barrier_continue_def barrier_advance_def
  failOrCancelBarrier_def requestPowerCancellation_def armBarrierAfterTargetChange_def goto_state_def cancel_grant_def

lemmas rule_splits = option.splits prod.splits bool.splits if_splits

lemma map_update_same: "f t = f (ts ! i) \<Longrightarrow> map f (ts[i := t]) = map f ts"
  by (cases "i < length ts") (auto intro: nth_equalityI simp: nth_list_update)

lemma pinBarrierWorkspace_keeps:
  "pinBarrierWorkspace t cwd now = (b, t') \<Longrightarrow> tg_SessionHash t' = tg_SessionHash t \<and>
     tg_CurrentTurnHash t' = tg_CurrentTurnHash t \<and> tg_StopTurnHash t' = tg_StopTurnHash t \<and>
     tg_ContinuationTurnHash t' = tg_ContinuationTurnHash t \<and> tg_StopObservedAt t' = tg_StopObservedAt t \<and>
     (tg_WorkspaceCWD t \<noteq> [] \<or> \<not> b \<longrightarrow> t' = t)"
  by (auto simp: pinBarrierWorkspace_def split: if_splits)

lemma same_grant_simps [simp]:
  "same_grant j j" "same_grant j (j'\<lparr>State := s\<rparr>) = same_grant j j'" "same_grant j (j'\<lparr>ReasonCode := r\<rparr>) = same_grant j j'"
  "same_grant j (j'\<lparr>CancelRequested := b\<rparr>) = same_grant j j'" "same_grant j (j'\<lparr>CancelReason := r\<rparr>) = same_grant j j'"
  "same_grant j (j'\<lparr>StopTurnID := r\<rparr>) = same_grant j j'" "same_grant j (j'\<lparr>CurrentTurnID := r\<rparr>) = same_grant j j'"
  "same_grant j (j'\<lparr>FinishObserved := b\<rparr>) = same_grant j j'" "same_grant j (j'\<lparr>UpdatedAt := t\<rparr>) = same_grant j j'"
  "same_grant j (bump j') = same_grant j j'" "same_grant j (clearCompletion j') = same_grant j j'"
  by (simp_all add: same_grant_def bump_def clearCompletion_def)

lemma same_grant_set_target:
  "tg_SessionHash t = tg_SessionHash (StopTargets j ! i) \<Longrightarrow> same_grant j (set_target i t j)"
  by (simp add: same_grant_def set_target_def map_update_same)

lemma tool_rule_same: "same_grant j (tool_rule tool input j now)"
  by (auto simp: tool_rule_def requestPowerCancellation_def goto_state_def Let_def)

lemma barrier_prompt_same: "same_grant j (applyBarrierPrompt input j t now)"
  by (auto simp: applyBarrierPrompt_def failOrCancelBarrier_def requestPowerCancellation_def goto_state_def
      armBarrierAfterTargetChange_def Let_def same_grant_set_target dest!: pinBarrierWorkspace_keeps split: rule_splits)

lemma barrier_continue_same:
  "tg_SessionHash t = tg_SessionHash (StopTargets j ! i) \<Longrightarrow> same_grant j (barrier_continue h i t j)"
  by (auto simp: barrier_continue_def requestPowerCancellation_def armBarrierAfterTargetChange_def Let_def same_grant_set_target)

lemma barrier_advance_same [simp]: "same_grant j (barrier_advance j') = same_grant j j'"
  by (simp add: barrier_advance_def)

lemma barrier_stop_same: "same_grant j (applyBarrierStop input j t now)"
  by (auto simp: applyBarrierStop_def failOrCancelBarrier_def requestPowerCancellation_def goto_state_def
      Let_def same_grant_set_target barrier_continue_same dest!: pinBarrierWorkspace_keeps split: rule_splits)

lemma barrier_end_same: "same_grant j (applyBarrierSessionEnd j t)"
  by (auto simp: applyBarrierSessionEnd_def requestPowerCancellation_def goto_state_def split: rule_splits)

lemma prompt_rule_same: "same_grant j (prompt_rule input j t now)"
  by (auto simp: prompt_rule_def barrier_prompt_same requestPowerCancellation_def goto_state_def cancel_grant_def)

lemma stop_rule_same: "same_grant j (stop_rule input j t now)"
  by (auto simp: stop_rule_def barrier_stop_same requestPowerCancellation_def goto_state_def cancel_grant_def
      after_stop_rule_def verified_stop_rule_def)

lemma session_end_rule_same: "same_grant j (session_end_rule j t now)"
  by (auto simp: session_end_rule_def barrier_end_same requestPowerCancellation_def goto_state_def)

text \<open>A terminal job keeps its state, and so does a job with an unresolved power action.\<close>

definition settled :: "Job \<Rightarrow> bool" where
  "settled j \<longleftrightarrow> IsTerminal (State j) \<or> HasUnresolvedPowerAction j"

lemma State_frame [simp]:
  "State (bump j) = State j" "State (set_target i t j) = State j" "State (clearCompletion j) = State j"
  by (simp_all add: bump_def set_target_def clearCompletion_def)

lemma unresolved_active: "HasUnresolvedPowerAction j \<Longrightarrow> \<not> IsTerminal (State j) \<Longrightarrow>
    State j = StateActionIntent \<or> State j = StateActionScheduled"
  by (auto simp: HasUnresolvedPowerAction_def split: if_splits)

lemma tool_rule_settled: "settled j \<Longrightarrow> State (tool_rule tool input j now) \<noteq> State j \<Longrightarrow>
    HasUnresolvedPowerAction j \<and> State (tool_rule tool input j now) = StateExpired"
  by (auto simp: tool_rule_def settled_def requestPowerCancellation_def goto_state_def Let_def dest: unresolved_active
      split: if_splits)

lemma barrier_prompt_settled: "settled j \<Longrightarrow> State (applyBarrierPrompt input j t now) = State j"
  by (auto simp: settled_def barrier_done_def applyBarrierPrompt_def failOrCancelBarrier_def requestPowerCancellation_def
      Let_def split: rule_splits)

lemma barrier_stop_settled: "settled j \<Longrightarrow> State (applyBarrierStop input j t now) = State j"
  by (auto simp: settled_def barrier_done_def applyBarrierStop_def barrier_continue_def failOrCancelBarrier_def
      requestPowerCancellation_def Let_def split: rule_splits)

lemma barrier_end_settled: "settled j \<Longrightarrow> State (applyBarrierSessionEnd j t) = State j"
  by (auto simp: settled_def barrier_done_def applyBarrierSessionEnd_def requestPowerCancellation_def split: rule_splits)

lemma prompt_rule_settled: "settled j \<Longrightarrow> State (prompt_rule input j t now) = State j"
  by (auto simp: prompt_rule_def barrier_prompt_settled settled_def requestPowerCancellation_def)

lemma stop_rule_settled: "settled j \<Longrightarrow> State (stop_rule input j t now) = State j"
  by (auto simp: stop_rule_def barrier_stop_settled settled_def requestPowerCancellation_def)

lemma session_end_rule_settled: "settled j \<Longrightarrow> State (session_end_rule j t now) = State j"
  by (auto simp: session_end_rule_def barrier_end_settled settled_def requestPowerCancellation_def)

lemma Nil_ne_SHA256 [simp]: "[] \<noteq> SHA256 s"
  using SHA256_ne [of s] by metis

subsection \<open>The rules keep a job valid\<close>

text \<open>Validity apart from the event keys and the update time, which the store sets itself.\<close>

definition sound :: "Job \<Rightarrow> bool" where
  "sound j \<longleftrightarrow> job_fixed j \<and> job_clock j \<and> job_binding j \<and> job_evidence j \<and> job_keys j"

lemma sound_iff: "sound j \<longleftrightarrow> Validate j = None"
  by (simp add: sound_def Validate_None)

text \<open>The generation counter has a successor below 2^64.\<close>

definition can_bump :: "Job \<Rightarrow> bool" where
  "can_bump j \<longleftrightarrow> Generation j + 1 \<noteq> 0"

lemma sound_bump: "sound j \<Longrightarrow> can_bump j \<Longrightarrow> sound (bump j)"
  by (simp add: sound_def can_bump_def bump_def clock_groups)

lemma sound_reason [simp]: "sound (j\<lparr>ReasonCode := r\<rparr>) = sound j"
  by (simp add: sound_def)

lemma sound_updated: "sound j \<Longrightarrow> now \<noteq> 0 \<Longrightarrow> sound (j\<lparr>UpdatedAt := now\<rparr>)"
  by (simp add: sound_def clock_groups)

lemma sound_turn: "sound j \<Longrightarrow> TriggerPolicy j \<noteq> TriggerAfterAllStop \<Longrightarrow> sound (j\<lparr>CurrentTurnID := t\<rparr>)"
  by (simp add: sound_def job_binding_def)

lemma sound_finish [simp]: "sound (j\<lparr>FinishObserved := b\<rparr>) = sound j"
  by (simp add: sound_def)

lemma sound_close: "sound j \<Longrightarrow> plain_terminal s \<Longrightarrow> sound (j\<lparr>State := s\<rparr>)"
  by (simp add: sound_def close_groups)

lemma sound_goto: "sound j \<Longrightarrow> can_bump j \<Longrightarrow> plain_terminal s \<Longrightarrow> sound (goto_state s r j)"
  by (simp add: goto_state_def sound_close sound_bump)

lemma sound_cancel: "sound j \<Longrightarrow> TrimSpace r \<noteq> [] \<Longrightarrow> sound (j\<lparr>CancelRequested := True, CancelReason := r\<rparr>)"
  by (simp add: sound_def cancel_groups)

lemma sound_clear:
  assumes "sound j" and "State j \<noteq> StateReadyPendingStop" and "State j \<noteq> StateStopObserved"
  shows "sound (clearCompletion j)"
proof -
  have "job_evidence (clearCompletion j)"
    using assms by (auto simp: sound_def job_evidence_def clearCompletion_def BarrierSatisfied_def)
  then show ?thesis
    using assms by (auto simp: sound_def job_clock_def job_binding_def clearCompletion_def job_keys_def job_fixed_def)
qed

text \<open>Going back to \<open>ARMED\<close> needs a job that is bound.\<close>

lemma arm_groups:
  "job_clock j \<Longrightarrow> job_clock (j\<lparr>State := StateArmed\<rparr>)"
  "job_binding j \<Longrightarrow> State j \<noteq> StateArmPendingBind \<Longrightarrow> \<not> IsTerminal (State j) \<Longrightarrow> job_binding (j\<lparr>State := StateArmed\<rparr>)"
  "job_evidence j \<Longrightarrow> job_evidence (j\<lparr>State := StateArmed\<rparr>)"
    apply (simp add: job_clock_def)
   apply (simp add: job_binding_def split: if_splits)
  apply (simp add: job_evidence_def)
  done

lemma sound_arm:
  "sound j \<Longrightarrow> State j \<noteq> StateArmPendingBind \<Longrightarrow> \<not> IsTerminal (State j) \<Longrightarrow> sound (j\<lparr>State := StateArmed\<rparr>)"
  by (simp add: sound_def arm_groups)

lemma bound_not_pending:
  "sound j \<Longrightarrow> ArmObserved j \<Longrightarrow> State j \<noteq> StateArmPendingBind"
  "sound j \<Longrightarrow> TriggerPolicy j \<noteq> TriggerAfterAllStop \<Longrightarrow> SessionID j \<noteq> [] \<Longrightarrow> State j \<noteq> StateArmPendingBind"
  by (auto simp: sound_def job_binding_def split: if_splits)

lemma reason_trims [simp]:
  "TrimSpace ''new_prompt_requested_power_cancel'' \<noteq> []" "TrimSpace ''session_end_requested_power_cancel'' \<noteq> []"
  "TrimSpace ''continuation_after_stop_requested_power_cancel'' \<noteq> []"
  "TrimSpace ''tool_session_mismatch_after_power_intent'' \<noteq> []"
  "TrimSpace ''new_prompt_cancelled_after_stop_grant'' \<noteq> []"
  "TrimSpace ''stop_hook_continuation_cancelled_grant'' \<noteq> []"
  "TrimSpace ''continuation_after_stop_cancelled_grant'' \<noteq> []"
  "TrimSpace ''target_workspace_changed'' \<noteq> []" "TrimSpace ''after_all_stop_target_resumed'' \<noteq> []"
  "TrimSpace ''target_session_ended_before_stop'' \<noteq> []" "TrimSpace ''barrier_event_capacity_exhausted'' \<noteq> []"
  "TrimSpace ''barrier_event_log_unavailable'' \<noteq> []"
  by (rule TrimSpace_lower, simp add: is_lower_def char_between_def char_code_def)+

lemma sound_request:
  "sound j \<Longrightarrow> can_bump j \<Longrightarrow> TrimSpace r \<noteq> [] \<Longrightarrow> requestPowerCancellation r j = (b, j') \<Longrightarrow> sound j'"
  by (auto simp: requestPowerCancellation_def sound_cancel sound_bump split: if_splits)

lemma sound_cancel_grant: "sound j \<Longrightarrow> can_bump j \<Longrightarrow> TrimSpace r \<noteq> [] \<Longrightarrow> sound (cancel_grant r j)"
  by (simp add: cancel_grant_def sound_cancel sound_goto)

lemma sound_failOrCancel:
  "sound j \<Longrightarrow> can_bump j \<Longrightarrow> TrimSpace r \<noteq> [] \<Longrightarrow> sound (failOrCancelBarrier r j)"
  by (auto simp: failOrCancelBarrier_def sound_goto sound_request split: rule_splits)

text \<open>A write to one target of a barrier that is not in a satisfied state.\<close>

lemma find_target_Some: "find_target h ts = Some i \<Longrightarrow> i < length ts \<and> tg_SessionHash (ts ! i) = h"
  by (induction ts arbitrary: i) (auto split: if_splits)

lemma sound_set_target:
  assumes "sound j" and "target_ok t" and "tg_SessionHash t = tg_SessionHash (StopTargets j ! i)"
    and "State j \<noteq> StateStopObserved" and "State j \<noteq> StateDryRunComplete"
  shows "sound (set_target i t j)"
proof -
  have "job_binding (set_target i t j)"
  proof (cases "TriggerPolicy j = TriggerAfterAllStop")
    case True
    have "list_all target_ok ((StopTargets j)[i := t])"
      using assms True set_update_subset_insert [of "StopTargets j" i t]
      by (auto simp: sound_def job_binding_def list_all_iff)
    then show ?thesis
      using assms True by (simp add: sound_def job_binding_def set_target_def map_update_same)
  next
    case False
    then show ?thesis
      using assms by (simp add: sound_def job_binding_def set_target_def)
  qed
  moreover have "job_evidence (set_target i t j)"
    using assms by (simp add: sound_def job_evidence_def set_target_def)
  ultimately show ?thesis
    using assms by (simp add: sound_def set_target_def)
qed

lemma target_sound: "sound j \<Longrightarrow> TriggerPolicy j = TriggerAfterAllStop \<Longrightarrow> i < length (StopTargets j) \<Longrightarrow>
    target_ok (StopTargets j ! i)"
  by (simp add: sound_def job_binding_def list_all_length)

text \<open>Setting the target first and the state afterwards gives the same job.\<close>

lemma set_target_state:
  "armBarrierAfterTargetChange r (set_target i t j) = set_target i t (armBarrierAfterTargetChange r j)"
  "bump (set_target i t j) = set_target i t (bump j)"
  by (simp_all add: armBarrierAfterTargetChange_def set_target_def bump_def)

text \<open>The target after it has been seen, and with the current turn set to one of its turns.\<close>

lemma pinned_ok:
  assumes "target_ok t" and "pinBarrierWorkspace t cwd now = (True, t')" and "now \<noteq> 0"
  shows "tg_WorkspaceCWD t' \<noteq> [] \<and> path_IsAbs (tg_WorkspaceCWD t') \<and> tg_FirstSeenAt t' \<noteq> None \<and> tg_FirstSeenAt t' \<noteq> Some 0 \<and>
     ValidIdentityHash (tg_SessionHash t') \<and> tg_SessionHash t' = tg_SessionHash t \<and>
     tg_CurrentTurnHash t' = tg_CurrentTurnHash t \<and>
     tg_ContinuationTurnHash t' \<in> {[], tg_CurrentTurnHash t'} \<and> tg_StopTurnHash t' \<in> {[], tg_CurrentTurnHash t'} \<and>
     (tg_CurrentTurnHash t \<noteq> [] \<longrightarrow> t' = t)"
proof -
  have abs: "path_IsAbs (path_Clean cwd)" if "path_IsAbs cwd"
    using that path_Clean_IsAbs by blast
  moreover have "p \<noteq> []" if "path_IsAbs p" for p
    using that by (auto simp: path_IsAbs_def HasPrefix_def)
  ultimately show ?thesis
    using assms by (auto simp: target_ok_iff pinBarrierWorkspace_def split: if_splits)
qed

lemma resumed_ok:
  assumes "tg_WorkspaceCWD t \<noteq> []" and "path_IsAbs (tg_WorkspaceCWD t)" and "tg_FirstSeenAt t \<noteq> None"
    and "tg_FirstSeenAt t \<noteq> Some 0" and "ValidIdentityHash (tg_SessionHash t)" and "c \<in> {[], SHA256 h}"
  shows "target_ok (t\<lparr>tg_ContinuationTurnHash := c, tg_CurrentTurnHash := SHA256 h, tg_StopTurnHash := [], tg_StopObservedAt := None\<rparr>)"
  using assms SHA256_ne [of h, symmetric] by (auto simp: target_ok_iff Stopped_def)

lemma stopped_ok:
  assumes "tg_WorkspaceCWD t \<noteq> []" and "path_IsAbs (tg_WorkspaceCWD t)" and "tg_FirstSeenAt t \<noteq> None"
    and "tg_FirstSeenAt t \<noteq> Some 0" and "ValidIdentityHash (tg_SessionHash t)" and "now \<noteq> 0"
    and "tg_ContinuationTurnHash t = []" and "ValidIdentityHash h" and "h \<noteq> []"
  shows "target_ok (t\<lparr>tg_CurrentTurnHash := h, tg_StopTurnHash := h, tg_StopObservedAt := Some now\<rparr>)"
  using assms by (auto simp: target_ok_iff Stopped_def)

text \<open>A barrier event reaches a bound barrier, and names one of its targets.\<close>

definition barrier_event :: "Job \<Rightarrow> nat \<Rightarrow> bool" where
  "barrier_event j i \<longleftrightarrow> TriggerPolicy j = TriggerAfterAllStop \<and> ArmObserved j \<and> i < length (StopTargets j)"

lemma arm_target_sound:
  assumes j: "sound j" "barrier_event j i" "\<not> IsTerminal (State j)" and t: "target_ok t"
    "tg_SessionHash t = tg_SessionHash (StopTargets j ! i)"
  shows "sound (armBarrierAfterTargetChange r (set_target i t j))"
proof -
  have a: "armBarrierAfterTargetChange r j = j\<lparr>State := StateArmed, ReasonCode := r\<rparr>"
    using bound_not_pending(1) [of j] j by (simp add: armBarrierAfterTargetChange_def barrier_event_def)
  have "sound (j\<lparr>State := StateArmed, ReasonCode := r\<rparr>)"
    using j bound_not_pending(1) [of j] by (simp add: sound_arm barrier_event_def)
  then show ?thesis
    unfolding set_target_state a using t by (intro sound_set_target) simp_all
qed

lemma active_or_unresolved: "\<not> barrier_done j \<Longrightarrow> \<not> HasUnresolvedPowerAction j \<Longrightarrow> \<not> IsTerminal (State j)"
  by (simp add: barrier_done_def)

lemma unresolved_state:
  "HasUnresolvedPowerAction j \<Longrightarrow> State j \<noteq> StateStopObserved \<and> State j \<noteq> StateDryRunComplete"
  by (auto simp: HasUnresolvedPowerAction_def split: if_splits)

lemma can_bump_frame [simp]: "can_bump (set_target i t j) = can_bump j"
  by (simp add: can_bump_def set_target_def)

lemma barrier_event_bump [simp]: "barrier_event (bump j) i = barrier_event j i" "StopTargets (bump j) = StopTargets j"
  by (simp_all add: barrier_event_def bump_def)

text \<open>The common end of a prompt and of a continued turn.\<close>

lemma resume_sound:
  assumes j: "sound j" "can_bump j" "barrier_event j i" "\<not> barrier_done j"
    and t: "target_ok t" "tg_SessionHash t = tg_SessionHash (StopTargets j ! i)"
  shows "sound (if HasUnresolvedPowerAction (set_target i t j) then
           (if c then snd (requestPowerCancellation ''after_all_stop_target_resumed'' (set_target i t j)) else set_target i t j)
         else armBarrierAfterTargetChange ''after_all_stop_target_resumed'' (if b then bump (set_target i t j) else set_target i t j))"
proof (cases "HasUnresolvedPowerAction j")
  case True
  then have s: "sound (set_target i t j)"
    using j t unresolved_state [OF True] by (intro sound_set_target) auto
  then have "sound (snd (requestPowerCancellation ''after_all_stop_target_resumed'' (set_target i t j)))"
    using j(2) by (intro sound_request [OF _ _ _ surjective_pairing]) simp_all
  then show ?thesis using True s by simp
next
  case False
  then show ?thesis
    using j t active_or_unresolved [OF j(4) False]
    by (auto simp: set_target_state(2) sound_bump intro!: arm_target_sound)
qed

lemma applyBarrierPrompt_sound:
  assumes j: "sound j" "can_bump j" "barrier_event j i" and now: "now \<noteq> 0"
  shows "sound (applyBarrierPrompt input j (Some i) now)"
proof (cases "barrier_done j \<or> Expired j now \<and> \<not> HasUnresolvedPowerAction j")
  case True
  then show ?thesis using j by (auto simp: applyBarrierPrompt_def sound_goto)
next
  case False
  obtain b t where p: "pinBarrierWorkspace (StopTargets j ! i) (hi_CWD input) now = (b, t)" by fastforce
  show ?thesis
  proof (cases b)
    case True
    have ok: "target_ok (StopTargets j ! i)"
      using j target_sound by (auto simp: barrier_event_def)
    have p': "pinBarrierWorkspace (StopTargets j ! i) (hi_CWD input) now = (True, t)" using p True by simp
    note pin = pinned_ok [OF ok p' now]
    let ?t = "t\<lparr>tg_ContinuationTurnHash := (if tg_CurrentTurnHash t \<noteq> SHA256 (hi_TurnID input) then [] else tg_ContinuationTurnHash t),
       tg_CurrentTurnHash := SHA256 (hi_TurnID input), tg_StopTurnHash := [], tg_StopObservedAt := None\<rparr>"
    have "target_ok ?t"
      using pin by (intro resumed_ok) auto
    moreover have "(Expired j now \<and> \<not> HasUnresolvedPowerAction j) = False" and "barrier_done j = False"
      using False by auto
    ultimately show ?thesis
      using p' pin resume_sound [OF j, of ?t]
      by (auto simp: applyBarrierPrompt_def Let_def)
  next
    case b: False
    then show ?thesis
      using False p j by (auto simp: applyBarrierPrompt_def sound_failOrCancel)
  qed
qed

text \<open>A satisfied barrier that is bound advances to its end state.\<close>

lemma barrier_advance_sound:
  assumes "sound j" and "ArmObserved j" and "\<not> IsTerminal (State j)" and "TriggerPolicy j = TriggerAfterAllStop"
  shows "sound (barrier_advance j)"
proof -
  have np: "State j \<noteq> StateArmPendingBind" using bound_not_pending(1) assms by blast
  have "sound (j\<lparr>State := StateDryRunComplete, ReasonCode := r\<rparr>)" if "BarrierSatisfied j" for r
    using assms that np by (simp add: sound_def job_clock_def job_binding_def job_evidence_def)
  moreover have "sound (j\<lparr>State := StateStopObserved, ReasonCode := r\<rparr>)" if "BarrierSatisfied j" for r
    using assms that np by (simp add: sound_def job_clock_def job_binding_def job_evidence_def)
  moreover have "sound (j\<lparr>State := StateArmed, ReasonCode := r\<rparr>)" for r
    using assms np by (simp add: sound_arm)
  ultimately show ?thesis
    using assms(1) by (simp add: barrier_advance_def)
qed

text \<open>
  The record of a stop. The target is set while the job is already in a state that
  needs no evidence, so that the intermediate job is sound.
\<close>

lemma barrier_advance_state [simp]: "barrier_advance (j\<lparr>State := s\<rparr>) = barrier_advance j" if "s \<noteq> StateArmPendingBind" "State j \<noteq> StateArmPendingBind"
  using that by (simp add: barrier_advance_def)

lemma stop_recorded_sound:
  assumes j: "sound j" "can_bump j" "barrier_event j i" "\<not> IsTerminal (State j)"
    and t: "target_ok t" "tg_SessionHash t = tg_SessionHash (StopTargets j ! i)"
  shows "sound (barrier_advance (bump (set_target i t j)))"
proof -
  have np: "State j \<noteq> StateArmPendingBind" using bound_not_pending(1) j by (auto simp: barrier_event_def)
  let ?a = "j\<lparr>State := StateArmed\<rparr>"
  have "sound (bump (set_target i t ?a))"
    using j t np by (intro sound_bump sound_set_target sound_arm) (simp_all add: can_bump_def set_target_def)
  then have "sound (barrier_advance (bump (set_target i t ?a)))"
    using j by (intro barrier_advance_sound) (auto simp: barrier_event_def bump_def set_target_def)
  moreover have "barrier_advance (bump (set_target i t ?a)) = barrier_advance ((bump (set_target i t j))\<lparr>State := StateArmed\<rparr>)"
    by (cases j) (simp add: bump_def set_target_def)
  ultimately show ?thesis using np by simp
qed

text \<open>
  A plain stop of a target not seen before does not reach a job with an unresolved power action:
  its barrier was satisfied, so every target had been seen.
\<close>

definition all_seen_if_unresolved :: "Job \<Rightarrow> bool" where
  "all_seen_if_unresolved j \<longleftrightarrow> (HasUnresolvedPowerAction j \<longrightarrow> (\<forall>t \<in> set (StopTargets j). tg_CurrentTurnHash t \<noteq> []))"

lemma set_target_same: "i < length (StopTargets j) \<Longrightarrow> set_target i (StopTargets j ! i) j = j"
  by (simp add: set_target_def)

lemma applyBarrierStop_sound:
  assumes j: "sound j" "can_bump j" "barrier_event j i" and now: "now \<noteq> 0" and seen: "all_seen_if_unresolved j"
  shows "sound (applyBarrierStop input j (Some i) now)"
proof (cases "barrier_done j \<or> Expired j now \<and> \<not> HasUnresolvedPowerAction j")
  case True
  then show ?thesis using j by (auto simp: applyBarrierStop_def sound_goto)
next
  case False
  let ?o = "StopTargets j ! i" and ?h = "SHA256 (hi_TurnID input)"
  obtain b t where p: "pinBarrierWorkspace ?o (hi_CWD input) now = (b, t)" by fastforce
  have i: "i < length (StopTargets j)" using j by (simp add: barrier_event_def)
  show ?thesis
  proof (cases b)
    case True
    have p': "pinBarrierWorkspace ?o (hi_CWD input) now = (True, t)" using p True by simp
    have ok: "target_ok ?o" using j target_sound by (auto simp: barrier_event_def)
    note pin = pinned_ok [OF ok p' now]
    have same: "set_target i t j = j" if "tg_CurrentTurnHash t \<noteq> []"
      using that pin set_target_same [OF i] by auto
    have cont: "target_ok (t\<lparr>tg_CurrentTurnHash := ?h, tg_StopTurnHash := [], tg_StopObservedAt := None, tg_ContinuationTurnHash := ?h\<rparr>)"
      using pin by (auto simp: target_ok_iff Stopped_def)
    have continue: "sound (barrier_continue ?h i t j)"
      using resume_sound [OF j, of "t\<lparr>tg_CurrentTurnHash := ?h, tg_StopTurnHash := [], tg_StopObservedAt := None, tg_ContinuationTurnHash := ?h\<rparr>"]
        False cont pin by (simp add: barrier_continue_def Let_def)
    have unres: "sound (set_target i t j)" if "HasUnresolvedPowerAction j"
    proof -
      have "tg_CurrentTurnHash ?o \<noteq> []" using seen that i by (simp add: all_seen_if_unresolved_def)
      then show ?thesis using same pin j by simp
    qed
    let ?t1 = "t\<lparr>tg_CurrentTurnHash := ?h\<rparr>"
    have t1: "?t1 = t" if "tg_CurrentTurnHash t \<noteq> []" "tg_CurrentTurnHash t = ?h" using that by simp
    have kept: "sound (set_target i ?t1 j)" 
      if "tg_CurrentTurnHash t = [] \<or> tg_CurrentTurnHash t = ?h" "tg_ContinuationTurnHash ?t1 = ?h \<or> Stopped ?t1"
    proof -
      have "tg_CurrentTurnHash t \<noteq> []"
        using that pin by (auto simp: Stopped_def)
      then have "?t1 = t" and "set_target i t j = j" using t1 same that(1) by auto
      then show ?thesis using j(1) by (simp only:)
    qed
    have stopped: "target_ok (?t1\<lparr>tg_StopTurnHash := ?h, tg_StopObservedAt := Some now\<rparr>)"
      if "tg_CurrentTurnHash t = [] \<or> tg_CurrentTurnHash t = ?h" "tg_ContinuationTurnHash ?t1 \<noteq> ?h"
      using stopped_ok [of t now ?h] that pin now by auto
    show ?thesis
      using False p' j pin continue unres kept stopped same active_or_unresolved [of j]
      by (auto simp: applyBarrierStop_def Let_def intro!: stop_recorded_sound)
  next
    case b: False
    then show ?thesis
      using False p j by (auto simp: applyBarrierStop_def sound_failOrCancel)
  qed
qed

lemma applyBarrierSessionEnd_sound:
  "sound j \<Longrightarrow> can_bump j \<Longrightarrow> sound (applyBarrierSessionEnd j t)"
  by (auto simp: applyBarrierSessionEnd_def sound_goto requestPowerCancellation_def sound_cancel sound_bump
      split: option.splits)

text \<open>A single-session event reaches a job bound to the session.\<close>

definition session_event :: "Job \<Rightarrow> bool" where
  "session_event j \<longleftrightarrow> TriggerPolicy j \<noteq> TriggerAfterAllStop \<and> SessionID j \<noteq> []"

lemma sound_clear_goto: "sound j \<Longrightarrow> can_bump j \<Longrightarrow> plain_terminal s \<Longrightarrow> sound (clearCompletion (goto_state s r j))"
  using plain_terminalD [of s] by (intro sound_clear sound_goto) (auto simp: goto_state_def)

lemma sound_clear_arm:
  assumes "sound j" and "can_bump j" and "session_event j" and "\<not> IsTerminal (State j)"
  shows "sound (clearCompletion ((goto_state StateArmed r j)\<lparr>CurrentTurnID := t\<rparr>))"
proof -
  have j: "sound (bump j)" "State j \<noteq> StateArmPendingBind"
    using assms bound_not_pending(2) [of j] by (simp_all add: sound_bump session_event_def)
  then have "sound ((bump j)\<lparr>State := StateArmed\<rparr>)"
    using assms by (intro sound_arm) simp_all
  then show ?thesis
    using assms by (intro sound_clear sound_turn) (simp_all add: goto_state_def session_event_def bump_def)
qed

lemma prompt_rule_session_sound:
  assumes "sound j" and "can_bump j" and "session_event j"
  shows "sound (prompt_rule input j t now)"
proof -
  have "(bump j)\<lparr>CurrentTurnID := u, State := StateArmed, ReasonCode := r\<rparr> = (goto_state StateArmed r j)\<lparr>CurrentTurnID := u\<rparr>" for u r
    by (cases j) (simp add: goto_state_def bump_def)
  then show ?thesis
    using assms sound_clear_arm [OF assms]
    by (auto simp: prompt_rule_def session_event_def sound_clear_goto sound_cancel_grant requestPowerCancellation_def
        sound_cancel sound_bump)
qed

lemma stop_evidence_groups:
  assumes "sound j" and "session_event j" and "\<not> IsTerminal (State j)" and "u \<noteq> []"
    and "s = StateDryRunComplete \<or> s = StateStopObserved"
    and "TriggerPolicy j = TriggerAfterStop \<or> State j = StateReadyPendingStop"
  shows "sound (j\<lparr>State := s, StopTurnID := u\<rparr>)"
proof -
  note j = assms(1) [unfolded sound_def] and p = assms(2) [unfolded session_event_def]
  have "job_clock (j\<lparr>State := s, StopTurnID := u\<rparr>)"
    using j assms(5) by (auto simp: job_clock_def)
  moreover have "job_binding (j\<lparr>State := s, StopTurnID := u\<rparr>)"
    using j p assms(3,5) bound_not_pending(2) [of j] assms(1) by (auto simp: job_binding_def)
  moreover have "job_evidence (j\<lparr>State := s, StopTurnID := u\<rparr>)"
    using j p assms(4-6) by (auto simp: job_evidence_def)
  ultimately show ?thesis using j by (simp add: sound_def)
qed

lemma stop_turn_swap: "j\<lparr>StopTurnID := u, State := s\<rparr> = j\<lparr>State := s, StopTurnID := u\<rparr>"
  by (cases j) simp

lemma stop_evidence_sound:
  assumes "sound j" and "session_event j" and "\<not> IsTerminal (State j)" and "u \<noteq> []"
  shows "TriggerPolicy j = TriggerAfterStop \<Longrightarrow> sound (j\<lparr>StopTurnID := u, State := StateDryRunComplete, ReasonCode := r\<rparr>)"
    and "TriggerPolicy j = TriggerAfterStop \<Longrightarrow> sound (j\<lparr>StopTurnID := u, State := StateStopObserved, ReasonCode := r\<rparr>)"
    and "State j = StateReadyPendingStop \<Longrightarrow> sound (j\<lparr>State := StateStopObserved, StopTurnID := u, ReasonCode := r\<rparr>)"
  using stop_evidence_groups [OF assms, of StateDryRunComplete] stop_evidence_groups [OF assms, of StateStopObserved]
  by (simp_all add: stop_turn_swap)

lemma stop_rule_session_sound:
  assumes "sound j" and "can_bump j" and "session_event j" and "hi_TurnID input \<noteq> []"
  shows "sound (stop_rule input j t now)"
  using assms stop_evidence_sound [OF assms(1,3) _ assms(4)] sound_clear_arm [OF assms(1-3)]
  by (auto simp: stop_rule_def session_event_def sound_clear_goto sound_cancel_grant requestPowerCancellation_def
      sound_cancel sound_bump after_stop_rule_def verified_stop_rule_def sound_goto)

lemma session_end_rule_session_sound:
  "sound j \<Longrightarrow> can_bump j \<Longrightarrow> session_event j \<Longrightarrow> sound (session_end_rule j t now)"
  by (auto simp: session_end_rule_def session_event_def sound_clear_goto requestPowerCancellation_def sound_cancel sound_bump)

lemma tool_rule_sound:
  assumes "sound j" and "can_bump j" and "hi_SessionID input \<noteq> []"
    and "State j = StateReadyPendingStop \<Longrightarrow> TriggerPolicy j \<noteq> TriggerAfterAllStop"
  shows "sound (tool_rule tool input j now)"
proof -
  have "sound (clearCompletion ((goto_state StateArmed r j)\<lparr>CurrentTurnID := t\<rparr>))"
    if "State j = StateReadyPendingStop" "TriggerPolicy j \<noteq> TriggerAfterAllStop" "SessionID j = hi_SessionID input" for r t
    using that assms by (intro sound_clear_arm) (simp_all add: session_event_def)
  then show ?thesis
    using assms
    by (auto simp: tool_rule_def Let_def sound_clear_goto requestPowerCancellation_def sound_cancel sound_bump)
qed

end
