(* ===== verification/Go_Keeps.thy ===== *)
theory Go_Keeps
  imports Go_World
begin

text \<open>
  Invariants of the disk that a program keeps at every step, so that they hold however it ends:
  \<open>keeps P m\<close>. The other processes are assumed to keep the invariant as well (\<open>stable\<close>). The rules
  follow the structure of a program; a program that reads the disk knows that the invariant held
  of what it read.
\<close>

definition keeps :: "('d \<Rightarrow> bool) \<Rightarrow> ('d world, 'a) state \<Rightarrow> bool" where
  "keeps P m \<longleftrightarrow> (\<forall>w. stable P w \<and> P (disk w) \<longrightarrow> wp m (\<lambda>_ w'. P (disk w') \<and> evolves w w') w)"

named_theorems keeps_rules

lemma keepsI: "(\<And>w. stable P w \<Longrightarrow> P (disk w) \<Longrightarrow> wp m (\<lambda>_ w'. P (disk w') \<and> evolves w w') w) \<Longrightarrow> keeps P m"
  by (simp add: keeps_def)

lemma keepsD: "keeps P m \<Longrightarrow> stable P w \<Longrightarrow> P (disk w) \<Longrightarrow> wp m (\<lambda>_ w'. P (disk w')) w"
  unfolding keeps_def by (blast intro: wp_mono)

lemma keeps_ret [keeps_rules]: "keeps P (ret r)"
  by (simp add: keeps_def)

lemma keeps_bind_result:
  assumes "keeps P m" and "\<And>w r w'. stable P w \<Longrightarrow> P (disk w) \<Longrightarrow> run_state m w = (r, w') \<Longrightarrow> keeps P (f r)"
  shows "keeps P (m \<bind> f)"
proof (rule keepsI, unfold wp_bind, rule wp_runI)
  fix w r w'
  assume w: "stable P w" "P (disk w)" and r: "run_state m w = (r, w')"
  have w': "P (disk w')" "evolves w w'"
    using assms(1) w wp_run [OF _ r] unfolding keeps_def by blast+
  then have "wp (f r) (\<lambda>_ w''. P (disk w'') \<and> evolves w' w'') w'"
    using assms(2) [OF w r] w stable_evolves unfolding keeps_def by blast
  then show "wp (f r) (\<lambda>_ w''. P (disk w'') \<and> evolves w w'') w'"
    by (rule wp_mono) (use w' evolves_trans in blast)
qed

lemma keeps_read [keeps_rules]: "(\<And>d. P d \<Longrightarrow> keeps P (f d)) \<Longrightarrow> keeps P (read_disk \<bind> f)"
  unfolding keeps_def wp_bind wp_read_disk by blast

lemma keeps_observe [keeps_rules]: "(\<And>d. P d \<Longrightarrow> keeps P (f d)) \<Longrightarrow> keeps P (observe \<bind> f)"
proof (rule keepsI, unfold wp_bind, rule wp_observe)
  fix w k n
  assume f: "\<And>d. P d \<Longrightarrow> keeps P (f d)" and w: "stable P w" "P (disk w)"
  let ?w = "at w (others w k (disk w)) n"
  have "P (disk ?w)" "stable P ?w" using w by auto
  then have "wp (f (disk ?w)) (\<lambda>_ w'. P (disk w') \<and> evolves ?w w') ?w"
    using f [of "disk ?w"] unfolding keeps_def by blast
  then show "wp (f (others w k (disk w))) (\<lambda>_ w'. P (disk w') \<and> evolves w w') ?w"
    by simp
qed

text \<open>The rule for any other sequence comes after those for the reads, which know more.\<close>

lemma keeps_bind [keeps_rules]: "keeps P m \<Longrightarrow> (\<And>r. keeps P (f r)) \<Longrightarrow> keeps P (m \<bind> f)"
  by (rule keeps_bind_result)

lemma keeps_read_only [keeps_rules]: "keeps P read_disk" "keeps P observe"
  using keeps_read [of P ret] keeps_observe [of P ret] by (simp_all add: keeps_ret)

lemma keeps_call [keeps_rules]: "keeps P call"
  by (auto simp: keeps_def intro!: wp_call)

lemma keeps_time [keeps_rules]: "keeps P time_Now"
  by (auto simp: keeps_def intro!: wp_time_Now)

lemma keeps_sync [keeps_rules]: "keeps P sync"
  by (auto simp: keeps_def intro!: wp_sync)

lemma keeps_change [keeps_rules]: "(\<And>d. P d \<Longrightarrow> P (f d)) \<Longrightarrow> keeps P (change_disk f)"
  by (simp add: keeps_def)

lemma keeps_calls [keeps_rules]: "keeps P (calls ms)"
  by (auto simp: keeps_def intro!: wp_calls_seq)

lemma keeps_acquire [keeps_rules]: "keeps P (acquireStateLock t)"
  by (auto simp: keeps_def intro!: wp_acquireStateLock)

lemma keeps_atomic [keeps_rules]: "(\<And>d. P d \<Longrightarrow> P (put d)) \<Longrightarrow> keeps P (AtomicWriteJSON put)"
  by (auto simp: keeps_def intro!: wp_AtomicWriteJSON)

lemma keeps_create [keeps_rules]:
  "(\<And>d. P d \<Longrightarrow> P (blank d)) \<Longrightarrow> (\<And>d. P d \<Longrightarrow> P (full d)) \<Longrightarrow> (\<And>d. P d \<Longrightarrow> P (gone d)) \<Longrightarrow>
     keeps P (create_new_file before after blank full gone)"
  by (rule keepsI, rule wp_create_new_file) auto

lemma keeps_if [keeps_rules]: "(b \<Longrightarrow> keeps P m) \<Longrightarrow> (\<not> b \<Longrightarrow> keeps P k) \<Longrightarrow> keeps P (if b then m else k)"
  by simp

lemma keeps_or_return [keeps_rules]: "(e = None \<Longrightarrow> keeps P k) \<Longrightarrow> keeps P (or_return e r k)"
  by (cases e) (simp_all add: or_return_def keeps_ret)

lemma keeps_option [keeps_rules]:
  "(x = None \<Longrightarrow> keeps P m) \<Longrightarrow> (\<And>y. x = Some y \<Longrightarrow> keeps P (k y)) \<Longrightarrow>
     keeps P (case x of None \<Rightarrow> m | Some y \<Rightarrow> k y)"
  by (cases x) simp_all

lemma keeps_sum [keeps_rules]:
  "(\<And>e. x = Inl e \<Longrightarrow> keeps P (m e)) \<Longrightarrow> (\<And>y. x = Inr y \<Longrightarrow> keeps P (k y)) \<Longrightarrow>
     keeps P (case x of Inl e \<Rightarrow> m e | Inr y \<Rightarrow> k y)"
  by (cases x) simp_all

lemma keeps_prod [keeps_rules]:
  "(\<And>a b. x = (a, b) \<Longrightarrow> keeps P (k a b)) \<Longrightarrow> keeps P (case x of (a, b) \<Rightarrow> k a b)"
  by (cases x) simp

lemma keeps_list [keeps_rules]:
  "(x = [] \<Longrightarrow> keeps P m) \<Longrightarrow> (\<And>y ys. x = y # ys \<Longrightarrow> keeps P (k y ys)) \<Longrightarrow>
     keeps P (case x of [] \<Rightarrow> m | y # ys \<Rightarrow> k y ys)"
  by (cases x) simp_all

lemma keeps_Let [keeps_rules]: "(\<And>x. x = v \<Longrightarrow> keeps P (k x)) \<Longrightarrow> keeps P (let x = v in k x)"
  by simp

end
