(* ===== verification/Plugin_Keeps.thy ===== *)
theory Plugin_Keeps
  imports Plugin_Observed Go_Keeps
begin

text \<open>
  Invariants of one stored job through the operations of the state store. \<open>holds i K\<close> says that the
  file of job \<open>i\<close> holds a job with \<open>K\<close>; the locale \<open>kept\<close> lists what \<open>K\<close> has to survive for every
  operation to keep it, on every path, failed writes and compensations included.
\<close>

definition holds :: "string \<Rightarrow> (Job \<Rightarrow> bool) \<Rightarrow> plugin_disk \<Rightarrow> bool" where
  "holds i K d \<longleftrightarrow> (\<exists>j. job_file d i = Some (File (Parsed j)) \<and> K j)"

lemma holds_frame [simp]:
  "holds i K (append_event e d) = holds i K d" "holds i K (put_index h ix d) = holds i K d"
  "holds i K (remove_index h d) = holds i K d" "holds i K (put_marker b m d) = holds i K d"
  "holds i K (remove_marker m d) = holds i K d"
  by (simp_all add: holds_def) (simp_all add: job_file_def put_marker_def remove_marker_def set_rev_dir_def)

lemma holds_put: "holds i K d \<Longrightarrow> (i' = i \<Longrightarrow> K j) \<Longrightarrow> holds i K (put_job_at i' j d)"
  by (cases "i' = i") (auto simp: holds_def)

subsection \<open>Operations that leave the jobs alone\<close>

lemma keeps_append [keeps_rules]: "keeps (holds i K) (appendEventUnlocked job name key sh th old)"
  unfolding appendEventUnlocked_def by (intro keeps_rules) (simp_all add: keeps_change)

lemma keeps_remove [keeps_rules]: "keeps (holds i K) (removeMatchingSessionIndexUnlocked h j b)"
  unfolding removeMatchingSessionIndexUnlocked_def by (intro keeps_rules) simp_all

lemma keeps_release_indexes [keeps_rules]: "keeps (holds i K) (release_indexes job ts)"
  by (induction ts) (auto intro!: keeps_rules)

lemma keeps_release [keeps_rules]: "keeps (holds i K) (release_if_done job)"
  unfolding release_if_done_def releaseBarrierIndexesUnlocked_def by (intro keeps_rules)

lemma keeps_lookup [keeps_rules]: "keeps (holds i K) (LookupObservedSession s)"
  unfolding LookupObservedSession_def by (intro keeps_rules)

lemma keeps_marker [keeps_rules]: "keeps (holds i K) (writeRevocationCreateOnce m)"
  unfolding writeRevocationCreateOnce_def by (intro keeps_rules) simp_all

lemma keeps_create_marker [keeps_rules]: "keeps (holds i K) (CreateRevocationMarker s t key r ej eb)"
  unfolding CreateRevocationMarker_def by (intro keeps_rules)

lemma keeps_complete [keeps_rules]: "keeps (holds i K) (CompleteRevocation m)"
  unfolding CompleteRevocation_def by (intro keeps_rules) simp_all

subsection \<open>Operations on jobs\<close>

locale kept =
  fixes K :: "Job \<Rightarrow> bool"
  assumes migrated: "migrate j = (None, j') \<Longrightarrow> K j \<Longrightarrow> K j'"
    and touched: "K (j\<lparr>UpdatedAt := now\<rparr>) = K j"
    and keyed: "K (j\<lparr>ProcessedEventKeys := ks\<rparr>) = K j"
    and failed_write: "K j \<Longrightarrow> K (fail_observer_job r j)"
    and exhausted: "K j \<Longrightarrow> K (capacity_exhausted j)"
    and session_bound: "bind_session d s t ws j now = (None, j') \<Longrightarrow> K j \<Longrightarrow> K j'"
    and controller_bound: "bind_controller d ch th ws j now = (None, j') \<Longrightarrow> K j \<Longrightarrow> K j'"
begin

lemma loaded: "holds i K d \<Longrightarrow> loadPath d i = Inr j \<Longrightarrow> K j"
  by (auto simp: holds_def loadPath_Inr intro: migrated)

lemma found: "holds i K d \<Longrightarrow> findBySessionUnlocked d s = (j, True, e) \<Longrightarrow> JobID j = i \<Longrightarrow> K j"
  using findBySession_found loaded by blast

lemma recorded: "record_event_key key j = (None, j') \<Longrightarrow> K j \<Longrightarrow> K (j'\<lparr>UpdatedAt := t\<rparr>)"
  by (drule record_event_key_keeps) (metis keyed touched)

lemma fail_observer_job_JobID [simp]: "JobID (fail_observer_job r j) = JobID j"
  by (simp add: fail_observer_job_def bump_def)

lemma keeps_fail [keeps_rules]: "(JobID j = i \<Longrightarrow> K j) \<Longrightarrow> keeps (holds i K) (failBarrierObserverWriteUnlocked r j)"
  unfolding failBarrierObserverWriteUnlocked_def
  by (intro keeps_rules holds_put)
     (auto simp: touched intro!: failed_write)

lemma keeps_write_update [keeps_rules]:
  "(i' = i \<Longrightarrow> K j) \<Longrightarrow> keeps (holds i K) (h j) \<Longrightarrow> keeps (holds i K) (write_update msg i' name key sh th old h j)"
  unfolding write_update_def by (intro keeps_rules holds_put) simp_all

lemma keeps_UpdateJob [keeps_rules]:
  assumes "\<And>j now. K j \<Longrightarrow> K (snd (f j now))"
  shows "keeps (holds i K) (UpdateJob i' name key f)"
proof -
  have K: "K (job2\<lparr>UpdatedAt := now\<rparr>)"
    if "holds i K d" "loadPath d i = Inr job" "f job now = (None, job1)" "record_event_key key job1 = (None, job2)"
    for d job now job1 job2
    using assms [of job now] loaded [OF that(1,2)] recorded [OF that(4)] that(3) by simp
  show ?thesis
    unfolding UpdateJob_def UpdateJob_locked_def by (intro keeps_rules) (auto intro: K)
qed

lemma keeps_exhausted [keeps_rules]:
  "(JobID j = i \<Longrightarrow> K j) \<Longrightarrow> keeps (holds i K) (write_exhausted name sh tid j now)"
  unfolding write_exhausted_def by (intro keeps_rules holds_put) (simp_all add: touched exhausted)

lemma keeps_observed [keeps_rules]:
  assumes "\<And>j t now. K j \<Longrightarrow> K (snd (f j t now))" and id: "keeps_identity f"
  shows "keeps (holds i K) (UpdateObservedSessionBinding s t name key ej eb f)"
proof -
  have K: "K (job2\<lparr>UpdatedAt := now\<rparr>)"
    if "holds i K d" "findBySessionUnlocked d s = (job, fd, err)" "\<not> (err \<noteq> None \<or> \<not> fd)" "JobID job2 = i"
      "f job tg now = (None, job1)" "record_event_key key job1 = (None, job2)" for d job fd err tg now job1 job2
  proof -
    have "JobID job = i"
      using that id record_event_key_None [OF that(6)] unfolding keeps_identity_def by (metis snd_conv)
    then have "K job" using found that by auto
    then show ?thesis using assms(1) [of job tg now] that recorded by simp
  qed
  show ?thesis
    unfolding UpdateObservedSessionBinding_def updateObservedSessionBinding_def observed_locked_def
    by (intro keeps_rules) (auto intro: K found)
qed

lemma keeps_BindSession [keeps_rules]: "keeps (holds i K) (BindSession i' s t ws key)"
proof -
  have single: "K (job1\<lparr>ProcessedEventKeys := ks, UpdatedAt := now\<rparr>)"
    if "holds i K d" "loadPath d i = Inr job" "bind_session d' s t ws job now = (None, job1)" for d d' job job1 ks now
    using session_bound [OF that(3) loaded [OF that(1,2)]] by (simp add: keyed touched)
  have plain: "K (job1\<lparr>UpdatedAt := now\<rparr>)"
    if "holds i K d" "loadPath d i = Inr job" "bind_session d' s t ws job now = (None, job1)" for d d' job job1 now
    using session_bound [OF that(3) loaded [OF that(1,2)]] by (simp add: touched)
  have controller: "K (job2\<lparr>UpdatedAt := now\<rparr>)"
    if "holds i K d" "loadPath d i' = Inr job" "JobID job2 = i"
      "bind_controller d' ch th ws job now = (None, job1)" "record_event_key key job1 = (None, job2)"
    for d d' job job1 job2 ch th now
  proof -
    have "JobID job = i"
      using that(3) record_event_key_None [OF that(5)] bind_controller_keeps [OF that(4)] by simp
    then have "K job" using loaded [OF that(1)] that(2) loadPath_valid by blast
    then show ?thesis using controller_bound [OF that(4)] recorded [OF that(5)] by simp
  qed
  show ?thesis
    unfolding BindSession_def BindSession_locked_def bindBarrierControllerUnlocked_def write_binding_def
      writeSessionIndexUnlocked_def
    by (intro keeps_rules holds_put) (auto intro: single plain controller)
qed

end

subsection \<open>Finished jobs and unresolved power actions\<close>

text \<open>A job that is done: terminal, with no power action left to resolve.\<close>

definition finished :: "Job \<Rightarrow> bool" where
  "finished j \<longleftrightarrow> IsTerminal (State j) \<and> \<not> HasUnresolvedPowerAction j"

text \<open>
  Neither finished jobs nor unresolved power actions are lost in the store: finished jobs stay
  finished, and an unresolved power action is only ever asked to be cancelled.
\<close>

lemma unresolved_simps [simp]:
  "HasUnresolvedPowerAction (j\<lparr>UpdatedAt := now\<rparr>) = HasUnresolvedPowerAction j"
  "HasUnresolvedPowerAction (j\<lparr>ProcessedEventKeys := ks\<rparr>) = HasUnresolvedPowerAction j"
  "HasUnresolvedPowerAction (j\<lparr>CancelRequested := b\<rparr>) = HasUnresolvedPowerAction j"
  "HasUnresolvedPowerAction (j\<lparr>CancelReason := r\<rparr>) = HasUnresolvedPowerAction j"
  "HasUnresolvedPowerAction (j\<lparr>ReasonCode := r\<rparr>) = HasUnresolvedPowerAction j"
  "HasUnresolvedPowerAction (j\<lparr>StopTargets := ts\<rparr>) = HasUnresolvedPowerAction j"
  "HasUnresolvedPowerAction (bump j) = HasUnresolvedPowerAction j"
  "\<not> HasUnresolvedPowerAction (j\<lparr>State := StateHookUnavailable\<rparr>)"
  by (simp_all add: HasUnresolvedPowerAction_def bump_def)

lemma unresolved_states: "HasUnresolvedPowerAction j \<Longrightarrow> State j \<in> {StateActionIntent, StateActionScheduled, StateOrphaned}"
  by (auto simp: HasUnresolvedPowerAction_def split: if_splits)

lemma State_bump [simp]: "State (bump j) = State j"
  by (simp add: bump_def)

lemma migrate_unresolved: "migrate j = (None, j') \<Longrightarrow> State j' = State j \<and> HasUnresolvedPowerAction j' = HasUnresolvedPowerAction j"
  by (auto simp: migrate_def HasUnresolvedPowerAction_def split: if_splits)

lemma migrate_finished: "migrate j = (None, j') \<Longrightarrow> finished j \<Longrightarrow> finished j'"
  by (drule migrate_unresolved) (simp add: finished_def)

lemma expire_settled: "finished j \<or> HasUnresolvedPowerAction j \<Longrightarrow> expire j now = (False, j)"
  using unresolved_states [of j] by (auto simp: expire_def finished_def)

lemma bind_settled:
  assumes "finished j \<or> HasUnresolvedPowerAction j"
  shows "bind_session d s t ws j now = (None, j') \<Longrightarrow> j' = j"
    and "bind_controller d ch th ws j now = (None, j') \<Longrightarrow> j' = j"
  using assms unresolved_states [of j]
  by (auto simp: bind_session_def bind_controller_def expire_settled finished_def split: if_splits)

lemma failed_settled:
  "finished j \<Longrightarrow> finished (fail_observer_job r j)" "finished j \<Longrightarrow> finished (capacity_exhausted j)"
  "HasUnresolvedPowerAction j \<Longrightarrow> HasUnresolvedPowerAction (fail_observer_job r j)"
  "HasUnresolvedPowerAction j \<Longrightarrow> HasUnresolvedPowerAction (capacity_exhausted j)"
  by (simp_all add: finished_def fail_observer_job_def capacity_exhausted_def)

lemma finished_simps [simp]:
  "finished (j\<lparr>UpdatedAt := now\<rparr>) = finished j" "finished (j\<lparr>ProcessedEventKeys := ks\<rparr>) = finished j"
  by (simp_all add: finished_def)

interpretation done_jobs: kept finished
  by unfold_locales (auto dest: bind_settled [rotated] migrate_finished simp: failed_settled)

interpretation power_actions: kept HasUnresolvedPowerAction
  by unfold_locales (auto dest: bind_settled [rotated] migrate_unresolved simp: failed_settled)

end
