(* ===== verification/Hook_Observer.thy ===== *)
theory Hook_Observer
  imports Hook_Rules Plugin_Keeps Plugin_Examples
begin

text \<open>
  \<open>internal/hookobserver/observer.go\<close>, the handlers: a lifecycle hook is decoded, bound to the job
  that owns its session, and applied through the store under the state lock, with retries while
  the lock is busy. Events that withdraw a stop leave a durable revocation marker before the
  update and start the cancel worker when the update could not settle the matter.
\<close>

subsection \<open>Decoding\<close>

text \<open>\<open>encoding/json\<close> is given by what it makes of the bytes it reads.\<close>

abbreviation maxHookInputBytes :: nat where "maxHookInputBytes \<equiv> 1048576"

definition decodeHookInput :: "(string \<Rightarrow> hookInput body) \<Rightarrow> err + string \<Rightarrow> err + hookInput" where
  "decodeHookInput parse source =
     (case source of
        Inl e \<Rightarrow> Inl (Wrap ''read hook input: %w'' e)
      | Inr stream \<Rightarrow>
          (let data = take (maxHookInputBytes + 1) stream in
           if data = [] then Inl (Err ''hook input is empty'')
           else if length data > maxHookInputBytes then Inl (Err ''hook input exceeds %d bytes'')
           else if \<not> utf8_Valid data then Inl (Err ''hook input is not valid UTF-8'')
           else case parse data of
             Oversized \<Rightarrow> Inl (Wrap ''decode hook input: %w'' (Err ''unexpected EOF''))
           | Undecodable \<Rightarrow> Inl (Wrap ''decode hook input: %w'' (Err ''unexpected EOF''))
           | Trailing \<Rightarrow> Inl (Err ''hook input contains trailing JSON'')
           | Parsed input \<Rightarrow>
               if TrimSpace (hi_HookEventName input) = [] then Inl (Err ''hook input is missing hook_event_name'')
               else Inr input))"

subsection \<open>Retries\<close>

abbreviation hookStateLockAttempts :: nat where "hookStateLockAttempts \<equiv> 4"

text \<open>
  The operation runs again while it answers \<open>ErrLockTimeout\<close>, at most as often as there are
  attempts; the other processes run during the sleep. \<open>error_of\<close> picks the error of the result.
\<close>

fun retry_lock :: "('a \<Rightarrow> err option) \<Rightarrow> 'a pop \<Rightarrow> nat \<Rightarrow> 'a pop" where
  "retry_lock error_of operation 0 = operation"
| "retry_lock error_of operation (Suc left) = do {
     r \<leftarrow> operation;
     if \<not> err_is (error_of r) ErrLockTimeout then ret r
     else do { sync; retry_lock error_of operation left } }"

definition retryStateLock :: "('a \<Rightarrow> err option) \<Rightarrow> 'a pop \<Rightarrow> 'a pop" where
  "retryStateLock error_of operation = retry_lock error_of operation (hookStateLockAttempts - 1)"

definition retryObservedUpdate :: "observed_result pop \<Rightarrow> observed_result pop" where
  "retryObservedUpdate operation = retryStateLock (\<lambda>(_, _, _, err). err) operation"

subsection \<open>Bindings\<close>

record targetBinding =
  tb_jobID :: string
  tb_bindingID :: string
  tb_target :: StopTarget
  tb_triggerPolicy :: TriggerPolicy
  tb_workspaceCWD :: string
  tb_stopTurnID :: string
  tb_unresolvedPower :: bool
  tb_preserveSessionEnd :: bool
  tb_found :: bool

definition no_binding :: targetBinding where
  "no_binding = \<lparr>tb_jobID = [], tb_bindingID = [], tb_target = zero_StopTarget, tb_triggerPolicy = TriggerOther [],
     tb_workspaceCWD = [], tb_stopTurnID = [], tb_unresolvedPower = False, tb_preserveSessionEnd = False, tb_found = False\<rparr>"

definition binding_of :: "Job \<Rightarrow> StopTarget \<Rightarrow> targetBinding" where
  "binding_of job target =
     \<lparr>tb_jobID = JobID job, tb_bindingID = ObservedBindingID job, tb_target = target,
      tb_triggerPolicy = TriggerPolicy job,
      tb_workspaceCWD = (if TriggerPolicy job = TriggerAfterAllStop then tg_WorkspaceCWD target else WorkspaceCWD job),
      tb_stopTurnID = StopTurnID job, tb_unresolvedPower = HasUnresolvedPowerAction job,
      tb_preserveSessionEnd = (Stopped target \<or> TriggerPolicy job = TriggerAfterStop \<and>
        (State job = StateStopObserved \<or> HasUnresolvedPowerAction job)),
      tb_found = True\<rparr>"

definition target_binding :: "string \<Rightarrow> targetBinding pop" where
  "target_binding sessionID = do {
     l \<leftarrow> LookupObservedSession sessionID;
     ret (case l of (job, target, found, err) \<Rightarrow>
            if err \<noteq> None \<or> \<not> found then no_binding else binding_of job target) }"

subsection \<open>Revocations\<close>

text \<open>What the observer does to the job whose cancel worker cannot be started.\<close>

definition launch_failed :: "string \<Rightarrow> string \<Rightarrow> Job \<Rightarrow> Job" where
  "launch_failed bindingID reason current =
     (if ObservedBindingID current \<noteq> bindingID then current
      else if HasUnresolvedPowerAction current then
        (bump current)\<lparr>CancelRequested := True, CancelReason := reason, ReasonCode := ''cancel_worker_unavailable:'' @ reason\<rparr>
      else if IsActive (State current) then
        (bump current)\<lparr>State := StateHookUnavailable, ReasonCode := ''cancel_worker_unavailable:'' @ reason\<rparr>
      else current)"

text \<open>The launcher is an interface of the observer; its call succeeds or fails.\<close>

definition launch_worker :: "bool \<Rightarrow> bool \<Rightarrow> RevocationMarker \<Rightarrow> targetBinding \<Rightarrow> string \<Rightarrow> err option pop" where
  "launch_worker launcher needsWorker marker expected reason =
     (if \<not> (needsWorker \<and> launcher) then ret None
      else (let jobID = (if rm_JobID marker = [] then tb_jobID expected else rm_JobID marker);
                bindingID = (if rm_JobID marker = [] then tb_bindingID expected else rm_TargetBindingID marker)
            in do {
              r \<leftarrow> call;
              case r of
                None \<Rightarrow> ret None
              | Some e \<Rightarrow>
                  if jobID = [] then ret (Some e)
                  else do {
                    UpdateJob jobID ''cancel_worker.launch_failed'' []
                      (\<lambda>current _. (None, launch_failed bindingID reason current));
                    ret (Some e) } }))"

definition observeRevocation ::
    "bool \<Rightarrow> hookInput \<Rightarrow> targetBinding \<Rightarrow> string \<Rightarrow> string \<Rightarrow> observed_result pop \<Rightarrow> err option pop" where
  "observeRevocation launcher input expected eventKey reason update = do {
     m \<leftarrow> CreateRevocationMarker (hi_SessionID input) (hi_TurnID input) eventKey reason
            (tb_jobID expected) (tb_bindingID expected);
     case m of (marker, markerNeeded, markerErr) \<Rightarrow> do {
       u \<leftarrow> update;
       case u of (job, applied, _, updateErr) \<Rightarrow>
         (let bindingAvailable = (tb_found expected \<or> rm_JobID marker \<noteq> [] \<and> rm_TargetBindingID marker \<noteq> []);
              needsWorker = (bindingAvailable \<and> markerNeeded \<and>
                (markerErr \<noteq> None \<or> updateErr \<noteq> None \<or> \<not> applied \<or> HasUnresolvedPowerAction job))
          in do {
            launchErr \<leftarrow> launch_worker launcher needsWorker marker expected reason;
            cleanupErr \<leftarrow>
              (if markerNeeded \<and> markerErr = None \<and> updateErr = None \<and> applied \<and> \<not> HasUnresolvedPowerAction job
               then CompleteRevocation marker else ret None);
            ret (errors_Join [markerErr, updateErr, cleanupErr, launchErr]) }) } }"

subsection \<open>Handlers\<close>

definition doneThenTools :: "(string \<times> string) list" where
  "doneThenTools =
     [(''mcp__done_then__arm'', ''arm''), (''mcp__done_then__finish'', ''finish''),
      (''mcp__done_then__pause'', ''pause''), (''mcp__done_then__cancel'', ''cancel'')]"

text \<open>The job a tool hook is about: \<open>None\<close> when the tool reported a failure.\<close>

definition tool_job :: "string \<Rightarrow> hookInput \<Rightarrow> err + string option" where
  "tool_job tool input =
     (case responseIdentity (hi_ToolResponse input) of
        Inl e \<Rightarrow> Inl (Wrap ''inspect %s tool response: %w'' e)
      | Inr (responseJobID, responseOK) \<Rightarrow>
          if \<not> responseOK then Inr None
          else if tool = ''arm'' then Inr (Some responseJobID)
          else case inputIdentity (hi_ToolInput input) of
            Inl e \<Rightarrow> Inl (Wrap ''inspect %s tool input: %w'' e)
          | Inr inputJobID \<Rightarrow>
              if responseJobID \<noteq> [] \<and> responseJobID \<noteq> inputJobID then
                Inl (Err ''DoneThen tool input and output job ids do not match'')
              else Inr (Some inputJobID))"

definition apply_tool :: "string \<Rightarrow> hookInput \<Rightarrow> string \<Rightarrow> err option pop" where
  "apply_tool tool input jobID =
     (let eventKey = hookEventKey input jobID in
      if tool = ''arm'' then
        retryStateLock (\<lambda>e. e) (do {
          r \<leftarrow> BindSession jobID (hi_SessionID input) (hi_TurnID input) (hi_CWD input) eventKey;
          ret (snd (snd r)) })
      else
        retryStateLock (\<lambda>e. e) (do {
          r \<leftarrow> UpdateJob jobID (''hook.post_tool.'' @ tool) eventKey (\<lambda>job now. (None, tool_rule tool input job now));
          ret (snd (snd r)) }))"

definition postToolUse :: "hookInput \<Rightarrow> err option pop" where
  "postToolUse input =
     (case map_of doneThenTools (hi_ToolName input) of
        None \<Rightarrow> ret None
      | Some tool \<Rightarrow>
          or_return (validateTurnInput input) Some (
            case tool_job tool input of
              Inl e \<Rightarrow> ret (Some e)
            | Inr None \<Rightarrow> ret None
            | Inr (Some jobID) \<Rightarrow>
                if ValidateJobID jobID \<noteq> None then ret (Some (Err ''DoneThen tool response is missing a valid job id''))
                else apply_tool tool input jobID))"

text \<open>The update of an observed session by a rule, retried while the lock is busy.\<close>

definition observe_update ::
    "hookInput \<Rightarrow> string \<Rightarrow> string \<Rightarrow> targetBinding \<Rightarrow> string \<Rightarrow> (Job \<Rightarrow> nat option \<Rightarrow> time \<Rightarrow> Job) \<Rightarrow> observed_result pop" where
  "observe_update input turnID eventName binding eventKey rule =
     retryObservedUpdate (UpdateObservedSessionBinding (hi_SessionID input) turnID eventName eventKey
       (tb_jobID binding) (tb_bindingID binding) (\<lambda>job target now. (None, rule job target now)))"

definition userPromptSubmit :: "bool \<Rightarrow> hookInput \<Rightarrow> err option pop" where
  "userPromptSubmit launcher input =
     or_return (validateTurnInput input) Some (do {
       binding \<leftarrow> target_binding (hi_SessionID input);
       let eventKey = hookEventKey input (tb_jobID binding);
       observeRevocation launcher input binding eventKey ''new_prompt_requested_power_cancel''
         (observe_update input (hi_TurnID input) ''hook.user_prompt'' binding eventKey (prompt_rule input)) })"

text \<open>The reason for which a stop withdraws the grant, if it does.\<close>

definition stop_revocation :: "hookInput \<Rightarrow> targetBinding \<Rightarrow> string" where
  "stop_revocation input binding =
     (if hi_StopHookActive input then ''stop_hook_continuation_requested_power_cancel''
      else if tb_found binding \<and> tb_workspaceCWD binding \<noteq> [] \<and>
              \<not> WorkspaceMatches (tb_workspaceCWD binding) (hi_CWD input) then ''target_workspace_changed''
      else if tb_found binding \<and> tb_unresolvedPower binding \<and>
              (tb_triggerPolicy binding = TriggerAfterStop \<or> hi_TurnID input \<noteq> tb_stopTurnID binding) then
        ''continuation_after_stop_requested_power_cancel''
      else [])"

definition hook_stop :: "bool \<Rightarrow> hookInput \<Rightarrow> err option pop" where
  "hook_stop launcher input =
     or_return (validateTurnInput input) Some (do {
       binding \<leftarrow> target_binding (hi_SessionID input);
       let eventKey = hookEventKey input (tb_jobID binding);
       let update = observe_update input (hi_TurnID input) ''hook.stop'' binding eventKey (stop_rule input);
       if stop_revocation input binding \<noteq> [] then
         observeRevocation launcher input binding eventKey (stop_revocation input binding) update
       else do { r \<leftarrow> update; ret (snd (snd (snd r))) } })"

definition sessionEnd :: "bool \<Rightarrow> hookInput \<Rightarrow> err option pop" where
  "sessionEnd launcher input =
     or_return (reject (TrimSpace (hi_SessionID input) = [] \<or> length (hi_SessionID input) > 1024)
       ''hook input has an invalid session_id'') Some (do {
       binding \<leftarrow> target_binding (hi_SessionID input);
       let eventKey = hookEventKey input (tb_jobID binding);
       let update = observe_update input [] ''hook.session_end'' binding eventKey session_end_rule;
       if tb_found binding \<and> tb_preserveSessionEnd binding then do { r \<leftarrow> update; ret (snd (snd (snd r))) }
       else observeRevocation launcher input binding eventKey ''target_session_ended_before_stop'' update })"

definition Handle :: "(string \<Rightarrow> hookInput body) \<Rightarrow> bool \<Rightarrow> err + string \<Rightarrow> err option pop" where
  "Handle parse launcher source =
     (case decodeHookInput parse source of
        Inl e \<Rightarrow> ret (Some e)
      | Inr input \<Rightarrow>
          if hi_HookEventName input = ''PostToolUse'' then postToolUse input
          else if hi_HookEventName input = ''UserPromptSubmit'' then userPromptSubmit launcher input
          else if hi_HookEventName input = ''Stop'' then hook_stop launcher input
          else if hi_HookEventName input = ''SessionEnd'' then sessionEnd launcher input
          else ret (Some (Err ''unsupported DoneThen hook event %q'')))"

subsection \<open>What every handler keeps\<close>

text \<open>
  A property of a stored job that the rules of the prompt, stop and session end hooks keep is kept
  by their handlers; one that the tool rule keeps as well is kept by every handler.
\<close>

lemma keeps_retry_lock [keeps_rules]: "keeps P op \<Longrightarrow> keeps P (retry_lock error_of op n)"
  by (induction n) (auto intro!: keeps_rules)

lemma keeps_retry [keeps_rules]: "keeps P op \<Longrightarrow> keeps P (retryStateLock error_of op)"
  unfolding retryStateLock_def by (rule keeps_retry_lock)

lemma keeps_target_binding [keeps_rules]: "keeps (holds i K) (target_binding s)"
  unfolding target_binding_def by (intro keeps_rules)

locale kept_by_hooks = kept +
  assumes prompt: "K j \<Longrightarrow> K (prompt_rule input j tgt now)"
    and stop: "K j \<Longrightarrow> K (stop_rule input j tgt now)"
    and session_end: "K j \<Longrightarrow> K (session_end_rule j tgt now)"
    and no_launch: "K j \<Longrightarrow> K (launch_failed b r j)"
begin

lemma keeps_launch [keeps_rules]: "keeps (holds i K) (launch_worker l n m e r)"
  unfolding launch_worker_def by (intro keeps_rules keeps_UpdateJob) (simp_all add: no_launch)

lemma keeps_revocation [keeps_rules]:
  "keeps (holds i K) update \<Longrightarrow> keeps (holds i K) (observeRevocation l input e key r update)"
  unfolding observeRevocation_def by (intro keeps_rules keeps_launch)

lemma keeps_observe_update [keeps_rules]:
  assumes "\<And>j tgt now. K j \<Longrightarrow> K (rule j tgt now)" and "\<And>j tgt now. same_grant j (rule j tgt now)"
  shows "keeps (holds i K) (observe_update input t name b key rule)"
  unfolding observe_update_def retryObservedUpdate_def
  using assms by (intro keeps_retry keeps_observed) (auto simp: keeps_identity_def same_grant_def)

lemma keeps_prompt: "keeps (holds i K) (userPromptSubmit l input)"
  unfolding userPromptSubmit_def
  by (intro keeps_rules keeps_revocation keeps_observe_update prompt prompt_rule_same)

lemma keeps_stop: "keeps (holds i K) (hook_stop l input)"
  unfolding hook_stop_def
  by (intro keeps_rules keeps_revocation keeps_observe_update) (simp_all add: keeps_observe_update stop stop_rule_same)

lemma keeps_session_end: "keeps (holds i K) (sessionEnd l input)"
  unfolding sessionEnd_def
  by (intro keeps_rules keeps_revocation keeps_observe_update) (simp_all add: keeps_observe_update session_end session_end_rule_same)

end

locale kept_by_tools = kept_by_hooks +
  assumes tool: "K j \<Longrightarrow> K (tool_rule name input j now)"
begin

lemma keeps_tools: "keeps (holds i K) (postToolUse input)"
  unfolding postToolUse_def apply_tool_def
  by (intro keeps_rules keeps_BindSession keeps_UpdateJob) (simp_all add: tool)

lemma keeps_Handle: "keeps (holds i K) (Handle parse l source)"
  unfolding Handle_def by (intro keeps_rules keeps_tools keeps_prompt keeps_stop keeps_session_end)

end

subsection \<open>Finished jobs and unresolved power actions under hooks\<close>

lemma barrier_done_finished: "barrier_done j = finished j"
  by (simp add: barrier_done_def finished_def)

lemma rules_finished:
  assumes "finished j"
  shows "prompt_rule input j tgt now = j" and "stop_rule input j tgt now = j" and "session_end_rule j tgt now = j"
    and "tool_rule name input j now = j" and "launch_failed b r j = j"
proof -
  have f: "IsTerminal (State j)" "\<not> HasUnresolvedPowerAction j" "barrier_done j"
    using assms by (simp_all add: finished_def barrier_done_def)
  then show "prompt_rule input j tgt now = j" "stop_rule input j tgt now = j" "session_end_rule j tgt now = j"
    by (simp_all add: prompt_rule_def stop_rule_def session_end_rule_def applyBarrierPrompt_def applyBarrierStop_def
        applyBarrierSessionEnd_def split: option.split)
  show "launch_failed b r j = j"
    using f by (simp add: launch_failed_def)
  have "State j \<noteq> StateReadyPendingStop"
    using f by auto
  then show "tool_rule name input j now = j"
    using f by (simp add: tool_rule_def requestPowerCancellation_def)
qed

interpretation done_hooks: kept_by_tools finished
  by unfold_locales (simp_all add: rules_finished)

lemma barrier_unresolved:
  assumes "HasUnresolvedPowerAction j"
  shows "HasUnresolvedPowerAction (applyBarrierPrompt input j tgt now)"
    and "HasUnresolvedPowerAction (applyBarrierStop input j tgt now)"
    and "HasUnresolvedPowerAction (applyBarrierSessionEnd j tgt)"
  using assms
  by (auto simp: applyBarrierPrompt_def applyBarrierStop_def applyBarrierSessionEnd_def barrier_done_def failOrCancelBarrier_def
      requestPowerCancellation_def barrier_continue_def Let_def split: option.split prod.split bool.split)

interpretation power_hooks: kept_by_hooks HasUnresolvedPowerAction
  by unfold_locales
     (auto simp: prompt_rule_def stop_rule_def session_end_rule_def barrier_unresolved requestPowerCancellation_def
        launch_failed_def)

text \<open>
  C14: No lifecycle hook brings a finished job back. Whatever input a hook process receives, and
  however the system calls, the locks, the cancel worker and the event log behave while it runs,
  a job whose file holds a terminal state with no power action to resolve holds such a state
  when the hook ends, provided that the other processes leave it finished as well.
\<close>

theorem hooks_keep_finished:
  assumes "stable (holds i finished) w" and "holds i finished (disk w)"
  shows "wp (Handle parse launcher source) (\<lambda>_ w'. holds i finished (disk w')) w"
  using keepsD [OF done_hooks.keeps_Handle assms] .

definition cancelled_job :: Job where
  "cancelled_job = sample_job\<lparr>State := StateCancelled\<rparr>"

definition stop_input :: hookInput where
  "stop_input = \<lparr>hi_SessionID = ''session'', hi_TurnID = ''turn'', hi_CWD = ''/work'', hi_HookEventName = ''Stop'',
     hi_ToolName = [], hi_ToolUseID = [], hi_ToolInput = EmptyInput, hi_ToolResponse = EmptyResponse,
     hi_StopHookActive = False\<rparr>"

theorem hooks_keep_finished_witness:
  "wp (Handle (\<lambda>_. Parsed stop_input) True (Inr ''{}''))
     (\<lambda>_ w'. holds (id_of CHR ''a'') finished (disk w')) (quiet_world (put_job cancelled_job empty_disk))"
  by (rule hooks_keep_finished)
     (simp_all add: holds_def cancelled_job_def finished_def HasUnresolvedPowerAction_def)

text \<open>
  C31: The prompt, stop and session end hooks never forget a power action: while an action is recorded
  as intended or scheduled, or orphaned with its recovery data, it stays unresolved through these
  hooks, on every path; they can only ask for its cancellation.
\<close>

theorem hooks_keep_power_action:
  assumes "stable (holds i HasUnresolvedPowerAction) w" and "holds i HasUnresolvedPowerAction (disk w)"
  shows "wp (userPromptSubmit launcher input) (\<lambda>_ w'. holds i HasUnresolvedPowerAction (disk w')) w \<and>
    wp (hook_stop launcher input) (\<lambda>_ w'. holds i HasUnresolvedPowerAction (disk w')) w \<and>
    wp (sessionEnd launcher input) (\<lambda>_ w'. holds i HasUnresolvedPowerAction (disk w')) w"
  using keepsD [OF power_hooks.keeps_prompt assms] keepsD [OF power_hooks.keeps_stop assms]
    keepsD [OF power_hooks.keeps_session_end assms] by blast

definition scheduled_job :: Job where
  "scheduled_job = sample_job\<lparr>State := StateActionIntent, StopTurnID := ''turn'', ActionIntentAt := Some 15,
     PowerCapabilities := Some zero_Capabilities\<rparr>"

lemma scheduled_job_fields [simp]:
  "State scheduled_job = StateActionIntent" "JobID scheduled_job = id_of CHR ''a''" "SessionID scheduled_job = ''session''"
  "TriggerPolicy scheduled_job = TriggerAfterStop" "HasUnresolvedPowerAction scheduled_job" "ExpiresAt scheduled_job = 1000"
  by (simp_all add: scheduled_job_def HasUnresolvedPowerAction_def sample_job_def zero_Job_def)

lemma scheduled_job_valid [simp]: "Validate scheduled_job = None"
proof -
  note v = Validate_NoneD [OF sample_job_valid]
  have "job_binding scheduled_job" "job_evidence scheduled_job"
    using v(3,4) by (simp_all add: job_binding_def job_evidence_def scheduled_job_def sample_job_def zero_Job_def)
  then show ?thesis
    using v by (intro Validate_NoneI) (simp_all add: scheduled_job_def job_clock_def state_known_def)
qed

theorem hooks_keep_power_action_witness:
  "wp (hook_stop False stop_input) (\<lambda>_ w'. holds (id_of CHR ''a'') HasUnresolvedPowerAction (disk w'))
     (quiet_world (put_job scheduled_job empty_disk))"
  using hooks_keep_power_action [of "id_of CHR ''a''" "quiet_world (put_job scheduled_job empty_disk)" False stop_input]
  by (simp add: holds_def)

text \<open>
  C32: The tool hooks do not share this: a \<open>finish\<close> or \<open>pause\<close> hook from the controlling session that
  arrives after the job's expiry moves a job whose power action is recorded or scheduled to
  \<open>EXPIRED\<close>, clears its cancellation request and so forgets the action, although the store's own
  expiry leaves such a job alone.
\<close>

theorem tool_hook_forgets_power_action:
  assumes "HasUnresolvedPowerAction j" and "\<not> IsTerminal (State j)" and "Expired j now" and "tool \<noteq> ''cancel''"
    and "TriggerPolicy j \<noteq> TriggerAfterAllStop" and "SessionID j = hi_SessionID input"
  shows "State (tool_rule tool input j now) = StateExpired \<and> \<not> HasUnresolvedPowerAction (tool_rule tool input j now) \<and>
    \<not> CancelRequested (tool_rule tool input j now) \<and> expire j now = (False, j)"
proof -
  have "tool_rule tool input j now = clearCompletion (goto_state StateExpired ''arm_expired'' j)"
    using assms by (simp add: tool_rule_def IsActive_iff)
  moreover have "expire j now = (False, j)" using expire_settled assms(1) by blast
  ultimately show ?thesis
    by (simp add: goto_state_def HasUnresolvedPowerAction_def) (simp add: clearCompletion_def)
qed

theorem tool_hook_forgets_power_action_witness:
  "Validate scheduled_job = None \<and> HasUnresolvedPowerAction scheduled_job \<and>
     State (tool_rule ''finish'' stop_input scheduled_job 2000) = StateExpired"
  using tool_hook_forgets_power_action [of scheduled_job 2000 "''finish''" stop_input]
  by (simp add: Expired_def IsZero_def stop_input_def)

text \<open>
  The prompt, stop and session end rules never turn a valid job into one the store would refuse to
  write, so no observed event is lost to a failed validation: for an event that reaches a bound
  job (a bound session, or a target of an armed barrier all of whose targets were seen if an
  action is pending), at a time other than zero and a generation below the counter's limit, the
  job that a rule leaves behind validates.
\<close>

theorem rules_keep_jobs_valid:
  assumes "Validate j = None" and "can_bump j" and "now \<noteq> 0" and "hi_TurnID input \<noteq> []"
    and "session_event j \<or> barrier_event j n \<and> tgt = Some n \<and> all_seen_if_unresolved j"
  shows "Validate (prompt_rule input j tgt now) = None \<and> Validate (stop_rule input j tgt now) = None \<and>
    Validate (session_end_rule j tgt now) = None"
proof -
  have j: "sound j" using assms(1) by (simp add: sound_iff)
  show ?thesis
    unfolding sound_iff [symmetric]
  proof (cases "session_event j")
    case True
    then show "sound (prompt_rule input j tgt now) \<and> sound (stop_rule input j tgt now) \<and> sound (session_end_rule j tgt now)"
      using j assms by (simp add: prompt_rule_session_sound stop_rule_session_sound session_end_rule_session_sound)
  next
    case False
    then have b: "barrier_event j n" "tgt = Some n" "all_seen_if_unresolved j" using assms(5) by auto
    then show "sound (prompt_rule input j tgt now) \<and> sound (stop_rule input j tgt now) \<and> sound (session_end_rule j tgt now)"
      using applyBarrierPrompt_sound [OF j assms(2) b(1) assms(3)] applyBarrierStop_sound [OF j assms(2) b(1) assms(3) b(3)]
        applyBarrierSessionEnd_sound [OF j assms(2)]
      by (simp add: prompt_rule_def stop_rule_def session_end_rule_def barrier_event_def)
  qed
qed

theorem rules_keep_jobs_valid_witness:
  "Validate (prompt_rule stop_input sample_job None 20) = None \<and> Validate (stop_rule stop_input sample_barrier (Some 1) 20) = None"
proof -
  have "session_event sample_job" "barrier_event sample_barrier 1" "all_seen_if_unresolved sample_barrier"
    by (simp_all add: session_event_def barrier_event_def all_seen_if_unresolved_def HasUnresolvedPowerAction_def)
       (simp add: sample_barrier_def sample_job_def)
  then show ?thesis
    using rules_keep_jobs_valid [of sample_job 20 stop_input 0 None]
      rules_keep_jobs_valid [of sample_barrier 20 stop_input 1 "Some 1"]
    by (simp add: can_bump_def) (simp add: stop_input_def)
qed

end
