(* ===== verification/Plugin_Recovery.thy ===== *)
theory Plugin_Recovery
  imports Plugin_Observed Go_Keeps Plugin_Examples
begin

text \<open>
  \<open>internal/pluginstate/recovery.go\<close>: the create-once records that survive a crash between the
  intent to power off and the confirmation that the action is inert. The envelope is written
  before any schedule call, the call record is the boundary after which no second call may
  start, the seal keeps the receipt of the backend, the resolution closes the authority. A file
  holds what \<open>encoding/json\<close> reads from it; the program writes a record as one line of JSON.
\<close>

subsection \<open>Files of a job\<close>

definition no_files :: recovery_files where
  "no_files = \<lparr>rf_envelope = None, rf_call = None, rf_receipt = None, rf_resolution = None\<rparr>"

definition rec_files :: "plugin_disk \<Rightarrow> string \<Rightarrow> recovery_files" where
  "rec_files d i = (case map_of (d_recovery d) i of None \<Rightarrow> no_files | Some r \<Rightarrow> r)"

definition change_files :: "string \<Rightarrow> (recovery_files \<Rightarrow> recovery_files) \<Rightarrow> plugin_disk \<Rightarrow> plugin_disk" where
  "change_files i f d = d\<lparr>d_recovery := AList.update i (f (rec_files d i)) (d_recovery d)\<rparr>"

abbreviation set_envelope :: "RecoveryEnvelope node option \<Rightarrow> recovery_files \<Rightarrow> recovery_files" where
  "set_envelope v r \<equiv> r\<lparr>rf_envelope := v\<rparr>"
abbreviation set_call :: "ScheduleCallStarted node option \<Rightarrow> recovery_files \<Rightarrow> recovery_files" where
  "set_call v r \<equiv> r\<lparr>rf_call := v\<rparr>"
abbreviation set_receipt :: "ScheduleReceiptSeal node option \<Rightarrow> recovery_files \<Rightarrow> recovery_files" where
  "set_receipt v r \<equiv> r\<lparr>rf_receipt := v\<rparr>"
abbreviation set_resolution :: "RecoveryResolution node option \<Rightarrow> recovery_files \<Rightarrow> recovery_files" where
  "set_resolution v r \<equiv> r\<lparr>rf_resolution := v\<rparr>"

lemma rec_files_change [simp]: "rec_files (change_files i f d) j = (if j = i then f (rec_files d i) else rec_files d j)"
  by (simp add: rec_files_def change_files_def update_conv')

subsection \<open>Hashes\<close>

definition cancel_result_json :: "CancelResult \<Rightarrow> json" where
  "cancel_result_json r = JObj
     ([(''cancelled'', JBool (cr_Cancelled r)), (''no_action_in_progress'', JBool (cr_NoActionInProgress r)),
       (''scope'', JStr (scope_string (cr_Scope r))), (''result_code'', JInt (cr_ResultCode r))]
      @ omitempty (cr_ResultSummary r = []) ''result_summary'' (JStr (cr_ResultSummary r)))"

definition envelope_json :: "RecoveryEnvelope \<Rightarrow> json" where
  "envelope_json r = JObj
     [(''schema_version'', JStr (re_SchemaVersion r)), (''job_id'', JStr (re_JobID r)),
      (''binding_id'', JStr (re_BindingID r)), (''action'', JStr (re_Action r)),
      (''trigger_policy'', JStr (policy_string (re_TriggerPolicy r))), (''created_at'', JTime (re_CreatedAt r)),
      (''intent_receipt'', receipt_json (re_IntentReceipt r)), (''envelope_hash'', JStr (re_EnvelopeHash r))]"

definition call_json :: "ScheduleCallStarted \<Rightarrow> json" where
  "call_json r = JObj
     [(''schema_version'', JStr (sc_SchemaVersion r)), (''job_id'', JStr (sc_JobID r)),
      (''envelope_hash'', JStr (sc_EnvelopeHash r)), (''started_at'', JTime (sc_StartedAt r)),
      (''call_hash'', JStr (sc_CallHash r))]"

definition seal_json :: "ScheduleReceiptSeal \<Rightarrow> json" where
  "seal_json r = JObj
     [(''schema_version'', JStr (ss_SchemaVersion r)), (''job_id'', JStr (ss_JobID r)),
      (''envelope_hash'', JStr (ss_EnvelopeHash r)), (''call_hash'', JStr (ss_CallHash r)),
      (''sealed_at'', JTime (ss_SealedAt r)), (''receipt'', receipt_json (ss_Receipt r)), (''seal_hash'', JStr (ss_SealHash r))]"

definition resolution_json :: "RecoveryResolution \<Rightarrow> json" where
  "resolution_json r = JObj
     ([(''schema_version'', JStr (rr_SchemaVersion r)), (''job_id'', JStr (rr_JobID r)),
       (''envelope_hash'', JStr (rr_EnvelopeHash r))]
      @ omitempty (rr_CallHash r = []) ''call_hash'' (JStr (rr_CallHash r))
      @ omitempty (rr_ReceiptHash r = []) ''receipt_hash'' (JStr (rr_ReceiptHash r))
      @ [(''outcome'', JStr (rr_Outcome r)), (''reason'', JStr (rr_Reason r)), (''resolved_at'', JTime (rr_ResolvedAt r))]
      @ (case rr_CancelResult r of None \<Rightarrow> [] | Some c \<Rightarrow> [(''cancel_result'', cancel_result_json c)])
      @ [(''resolution_hash'', JStr (rr_ResolutionHash r))])"

definition hashRecoveryRecord :: "string \<Rightarrow> json \<Rightarrow> string" where
  "hashRecoveryRecord domain record =
     (case json_Marshal record of
        None \<Rightarrow> []
      | Some payload \<Rightarrow>
          SHA256 (''donethen:plugin-recovery:'' @ domain @ '':'' @ recoveryRecordSchema @ [CHR 0x00] @ payload))"

definition hashRecoveryEnvelope :: "RecoveryEnvelope \<Rightarrow> string" where
  "hashRecoveryEnvelope r = hashRecoveryRecord ''recovery-envelope'' (envelope_json (r\<lparr>re_EnvelopeHash := []\<rparr>))"

definition hashScheduleCall :: "ScheduleCallStarted \<Rightarrow> string" where
  "hashScheduleCall r = hashRecoveryRecord ''schedule-call-started'' (call_json (r\<lparr>sc_CallHash := []\<rparr>))"

definition hashScheduleReceipt :: "ScheduleReceiptSeal \<Rightarrow> string" where
  "hashScheduleReceipt r = hashRecoveryRecord ''schedule-receipt-seal'' (seal_json (r\<lparr>ss_SealHash := []\<rparr>))"

definition hashRecoveryResolution :: "RecoveryResolution \<Rightarrow> string" where
  "hashRecoveryResolution r = hashRecoveryRecord ''recovery-resolution'' (resolution_json (r\<lparr>rr_ResolutionHash := []\<rparr>))"

subsection \<open>Authority\<close>

record RecoveryAuthority =
  ra_Envelope :: RecoveryEnvelope
  ra_Call :: "ScheduleCallStarted option"
  ra_Receipt :: "ScheduleReceiptSeal option"
  ra_Resolution :: "RecoveryResolution option"

record RecoveryStatus =
  rs_JobID :: string
  rs_Phase :: string
  rs_ReceiptSealed :: bool
  rs_RequiresSettlement :: bool
  rs_RequiresCancellation :: bool
  rs_Resolution :: string
  rs_CancelScope :: string
  rs_CancelCommand :: string
  rs_ReconcileCommand :: string

definition RequiresCancellation :: "RecoveryAuthority \<Rightarrow> bool" where
  "RequiresCancellation a \<longleftrightarrow> ra_Call a \<noteq> None \<and> ra_Resolution a = None"

definition CancellationReceipt :: "RecoveryAuthority \<Rightarrow> Receipt" where
  "CancellationReceipt a = (case ra_Receipt a of Some s \<Rightarrow> ss_Receipt s | None \<Rightarrow> re_IntentReceipt (ra_Envelope a))"

definition recovery_status :: "RecoveryAuthority \<Rightarrow> RecoveryStatus" where
  "recovery_status a =
     \<lparr>rs_JobID = re_JobID (ra_Envelope a),
      rs_Phase = (if ra_Resolution a \<noteq> None then ''RESOLVED''
                  else if ra_Receipt a \<noteq> None then ''SCHEDULE_RECEIPT_SEALED''
                  else if ra_Call a \<noteq> None then ''SCHEDULE_CALL_STARTED_OUTCOME_UNKNOWN''
                  else ''INTENT_PERSISTED_NO_CALL''),
      rs_ReceiptSealed = (ra_Receipt a \<noteq> None), rs_RequiresSettlement = (ra_Resolution a = None),
      rs_RequiresCancellation = RequiresCancellation a,
      rs_Resolution = (case ra_Resolution a of None \<Rightarrow> [] | Some r \<Rightarrow> rr_Outcome r),
      rs_CancelScope = scope_string (rcp_CancelScope (CancellationReceipt a)),
      rs_CancelCommand = ''donethen cancel '' @ re_JobID (ra_Envelope a),
      rs_ReconcileCommand = ''donethen reconcile '' @ re_JobID (ra_Envelope a)\<rparr>"

subsection \<open>Validation\<close>

definition validateRecoveryEnvelope :: "RecoveryEnvelope \<Rightarrow> err option" where
  "validateRecoveryEnvelope r = checks [
     reject (re_SchemaVersion r \<noteq> recoveryRecordSchema \<or> ValidateJobID (re_JobID r) \<noteq> None \<or>
             ValidateJobID (re_BindingID r) \<noteq> None \<or> re_Action r \<noteq> ''shutdown'' \<or> \<not> policy_Valid (re_TriggerPolicy r) \<or>
             IsZero (re_CreatedAt r) \<or> \<not> ValidIdentityHash (re_EnvelopeHash r) \<or>
             hashRecoveryEnvelope r \<noteq> re_EnvelopeHash r) ''invalid recovery envelope'',
     reject (ValidateReceipt (re_IntentReceipt r) \<noteq> None \<or> rcp_JobID (re_IntentReceipt r) \<noteq> re_JobID r \<or>
             rcp_Action (re_IntentReceipt r) \<noteq> re_Action r \<or>
             rcp_BackendVersion (re_IntentReceipt r) \<noteq> ''intent-recovery-v1'' \<or> rcp_ResultCode (re_IntentReceipt r) \<noteq> -1 \<or>
             rcp_RequestedAt (re_IntentReceipt r) \<noteq> re_CreatedAt r \<or> rcp_ScheduledAt (re_IntentReceipt r) \<noteq> re_CreatedAt r)
       ''invalid recovery envelope receipt'']"

definition validateScheduleCall :: "ScheduleCallStarted \<Rightarrow> RecoveryEnvelope \<Rightarrow> err option" where
  "validateScheduleCall r envelope =
     reject (sc_SchemaVersion r \<noteq> recoveryRecordSchema \<or> sc_JobID r \<noteq> re_JobID envelope \<or>
             sc_EnvelopeHash r \<noteq> re_EnvelopeHash envelope \<or> IsZero (sc_StartedAt r) \<or> \<not> ValidIdentityHash (sc_CallHash r) \<or>
             hashScheduleCall r \<noteq> sc_CallHash r) ''invalid schedule-call-start record''"

definition validateScheduleReceipt :: "ScheduleReceiptSeal \<Rightarrow> RecoveryEnvelope \<Rightarrow> ScheduleCallStarted \<Rightarrow> err option" where
  "validateScheduleReceipt r envelope started = checks [
     reject (ss_SchemaVersion r \<noteq> recoveryRecordSchema \<or> ss_JobID r \<noteq> re_JobID envelope \<or>
             ss_EnvelopeHash r \<noteq> re_EnvelopeHash envelope \<or> ss_CallHash r \<noteq> sc_CallHash started \<or> IsZero (ss_SealedAt r) \<or>
             \<not> ValidIdentityHash (ss_SealHash r) \<or> hashScheduleReceipt r \<noteq> ss_SealHash r) ''invalid schedule receipt seal'',
     reject (ValidateReceipt (ss_Receipt r) \<noteq> None \<or> rcp_JobID (ss_Receipt r) \<noteq> ss_JobID r \<or>
             rcp_Action (ss_Receipt r) \<noteq> re_Action envelope) ''invalid sealed schedule receipt'']"

definition validateRecoveryResolution :: "RecoveryResolution \<Rightarrow> RecoveryAuthority \<Rightarrow> err option" where
  "validateRecoveryResolution r a = checks [
     reject (rr_SchemaVersion r \<noteq> recoveryRecordSchema \<or> rr_JobID r \<noteq> re_JobID (ra_Envelope a) \<or>
             rr_EnvelopeHash r \<noteq> re_EnvelopeHash (ra_Envelope a) \<or> IsZero (rr_ResolvedAt r) \<or> TrimSpace (rr_Reason r) = [] \<or>
             \<not> ValidIdentityHash (rr_ResolutionHash r) \<or> hashRecoveryResolution r \<noteq> rr_ResolutionHash r)
       ''invalid recovery resolution'',
     reject (rr_Outcome r \<noteq> ''cancelled'' \<and> rr_Outcome r \<noteq> ''no_action'') ''invalid recovery resolution outcome'',
     (case ra_Call a of
        None \<Rightarrow> reject (rr_CallHash r \<noteq> [] \<or> rr_ReceiptHash r \<noteq> [] \<or> rr_Outcome r \<noteq> ''no_action'' \<or> rr_CancelResult r \<noteq> None)
                  ''pre-call recovery resolution is inconsistent''
      | Some c \<Rightarrow> checks [
          reject (rr_CallHash r \<noteq> sc_CallHash c) ''recovery resolution call binding mismatch'',
          reject (rr_Outcome r \<noteq> ''cancelled'') ''a started schedule call requires positive cancellation evidence'']),
     (case ra_Receipt a of
        None \<Rightarrow> reject (rr_ReceiptHash r \<noteq> []) ''recovery resolution unexpectedly binds a receipt''
      | Some s \<Rightarrow> reject (rr_ReceiptHash r \<noteq> ss_SealHash s) ''recovery resolution receipt binding mismatch''),
     (if rr_Outcome r = ''cancelled'' then
        (case rr_CancelResult r of
           None \<Rightarrow> Some (Err ''cancelled recovery resolution lacks positive inert evidence'')
         | Some c \<Rightarrow> reject (\<not> cr_Cancelled c \<and> \<not> cr_NoActionInProgress c \<or>
                             cr_Scope c \<noteq> rcp_CancelScope (CancellationReceipt a))
                       ''cancelled recovery resolution lacks positive inert evidence'')
      else reject (rr_CancelResult r \<noteq> None) ''non-cancel recovery resolution unexpectedly contains a cancel result'')]"

subsection \<open>Reading and writing records\<close>

definition readRecoveryRecord :: "'a node option \<Rightarrow> err + 'a" where
  "readRecoveryRecord f =
     (case OpenOwnerControlled f of
        Inl e \<Rightarrow> Inl e
      | Inr Oversized \<Rightarrow> Inl (Err ''plugin recovery record has an invalid size'')
      | Inr Undecodable \<Rightarrow> Inl (Wrap ''decode recovery record: %w'' (Err ''unexpected EOF''))
      | Inr Trailing \<Rightarrow> Inl (Err ''recovery record contains trailing data'')
      | Inr (Parsed r) \<Rightarrow> Inr r)"

text \<open>
  One of the four files is given by its accessors \<open>get\<close> and \<open>put\<close> and the encoding of its record. An
  existing file is compared with the new content; an unparsable one differs from it. A new file
  is empty (an invalid size) until it is written.
\<close>

definition writeRecoveryCreateOnce ::
    "(recovery_files \<Rightarrow> 'a node option) \<Rightarrow> ('a node option \<Rightarrow> recovery_files \<Rightarrow> recovery_files) \<Rightarrow> ('a \<Rightarrow> json) \<Rightarrow>
     string \<Rightarrow> 'a \<Rightarrow> err option pop" where
  "writeRecoveryCreateOnce get put enc jobID record =
     (case json_Marshal (enc record) of
        None \<Rightarrow> ret (Some (Err ''json: unsupported value''))
      | Some payload \<Rightarrow> do {
          r \<leftarrow> calls [''create %s: %w'', ''secure %s: %w'', ''inspect %s: %w'', ''%s must be owner controlled: %w'',
            ''create recovery record: %w''];
          or_return r Some (do {
            d \<leftarrow> observe;
            case get (rec_files d jobID) of
              Some f \<Rightarrow>
                ret (case OpenOwnerControlled (Some f) of
                       Inl e \<Rightarrow> Some e
                     | Inr Oversized \<Rightarrow> Some (Err ''plugin recovery record has an invalid size'')
                     | Inr (Parsed existing) \<Rightarrow>
                         reject (json_Marshal (enc existing) \<noteq> Some payload) ''recovery record already exists with different content''
                     | Inr _ \<Rightarrow> Some (Err ''recovery record already exists with different content''))
            | None \<Rightarrow>
                create_new_file [''secure recovery record: %w'', ''write recovery record: %w'']
                  [''flush recovery record: %w'', ''close recovery record: %w'']
                  (change_files jobID (put (Some (File Oversized)))) (change_files jobID (put (Some (File (Parsed record)))))
                  (change_files jobID (put None)) }) })"

abbreviation write_envelope where "write_envelope \<equiv> writeRecoveryCreateOnce rf_envelope set_envelope envelope_json"
abbreviation write_call where "write_call \<equiv> writeRecoveryCreateOnce rf_call set_call call_json"
abbreviation write_seal where "write_seal \<equiv> writeRecoveryCreateOnce rf_receipt set_receipt seal_json"
abbreviation write_resolution where "write_resolution \<equiv> writeRecoveryCreateOnce rf_resolution set_resolution resolution_json"

subsection \<open>Loading\<close>

text \<open>A record that may be absent: read without a lock, so the other processes run before each read.\<close>

definition read_optional :: "(recovery_files \<Rightarrow> 'a node option) \<Rightarrow> string \<Rightarrow> (err + 'a option) pop" where
  "read_optional get jobID = do {
     d \<leftarrow> observe;
     ret (case readRecoveryRecord (get (rec_files d jobID)) of
            Inr r \<Rightarrow> Inr (Some r)
          | Inl e \<Rightarrow> if errors_Is e ErrNotExist then Inr None else Inl e) }"

definition with_call :: "RecoveryEnvelope \<Rightarrow> ScheduleCallStarted option \<Rightarrow> err + RecoveryAuthority" where
  "with_call envelope started =
     (case started of
        None \<Rightarrow> Inr \<lparr>ra_Envelope = envelope, ra_Call = None, ra_Receipt = None, ra_Resolution = None\<rparr>
      | Some c \<Rightarrow>
          (case validateScheduleCall c envelope of
             Some e \<Rightarrow> Inl e
           | None \<Rightarrow> Inr \<lparr>ra_Envelope = envelope, ra_Call = Some c, ra_Receipt = None, ra_Resolution = None\<rparr>))"

definition with_receipt :: "RecoveryAuthority \<Rightarrow> ScheduleReceiptSeal option \<Rightarrow> err + RecoveryAuthority" where
  "with_receipt a sealed =
     (case sealed of
        None \<Rightarrow> Inr a
      | Some s \<Rightarrow>
          (case ra_Call a of
             None \<Rightarrow> Inl (Err ''schedule receipt exists without a call-start record'')
           | Some c \<Rightarrow>
               (case validateScheduleReceipt s (ra_Envelope a) c of
                  Some e \<Rightarrow> Inl e | None \<Rightarrow> Inr (a\<lparr>ra_Receipt := Some s\<rparr>))))"

definition with_resolution :: "RecoveryAuthority \<Rightarrow> RecoveryResolution option \<Rightarrow> err + RecoveryAuthority" where
  "with_resolution a resolution =
     (case resolution of
        None \<Rightarrow> Inr a
      | Some r \<Rightarrow> (case validateRecoveryResolution r a of Some e \<Rightarrow> Inl e | None \<Rightarrow> Inr (a\<lparr>ra_Resolution := Some r\<rparr>)))"

definition LoadRecoveryAuthority :: "string \<Rightarrow> (err + RecoveryAuthority) pop" where
  "LoadRecoveryAuthority jobID =
     or_return (ValidateJobID jobID) Inl (do {
       d \<leftarrow> observe;
       case readRecoveryRecord (rf_envelope (rec_files d jobID)) of
         Inl e \<Rightarrow> ret (Inl e)
       | Inr envelope \<Rightarrow>
           or_return (validateRecoveryEnvelope envelope) Inl (do {
             started \<leftarrow> read_optional rf_call jobID;
             case Sum_Type.map_sum id (with_call envelope) started of
               Inl e \<Rightarrow> ret (Inl e)
             | Inr (Inl e) \<Rightarrow> ret (Inl e)
             | Inr (Inr a) \<Rightarrow> do {
                 sealed \<leftarrow> read_optional rf_receipt jobID;
                 case Sum_Type.map_sum id (with_receipt a) sealed of
                   Inl e \<Rightarrow> ret (Inl e)
                 | Inr (Inl e) \<Rightarrow> ret (Inl e)
                 | Inr (Inr a) \<Rightarrow> do {
                     resolution \<leftarrow> read_optional rf_resolution jobID;
                     ret (case resolution of Inl e \<Rightarrow> Inl e | Inr r \<Rightarrow> with_resolution a r) } } }) })"

subsection \<open>Persisting\<close>

text \<open>The record with its own hash, and a write whose error is returned.\<close>

definition created :: "'a \<Rightarrow> err option \<Rightarrow> err + 'a" where
  "created record e = (case e of Some x \<Rightarrow> Inl x | None \<Rightarrow> Inr record)"

definition new_envelope :: "Job \<Rightarrow> Receipt \<Rightarrow> time \<Rightarrow> RecoveryEnvelope" where
  "new_envelope job receipt createdAt =
     (let record = \<lparr>re_SchemaVersion = recoveryRecordSchema, re_JobID = JobID job, re_BindingID = ObservedBindingID job,
            re_Action = Action job, re_TriggerPolicy = TriggerPolicy job, re_CreatedAt = createdAt,
            re_IntentReceipt = receipt, re_EnvelopeHash = []\<rparr>
      in record\<lparr>re_EnvelopeHash := hashRecoveryEnvelope record\<rparr>)"

definition PersistRecoveryEnvelope :: "Job \<Rightarrow> Receipt \<Rightarrow> time \<Rightarrow> (err + RecoveryEnvelope) pop" where
  "PersistRecoveryEnvelope job receipt createdAt =
     or_return (Validate job) Inl
       (if DryRun job \<or> State job \<noteq> StateStopObserved then
          ret (Inl (Err ''recovery envelope requires an executable stop-observed job''))
        else if ValidateReceipt receipt \<noteq> None \<or> rcp_JobID receipt \<noteq> JobID job \<or> rcp_Action receipt \<noteq> Action job then
          ret (Inl (Err ''recovery envelope receipt does not match the job''))
        else
          or_return (validateRecoveryEnvelope (new_envelope job receipt createdAt)) Inl (do {
            e \<leftarrow> write_envelope (JobID job) (new_envelope job receipt createdAt);
            ret (created (new_envelope job receipt createdAt) e) }))"

definition new_call :: "string \<Rightarrow> string \<Rightarrow> time \<Rightarrow> ScheduleCallStarted" where
  "new_call jobID envelopeHash startedAt =
     (let record = \<lparr>sc_SchemaVersion = recoveryRecordSchema, sc_JobID = jobID, sc_EnvelopeHash = envelopeHash,
            sc_StartedAt = startedAt, sc_CallHash = []\<rparr>
      in record\<lparr>sc_CallHash := hashScheduleCall record\<rparr>)"

definition PersistScheduleCallStarted :: "string \<Rightarrow> string \<Rightarrow> time \<Rightarrow> (err + ScheduleCallStarted) pop" where
  "PersistScheduleCallStarted jobID envelopeHash startedAt =
     (if ValidateJobID jobID \<noteq> None \<or> \<not> ValidIdentityHash envelopeHash \<or> IsZero startedAt then
        ret (Inl (Err ''invalid schedule-call-start record''))
      else do {
        loaded \<leftarrow> LoadRecoveryAuthority jobID;
        case loaded of
          Inl e \<Rightarrow> ret (Inl e)
        | Inr authority \<Rightarrow>
            if re_EnvelopeHash (ra_Envelope authority) \<noteq> envelopeHash then
              ret (Inl (Err ''schedule-call-start envelope mismatch''))
            else if ra_Resolution authority \<noteq> None then
              ret (Inl (Err ''resolved recovery authority cannot start a schedule call''))
            else if ra_Call authority \<noteq> None then
              ret (Inl (Err ''schedule call has already crossed the no-retry boundary''))
            else
              or_return (validateScheduleCall (new_call jobID envelopeHash startedAt) (ra_Envelope authority)) Inl (do {
                e \<leftarrow> write_call jobID (new_call jobID envelopeHash startedAt);
                ret (created (new_call jobID envelopeHash startedAt) e) }) })"

definition new_seal :: "string \<Rightarrow> string \<Rightarrow> string \<Rightarrow> Receipt \<Rightarrow> time \<Rightarrow> ScheduleReceiptSeal" where
  "new_seal jobID envelopeHash callHash receipt sealedAt =
     (let record = \<lparr>ss_SchemaVersion = recoveryRecordSchema, ss_JobID = jobID, ss_EnvelopeHash = envelopeHash,
            ss_CallHash = callHash, ss_SealedAt = sealedAt, ss_Receipt = receipt, ss_SealHash = []\<rparr>
      in record\<lparr>ss_SealHash := hashScheduleReceipt record\<rparr>)"

definition PersistScheduleReceipt ::
    "string \<Rightarrow> string \<Rightarrow> string \<Rightarrow> Receipt \<Rightarrow> time \<Rightarrow> (err + ScheduleReceiptSeal) pop" where
  "PersistScheduleReceipt jobID envelopeHash callHash receipt sealedAt =
     (if ValidateJobID jobID \<noteq> None \<or> \<not> ValidIdentityHash envelopeHash \<or> \<not> ValidIdentityHash callHash \<or> IsZero sealedAt then
        ret (Inl (Err ''invalid schedule receipt seal identity''))
      else if ValidateReceipt receipt \<noteq> None \<or> rcp_JobID receipt \<noteq> jobID then
        ret (Inl (Err ''invalid schedule receipt seal receipt''))
      else do {
        loaded \<leftarrow> LoadRecoveryAuthority jobID;
        case loaded of
          Inl e \<Rightarrow> ret (Inl e)
        | Inr authority \<Rightarrow>
            (case ra_Call authority of
               None \<Rightarrow> ret (Inl (Err ''schedule receipt does not match unresolved call authority''))
             | Some started \<Rightarrow>
                 if ra_Resolution authority \<noteq> None \<or> re_EnvelopeHash (ra_Envelope authority) \<noteq> envelopeHash \<or>
                    sc_CallHash started \<noteq> callHash then
                   ret (Inl (Err ''schedule receipt does not match unresolved call authority''))
                 else
                   or_return (validateScheduleReceipt (new_seal jobID envelopeHash callHash receipt sealedAt)
                                (ra_Envelope authority) started) Inl (do {
                     e \<leftarrow> write_seal jobID (new_seal jobID envelopeHash callHash receipt sealedAt);
                     ret (created (new_seal jobID envelopeHash callHash receipt sealedAt) e) })) })"

definition new_resolution ::
    "string \<Rightarrow> RecoveryAuthority \<Rightarrow> string \<Rightarrow> string \<Rightarrow> CancelResult option \<Rightarrow> time \<Rightarrow> RecoveryResolution" where
  "new_resolution jobID authority outcome reason result resolvedAt =
     (let record = \<lparr>rr_SchemaVersion = recoveryRecordSchema, rr_JobID = jobID,
            rr_EnvelopeHash = re_EnvelopeHash (ra_Envelope authority),
            rr_CallHash = (case ra_Call authority of None \<Rightarrow> [] | Some c \<Rightarrow> sc_CallHash c),
            rr_ReceiptHash = (case ra_Receipt authority of None \<Rightarrow> [] | Some s \<Rightarrow> ss_SealHash s),
            rr_Outcome = outcome, rr_Reason = reason, rr_ResolvedAt = resolvedAt, rr_CancelResult = result,
            rr_ResolutionHash = []\<rparr>
      in record\<lparr>rr_ResolutionHash := hashRecoveryResolution record\<rparr>)"

definition PersistRecoveryResolution ::
    "string \<Rightarrow> string \<Rightarrow> string \<Rightarrow> CancelResult option \<Rightarrow> time \<Rightarrow> (err + RecoveryResolution) pop" where
  "PersistRecoveryResolution jobID outcome reason result resolvedAt = do {
     loaded \<leftarrow> LoadRecoveryAuthority jobID;
     case loaded of
       Inl e \<Rightarrow> ret (Inl e)
     | Inr authority \<Rightarrow>
         (case ra_Resolution authority of
            Some r \<Rightarrow> ret (Inr r)
          | None \<Rightarrow>
              if outcome \<noteq> ''cancelled'' \<and> outcome \<noteq> ''no_action'' then
                ret (Inl (Err ''invalid recovery resolution outcome''))
              else if TrimSpace reason = [] \<or> length reason > 256 \<or> IsZero resolvedAt then
                ret (Inl (Err ''invalid recovery resolution reason''))
              else
                or_return (validateRecoveryResolution (new_resolution jobID authority outcome reason result resolvedAt)
                             authority) Inl (do {
                  e \<leftarrow> write_resolution jobID (new_resolution jobID authority outcome reason result resolvedAt);
                  ret (created (new_resolution jobID authority outcome reason result resolvedAt) e) })) }"

end
