(* ===== verification/Go_Live.thy ===== *)
theory Go_Live
  imports Go_World
begin

text \<open>
  Progress. In a world where no system call fails and no other process acts, every call goes its
  successful way. The rules of \<open>live_calls\<close> follow that way only, so that a program can be shown
  to succeed, not just to be right when it does.
\<close>

definition calm :: "'d world \<Rightarrow> bool" where
  "calm w \<longleftrightarrow> (\<forall>k. io w k = None) \<and> (\<forall>k d. others w k d = d)"

lemma calm_at [simp]: "calm (at w d n) = calm w"
  by (simp add: calm_def)

lemma calm_evolves: "evolves w w' \<Longrightarrow> calm w' = calm w"
  by (simp add: calm_def evolves_def)

named_theorems live_calls

lemma live_call [live_calls]: "calm w \<Longrightarrow> (\<And>n. Q None (at w (disk w) n)) \<Longrightarrow> wp call Q w"
  by (simp add: call_def calm_def)

lemma live_sync [live_calls]: "calm w \<Longrightarrow> (\<And>n. Q () (at w (disk w) n)) \<Longrightarrow> wp sync Q w"
  by (simp add: sync_def calm_def)

lemma live_observe [live_calls]: "calm w \<Longrightarrow> (\<And>n. Q (disk w) (at w (disk w) n)) \<Longrightarrow> wp observe Q w"
  by (simp add: observe_def sync_def calm_def)

lemma live_calls_seq [live_calls]: "calm w \<Longrightarrow> (\<And>n. Q None (at w (disk w) n)) \<Longrightarrow> wp (calls ms) Q w"
proof (induction ms arbitrary: w)
  case Nil
  from Nil(2) [of "tick w"] show ?case by simp
next
  case (Cons m ms)
  have "wp (calls ms) Q (at w (disk w) n)" for n
    by (rule Cons.IH) (simp_all add: Cons.prems)
  then show ?case
    by (auto intro!: live_call Cons.prems)
qed

lemma live_acquire [live_calls]: "calm w \<Longrightarrow> (\<And>n. Q None (at w (disk w) n)) \<Longrightarrow> wp (acquireStateLock t) Q w"
  unfolding acquireStateLock_def wp_bind
  by (intro live_calls_seq) (auto intro!: wp_time_Now live_call live_sync)

lemma live_atomic [live_calls]: "calm w \<Longrightarrow> (\<And>n. Q None (at w (put (disk w)) n)) \<Longrightarrow> wp (AtomicWriteJSON put) Q w"
  unfolding AtomicWriteJSON_def wp_bind
  by (intro live_calls_seq) (auto simp del: calls.simps intro!: live_calls_seq)

lemma live_create [live_calls]:
  "calm w \<Longrightarrow> (\<And>n. Q None (at w (full (blank (disk w))) n)) \<Longrightarrow> wp (create_new_file before after blank full gone) Q w"
  unfolding create_new_file_def wp_bind wp_case_option
  by (auto simp del: calls.simps intro!: live_calls_seq)

end
