(* ===== verification/Recovery_Laws.thy ===== *)
theory Recovery_Laws
  imports Plugin_Recovery Go_Live
begin

text \<open>
  What the recovery records promise. A record is written at most once and never changes; an
  authority that is loaded is a consistent chain of records; once a schedule call has started it
  can only be closed by positive evidence that the action is inert; and there is no second call.
\<close>

subsection \<open>Slots\<close>

text \<open>One of the four files of a job, as the laws of its accessors.\<close>

locale slot =
  fixes get :: "recovery_files \<Rightarrow> 'a node option"
    and put :: "'a node option \<Rightarrow> recovery_files \<Rightarrow> recovery_files"
  assumes get_put [simp]: "get (put v r) = v"
    and put_put [simp]: "put v (put v' r) = put v r"
    and put_get: "put (get r) r = r"
begin

lemma write_once:
  "wp (writeRecoveryCreateOnce get put enc i x) (\<lambda>e w'. case e of Some _ \<Rightarrow> True
     | None \<Rightarrow> \<exists>y. get (rec_files (disk w') i) = Some (File (Parsed y)) \<and> json_Marshal (enc y) = json_Marshal (enc x)) w"
  unfolding writeRecoveryCreateOnce_def
  by (cases "json_Marshal (enc x)")
     (auto simp: wp_case_option reject_def simp del: calls.simps split: option.split sum.splits body.splits
       intro!: wp_calls_seq wp_observe wp_create_new_file)

text \<open>The program never changes a record that exists.\<close>

lemma keeps_own: "keeps (\<lambda>d. get (rec_files d i) = Some v) (writeRecoveryCreateOnce get put enc j x)"
  unfolding writeRecoveryCreateOnce_def
  by (intro keeps_rules) auto

lemma keeps_own_present: "keeps (\<lambda>d. get (rec_files d i) \<noteq> None) (writeRecoveryCreateOnce get put enc j x)"
  unfolding writeRecoveryCreateOnce_def
  by (intro keeps_rules) auto

end

locale two_slots = slot get put for get put +
  fixes other :: "recovery_files \<Rightarrow> 'b node option"
  assumes other_put [simp]: "other (put v r) = other r"
begin

lemma keeps_other_present: "keeps (\<lambda>d. other (rec_files d i) \<noteq> None) (writeRecoveryCreateOnce get put enc j x)"
  unfolding writeRecoveryCreateOnce_def
  by (intro keeps_rules) auto

lemma keeps_other: "keeps (\<lambda>d. other (rec_files d i) = Some v) (writeRecoveryCreateOnce get put enc j x)"
  unfolding writeRecoveryCreateOnce_def
  by (intro keeps_rules) auto

end

interpretation envelope_file: slot rf_envelope set_envelope by unfold_locales auto
interpretation call_file: slot rf_call set_call by unfold_locales auto
interpretation seal_file: slot rf_receipt set_receipt by unfold_locales auto
interpretation resolution_file: slot rf_resolution set_resolution by unfold_locales auto


text \<open>Every pair of different files, so that a write to one leaves the others alone.\<close>

interpretation envelope_call: two_slots rf_envelope set_envelope rf_call by unfold_locales auto
interpretation envelope_seal: two_slots rf_envelope set_envelope rf_receipt by unfold_locales auto
interpretation envelope_resolution: two_slots rf_envelope set_envelope rf_resolution by unfold_locales auto
interpretation call_envelope: two_slots rf_call set_call rf_envelope by unfold_locales auto
interpretation call_seal: two_slots rf_call set_call rf_receipt by unfold_locales auto
interpretation call_resolution: two_slots rf_call set_call rf_resolution by unfold_locales auto
interpretation seal_envelope: two_slots rf_receipt set_receipt rf_envelope by unfold_locales auto
interpretation seal_call: two_slots rf_receipt set_receipt rf_call by unfold_locales auto
interpretation seal_resolution: two_slots rf_receipt set_receipt rf_resolution by unfold_locales auto
interpretation resolution_envelope: two_slots rf_resolution set_resolution rf_envelope by unfold_locales auto
interpretation resolution_call: two_slots rf_resolution set_resolution rf_call by unfold_locales auto
interpretation resolution_seal: two_slots rf_resolution set_resolution rf_receipt by unfold_locales auto

lemmas keeps_slots [keeps_rules] =
  envelope_file.keeps_own call_file.keeps_own seal_file.keeps_own resolution_file.keeps_own
  envelope_call.keeps_other envelope_seal.keeps_other envelope_resolution.keeps_other
  call_envelope.keeps_other call_seal.keeps_other call_resolution.keeps_other
  seal_envelope.keeps_other seal_call.keeps_other seal_resolution.keeps_other
  resolution_envelope.keeps_other resolution_call.keeps_other resolution_seal.keeps_other

lemma keeps_load [keeps_rules]: "keeps P (LoadRecoveryAuthority i)"
  unfolding LoadRecoveryAuthority_def read_optional_def by (intro keeps_rules)

text \<open>
  A program keeps the four records of a job: none that exists is changed or removed.
\<close>

definition keeps_records :: "(pworld, 'a) state \<Rightarrow> bool" where
  "keeps_records m \<longleftrightarrow>
     (\<forall>i v. keeps (\<lambda>d. rf_envelope (rec_files d i) = Some v) m) \<and>
     (\<forall>i v. keeps (\<lambda>d. rf_call (rec_files d i) = Some v) m) \<and>
     (\<forall>i v. keeps (\<lambda>d. rf_receipt (rec_files d i) = Some v) m) \<and>
     (\<forall>i v. keeps (\<lambda>d. rf_resolution (rec_files d i) = Some v) m)"

lemma persist_keeps_records:
  "keeps_records (PersistRecoveryEnvelope job r t)" "keeps_records (PersistScheduleCallStarted i h t)"
  "keeps_records (PersistScheduleReceipt i h c r t)" "keeps_records (PersistRecoveryResolution i out why res t)"
  unfolding keeps_records_def PersistRecoveryEnvelope_def PersistScheduleCallStarted_def PersistScheduleReceipt_def
    PersistRecoveryResolution_def
  by (intro conjI allI keeps_rules)+


subsection \<open>Consistency of a loaded authority\<close>

text \<open>
  The chain of records: every record names the envelope by its hash, which is the hash of the
  envelope's content; the seal follows a call and names it; a resolution closes what is there.
\<close>

definition envelope_ok :: "RecoveryEnvelope \<Rightarrow> bool" where
  "envelope_ok r \<longleftrightarrow> re_EnvelopeHash r = hashRecoveryEnvelope r \<and> ValidateJobID (re_JobID r) = None \<and> re_Action r = ''shutdown'' \<and>
     ValidateReceipt (re_IntentReceipt r) = None \<and> rcp_JobID (re_IntentReceipt r) = re_JobID r \<and>
     rcp_BackendVersion (re_IntentReceipt r) = ''intent-recovery-v1'' \<and> rcp_ResultCode (re_IntentReceipt r) = -1"

definition call_ok :: "RecoveryEnvelope \<Rightarrow> ScheduleCallStarted \<Rightarrow> bool" where
  "call_ok e c \<longleftrightarrow> sc_EnvelopeHash c = re_EnvelopeHash e \<and> sc_JobID c = re_JobID e \<and> sc_CallHash c = hashScheduleCall c \<and> sc_StartedAt c \<noteq> 0"

definition seal_ok :: "RecoveryEnvelope \<Rightarrow> ScheduleCallStarted \<Rightarrow> ScheduleReceiptSeal \<Rightarrow> bool" where
  "seal_ok e c s \<longleftrightarrow> ss_EnvelopeHash s = re_EnvelopeHash e \<and> ss_CallHash s = sc_CallHash c \<and> ss_SealHash s = hashScheduleReceipt s \<and>
     ss_JobID s = re_JobID e \<and> ValidateReceipt (ss_Receipt s) = None \<and> rcp_JobID (ss_Receipt s) = re_JobID e"

definition inert_evidence :: "CancelScope \<Rightarrow> CancelResult option \<Rightarrow> bool" where
  "inert_evidence scope result =
     (case result of None \<Rightarrow> False | Some c \<Rightarrow> (cr_Cancelled c \<or> cr_NoActionInProgress c) \<and> cr_Scope c = scope)"

definition resolution_ok :: "RecoveryAuthority \<Rightarrow> RecoveryResolution \<Rightarrow> bool" where
  "resolution_ok a r \<longleftrightarrow> rr_EnvelopeHash r = re_EnvelopeHash (ra_Envelope a) \<and> rr_JobID r = re_JobID (ra_Envelope a) \<and>
     rr_ResolutionHash r = hashRecoveryResolution r \<and>
     (case ra_Call a of
        None \<Rightarrow> rr_Outcome r = ''no_action'' \<and> rr_CallHash r = [] \<and> rr_CancelResult r = None
      | Some c \<Rightarrow> rr_Outcome r = ''cancelled'' \<and> rr_CallHash r = sc_CallHash c \<and>
          inert_evidence (rcp_CancelScope (CancellationReceipt a)) (rr_CancelResult r))"

definition authority_ok :: "RecoveryAuthority \<Rightarrow> bool" where
  "authority_ok a \<longleftrightarrow> envelope_ok (ra_Envelope a) \<and>
     (case ra_Call a of
        None \<Rightarrow> ra_Receipt a = None
      | Some c \<Rightarrow> call_ok (ra_Envelope a) c \<and> (case ra_Receipt a of None \<Rightarrow> True | Some s \<Rightarrow> seal_ok (ra_Envelope a) c s)) \<and>
     (case ra_Resolution a of None \<Rightarrow> True | Some r \<Rightarrow> resolution_ok a r)"

lemma validated:
  "validateRecoveryEnvelope e = None \<Longrightarrow> envelope_ok e"
  "validateScheduleCall c e = None \<Longrightarrow> call_ok e c"
  "validateScheduleReceipt s e c = None \<Longrightarrow> seal_ok e c s"
  by (auto simp: validateRecoveryEnvelope_def validateScheduleCall_def validateScheduleReceipt_def envelope_ok_def call_ok_def
      seal_ok_def IsZero_def)

lemma validated_resolution: "validateRecoveryResolution r a = None \<Longrightarrow> resolution_ok a r"
  by (cases "ra_Call a"; cases "rr_CancelResult r")
     (auto simp: validateRecoveryResolution_def resolution_ok_def inert_evidence_def go_simps)

lemma resolution_ok_upd [simp]: "resolution_ok (a\<lparr>ra_Resolution := x\<rparr>) r = resolution_ok a r"
  by (simp add: resolution_ok_def CancellationReceipt_def split: option.split)

lemma with_steps:
  "validateRecoveryEnvelope e = None \<Longrightarrow> with_call e c = Inr a \<Longrightarrow> authority_ok a \<and> ra_Resolution a = None"
  "authority_ok a \<Longrightarrow> ra_Resolution a = None \<Longrightarrow> with_receipt a s = Inr a' \<Longrightarrow> authority_ok a' \<and> ra_Resolution a' = None"
  "authority_ok a \<Longrightarrow> with_resolution a r = Inr a' \<Longrightarrow> authority_ok a'"
  by (auto simp: with_call_def with_receipt_def with_resolution_def authority_ok_def
      split: option.splits dest!: validated validated_resolution)

lemma map_sum_Inr: "Sum_Type.map_sum id f x = Inr y \<longleftrightarrow> (\<exists>z. x = Inr z \<and> y = f z)"
  by (cases x) auto

lemma map_sum_Inl: "Sum_Type.map_sum id f x = Inl e \<longleftrightarrow> x = Inl e"
  by (cases x) auto

text \<open>What an optional read reports of the disk it sees; damaged files are errors.\<close>

definition read_as :: "(recovery_files \<Rightarrow> 'a node option) \<Rightarrow> string \<Rightarrow> plugin_disk \<Rightarrow> 'a option \<Rightarrow> bool" where
  "read_as get i d r \<longleftrightarrow> get (rec_files d i) = map_option (\<lambda>x. File (Parsed x)) r"

lemma readRecoveryRecord_Inr: "readRecoveryRecord f = Inr x \<longleftrightarrow> f = Some (File (Parsed x))"
  by (auto simp: readRecoveryRecord_def split: sum.splits body.splits)

lemma readRecoveryRecord_absent: "readRecoveryRecord f = Inl e \<Longrightarrow> errors_Is e ErrNotExist \<Longrightarrow> f = None"
  by (auto simp: readRecoveryRecord_def split: sum.splits body.splits)

lemma wp_read_optional:
  assumes "\<And>k n e. Q (Inl e) (at w (others w k (disk w)) n)"
    and "\<And>k n r. read_as get i (others w k (disk w)) r \<Longrightarrow> Q (Inr r) (at w (others w k (disk w)) n)"
  shows "wp (read_optional get i) Q w"
  unfolding read_optional_def wp_bind wp_return
  by (rule wp_observe)
     (auto simp: read_as_def readRecoveryRecord_Inr assms dest!: readRecoveryRecord_absent split: sum.split)

lemma wp_Load:
  assumes err: "\<And>e d n. Q (Inl e) (at w d n)"
    and ok: "\<And>env c s r k1 k2 k3 k4 a1 a2 a3 n. \<lbrakk>validateRecoveryEnvelope env = None;
       rf_envelope (rec_files (others w k1 (disk w)) i) = Some (File (Parsed env));
       read_as rf_call i (others w k2 (others w k1 (disk w))) c; with_call env c = Inr a1;
       read_as rf_receipt i (others w k3 (others w k2 (others w k1 (disk w)))) s; with_receipt a1 s = Inr a2;
       read_as rf_resolution i (others w k4 (others w k3 (others w k2 (others w k1 (disk w))))) r;
       with_resolution a2 r = Inr a3\<rbrakk> \<Longrightarrow>
       Q (Inr a3) (at w (others w k4 (others w k3 (others w k2 (others w k1 (disk w))))) n)"
  shows "wp (LoadRecoveryAuthority i) Q w"
proof -
  have same: "Q (Inl e) w" for e using err [of e "disk w" "tick w"] by simp
  have last: "Q (with_resolution a r) (at w d n)"
    if "\<And>a'. with_resolution a r = Inr a' \<Longrightarrow> Q (Inr a') (at w d n)" for a r d n
    using that by (cases "with_resolution a r") (simp_all add: err)
  show ?thesis
    unfolding LoadRecoveryAuthority_def
    by (intro wp_intros wp_observe wp_read_optional)
       (auto simp: err same map_sum_Inr readRecoveryRecord_Inr intro: ok last)
qed

subsection \<open>Properties\<close>

text \<open>
  C26: A recovery authority that is loaded is consistent, whatever is on disk: every record is bound to
  the envelope by its hash and carries its own hash; a sealed receipt exists only after a call; and an
  authority is resolved either because no call ever started, or by a cancellation result that
  confirms, for the scope of the receipt to be cancelled, that the action is inert.
\<close>

theorem load_authority_consistent:
  "wp (LoadRecoveryAuthority i) (\<lambda>r w'. case r of Inl _ \<Rightarrow> True | Inr a \<Rightarrow> authority_ok a) w"
proof (rule wp_Load, goal_cases)
  case (2 env c s r k1 k2 k3 k4 a1 a2 a3 n)
  then show ?case
    using with_steps(1) [OF 2(1,4)] with_steps(2) [OF _ _ 2(6)] with_steps(3) [OF _ 2(8)] by simp
qed simp

text \<open>
  C34: The recovery records are immutable: none of the operations that persist one changes or removes a
  record that exists, of this or of another job, on any path, failed writes included.
\<close>

theorem records_immutable:
  "keeps_records (PersistRecoveryEnvelope job r t) \<and> keeps_records (PersistScheduleCallStarted i h t) \<and>
   keeps_records (PersistScheduleReceipt i h c r t) \<and> keeps_records (PersistRecoveryResolution i out why res t)"
  by (simp add: persist_keeps_records)

text \<open>A started call, which the other processes keep.\<close>

definition call_recorded :: "string \<Rightarrow> plugin_disk \<Rightarrow> bool" where
  "call_recorded i d \<longleftrightarrow> rf_call (rec_files d i) \<noteq> None"

lemma keeps_call_recorded [keeps_rules]:
  "keeps (call_recorded i) (write_envelope j e)" "keeps (call_recorded i) (write_call j c)"
  "keeps (call_recorded i) (write_seal j s)" "keeps (call_recorded i) (write_resolution j r)"
  unfolding call_recorded_def [abs_def]
  by (rule envelope_call.keeps_other_present call_file.keeps_own_present seal_call.keeps_other_present
      resolution_call.keeps_other_present)+

lemma persist_keeps_call [keeps_rules]:
  "keeps (call_recorded i) (PersistRecoveryEnvelope job r t)" "keeps (call_recorded i) (PersistScheduleCallStarted j h t)"
  "keeps (call_recorded i) (PersistScheduleReceipt j h c r t)" "keeps (call_recorded i) (PersistRecoveryResolution j out why res t)"
  unfolding PersistRecoveryEnvelope_def PersistScheduleCallStarted_def PersistScheduleReceipt_def PersistRecoveryResolution_def
  by (intro keeps_rules)+

lemma write_total [keeps_rules]: "keeps (\<lambda>_. True) (writeRecoveryCreateOnce get put enc i x)"
  unfolding writeRecoveryCreateOnce_def by (intro keeps_rules)

lemma persist_total [keeps_rules]:
  "keeps (\<lambda>_. True) (PersistRecoveryEnvelope job r t)" "keeps (\<lambda>_. True) (PersistScheduleCallStarted j h t)"
  "keeps (\<lambda>_. True) (PersistScheduleReceipt j h c r t)" "keeps (\<lambda>_. True) (PersistRecoveryResolution j out why res t)"
  unfolding PersistRecoveryEnvelope_def PersistScheduleCallStarted_def PersistScheduleReceipt_def PersistRecoveryResolution_def
  by (intro keeps_rules)+

lemma wp_evolves: "wp m Q w \<Longrightarrow> keeps (\<lambda>_. True) m \<Longrightarrow> wp m (\<lambda>r w'. Q r w' \<and> evolves w w') w"
  unfolding keeps_def stable_def by (rule wp_conj) (auto intro: wp_mono)

lemma started_call_refused:
  assumes "call_recorded i (disk w)" and "stable (call_recorded i) w"
  shows "wp (PersistScheduleCallStarted i h t) (\<lambda>r _. isl r) w"
proof -
  have "wp (LoadRecoveryAuthority i) (\<lambda>r _. case r of Inl _ \<Rightarrow> True | Inr a \<Rightarrow> ra_Call a \<noteq> None) w"
  proof (rule wp_Load, goal_cases)
    case (2 env c s r k1 k2 k3 k4 a1 a2 a3 n)
    have "call_recorded i (others w k2 (others w k1 (disk w)))" using assms by blast
    then have "c \<noteq> None" using 2(3) by (auto simp: call_recorded_def read_as_def)
    then have "ra_Call a1 \<noteq> None" using 2(4) by (auto simp: with_call_def split: option.splits)
    then show ?case using 2(6,8) by (auto simp: with_receipt_def with_resolution_def split: option.splits)
  qed simp
  then show ?thesis
    unfolding PersistScheduleCallStarted_def
    by (intro wp_intros) (auto intro!: wp_intros elim!: wp_mono split: sum.splits)
qed

text \<open>A successful write leaves the record in its file.\<close>

lemma wp_write_call:
  assumes "\<And>e w'. Q (Some e) w'" and "\<And>w'. call_recorded i (disk w') \<Longrightarrow> evolves w w' \<Longrightarrow> Q None w'"
  shows "wp (write_call i x) Q w"
  by (rule wp_mono [OF wp_evolves [OF call_file.write_once write_total]])
     (auto simp: assms call_recorded_def split: option.splits)

lemma evolves_load:
  "(\<And>r w'. evolves w w' \<Longrightarrow> Q r w') \<Longrightarrow> wp (LoadRecoveryAuthority i) Q w"
  by (rule wp_Load) auto

lemma persisted_call:
  "wp (PersistScheduleCallStarted i h t)
     (\<lambda>r w'. case r of Inl _ \<Rightarrow> True | Inr _ \<Rightarrow> call_recorded i (disk w') \<and> evolves w w') w"
  unfolding PersistScheduleCallStarted_def
  by (intro wp_intros evolves_load wp_write_call) (auto simp: created_def intro: evolves_trans)

text \<open>
  C7: A schedule call is started at most once: of two attempts to cross the no-retry boundary of a job at
  most one is granted, whatever envelope and time they name, as long as the other processes do not
  remove the record.
\<close>

theorem schedule_call_once:
  assumes "stable (call_recorded i) w"
  shows "wp (do { r1 \<leftarrow> PersistScheduleCallStarted i h t; r2 \<leftarrow> PersistScheduleCallStarted i h' t'; ret (r1, r2) })
     (\<lambda>(r1, r2) _. isl r1 \<or> isl r2) w"
proof (rule wp_bindI, rule wp_mono [OF persisted_call], goal_cases)
  case (1 r w')
  show ?case
  proof (cases r)
    case (Inr c)
    then show ?thesis
      using 1 assms stable_evolves [of w w'] by (auto intro!: wp_intros wp_mono [OF started_call_refused])
  qed (auto intro!: wp_any)
qed

theorem schedule_call_once_witness:
  "wp (do { r1 \<leftarrow> PersistScheduleCallStarted (id_of CHR ''a'') (hash_of CHR ''0'') 1;
            r2 \<leftarrow> PersistScheduleCallStarted (id_of CHR ''a'') (hash_of CHR ''0'') 2; ret (r1, r2) })
     (\<lambda>(r1, r2) _. isl r1 \<or> isl r2) (quiet_world empty_disk)"
  by (rule schedule_call_once) simp

subsection \<open>Progress and round trip\<close>

lemma json_fields_ok_append [simp]: "json_fields_ok (xs @ ys) = (json_fields_ok xs \<and> json_fields_ok ys)"
  by (induction xs) auto

lemma json_fields_ok_omitempty [simp]: "json_fields_ok (omitempty b n j) = (b \<or> json_ok j)"
  by (simp add: omitempty_def)

lemma receipt_json_ok [simp]:
  "json_ok (receipt_json r) = (time_marshals (rcp_RequestedAt r) \<and> time_marshals (rcp_ScheduledAt r) \<and> time_marshals (rcp_Deadline r))"
  by (simp add: receipt_json_def)

text \<open>The hash of a record that can be encoded is an identity hash and does not cover itself.\<close>

lemma hashRecoveryRecord_valid: "json_ok j \<Longrightarrow> ValidIdentityHash (hashRecoveryRecord d j)"
  by (simp add: hashRecoveryRecord_def json_Marshal_def)

lemma new_envelope_fields [simp]:
  "re_SchemaVersion (new_envelope job r t) = recoveryRecordSchema" "re_JobID (new_envelope job r t) = JobID job"
  "re_BindingID (new_envelope job r t) = ObservedBindingID job" "re_Action (new_envelope job r t) = Action job"
  "re_TriggerPolicy (new_envelope job r t) = TriggerPolicy job" "re_CreatedAt (new_envelope job r t) = t"
  "re_IntentReceipt (new_envelope job r t) = r"
  "re_EnvelopeHash (new_envelope job r t) = hashRecoveryEnvelope (new_envelope job r t)"
  by (simp_all add: new_envelope_def hashRecoveryEnvelope_def Let_def)

lemma new_call_fields [simp]:
  "sc_SchemaVersion (new_call i h t) = recoveryRecordSchema" "sc_JobID (new_call i h t) = i"
  "sc_EnvelopeHash (new_call i h t) = h" "sc_StartedAt (new_call i h t) = t"
  "sc_CallHash (new_call i h t) = hashScheduleCall (new_call i h t)"
  by (simp_all add: new_call_def hashScheduleCall_def Let_def)

text \<open>A job that is about to be scheduled and the receipt of its intent.\<close>

definition intent_of :: "Job \<Rightarrow> Receipt \<Rightarrow> time \<Rightarrow> bool" where
  "intent_of job r t \<longleftrightarrow> Validate job = None \<and> \<not> DryRun job \<and> State job = StateStopObserved \<and>
     (\<exists>d c. BuildIntentReceipt (JobID job) (Action job) t d c = Inr r) \<and>
     rcp_Deadline r \<noteq> 0 \<and> time_marshals t \<and> time_marshals (rcp_Deadline r)"

lemma job_envelope_facts:
  assumes "Validate job = None"
  shows "ValidateJobID (JobID job) = None" "ValidateJobID (ObservedBindingID job) = None" "Action job = ''shutdown''"
    "policy_Valid (TriggerPolicy job)"
  using Validate_NoneD(1) [OF assms] by (auto simp: job_fixed_def ObservedBindingID_def split: if_splits)

lemma intent_envelope:
  assumes "intent_of job r t"
  shows "validateRecoveryEnvelope (new_envelope job r t) = None"
    and "json_Marshal (envelope_json (new_envelope job r t)) \<noteq> None"
    and "ValidateReceipt r = None" "rcp_JobID r = JobID job" "rcp_Action r = Action job"
proof -
  obtain d c where r: "BuildIntentReceipt (JobID job) (Action job) t d c = Inr r" using assms by (auto simp: intent_of_def)
  note f = BuildIntentReceipt_Inr [OF r] job_envelope_facts [of job]
  have v: "Validate job = None" and t: "time_marshals t" "time_marshals (rcp_Deadline r)" "rcp_Deadline r \<noteq> 0"
    using assms by (simp_all add: intent_of_def)
  have ok: "json_ok (envelope_json e)" if "re_CreatedAt e = t" "re_IntentReceipt e = r" for e
    using that t f by (simp add: envelope_json_def)
  show "json_Marshal (envelope_json (new_envelope job r t)) \<noteq> None"
    using ok [of "new_envelope job r t"] by (simp add: json_Marshal_def)
  show "ValidateReceipt r = None" "rcp_JobID r = JobID job" "rcp_Action r = Action job"
    using f t by simp_all
  have "ValidIdentityHash (hashRecoveryEnvelope e)" if "re_CreatedAt e = t" "re_IntentReceipt e = r" for e
    using that unfolding hashRecoveryEnvelope_def by (intro hashRecoveryRecord_valid ok) simp_all
  then show "validateRecoveryEnvelope (new_envelope job r t) = None"
    using f v t by (simp add: validateRecoveryEnvelope_def IsZero_def)
qed

text \<open>Loading in a calm world gives what the files hold.\<close>

lemma live_Load:
  assumes "calm w" "ValidateJobID i = None" "rec_files (disk w) i = no_files\<lparr>rf_envelope := Some (File (Parsed e))\<rparr>"
    and "validateRecoveryEnvelope e = None"
    and "\<And>n. Q (Inr \<lparr>ra_Envelope = e, ra_Call = None, ra_Receipt = None, ra_Resolution = None\<rparr>) (at w (disk w) n)"
  shows "wp (LoadRecoveryAuthority i) Q w"
  using assms unfolding LoadRecoveryAuthority_def read_optional_def
  by (auto simp: readRecoveryRecord_def no_files_def with_call_def with_receipt_def with_resolution_def intro!: live_observe)

lemma live_write:
  assumes "calm w" "json_Marshal (enc x) \<noteq> None" "get (rec_files (disk w) i) = None"
    and "\<And>n. Q None (at w (change_files i (put (Some (File (Parsed x)))) (change_files i (put (Some (File Oversized))) (disk w))) n)"
  shows "wp (writeRecoveryCreateOnce get put enc i x) Q w"
  using assms unfolding writeRecoveryCreateOnce_def
  by (auto simp del: calls.simps intro!: live_calls live_calls_seq)

lemma live_envelope:
  assumes "calm w" "intent_of job r t" "rec_files (disk w) (JobID job) = no_files"
    and "\<And>w'. calm w' \<Longrightarrow>
      rec_files (disk w') (JobID job) = no_files\<lparr>rf_envelope := Some (File (Parsed (new_envelope job r t)))\<rparr> \<Longrightarrow>
      Q (Inr (new_envelope job r t)) w'"
  shows "wp (PersistRecoveryEnvelope job r t) Q w"
  using assms intent_envelope [OF assms(2)] unfolding PersistRecoveryEnvelope_def
  by (auto simp: intent_of_def created_def no_files_def intro!: live_write)

lemma live_call_started:
  assumes "calm w" "ValidateJobID i = None" "s \<noteq> 0" "time_marshals s" "re_JobID e = i"
    and "rec_files (disk w) i = no_files\<lparr>rf_envelope := Some (File (Parsed e))\<rparr>" "validateRecoveryEnvelope e = None"
    and "\<And>w'. rf_call (rec_files (disk w') i) = Some (File (Parsed (new_call i (re_EnvelopeHash e) s))) \<Longrightarrow>
      Q (Inr (new_call i (re_EnvelopeHash e) s)) w'"
  shows "wp (PersistScheduleCallStarted i (re_EnvelopeHash e) s) Q w"
proof -
  have ok: "json_ok (call_json c)" if "sc_StartedAt c = s" for c
    using that assms(4) by (simp add: call_json_def)
  have "ValidIdentityHash (hashScheduleCall (new_call i (re_EnvelopeHash e) s))"
    unfolding hashScheduleCall_def by (rule hashRecoveryRecord_valid, rule ok) simp
  moreover have "ValidIdentityHash (re_EnvelopeHash e)"
    using assms(7) by (simp add: validateRecoveryEnvelope_def)
  moreover have "json_Marshal (call_json (new_call i (re_EnvelopeHash e) s)) \<noteq> None"
    by (simp add: json_Marshal_def ok)
  ultimately show ?thesis
    using assms unfolding PersistScheduleCallStarted_def
    by (auto simp: IsZero_def validateScheduleCall_def created_def no_files_def reject_def
        intro!: live_Load [where e = e] live_write)
qed

text \<open>
  C35: The recovery protocol makes progress and round-trips: when nothing fails and nobody interferes, the
  envelope of an executable job that is about to be scheduled is persisted, is loaded back unchanged as
  the authority of that job, and the schedule call is then granted and recorded.
\<close>

theorem recovery_progress:
  assumes "calm w" and "intent_of job r t" and "rec_files (disk w) (JobID job) = no_files"
    and "s \<noteq> 0" and "time_marshals s"
  shows "wp (do { e \<leftarrow> PersistRecoveryEnvelope job r t;
       a \<leftarrow> LoadRecoveryAuthority (JobID job);
       c \<leftarrow> PersistScheduleCallStarted (JobID job) (re_EnvelopeHash (new_envelope job r t)) s;
       ret (e, a, c) })
     (\<lambda>(e, a, c) w'. e = Inr (new_envelope job r t) \<and>
        a = Inr \<lparr>ra_Envelope = new_envelope job r t, ra_Call = None, ra_Receipt = None, ra_Resolution = None\<rparr> \<and>
        c = Inr (new_call (JobID job) (re_EnvelopeHash (new_envelope job r t)) s) \<and>
        rf_call (rec_files (disk w') (JobID job)) =
          Some (File (Parsed (new_call (JobID job) (re_EnvelopeHash (new_envelope job r t)) s)))) w"
proof -
  note env = intent_envelope(1) [OF assms(2)]
  have i: "ValidateJobID (JobID job) = None" using assms(2) job_envelope_facts by (simp add: intent_of_def)
  show ?thesis
    using assms(4,5) i env
    by (intro wp_bindI live_envelope [OF assms(1-3)] live_Load [where e = "new_envelope job r t"]
        live_call_started [where e = "new_envelope job r t"]) auto
qed

definition stopped_job :: Job where
  "stopped_job = sample_job\<lparr>State := StateStopObserved, StopTurnID := ''turn''\<rparr>"

definition sample_caps :: Capabilities where
  "sample_caps = zero_Capabilities\<lparr>cap_Platform := ''fake'', cap_BackendID := ''fake'', cap_CancelScope := CancelScopeJob\<rparr>"

definition sample_receipt :: Receipt where
  "sample_receipt = SealReceipt (intent_receipt_body (id_of CHR ''a'') ''shutdown'' 20 (60 * Second) sample_caps)"

lemma stopped_job_valid: "Validate stopped_job = None"
proof (rule Validate_NoneI)
  show "job_fixed stopped_job" by (simp add: job_fixed_def stopped_job_def sample_defs HasPrefix_def policy_Valid_def)
  show "job_clock stopped_job" by (simp add: job_clock_def stopped_job_def sample_defs state_known_def path_IsAbs_def HasPrefix_def)
  show "job_binding stopped_job" by (simp add: job_binding_def stopped_job_def sample_defs)
  show "job_evidence stopped_job" by (simp add: job_evidence_def stopped_job_def sample_defs)
  show "job_keys stopped_job" by (simp add: job_keys_def stopped_job_def sample_defs)
qed


lemma sample_marshals: "time_marshals 20" "time_marshals 30" "time_marshals 60000000020"
  by code_simp+

lemma stopped_job_intent: "intent_of stopped_job sample_receipt 20"
proof -
  have "BuildIntentReceipt (JobID stopped_job) (Action stopped_job) 20 (60 * Second) sample_caps = Inr sample_receipt"
    unfolding BuildIntentReceipt_eq
    by (simp add: sample_receipt_def stopped_job_def sample_caps_def zero_Capabilities_def sample_job_def zero_Job_def)
  then have b: "\<exists>d c. BuildIntentReceipt (JobID stopped_job) (Action stopped_job) 20 d c = Inr sample_receipt" by blast
  show ?thesis
    unfolding intent_of_def
    by (intro conjI b stopped_job_valid)
       (simp_all add: stopped_job_def sample_job_def zero_Job_def sample_receipt_def intent_receipt_body_def
         sample_marshals)
qed

theorem recovery_progress_witness:
  "wp (do { e \<leftarrow> PersistRecoveryEnvelope stopped_job sample_receipt 20;
       a \<leftarrow> LoadRecoveryAuthority (JobID stopped_job);
       c \<leftarrow> PersistScheduleCallStarted (JobID stopped_job) (re_EnvelopeHash (new_envelope stopped_job sample_receipt 20)) 30;
       ret (e, a, c) })
     (\<lambda>(e, a, c) w'. e = Inr (new_envelope stopped_job sample_receipt 20) \<and>
        a = Inr \<lparr>ra_Envelope = new_envelope stopped_job sample_receipt 20, ra_Call = None, ra_Receipt = None, ra_Resolution = None\<rparr> \<and>
        c = Inr (new_call (JobID stopped_job) (re_EnvelopeHash (new_envelope stopped_job sample_receipt 20)) 30) \<and>
        rf_call (rec_files (disk w') (JobID stopped_job)) =
          Some (File (Parsed (new_call (JobID stopped_job) (re_EnvelopeHash (new_envelope stopped_job sample_receipt 20)) 30))))
     (quiet_world empty_disk)"
  by (rule recovery_progress [OF _ stopped_job_intent])
     (simp_all add: calm_def quiet_world_def rec_files_def empty_disk_def no_files_def sample_marshals)

end
