(* ===== verification/Host_Types.thy ===== *)
theory Host_Types
  imports Go_Path Go_Encoding
begin

text \<open>
  \<open>internal/hostauthority/types.go\<close>, \<open>policy.go\<close> and \<open>events.go\<close>: the threads, turns and hooks that
  the App Server of the host reports, the decision whether the effective hooks are the installed
  ones, the tracker of the notifications, and the final gate a snapshot has to pass. A slice whose
  \<open>nil\<close> value the code can tell from an empty one (both are encoded in the hook fingerprint) is an
  optional list.
\<close>

subsection \<open>Types\<close>

datatype BindingKind = BindingUnproven | BindingSameHost | BindingOther string

record AuthorityBinding =
  ab_Kind :: BindingKind
  ab_HostInstanceID :: string

definition SameHostVerified :: "AuthorityBinding \<Rightarrow> bool" where
  "SameHostVerified b \<longleftrightarrow> ab_Kind b = BindingSameHost \<and> ab_HostInstanceID b \<noteq> []"

record ThreadStatus =
  st_Type :: string
  st_ActiveFlags :: "string list"

definition status_IsActive :: "ThreadStatus \<Rightarrow> bool" where "status_IsActive s \<longleftrightarrow> st_Type s = ''active''"
definition status_IsIdle :: "ThreadStatus \<Rightarrow> bool" where "status_IsIdle s \<longleftrightarrow> st_Type s = ''idle''"
definition status_IsKnown :: "ThreadStatus \<Rightarrow> bool" where "status_IsKnown s \<longleftrightarrow> status_IsActive s \<or> status_IsIdle s"

definition status_Waiting :: "ThreadStatus \<Rightarrow> bool" where
  "status_Waiting s \<longleftrightarrow> list_ex (\<lambda>f. f = ''waitingOnApproval'' \<or> f = ''waitingOnUserInput'') (st_ActiveFlags s)"

record Turn =
  tu_ID :: string
  tu_Status :: string

record Thread =
  th_ID :: string
  th_CWD :: string
  th_Status :: ThreadStatus
  th_Turns :: "Turn list"

definition zero_Thread :: Thread where
  "zero_Thread = \<lparr>th_ID = [], th_CWD = [], th_Status = \<lparr>st_Type = [], st_ActiveFlags = []\<rparr>, th_Turns = []\<rparr>"

definition LastTurn :: "Thread \<Rightarrow> Turn option" where
  "LastTurn t = (if th_Turns t = [] then None else Some (last (th_Turns t)))"

record HookError =
  he_Message :: string
  he_Path :: string

record Hook =
  ho_Command :: "string option"
  ho_CurrentHash :: string
  ho_DisplayOrder :: int
  ho_Enabled :: bool
  ho_EventName :: string
  ho_HandlerType :: string
  ho_IsManaged :: bool
  ho_Key :: string
  ho_Matcher :: "string option"
  ho_PluginID :: "string option"
  ho_Source :: string
  ho_SourcePath :: string
  ho_TimeoutSec :: u64
  ho_TrustStatus :: string
  ho_StatusMessage :: "string option"

record HookInventory =
  hi_CWD :: string
  hi_Errors :: "HookError list option"
  hi_Hooks :: "Hook list"
  hi_Warnings :: "string list option"

record HookDecision =
  hd_Compatible :: bool
  hd_Fingerprint :: string
  hd_Reasons :: "string list"

record Snapshot =
  sn_CapturedAt :: time
  sn_Target :: Thread
  sn_LoadedThreads :: "Thread list"
  sn_DescendantThreads :: "Thread list"
  sn_BackgroundTerminalCount :: nat
  sn_Hooks :: HookInventory
  sn_HookDecision :: HookDecision
  sn_SameHostProven :: bool
  sn_InventoryComplete :: bool
  sn_EventLossDetected :: bool
  sn_LiveTargetObserved :: bool
  sn_CompletedTurnIDs :: "string list"
  sn_IncompleteHookCount :: nat
  sn_HookFailureDetected :: bool
  sn_HostInstanceID :: string
  sn_Reasons :: "string list"

definition ReadyForFinalGate :: "Snapshot \<Rightarrow> string \<Rightarrow> bool" where
  "ReadyForFinalGate s expectedTurnID =
     (if \<not> sn_SameHostProven s \<or> \<not> sn_LiveTargetObserved s \<or> \<not> sn_InventoryComplete s \<or> sn_EventLossDetected s \<or>
         \<not> hd_Compatible (sn_HookDecision s) \<or> sn_IncompleteHookCount s \<noteq> 0 \<or> sn_HookFailureDetected s then False
      else if \<not> status_IsIdle (th_Status (sn_Target s)) \<or> status_Waiting (th_Status (sn_Target s)) \<or>
              sn_BackgroundTerminalCount s \<noteq> 0 then False
      else (case LastTurn (sn_Target s) of
              None \<Rightarrow> False
            | Some l \<Rightarrow>
                if tu_ID l \<noteq> expectedTurnID \<or> tu_Status l \<noteq> ''completed'' then False
                else if \<not> list_ex (\<lambda>t. t = expectedTurnID) (sn_CompletedTurnIDs s) then False
                else if list_ex (\<lambda>t. th_ID t \<noteq> th_ID (sn_Target s) \<and> \<not> status_IsIdle (th_Status t)) (sn_LoadedThreads s)
                then False
                else \<not> list_ex (\<lambda>t. \<not> status_IsIdle (th_Status t)) (sn_DescendantThreads s)))"

definition WorkspacePathMatches :: "string \<Rightarrow> string \<Rightarrow> bool" where
  "WorkspacePathMatches left right =
     (if TrimSpace left = [] \<or> TrimSpace right = [] \<or> \<not> path_IsAbs left \<or> \<not> path_IsAbs right then False
      else path_Clean left = path_Clean right)"

subsection \<open>Hook policy\<close>

text \<open>
  \<open>strings.ToLower\<close> for a comparison with an ASCII keyword: besides the ASCII letters, the capital
  I with dot and the Kelvin sign become ASCII letters.
\<close>

fun lower_keyword :: "string \<Rightarrow> string" where
  "lower_keyword [] = []"
| "lower_keyword (c # cs) =
     (if take 2 (string_codes (c # cs)) = [0xC4, 0xB0] then CHR ''i'' # lower_keyword (drop 1 cs)
      else if take 3 (string_codes (c # cs)) = [0xE2, 0x84, 0xAA] then CHR ''k'' # lower_keyword (drop 2 cs)
      else lower_char c # lower_keyword cs)"

definition canonicalEventName :: "string \<Rightarrow> string" where
  "canonicalEventName v = lower_keyword (TrimSpace v)"

definition trustedHookStatus :: "string \<Rightarrow> bool" where
  "trustedHookStatus v \<longleftrightarrow> lower_keyword (TrimSpace v) = ''trusted'' \<or> lower_keyword (TrimSpace v) = ''managed''"

definition unknownHookSource :: "string \<Rightarrow> bool" where
  "unknownHookSource v \<longleftrightarrow> lower_keyword (TrimSpace v) = [] \<or> lower_keyword (TrimSpace v) = ''unknown''"

definition safeHookKey :: "string \<Rightarrow> string" where
  "safeHookKey v = (if TrimSpace v = [] then ''<unknown>'' else take 48 (TrimSpace v))"

definition hookRelevant :: "Hook \<Rightarrow> bool" where
  "hookRelevant h \<longleftrightarrow> canonicalEventName (ho_EventName h) \<in> {''stop'', ''pretooluse'', ''permissionrequest'', ''posttooluse''}"

definition doneThenToolNames :: "string list" where
  "doneThenToolNames = [''mcp__done_then__arm'', ''mcp__done_then__finish'', ''mcp__done_then__pause'',
     ''mcp__done_then__cancel'', ''mcp__done_then__status'']"

text \<open>
  \<open>regexp.Compile\<close> is a parameter \<open>rx\<close>: the matcher of an expression, or nothing when it does not
  compile. \<open>strings.EqualFold\<close> with \<open>command\<close> only folds ASCII letters.
\<close>

definition toolHookIntersects :: "(string \<Rightarrow> (string \<Rightarrow> bool) option) \<Rightarrow> Hook \<Rightarrow> bool" where
  "toolHookIntersects rx h =
     (if canonicalEventName (ho_EventName h) \<noteq> ''pretooluse'' \<and> canonicalEventName (ho_EventName h) \<noteq> ''permissionrequest'' \<and>
         canonicalEventName (ho_EventName h) \<noteq> ''posttooluse'' then False
      else if ToLower (TrimSpace (ho_HandlerType h)) \<noteq> ''command'' then True
      else (case ho_Matcher h of
              None \<Rightarrow> True
            | Some m \<Rightarrow>
                if TrimSpace m = [] then True
                else (case rx m of None \<Rightarrow> True | Some matches \<Rightarrow> list_ex matches doneThenToolNames)))"

definition opt_json :: "string option \<Rightarrow> json" where
  "opt_json v = (case v of None \<Rightarrow> JNull | Some s \<Rightarrow> JStr s)"

definition hook_json :: "Hook \<Rightarrow> json" where
  "hook_json h = JObj
     [(''current_hash'', JStr (ho_CurrentHash h)), (''enabled'', JBool (ho_Enabled h)), (''event_name'', JStr (ho_EventName h)),
      (''handler_type'', JStr (ho_HandlerType h)), (''is_managed'', JBool (ho_IsManaged h)), (''key'', JStr (ho_Key h)),
      (''matcher'', opt_json (ho_Matcher h)), (''plugin_id'', opt_json (ho_PluginID h)), (''source'', JStr (ho_Source h)),
      (''source_path'', JStr (ho_SourcePath h)), (''timeout_sec'', JInt (uint (ho_TimeoutSec h))),
      (''trust_status'', JStr (ho_TrustStatus h))]"

definition slice_json :: "('a \<Rightarrow> json) \<Rightarrow> 'a list option \<Rightarrow> json" where
  "slice_json f s = (case s of None \<Rightarrow> JNull | Some xs \<Rightarrow> JArr (map f xs))"

definition hookFingerprint :: "HookInventory \<Rightarrow> string" where
  "hookFingerprint inventory =
     (let hooks = sort_key (\<lambda>h. json_render (hook_json h)) (hi_Hooks inventory);
          payload = json_render (JObj
            [(''cwd'', JStr (hi_CWD inventory)),
             (''errors'', slice_json (\<lambda>e. JObj [(''message'', JStr (he_Message e)), (''path'', JStr (he_Path e))]) (hi_Errors inventory)),
             (''hooks'', JArr (map hook_json hooks)),
             (''warnings'', slice_json JStr (hi_Warnings inventory))])
      in ''sha256:'' @ SHA256 payload)"

text \<open>The hooks of the plugin, and what one hook of the inventory adds to the reasons.\<close>

definition isDoneThen :: "string \<Rightarrow> Hook \<Rightarrow> bool" where
  "isDoneThen pluginID h \<longleftrightarrow> ho_PluginID h = Some pluginID"

definition own_hook_reasons :: "(string \<times> string) list \<Rightarrow> Hook \<Rightarrow> string list" where
  "own_hook_reasons expectedHashes h =
     (if trustedHookStatus (ho_TrustStatus h) then []
      else [''DoneThen hook '' @ safeHookKey (ho_Key h) @ '' is not trusted'']) @
     (if ho_CurrentHash h = [] then [''DoneThen hook '' @ safeHookKey (ho_Key h) @ '' has no definition hash''] else []) @
     (case map_of expectedHashes (ho_Key h) of
        None \<Rightarrow> [''DoneThen hook '' @ safeHookKey (ho_Key h) @ '' is not present in the installed policy'']
      | Some expected \<Rightarrow>
          if expected \<noteq> ho_CurrentHash h then [''DoneThen hook '' @ safeHookKey (ho_Key h) @ '' hash changed''] else [])"

definition other_hook_reasons :: "(string \<Rightarrow> (string \<Rightarrow> bool) option) \<Rightarrow> Hook \<Rightarrow> string list" where
  "other_hook_reasons rx h =
     (if unknownHookSource (ho_Source h) \<or> \<not> trustedHookStatus (ho_TrustStatus h) then
        (if hookRelevant h
         then [''relevant hook '' @ safeHookKey (ho_Key h) @ '' has unknown, modified, or untrusted provenance''] else [])
      else if canonicalEventName (ho_EventName h) = ''stop'' then
        [''non-DoneThen Stop hook '' @ safeHookKey (ho_Key h) @ '' is enabled'']
      else if toolHookIntersects rx h then [''hook '' @ safeHookKey (ho_Key h) @ '' can match a DoneThen MCP tool'']
      else [])"

definition hook_reasons ::
    "(string \<Rightarrow> (string \<Rightarrow> bool) option) \<Rightarrow> string \<Rightarrow> (string \<times> string) list \<Rightarrow> Hook \<Rightarrow> string list" where
  "hook_reasons rx pluginID expectedHashes h =
     (if \<not> ho_Enabled h then []
      else if isDoneThen pluginID h then own_hook_reasons expectedHashes h
      else other_hook_reasons rx h)"

text \<open>How often an enabled hook of the plugin has a key.\<close>

definition expected_count :: "string \<Rightarrow> HookInventory \<Rightarrow> string \<Rightarrow> nat" where
  "expected_count pluginID inventory key =
     length (filter (\<lambda>h. ho_Enabled h \<and> isDoneThen pluginID h \<and> ho_Key h = key) (hi_Hooks inventory))"

definition missing_reasons :: "string \<Rightarrow> HookInventory \<Rightarrow> string \<Rightarrow> string list" where
  "missing_reasons pluginID inventory key =
     (if expected_count pluginID inventory key = 0 then [''expected DoneThen hook '' @ safeHookKey key @ '' is missing'']
      else if expected_count pluginID inventory key \<noteq> 1
      then [''expected DoneThen hook '' @ safeHookKey key @ '' appears more than once''] else [])"

text \<open>The map of the expected hashes is an association list; its iteration order is lost in the sorting.\<close>

definition EvaluateHooks ::
    "(string \<Rightarrow> (string \<Rightarrow> bool) option) \<Rightarrow> HookInventory \<Rightarrow> string \<Rightarrow> (string \<times> string) list \<Rightarrow> HookDecision" where
  "EvaluateHooks rx inventory expectedPluginID expectedHashes =
     (let reasons =
        (if TrimSpace (hi_CWD inventory) = [] then [''hook inventory has no cwd''] else []) @
        (if hi_Errors inventory = None \<or> hi_Errors inventory = Some [] then [] else [''hook inventory contains discovery errors'']) @
        (if hi_Warnings inventory = None \<or> hi_Warnings inventory = Some [] then [] else [''hook inventory contains warnings'']) @
        concat (map (hook_reasons rx expectedPluginID expectedHashes) (hi_Hooks inventory)) @
        (if expectedPluginID = [] then [''expected DoneThen plugin id is unavailable'']
         else if expectedHashes = [] then [''expected DoneThen hook hash policy is unavailable'']
         else if filter (\<lambda>h. ho_Enabled h \<and> isDoneThen expectedPluginID h) (hi_Hooks inventory) = []
         then [''DoneThen hooks are absent from the effective inventory''] else []) @
        concat (map (missing_reasons expectedPluginID inventory) (map fst expectedHashes))
      in \<lparr>hd_Compatible = (reasons = []), hd_Fingerprint = hookFingerprint inventory, hd_Reasons = sort reasons\<rparr>)"

subsection \<open>Events\<close>

text \<open>
  A notification with its method and what \<open>json.Unmarshal\<close> makes of its parameters for each of the
  structs the code decodes into: nothing when it fails.
\<close>

record Notification =
  no_Method :: string
  no_Status :: "(string \<times> ThreadStatus) option"
  no_Turn :: "(string \<times> Turn) option"
  no_Run :: "(string \<times> string \<times> string) option"

text \<open>Sets are lists without duplicates, maps are association lists.\<close>

record eventTracker =
  et_seenThreads :: "string list"
  et_completedTurns :: "(string \<times> string list) list"
  et_runningHooks :: "(string \<times> string list) list"
  et_failedHooks :: "string list"
  et_decodeError :: bool

definition newEventTracker :: eventTracker where
  "newEventTracker = \<lparr>et_seenThreads = [], et_completedTurns = [], et_runningHooks = [], et_failedHooks = [], et_decodeError = False\<rparr>"

definition entries :: "(string \<times> string list) list \<Rightarrow> string \<Rightarrow> string list" where
  "entries m t = (case map_of m t of None \<Rightarrow> [] | Some xs \<Rightarrow> xs)"

definition see :: "string \<Rightarrow> eventTracker \<Rightarrow> eventTracker" where
  "see t e = e\<lparr>et_seenThreads := List.insert t (et_seenThreads e)\<rparr>"

definition observe_notification :: "Notification \<Rightarrow> eventTracker \<Rightarrow> eventTracker" where
  "observe_notification n e =
     (if no_Method n = ''thread/status/changed'' then
        (case no_Status n of
           None \<Rightarrow> e\<lparr>et_decodeError := True\<rparr>
         | Some (t, s) \<Rightarrow> if t = [] \<or> st_Type s = [] then e\<lparr>et_decodeError := True\<rparr> else see t e)
      else if no_Method n = ''turn/completed'' then
        (case no_Turn n of
           None \<Rightarrow> e\<lparr>et_decodeError := True\<rparr>
         | Some (t, turn) \<Rightarrow>
             if t = [] \<or> tu_ID turn = [] \<or> tu_Status turn = [] then e\<lparr>et_decodeError := True\<rparr>
             else (let e = see t e in
               if tu_Status turn = ''completed'' then
                 e\<lparr>et_completedTurns :=
                     AList.update t (List.insert (tu_ID turn) (entries (et_completedTurns e) t)) (et_completedTurns e)\<rparr>
               else e))
      else if no_Method n = ''hook/started'' \<or> no_Method n = ''hook/completed'' then
        (case no_Run n of
           None \<Rightarrow> e\<lparr>et_decodeError := True\<rparr>
         | Some (t, run, status) \<Rightarrow>
             if t = [] \<or> run = [] \<or> status = [] then e\<lparr>et_decodeError := True\<rparr>
             else (let e = see t e in
               if no_Method n = ''hook/started'' then
                 e\<lparr>et_runningHooks := AList.update t (List.insert run (entries (et_runningHooks e) t)) (et_runningHooks e)\<rparr>
               else (let e = e\<lparr>et_runningHooks :=
                       AList.update t (removeAll run (entries (et_runningHooks e) t)) (et_runningHooks e)\<rparr> in
                 if status \<noteq> ''completed'' then e\<lparr>et_failedHooks := List.insert t (et_failedHooks e)\<rparr> else e)))
      else e)"

record targetEvents =
  te_liveTargetObserved :: bool
  te_completedTurnIDs :: "string list"
  te_incompleteHookCount :: nat
  te_hookFailureDetected :: bool
  te_decodeError :: bool

definition tracker_snapshot :: "eventTracker \<Rightarrow> string \<Rightarrow> targetEvents" where
  "tracker_snapshot e t =
     \<lparr>te_liveTargetObserved = (t \<in> set (et_seenThreads e)), te_completedTurnIDs = sort (entries (et_completedTurns e) t),
      te_incompleteHookCount = length (entries (et_runningHooks e) t), te_hookFailureDetected = (t \<in> set (et_failedHooks e)),
      te_decodeError = et_decodeError e\<rparr>"

end
