(* ===== verification/Host_Adapter.thy ===== *)
theory Host_Adapter
  imports Host_Types Go_World
begin

text \<open>
  \<open>internal/hostauthority/adapter.go\<close>: the snapshot of the host that the power supervisor consults.
  The App Server is a parameter: a \<open>host_client\<close> answers the \<open>n\<close>-th call of the adapter, and
  \<open>hc_Notifications\<close> gives what a drain at that point takes from the channel. The state is the
  number of calls made and the event tracker. Every paged list is read for at most
  \<open>maxInventoryPages\<close> pages, which is the recursion of the page loops.
\<close>

abbreviation (input) maxInventoryThreads :: nat where "maxInventoryThreads \<equiv> 256"
abbreviation (input) maxInventoryPages :: nat where "maxInventoryPages \<equiv> 16"

record host_client =
  hc_LoadedList :: "nat \<Rightarrow> string option \<Rightarrow> err + string list \<times> string option"
  hc_ReadThread :: "nat \<Rightarrow> string \<Rightarrow> bool \<Rightarrow> err + Thread"
  hc_Terminals :: "nat \<Rightarrow> string \<Rightarrow> string option \<Rightarrow> err + string list \<times> string option"
  hc_ThreadList :: "nat \<Rightarrow> string \<Rightarrow> string option \<Rightarrow> err + Thread list \<times> string option"
  hc_HooksList :: "nat \<Rightarrow> string \<Rightarrow> err + HookInventory list"
  hc_EventLoss :: "nat \<Rightarrow> bool"
  hc_Notifications :: "nat \<Rightarrow> Notification list"
  hc_Now :: "nat \<Rightarrow> time"

record Adapter =
  ad_client :: host_client
  ad_expectedPluginID :: string
  ad_expectedHashes :: "(string \<times> string) list"
  ad_binding :: AuthorityBinding
  ad_regexp :: "string \<Rightarrow> (string \<Rightarrow> bool) option"

record adapter_state =
  as_calls :: nat
  as_events :: eventTracker

type_synonym 'a aop = "(adapter_state, 'a) state"

definition NewAdapterWithBinding ::
    "(string \<Rightarrow> (string \<Rightarrow> bool) option) \<Rightarrow> host_client option \<Rightarrow> string \<Rightarrow> (string \<times> string) list \<Rightarrow> AuthorityBinding \<Rightarrow>
     err + Adapter" where
  "NewAdapterWithBinding rx client pluginID hashes binding =
     (case client of
        None \<Rightarrow> Inl (Err ''app-server client is required'')
      | Some c \<Rightarrow>
          (let binding = (if ab_Kind binding = BindingOther [] then binding\<lparr>ab_Kind := BindingUnproven\<rparr> else binding) in
           if ab_Kind binding \<noteq> BindingUnproven \<and> ab_Kind binding \<noteq> BindingSameHost then
             Inl (Err ''unknown App Server authority binding'')
           else if ab_Kind binding = BindingSameHost \<and> ab_HostInstanceID binding = [] then
             Inl (Err ''same-host App Server binding requires a host instance id'')
           else Inr \<lparr>ad_client = c, ad_expectedPluginID = pluginID, ad_expectedHashes = hashes, ad_binding = binding,
                     ad_regexp = rx\<rparr>))"

definition NewAdapter ::
    "(string \<Rightarrow> (string \<Rightarrow> bool) option) \<Rightarrow> host_client option \<Rightarrow> string \<Rightarrow> (string \<times> string) list \<Rightarrow> err + Adapter" where
  "NewAdapter rx client pluginID hashes =
     NewAdapterWithBinding rx client pluginID hashes \<lparr>ab_Kind = BindingUnproven, ab_HostInstanceID = []\<rparr>"

text \<open>One call of the client.\<close>

definition rpc :: "(nat \<Rightarrow> 'a) \<Rightarrow> 'a aop" where
  "rpc f = do {
     s \<leftarrow> State_Monad.get;
     State_Monad.set (s\<lparr>as_calls := Suc (as_calls s)\<rparr>);
     ret (f (as_calls s)) }"

definition drainNotifications :: "Adapter \<Rightarrow> unit aop" where
  "drainNotifications a = do {
     s \<leftarrow> State_Monad.get;
     State_Monad.set (s\<lparr>as_events := fold observe_notification (hc_Notifications (ad_client a) (as_calls s)) (as_events s)\<rparr>) }"

text \<open>The ids of one page: empty and repeated ones are refused.\<close>

fun take_ids :: "string list \<Rightarrow> string list \<Rightarrow> string list option" where
  "take_ids seen [] = Some seen"
| "take_ids seen (i # is) = (if i = [] \<or> i \<in> set seen then None else take_ids (seen @ [i]) is)"

fun loaded_pages :: "nat \<Rightarrow> Adapter \<Rightarrow> string option \<Rightarrow> string list \<Rightarrow> string list \<Rightarrow> (err + string list) aop" where
  "loaded_pages 0 a cursor ids seenCursors = ret (Inl (Err ''loaded thread inventory exceeds %d pages''))"
| "loaded_pages (Suc n) a cursor ids seenCursors = do {
     r \<leftarrow> rpc (\<lambda>k. hc_LoadedList (ad_client a) k cursor);
     case r of
       Inl e \<Rightarrow> ret (Inl e)
     | Inr (page, nextCursor) \<Rightarrow>
         (case take_ids ids page of
            None \<Rightarrow> ret (Inl (Err ''loaded thread inventory contains an empty or duplicate id''))
          | Some ids \<Rightarrow>
              (case nextCursor of
                 None \<Rightarrow> ret (Inr ids)
               | Some c \<Rightarrow>
                   if c = [] \<or> c \<in> set seenCursors then
                     ret (Inl (Err ''loaded thread inventory returned an invalid pagination cursor''))
                   else if length ids > maxInventoryThreads then ret (Inl (Err ''thread inventory exceeds %d entries''))
                   else loaded_pages n a (Some c) ids (c # seenCursors))) }"

definition loadedThreadIDs :: "Adapter \<Rightarrow> (err + string list) aop" where
  "loadedThreadIDs a = loaded_pages maxInventoryPages a None [] []"

definition readThread :: "Adapter \<Rightarrow> string \<Rightarrow> bool \<Rightarrow> (err + Thread) aop" where
  "readThread a threadID includeTurns = do {
     r \<leftarrow> rpc (\<lambda>k. hc_ReadThread (ad_client a) k threadID includeTurns);
     ret (case r of
            Inl e \<Rightarrow> Inl e
          | Inr t \<Rightarrow> if th_ID t \<noteq> threadID \<or> st_Type (th_Status t) = []
                     then Inl (Err ''thread/read returned an incomplete thread'') else Inr t) }"

fun terminal_pages :: "nat \<Rightarrow> Adapter \<Rightarrow> string \<Rightarrow> string option \<Rightarrow> nat \<Rightarrow> string list \<Rightarrow> (err + nat) aop" where
  "terminal_pages 0 a threadID cursor count seenCursors = ret (Inl (Err ''background terminal inventory exceeds %d pages''))"
| "terminal_pages (Suc n) a threadID cursor count seenCursors = do {
     r \<leftarrow> rpc (\<lambda>k. hc_Terminals (ad_client a) k threadID cursor);
     case r of
       Inl e \<Rightarrow> ret (Inl e)
     | Inr (page, nextCursor) \<Rightarrow>
         if count + length page > maxInventoryThreads then
           ret (Inl (Err ''background terminal inventory exceeds %d entries''))
         else (case nextCursor of
                 None \<Rightarrow> ret (Inr (count + length page))
               | Some c \<Rightarrow>
                   if c = [] \<or> c \<in> set seenCursors then
                     ret (Inl (Err ''background terminal inventory returned an invalid pagination cursor''))
                   else terminal_pages n a threadID (Some c) (count + length page) (c # seenCursors)) }"

definition backgroundTerminalCount :: "Adapter \<Rightarrow> string \<Rightarrow> (err + nat) aop" where
  "backgroundTerminalCount a threadID = terminal_pages maxInventoryPages a threadID None 0 []"

fun take_threads :: "Thread list \<Rightarrow> Thread list \<Rightarrow> Thread list option" where
  "take_threads seen [] = Some seen"
| "take_threads seen (t # ts) =
     (if th_ID t = [] \<or> th_ID t \<in> set (map th_ID seen) then None else take_threads (seen @ [t]) ts)"

fun descendant_pages ::
    "nat \<Rightarrow> Adapter \<Rightarrow> string \<Rightarrow> string option \<Rightarrow> Thread list \<Rightarrow> string list \<Rightarrow> (err + Thread list) aop" where
  "descendant_pages 0 a threadID cursor ts seenCursors = ret (Inl (Err ''descendant inventory exceeds %d pages''))"
| "descendant_pages (Suc n) a threadID cursor ts seenCursors = do {
     r \<leftarrow> rpc (\<lambda>k. hc_ThreadList (ad_client a) k threadID cursor);
     case r of
       Inl e \<Rightarrow> ret (Inl e)
     | Inr (page, nextCursor) \<Rightarrow>
         (case take_threads ts page of
            None \<Rightarrow> ret (Inl (Err ''descendant inventory contains an empty or duplicate thread id''))
          | Some ts \<Rightarrow>
              (case nextCursor of
                 None \<Rightarrow> ret (Inr ts)
               | Some c \<Rightarrow>
                   if c = [] \<or> c \<in> set seenCursors then
                     ret (Inl (Err ''descendant inventory returned an invalid pagination cursor''))
                   else if length ts > maxInventoryThreads then ret (Inl (Err ''descendant inventory exceeds %d entries''))
                   else descendant_pages n a threadID (Some c) ts (c # seenCursors))) }"

definition descendants :: "Adapter \<Rightarrow> string \<Rightarrow> (err + Thread list) aop" where
  "descendants a threadID = descendant_pages maxInventoryPages a threadID None [] []"

subsection \<open>The snapshot\<close>

definition incomplete :: "string \<Rightarrow> Snapshot \<Rightarrow> Snapshot" where
  "incomplete reason s = s\<lparr>sn_InventoryComplete := False, sn_Reasons := sn_Reasons s @ [reason]\<rparr>"

text \<open>What a loaded thread adds; \<open>targetLoaded\<close> tells whether the target was among the earlier ones.\<close>

definition add_thread :: "string \<Rightarrow> string \<Rightarrow> Thread \<Rightarrow> bool \<times> Snapshot \<Rightarrow> bool \<times> Snapshot" where
  "add_thread targetThreadID threadID thread p =
     (let (targetLoaded, s) = p;
          s = (if threadID = targetThreadID \<and> targetLoaded
               then incomplete ''target thread appears more than once in loaded inventory'' s else s);
          s = (if threadID = targetThreadID then s\<lparr>sn_Target := thread\<rparr> else s);
          s = (if \<not> status_IsKnown (th_Status thread)
               then incomplete ''loaded thread has an unknown runtime status'' s else s)
      in (targetLoaded \<or> threadID = targetThreadID, s\<lparr>sn_LoadedThreads := sn_LoadedThreads s @ [thread]\<rparr>))"

fun read_loaded :: "Adapter \<Rightarrow> string \<Rightarrow> string list \<Rightarrow> bool \<times> Snapshot \<Rightarrow> (bool \<times> Snapshot) aop" where
  "read_loaded a targetThreadID [] p = ret p"
| "read_loaded a targetThreadID (threadID # ids) p = do {
     r \<leftarrow> readThread a threadID (threadID = targetThreadID);
     case r of
       Inl e \<Rightarrow> read_loaded a targetThreadID ids (fst p, incomplete ''could not read every loaded thread'' (snd p))
     | Inr thread \<Rightarrow> read_loaded a targetThreadID ids (add_thread targetThreadID threadID thread p) }"

definition judge_target :: "Adapter \<Rightarrow> string \<Rightarrow> string \<Rightarrow> bool \<Rightarrow> Snapshot \<Rightarrow> Snapshot" where
  "judge_target a targetThreadID cwd targetLoaded s =
     (let targetWorkspaceMatches = targetLoaded \<and> WorkspacePathMatches (th_CWD (sn_Target s)) cwd;
          proven = (SameHostVerified (ad_binding a) \<and> targetLoaded \<and> targetWorkspaceMatches \<and>
            th_ID (sn_Target s) = targetThreadID \<and> status_IsKnown (th_Status (sn_Target s)));
          s = s\<lparr>sn_SameHostProven := proven\<rparr>
      in if proven then s
         else s\<lparr>sn_Reasons := sn_Reasons s @
                [if \<not> SameHostVerified (ad_binding a) then ''App Server connection has no verified same-host binding''
                 else if \<not> targetWorkspaceMatches then ''target thread workspace does not match the armed workspace''
                 else ''target thread is not loaded in the connected App Server'']\<rparr>)"

definition add_terminals :: "err + nat \<Rightarrow> Snapshot \<Rightarrow> Snapshot" where
  "add_terminals r s =
     (case r of
        Inl _ \<Rightarrow> incomplete ''background terminal inventory is unavailable'' s
      | Inr n \<Rightarrow> s\<lparr>sn_BackgroundTerminalCount := n\<rparr>)"

definition add_descendants :: "string \<Rightarrow> err + Thread list \<Rightarrow> Snapshot \<Rightarrow> Snapshot" where
  "add_descendants targetThreadID r s =
     (case r of
        Inl _ \<Rightarrow> incomplete ''descendant thread inventory is unavailable'' s
      | Inr ts \<Rightarrow>
          (let s = s\<lparr>sn_DescendantThreads := ts\<rparr> in
           if list_ex (\<lambda>t. th_ID t = [] \<or> th_ID t = targetThreadID \<or> \<not> status_IsKnown (th_Status t)) ts
           then incomplete ''descendant thread inventory contains an invalid or unknown entry'' s else s))"

definition add_hooks :: "Adapter \<Rightarrow> string \<Rightarrow> HookInventory list \<Rightarrow> Snapshot \<Rightarrow> Snapshot" where
  "add_hooks a cwd data s =
     (case data of
        [inventory] \<Rightarrow>
          (let s = s\<lparr>sn_Hooks := inventory\<rparr>;
               s = (if \<not> WorkspacePathMatches (hi_CWD inventory) cwd
                    then incomplete ''hooks/list workspace does not match the armed workspace'' s else s)
           in s\<lparr>sn_HookDecision := EvaluateHooks (ad_regexp a) inventory (ad_expectedPluginID a) (ad_expectedHashes a)\<rparr>)
      | _ \<Rightarrow> incomplete ''hooks/list did not return exactly one cwd entry'' s)"

definition add_events :: "bool \<Rightarrow> targetEvents \<Rightarrow> Snapshot \<Rightarrow> Snapshot" where
  "add_events eventLoss e s =
     (let s = s\<lparr>sn_EventLossDetected := eventLoss \<or> te_decodeError e, sn_LiveTargetObserved := te_liveTargetObserved e,
            sn_CompletedTurnIDs := te_completedTurnIDs e, sn_IncompleteHookCount := te_incompleteHookCount e,
            sn_HookFailureDetected := te_hookFailureDetected e\<rparr>;
          s = (if sn_EventLossDetected s then incomplete ''App Server notifications were dropped'' s else s)
      in s\<lparr>sn_Reasons := sort (sn_Reasons s)\<rparr>)"

definition empty_snapshot :: "time \<Rightarrow> string \<Rightarrow> Snapshot" where
  "empty_snapshot now instance =
     \<lparr>sn_CapturedAt = now, sn_Target = zero_Thread, sn_LoadedThreads = [], sn_DescendantThreads = [],
      sn_BackgroundTerminalCount = 0,
      sn_Hooks = \<lparr>hi_CWD = [], hi_Errors = None, hi_Hooks = [], hi_Warnings = None\<rparr>,
      sn_HookDecision = \<lparr>hd_Compatible = False, hd_Fingerprint = [], hd_Reasons = []\<rparr>, sn_SameHostProven = False,
      sn_InventoryComplete = True, sn_EventLossDetected = False, sn_LiveTargetObserved = False, sn_CompletedTurnIDs = [],
      sn_IncompleteHookCount = 0, sn_HookFailureDetected = False, sn_HostInstanceID = instance, sn_Reasons = []\<rparr>"

definition adapter_Snapshot :: "Adapter \<Rightarrow> string \<Rightarrow> string \<Rightarrow> (err + Snapshot) aop" where
  "adapter_Snapshot a targetThreadID cwd =
     (if targetThreadID = [] \<or> cwd = [] then ret (Inl (Err ''target thread id and cwd are required''))
      else do {
        drainNotifications a;
        st \<leftarrow> State_Monad.get;
        loaded \<leftarrow> loadedThreadIDs a;
        case loaded of
          Inl e \<Rightarrow> ret (Inl (Wrap ''list loaded threads: %w'' e))
        | Inr ids \<Rightarrow>
            if length ids > maxInventoryThreads then ret (Inl (Err ''loaded thread inventory exceeds %d entries''))
            else do {
              (targetLoaded, s) \<leftarrow> read_loaded a targetThreadID ids
                (False, empty_snapshot (hc_Now (ad_client a) (as_calls st)) (ab_HostInstanceID (ad_binding a)));
              background \<leftarrow> backgroundTerminalCount a targetThreadID;
              desc \<leftarrow> descendants a targetThreadID;
              hooks \<leftarrow> rpc (\<lambda>k. hc_HooksList (ad_client a) k cwd);
              case hooks of
                Inl e \<Rightarrow> ret (Inl (Wrap ''list effective hooks: %w'' e))
              | Inr data \<Rightarrow> do {
                  eventLoss \<leftarrow> rpc (hc_EventLoss (ad_client a));
                  drainNotifications a;
                  st \<leftarrow> State_Monad.get;
                  ret (Inr (add_events eventLoss (tracker_snapshot (as_events st) targetThreadID)
                    (add_hooks a cwd data
                      (add_descendants targetThreadID desc
                        (add_terminals background (judge_target a targetThreadID cwd targetLoaded s)))))) } } })"

end
