(* ===== verification/Host_Laws.thy ===== *)
theory Host_Laws
  imports Host_Adapter "HOL-Library.Multiset"
begin

text \<open>
  What the host authority promises: the hook decision is exactly the installed policy, the
  fingerprint does not depend on the order of the inventory, the tracker keeps what the
  notifications say, a snapshot costs a bounded number of calls, and a snapshot that passes the final
  gate means what the gate is for.
\<close>

subsection \<open>The hook decision\<close>

text \<open>An enabled hook of the plugin is trusted and has the installed definition.\<close>

definition own_hook_ok :: "(string \<times> string) list \<Rightarrow> Hook \<Rightarrow> bool" where
  "own_hook_ok hashes h \<longleftrightarrow> trustedHookStatus (ho_TrustStatus h) \<and> ho_CurrentHash h \<noteq> [] \<and>
     map_of hashes (ho_Key h) = Some (ho_CurrentHash h)"

text \<open>Any other enabled hook cannot touch the protocol: of unknown provenance it listens to no relevant
  event, trusted it neither handles Stop nor can it match a tool of the plugin.\<close>

definition other_hook_ok :: "(string \<Rightarrow> (string \<Rightarrow> bool) option) \<Rightarrow> Hook \<Rightarrow> bool" where
  "other_hook_ok rx h \<longleftrightarrow>
     (if unknownHookSource (ho_Source h) \<or> \<not> trustedHookStatus (ho_TrustStatus h) then \<not> hookRelevant h
      else canonicalEventName (ho_EventName h) \<noteq> ''stop'' \<and> \<not> toolHookIntersects rx h)"

definition hooks_ok :: "(string \<Rightarrow> (string \<Rightarrow> bool) option) \<Rightarrow> HookInventory \<Rightarrow> string \<Rightarrow> (string \<times> string) list \<Rightarrow> bool" where
  "hooks_ok rx inventory pluginID hashes \<longleftrightarrow>
     TrimSpace (hi_CWD inventory) \<noteq> [] \<and> hi_Errors inventory \<in> {None, Some []} \<and> hi_Warnings inventory \<in> {None, Some []} \<and>
     pluginID \<noteq> [] \<and> hashes \<noteq> [] \<and>
     list_all (\<lambda>h. if \<not> ho_Enabled h then True else if isDoneThen pluginID h then own_hook_ok hashes h else other_hook_ok rx h)
       (hi_Hooks inventory) \<and>
     list_all (\<lambda>key. expected_count pluginID inventory key = 1) (map fst hashes)"

lemma own_hook_reasons_Nil: "own_hook_reasons hashes h = [] \<longleftrightarrow> own_hook_ok hashes h"
  by (auto simp: own_hook_reasons_def own_hook_ok_def split: option.splits)

lemma other_hook_reasons_Nil: "other_hook_reasons rx h = [] \<longleftrightarrow> other_hook_ok rx h"
  by (auto simp: other_hook_reasons_def other_hook_ok_def)

lemma missing_reasons_Nil: "missing_reasons pluginID inventory key = [] \<longleftrightarrow> expected_count pluginID inventory key = 1"
  by (simp add: missing_reasons_def)

text \<open>An expected key that occurs makes the hooks of the plugin present.\<close>

lemma expected_present:
  assumes "hashes \<noteq> []" and "list_all (\<lambda>key. expected_count pluginID inventory key = 1) (map fst hashes)"
  shows "filter (\<lambda>h. ho_Enabled h \<and> isDoneThen pluginID h) (hi_Hooks inventory) \<noteq> []"
proof -
  obtain key where "expected_count pluginID inventory key = 1"
    using assms by (cases hashes) auto
  then show ?thesis by (auto simp: expected_count_def filter_empty_conv dest!: arg_cong [where f = "\<lambda>n. 0 < n"])
qed

text \<open>
  The hook decision is exactly the installed policy: an inventory is compatible if and only if it is
  of a workspace and free of errors and warnings, every installed hook is there exactly once, enabled,
  trusted and with the installed hash, and no other enabled hook can interfere.
\<close>

theorem compatible_iff_policy:
  "hd_Compatible (EvaluateHooks rx inventory pluginID hashes) = hooks_ok rx inventory pluginID hashes"
proof -
  have h: "hook_reasons rx pluginID hashes h = [] \<longleftrightarrow>
      (if \<not> ho_Enabled h then True else if isDoneThen pluginID h then own_hook_ok hashes h else other_hook_ok rx h)" for h
    by (simp add: hook_reasons_def own_hook_reasons_Nil other_hook_reasons_Nil)
  show ?thesis
    using expected_present [of hashes pluginID inventory]
    unfolding EvaluateHooks_def hooks_ok_def Let_def list_all_iff
    by (simp add: h missing_reasons_Nil concat_eq_Nil_conv) blast
qed

subsection \<open>The fingerprint\<close>

lemma map_sort_key: "map f (sort_key f xs) = sort (map f xs)"
  by (rule sym, rule properties_for_sort) simp_all

text \<open>The items of an array, as the text of each joined by commas.\<close>

fun joined :: "string list \<Rightarrow> string" where
  "joined [] = []"
| "joined [s] = s"
| "joined (s # t # ss) = s @ '','' @ joined (t # ss)"

lemma json_items_joined: "json_items js = joined (map json_render js)"
  by (induction js rule: induct_list012) auto

text \<open>
  The hook fingerprint does not depend on the order in which the host lists the hooks: two
  inventories with the same workspace, errors and warnings and the same hooks in any order have the same
  fingerprint.
\<close>

theorem fingerprint_any_order:
  assumes "mset (hi_Hooks a) = mset (hi_Hooks b)" "hi_CWD a = hi_CWD b" "hi_Errors a = hi_Errors b" "hi_Warnings a = hi_Warnings b"
  shows "hookFingerprint a = hookFingerprint b"
proof -
  let ?r = "\<lambda>h. json_render (hook_json h)"
  have "mset (map ?r (hi_Hooks a)) = mset (map ?r (hi_Hooks b))" using assms(1) by simp
  then have "sort (map ?r (hi_Hooks a)) = sort (map ?r (hi_Hooks b))"
    by (intro properties_for_sort) (simp_all del: mset_map)
  then have "map json_render (map hook_json (sort_key ?r (hi_Hooks a))) = map json_render (map hook_json (sort_key ?r (hi_Hooks b)))"
    using map_sort_key [of ?r] by (simp add: comp_def)
  then have "json_items (map hook_json (sort_key ?r (hi_Hooks a))) = json_items (map hook_json (sort_key ?r (hi_Hooks b)))"
    by (simp add: json_items_joined)
  then show ?thesis
    using assms(2-) by (simp add: hookFingerprint_def Let_def)
qed

definition sample_hook :: "string \<Rightarrow> Hook" where
  "sample_hook key = \<lparr>ho_Command = None, ho_CurrentHash = ''h'', ho_DisplayOrder = 0, ho_Enabled = True, ho_EventName = ''Stop'',
     ho_HandlerType = ''command'', ho_IsManaged = False, ho_Key = key, ho_Matcher = None, ho_PluginID = Some ''p'',
     ho_Source = ''plugin'', ho_SourcePath = [], ho_TimeoutSec = 5, ho_TrustStatus = ''trusted'', ho_StatusMessage = None\<rparr>"

definition sample_inventory :: "Hook list \<Rightarrow> HookInventory" where
  "sample_inventory hooks = \<lparr>hi_CWD = ''/work'', hi_Errors = Some [], hi_Hooks = hooks, hi_Warnings = None\<rparr>"

theorem fingerprint_any_order_witness:
  "hookFingerprint (sample_inventory [sample_hook ''a'', sample_hook ''b'']) =
   hookFingerprint (sample_inventory [sample_hook ''b'', sample_hook ''a''])"
  by (rule fingerprint_any_order) (simp_all add: sample_inventory_def)

subsection \<open>The event tracker\<close>

text \<open>What a notification says: a thread was seen, a turn completed, a hook run started, ended or failed.\<close>

definition says_turn :: "Notification \<Rightarrow> string \<Rightarrow> string \<Rightarrow> bool" where
  "says_turn n t u \<longleftrightarrow> no_Method n = ''turn/completed'' \<and> t \<noteq> [] \<and> u \<noteq> [] \<and>
     no_Turn n = Some (t, \<lparr>tu_ID = u, tu_Status = ''completed''\<rparr>)"

definition run_event :: "string \<Rightarrow> Notification \<Rightarrow> string \<Rightarrow> string \<Rightarrow> string \<Rightarrow> bool" where
  "run_event method n t r st \<longleftrightarrow> no_Method n = method \<and> t \<noteq> [] \<and> r \<noteq> [] \<and> st \<noteq> [] \<and> no_Run n = Some (t, r, st)"

definition running :: "Notification list \<Rightarrow> string \<Rightarrow> string \<Rightarrow> bool" where
  "running ns t r \<longleftrightarrow> (\<exists>xs n ys st. ns = xs @ n # ys \<and> run_event ''hook/started'' n t r st \<and>
     (\<forall>m \<in> set ys. \<forall>st. \<not> run_event ''hook/completed'' m t r st))"

lemma running_Nil [simp]: "\<not> running [] t r"
  by (simp add: running_def)

lemma running_snoc:
  "running (ns @ [m]) t r \<longleftrightarrow> (\<exists>st. run_event ''hook/started'' m t r st) \<or>
     running ns t r \<and> (\<forall>st. \<not> run_event ''hook/completed'' m t r st)" (is "?l = ?r")
proof
  assume ?l
  then obtain xs n ys st where *: "ns @ [m] = xs @ n # ys" "run_event ''hook/started'' n t r st"
      "\<forall>m \<in> set ys. \<forall>st. \<not> run_event ''hook/completed'' m t r st"
    by (auto simp: running_def)
  show ?r
  proof (cases ys rule: rev_cases)
    case (snoc zs z)
    then have "ns = xs @ n # zs" "z = m" using *(1) by (simp_all flip: append_Cons append_assoc)
    then show ?thesis using * snoc unfolding running_def by fastforce
  qed (use * in auto)
next
  assume ?r
  then show ?l
  proof
    assume "\<exists>st. run_event ''hook/started'' m t r st"
    then show ?l unfolding running_def by fastforce
  next
    assume r: "running ns t r \<and> (\<forall>st. \<not> run_event ''hook/completed'' m t r st)"
    then obtain xs n ys st where *: "ns = xs @ n # ys" "run_event ''hook/started'' n t r st"
        "\<forall>m \<in> set ys. \<forall>st. \<not> run_event ''hook/completed'' m t r st"
      by (auto simp: running_def)
    have "ns @ [m] = xs @ n # (ys @ [m])" using * by simp
    moreover have "\<forall>k \<in> set (ys @ [m]). \<forall>st. \<not> run_event ''hook/completed'' k t r st"
      using * r by auto
    ultimately show ?l using *(2) unfolding running_def by blast
  qed
qed

lemma entries_update [simp]: "entries (AList.update t xs m) u = (if u = t then xs else entries m u)"
  by (simp add: entries_def update_conv')

lemma distinct_insert_entry: "distinct xs \<Longrightarrow> distinct (List.insert x xs)"
  by simp

text \<open>The tracker after some notifications: the lists are sets, and they are the right ones.\<close>

definition tracks :: "Notification list \<Rightarrow> eventTracker \<Rightarrow> bool" where
  "tracks ns e \<longleftrightarrow>
     (\<forall>t. distinct (entries (et_completedTurns e) t) \<and> distinct (entries (et_runningHooks e) t) \<and>
        set (entries (et_completedTurns e) t) = {u. \<exists>n \<in> set ns. says_turn n t u} \<and>
        set (entries (et_runningHooks e) t) = {r. running ns t r})"

lemma tracks_new: "tracks [] newEventTracker"
  by (simp add: tracks_def newEventTracker_def entries_def)

lemma see_simps [simp]:
  "et_completedTurns (see t e) = et_completedTurns e" "et_runningHooks (see t e) = et_runningHooks e"
  by (simp_all add: see_def)

lemma completed_after:
  "et_completedTurns (observe_notification n e) =
     (if no_Method n = ''turn/completed'' then
        (case no_Turn n of
           None \<Rightarrow> et_completedTurns e
         | Some (t, turn) \<Rightarrow>
             if t \<noteq> [] \<and> tu_ID turn \<noteq> [] \<and> tu_Status turn = ''completed'' then
               AList.update t (List.insert (tu_ID turn) (entries (et_completedTurns e) t)) (et_completedTurns e)
             else et_completedTurns e)
      else et_completedTurns e)"
proof (cases "no_Method n = ''turn/completed''")
  case True
  then show ?thesis
    by (cases "no_Turn n") (auto simp: observe_notification_def Let_def)
next
  case False
  then show ?thesis
    by (simp add: observe_notification_def Let_def split: option.split)
qed

lemma running_after:
  "et_runningHooks (observe_notification n e) =
     (case no_Run n of
        None \<Rightarrow> et_runningHooks e
      | Some (t, run, status) \<Rightarrow>
          if t = [] \<or> run = [] \<or> status = [] then et_runningHooks e
          else if no_Method n = ''hook/started'' then
            AList.update t (List.insert run (entries (et_runningHooks e) t)) (et_runningHooks e)
          else if no_Method n = ''hook/completed'' then
            AList.update t (removeAll run (entries (et_runningHooks e) t)) (et_runningHooks e)
          else et_runningHooks e)"
proof (cases "no_Method n = ''hook/started'' \<or> no_Method n = ''hook/completed''")
  case True
  then show ?thesis
    by (cases "no_Run n") (auto simp: observe_notification_def Let_def)
next
  case False
  then show ?thesis
    by (simp add: observe_notification_def Let_def split: option.split)
qed


lemma completed_distinct:  "distinct (entries (et_completedTurns e) t) \<Longrightarrow> distinct (entries (et_completedTurns (observe_notification n e)) t)"
  unfolding completed_after by (simp split: option.split)

lemma running_distinct:  "distinct (entries (et_runningHooks e) t) \<Longrightarrow> distinct (entries (et_runningHooks (observe_notification n e)) t)"
  unfolding running_after by (simp add: distinct_removeAll split: option.split)

lemma completed_set:  "set (entries (et_completedTurns (observe_notification n e)) t) = set (entries (et_completedTurns e) t) \<union> {u. says_turn n t u}"
proof (cases "\<exists>u tu. no_Method n = ''turn/completed'' \<and> no_Turn n = Some (u, tu) \<and> u \<noteq> [] \<and> tu_ID tu \<noteq> [] \<and> tu_Status tu = ''completed''")
  case True
  then obtain u tu where *: "no_Method n = ''turn/completed''" "no_Turn n = Some (u, tu)" "u \<noteq> []" "tu_ID tu \<noteq> []" "tu_Status tu = ''completed''"
    by blast
  have "says_turn n t x \<longleftrightarrow> t = u \<and> x = tu_ID tu" for x
    using * by (cases tu) (auto simp: says_turn_def)
  then show ?thesis unfolding completed_after using * by simp
next
  case False
  then have "\<not> says_turn n t x" for x by (fastforce simp: says_turn_def)
  moreover have "et_completedTurns (observe_notification n e) = et_completedTurns e"
    using False unfolding completed_after by (simp split: option.split) blast
  ultimately show ?thesis by simp
qed

lemma running_set: "set (entries (et_runningHooks (observe_notification n e)) t) =
     {r. (\<exists>st. run_event ''hook/started'' n t r st) \<or>
         r \<in> set (entries (et_runningHooks e) t) \<and> (\<forall>st. \<not> run_event ''hook/completed'' n t r st)}"
proof (cases "no_Run n")
  case None
  then show ?thesis by (simp add: running_after run_event_def)
next
  case (Some p)
  obtain u r st where [simp]: "p = (u, r, st)" by (cases p)
  show ?thesis
  proof (cases "t = u \<and> t \<noteq> [] \<and> r \<noteq> [] \<and> st \<noteq> []")
    case True
    then show ?thesis using Some by (auto simp: running_after run_event_def)
  next
    case False
    then show ?thesis using Some by (auto simp: running_after run_event_def)
  qed
qed

lemma tracks_observe: "tracks ns e \<Longrightarrow> tracks (ns @ [n]) (observe_notification n e)"
  unfolding tracks_def completed_set running_set running_snoc
  by (auto intro: completed_distinct running_distinct)

lemma tracks_fold: "tracks ns (fold observe_notification ns newEventTracker)"
  by (induction ns rule: rev_induct) (simp_all add: tracks_new tracks_observe)

text \<open>
  The tracker reports of a thread exactly what the notifications said: the completed turns, sorted and
  each once, and the number of the hook runs that were started and have not ended since.
\<close>

theorem tracker_reports:
  "set (te_completedTurnIDs (tracker_snapshot (fold observe_notification ns newEventTracker) t)) =
     {u. \<exists>n \<in> set ns. says_turn n t u} \<and>
   sorted (te_completedTurnIDs (tracker_snapshot (fold observe_notification ns newEventTracker) t)) \<and>
   distinct (te_completedTurnIDs (tracker_snapshot (fold observe_notification ns newEventTracker) t)) \<and>
   te_incompleteHookCount (tracker_snapshot (fold observe_notification ns newEventTracker) t) = card {r. running ns t r}"
  using tracks_fold [of ns] unfolding tracks_def tracker_snapshot_def
  by (simp add: distinct_card flip: distinct_card)

subsection \<open>The cost of a snapshot\<close>

lemma wp_rpc [simp]: "wp (rpc f) Q s = Q (f (as_calls s)) (s\<lparr>as_calls := Suc (as_calls s)\<rparr>)"
  by (simp add: rpc_def)

lemma wp_drain [simp]:
  "wp (drainNotifications a) Q s =
     Q () (s\<lparr>as_events := fold observe_notification (hc_Notifications (ad_client a) (as_calls s)) (as_events s)\<rparr>)"
  by (simp add: drainNotifications_def)

text \<open>Every program below only adds to the number of calls, by at most a bound.\<close>

definition costs :: "nat \<Rightarrow> 'a aop \<Rightarrow> bool" where
  "costs n m \<longleftrightarrow> (\<forall>s. wp m (\<lambda>_ s'. as_calls s' \<le> as_calls s + n) s)"

named_theorems costs_rules

lemma costs_ret [costs_rules]: "costs n (ret r)"
  by (simp add: costs_def)

lemma costs_get [costs_rules]: "costs 0 State_Monad.get"
  by (simp add: costs_def)

lemma costs_rpc [costs_rules]: "costs 1 (rpc f)"
  by (simp add: costs_def)

lemma costs_drain [costs_rules]: "costs 0 (drainNotifications a)"
  by (simp add: costs_def)

lemma costs_more: "costs n m \<Longrightarrow> n \<le> k \<Longrightarrow> costs k m"
  unfolding costs_def by (meson add_left_mono order_trans wp_mono)

lemma costs_bind [costs_rules]:
  assumes "costs n m" and "\<And>r. costs k (f r)"
  shows "costs (n + k) (m \<bind> f)"
  unfolding costs_def wp_bind
proof (intro allI)
  fix s :: adapter_state
  have step: "wp (f r) (\<lambda>_ s''. as_calls s'' \<le> as_calls s + (n + k)) s'" if "as_calls s' \<le> as_calls s + n" for r s'
    by (rule wp_mono [of "f r" "\<lambda>_ s''. as_calls s'' \<le> as_calls s' + k"])
       (use assms(2) that in \<open>auto simp: costs_def\<close>)
  show "wp m (\<lambda>r. wp (f r) (\<lambda>_ s'. as_calls s' \<le> as_calls s + (n + k))) s"
    using assms(1) unfolding costs_def by (blast intro: wp_mono step)
qed

lemma costs_Suc: "costs 1 m \<Longrightarrow> (\<And>r. costs n (f r)) \<Longrightarrow> costs (Suc n) (m \<bind> f)"
  using costs_bind [of 1 m n f] by simp

lemma costs_if [costs_rules]: "costs n m \<Longrightarrow> costs n k \<Longrightarrow> costs n (if b then m else k)"
  by simp

lemma costs_sum [costs_rules]:
  "(\<And>e. costs n (m e)) \<Longrightarrow> (\<And>y. costs n (k y)) \<Longrightarrow> costs n (case x of Inl e \<Rightarrow> m e | Inr y \<Rightarrow> k y)"
  by (cases x) simp_all

lemma costs_option [costs_rules]:
  "costs n m \<Longrightarrow> (\<And>y. costs n (k y)) \<Longrightarrow> costs n (case x of None \<Rightarrow> m | Some y \<Rightarrow> k y)"
  by (cases x) simp_all

lemma costs_prod [costs_rules]: "(\<And>y z. costs n (k y z)) \<Longrightarrow> costs n (case x of (y, z) \<Rightarrow> k y z)"
  by (cases x) simp

lemma costs_loaded: "costs n (loaded_pages n a c ids sc)"
  by (induction n arbitrary: c ids sc) (auto intro!: costs_rules costs_Suc simp del: take_ids.simps)

lemma costs_terminals: "costs n (terminal_pages n a t c k sc)"
  by (induction n arbitrary: c k sc) (auto intro!: costs_rules costs_Suc)

lemma costs_descendants: "costs n (descendant_pages n a t c ts sc)"
  by (induction n arbitrary: c ts sc) (auto intro!: costs_rules costs_Suc simp del: take_threads.simps)

lemma costs_readThread: "costs 1 (readThread a t b)"
  unfolding readThread_def by (rule costs_more, rule costs_bind [OF costs_rpc costs_ret, of 0]) simp

lemma costs_read_loaded: "costs (length ids) (read_loaded a t ids p)"
proof (induction ids arbitrary: p)
  case (Cons i ids)
  show ?case
    unfolding read_loaded.simps length_Cons
    by (intro costs_Suc costs_readThread costs_sum Cons.IH)
qed (simp add: costs_ret)

lemma costsD: "costs n m \<Longrightarrow> (\<And>r s'. as_calls s' \<le> as_calls s + n \<Longrightarrow> Q r s') \<Longrightarrow> wp m Q s"
  unfolding costs_def by (blast intro: wp_mono)

text \<open>
  A snapshot costs a bounded number of calls, whatever the App Server answers: at most 16 pages for
  each of the three lists, one read for each of at most 256 loaded threads, the hooks and the event loss.
\<close>

theorem snapshot_bounded:
  "wp (adapter_Snapshot a t cwd) (\<lambda>_ s'. as_calls s' \<le> as_calls s + (3 * maxInventoryPages + maxInventoryThreads + 2)) s"
  unfolding adapter_Snapshot_def loadedThreadIDs_def backgroundTerminalCount_def descendants_def
  by (intro wp_intros costsD [OF costs_loaded] costsD [OF costs_read_loaded] costsD [OF costs_terminals]
      costsD [OF costs_descendants]) (auto intro!: costsD [OF costs_loaded] costsD [OF costs_read_loaded] costsD [OF costs_terminals]
      costsD [OF costs_descendants] split: sum.split)

subsection \<open>The final gate\<close>

text \<open>What a snapshot says of the target as long as the inventory is complete.\<close>

definition target_read :: "string \<Rightarrow> bool \<times> Snapshot \<Rightarrow> bool" where
  "target_read tid p \<longleftrightarrow> (case p of (found, s) \<Rightarrow>
     (found \<longrightarrow> th_ID (sn_Target s) = tid) \<and>
     (sn_InventoryComplete s \<longrightarrow> (\<forall>t \<in> set (sn_LoadedThreads s). th_ID t = tid \<longrightarrow> found \<and> t = sn_Target s)))"

lemma incomplete_simps [simp]:
  "sn_InventoryComplete (incomplete r s) = False" "sn_Target (incomplete r s) = sn_Target s"
  "sn_LoadedThreads (incomplete r s) = sn_LoadedThreads s" "sn_DescendantThreads (incomplete r s) = sn_DescendantThreads s"
  "sn_SameHostProven (incomplete r s) = sn_SameHostProven s" "sn_Hooks (incomplete r s) = sn_Hooks s"
  "sn_HookDecision (incomplete r s) = sn_HookDecision s" "sn_EventLossDetected (incomplete r s) = sn_EventLossDetected s"
  "sn_BackgroundTerminalCount (incomplete r s) = sn_BackgroundTerminalCount s"
  by (simp_all add: incomplete_def)

lemma target_read_add:
  "target_read tid p \<Longrightarrow> th_ID t = i \<Longrightarrow> target_read tid (add_thread tid i t p)"
  by (cases p) (auto simp: target_read_def add_thread_def Let_def)

lemma wp_readThread:
  "(\<And>e s'. Q (Inl e) s') \<Longrightarrow> (\<And>t s'. th_ID t = i \<Longrightarrow> Q (Inr t) s') \<Longrightarrow> wp (readThread a i b) Q s"
  by (simp add: readThread_def split: sum.split)

lemma target_read_incomplete: "target_read tid p \<Longrightarrow> target_read tid (fst p, incomplete r (snd p))"
  by (cases p) (simp add: target_read_def)

lemma read_loaded_target: "target_read tid p \<Longrightarrow> wp (read_loaded a tid ids p) (\<lambda>r _. target_read tid r) s"
proof (induction ids arbitrary: p s)
  case (Cons i ids)
  show ?case
    unfolding read_loaded.simps
    by (intro wp_intros wp_readThread) (auto intro!: wp_intros Cons.IH target_read_add target_read_incomplete Cons.prems)
qed simp

text \<open>The later stages only add to the snapshot, and never make it complete again.\<close>

lemma judge_simps [simp]:
  "sn_Target (judge_target a tid cwd f s) = sn_Target s" "sn_LoadedThreads (judge_target a tid cwd f s) = sn_LoadedThreads s"
  "sn_InventoryComplete (judge_target a tid cwd f s) = sn_InventoryComplete s"
  "sn_SameHostProven (judge_target a tid cwd f s) \<longleftrightarrow> SameHostVerified (ad_binding a) \<and> f \<and>
     WorkspacePathMatches (th_CWD (sn_Target s)) cwd \<and> th_ID (sn_Target s) = tid \<and> status_IsKnown (th_Status (sn_Target s))"
  by (auto simp: judge_target_def Let_def)

lemma stage_simps [simp]:
  "sn_Target (add_terminals r s) = sn_Target s" "sn_LoadedThreads (add_terminals r s) = sn_LoadedThreads s"
  "sn_SameHostProven (add_terminals r s) = sn_SameHostProven s"
  "sn_Target (add_descendants tid q s) = sn_Target s" "sn_LoadedThreads (add_descendants tid q s) = sn_LoadedThreads s"
  "sn_SameHostProven (add_descendants tid q s) = sn_SameHostProven s"
  "sn_Target (add_events l e s) = sn_Target s" "sn_LoadedThreads (add_events l e s) = sn_LoadedThreads s"
  "sn_SameHostProven (add_events l e s) = sn_SameHostProven s" "sn_Hooks (add_events l e s) = sn_Hooks s"
  "sn_HookDecision (add_events l e s) = sn_HookDecision s" "sn_DescendantThreads (add_events l e s) = sn_DescendantThreads s"
  "sn_CompletedTurnIDs (add_events l e s) = te_completedTurnIDs e"
  by (auto simp: add_terminals_def add_descendants_def add_events_def Let_def incomplete_def split: sum.splits)

lemma stage_complete:
  "sn_InventoryComplete (add_terminals r s) \<Longrightarrow> sn_InventoryComplete s"
  "sn_InventoryComplete (add_descendants tid q s) \<Longrightarrow> sn_InventoryComplete s"
  "sn_InventoryComplete (add_events l e s) \<Longrightarrow> sn_InventoryComplete s"
  by (auto simp: add_terminals_def add_descendants_def add_events_def Let_def split: sum.splits if_splits)

lemma hooks_complete:
  assumes "sn_InventoryComplete (add_hooks a cwd data s)"
  obtains inventory where "data = [inventory]" "sn_InventoryComplete s" "WorkspacePathMatches (hi_CWD inventory) cwd"
    "add_hooks a cwd data s = s\<lparr>sn_Hooks := inventory,
       sn_HookDecision := EvaluateHooks (ad_regexp a) inventory (ad_expectedPluginID a) (ad_expectedHashes a)\<rparr>"
  using assms by (auto simp: add_hooks_def Let_def split: list.splits if_splits)

text \<open>What the final gate stands for.\<close>

definition gate :: "Adapter \<Rightarrow> string \<Rightarrow> string \<Rightarrow> string \<Rightarrow> Snapshot \<Rightarrow> bool" where
  "gate a tid cwd turn s \<longleftrightarrow>
     SameHostVerified (ad_binding a) \<and> th_ID (sn_Target s) = tid \<and> WorkspacePathMatches (th_CWD (sn_Target s)) cwd \<and>
     list_all (\<lambda>t. status_IsIdle (th_Status t)) (sn_Target s # sn_LoadedThreads s @ sn_DescendantThreads s) \<and>
     LastTurn (sn_Target s) = Some \<lparr>tu_ID = turn, tu_Status = ''completed''\<rparr> \<and> turn \<in> set (sn_CompletedTurnIDs s) \<and>
     WorkspacePathMatches (hi_CWD (sn_Hooks s)) cwd \<and>
     hooks_ok (ad_regexp a) (sn_Hooks s) (ad_expectedPluginID a) (ad_expectedHashes a)"

lemma ready_facts:
  assumes "ReadyForFinalGate s turn"
  shows "sn_SameHostProven s" "sn_InventoryComplete s" "hd_Compatible (sn_HookDecision s)"
    "status_IsIdle (th_Status (sn_Target s))" "LastTurn (sn_Target s) = Some \<lparr>tu_ID = turn, tu_Status = ''completed''\<rparr>"
    "turn \<in> set (sn_CompletedTurnIDs s)" "list_all (\<lambda>t. status_IsIdle (th_Status t)) (sn_DescendantThreads s)"
    "list_all (\<lambda>t. th_ID t = th_ID (sn_Target s) \<or> status_IsIdle (th_Status t)) (sn_LoadedThreads s)"
proof -
  obtain l where "LastTurn (sn_Target s) = Some l" "tu_ID l = turn" "tu_Status l = ''completed''"
    using assms by (auto simp: ReadyForFinalGate_def split: if_splits option.splits)
  then show "LastTurn (sn_Target s) = Some \<lparr>tu_ID = turn, tu_Status = ''completed''\<rparr>" by (cases l) simp
qed (use assms in \<open>auto simp: ReadyForFinalGate_def list_ex_iff list_all_iff split: if_splits option.splits\<close>)

lemma ready_gate:
  assumes "target_read tid (f, s0)"
    and s: "s = add_events l e (add_hooks a cwd data (add_descendants tid q (add_terminals r (judge_target a tid cwd f s0))))"
    and ready: "ReadyForFinalGate s turn"
  shows "gate a tid cwd turn s"
proof -
  note f = ready_facts [OF ready]
  have "sn_InventoryComplete (add_hooks a cwd data (add_descendants tid q (add_terminals r (judge_target a tid cwd f s0))))"
    using f(2) stage_complete(3) unfolding s by blast
  then obtain inventory where h: "WorkspacePathMatches (hi_CWD inventory) cwd"
      "sn_InventoryComplete (add_descendants tid q (add_terminals r (judge_target a tid cwd f s0)))"
      "add_hooks a cwd data (add_descendants tid q (add_terminals r (judge_target a tid cwd f s0))) =
       (add_descendants tid q (add_terminals r (judge_target a tid cwd f s0)))\<lparr>sn_Hooks := inventory,
         sn_HookDecision := EvaluateHooks (ad_regexp a) inventory (ad_expectedPluginID a) (ad_expectedHashes a)\<rparr>"
    by (rule hooks_complete) blast
  have same: "sn_Target s = sn_Target s0" "sn_LoadedThreads s = sn_LoadedThreads s0" "sn_Hooks s = inventory"
    "sn_HookDecision s = EvaluateHooks (ad_regexp a) inventory (ad_expectedPluginID a) (ad_expectedHashes a)"
    unfolding s h(3) by simp_all
  have p: "SameHostVerified (ad_binding a)" "f" "WorkspacePathMatches (th_CWD (sn_Target s0)) cwd" "th_ID (sn_Target s0) = tid"
    using f(1) unfolding s h(3) by simp_all
  have "sn_InventoryComplete s0"
    using h(2) stage_complete(1,2) judge_simps(3) by blast
  then have "list_all (\<lambda>t. status_IsIdle (th_Status t)) (sn_LoadedThreads s)"
    using assms(1) f(4,8) p(4) unfolding same target_read_def list_all_iff by fastforce
  then show ?thesis
    using f p h(1) unfolding gate_def same by (simp add: compatible_iff_policy)
qed

text \<open>
  C19: A snapshot that passes the final gate for a turn means what the gate is for: the connection is
  attached to the same host, the target thread is the requested one in the requested workspace, it and every
  other loaded or descendant thread is idle, its last turn is the given one and its completion was
  observed, and the effective hooks of that workspace are exactly the installed ones.
\<close>

theorem final_gate_sound:
  "wp (adapter_Snapshot a tid cwd) (\<lambda>r _. case r of Inl _ \<Rightarrow> True
     | Inr s \<Rightarrow> (if ReadyForFinalGate s turn then gate a tid cwd turn s else True)) st"
proof -
  have init: "target_read tid (False, empty_snapshot now h)" for now h
    by (simp add: target_read_def empty_snapshot_def)
  have all: "(\<And>r s'. wp (k r) Q s') \<Longrightarrow> wp (m \<bind> k) Q s" for m k Q and s :: adapter_state
    by (simp add: wp_any)
  have read: "(\<And>f s s'. target_read tid (f, s) \<Longrightarrow> wp (k f s) Q s') \<Longrightarrow>
      wp (read_loaded a tid ids (False, empty_snapshot n h) \<bind> (\<lambda>(f, s). k f s)) Q s'" for k Q ids n h s'
    by (intro wp_bindI wp_mono [OF read_loaded_target [OF init]]) auto
  show ?thesis
    unfolding adapter_Snapshot_def
    by (intro wp_ifI wp_retI read all wp_sumI) (auto intro: ready_gate)
qed

end
