(* ===== verification/Go_Trace.thy ===== *)
theory Go_Trace
  imports Go_World
begin

text \<open>
  Programs that talk to interfaces besides the disk: a backend, a lock, a clock for waiting, a peer. The
  interfaces are parameters. Their \<open>n\<close>-th answer may depend on everything before it, so an interface is a
  function of the position in the log of what was asked; the log keeps the answers too.
\<close>

subsection \<open>Traced worlds\<close>

record ('d, 'e) traced =
  pw_world :: "'d world"
  pw_log :: "'e list"

type_synonym ('d, 'e, 'a) tprog = "(('d, 'e) traced, 'a) state"

definition store :: "('d world, 'a) state \<Rightarrow> ('d, 'e, 'a) tprog" where
  "store m = do {
     s \<leftarrow> State_Monad.get;
     let (r, w) = run_state m (pw_world s);
     State_Monad.set (s\<lparr>pw_world := w\<rparr>);
     ret r }"

definition ask :: "('a \<Rightarrow> 'e) \<Rightarrow> (nat \<Rightarrow> 'a) \<Rightarrow> ('d, 'e, 'a) tprog" where
  "ask ev f = do {
     s \<leftarrow> State_Monad.get;
     let r = f (length (pw_log s));
     State_Monad.set (s\<lparr>pw_log := pw_log s @ [ev r]\<rparr>);
     ret r }"

text \<open>A call of the store that is kept in the log, with its answer.\<close>

definition noted :: "('a \<Rightarrow> 'e) \<Rightarrow> ('d world, 'a) state \<Rightarrow> ('d, 'e, 'a) tprog" where
  "noted ev m = do {
     r \<leftarrow> store m;
     s \<leftarrow> State_Monad.get;
     State_Monad.set (s\<lparr>pw_log := pw_log s @ [ev r]\<rparr>);
     ret r }"

text \<open>\<open>and_then\<close> is the sequence of two checks.\<close>

definition and_then :: "('s, 'r option) state \<Rightarrow> ('s, 'r + 'a) state \<Rightarrow> ('s, 'r + 'a) state" where
  "and_then check k = do { r \<leftarrow> check; case r of Some x \<Rightarrow> ret (Inl x) | None \<Rightarrow> k }"

lemma wp_store [simp]: "wp (store m) Q s = wp m (\<lambda>r w. Q r (s\<lparr>pw_world := w\<rparr>)) (pw_world s)"
  by (simp add: store_def wp_def split: prod.splits)

lemma wp_ask [simp]:
  "wp (ask ev f) Q s = Q (f (length (pw_log s))) (s\<lparr>pw_log := pw_log s @ [ev (f (length (pw_log s)))]\<rparr>)"
  by (simp add: ask_def Let_def)

lemmas wp_branches = wp_retI wp_ifI wp_or_returnI wp_optionI wp_sumI wp_prodI wp_LetI

lemma wp_all: "(\<And>r s'. wp (f r) Q s') \<Longrightarrow> wp (m \<bind> f) Q s"
  by (simp add: wp_any)

lemma wp_and_then_all: "(\<And>x s'. Q (Inl x) s') \<Longrightarrow> (\<And>s'. wp k Q s') \<Longrightarrow> wp (and_then m k) Q s"
  unfolding and_then_def by (intro wp_all wp_branches)

lemma wp_store_then: "(\<And>r w. wp (k r) Q (s\<lparr>pw_world := w\<rparr>)) \<Longrightarrow> wp (store m \<bind> k) Q s"
  by (simp add: wp_any)

lemma wp_ask_then:
  "(\<And>r. wp (k r) Q (s\<lparr>pw_log := pw_log s @ [ev r]\<rparr>)) \<Longrightarrow> wp (ask ev f \<bind> k) Q s"
  by simp

subsection \<open>Steps along a preorder\<close>

text \<open>
  Programs that only move along a preorder \<open>R\<close> of states: the rules say that every construct
  does when its parts do.
\<close>

definition steps :: "('s \<Rightarrow> 's \<Rightarrow> bool) \<Rightarrow> ('s, 'a) state \<Rightarrow> bool" where
  "steps R m \<longleftrightarrow> (\<forall>s. wp m (\<lambda>_ s'. R s s') s)"

named_theorems quiet_rules

lemma stepsD: "steps R m \<Longrightarrow> wp m (\<lambda>_ s'. R s s') s"
  by (simp add: steps_def)

lemma steps_if [quiet_rules]: "(b \<Longrightarrow> steps R m) \<Longrightarrow> (\<not> b \<Longrightarrow> steps R k) \<Longrightarrow> steps R (if b then m else k)"
  by simp

lemma steps_option [quiet_rules]:
  "(x = None \<Longrightarrow> steps R m) \<Longrightarrow> (\<And>y. x = Some y \<Longrightarrow> steps R (k y)) \<Longrightarrow>
     steps R (case x of None \<Rightarrow> m | Some y \<Rightarrow> k y)"
  by (cases x) simp_all

lemma steps_sum [quiet_rules]:
  "(\<And>e. x = Inl e \<Longrightarrow> steps R (m e)) \<Longrightarrow> (\<And>y. x = Inr y \<Longrightarrow> steps R (k y)) \<Longrightarrow>
     steps R (case x of Inl e \<Rightarrow> m e | Inr y \<Rightarrow> k y)"
  by (cases x) simp_all

lemma steps_prod [quiet_rules]: "(\<And>a b. x = (a, b) \<Longrightarrow> steps R (k a b)) \<Longrightarrow> steps R (case x of (a, b) \<Rightarrow> k a b)"
  by (cases x) simp

lemma steps_Let [quiet_rules]: "(\<And>x. x = v \<Longrightarrow> steps R (k x)) \<Longrightarrow> steps R (let x = v in k x)"
  by simp

locale journey =
  fixes R :: "'s \<Rightarrow> 's \<Rightarrow> bool"
  assumes stay: "R s s" and onward: "R s s' \<Longrightarrow> R s' s'' \<Longrightarrow> R s s''"
begin

lemma steps_ret [quiet_rules]: "steps R (ret r)"
  by (simp add: steps_def stay)

lemma steps_bind [quiet_rules]:
  assumes "steps R m" and "\<And>r. steps R (f r)"
  shows "steps R (m \<bind> f)"
  unfolding steps_def wp_bind
proof
  fix s
  have next_step: "wp (f r) (\<lambda>_ s''. R s s'') s'" if "R s s'" for r s'
    by (rule wp_mono [OF stepsD [OF assms(2)]]) (rule onward [OF that])
  show "wp m (\<lambda>r. wp (f r) (\<lambda>_. R s)) s"
    by (rule wp_mono [OF stepsD [OF assms(1)]]) (rule next_step)
qed

lemma steps_or_return [quiet_rules]: "steps R k \<Longrightarrow> steps R (or_return e r k)"
  by (cases e) (simp_all add: or_return_def steps_ret)

lemma steps_and_then [quiet_rules]: "steps R m \<Longrightarrow> steps R k \<Longrightarrow> steps R (and_then m k)"
  unfolding and_then_def by (intro steps_bind steps_option steps_ret)

end

lemma steps_mono: "steps R m \<Longrightarrow> (\<And>s s'. R s s' \<Longrightarrow> S s s') \<Longrightarrow> steps S m"
  unfolding steps_def by (blast intro: wp_mono)

subsection \<open>What is in the log\<close>

text \<open>An effect that was added to the log of \<open>s\<close>.\<close>

definition logged :: "('d, 'e) traced \<Rightarrow> ('d, 'e) traced \<Rightarrow> 'e \<Rightarrow> bool" where
  "logged s s' e \<longleftrightarrow> e \<in> set (drop (length (pw_log s)) (pw_log s'))"

lemma logged_ask [simp]: "logged s (s\<lparr>pw_log := pw_log s @ [e]\<rparr>) e"
  by (simp add: logged_def)

lemma logged_world [simp]: "logged s (s'\<lparr>pw_world := w\<rparr>) e = logged s s' e" "logged (s\<lparr>pw_world := w\<rparr>) s' e = logged s s' e"
  by (simp_all add: logged_def)

definition since :: "('d, 'e) traced \<Rightarrow> ('d, 'e) traced \<Rightarrow> 'e list" where
  "since s s' = drop (length (pw_log s)) (pw_log s')"

text \<open>The log only grows.\<close>

definition grows :: "('d, 'e) traced \<Rightarrow> ('d, 'e) traced \<Rightarrow> bool" where
  "grows s s' \<longleftrightarrow> (\<exists>new. pw_log s' = pw_log s @ new)"

interpretation log: journey grows
  by unfold_locales (auto simp: grows_def)

lemma grows_calls [quiet_rules]: "steps grows (store m)" "steps grows (ask ev f)"
  by (simp_all add: steps_def grows_def wp_any)

lemma grows_logged: "grows s s' \<Longrightarrow> logged s0 s e \<Longrightarrow> logged s0 s' e"
  by (auto simp: grows_def logged_def)

lemma wp_grows_then:
  assumes "steps grows m" "grows s0 s" "\<And>r s'. grows s0 s' \<Longrightarrow> wp (k r) Q s'"
  shows "wp (m \<bind> k) Q s"
  unfolding wp_bind by (rule wp_mono [OF stepsD [OF assms(1)]]) (rule assms(3) [OF log.onward [OF assms(2)]])

subsection \<open>What a program adds to the log\<close>

text \<open>
  \<open>emits m P\<close>: from any state, \<open>m\<close> ends with a result and with new entries of the log that satisfy \<open>P\<close>. It
  is enough for properties that depend only on the calls and their answers. The rules of \<open>emit_rules\<close>
  follow the structure of the program.
\<close>

definition emits :: "('d, 'e, 'a) tprog \<Rightarrow> ('a \<Rightarrow> 'e list \<Rightarrow> bool) \<Rightarrow> bool" where
  "emits m P \<longleftrightarrow> (\<forall>s. wp m (\<lambda>r s'. \<exists>new. pw_log s' = pw_log s @ new \<and> P r new) s)"

named_theorems emit_rules

lemma emits_mono: "emits m P \<Longrightarrow> (\<And>r l. P r l \<Longrightarrow> Q r l) \<Longrightarrow> emits m Q"
  unfolding emits_def by (blast intro: wp_mono)

lemma emits_ret_iff [simp]: "emits (ret r) P \<longleftrightarrow> P r []"
  by (simp add: emits_def)

lemma emits_ret [emit_rules]: "P r [] \<Longrightarrow> emits (ret r) P"
  by simp

lemma emits_bind: "emits m (\<lambda>r l. emits (f r) (\<lambda>x l'. P x (l @ l'))) \<Longrightarrow> emits (m \<bind> f) P"
  unfolding emits_def wp_bind by (fastforce elim!: wp_mono)

lemma emits_ask [emit_rules]: "(\<And>r. P r [ev r]) \<Longrightarrow> emits (ask ev f) P"
  by (simp add: emits_def)

lemma emits_store [emit_rules]: "(\<And>r. P r []) \<Longrightarrow> emits (store m) P"
  by (simp add: emits_def wp_any)

lemma emits_noted [emit_rules]: "(\<And>r. P r [ev r]) \<Longrightarrow> emits (noted ev m) P"
  by (simp add: emits_def noted_def wp_any)

lemma emits_if [emit_rules]: "(b \<Longrightarrow> emits m P) \<Longrightarrow> (\<not> b \<Longrightarrow> emits k P) \<Longrightarrow> emits (if b then m else k) P"
  by simp

lemma emits_option [emit_rules]:
  "(x = None \<Longrightarrow> emits m P) \<Longrightarrow> (\<And>y. x = Some y \<Longrightarrow> emits (k y) P) \<Longrightarrow> emits (case x of None \<Rightarrow> m | Some y \<Rightarrow> k y) P"
  by (cases x) simp_all

lemma emits_sum [emit_rules]:
  "(\<And>e. x = Inl e \<Longrightarrow> emits (m e) P) \<Longrightarrow> (\<And>y. x = Inr y \<Longrightarrow> emits (k y) P) \<Longrightarrow>
     emits (case x of Inl e \<Rightarrow> m e | Inr y \<Rightarrow> k y) P"
  by (cases x) simp_all

lemma emits_prod [emit_rules]: "(\<And>a b. x = (a, b) \<Longrightarrow> emits (k a b) P) \<Longrightarrow> emits (case x of (a, b) \<Rightarrow> k a b) P"
  by (cases x) simp

lemma emits_Let [emit_rules]: "emits (k v) P \<Longrightarrow> emits (let x = v in k x) P"
  by simp

text \<open>The call first, then what follows it.\<close>

lemma emits_ask_then [emit_rules]: "(\<And>r. emits (k r) (\<lambda>x l. P x (ev r # l))) \<Longrightarrow> emits (ask ev f \<bind> k) P"
  by (rule emits_bind) (simp add: emits_ask)

lemma emits_store_then [emit_rules]: "(\<And>r. emits (k r) P) \<Longrightarrow> emits (store m \<bind> k) P"
  by (rule emits_bind) (simp add: emits_store)

lemma emits_noted_then [emit_rules]: "(\<And>r. emits (k r) (\<lambda>x l. P x (ev r # l))) \<Longrightarrow> emits (noted ev m \<bind> k) P"
  by (rule emits_bind) (simp add: emits_noted)

end
