(* ===== verification/Power_World.thy ===== *)
theory Power_World
  imports Go_Trace Plugin_Observed Host_Types
begin

text \<open>
  The world of the power supervisor: the plugin state with its environment, and the log of what the
  supervisor asked of its other interfaces (the power backend, the machine lock, the inventory of
  unresolved jobs, the trusted authorities, the host, the clock of its waits). Those interfaces are
  parameters: the \<open>n\<close>-th answer of one may depend on everything before it, so it is a function of the
  position in the log. The log keeps the answer too.
\<close>

datatype effect =
    Locked "err option"
  | Unlocked
  | Inventoried "err + string list"
  | Arbitrated "err option"
  | Granted "err option"
  | Snapped "err + Snapshot"
  | ProfileRead "err + string"
  | PolicyRead "err + string"
  | Preflighted PowerRequest Capabilities "err option"
  | Scheduled PowerRequest Receipt "err option"
  | CancelSent Receipt CancelResult "err option"
  | Waited duration "err option"

type_synonym power_world = "(plugin_disk, effect) traced"

type_synonym 'a sop = "(power_world, 'a) state"

text \<open>The configuration. An interface that the code compares with \<open>nil\<close> is optional.\<close>

record SupervisorConfig =
  cf_Snapshot :: "(nat \<Rightarrow> string \<Rightarrow> string \<Rightarrow> err + Snapshot) option"
  cf_StopArbitration :: "(nat \<Rightarrow> Job \<Rightarrow> err option) option"
  cf_VerifiedAuthorization :: "(nat \<Rightarrow> Job \<Rightarrow> err option) option"
  cf_Preflight :: "nat \<Rightarrow> PowerRequest \<Rightarrow> Capabilities \<times> err option"
  cf_Schedule :: "nat \<Rightarrow> PowerRequest \<Rightarrow> Receipt \<times> err option"
  cf_Cancel :: "nat \<Rightarrow> Receipt \<Rightarrow> CancelResult \<times> err option"
  cf_Profiles :: "(nat \<Rightarrow> string \<Rightarrow> err + string) option"
  cf_AcquireLock :: "nat \<Rightarrow> err option"
  cf_Wait :: "nat \<Rightarrow> err option"
  cf_PollInterval :: duration
  cf_Quiescence :: duration
  cf_MaxCountdownLateness :: duration
  cf_ProcessID :: int
  cf_PolicyFingerprint :: string
  cf_CurrentPolicyFingerprint :: "(nat \<Rightarrow> err + string) option"
  cf_UnresolvedPowerJobs :: "nat \<Rightarrow> string \<Rightarrow> err + string list"

text \<open>
  \<open>NewSupervisor\<close>: \<open>present\<close> says that the state, the backend, the lock and the inventory are given;
  \<open>pid\<close> is \<open>os.Getpid()\<close>.
\<close>

definition NewSupervisor :: "bool \<Rightarrow> int \<Rightarrow> SupervisorConfig \<Rightarrow> err + SupervisorConfig" where
  "NewSupervisor present pid config =
     (if \<not> present then Inl (Err ''plugin supervisor requires state, backend, power lock, and power-job inventory'')
      else
        (let config = (if cf_PollInterval config \<le> 0 then config\<lparr>cf_PollInterval := 250 * Millisecond\<rparr> else config);
             config = (if cf_Quiescence config \<le> 0 then config\<lparr>cf_Quiescence := 750 * Millisecond\<rparr> else config);
             config = (if cf_MaxCountdownLateness config \<le> 0 then config\<lparr>cf_MaxCountdownLateness := 30 * Second\<rparr> else config)
         in if cf_MaxCountdownLateness config > 5 * Minute then
              Inl (Err ''plugin supervisor countdown lateness limit exceeds five minutes'')
            else
              (let config = (if cf_ProcessID config = 0 then config\<lparr>cf_ProcessID := pid\<rparr> else config)
               in if cf_ProcessID config < 1 then Inl (Err ''plugin supervisor process identity is unavailable'')
                  else Inr config)))"

abbreviation errJobChanged :: err where "errJobChanged \<equiv> Err ''plugin job changed during host inspection''"
abbreviation errAuthorityNotReady :: err where
  "errAuthorityNotReady \<equiv> Err ''host authority has not observed the target yet''"
abbreviation ErrStopArbitrationUnavailable :: err where
  "ErrStopArbitrationUnavailable \<equiv> Err ''trusted final Stop arbitration is unavailable''"
abbreviation ErrVerifiedSuccessAuthorityUnavailable :: err where
  "ErrVerifiedSuccessAuthorityUnavailable \<equiv> Err ''trusted verified-success execution authority is unavailable''"
abbreviation ErrIntentRecoveryRequired :: err where
  "ErrIntentRecoveryRequired \<equiv> Err ''unresolved action intent requires manual cancel or reconcile''"
abbreviation ErrSupervisorOwnershipUnproven :: err where
  "ErrSupervisorOwnershipUnproven \<equiv> Err ''one-shot supervisor process identity does not match the armed job''"

text \<open>A call through a \<open>nil\<close> interface panics; the readiness checks of the callers exclude it.\<close>

abbreviation nil_panic :: err where
  "nil_panic \<equiv> Err ''runtime error: invalid memory address or nil pointer dereference''"

subsection \<open>The interfaces\<close>

definition waitContext :: "SupervisorConfig \<Rightarrow> duration \<Rightarrow> err option sop" where
  "waitContext c d = ask (Waited d) (cf_Wait c)"

definition now_of :: "time sop" where
  "now_of = store time_Now"

definition host_snapshot :: "SupervisorConfig \<Rightarrow> Job \<Rightarrow> (err + Snapshot) sop" where
  "host_snapshot c job =
     (case cf_Snapshot c of
        None \<Rightarrow> ret (Inl nil_panic)
      | Some f \<Rightarrow> ask Snapped (\<lambda>n. f n (SessionID job) (WorkspaceCWD job)))"

definition load_profile :: "SupervisorConfig \<Rightarrow> string \<Rightarrow> (err + string) sop" where
  "load_profile c name =
     (case cf_Profiles c of None \<Rightarrow> ret (Inl nil_panic) | Some f \<Rightarrow> ask ProfileRead (\<lambda>n. f n name))"

definition isStopPolicy :: "TriggerPolicy \<Rightarrow> bool" where
  "isStopPolicy p \<longleftrightarrow> p = TriggerAfterStop \<or> p = TriggerAfterAllStop"

definition validateStopArbitration :: "SupervisorConfig \<Rightarrow> Job \<Rightarrow> err option sop" where
  "validateStopArbitration c job =
     (case cf_StopArbitration c of
        None \<Rightarrow> ret (Some ErrStopArbitrationUnavailable)
      | Some f \<Rightarrow> ask Arbitrated (\<lambda>n. f n job))"

definition stopArbitrationReason :: "err \<Rightarrow> string" where
  "stopArbitrationReason e =
     (if errors_Is e ErrStopArbitrationUnavailable then ''stop_arbitration_unavailable'' else ''stop_arbitration_invalid'')"

definition validateVerifiedAuthorization :: "SupervisorConfig \<Rightarrow> Job \<Rightarrow> err option sop" where
  "validateVerifiedAuthorization c job =
     (case cf_VerifiedAuthorization c of
        None \<Rightarrow> ret (Some ErrVerifiedSuccessAuthorityUnavailable)
      | Some f \<Rightarrow> ask Granted (\<lambda>n. f n job))"

definition verifiedAuthorizationReason :: "err \<Rightarrow> string" where
  "verifiedAuthorizationReason e =
     (if errors_Is e ErrVerifiedSuccessAuthorityUnavailable then ''verified_success_authority_unavailable''
      else ''verified_success_authority_invalid'')"

text \<open>The reason of a pending or unreadable revocation; nothing when there is none.\<close>

definition pendingRevocationReason :: "string \<Rightarrow> string option sop" where
  "pendingRevocationReason jobID = do {
     (marker, pending, e) \<leftarrow> store (PendingRevocation jobID);
     ret (if e \<noteq> None then Some ''revocation_channel_unavailable''
          else if pending then Some (''revocation_pending:'' @ rm_Reason marker) else None) }"

definition policyMatches :: "SupervisorConfig \<Rightarrow> Job \<Rightarrow> bool sop" where
  "policyMatches c job =
     (case cf_CurrentPolicyFingerprint c of
        None \<Rightarrow> ret False
      | Some f \<Rightarrow>
          if PowerPolicyFingerprint job = [] \<or> PowerPolicyFingerprint job \<noteq> cf_PolicyFingerprint c then ret False
          else do {
            r \<leftarrow> ask PolicyRead f;
            ret (r = Inr (PowerPolicyFingerprint job)) })"

definition verifiedConfigReady :: "SupervisorConfig \<Rightarrow> bool" where
  "verifiedConfigReady c \<longleftrightarrow> cf_Snapshot c \<noteq> None \<and> cf_Profiles c \<noteq> None \<and> cf_PolicyFingerprint c \<noteq> [] \<and>
     cf_CurrentPolicyFingerprint c \<noteq> None"

definition valueOrCancelReason :: "Job \<Rightarrow> string \<Rightarrow> string" where
  "valueOrCancelReason job fallback = (if CancelReason job \<noteq> [] then CancelReason job else fallback)"

definition barrierAuthorityReason :: "err \<Rightarrow> string" where
  "barrierAuthorityReason e =
     (case as_barrier e of
        Some r \<Rightarrow> if r \<noteq> [] then r
                  else if errors_Is e ErrLockTimeout then ''revocation_channel_unavailable'' else ''barrier_binding_incomplete''
      | None \<Rightarrow> if errors_Is e ErrLockTimeout then ''revocation_channel_unavailable'' else ''barrier_binding_incomplete'')"

definition classifySnapshot :: "Snapshot \<Rightarrow> (State \<times> string) option" where
  "classifySnapshot s =
     (if \<not> sn_SameHostProven s \<or> \<not> sn_LiveTargetObserved s then Some (StateHostUnavailable, ''same_host_not_proven'')
      else if \<not> sn_InventoryComplete s \<or> sn_EventLossDetected s then Some (StateInventoryPartial, ''host_inventory_incomplete'')
      else if \<not> hd_Compatible (sn_HookDecision s) \<or> hd_Fingerprint (sn_HookDecision s) = [] then
        Some (StateHookConflict, ''hook_inventory_conflict'')
      else None)"

subsection \<open>Closing a job\<close>

definition fail_rule :: "State \<Rightarrow> string \<Rightarrow> Job \<Rightarrow> time \<Rightarrow> err option \<times> Job" where
  "fail_rule state reason job now =
     (None, if IsTerminal (State job) \<or> State job = StateActionScheduled then job
            else job\<lparr>State := state, ReasonCode := reason, HostSnapshotReason := reason\<rparr>)"

definition power_fail :: "Job \<Rightarrow> State \<Rightarrow> string \<Rightarrow> err option sop" where
  "power_fail job state reason = do {
     (_, _, e) \<leftarrow> store (UpdateJob (JobID job) ''supervisor.fail_closed'' [] (fail_rule state reason));
     ret e }"

text \<open>A failure before the job has been loaded.\<close>

definition load_and_fail :: "string \<Rightarrow> State \<Rightarrow> string \<Rightarrow> err option sop" where
  "load_and_fail jobID state reason = do {
     l \<leftarrow> store (store_Load jobID);
     case l of Inl e \<Rightarrow> ret (Some e) | Inr job \<Rightarrow> power_fail job state reason }"

end
