(* ===== verification/Power_Supervisor.thy ===== *)
theory Power_Supervisor
  imports Power_World Plugin_Recovery
begin

text \<open>
  \<open>internal/pluginpower/supervisor.go\<close>: the one-shot supervisor of an armed job. \<open>schedule\<close> is cut
  where the code reads its authority anew: the gates before the quiescence wait, the final gates
  after it, the intent that is recorded before any external call, the last checks, and the backend
  call with what follows it. A stage returns \<open>Inl r\<close> when \<open>schedule\<close> returns \<open>r\<close> there, and
  \<open>Inr\<close> what the next stage works with.
\<close>

subsection \<open>Cancelling and aborting\<close>

definition inert :: "err option \<Rightarrow> bool" where
  "inert cancelErr \<longleftrightarrow> cancelErr = None \<or> err_is cancelErr ErrNoShutdownInProgress"

definition persistRecoveryResolutionIfPresent ::
    "string \<Rightarrow> string \<Rightarrow> string \<Rightarrow> CancelResult option \<Rightarrow> err option sop" where
  "persistRecoveryResolutionIfPresent jobID outcome reason result = do {
     l \<leftarrow> store (LoadRecoveryAuthority jobID);
     case l of
       Inl e \<Rightarrow> ret (if errors_Is e ErrNotExist then None else Some e)
     | Inr _ \<Rightarrow> do {
         now \<leftarrow> now_of;
         r \<leftarrow> store (PersistRecoveryResolution jobID outcome reason result now);
         ret (case r of Inl e \<Rightarrow> Some e | Inr _ \<Rightarrow> None) } }"

definition abort_rule :: "string \<Rightarrow> Job \<Rightarrow> time \<Rightarrow> err option \<times> Job" where
  "abort_rule reason job now =
     (if IsTerminal (State job) then (None, job)
      else if State job \<noteq> StateActionIntent then (Some errJobChanged, job)
      else (None, job\<lparr>CancelRequested := True, CancelReason := reason, State := StateCancelled,
                      ReasonCode := ''pre_schedule_intent_cancelled:'' @ reason\<rparr>))"

definition abortIntentBeforeSchedule :: "Job \<Rightarrow> string \<Rightarrow> err option sop" where
  "abortIntentBeforeSchedule job reason = do {
     e \<leftarrow> persistRecoveryResolutionIfPresent (JobID job) ''no_action'' reason None;
     or_return e Some (do {
       (_, _, e) \<leftarrow> store (UpdateJob (JobID job) ''power.intent_aborted_no_call'' [] (abort_rule reason));
       ret e }) }"

definition countdown_cancel_rule :: "CancelResult \<Rightarrow> bool \<Rightarrow> string \<Rightarrow> Job \<Rightarrow> time \<Rightarrow> err option \<times> Job" where
  "countdown_cancel_rule result confirmed reason job now =
     (if IsTerminal (State job) then (None, job)
      else if \<not> HasUnresolvedPowerAction job then (Some (Err ''plugin power action is no longer unresolved''), job)
      else
        (let job = job\<lparr>CancelRequested := True, CancelReason := reason, JobCancelResult := Some result\<rparr>
         in (None, if confirmed then job\<lparr>State := StateCancelled, ReasonCode := ''countdown_cancelled:'' @ reason\<rparr>
                   else job\<lparr>ReasonCode := ''countdown_cancel_unconfirmed:'' @ reason\<rparr>)))"

definition cancelPowerForReason :: "SupervisorConfig \<Rightarrow> Job \<Rightarrow> Receipt \<Rightarrow> string \<Rightarrow> err option sop" where
  "cancelPowerForReason c job receipt reason = do {
     (result, cancelErr) \<leftarrow> ask (\<lambda>(r, e). CancelSent receipt r e) (\<lambda>n. cf_Cancel c n receipt);
     resolved \<leftarrow> (if inert cancelErr then persistRecoveryResolutionIfPresent (JobID job) ''cancelled'' reason (Some result)
                  else ret None);
     or_return resolved Some (do {
       (_, _, stateErr) \<leftarrow> store (UpdateJob (JobID job) ''power.countdown_cancel'' []
         (countdown_cancel_rule result (inert cancelErr) reason));
       ret (if stateErr \<noteq> None then stateErr else if inert cancelErr then None else cancelErr) }) }"

definition emergencyCancelRetained :: "SupervisorConfig \<Rightarrow> Job \<Rightarrow> Receipt \<Rightarrow> string \<Rightarrow> err \<Rightarrow> err option sop" where
  "emergencyCancelRetained c job receipt reason cause = do {
     cancelErr \<leftarrow> cancelPowerForReason c job receipt reason;
     ret (case cancelErr of
            None \<Rightarrow> Some cause
          | Some e \<Rightarrow> errors_Join [Some cause, Some (Wrap ''emergency countdown cancellation failed: %w'' e)]) }"

definition rollback_rule :: "CancelResult \<Rightarrow> bool \<Rightarrow> string \<Rightarrow> Job \<Rightarrow> time \<Rightarrow> err option \<times> Job" where
  "rollback_rule result confirmed reason job now =
     (let job = job\<lparr>JobCancelResult := Some result\<rparr> in
      if IsTerminal (State job) then (None, job)
      else if confirmed then (None, job\<lparr>State := StateActionFailed, ReasonCode := reason\<rparr>)
      else (None, job\<lparr>State := StateActionIntent, ReasonCode := reason @ ''_cancel_unconfirmed''\<rparr>))"

text \<open>The receipt to cancel with: the backend's, unless it is not one of this job.\<close>

definition cancelAcceptedAction :: "SupervisorConfig \<Rightarrow> Job \<Rightarrow> Receipt \<Rightarrow> string \<Rightarrow> err option sop" where
  "cancelAcceptedAction c job receipt reason =
     (case (if ValidateReceipt receipt \<noteq> None \<or> rcp_JobID receipt \<noteq> JobID job \<or> rcp_Action receipt \<noteq> Action job
            then PowerReceipt job else Some receipt) of
        None \<Rightarrow> ret (Some (Err ''accepted action has no valid recovery receipt''))
      | Some cancelReceipt \<Rightarrow> do {
          (result, cancelErr) \<leftarrow> ask (\<lambda>(r, e). CancelSent cancelReceipt r e) (\<lambda>n. cf_Cancel c n cancelReceipt);
          resolved \<leftarrow> (if inert cancelErr then persistRecoveryResolutionIfPresent (JobID job) ''cancelled'' reason (Some result)
                       else ret None);
          or_return resolved Some (do {
            (_, _, stateErr) \<leftarrow> store (UpdateJob (JobID job) ''power.rollback'' [] (rollback_rule result (inert cancelErr) reason));
            ret (if inert cancelErr then stateErr else cancelErr) }) })"

subsection \<open>Gates before the quiescence wait\<close>

text \<open>A check of \<open>schedule\<close> that returns with a failure, or goes on.\<close>

definition check_revocation :: "Job \<Rightarrow> err option option sop" where
  "check_revocation job = do {
     p \<leftarrow> pendingRevocationReason (JobID job);
     case p of
       Some reason \<Rightarrow> do { r \<leftarrow> power_fail job StateHookUnavailable reason; ret (Some r) }
     | None \<Rightarrow> ret None }"

definition check_expiry :: "Job \<Rightarrow> err option option sop" where
  "check_expiry job = do {
     now \<leftarrow> now_of;
     if Expired job now then do { r \<leftarrow> power_fail job StateExpired ''arm_expired''; ret (Some r) } else ret None }"

definition check_arbitration :: "SupervisorConfig \<Rightarrow> Job \<Rightarrow> err option option sop" where
  "check_arbitration c job =
     (if isStopPolicy (TriggerPolicy job) then do {
        e \<leftarrow> validateStopArbitration c job;
        case e of
          Some e \<Rightarrow> do { r \<leftarrow> power_fail job StateHookUnavailable (stopArbitrationReason e); ret (Some r) }
        | None \<Rightarrow> ret None }
      else ret None)"

definition check_grant :: "SupervisorConfig \<Rightarrow> Job \<Rightarrow> err option option sop" where
  "check_grant c job = do {
     e \<leftarrow> validateVerifiedAuthorization c job;
     case e of
       Some e \<Rightarrow> do { r \<leftarrow> power_fail job StatePrivilegeUnavailable (verifiedAuthorizationReason e); ret (Some r) }
     | None \<Rightarrow> ret None }"

definition verified_gate :: "SupervisorConfig \<Rightarrow> Job \<Rightarrow> (err option + Job) sop" where
  "verified_gate c job =
     (if HookFingerprintH3 job = [] \<or> HookFingerprintH1 job \<noteq> HookFingerprintH2 job \<or>
         HookFingerprintH2 job \<noteq> HookFingerprintH3 job then ret (Inl (Some errJobChanged))
      else if PowerPolicyFingerprint job \<noteq> cf_PolicyFingerprint c then do {
        r \<leftarrow> power_fail job StatePrivilegeUnavailable ''power_policy_changed_before_action''; ret (Inl r) }
      else do {
        matches \<leftarrow> policyMatches c job;
        if \<not> matches then do {
          r \<leftarrow> power_fail job StatePrivilegeUnavailable ''power_policy_unavailable_before_action''; ret (Inl r) }
        else and_then
          (if VerifierProfile job \<noteq> ''none'' then do {
             profile \<leftarrow> load_profile c (VerifierProfile job);
             if (case profile of Inl _ \<Rightarrow> True | Inr f \<Rightarrow> \<not> VerifierPassed job \<or> f \<noteq> VerifierFingerprint job) then do {
               r \<leftarrow> power_fail job StateVerificationFailed ''verifier_profile_changed_before_action''; ret (Some r) }
             else ret None }
           else if \<not> AllowAgentOnlySuccess job then do {
             r \<leftarrow> power_fail job StateVerificationFailed ''independent_evidence_required''; ret (Some r) }
           else ret None)
          (and_then (check_grant c job) (ret (Inr job))) })"

definition policy_gate :: "SupervisorConfig \<Rightarrow> string \<Rightarrow> Job \<Rightarrow> (err option + Job) sop" where
  "policy_gate c jobID job =
     (if TriggerPolicy job = TriggerAfterStop then
        (if \<not> StopWithoutSuccessAck job \<or> SessionID job = [] \<or> StopTurnID job = [] \<or> StopTurnID job \<noteq> CurrentTurnID job then do {
           r \<leftarrow> power_fail job StateHookUnavailable ''after_stop_binding_incomplete''; ret (Inl r) }
         else ret (Inr job))
      else if TriggerPolicy job = TriggerAfterAllStop then do {
        (validated, authorityErr) \<leftarrow> store (BarrierAuthority jobID);
        case authorityErr of
          Some e \<Rightarrow> do { r \<leftarrow> power_fail job StateHookUnavailable (barrierAuthorityReason e); ret (Inl r) }
        | None \<Rightarrow> ret (if State validated \<noteq> StateStopObserved then Inl (Some errJobChanged) else Inr validated) }
      else verified_gate c job)"

definition first_gates :: "SupervisorConfig \<Rightarrow> string \<Rightarrow> (err option + Job) sop" where
  "first_gates c jobID = do {
     l \<leftarrow> store (store_Load jobID);
     case l of
       Inl e \<Rightarrow> ret (Inl (Some e))
     | Inr job \<Rightarrow>
         if State job \<noteq> StateStopObserved then ret (Inl (Some errJobChanged))
         else and_then (check_revocation job) (and_then (check_expiry job) (do {
           g \<leftarrow> policy_gate c jobID job;
           case g of
             Inl r \<Rightarrow> ret (Inl r)
           | Inr job \<Rightarrow> and_then (check_arbitration c job) (ret (Inr job)) })) }"

subsection \<open>The final gates\<close>

definition barrier_again :: "string \<Rightarrow> Job \<Rightarrow> Job \<Rightarrow> (err option + Job) sop" where
  "barrier_again jobID job current =
     (if TriggerPolicy current = TriggerAfterAllStop then do {
        (validated, authorityErr) \<leftarrow> store (BarrierAuthority jobID);
        case authorityErr of
          Some e \<Rightarrow> do { r \<leftarrow> power_fail current StateHookUnavailable (barrierAuthorityReason e); ret (Inl r) }
        | None \<Rightarrow>
            ret (if Generation validated \<noteq> Generation job \<or> State validated \<noteq> StateStopObserved
                 then Inl (Some errJobChanged) else Inr validated) }
      else ret (Inr current))"

definition host_gate :: "SupervisorConfig \<Rightarrow> Job \<Rightarrow> err option option sop" where
  "host_gate c current = do {
     sn \<leftarrow> host_snapshot c current;
     case sn of
       Inl _ \<Rightarrow> do { r \<leftarrow> power_fail current StateHostUnavailable ''final_host_snapshot_failed''; ret (Some r) }
     | Inr sn \<Rightarrow>
         (case classifySnapshot sn of
            Some (state, reason) \<Rightarrow> do { r \<leftarrow> power_fail current state reason; ret (Some r) }
          | None \<Rightarrow>
              if \<not> ReadyForFinalGate sn (StopTurnID current) \<or>
                 hd_Fingerprint (sn_HookDecision sn) \<noteq> HookFingerprintH3 current \<or>
                 sn_HostInstanceID sn \<noteq> HostInstanceID current then do {
                r \<leftarrow> power_fail current StateInventoryPartial ''final_quiescence_gate_changed''; ret (Some r) }
              else do {
                matches \<leftarrow> policyMatches c current;
                if \<not> matches then do {
                  r \<leftarrow> power_fail current StatePrivilegeUnavailable ''power_policy_changed_at_final_gate''; ret (Some r) }
                else check_grant c current }) }"

definition final_gates :: "SupervisorConfig \<Rightarrow> string \<Rightarrow> Job \<Rightarrow> (err option + Job) sop" where
  "final_gates c jobID job = do {
     l \<leftarrow> store (store_Load jobID);
     case l of
       Inl e \<Rightarrow> ret (Inl (Some e))
     | Inr current \<Rightarrow>
         if Generation current \<noteq> Generation job \<or> State current \<noteq> StateStopObserved then ret (Inl (Some errJobChanged))
         else and_then (check_revocation current) (and_then (check_expiry current) (do {
           g \<leftarrow> barrier_again jobID job current;
           case g of
             Inl r \<Rightarrow> ret (Inl r)
           | Inr current \<Rightarrow>
               and_then (check_arbitration c current)
                 (and_then (if TriggerPolicy current = TriggerVerifiedSuccess then host_gate c current else ret None)
                   (ret (Inr current))) })) }"

subsection \<open>The intent\<close>

record power_intent =
  in_request :: PowerRequest
  in_capabilities :: Capabilities
  in_receipt :: Receipt
  in_envelope :: RecoveryEnvelope
  in_generation :: u64

definition power_request :: "Job \<Rightarrow> time \<Rightarrow> PowerRequest" where
  "power_request job now =
     \<lparr>req_JobID = JobID job, req_Action = Action job, req_Delay = DelaySeconds job * Second,
      req_Comment = (if TriggerPolicy job = TriggerAfterStop \<or> TriggerPolicy job = TriggerAfterAllStop
                     then AfterStopPowerComment (JobID job) else PluginPowerComment (JobID job)),
      req_RequestedAt = now\<rparr>"

definition preflight_failure :: "err option \<Rightarrow> State \<times> string" where
  "preflight_failure e =
     (if err_is e ErrPlatformUnsupported then (StatePlatformUnsupported, ''platform_unsupported'')
      else if err_is e ErrPowerActionConflict then (StateConcurrentConflict, ''unresolved_power_job_conflict'')
      else (StatePrivilegeUnavailable, ''platform_preflight_failed''))"

definition intent_rule :: "u64 \<Rightarrow> time \<Rightarrow> Capabilities \<Rightarrow> Receipt \<Rightarrow> Job \<Rightarrow> time \<Rightarrow> err option \<times> Job" where
  "intent_rule generation now capabilities receipt job t =
     (if Generation job \<noteq> generation \<or> State job \<noteq> StateStopObserved then (Some errJobChanged, job)
      else (None, job\<lparr>State := StateActionIntent, ReasonCode := ''action_intent_recorded'', ActionIntentAt := Some now,
                      PowerCapabilities := Some capabilities, PowerReceipt := Some receipt,
                      ScheduledFor := Some (rcp_Deadline receipt)\<rparr>))"

definition record_intent :: "SupervisorConfig \<Rightarrow> Job \<Rightarrow> (err option + string \<times> power_intent) sop" where
  "record_intent c current = do {
     now \<leftarrow> now_of;
     (capabilities, e) \<leftarrow> ask (\<lambda>(cap, e). Preflighted (power_request current now) cap e)
       (\<lambda>n. cf_Preflight c n (power_request current now));
     if e \<noteq> None \<or> \<not> cap_ExecuteSupported capabilities then do {
       r \<leftarrow> power_fail current (fst (preflight_failure e)) (snd (preflight_failure e)); ret (Inl r) }
     else
       (case BuildIntentReceipt (JobID current) (Action current) now (DelaySeconds current * Second) capabilities of
          Inl _ \<Rightarrow> do { r \<leftarrow> power_fail current StateActionFailed ''intent_recovery_receipt_failed''; ret (Inl r) }
        | Inr intentReceipt \<Rightarrow> do {
            env \<leftarrow> store (PersistRecoveryEnvelope current intentReceipt now);
            case env of
              Inl _ \<Rightarrow> do { r \<leftarrow> power_fail current StateActionFailed ''recovery_envelope_persist_failed''; ret (Inl r) }
            | Inr envelope \<Rightarrow> do {
                (updated, _, e) \<leftarrow> store (UpdateJob (JobID current) ''power.intent'' []
                  (intent_rule (Generation current) now capabilities intentReceipt));
                case e of
                  Some e \<Rightarrow> ret (Inl (Some e))
                | None \<Rightarrow> ret (Inr (JobID updated,
                    \<lparr>in_request = power_request current now, in_capabilities = capabilities, in_receipt = intentReceipt,
                     in_envelope = envelope, in_generation = Generation current\<rparr>)) } }) }"

subsection \<open>The last checks before the call\<close>

definition abort_when :: "Job \<Rightarrow> string option sop \<Rightarrow> err option option sop" where
  "abort_when job m = do {
     reason \<leftarrow> m;
     case reason of
       Some reason \<Rightarrow> do { r \<leftarrow> abortIntentBeforeSchedule job reason; ret (Some r) }
     | None \<Rightarrow> ret None }"

text \<open>The reasons of a job that lost its authority, the same before and after the call and during the countdown.\<close>

definition barrier_reason :: "Job \<Rightarrow> string option sop" where
  "barrier_reason job =
     (if TriggerPolicy job = TriggerAfterAllStop then do {
        (_, e) \<leftarrow> store (BarrierAuthority (JobID job)); ret (map_option barrierAuthorityReason e) }
      else ret None)"

definition arbitration_reason :: "SupervisorConfig \<Rightarrow> Job \<Rightarrow> string option sop" where
  "arbitration_reason c job =
     (if isStopPolicy (TriggerPolicy job) then do {
        e \<leftarrow> validateStopArbitration c job; ret (map_option stopArbitrationReason e) }
      else ret None)"

definition grant_reason :: "SupervisorConfig \<Rightarrow> Job \<Rightarrow> string option sop" where
  "grant_reason c job =
     (if TriggerPolicy job = TriggerVerifiedSuccess then do {
        e \<leftarrow> validateVerifiedAuthorization c job; ret (map_option verifiedAuthorizationReason e) }
      else ret None)"

definition authority_checks :: "SupervisorConfig \<Rightarrow> Job \<Rightarrow> power_intent \<Rightarrow> (err option + unit) sop" where
  "authority_checks c job i =
     and_then (abort_when job (pendingRevocationReason (JobID job)))
     (and_then (abort_when job
         (ret (if CancelRequested job then Some (valueOrCancelReason job ''continuation_before_schedule'') else None)))
     (and_then (abort_when job (barrier_reason job))
     (and_then (abort_when job (arbitration_reason c job))
     (and_then (abort_when job (grant_reason c job))
     (and_then (abort_when job
         (ret (if Generation job \<noteq> in_generation i then Some ''job_changed_before_schedule'' else None)))
     (ret (Inr ())))))))"

text \<open>The no-retry boundary.\<close>

definition cross_boundary :: "Job \<Rightarrow> power_intent \<Rightarrow> (err option + Job \<times> ScheduleCallStarted) sop" where
  "cross_boundary job i = do {
     now \<leftarrow> now_of;
     p \<leftarrow> store (PersistScheduleCallStarted (JobID job) (re_EnvelopeHash (in_envelope i)) now);
     case p of
       Inl _ \<Rightarrow> do { r \<leftarrow> abortIntentBeforeSchedule job ''schedule_call_start_persist_failed''; ret (Inl r) }
     | Inr started \<Rightarrow> ret (Inr (job, started)) }"

definition last_checks :: "SupervisorConfig \<Rightarrow> string \<Rightarrow> power_intent \<Rightarrow> (err option + Job \<times> ScheduleCallStarted) sop" where
  "last_checks c jobID i = do {
     l \<leftarrow> store (store_Load jobID);
     case l of
       Inl e \<Rightarrow> ret (Inl (Some e))
     | Inr job \<Rightarrow>
         if State job \<noteq> StateActionIntent then ret (Inl (Some errJobChanged))
         else do {
           g \<leftarrow> authority_checks c job i;
           case g of Inl r \<Rightarrow> ret (Inl r) | Inr _ \<Rightarrow> cross_boundary job i } }"

subsection \<open>The call and what follows it\<close>

definition unknown_rule :: "Job \<Rightarrow> time \<Rightarrow> err option \<times> Job" where
  "unknown_rule job now =
     (if State job \<noteq> StateActionIntent then (Some errJobChanged, job)
      else (None, job\<lparr>ReasonCode := ''power_schedule_outcome_unknown''\<rparr>))"

text \<open>The backend reported an error: the call may still have had its effect.\<close>

definition unknown_outcome :: "SupervisorConfig \<Rightarrow> Job \<Rightarrow> power_intent \<Rightarrow> err \<Rightarrow> err option sop" where
  "unknown_outcome c job i e = do {
     (unknown, _, stateErr) \<leftarrow> store (UpdateJob (JobID job) ''power.schedule_unknown'' [] unknown_rule);
     case stateErr of
       Some se \<Rightarrow> ret (Some se)
     | None \<Rightarrow>
         if CancelRequested unknown then do {
           cancelErr \<leftarrow> cancelPowerForReason c unknown (in_receipt i)
             (valueOrCancelReason unknown ''cancellation_during_unknown_schedule_outcome'');
           ret (if cancelErr \<noteq> None
                then Some (Wrap ''schedule outcome is unknown and requested cancellation was not confirmed: schedule: %w; cancel: %v'' e)
                else None) }
         else ret (Some (Wrap ''schedule outcome is unknown; manual cancel or reconcile is required: %w'' e)) }"

definition scheduled_rule :: "u64 \<Rightarrow> Receipt \<Rightarrow> Job \<Rightarrow> time \<Rightarrow> err option \<times> Job" where
  "scheduled_rule generation receipt job now =
     (if State job \<noteq> StateActionIntent \<or> Generation job \<noteq> generation then (Some errJobChanged, job)
      else (None, job\<lparr>State := StateActionScheduled, ReasonCode := ''action_scheduled'', PowerReceipt := Some receipt,
                      ScheduledFor := Some (rcp_Deadline receipt)\<rparr>))"

definition cancel_when :: "SupervisorConfig \<Rightarrow> Job \<Rightarrow> Receipt \<Rightarrow> string option sop \<Rightarrow> err option option sop" where
  "cancel_when c job receipt m = do {
     reason \<leftarrow> m;
     case reason of
       Some reason \<Rightarrow> do { r \<leftarrow> cancelPowerForReason c job receipt reason; ret (Some r) }
     | None \<Rightarrow> ret None }"

text \<open>The job is read once more after the call: a lost authority cancels the accepted action.\<close>

definition after_schedule :: "SupervisorConfig \<Rightarrow> Job \<Rightarrow> power_intent \<Rightarrow> Receipt \<Rightarrow> (err option + unit) sop" where
  "after_schedule c job i receipt = do {
     l \<leftarrow> store (store_Load (JobID job));
     case l of
       Inl e \<Rightarrow> do { _ \<leftarrow> cancelAcceptedAction c job receipt ''job_changed_after_schedule''; ret (Inl (Some e)) }
     | Inr after \<Rightarrow>
         and_then (cancel_when c after receipt
             (ret (if CancelRequested after then Some (valueOrCancelReason after ''continuation_during_schedule'') else None)))
         (and_then (cancel_when c after receipt (pendingRevocationReason (JobID after)))
         (and_then (cancel_when c after receipt (barrier_reason after))
         (and_then (cancel_when c after receipt (arbitration_reason c after))
         (and_then (cancel_when c after receipt (grant_reason c after))
         (if State after \<noteq> StateActionIntent \<or> Generation after \<noteq> in_generation i then do {
            _ \<leftarrow> cancelAcceptedAction c job receipt ''job_changed_after_schedule''; ret (Inl (Some errJobChanged)) }
          else ret (Inr ())))))) }"

definition accept_receipt :: "SupervisorConfig \<Rightarrow> Job \<Rightarrow> power_intent \<Rightarrow> ScheduleCallStarted \<Rightarrow> Receipt \<Rightarrow> err option sop" where
  "accept_receipt c job i started receipt =
     (case ValidateReceiptForRequest receipt (in_request i) (in_capabilities i) of
        Some e \<Rightarrow> do {
          _ \<leftarrow> cancelAcceptedAction c job receipt ''invalid_power_receipt'';
          ret (Some (Wrap ''validate power receipt: %w'' e)) }
      | None \<Rightarrow> do {
          now \<leftarrow> now_of;
          p \<leftarrow> store (PersistScheduleReceipt (JobID job) (re_EnvelopeHash (in_envelope i)) (sc_CallHash started) receipt now);
          case p of
            Inl e \<Rightarrow> do {
              _ \<leftarrow> cancelAcceptedAction c job receipt ''schedule_receipt_seal_failed'';
              ret (Some (Wrap ''persist schedule receipt seal: %w'' e)) }
          | Inr _ \<Rightarrow> do {
              g \<leftarrow> after_schedule c job i receipt;
              case g of
                Inl r \<Rightarrow> ret r
              | Inr _ \<Rightarrow> do {
                  (_, _, e) \<leftarrow> store (UpdateJob (JobID job) ''power.scheduled'' [] (scheduled_rule (in_generation i) receipt));
                  case e of
                    Some e \<Rightarrow> do {
                      _ \<leftarrow> cancelAcceptedAction c job receipt ''scheduled_state_persist_failed''; ret (Some e) }
                  | None \<Rightarrow> ret None } } })"

definition call_backend :: "SupervisorConfig \<Rightarrow> Job \<Rightarrow> power_intent \<Rightarrow> ScheduleCallStarted \<Rightarrow> err option sop" where
  "call_backend c job i started = do {
     (receipt, e) \<leftarrow> ask (\<lambda>(r, e). Scheduled (in_request i) r e) (\<lambda>n. cf_Schedule c n (in_request i));
     case e of
       Some e \<Rightarrow> unknown_outcome c job i e
     | None \<Rightarrow> accept_receipt c job i started receipt }"

subsection \<open>The whole of schedule\<close>

definition schedule_holding :: "SupervisorConfig \<Rightarrow> string \<Rightarrow> err option sop" where
  "schedule_holding c jobID = do {
     unresolved \<leftarrow> ask Inventoried (\<lambda>n. cf_UnresolvedPowerJobs c n jobID);
     case unresolved of
       Inl _ \<Rightarrow> load_and_fail jobID StateConcurrentConflict ''unresolved_power_inventory_unavailable''
     | Inr ids \<Rightarrow>
         if ids \<noteq> [] then load_and_fail jobID StateConcurrentConflict ''another_power_job_is_unresolved''
         else do {
           g \<leftarrow> first_gates c jobID;
           case g of
             Inl r \<Rightarrow> ret r
           | Inr job \<Rightarrow> do {
               w \<leftarrow> waitContext c (cf_Quiescence c);
               or_return w Some (do {
                 g \<leftarrow> final_gates c jobID job;
                 case g of
                   Inl r \<Rightarrow> ret r
                 | Inr current \<Rightarrow> do {
                     g \<leftarrow> record_intent c current;
                     case g of
                       Inl r \<Rightarrow> ret r
                     | Inr (updatedID, i) \<Rightarrow> do {
                         g \<leftarrow> last_checks c updatedID i;
                         case g of
                           Inl r \<Rightarrow> ret r
                         | Inr (job, started) \<Rightarrow> call_backend c job i started } } }) } } }"

definition schedule :: "SupervisorConfig \<Rightarrow> string \<Rightarrow> err option sop" where
  "schedule c jobID = do {
     l \<leftarrow> ask Locked (cf_AcquireLock c);
     case l of
       Some _ \<Rightarrow> load_and_fail jobID StateConcurrentConflict ''machine_power_lock_held''
     | None \<Rightarrow> do {
         r \<leftarrow> schedule_holding c jobID;
         _ \<leftarrow> ask (\<lambda>_. Unlocked) (\<lambda>_. ());
         ret r } }"

subsection \<open>The countdown\<close>

text \<open>A reason found by an earlier check is kept; the checks after it are skipped.\<close>

definition or_reason :: "string \<Rightarrow> string sop \<Rightarrow> string sop" where
  "or_reason reason m = (if reason = [] then m else ret reason)"

definition reason_text :: "string option sop \<Rightarrow> string sop" where
  "reason_text m = do { r \<leftarrow> m; ret (case r of None \<Rightarrow> [] | Some x \<Rightarrow> x) }"

definition policy_reason :: "SupervisorConfig \<Rightarrow> Job \<Rightarrow> string sop" where
  "policy_reason c job =
     (if TriggerPolicy job = TriggerVerifiedSuccess then do {
        matches \<leftarrow> policyMatches c job;
        if \<not> matches then ret ''power_policy_changed_during_countdown''
        else if VerifierProfile job \<noteq> ''none'' then do {
          profile \<leftarrow> load_profile c (VerifierProfile job);
          ret (if (case profile of Inl _ \<Rightarrow> True | Inr f \<Rightarrow> \<not> VerifierPassed job \<or> f \<noteq> VerifierFingerprint job)
               then ''verifier_profile_changed_during_countdown'' else []) }
        else ret [] }
      else ret [])"

definition host_reason :: "SupervisorConfig \<Rightarrow> Job \<Rightarrow> string sop" where
  "host_reason c job =
     (if TriggerPolicy job = TriggerVerifiedSuccess then do {
        sn \<leftarrow> host_snapshot c job;
        ret (case sn of
               Inl _ \<Rightarrow> ''host_unavailable_during_countdown''
             | Inr sn \<Rightarrow>
                 (case classifySnapshot sn of
                    Some (state, reason) \<Rightarrow> state_string state @ '':'' @ reason
                  | None \<Rightarrow>
                      if \<not> ReadyForFinalGate sn (StopTurnID job) \<or>
                         hd_Fingerprint (sn_HookDecision sn) \<noteq> HookFingerprintH3 job \<or>
                         sn_HostInstanceID sn \<noteq> HostInstanceID job
                      then ''host_evidence_changed_during_countdown'' else [])) }
      else ret [])"

text \<open>The checks of one round, which a requested cancellation skips.\<close>

definition countdown_reason :: "SupervisorConfig \<Rightarrow> Job \<Rightarrow> string \<Rightarrow> string sop" where
  "countdown_reason c job reason =
     (if CancelRequested job then ret reason
      else do {
        reason \<leftarrow> or_reason reason (policy_reason c job);
        reason \<leftarrow> or_reason reason (reason_text (grant_reason c job));
        reason \<leftarrow> or_reason reason (reason_text (barrier_reason job));
        reason \<leftarrow> or_reason reason (reason_text (pendingRevocationReason (JobID job)));
        reason \<leftarrow> or_reason reason (reason_text (arbitration_reason c job));
        or_reason reason (host_reason c job) })"

definition countdown_job :: "Job \<Rightarrow> Receipt \<Rightarrow> Job \<Rightarrow> Receipt option" where
  "countdown_job scheduled receipt current =
     (if State current \<noteq> StateActionScheduled then None
      else (case PowerReceipt current of
              None \<Rightarrow> None
            | Some r \<Rightarrow> if rcp_Checksum r \<noteq> rcp_Checksum receipt then None else Some r))"

text \<open>
  One round: \<open>Some r\<close> when the monitor returns \<open>r\<close>. The cancellations that run when the wait was
  interrupted use a context of their own, as the emergency cancellation does.
\<close>

definition cancel_round :: "SupervisorConfig \<Rightarrow> Job \<Rightarrow> Receipt \<Rightarrow> string \<Rightarrow> err option option sop" where
  "cancel_round c current receipt reason = do {
     e \<leftarrow> cancelPowerForReason c current receipt reason;
     if e = None then ret (Some None)
     else do {
       w \<leftarrow> waitContext c (max (cf_PollInterval c) Second);
       case w of
         None \<Rightarrow> ret None
       | Some w \<Rightarrow> do {
           _ \<leftarrow> cancelPowerForReason c current receipt reason;
           ret (Some (Some w)) } } }"

definition wait_round :: "SupervisorConfig \<Rightarrow> Job \<Rightarrow> Receipt \<Rightarrow> time \<Rightarrow> err option option sop" where
  "wait_round c current receipt deadline = do {
     now \<leftarrow> now_of;
     w \<leftarrow> waitContext c (min (cf_PollInterval c) (time_Sub deadline now));
     case w of
       None \<Rightarrow> ret None
     | Some w \<Rightarrow> do {
         cancelErr \<leftarrow> cancelPowerForReason c current receipt ''supervisor_interrupted_during_countdown'';
         ret (Some (Some (if cancelErr \<noteq> None
                          then Wrap ''%w; emergency countdown cancellation failed: %v'' w else w))) } }"

definition monitor_round :: "SupervisorConfig \<Rightarrow> Job \<Rightarrow> Receipt \<Rightarrow> time \<Rightarrow> err option option sop" where
  "monitor_round c scheduled receipt deadline = do {
     l \<leftarrow> store (store_Load (JobID scheduled));
     case l of
       Inl e \<Rightarrow> do { r \<leftarrow> emergencyCancelRetained c scheduled receipt ''countdown_state_unavailable'' e; ret (Some r) }
     | Inr current \<Rightarrow>
         if IsTerminal (State current) then ret (Some None)
         else (case countdown_job scheduled receipt current of
           None \<Rightarrow> do {
             r \<leftarrow> emergencyCancelRetained c scheduled receipt ''countdown_state_or_receipt_changed''
               (Err ''scheduled plugin job changed during countdown monitoring'');
             ret (Some r) }
         | Some receipt \<Rightarrow> do {
             now \<leftarrow> now_of;
             let due = (\<not> CancelRequested current \<and> \<not> now < deadline);
             if due \<and> time_Sub now deadline \<le> cf_MaxCountdownLateness c then ret (Some None)
             else do {
               reason \<leftarrow> countdown_reason c current
                 (if due then ''countdown_deadline_missed_after_sleep_or_stall''
                  else if CancelRequested current \<and> CancelReason current = []
                  then ''cancellation_requested_during_countdown'' else CancelReason current);
               if reason \<noteq> [] then cancel_round c current receipt reason
               else wait_round c current receipt deadline } }) }"

text \<open>The loops take fuel, one unit per round; \<open>None\<close> is running out of it.\<close>

fun monitor_rounds :: "nat \<Rightarrow> SupervisorConfig \<Rightarrow> Job \<Rightarrow> Receipt \<Rightarrow> time \<Rightarrow> err option option sop" where
  "monitor_rounds 0 c scheduled receipt deadline = ret None"
| "monitor_rounds (Suc n) c scheduled receipt deadline = do {
     r \<leftarrow> monitor_round c scheduled receipt deadline;
     case r of Some r \<Rightarrow> ret (Some r) | None \<Rightarrow> monitor_rounds n c scheduled receipt deadline }"

definition monitorScheduled :: "nat \<Rightarrow> SupervisorConfig \<Rightarrow> Job \<Rightarrow> err option option sop" where
  "monitorScheduled fuel c scheduled =
     (case (PowerReceipt scheduled, ScheduledFor scheduled) of
        (Some receipt, Some deadline) \<Rightarrow> monitor_rounds fuel c scheduled receipt deadline
      | _ \<Rightarrow> ret (Some (Some (Err ''scheduled plugin job has no recovery receipt''))))"

subsection \<open>Host snapshots of a verified job\<close>

definition h1_rule :: "Job \<Rightarrow> Snapshot \<Rightarrow> Job \<Rightarrow> time \<Rightarrow> err option \<times> Job" where
  "h1_rule job sn current now =
     (if Generation current \<noteq> Generation job \<or> HookFingerprintH1 current \<noteq> [] \<or> SessionID current \<noteq> SessionID job
      then (Some errJobChanged, current)
      else
        (let current = current\<lparr>HookFingerprintH1 := hd_Fingerprint (sn_HookDecision sn),
               HostInstanceID := sn_HostInstanceID sn, HookCompatibility := ''compatible'', HostSnapshotReason := ''h1_captured''\<rparr>
         in (None, if State current = StateArmed
                   then current\<lparr>State := StateHostMonitoring, ReasonCode := ''host_monitoring''\<rparr> else current)))"

definition h2_rule :: "Job \<Rightarrow> Snapshot \<Rightarrow> Job \<Rightarrow> time \<Rightarrow> err option \<times> Job" where
  "h2_rule job sn current now =
     (if Generation current \<noteq> Generation job \<or> HookFingerprintH2 current \<noteq> [] \<or>
         HookFingerprintH1 current \<noteq> HookFingerprintH1 job then (Some errJobChanged, current)
      else (None, current\<lparr>HookFingerprintH2 := hd_Fingerprint (sn_HookDecision sn), HostSnapshotReason := ''h2_captured''\<rparr>))"

definition h3_rule :: "Job \<Rightarrow> Snapshot \<Rightarrow> Job \<Rightarrow> time \<Rightarrow> err option \<times> Job" where
  "h3_rule job sn current now =
     (if Generation current \<noteq> Generation job \<or> State current \<noteq> StateStopObserved \<or>
         HookFingerprintH1 current \<noteq> HookFingerprintH1 job \<or> HookFingerprintH2 current \<noteq> HookFingerprintH2 job
      then (Some errJobChanged, current)
      else (None, current\<lparr>HookFingerprintH3 := hd_Fingerprint (sn_HookDecision sn), HostSnapshotReason := ''h3_ready''\<rparr>))"

definition captureH1 :: "SupervisorConfig \<Rightarrow> Job \<Rightarrow> err option sop" where
  "captureH1 c job = do {
     sn \<leftarrow> host_snapshot c job;
     case sn of
       Inl _ \<Rightarrow> power_fail job StateHostUnavailable ''host_snapshot_h1_failed''
     | Inr sn \<Rightarrow> do {
         early \<leftarrow> (if \<not> sn_SameHostProven sn \<or> \<not> sn_LiveTargetObserved sn then do {
             now \<leftarrow> now_of; ret (now < CreatedAt job + 15 * Second) } else ret False);
         if early then ret (Some errAuthorityNotReady)
         else (case classifySnapshot sn of
                 Some (state, reason) \<Rightarrow> power_fail job state reason
               | None \<Rightarrow> do {
                   (_, _, e) \<leftarrow> store (UpdateJob (JobID job) ''host.snapshot.h1'' [] (h1_rule job sn)); ret e }) } }"

definition captureH2 :: "SupervisorConfig \<Rightarrow> Job \<Rightarrow> err option sop" where
  "captureH2 c job = do {
     sn \<leftarrow> host_snapshot c job;
     case sn of
       Inl _ \<Rightarrow> power_fail job StateHostUnavailable ''host_snapshot_h2_failed''
     | Inr sn \<Rightarrow>
         (case classifySnapshot sn of
            Some (state, reason) \<Rightarrow> power_fail job state reason
          | None \<Rightarrow>
              if hd_Fingerprint (sn_HookDecision sn) \<noteq> HookFingerprintH1 job then
                power_fail job StateHookConflict ''hook_policy_changed_between_h1_h2''
              else if sn_HostInstanceID sn \<noteq> HostInstanceID job then
                power_fail job StateHostUnavailable ''host_instance_changed_between_h1_h2''
              else do {
                (_, _, e) \<leftarrow> store (UpdateJob (JobID job) ''host.snapshot.h2'' [] (h2_rule job sn)); ret e }) }"

definition captureReadyH3 :: "SupervisorConfig \<Rightarrow> Job \<Rightarrow> (bool \<times> err option) sop" where
  "captureReadyH3 c job = do {
     sn \<leftarrow> host_snapshot c job;
     case sn of
       Inl _ \<Rightarrow> do { r \<leftarrow> power_fail job StateHostUnavailable ''host_snapshot_h3_failed''; ret (False, r) }
     | Inr sn \<Rightarrow>
         (case classifySnapshot sn of
            Some (state, reason) \<Rightarrow> do { r \<leftarrow> power_fail job state reason; ret (False, r) }
          | None \<Rightarrow>
              if hd_Fingerprint (sn_HookDecision sn) \<noteq> HookFingerprintH1 job \<or>
                 hd_Fingerprint (sn_HookDecision sn) \<noteq> HookFingerprintH2 job then do {
                r \<leftarrow> power_fail job StateHookConflict ''hook_policy_changed_before_final_gate''; ret (False, r) }
              else if sn_HostInstanceID sn \<noteq> HostInstanceID job then do {
                r \<leftarrow> power_fail job StateHostUnavailable ''host_instance_changed_before_final_gate''; ret (False, r) }
              else if \<not> ReadyForFinalGate sn (StopTurnID job) then ret (False, None)
              else do {
                (_, _, e) \<leftarrow> store (UpdateJob (JobID job) ''host.snapshot.h3'' [] (h3_rule job sn));
                ret (e = None, e) }) }"

subsection \<open>The main loop\<close>

text \<open>A round of \<open>Run\<close> ends with \<open>continue\<close> (\<open>None\<close>) or returns.\<close>

definition poll :: "SupervisorConfig \<Rightarrow> err option option sop" where
  "poll c = do { w \<leftarrow> waitContext c (cf_PollInterval c); ret (case w of None \<Rightarrow> None | Some e \<Rightarrow> Some (Some e)) }"

definition return_fail :: "Job \<Rightarrow> State \<Rightarrow> string \<Rightarrow> err option option sop" where
  "return_fail job state reason = do { r \<leftarrow> power_fail job state reason; ret (Some r) }"

text \<open>\<open>continue\<close> when the job changed or the step succeeded, return its error otherwise.\<close>

definition again_if_changed :: "err option \<Rightarrow> err option option" where
  "again_if_changed e = (if e = None \<or> err_is e errJobChanged then None else Some e)"

definition stop_round :: "SupervisorConfig \<Rightarrow> string \<Rightarrow> Job \<Rightarrow> err option option sop" where
  "stop_round c jobID job = do {
     now \<leftarrow> now_of;
     if Expired job now then return_fail job StateExpired ''arm_expired''
     else if State job = StateStopObserved then do { e \<leftarrow> schedule c jobID; ret (again_if_changed e) }
     else poll c }"

definition ready_round :: "SupervisorConfig \<Rightarrow> string \<Rightarrow> Job \<Rightarrow> err option option sop" where
  "ready_round c jobID job = do {
     (ready, e) \<leftarrow> captureReadyH3 c job;
     if e \<noteq> None then ret (again_if_changed e)
     else if ready then do {
       e \<leftarrow> schedule c jobID;
       ret (if e = None then None else Some e) }
     else poll c }"

definition verified_round :: "SupervisorConfig \<Rightarrow> string \<Rightarrow> Job \<Rightarrow> err option option sop" where
  "verified_round c jobID job =
     (if cf_VerifiedAuthorization c = None then
        return_fail job StatePrivilegeUnavailable ''verified_success_authority_unavailable''
      else if \<not> verifiedConfigReady c then
        return_fail job StateHostUnavailable ''verified_success_supervisor_configuration_unavailable''
      else do {
        matches \<leftarrow> policyMatches c job;
        if \<not> matches then return_fail job StatePrivilegeUnavailable ''power_policy_changed_after_arm''
        else if HookFingerprintH1 job \<noteq> [] \<and> HostInstanceID job = [] then
          return_fail job StateHostUnavailable ''host_instance_identity_missing''
        else do {
          now \<leftarrow> now_of;
          if State job \<noteq> StateActionScheduled \<and> Expired job now then return_fail job StateExpired ''arm_expired''
          else if SessionID job \<noteq> [] \<and> HookFingerprintH1 job = [] then do {
            e \<leftarrow> captureH1 c job;
            if err_is e errJobChanged then ret None
            else if err_is e errAuthorityNotReady then poll c
            else ret (if e = None then None else Some e) }
          else if State job = StateReadyPendingStop \<and> FinishObserved job \<and> HookFingerprintH2 job = [] then do {
            e \<leftarrow> captureH2 c job; ret (again_if_changed e) }
          else if State job = StateStopObserved then
            (if HookFingerprintH2 job = [] then do { e \<leftarrow> captureH2 c job; ret (again_if_changed e) }
             else ready_round c jobID job)
          else poll c } })"

datatype step = Continue | Return "err option" | OutOfFuel

definition as_step :: "step \<Rightarrow> err option option sop \<Rightarrow> step sop" where
  "as_step none m = do { r \<leftarrow> m; ret (case r of None \<Rightarrow> none | Some e \<Rightarrow> Return e) }"

definition run_round :: "nat \<Rightarrow> SupervisorConfig \<Rightarrow> string \<Rightarrow> time \<Rightarrow> step sop" where
  "run_round fuel c jobID identityDeadline = do {
     l \<leftarrow> store (store_Load jobID);
     case l of
       Inl e \<Rightarrow> ret (Return (Some e))
     | Inr job \<Rightarrow>
         if IsTerminal (State job) then ret (Return None)
         else if SupervisorPID job = 0 then do {
           now \<leftarrow> now_of;
           if now < identityDeadline then as_step Continue (poll c) else ret (Return (Some ErrSupervisorOwnershipUnproven)) }
         else if SupervisorPID job \<noteq> cf_ProcessID c then ret (Return (Some ErrSupervisorOwnershipUnproven))
         else if DryRun job then as_step Continue (return_fail job StateOrphaned ''dry_run_supervisor_not_allowed'')
         else if HasUnresolvedPowerAction job \<and> State job \<noteq> StateActionScheduled then
           ret (Return (Some ErrIntentRecoveryRequired))
         else if State job = StateActionScheduled then as_step OutOfFuel (monitorScheduled fuel c job)
         else if TriggerPolicy job = TriggerAfterStop \<or> TriggerPolicy job = TriggerAfterAllStop then
           as_step Continue (stop_round c jobID job)
         else as_step Continue (verified_round c jobID job) }"

fun run_rounds :: "nat \<Rightarrow> nat \<Rightarrow> SupervisorConfig \<Rightarrow> string \<Rightarrow> time \<Rightarrow> err option option sop" where
  "run_rounds 0 fuel c jobID identityDeadline = ret None"
| "run_rounds (Suc n) fuel c jobID identityDeadline = do {
     r \<leftarrow> run_round fuel c jobID identityDeadline;
     case r of
       Continue \<Rightarrow> run_rounds n fuel c jobID identityDeadline
     | Return r \<Rightarrow> ret (Some r)
     | OutOfFuel \<Rightarrow> ret None }"

text \<open>
  \<open>Run\<close>, with \<open>n\<close> rounds for the main loop and \<open>fuel\<close> rounds for the countdown: \<open>Some r\<close> when it returns
  \<open>r\<close> within them.
\<close>

definition Run :: "nat \<Rightarrow> nat \<Rightarrow> SupervisorConfig \<Rightarrow> string \<Rightarrow> err option option sop" where
  "Run n fuel c jobID =
     (case ValidateJobID jobID of
        Some e \<Rightarrow> ret (Some (Some e))
      | None \<Rightarrow> do {
          now \<leftarrow> now_of;
          run_rounds n fuel c jobID (now + 15 * Second) })"

end
