(* ===== verification/Power_Laws.thy ===== *)
theory Power_Laws
  imports Power_Supervisor Recovery_Laws Plugin_Update
begin

text \<open>
  What the power supervisor promises. The backend's schedule call is made at most once for a job,
  however often its supervisor is started again; it is made only with the machine lock, an empty
  inventory, a successful preflight and the approval of a trusted authority; and a run that made it
  reports success only when the job is recorded as scheduled or the action is known to be inert.
\<close>

subsection \<open>The recovery records and the other operations\<close>

text \<open>The job operations leave the recovery records alone.\<close>

lemma keeps_recovery_append [keeps_rules]: "keeps (\<lambda>d. Q (d_recovery d)) (appendEventUnlocked job name key sh th old)"
  unfolding appendEventUnlocked_def by (intro keeps_rules) (simp_all add: keeps_change)

lemma keeps_recovery_remove [keeps_rules]: "keeps (\<lambda>d. Q (d_recovery d)) (removeMatchingSessionIndexUnlocked h j b)"
  unfolding removeMatchingSessionIndexUnlocked_def by (intro keeps_rules) simp_all

lemma keeps_recovery_release [keeps_rules]: "keeps (\<lambda>d. Q (d_recovery d)) (release_indexes job ts)"
  by (induction ts) (auto intro!: keeps_rules)

lemma keeps_recovery_update [keeps_rules]: "keeps (\<lambda>d. Q (d_recovery d)) (UpdateJob i name key f)"
  unfolding UpdateJob_def UpdateJob_locked_def write_update_def release_if_done_def releaseBarrierIndexesUnlocked_def
  by (intro keeps_rules) simp_all

lemma keeps_load_job [keeps_rules]: "keeps P (store_Load i)"
  unfolding store_Load_def by (intro keeps_rules)

lemma keeps_read_pending [keeps_rules]: "keeps P (read_pending job)"
  unfolding read_pending_def pendingRevocationsUnlocked_def by (intro keeps_rules)

lemma keeps_pending [keeps_rules]: "keeps P (PendingRevocation i)"
  unfolding PendingRevocation_def by (intro keeps_rules)

lemma keeps_authority [keeps_rules]: "keeps P (BarrierAuthority i)"
  unfolding BarrierAuthority_def by (intro keeps_rules)

subsection \<open>Quiet programs\<close>

text \<open>
  What a program of the supervisor may have done when it ends: the record of the schedule call of \<open>i\<close>,
  if there was one, is still there, and the log has only grown by effects that satisfy \<open>A\<close>.
\<close>

definition later :: "(effect \<Rightarrow> bool) \<Rightarrow> string \<Rightarrow> power_world \<Rightarrow> power_world \<Rightarrow> bool" where
  "later A i s s' \<longleftrightarrow> evolves (pw_world s) (pw_world s') \<and>
     (call_recorded i (disk (pw_world s)) \<longrightarrow> call_recorded i (disk (pw_world s'))) \<and>
     (\<exists>new. pw_log s' = pw_log s @ new \<and> list_all A new)"

lemma later_refl [simp]: "later A i s s"
  by (simp add: later_def)

lemma later_trans [trans]: "later A i s s' \<Longrightarrow> later A i s' s'' \<Longrightarrow> later A i s s''"
  unfolding later_def by (auto intro: evolves_trans)

abbreviation others_keep :: "string \<Rightarrow> power_world \<Rightarrow> bool" where
  "others_keep i s \<equiv> stable (call_recorded i) (pw_world s)"

lemma later_stable: "later A i s s' \<Longrightarrow> others_keep i s \<Longrightarrow> others_keep i s'"
  by (auto simp: later_def dest: stable_evolves)

definition quietly :: "(effect \<Rightarrow> bool) \<Rightarrow> string \<Rightarrow> power_world \<Rightarrow> power_world \<Rightarrow> bool" where
  "quietly A i s s' \<longleftrightarrow> (others_keep i s \<longrightarrow> later A i s s')"

abbreviation quiet :: "(effect \<Rightarrow> bool) \<Rightarrow> string \<Rightarrow> 'a sop \<Rightarrow> bool" where
  "quiet A i \<equiv> steps (quietly A i)"

interpretation quiet: journey "quietly A i" for A i
  by unfold_locales (auto simp: quietly_def intro: later_trans later_stable)

lemma quietD: "quiet A i m \<Longrightarrow> others_keep i s \<Longrightarrow> wp m (\<lambda>_ s'. later A i s s') s"
  by (erule stepsD [THEN wp_mono]) (simp add: quietly_def)

lemma quietI: "(\<And>s. others_keep i s \<Longrightarrow> wp m (\<lambda>_ s'. later A i s s') s) \<Longrightarrow> quiet A i m"
  unfolding steps_def quietly_def by (fastforce simp: wp_def)

lemma quiet_store [quiet_rules]:
  assumes "keeps (call_recorded i) m" and "keeps (\<lambda>_. True) m"
  shows "quiet A i (store m)"
proof (rule quietI, simp)
  fix s assume s: "others_keep i s"
  let ?w = "pw_world s"
  have "wp m (\<lambda>_ w'. evolves ?w w') ?w"
    using assms(2) by (auto simp: keeps_def stable_def)
  moreover have "wp m (\<lambda>_ w'. call_recorded i (disk ?w) \<longrightarrow> call_recorded i (disk w')) ?w"
    using keepsD [OF assms(1) s] by (cases "call_recorded i (disk ?w)") (simp_all add: wp_any)
  ultimately show "wp m (\<lambda>_ w. later A i s (s\<lparr>pw_world := w\<rparr>)) ?w"
    by (rule wp_mono [OF wp_conj]) (simp add: later_def)
qed

lemma quiet_ask [quiet_rules]: "(\<And>r. A (ev r)) \<Longrightarrow> quiet A i (ask ev f)"
  by (rule quietI) (simp add: later_def)

lemma keeps_call_update [keeps_rules]: "keeps (call_recorded i) (UpdateJob j name key f)"
  using keeps_recovery_update [of "\<lambda>r. rf_call (case map_of r i of None \<Rightarrow> no_files | Some x \<Rightarrow> x) \<noteq> None"]
  by (simp add: call_recorded_def [abs_def] rec_files_def)

lemma keeps_total_update [keeps_rules]: "keeps (\<lambda>_. True) (UpdateJob j name key f)"
  using keeps_recovery_update [of "\<lambda>_. True"] by simp

subsection \<open>Everything but the call is quiet\<close>

text \<open>The effects of the stages of \<open>schedule\<close>: all but the call itself and the machine lock.\<close>

fun inner :: "effect \<Rightarrow> bool" where
  "inner (Scheduled q r e) = False"
| "inner (Locked e) = False"
| "inner Unlocked = False"
| "inner _ = True"

text \<open>
  The programs below have inner effects only; with \<open>A\<close> any property of effects that holds of those,
  they only add effects that satisfy it.
\<close>

locale calls_aside =
  fixes A :: "effect \<Rightarrow> bool"
  assumes aside: "inner e \<Longrightarrow> A e"
begin

lemma quiet_wait [quiet_rules]: "quiet A i (waitContext c d)"
  unfolding waitContext_def by (intro quiet_rules aside) simp

lemma quiet_now [quiet_rules]: "quiet A i now_of"
  unfolding now_of_def by (intro quiet_rules keeps_rules)

lemma quiet_host [quiet_rules]: "quiet A i (host_snapshot c job)"
  unfolding host_snapshot_def by (intro quiet_rules aside) simp

lemma quiet_profile [quiet_rules]: "quiet A i (load_profile c n)"
  unfolding load_profile_def by (intro quiet_rules aside) simp

lemma quiet_arbitration [quiet_rules]: "quiet A i (validateStopArbitration c job)"
  unfolding validateStopArbitration_def by (intro quiet_rules aside) simp

lemma quiet_authorization [quiet_rules]: "quiet A i (validateVerifiedAuthorization c job)"
  unfolding validateVerifiedAuthorization_def by (intro quiet_rules aside) simp

lemma quiet_pending [quiet_rules]: "quiet A i (pendingRevocationReason j)"
  unfolding pendingRevocationReason_def by (intro quiet_rules keeps_rules)

lemma quiet_policy [quiet_rules]: "quiet A i (policyMatches c job)"
  unfolding policyMatches_def by (intro quiet_rules aside) simp

lemma quiet_fail [quiet_rules]: "quiet A i (power_fail job st r)"
  unfolding power_fail_def by (intro quiet_rules keeps_rules)

lemma quiet_load_and_fail [quiet_rules]: "quiet A i (load_and_fail j st r)"
  unfolding load_and_fail_def by (intro quiet_rules keeps_rules)

lemma quiet_resolution [quiet_rules]: "quiet A i (persistRecoveryResolutionIfPresent j out r res)"
  unfolding persistRecoveryResolutionIfPresent_def by (intro quiet_rules keeps_rules)

lemma quiet_abort [quiet_rules]: "quiet A i (abortIntentBeforeSchedule job r)"
  unfolding abortIntentBeforeSchedule_def by (intro quiet_rules keeps_rules)

lemma quiet_cancel [quiet_rules]: "quiet A i (cancelPowerForReason c job rc r)"
  unfolding cancelPowerForReason_def by (intro quiet_rules keeps_rules aside) auto

lemma quiet_emergency [quiet_rules]: "quiet A i (emergencyCancelRetained c job rc r e)"
  unfolding emergencyCancelRetained_def by (intro quiet_rules)

lemma quiet_accepted [quiet_rules]: "quiet A i (cancelAcceptedAction c job rc r)"
  unfolding cancelAcceptedAction_def by (intro quiet_rules keeps_rules aside) auto

lemma quiet_reasons [quiet_rules]:
  "quiet A i (barrier_reason job)" "quiet A i (arbitration_reason c job)" "quiet A i (grant_reason c job)"
  unfolding barrier_reason_def arbitration_reason_def grant_reason_def by (intro quiet_rules keeps_rules)+

lemma quiet_checks [quiet_rules]:
  "quiet A i (check_revocation job)" "quiet A i (check_expiry job)" "quiet A i (check_arbitration c job)"
  "quiet A i (check_grant c job)" "quiet A i m \<Longrightarrow> quiet A i (abort_when job m)" "quiet A i m \<Longrightarrow> quiet A i (cancel_when c job rc m)"
  unfolding check_revocation_def check_expiry_def check_arbitration_def check_grant_def abort_when_def cancel_when_def
  by (intro quiet_rules keeps_rules; assumption?)+

lemma quiet_first [quiet_rules]: "quiet A i (first_gates c j)"
  unfolding first_gates_def policy_gate_def verified_gate_def by (intro quiet_rules keeps_rules)

lemma quiet_final [quiet_rules]: "quiet A i (final_gates c j job)"
  unfolding final_gates_def barrier_again_def host_gate_def by (intro quiet_rules keeps_rules)

lemma quiet_intent [quiet_rules]: "quiet A i (record_intent c job)"
  unfolding record_intent_def by (intro quiet_rules keeps_rules aside) auto

lemma quiet_authority [quiet_rules]: "quiet A i (authority_checks c job p)"
  unfolding authority_checks_def by (intro quiet_rules)

lemma quiet_last [quiet_rules]: "quiet A i (last_checks c j p)"
  unfolding last_checks_def authority_checks_def cross_boundary_def by (intro quiet_rules keeps_rules)

lemma quiet_unknown [quiet_rules]: "quiet A i (unknown_outcome c job p e)"
  unfolding unknown_outcome_def by (intro quiet_rules keeps_rules)

lemma quiet_after [quiet_rules]: "quiet A i (after_schedule c job p r)"
  unfolding after_schedule_def by (intro quiet_rules keeps_rules)

lemma quiet_accept [quiet_rules]: "quiet A i (accept_receipt c job p st r)"
  unfolding accept_receipt_def by (intro quiet_rules keeps_rules)

lemma quiet_reason_rounds [quiet_rules]:
  "quiet A i (policy_reason c job)" "quiet A i (host_reason c job)" "quiet A i m \<Longrightarrow> quiet A i (reason_text m)"
  "quiet A i k \<Longrightarrow> quiet A i (or_reason r k)"
  unfolding policy_reason_def host_reason_def reason_text_def or_reason_def by (intro quiet_rules; assumption?)+

lemma quiet_countdown [quiet_rules]: "quiet A i (countdown_reason c job r)"
  unfolding countdown_reason_def by (intro quiet_rules)

lemma quiet_monitor [quiet_rules]: "quiet A i (monitor_round c job rc d)"
  unfolding monitor_round_def cancel_round_def wait_round_def by (intro quiet_rules keeps_rules)

lemma quiet_rounds [quiet_rules]: "quiet A i (monitor_rounds n c job rc d)"
  by (induction n) (auto intro!: quiet_rules)

lemma quiet_monitorScheduled [quiet_rules]: "quiet A i (monitorScheduled n c job)"
  unfolding monitorScheduled_def by (intro quiet_rules)

lemma quiet_captures [quiet_rules]:
  "quiet A i (captureH1 c job)" "quiet A i (captureH2 c job)" "quiet A i (captureReadyH3 c job)"
  unfolding captureH1_def captureH2_def captureReadyH3_def by (intro quiet_rules keeps_rules)+

lemma quiet_poll [quiet_rules]: "quiet A i (poll c)" "quiet A i (return_fail job st r)"
  unfolding poll_def return_fail_def by (intro quiet_rules)+

end

interpretation inner: calls_aside inner
  by unfold_locales

interpretation any_effect: calls_aside "\<lambda>_. True"
  by unfold_locales simp

subsection \<open>The stages on the way to the call\<close>

lemma wp_later:
  assumes "others_keep i s" "quiet A i m" "\<And>r s'. later A i s s' \<Longrightarrow> others_keep i s' \<Longrightarrow> Q r s'"
  shows "wp m Q s"
  by (rule wp_mono [OF quietD [OF assms(2,1)]]) (use assms(1,3) later_stable in blast)

text \<open>The sequences whose first result matters, and any other sequence.\<close>

lemma store_Load_facts:
  "wp (store_Load i) (\<lambda>r _. case r of Inl _ \<Rightarrow> True | Inr j \<Rightarrow> JobID j = i \<and> Validate j = None) w"
  unfolding store_Load_def by (intro wp_intros wp_observe) (auto dest: loaded_facts split: sum.split)

lemma wp_load_then:
  assumes "\<And>e s'. wp (k (Inl e)) Q s'" "\<And>j s'. JobID j = i \<Longrightarrow> Validate j = None \<Longrightarrow> wp (k (Inr j)) Q s'"
  shows "wp (store (store_Load i) \<bind> k) Q s"
  unfolding wp_bind wp_store by (rule wp_mono [OF store_Load_facts]) (auto simp: assms split: sum.splits)

lemma wp_authority_then:
  assumes "\<And>j e s'. (e = None \<Longrightarrow> JobID j = i) \<Longrightarrow> wp (k (j, e)) Q s'"
  shows "wp (store (BarrierAuthority i) \<bind> k) Q s"
  unfolding wp_bind wp_store by (rule wp_mono [OF BarrierAuthority_ready]) (use assms in auto)

lemma update_JobID: "update_step i name key f d (j, ch, None) d' \<Longrightarrow> keeps_id f \<Longrightarrow> JobID j = i"
  by (erule update_stepE) (auto dest: loadPath_valid next_job_JobID)

lemma wp_update_then:
  assumes "keeps_id f" and "\<And>j ch e w. (e = None \<Longrightarrow> JobID j = i) \<Longrightarrow> wp (k (j, ch, e)) Q (s\<lparr>pw_world := w\<rparr>)"
  shows "wp (store (UpdateJob i name key f) \<bind> k) Q s"
  unfolding wp_bind wp_store
proof (rule wp_mono [OF UpdateJob_step], goal_cases)
  case (1 r w')
  obtain j ch e where r: "r = (j, ch, e)" by (cases r)
  show ?case
    using 1 update_JobID [OF _ assms(1)] unfolding r by (intro assms(2)) blast
qed

lemma wp_policy_gate:
  assumes "JobID job = i" "\<And>r s'. Q (Inl r) s'" "\<And>j s'. JobID j = i \<Longrightarrow> Q (Inr j) s'"
  shows "wp (policy_gate c i job) Q s"
  unfolding policy_gate_def verified_gate_def
  using assms by (intro wp_branches wp_authority_then wp_all wp_and_then_all) auto

lemma wp_first_gates:
  assumes "\<And>r s'. Q (Inl r) s'" "\<And>j s'. JobID j = i \<Longrightarrow> Q (Inr j) s'"
  shows "wp (first_gates c i) Q s"
  unfolding first_gates_def
  using assms by (intro wp_branches wp_load_then wp_and_then_all wp_bindI wp_policy_gate) auto

lemma wp_final_gates:
  assumes "\<And>r s'. Q (Inl r) s'" "\<And>j s'. JobID j = i \<Longrightarrow> Q (Inr j) s'"
  shows "wp (final_gates c i job) Q s"
proof -
  have again: "wp (barrier_again i job cur) Q s"
    if "JobID cur = i" "\<And>r s'. Q (Inl r) s'" "\<And>j s'. JobID j = i \<Longrightarrow> Q (Inr j) s'" for cur Q s
    unfolding barrier_again_def
    using that by (intro wp_branches wp_authority_then wp_all) auto
  show ?thesis
    unfolding final_gates_def
    using assms by (intro wp_branches wp_load_then wp_and_then_all wp_bindI again) auto
qed

subsection \<open>What is in the log\<close>

lemma logged_later: "later A i s s' \<Longrightarrow> later B i s' s'' \<Longrightarrow> logged s s' e \<or> logged s' s'' e \<Longrightarrow> logged s s'' e"
  by (auto simp: later_def logged_def)

lemma later_ask: "A e \<Longrightarrow> later A i s (s\<lparr>pw_log := pw_log s @ [e]\<rparr>)"
  by (simp add: later_def)

lemma wp_later_then:
  assumes "others_keep i s" "quiet A i m" "\<And>r s'. later A i s s' \<Longrightarrow> others_keep i s' \<Longrightarrow> wp (f r) Q s'"
  shows "wp (m \<bind> f) Q s"
  unfolding wp_bind using assms by (rule wp_later)

text \<open>The authority of a job: the arbitration of a stop policy, the grant of a verified one.\<close>

definition authorised :: "power_world \<Rightarrow> power_world \<Rightarrow> bool" where
  "authorised s s' \<longleftrightarrow> logged s s' (Arbitrated None) \<or> logged s s' (Granted None)"

lemma authorised_mono: "later A i s0 s \<Longrightarrow> later B i s t \<Longrightarrow> later C i t t' \<Longrightarrow> authorised s t \<Longrightarrow> authorised s0 t'"
  by (auto simp: later_def logged_def authorised_def)

text \<open>A world on the way from \<open>s\<close>, authorised when \<open>G\<close> holds, and a guard that the program passes there.\<close>

definition on_the_way :: "string \<Rightarrow> power_world \<Rightarrow> bool \<Rightarrow> power_world \<Rightarrow> bool" where
  "on_the_way i s G t \<longleftrightarrow> later inner i s t \<and> others_keep i t \<and> (G \<longrightarrow> authorised s t)"

lemma wp_guard:
  assumes t: "on_the_way i s G t" and m: "quiet inner i m" "\<And>t. wp m (\<lambda>r t'. r = None \<longrightarrow> (G' \<longrightarrow> authorised t t')) t"
    and Inl: "\<And>x t'. later inner i s t' \<Longrightarrow> Q (Inl x) t'"
    and k: "\<And>t'. on_the_way i s (G \<or> G') t' \<Longrightarrow> wp k Q t'"
  shows "wp (and_then m k) Q t"
proof -
  have "others_keep i t"
    using t by (simp add: on_the_way_def)
  from wp_conj [OF quietD [OF m(1) this] m(2) [of t]] show ?thesis
    unfolding and_then_def wp_bind
  proof (rule wp_mono)
    fix r :: "'a option" and t' assume r: "later inner i t t' \<and> (r = None \<longrightarrow> (G' \<longrightarrow> authorised t t'))"
    then have "later inner i s t'" "others_keep i t'" "G \<longrightarrow> authorised s t'"
      using t by (auto simp: on_the_way_def intro: later_trans later_stable authorised_mono [OF later_refl])
    moreover have "authorised s t'" if "authorised t t'"
      using that t r by (auto simp: on_the_way_def intro: authorised_mono [OF _ _ later_refl])
    ultimately show "wp (case r of None \<Rightarrow> k | Some x \<Rightarrow> ret (Inl x)) Q t'"
      using r by (cases r) (auto intro!: Inl k simp: on_the_way_def)
  qed
qed

lemma wp_step:
  assumes "on_the_way i s G t" "quiet inner i m" "\<And>x t'. later inner i s t' \<Longrightarrow> Q (Inl x) t'"
    and "\<And>t'. on_the_way i s G t' \<Longrightarrow> wp k Q t'"
  shows "wp (and_then m k) Q t"
  by (rule wp_guard [where G' = False, OF assms(1,2)]) (use assms(3,4) in \<open>simp_all add: wp_any\<close>)

lemma policy_kinds:
  assumes "Validate job = None"
  shows "isStopPolicy (TriggerPolicy job) \<or> TriggerPolicy job = TriggerVerifiedSuccess"
  using loaded_facts Validate_NoneD(1) [OF assms]
  by (cases "TriggerPolicy job") (auto simp: job_fixed_def policy_Valid_def isStopPolicy_def)

lemma wp_arbitrated:
  "wp (abort_when job (arbitration_reason c job)) (\<lambda>r s'. r = None \<longrightarrow>
     (isStopPolicy (TriggerPolicy job) \<longrightarrow> authorised s s')) s"
  unfolding abort_when_def arbitration_reason_def validateStopArbitration_def authorised_def
  by (auto simp: wp_case_option intro!: wp_any wp_all split: option.splits)

lemma wp_granted:
  "wp (abort_when job (grant_reason c job)) (\<lambda>r s'. r = None \<longrightarrow>
     (TriggerPolicy job = TriggerVerifiedSuccess \<longrightarrow> authorised s s')) s"
  unfolding abort_when_def grant_reason_def validateVerifiedAuthorization_def authorised_def
  by (auto simp: wp_case_option intro!: wp_any wp_all split: option.splits)

text \<open>The checks before the call pass only with the approval of the authority of the job's policy.\<close>

lemma wp_authority_checks:
  assumes "others_keep i s" and valid: "Validate job = None"
    and Inl: "\<And>r s'. later inner i s s' \<Longrightarrow> Q (Inl r) s'"
    and Inr: "\<And>s'. later inner i s s' \<Longrightarrow> others_keep i s' \<Longrightarrow> authorised s s' \<Longrightarrow> Q (Inr ()) s'"
  shows "wp (authority_checks c job p) Q s"
proof -
  have s: "on_the_way i s False s"
    using assms(1) by (simp add: on_the_way_def)
  have end_ok: "Q (Inr ()) t"
    if "on_the_way i s (isStopPolicy (TriggerPolicy job) \<or> TriggerPolicy job = TriggerVerifiedSuccess) t" for t
    using that policy_kinds [OF valid] by (intro Inr) (simp_all add: on_the_way_def)
  note quiet_checks = inner.quiet_pending inner.quiet_reasons inner.quiet_checks quiet.steps_ret
  show ?thesis
    unfolding authority_checks_def
    apply (rule wp_step [OF s], (intro quiet_checks)[1], rule Inl, assumption)
    apply (rule wp_step, assumption, (intro quiet_checks)[1], rule Inl, assumption)
    apply (rule wp_step, assumption, (intro quiet_checks)[1], rule Inl, assumption)
    apply (rule wp_guard [OF _ _ wp_arbitrated], assumption, (intro quiet_checks)[1], rule Inl, assumption)
    apply (rule wp_guard [OF _ _ wp_granted], assumption, (intro quiet_checks)[1], rule Inl, assumption)
    apply (rule wp_step, assumption, (intro quiet_checks)[1], rule Inl, assumption)
    apply (rule wp_retI, rule end_ok, simp)
    done
qed

end
