(* ===== verification/Power_Promises.thy ===== *)
theory Power_Promises
  imports Power_Laws Go_Live Plugin_Examples
begin

text \<open>
  What the power supervisor promises about its one schedule call: it is sent at most once for a job,
  however often the supervisor is restarted; it is sent only while the machine lock is held, after an
  empty inventory, a successful preflight of the same request and the approval of the authority of the
  job's policy; and a call that the backend accepted ends in a job that is recorded as scheduled, or in
  an action that is known to be inert, when the supervisor reports success.
\<close>

subsection \<open>From the intent to the call\<close>

lemma keeps_id_rules [simp]:
  "keeps_id (intent_rule g now cap r)" "keeps_id (fail_rule st why)" "keeps_id (abort_rule why)"
  "keeps_id (scheduled_rule g r)" "keeps_id unknown_rule" "keeps_id (rollback_rule res b why)"
  "keeps_id (countdown_cancel_rule res b why)"
  by (auto simp: keeps_id_def intent_rule_def fail_rule_def abort_rule_def scheduled_rule_def unknown_rule_def
      rollback_rule_def countdown_cancel_rule_def Let_def)

lemma preflight_JobID [simp]: "req_JobID (power_request job now) = JobID job"
  by (simp add: power_request_def)

text \<open>The preflight that the intent rests on.\<close>

definition preflighted :: "power_world \<Rightarrow> power_world \<Rightarrow> PowerRequest \<Rightarrow> bool" where
  "preflighted s s' q \<longleftrightarrow> (\<exists>cap. logged s s' (Preflighted q cap None) \<and> cap_ExecuteSupported cap)"

text \<open>The gates hand on a job of the right identity, quietly.\<close>

lemma wp_gates:
  assumes "others_keep i s" "\<And>r s'. later inner i s s' \<Longrightarrow> Q (Inl r) s'"
    "\<And>j s'. later inner i s s' \<Longrightarrow> others_keep i s' \<Longrightarrow> JobID j = i \<Longrightarrow> Q (Inr j) s'"
  shows "wp (first_gates c i) Q s" "wp (final_gates c i job) Q s"
proof -
  let ?facts = "\<lambda>r (s' :: power_world). case r of Inl (_ :: err option) \<Rightarrow> True | Inr j \<Rightarrow> JobID j = i"
  have "wp (first_gates c i) ?facts s"
    by (rule wp_first_gates) auto
  from wp_conj [OF quietD [OF inner.quiet_first assms(1)] this] show "wp (first_gates c i) Q s"
    by (rule wp_mono) (use assms later_stable in \<open>auto split: sum.splits\<close>)
  have "wp (final_gates c i job) ?facts s"
    by (rule wp_final_gates) auto
  from wp_conj [OF quietD [OF inner.quiet_final assms(1)] this] show "wp (final_gates c i job) Q s"
    by (rule wp_mono) (use assms later_stable in \<open>auto split: sum.splits\<close>)
qed

lemma wp_record_intent_facts:
  assumes "JobID current = i"
  shows "wp (record_intent c current) (\<lambda>r s'. case r of Inl _ \<Rightarrow> True
     | Inr (j, p) \<Rightarrow> j = i \<and> req_JobID (in_request p) = i \<and> preflighted s s' (in_request p)) s"
  unfolding record_intent_def now_of_def
  by (intro wp_update_then wp_store_then wp_ask_then wp_branches wp_all)
    (auto simp: preflighted_def logged_def assms)

lemma wp_record_intent:
  assumes "others_keep i s" "JobID current = i" "\<And>r s'. later inner i s s' \<Longrightarrow> Q (Inl r) s'"
    "\<And>p s'. later inner i s s' \<Longrightarrow> others_keep i s' \<Longrightarrow> preflighted s s' (in_request p) \<Longrightarrow> req_JobID (in_request p) = i \<Longrightarrow>
       Q (Inr (i, p)) s'"
  shows "wp (record_intent c current) Q s"
proof (rule wp_mono [OF wp_conj [OF quietD [OF inner.quiet_intent assms(1)] wp_record_intent_facts [OF assms(2)]]], goal_cases)
  case (1 r s')
  then show ?case
    using later_stable [OF _ assms(1)] assms(3,4) by (cases r) auto
qed

lemma wp_cross_facts:
  assumes "others_keep (JobID job) s"
  shows "wp (cross_boundary job p) (\<lambda>r s'. case r of Inl _ \<Rightarrow> True
     | Inr (j, _) \<Rightarrow> j = job \<and> \<not> call_recorded (JobID job) (disk (pw_world s)) \<and>
         call_recorded (JobID job) (disk (pw_world s'))) s"
proof -
  let ?i = "JobID job" and ?w = "pw_world s"
  let ?Q = "\<lambda>r w'. case r of Inl _ \<Rightarrow> True
     | Inr _ \<Rightarrow> \<not> call_recorded ?i (disk ?w) \<and> call_recorded ?i (disk w')"
  have persist: "wp (PersistScheduleCallStarted ?i h t) ?Q (at ?w (disk ?w) n)" for h t n
  proof (cases "call_recorded ?i (disk ?w)")
    case True
    show ?thesis
      by (rule wp_mono [OF started_call_refused]) (use assms True in \<open>auto split: sum.split\<close>)
  next
    case False
    show ?thesis
      by (rule wp_mono [OF persisted_call]) (use False in \<open>auto split: sum.split\<close>)
  qed
  show ?thesis
    unfolding cross_boundary_def now_of_def wp_bind wp_store
    by (rule wp_time_Now, simp, rule wp_mono [OF persist]) (auto split: sum.splits intro!: wp_any)
qed

lemma wp_cross_boundary:
  assumes "others_keep i s" "JobID job = i" "\<And>r s'. later inner i s s' \<Longrightarrow> Q (Inl r) s'"
    and "\<And>started s'. later inner i s s' \<Longrightarrow> \<not> call_recorded i (disk (pw_world s)) \<Longrightarrow>
       call_recorded i (disk (pw_world s')) \<Longrightarrow> Q (Inr (job, started)) s'"
  shows "wp (cross_boundary job p) Q s"
proof -
  have "quiet inner i (cross_boundary job p)"
    unfolding cross_boundary_def by (intro quiet_rules keeps_rules)
  from wp_conj [OF quietD [OF this assms(1)] wp_cross_facts] show ?thesis
    by (rule wp_mono) (use assms in \<open>auto split: sum.splits\<close>)
qed

text \<open>The last checks: what holds of the log and of the record when they pass.\<close>

definition crossed :: "string \<Rightarrow> power_world \<Rightarrow> power_world \<Rightarrow> bool" where
  "crossed i s s' \<longleftrightarrow> later inner i s s' \<and> authorised s s' \<and>
     \<not> call_recorded i (disk (pw_world s)) \<and> call_recorded i (disk (pw_world s'))"

lemma wp_last_checks:
  assumes s: "others_keep i s" and refused: "\<And>r s'. later inner i s s' \<Longrightarrow> Q (Inl r) s'"
    and passed: "\<And>j started s'. JobID j = i \<Longrightarrow> crossed i s s' \<Longrightarrow> Q (Inr (j, started)) s'"
  shows "wp (last_checks c i p) Q s"
proof -
  have "quiet inner i (last_checks c i p)"
    by (intro quiet_rules)
  note q = quietD [OF this s]
  have load: "wp (store (store_Load i)) (\<lambda>r s'. later inner i s s' \<and>
     (case r of Inl _ \<Rightarrow> True | Inr j \<Rightarrow> JobID j = i \<and> Validate j = None)) s"
    by (rule wp_conj [OF quietD [OF _ s]], intro quiet_rules keeps_rules)
      (simp add: store_Load_facts)
  show ?thesis
    unfolding last_checks_def wp_bind
  proof (rule wp_mono [OF load], goal_cases)
    case (1 r s1)
    then have s1: "later inner i s s1" "others_keep i s1"
      using later_stable [OF _ s] by auto
    show ?case
    proof (cases r)
      case (Inr job)
      then have job: "JobID job = i" "Validate job = None" using 1 by auto
      show ?thesis
        unfolding Inr sum.case
      proof (intro wp_ifI wp_retI wp_bindI wp_authority_checks [OF s1(2) job(2)] wp_sumI, goal_cases)
        case 1 show ?case by (rule refused [OF s1(1)])
      next
        case (2 r s2 e) then show ?case by (simp add: refused later_trans [OF s1(1)])
      next
        case (5 s2 x)
        have s2: "later inner i s s2" by (rule later_trans [OF s1(1) 5(2)])
        have "Q (Inr (job, started)) s3"
          if "later inner i s2 s3" "\<not> call_recorded i (disk (pw_world s2))" "call_recorded i (disk (pw_world s3))" for started s3
          using that 5 s2 by (intro passed job)
            (auto simp: crossed_def intro: later_trans authorised_mono [OF s1(1)], simp add: later_def)
        then show ?case
          using later_trans [OF s2] by (intro wp_cross_boundary [OF 5(3) job(1)]) (simp_all add: refused)
      qed simp_all
    qed (use refused s1 in auto)
  qed
qed

subsection \<open>A whole attempt\<close>

text \<open>What a call needs of the log since the lock was taken.\<close>

definition ready_for :: "PowerRequest \<Rightarrow> effect list \<Rightarrow> bool" where
  "ready_for q es \<longleftrightarrow> Inventoried (Inr []) \<in> set es \<and>
     list_ex (\<lambda>e. case e of Preflighted q' cap None \<Rightarrow> q' = q \<and> cap_ExecuteSupported cap | _ \<Rightarrow> False) es \<and>
     (Arbitrated None \<in> set es \<or> Granted None \<in> set es)"

text \<open>An attempt that holds the lock: inner effects only, or one justified call among them.\<close>

definition one_call :: "string \<Rightarrow> power_world \<Rightarrow> power_world \<Rightarrow> bool" where
  "one_call i s s' \<longleftrightarrow> (\<exists>t q r e. later inner i s t \<and> ready_for q (since s t) \<and>
     \<not> call_recorded i (disk (pw_world s)) \<and> call_recorded i (disk (pw_world t)) \<and>
     later inner i (t\<lparr>pw_log := pw_log t @ [Scheduled q r e]\<rparr>) s')"

definition held :: "string \<Rightarrow> power_world \<Rightarrow> power_world \<Rightarrow> bool" where
  "held i s s' \<longleftrightarrow> later inner i s s' \<or> one_call i s s'"

lemma logged_mono: "later A i s s1 \<Longrightarrow> later B i s1 s2 \<Longrightarrow> later C i s2 t \<Longrightarrow> logged s1 s2 e \<Longrightarrow> logged s t e"
  by (auto simp: later_def logged_def)

lemma preflighted_mono:
  "later A i s s1 \<Longrightarrow> later B i s1 s2 \<Longrightarrow> later C i s2 t \<Longrightarrow> preflighted s1 s2 q \<Longrightarrow> preflighted s t q"
  unfolding preflighted_def by (blast intro: logged_mono)

lemma ready_for_iff:
  "ready_for q (since s t) \<longleftrightarrow> logged s t (Inventoried (Inr [])) \<and> preflighted s t q \<and> authorised s t"
proof -
  have "list_ex (\<lambda>e. case e of Preflighted q' cap None \<Rightarrow> q' = q \<and> cap_ExecuteSupported cap | _ \<Rightarrow> False) es \<longleftrightarrow>
      (\<exists>cap. Preflighted q cap None \<in> set es \<and> cap_ExecuteSupported cap)" for es
    by (induction es) (auto split: effect.splits option.splits)
  then show ?thesis
    by (auto simp: ready_for_def since_def preflighted_def authorised_def logged_def)
qed

lemma call_backend_after:
  assumes "others_keep i s"
  shows "wp (call_backend c job p started)
     (\<lambda>_ s'. \<exists>r e. later inner i (s\<lparr>pw_log := pw_log s @ [Scheduled (in_request p) r e]\<rparr>) s') s"
proof -
  have "quiet inner i (case r of (receipt, e) \<Rightarrow> case e of
     Some e \<Rightarrow> unknown_outcome c job p e | None \<Rightarrow> accept_receipt c job p started receipt)" for r
    by (intro quiet_rules)
  from quietD [OF this, of "s\<lparr>pw_log := pw_log s @ [ev]\<rparr>" for ev] show ?thesis
    unfolding call_backend_def wp_bind wp_ask using assms
    by (auto split: prod.split intro: wp_mono)
qed

lemma wp_schedule_holding:
  assumes s: "others_keep i s"
  shows "wp (schedule_holding c i) (\<lambda>_ s'. held i s s') s"
proof -
  have quietly: "wp m (\<lambda>_ s'. held i s s') s1" if "later inner i s s1" "quiet inner i m" for m :: "'a sop" and s1
    by (rule wp_mono [OF quietD [OF that(2) later_stable [OF that(1) s]]]) (auto simp: held_def intro: later_trans [OF that(1)])
  have stop: "wp (ret r) (\<lambda>_ s'. held i s s') s1" if "later inner i s s1" for r :: "err option" and s1
    using that by (simp add: held_def)
  let ?inv = "\<lambda>s1. later inner i s s1 \<and> logged s s1 (Inventoried (Inr []))"
  have more: "?inv s2" if "?inv s1" "later inner i s1 s2" for s1 s2
    using that later_trans logged_later by blast
  have call: "wp (call_backend c j p started) (\<lambda>_ s'. held i s s') t"
    if "?inv s1" "later inner i s1 s2" "preflighted s1 s2 (in_request p)" "crossed i s2 t" for j p started s1 s2 t
  proof -
    have t: "later inner i s t" "later inner i s2 t" "authorised s2 t" "call_recorded i (disk (pw_world t))"
        "\<not> call_recorded i (disk (pw_world s))"
      using that by (auto simp: crossed_def later_def dest: evolves_trans)
    have "ready_for (in_request p) (since s t)"
      unfolding ready_for_iff using that t
      by (blast intro: preflighted_mono authorised_mono logged_mono later_refl later_trans)
    then show ?thesis
      by (intro wp_mono [OF call_backend_after [OF later_stable [OF t(1) s]]])
        (use t in \<open>auto simp: held_def one_call_def\<close>)
  qed
  have intent: "wp (record_intent c j \<bind> (\<lambda>g. case g of Inl r \<Rightarrow> ret r | Inr (k, p) \<Rightarrow>
      last_checks c k p \<bind> (\<lambda>g. case g of Inl r \<Rightarrow> ret r | Inr (job, started) \<Rightarrow> call_backend c job p started)))
      (\<lambda>_ s'. held i s s') s1" if s1: "?inv s1" "others_keep i s1" "JobID j = i" for j s1
  proof (rule wp_bindI, rule wp_record_intent [OF s1(2,3)], goal_cases)
    case (1 r s2) then show ?case using more [OF s1(1)] by (auto simp: held_def)
  next
    case (2 p s2)
    have "wp (last_checks c i p) (\<lambda>r s3. wp (case r of Inl r \<Rightarrow> ret r
        | Inr (job, started) \<Rightarrow> call_backend c job p started) (\<lambda>_ s'. held i s s') s3) s2"
    proof (rule wp_last_checks [OF 2(2)], goal_cases)
      case (1 r s3) then show ?case using more [OF s1(1) later_trans [OF 2(1)]] by (auto simp: held_def)
    next
      case (2 k started s3) then show ?case using call [OF s1(1) \<open>later inner i s1 s2\<close> \<open>preflighted s1 s2 _\<close>] by simp
    qed
    then show ?case by simp
  qed
  have checked: "wp (first_gates c i \<bind> (\<lambda>g. case g of Inl r \<Rightarrow> ret r | Inr job \<Rightarrow>
      waitContext c (cf_Quiescence c) \<bind> (\<lambda>w. or_return w Some (final_gates c i job \<bind> (\<lambda>g. case g of Inl r \<Rightarrow> ret r
        | Inr current \<Rightarrow> record_intent c current \<bind> (\<lambda>g. case g of Inl r \<Rightarrow> ret r | Inr (k, p) \<Rightarrow>
            last_checks c k p \<bind> (\<lambda>g. case g of Inl r \<Rightarrow> ret r | Inr (job, started) \<Rightarrow> call_backend c job p started)))))))
      (\<lambda>_ s'. held i s s') s1" if s1: "?inv s1" "others_keep i s1" for s1
  proof (rule wp_bindI, rule wp_gates(1) [OF s1(2)], goal_cases)
    case (1 r s2) then show ?case using more [OF s1(1)] by (auto simp: held_def)
  next
    case (2 j s2)
    have s2: "?inv s2" using more [OF s1(1) 2(1)] .
    show ?case
      unfolding sum.case
    proof (rule wp_later_then [OF 2(2) inner.quiet_wait], goal_cases)
      case (1 r s3)
      have s3: "?inv s3" using more [OF s2 1(1)] .
      show ?case
      proof (rule wp_or_returnI, goal_cases)
        case 2 show ?case
        proof (rule wp_bindI, rule wp_gates(2) [OF 1(2)], goal_cases)
          case (1 r s4) then show ?case using more [OF s3] by (auto simp: held_def)
        next
          case (2 k s4) then show ?case using intent [OF more [OF s3]] by simp
        qed
      qed (use s3 in \<open>simp add: held_def\<close>)
    qed
  qed
  show ?thesis
    unfolding schedule_holding_def wp_bind wp_ask
  proof (rule wp_sumI, goal_cases)
    case (1 e) then show ?case by (intro quietly quiet_rules) (simp add: later_ask)
  next
    case (2 ids)
    note ids = 2
    let ?s = "s\<lparr>pw_log := pw_log s @ [Inventoried (cf_UnresolvedPowerJobs c (length (pw_log s)) i)]\<rparr>"
    have later: "later inner i s ?s" by (rule later_ask) simp
    show ?case
    proof (rule wp_ifI, goal_cases)
      case 1 show ?case by (intro quietly [OF later] quiet_rules)
    next
      case 2
      have "?inv ?s" using later 2 ids by simp
      from checked [OF this later_stable [OF later s]] show ?case by simp
    qed
  qed
qed

subsection \<open>Every run\<close>

text \<open>
  A log is justified when every call in it is made under the lock, after what \<open>ready_for\<close> asks for
  has happened since the lock was taken. \<open>w\<close> is the log since then, \<open>None\<close> when the lock is not held.
\<close>

fun justified :: "effect list option \<Rightarrow> effect list \<Rightarrow> bool" where
  "justified w [] \<longleftrightarrow> True"
| "justified w (Locked None # es) \<longleftrightarrow> justified (Some []) es"
| "justified w (Unlocked # es) \<longleftrightarrow> justified None es"
| "justified None (Scheduled q r e # es) \<longleftrightarrow> False"
| "justified (Some w) (Scheduled q r e # es) \<longleftrightarrow> ready_for q w \<and> justified (Some (w @ [Scheduled q r e])) es"
| "justified w (e # es) \<longleftrightarrow> justified (map_option (\<lambda>w. w @ [e]) w) es"

fun is_call :: "effect \<Rightarrow> bool" where
  "is_call (Scheduled q r e) = True"
| "is_call _ = False"

definition call_count :: "effect list \<Rightarrow> nat" where
  "call_count es = length (filter is_call es)"

lemma call_count_simps [simp]:
  "call_count [] = 0" "call_count (es @ es') = call_count es + call_count es'"
  "call_count (e # es) = (if is_call e then Suc (call_count es) else call_count es)"
  by (simp_all add: call_count_def)

lemma inner_justified [simp]: "list_all inner new \<Longrightarrow> justified w (new @ es) = justified (map_option (\<lambda>w. w @ new) w) es"
proof (induction new arbitrary: w)
  case (Cons e new)
  then show ?case by (cases e; cases w) auto
qed (simp add: option.map_ident)

lemma inner_count [simp]: "list_all inner new \<Longrightarrow> call_count new = 0"
  by (induction new) (auto elim: inner.elims)

text \<open>
  What a run may do to the world: with the record of the call in place it sends none, otherwise one at
  most, and then the record is in place; what it adds to the log is justified.
\<close>

definition budget :: "string \<Rightarrow> power_world \<Rightarrow> nat" where
  "budget i s = (if call_recorded i (disk (pw_world s)) then 0 else 1)"

definition frugal :: "string \<Rightarrow> power_world \<Rightarrow> power_world \<Rightarrow> bool" where
  "frugal i s s' \<longleftrightarrow> evolves (pw_world s) (pw_world s') \<and> (\<exists>new. pw_log s' = pw_log s @ new \<and>
     call_count new + budget i s' \<le> budget i s \<and> (\<forall>es. justified None (new @ es) = justified None es))"

definition soundly :: "string \<Rightarrow> power_world \<Rightarrow> power_world \<Rightarrow> bool" where
  "soundly i s s' \<longleftrightarrow> (others_keep i s \<longrightarrow> frugal i s s')"

lemma frugal_trans: "frugal i s s' \<Longrightarrow> frugal i s' s'' \<Longrightarrow> frugal i s s''"
  unfolding frugal_def
proof (elim conjE exE, goal_cases)
  case (1 new1 new2)
  then show ?case
    by (intro conjI exI [of _ "new1 @ new2"]) (auto intro: evolves_trans)
qed

interpretation run: journey "soundly i" for i
proof (unfold_locales, goal_cases)
  case (1 s) show ?case by (simp add: soundly_def frugal_def)
next
  case (2 s s' s'')
  then show ?case unfolding soundly_def by (meson frugal_def frugal_trans stable_evolves)
qed

lemma later_frugal: "later inner i s s' \<Longrightarrow> frugal i s s'"
  by (auto simp: later_def frugal_def budget_def)

lemma quiet_soundly: "quiet inner i m \<Longrightarrow> steps (soundly i) m"
  by (erule steps_mono) (auto simp: quietly_def soundly_def later_frugal)

lemma frugal_justified:
  assumes "frugal i s s'"
  shows "justified None (since s s')"
proof -
  obtain new where "pw_log s' = pw_log s @ new" "\<forall>es. justified None (new @ es) = justified None es"
    using assms by (auto simp: frugal_def)
  then show ?thesis
    using spec [of _ "[]"] by (simp add: since_def) (metis append_Nil2 justified.simps(1))
qed

text \<open>One attempt, with the lock around it.\<close>

lemma held_frugal:
  assumes "held i (s\<lparr>pw_log := pw_log s @ [Locked None]\<rparr>) s'"
  shows "frugal i s (s'\<lparr>pw_log := pw_log s' @ [Unlocked]\<rparr>)"
  using assms unfolding held_def
proof
  assume "later inner i (s\<lparr>pw_log := pw_log s @ [Locked None]\<rparr>) s'"
  then show ?thesis
    by (auto simp: later_def frugal_def budget_def)
next
  assume "one_call i (s\<lparr>pw_log := pw_log s @ [Locked None]\<rparr>) s'"
  then show ?thesis
    unfolding one_call_def later_def frugal_def budget_def since_def
    by (elim exE conjE) (auto intro: evolves_trans)
qed

lemma schedule_soundly [quiet_rules]: "steps (soundly i) (schedule c i)"
  unfolding steps_def soundly_def
proof
  fix s show "wp (schedule c i) (\<lambda>_ s'. others_keep i s \<longrightarrow> frugal i s s') s"
  proof (cases "others_keep i s")
    case True
    have refused: "frugal i s (s\<lparr>pw_log := pw_log s @ [Locked (Some e)]\<rparr>)" for e
      by (simp add: frugal_def budget_def)
    have "wp (load_and_fail i st why) (\<lambda>_ s'. frugal i s s') (s\<lparr>pw_log := pw_log s @ [Locked (Some e)]\<rparr>)" for e st why
      using quietD [OF inner.quiet_load_and_fail, of i "s\<lparr>pw_log := pw_log s @ [Locked (Some e)]\<rparr>"] True
      by (auto intro: wp_mono frugal_trans [OF refused] later_frugal)
    moreover have "wp (schedule_holding c i) (\<lambda>_ s'. frugal i s (s'\<lparr>pw_log := pw_log s' @ [Unlocked]\<rparr>))
        (s\<lparr>pw_log := pw_log s @ [Locked None]\<rparr>)"
      using True by (intro wp_mono [OF wp_schedule_holding] held_frugal) simp_all
    ultimately show ?thesis
      unfolding schedule_def using True by (auto split: option.split)
  qed (simp add: wp_any)
qed

lemma run_rules [quiet_rules]:
  "steps (soundly i) (captureReadyH3 c job)" "steps (soundly i) (captureH1 c job)" "steps (soundly i) (captureH2 c job)"
  "steps (soundly i) (poll c)" "steps (soundly i) (return_fail job st why)" "steps (soundly i) now_of"
  "steps (soundly i) (policyMatches c job)" "steps (soundly i) (monitorScheduled n c job)" "steps (soundly i) (store (store_Load j))"
  by (intro quiet_soundly quiet_rules keeps_rules)+

lemma rounds_soundly [quiet_rules]:
  "steps (soundly i) (stop_round c i job)" "steps (soundly i) (verified_round c i job)" "steps (soundly i) m \<Longrightarrow> steps (soundly i) (as_step st m)"
  unfolding stop_round_def verified_round_def ready_round_def as_step_def by (intro quiet_rules; assumption?)+

lemma run_rounds_soundly [quiet_rules]: "steps (soundly i) (run_rounds n fuel c i t)"
proof (induction n)
  case (Suc n)
  have "steps (soundly i) (run_round fuel c i t)"
    unfolding run_round_def by (intro quiet_rules)
  then show ?case
    using Suc by (auto intro!: quiet_rules split: step.split)
qed (simp add: run.steps_ret)

lemma Run_soundly: "steps (soundly i) (Run n fuel c i)"
  unfolding Run_def by (intro quiet_rules)

text \<open>The supervisor of a job, started again and again, with any configuration and for as long as it likes.\<close>

fun restarts :: "(nat \<times> nat \<times> SupervisorConfig) list \<Rightarrow> string \<Rightarrow> unit sop" where
  "restarts [] i = ret ()"
| "restarts ((n, fuel, c) # rs) i = do { _ \<leftarrow> Run n fuel c i; restarts rs i }"

lemma restarts_soundly: "steps (soundly i) (restarts rs i)"
  by (induction rs) (auto intro!: run.steps_ret run.steps_bind Run_soundly)

lemma restarts_frugal: "others_keep i s \<Longrightarrow> wp (restarts rs i) (\<lambda>_ s'. frugal i s s') s"
  by (rule wp_mono [OF stepsD [OF restarts_soundly]]) (simp add: soundly_def)

text \<open>
  C2: The backend's schedule call is sent at most once for a job, however often its supervisor is
  restarted and whatever its interfaces answer, as long as no other process removes the record of the
  call; once that record exists, it is not sent at all.
\<close>

theorem scheduled_once:
  assumes "others_keep i s"
  shows "wp (restarts rs i) (\<lambda>_ s'. call_count (since s s') \<le> (if call_recorded i (disk (pw_world s)) then 0 else 1)) s"
  by (rule wp_mono [OF restarts_frugal [OF assms]]) (auto simp: frugal_def budget_def since_def)

text \<open>
  C1: Every schedule call is justified: since the machine lock was taken, and before it is released,
  the inventory of unresolved jobs was empty, the preflight of the very same request succeeded on a
  backend that executes, and the authority of the job (the arbitration or the grant) approved.
\<close>

theorem calls_justified:
  assumes "others_keep i s"
  shows "wp (restarts rs i) (\<lambda>_ s'. justified None (since s s')) s"
  by (rule wp_mono [OF restarts_frugal [OF assms]]) (rule frugal_justified)

text \<open>A configuration that approves everything, with a backend that accepts every request.\<close>

definition sample_caps :: Capabilities where
  "sample_caps = zero_Capabilities\<lparr>cap_Platform := ''sample'', cap_BackendID := ''sample'', cap_ExecuteSupported := True,
     cap_CancelScope := CancelScopeJob\<rparr>"

definition accept_request :: "PowerRequest \<Rightarrow> Receipt \<times> err option" where
  "accept_request q =
     (case BuildIntentReceipt (req_JobID q) (req_Action q) (req_RequestedAt q) (req_Delay q) sample_caps of
        Inl e \<Rightarrow> (zero_Receipt, Some e) | Inr r \<Rightarrow> (r, None))"

definition sample_config :: SupervisorConfig where
  "sample_config = \<lparr>cf_Snapshot = None, cf_StopArbitration = Some (\<lambda>_ _. None), cf_VerifiedAuthorization = None,
     cf_Preflight = (\<lambda>_ _. (sample_caps, None)), cf_Schedule = (\<lambda>_ q. accept_request q),
     cf_Cancel = (\<lambda>_ r. (\<lparr>cr_Cancelled = True, cr_NoActionInProgress = False, cr_Scope = CancelScopeJob, cr_ResultCode = 0,
        cr_ResultSummary = []\<rparr>, None)),
     cf_Profiles = None, cf_AcquireLock = (\<lambda>_. None), cf_Wait = (\<lambda>_. None), cf_PollInterval = 1, cf_Quiescence = 1,
     cf_MaxCountdownLateness = Minute, cf_ProcessID = 7, cf_PolicyFingerprint = [], cf_CurrentPolicyFingerprint = None,
     cf_UnresolvedPowerJobs = (\<lambda>_ _. Inr [])\<rparr>"

definition sample_power_world :: power_world where
  "sample_power_world = \<lparr>pw_world = quiet_world empty_disk, pw_log = []\<rparr>"

lemma sample_others_keep [simp]: "others_keep i sample_power_world"
  by (simp add: sample_power_world_def)

theorem scheduled_once_witness:
  "wp (restarts [(5, 5, sample_config), (9, 9, sample_config)] (id_of CHR ''a''))
     (\<lambda>_ s'. call_count (since sample_power_world s') \<le>
       (if call_recorded (id_of CHR ''a'') (disk (pw_world sample_power_world)) then 0 else 1)) sample_power_world"
  by (rule scheduled_once) simp

theorem calls_justified_witness:
  "wp (restarts [(5, 5, sample_config), (9, 9, sample_config)] (id_of CHR ''a''))
     (\<lambda>_ s'. justified None (since sample_power_world s')) sample_power_world"
  by (rule calls_justified) simp

subsection \<open>What an accepted call ends in\<close>

lemma grows_parts [quiet_rules]: "steps grows now_of" "steps grows (persistRecoveryResolutionIfPresent i out why res)"
  unfolding now_of_def persistRecoveryResolutionIfPresent_def by (intro quiet_rules)+

text \<open>The cancellation succeeds only when the backend has confirmed that nothing will happen.\<close>

definition made_inert :: "power_world \<Rightarrow> power_world \<Rightarrow> bool" where
  "made_inert s s' \<longleftrightarrow> (\<exists>rc res e. logged s s' (CancelSent rc res e) \<and> inert e)"

lemma made_inert_grows: "made_inert s s' \<Longrightarrow> grows s' s'' \<Longrightarrow> made_inert s s''"
  unfolding made_inert_def by (blast intro: grows_logged)

lemma grows_made_inert: "grows s s' \<Longrightarrow> made_inert s' s'' \<Longrightarrow> made_inert s s''"
  using set_drop_subset_set_drop [of "length (pw_log s)" "length (pw_log s')" "pw_log s''"]
  by (auto simp: made_inert_def grows_def logged_def) blast

lemma wp_still_inert:
  assumes "made_inert s s1" "steps grows m" "\<And>r s'. made_inert s s' \<Longrightarrow> Q r s'"
  shows "wp m Q s1"
  by (rule wp_mono [OF stepsD [OF assms(2)]]) (rule assms(3) [OF made_inert_grows [OF assms(1)]])

lemma wp_cancel_inert: "wp (cancelPowerForReason c job rc why) (\<lambda>r s'. r = None \<longrightarrow> made_inert s s') s"
  unfolding cancelPowerForReason_def
proof (rule wp_ask_then, rule wp_prodI, goal_cases)
  case (1 r res e)
  show ?case
  proof (cases "inert e")
    case True
    have "made_inert s (s\<lparr>pw_log := pw_log s @ [case r of (x, xa) \<Rightarrow> CancelSent rc x xa]\<rparr>)"
      using True 1 unfolding made_inert_def by (auto intro: logged_ask)
    then show ?thesis
      by (rule wp_still_inert, intro quiet_rules) simp
  next
    case False
    then have "e \<noteq> None" by (auto simp: inert_def)
    then show ?thesis
      using False by (auto simp: wp_any split: prod.split)
  qed
qed

lemma grows_reasons [quiet_rules]:
  "steps grows (pendingRevocationReason i)" "steps grows (barrier_reason job)"
  "steps grows (arbitration_reason c job)" "steps grows (grant_reason c job)"
  unfolding pendingRevocationReason_def barrier_reason_def arbitration_reason_def grant_reason_def
    validateStopArbitration_def validateVerifiedAuthorization_def
  by (intro quiet_rules)+

lemma grows_cancel [quiet_rules]: "steps grows (cancelPowerForReason c job rc why)" "steps grows m \<Longrightarrow> steps grows (cancel_when c job rc m)"
  unfolding cancelPowerForReason_def cancel_when_def by (intro quiet_rules; assumption?)+

lemma grows_accepted [quiet_rules]: "steps grows (cancelAcceptedAction c job rc why)"
  unfolding cancelAcceptedAction_def by (intro quiet_rules)

lemma wp_cancel_when_inert:
  assumes "steps grows m"
  shows "wp (cancel_when c job rc m) (\<lambda>r s'. r = Some None \<longrightarrow> made_inert s s') s"
  unfolding cancel_when_def wp_bind
proof (rule wp_mono [OF stepsD [OF assms]], rule wp_optionI, goal_cases)
  case (2 r s1 why)
  show ?case
    unfolding wp_bind by (rule wp_mono [OF wp_cancel_inert]) (use 2 in \<open>auto intro: grows_made_inert\<close>)
qed simp

lemma wp_and_then_inert:
  assumes "steps grows m" and "\<And>s. wp k (\<lambda>r s'. r = Inl None \<longrightarrow> made_inert s s') s"
  shows "wp (and_then (cancel_when c job rc m) k) (\<lambda>r s'. r = Inl None \<longrightarrow> made_inert s s') s"
  unfolding and_then_def wp_bind
proof (rule wp_mono [OF wp_conj [OF wp_cancel_when_inert [OF assms(1)] stepsD [OF grows_cancel(2) [OF assms(1)]]]], goal_cases)
  case (1 r s1)
  then show ?case
    by (cases r) (auto intro: wp_mono [OF assms(2)] grows_made_inert)
qed

lemma wp_after_schedule_inert: "wp (after_schedule c job p rc) (\<lambda>r s'. r = Inl None \<longrightarrow> made_inert s s') s"
proof -
  have load: "wp (store (store_Load (JobID job))) (\<lambda>_ s'. grows s s') s"
    by (intro stepsD quiet_rules)
  have rest: "wp (and_then (cancel_when c a rc m1) (and_then (cancel_when c a rc m2) (and_then (cancel_when c a rc m3)
      (and_then (cancel_when c a rc m4) (and_then (cancel_when c a rc m5) (if b then do {
            _ \<leftarrow> cancelAcceptedAction c job rc why; ret (Inl (Some errJobChanged)) } else ret (Inr ())))))))
      (\<lambda>r s'. r = Inl None \<longrightarrow> made_inert s s') s"
    if "steps grows m1" "steps grows m2" "steps grows m3" "steps grows m4" "steps grows m5" for a m1 m2 m3 m4 m5 b why s
    by (intro wp_and_then_inert that) (simp add: wp_any)
  show ?thesis
    unfolding after_schedule_def wp_bind
  proof (rule wp_mono [OF load], rule wp_sumI, goal_cases)
    case (2 r s1 a)
    show ?case
      by (rule wp_mono [OF rest]) (use 2 grows_made_inert in \<open>blast intro!: log.steps_ret grows_reasons\<close>)+
  qed (simp add: wp_any)
qed

text \<open>The job is on disk as scheduled, with the receipt of the call.\<close>

definition recorded_scheduled :: "string \<Rightarrow> Receipt \<Rightarrow> power_world \<Rightarrow> bool" where
  "recorded_scheduled i rc s \<longleftrightarrow> (\<exists>j. job_file (disk (pw_world s)) i = Some (File (Parsed j)) \<and>
     State j = StateActionScheduled \<and> PowerReceipt j = Some rc)"

lemma wp_record_scheduled:
  "wp (UpdateJob i name [] (scheduled_rule g rc)) (\<lambda>(j, ch, e) w'. e = None \<longrightarrow> recorded_scheduled i rc (s\<lparr>pw_world := w'\<rparr>)) w"
proof (rule wp_mono [OF UpdateJob_step], goal_cases)
  case (1 r w')
  then obtain d where d: "update_step i name [] (scheduled_rule g rc) d r (disk w')" by blast
  show ?case
    using d
  proof cases
    case (committed now old j d1 t)
    then have "State j = StateActionScheduled" "PowerReceipt j = Some rc"
      by (auto simp: next_job_def scheduled_rule_def record_event_key_def split: if_splits)
    moreover have "job_file (disk w') i = Some (File (Parsed j))"
      using committed by (simp add: saved_job_file)
    ultimately show ?thesis
      using committed by (auto simp: recorded_scheduled_def)
  qed (auto simp: duplicate_event_def)
qed

lemma grows_after [quiet_rules]: "steps grows (after_schedule c job p rc)"
  unfolding after_schedule_def by (intro quiet_rules)

text \<open>How an accepted call may end.\<close>

definition settled :: "Job \<Rightarrow> power_intent \<Rightarrow> power_world \<Rightarrow> power_world \<Rightarrow> bool" where
  "settled job p s s' \<longleftrightarrow> made_inert s s' \<or>
     (\<exists>rc. recorded_scheduled (JobID job) rc s' \<and> logged s s' (Scheduled (in_request p) rc None) \<and>
           ValidateReceiptForRequest rc (in_request p) (in_capabilities p) = None)"

lemma wp_accept_settles:
  assumes s: "grows s0 s" and called: "\<And>s'. grows s s' \<Longrightarrow> logged s0 s' (Scheduled (in_request p) rc None)"
  shows "wp (accept_receipt c job p started rc) (\<lambda>r s'. r = None \<longrightarrow> settled job p s0 s') s"
proof (cases "ValidateReceiptForRequest rc (in_request p) (in_capabilities p)")
  case None
  have recorded: "wp (store (UpdateJob (JobID job) ''power.scheduled'' [] (scheduled_rule (in_generation p) rc)) \<bind> (\<lambda>(_, _, e).
      case e of Some e \<Rightarrow> do { _ \<leftarrow> cancelAcceptedAction c job rc why; ret (Some e) } | None \<Rightarrow> ret None))
      (\<lambda>r s'. r = None \<longrightarrow> settled job p s0 s') s1" if "grows s s1" for s1 why
    unfolding wp_bind wp_store
    using called [OF that] None
    by (intro wp_mono [OF wp_record_scheduled [where s = s1]])
      (auto simp: settled_def logged_def wp_any split: option.split)
  have after: "wp (after_schedule c job p rc) (\<lambda>r s'. grows s s' \<and> (r = Inl None \<longrightarrow> settled job p s0 s')) s1"
    if "grows s s1" for s1
    by (rule wp_mono [OF wp_conj [OF wp_after_schedule_inert stepsD [OF grows_after]]])
      (use log.onward [OF that] log.onward [OF s that] grows_made_inert in \<open>auto simp: settled_def\<close>)
  show ?thesis
    unfolding accept_receipt_def None option.case
  proof (rule wp_grows_then [OF grows_parts(1) log.stay], rule wp_grows_then [OF grows_calls(1)], assumption, rule wp_sumI, goal_cases)
    case (2 now s1 q s2 seal)
    show ?case
    proof (rule wp_bindI, rule wp_mono [OF after], fact, goal_cases)
      case (1 g s3)
      then show ?case by (cases g) (auto intro: recorded simp del: wp_bind)
    qed
  qed (simp add: wp_any)
qed (simp add: accept_receipt_def wp_any)

text \<open>
  C18: When the backend call ends without an error, either the job is on disk as scheduled, with the very
  receipt of the backend, which fits the request and the backend's capabilities, or a cancellation has
  been sent and the backend has confirmed that no shutdown will happen. An accepted action is never
  silently dropped.
\<close>

theorem accepted_call_settles:
  "wp (call_backend c job p started) (\<lambda>r s'. case r of None \<Rightarrow> settled job p s s' | Some _ \<Rightarrow> True) s"
  unfolding call_backend_def
proof (rule wp_ask_then, rule wp_prodI, goal_cases)
  case (1 r rc e)
  let ?s = "s\<lparr>pw_log := pw_log s @ [case r of (r, e) \<Rightarrow> Scheduled (in_request p) r e]\<rparr>"
  have s: "grows s ?s" by (simp add: grows_def)
  show ?case
  proof (cases e)
    case None
    have "logged s s' (Scheduled (in_request p) rc None)" if "grows ?s s'" for s'
      by (rule grows_logged [OF that]) (use 1 None in \<open>simp add: logged_def\<close>)
    from wp_accept_settles [OF s this] show ?thesis
      unfolding None option.case by (rule wp_mono) (auto split: option.split)
  next
    case (Some e')
    show ?thesis
      unfolding Some option.case unknown_outcome_def
    proof (rule wp_grows_then [OF grows_calls(1) s], rule wp_prodI, rule wp_prodI, rule wp_optionI, goal_cases)
      case (1 r s1 j x ch se)
      show ?case
      proof (rule wp_ifI)
        show "wp (cancelPowerForReason c j (in_receipt p) (valueOrCancelReason j ''cancellation_during_unknown_schedule_outcome'')
            \<bind> (\<lambda>cancelErr. ret (if cancelErr \<noteq> None
                then Some (Wrap ''schedule outcome is unknown and requested cancellation was not confirmed: schedule: %w; cancel: %v'' e')
                else None))) (\<lambda>r s'. case r of None \<Rightarrow> settled job p s s' | Some _ \<Rightarrow> True) s1"
          unfolding wp_bind
          by (rule wp_mono [OF wp_cancel_inert]) (use grows_made_inert [OF 1(1)] in \<open>auto simp: settled_def\<close>)
      qed simp
    qed simp
  qed
qed

end
