(* ===== verification/Classic_Job.thy ===== *)
theory Classic_Job
  imports Actions Go_Files
begin

text \<open>
  \<open>internal/supervisor/job.go\<close> and \<open>machine.go\<close>: the job of a foreground run, its states and the table of
  allowed transitions. The lemmas describe the shape of the machine: which states are final, that
  every path to an action records its intent first, and that a run makes finitely many moves.
\<close>

subsection \<open>States\<close>

datatype ClassicState =
    ClassicArmed | ClassicAgentRunning | ClassicEvaluating | ClassicVerifying | ClassicActionIntentRecorded
  | ClassicActionScheduled | ClassicDryRunComplete | ClassicNotDone | ClassicAgentFailed | ClassicInvalidCompletion
  | ClassicVerificationFailed | ClassicActionFailed | ClassicActionExecutionUnverified | ClassicActionExecutedConfirmed
  | ClassicCancelled | ClassicOrphaned | ClassicOther string

fun classic_IsTerminal :: "ClassicState \<Rightarrow> bool" where
  "classic_IsTerminal s \<longleftrightarrow> s \<in> {ClassicDryRunComplete, ClassicNotDone, ClassicAgentFailed, ClassicInvalidCompletion,
     ClassicVerificationFailed, ClassicActionFailed, ClassicActionExecutionUnverified, ClassicActionExecutedConfirmed,
     ClassicCancelled, ClassicOrphaned}"

fun IsUnresolvedPowerState :: "ClassicState \<Rightarrow> bool" where
  "IsUnresolvedPowerState s \<longleftrightarrow> s = ClassicActionIntentRecorded \<or> s = ClassicActionScheduled"

fun IsPreActionActive :: "ClassicState \<Rightarrow> bool" where
  "IsPreActionActive s \<longleftrightarrow> s \<in> {ClassicArmed, ClassicAgentRunning, ClassicEvaluating, ClassicVerifying}"

text \<open>The table of \<open>machine.go\<close>.\<close>

fun allowedTransitions :: "ClassicState \<Rightarrow> ClassicState list" where
  "allowedTransitions ClassicArmed = [ClassicAgentRunning, ClassicCancelled, ClassicOrphaned]"
| "allowedTransitions ClassicAgentRunning = [ClassicEvaluating, ClassicAgentFailed, ClassicCancelled, ClassicOrphaned]"
| "allowedTransitions ClassicEvaluating =
     [ClassicVerifying, ClassicActionIntentRecorded, ClassicActionFailed, ClassicDryRunComplete, ClassicNotDone,
      ClassicInvalidCompletion, ClassicCancelled, ClassicOrphaned]"
| "allowedTransitions ClassicVerifying =
     [ClassicActionIntentRecorded, ClassicActionFailed, ClassicDryRunComplete, ClassicVerificationFailed,
      ClassicCancelled, ClassicOrphaned]"
| "allowedTransitions ClassicActionIntentRecorded =
     [ClassicActionScheduled, ClassicActionFailed, ClassicCancelled, ClassicActionExecutionUnverified,
      ClassicActionExecutedConfirmed]"
| "allowedTransitions ClassicActionScheduled =
     [ClassicCancelled, ClassicActionExecutionUnverified, ClassicActionExecutedConfirmed]"
| "allowedTransitions ClassicActionExecutionUnverified = [ClassicActionExecutedConfirmed]"
| "allowedTransitions _ = []"

definition Transition :: "ClassicState \<Rightarrow> ClassicState \<Rightarrow> err option" where
  "Transition from_state to_state =
     (if to_state \<in> set (allowedTransitions from_state) then None else Some (Err ''invalid job transition %s -> %s''))"

subsection \<open>Jobs and events\<close>

record ClassicJob =
  cj_SchemaVersion :: string
  cj_JobID :: string
  cj_NonceHash :: string
  cj_State :: ClassicState
  cj_ReasonCode :: string
  cj_DryRun :: bool
  cj_Action :: string
  cj_DelaySeconds :: int
  cj_CreatedAt :: time
  cj_UpdatedAt :: time
  cj_SupervisorPID :: int
  cj_CodexPID :: int
  cj_CodexCWD :: string
  cj_PromptSHA256 :: string
  cj_CompletionStatus :: "string option"
  cj_VerifierExitCode :: "int option"
  cj_ActionExitCode :: "int option"
  cj_ActionIntentAt :: "time option"
  cj_ScheduledFor :: "time option"
  cj_PowerCapabilities :: "Capabilities option"
  cj_PowerReceipt :: "Receipt option"
  cj_CancelResult :: "CancelResult option"
  cj_ReconcileResult :: "ReconcileResult option"
  cj_CancelRequested :: bool

record ClassicEvent =
  ce_Timestamp :: time
  ce_JobID :: string
  ce_OldState :: "ClassicState option"
  ce_NewState :: ClassicState
  ce_Reason :: string
  ce_ExitCode :: "int option"
  ce_Duration :: duration

subsection \<open>The machine\<close>

text \<open>The moves of a job: a step for every entry of the table.\<close>

inductive moves :: "ClassicState \<Rightarrow> ClassicState \<Rightarrow> bool" where
  move: "Transition s t = None \<Longrightarrow> moves s t"

inductive_simps moves_iff: "moves s t"

lemma moves_table: "moves s t \<longleftrightarrow> t \<in> set (allowedTransitions s)"
  by (simp add: moves_iff Transition_def)

text \<open>How far a state is from the start; every move goes further.\<close>

fun progress :: "ClassicState \<Rightarrow> nat" where
  "progress ClassicArmed = 0"
| "progress ClassicAgentRunning = 1"
| "progress ClassicEvaluating = 2"
| "progress ClassicVerifying = 3"
| "progress ClassicActionIntentRecorded = 4"
| "progress ClassicActionScheduled = 5"
| "progress ClassicActionExecutionUnverified = 6"
| "progress _ = 7"

lemma moves_progress: "moves s t \<Longrightarrow> progress s < progress t"
  by (cases s) (auto simp: moves_table)

lemma progress_bound: "progress s \<le> 7"
  by (cases s) simp_all

lemma path_length: "(moves ^^ n) s t \<Longrightarrow> progress s + n \<le> progress t"
proof (induction n arbitrary: t)
  case (Suc n)
  then obtain u where "(moves ^^ n) s u" "moves u t" by auto
  then show ?case using Suc.IH [of u] moves_progress [of u t] by simp
qed simp

text \<open>A scheduled action has passed the intent on every path from the start.\<close>

lemma scheduled_from: "moves s ClassicActionScheduled \<Longrightarrow> s = ClassicActionIntentRecorded"
  by (cases s) (auto simp: moves_table)

lemma final_states: "classic_IsTerminal s \<Longrightarrow> moves s t \<Longrightarrow>
    s = ClassicActionExecutionUnverified \<and> t = ClassicActionExecutedConfirmed"
  by (auto simp: moves_table)

text \<open>The longest run: every state is passed on the way to a confirmed action.\<close>

definition longest_run :: "ClassicState list" where
  "longest_run = [ClassicArmed, ClassicAgentRunning, ClassicEvaluating, ClassicVerifying, ClassicActionIntentRecorded,
     ClassicActionScheduled, ClassicActionExecutionUnverified, ClassicActionExecutedConfirmed]"

lemma length_longest_run: "length longest_run = 8"
  by (simp add: longest_run_def)

lemma longest_run_moves:
  assumes "k < 7"
  shows "moves (longest_run ! k) (longest_run ! Suc k)"
proof -
  have "list_all2 moves (butlast longest_run) (tl longest_run)"
    by (simp add: longest_run_def moves_table)
  then have "moves (butlast longest_run ! k) (tl longest_run ! k)"
    by (rule list_all2_nthD) (use assms in \<open>simp add: length_longest_run\<close>)
  then show ?thesis
    by (simp add: nth_butlast nth_tl assms length_longest_run)
qed

lemma longest_run_prefix: "k \<le> 7 \<Longrightarrow> (moves ^^ k) ClassicArmed (longest_run ! k)"
proof (induction k)
  case 0
  then show ?case by (simp add: longest_run_def)
next
  case (Suc k)
  then show ?case using longest_run_moves [of k] by (auto intro: relcomppI)
qed

text \<open>
  C39: No run of the machine is infinite, and the lengths of its runs are the numbers up to seven.
\<close>

theorem runs_terminate: "wfp moves\<inverse>\<inverse> \<and> {n. \<exists>s t. (moves ^^ n) s t} = {..7}"
proof
  show "wfp moves\<inverse>\<inverse>"
  proof (rule wfp_if_convertible_to_nat [of _ "\<lambda>s. 7 - progress s"])
    fix s t assume "moves\<inverse>\<inverse> s t"
    then have "progress t < progress s" using moves_progress by blast
    then show "7 - progress s < 7 - progress t" using progress_bound [of s] by linarith
  qed
  have "n \<le> 7" if "(moves ^^ n) s t" for n s t
    using path_length [OF that] progress_bound [of t] by simp
  then show "{n. \<exists>s t. (moves ^^ n) s t} = {..7}"
    using longest_run_prefix by blast
qed

end
