(* ===== verification/Classic_Store.thy ===== *)
theory Classic_Store
  imports Classic_Job Go_Path Go_Live
begin

text \<open>
  \<open>internal/store/store.go\<close>: the store of the foreground jobs. The directory of the jobs is an association
  list from the names of its entries: a record (\<open><id>.json\<close>), a cancellation marker (\<open><id>.cancel\<close>) or a
  directory. The event logs are kept by job, the artifact directories by name. The store takes no lock:
  before every read other processes may have acted, and the save of a job is a read and a rename.
\<close>

subsection \<open>The data root\<close>

datatype jobs_entry = JobRecord "ClassicJob node" | CancelMarker | SubDirectory

record classic_disk =
  cd_jobs :: "(string \<times> jobs_entry) list"
  cd_logs :: "(string \<times> ClassicEvent list) list"
  cd_tmp :: "string list"

type_synonym 'a cop = "(classic_disk world, 'a) state"

definition json_name :: "string \<Rightarrow> string" where "json_name jobID = jobID @ ''.json''"
definition cancel_name :: "string \<Rightarrow> string" where "cancel_name jobID = jobID @ ''.cancel''"

definition jobs_entry :: "classic_disk \<Rightarrow> string \<Rightarrow> jobs_entry option" where
  "jobs_entry d name = map_of (cd_jobs d) name"

definition put_entry :: "string \<Rightarrow> jobs_entry \<Rightarrow> classic_disk \<Rightarrow> classic_disk" where
  "put_entry name e d = d\<lparr>cd_jobs := AList.update name e (cd_jobs d)\<rparr>"

definition put_classic :: "ClassicJob \<Rightarrow> classic_disk \<Rightarrow> classic_disk" where
  "put_classic job = put_entry (json_name (cj_JobID job)) (JobRecord (File (Parsed job)))"

definition classic_events :: "classic_disk \<Rightarrow> string \<Rightarrow> ClassicEvent list" where
  "classic_events d i = (case map_of (cd_logs d) i of None \<Rightarrow> [] | Some es \<Rightarrow> es)"

definition append_classic :: "ClassicEvent \<Rightarrow> classic_disk \<Rightarrow> classic_disk" where
  "append_classic e d = d\<lparr>cd_logs := AList.update (ce_JobID e) (classic_events d (ce_JobID e) @ [e]) (cd_logs d)\<rparr>"

text \<open>What opening the entry as a record finds: a marker is no job, a directory is no regular file.\<close>

definition record_node :: "jobs_entry \<Rightarrow> ClassicJob node" where
  "record_node e = (case e of JobRecord n \<Rightarrow> n | CancelMarker \<Rightarrow> File Undecodable | SubDirectory \<Rightarrow> Untrusted)"

lemma jobs_entry_put [simp]:
  "jobs_entry (put_entry n e d) m = (if m = n then Some e else jobs_entry d m)"
  "jobs_entry (append_classic ev d) m = jobs_entry d m"
  by (simp_all add: jobs_entry_def put_entry_def append_classic_def update_conv')

lemma names_differ [simp]:
  "json_name i = json_name j \<longleftrightarrow> i = j" "cancel_name i = cancel_name j \<longleftrightarrow> i = j" "json_name i \<noteq> cancel_name j"
proof -
  have "last (json_name i) \<noteq> last (cancel_name j)" by (simp add: json_name_def cancel_name_def)
  then show "json_name i \<noteq> cancel_name j" by metis
qed (simp_all add: json_name_def cancel_name_def)

subsection \<open>Paths\<close>

definition jobsDir :: "string \<Rightarrow> string" where "jobsDir root = filepath_Join [root, ''jobs'']"
definition logsDir :: "string \<Rightarrow> string" where "logsDir root = filepath_Join [root, ''logs'']"
definition tmpDir :: "string \<Rightarrow> string" where "tmpDir root = filepath_Join [root, ''tmp'']"
definition jobPath :: "string \<Rightarrow> string \<Rightarrow> string" where
  "jobPath root jobID = filepath_Join [jobsDir root, json_name jobID]"
definition cancelPath :: "string \<Rightarrow> string \<Rightarrow> string" where
  "cancelPath root jobID = filepath_Join [jobsDir root, cancel_name jobID]"
definition logPath :: "string \<Rightarrow> string \<Rightarrow> string" where
  "logPath root jobID = filepath_Join [logsDir root, jobID @ ''.jsonl'']"

text \<open>\<open>platformDefaultRoot\<close> on Linux, from \<open>XDG_STATE_HOME\<close> and the home directory.\<close>

definition platformDefaultRoot :: "string \<Rightarrow> err + string \<Rightarrow> err + string" where
  "platformDefaultRoot xdg home =
     (if xdg \<noteq> [] then
        (if \<not> path_IsAbs xdg then Inl (Err ''XDG_STATE_HOME must be absolute'')
         else Inr (filepath_Join [xdg, ''donethen'']))
      else (case home of
              Inl e \<Rightarrow> Inl e
            | Inr h \<Rightarrow> Inr (filepath_Join [h, ''.local'', ''state'', ''donethen''])))"

text \<open>\<open>New\<close>: the root, then its directories \<open>jobs\<close>, \<open>logs\<close> and \<open>tmp\<close>.\<close>

definition New_store :: "err + string \<Rightarrow> string \<Rightarrow> (err + string) cop" where
  "New_store cwd root =
     (if TrimSpace root = [] then ret (Inl (Err ''store root is empty''))
      else (case filepath_Abs cwd root of
              Inl e \<Rightarrow> ret (Inl (Wrap ''resolve store root: %w'' e))
            | Inr absolute \<Rightarrow> do { r \<leftarrow> ensure_all 4; or_return r Inl (ret (Inr absolute)) }))"

subsection \<open>Validation and migration\<close>

fun known_state :: "ClassicState \<Rightarrow> bool" where
  "known_state (ClassicOther _) = False"
| "known_state _ = True"

definition validateJob :: "ClassicJob \<Rightarrow> err option" where
  "validateJob job =
     (let s = cj_State job; unresolved = IsUnresolvedPowerState s in
      checks [
        reject (cj_SchemaVersion job \<noteq> ''2'') ''unsupported job schema %q'',
        reject (\<not> known_state s) ''unknown job state %q'',
        reject (cj_Action job \<noteq> ''shutdown'') ''unsupported job action %q'',
        reject (cj_DelaySeconds job < 30 \<or> cj_DelaySeconds job > 3600) ''invalid shutdown delay %d'',
        reject (cj_DryRun job \<and> unresolved) ''dry-run job cannot contain an unresolved power action'',
        reject (unresolved \<and> cj_ActionIntentAt job = None) ''power-action job is missing action_intent_at'',
        reject (unresolved \<and> cj_PowerCapabilities job = None) ''power-action job is missing platform capabilities'',
        reject (s = ClassicActionScheduled \<and> cj_ScheduledFor job = None) ''scheduled job is missing scheduled_for'',
        (case cj_PowerReceipt job of
           None \<Rightarrow> None
         | Some r \<Rightarrow> checks [
             map_option (Wrap ''job has an invalid power receipt: %w'') (ValidateReceipt r),
             reject (rcp_JobID r \<noteq> cj_JobID job \<or> rcp_Action r \<noteq> cj_Action job) ''job receipt does not match the job'']),
        (if s \<noteq> ClassicActionScheduled then None
         else (case cj_PowerReceipt job of
                 None \<Rightarrow> Some (Err ''scheduled job is missing power_receipt'')
               | Some r \<Rightarrow> reject (cj_ScheduledFor job \<noteq> Some (rcp_Deadline r))
                   ''scheduled job deadline does not match its receipt'')),
        reject ((s = ClassicActionExecutionUnverified \<or> s = ClassicActionExecutedConfirmed) \<and>
            (cj_PowerReceipt job = None \<or> cj_ReconcileResult job = None))
          ''reconciled job is missing receipt or reconcile result'',
        reject (IsZero (cj_CreatedAt job) \<or> IsZero (cj_UpdatedAt job)) ''job timestamps are required''])"

definition legacy_capabilities :: Capabilities where
  "legacy_capabilities = \<lparr>cap_Platform = ''windows'', cap_BackendID = ''windows-shutdown-exe'', cap_ExecuteSupported = True,
     cap_CancelScope = CancelScopeSystemGlobal, cap_MinimumDelay = 30 * Second, cap_MaximumDelay = 3600 * Second,
     cap_ReconcileSupported = True, cap_Reason = ''migrated from legacy schema 1''\<rparr>"

definition legacy_receipt :: "ClassicJob \<Rightarrow> time \<Rightarrow> Receipt" where
  "legacy_receipt job scheduledFor = SealReceipt (zero_Receipt\<lparr>
     rcp_SchemaVersion := ReceiptSchemaVersion, rcp_Platform := ''windows'', rcp_BackendID := ''windows-shutdown-exe'',
     rcp_BackendVersion := ''legacy-schema-1'', rcp_JobID := cj_JobID job, rcp_Action := cj_Action job,
     rcp_RequestedAt := (case cj_ActionIntentAt job of None \<Rightarrow> cj_CreatedAt job | Some t \<Rightarrow> t),
     rcp_ScheduledAt := cj_UpdatedAt job, rcp_Deadline := scheduledFor, rcp_CancelScope := CancelScopeSystemGlobal,
     rcp_ResultCode := 0, rcp_ResultSummary := ''migrated legacy Windows shutdown receipt''\<rparr>)"

definition migrateJob :: "ClassicJob \<Rightarrow> err + ClassicJob" where
  "migrateJob job =
     (if cj_SchemaVersion job = ''2'' then Inr job
      else if cj_SchemaVersion job \<noteq> ''1'' then Inl (Err ''unsupported job schema %q'')
      else
        (let job = job\<lparr>cj_SchemaVersion := ''2''\<rparr> in
         if cj_DryRun job \<or> (cj_State job \<noteq> ClassicActionIntentRecorded \<and> cj_State job \<noteq> ClassicActionScheduled) then Inr job
         else
           (let job = job\<lparr>cj_PowerCapabilities := Some legacy_capabilities\<rparr> in
            if cj_State job \<noteq> ClassicActionScheduled then Inr job
            else (case cj_ScheduledFor job of
                    None \<Rightarrow> Inr job
                  | Some t \<Rightarrow> Inr (job\<lparr>cj_PowerReceipt := Some (legacy_receipt job t)\<rparr>)))))"

subsection \<open>Operations\<close>

text \<open>\<open>os.Lstat\<close> of an entry: whether it is there, or the error of the system call.\<close>

definition lstat :: "string \<Rightarrow> (err option) cop" where
  "lstat name = do {
     d \<leftarrow> observe;
     r \<leftarrow> call;
     ret (case r of Some e \<Rightarrow> Some e | None \<Rightarrow> if jobs_entry d name = None then Some ErrNotExist else None) }"

definition checked_job :: "ClassicJob \<Rightarrow> err + ClassicJob" where
  "checked_job job =
     (case migrateJob job of
        Inl e \<Rightarrow> Inl e
      | Inr job \<Rightarrow>
          (case checks [ValidateJobID (cj_JobID job), validateJob job] of Some e \<Rightarrow> Inl e | None \<Rightarrow> Inr job))"

definition classic_Create :: "ClassicJob \<Rightarrow> err option cop" where
  "classic_Create job =
     (case checked_job job of
        Inl e \<Rightarrow> ret (Some e)
      | Inr job \<Rightarrow> do {
          r \<leftarrow> lstat (json_name (cj_JobID job));
          case r of
            None \<Rightarrow> ret (Some (Err ''job %s already exists''))
          | Some e \<Rightarrow>
              if \<not> errors_Is e ErrNotExist then ret (Some (Wrap ''inspect job record: %w'' e))
              else AtomicWriteJSON (put_classic job) })"

definition classic_Save :: "ClassicJob \<Rightarrow> err option cop" where
  "classic_Save job =
     (case checked_job job of
        Inl e \<Rightarrow> ret (Some e)
      | Inr job \<Rightarrow> do {
          r \<leftarrow> lstat (json_name (cj_JobID job));
          or_return r (\<lambda>e. Some (Wrap ''job record does not exist: %w'' e)) (AtomicWriteJSON (put_classic job)) })"

definition load_record :: "classic_disk \<Rightarrow> string \<Rightarrow> err + ClassicJob" where
  "load_record d jobID =
     (case OpenOwnerControlled (map_option record_node (jobs_entry d (json_name jobID))) of
        Inl e \<Rightarrow> Inl e
      | Inr Oversized \<Rightarrow> Inl (Err ''job %s exceeds %d bytes'')
      | Inr Undecodable \<Rightarrow> Inl (Wrap ''decode job %s: %w'' (Err ''unexpected EOF''))
      | Inr Trailing \<Rightarrow> Inl (Err ''job %s contains trailing data'')
      | Inr (Parsed job) \<Rightarrow>
          if cj_JobID job \<noteq> jobID then Inl (Err ''job %s has an invalid identity or schema'')
          else (case migrateJob job of
                  Inl e \<Rightarrow> Inl (Wrap ''job %s cannot be migrated: %w'' e)
                | Inr job \<Rightarrow>
                    (case validateJob job of Some e \<Rightarrow> Inl (Wrap ''job %s is invalid: %w'' e) | None \<Rightarrow> Inr job)))"

definition classic_Load :: "string \<Rightarrow> (err + ClassicJob) cop" where
  "classic_Load jobID = or_return (ValidateJobID jobID) Inl (do { d \<leftarrow> observe; ret (load_record d jobID) })"

text \<open>
  \<open>List\<close>: the entries in the order of their names, each loaded on its own, then the newest first. (The
  sort of the code is not stable; jobs created at the same instant may come in another order.)
\<close>

definition skip_entry :: "string \<times> jobs_entry \<Rightarrow> bool" where
  "skip_entry e \<longleftrightarrow> snd e = SubDirectory \<or> filepath_Ext (fst e) \<noteq> ''.json''"

fun load_entries :: "(string \<times> jobs_entry) list \<Rightarrow> (err + ClassicJob list) cop" where
  "load_entries [] = ret (Inr [])"
| "load_entries (e # es) =
     (if skip_entry e then load_entries es
      else do {
        r \<leftarrow> classic_Load (TrimSuffix (fst e) ''.json'');
        case r of
          Inl x \<Rightarrow> ret (Inl x)
        | Inr job \<Rightarrow> do {
            rs \<leftarrow> load_entries es;
            ret (case rs of Inl x \<Rightarrow> Inl x | Inr jobs \<Rightarrow> Inr (job # jobs)) } })"

definition classic_List :: "(err + ClassicJob list) cop" where
  "classic_List = do {
     d \<leftarrow> observe;
     r \<leftarrow> call;
     or_return r (\<lambda>e. Inl (Wrap ''list jobs: %w'' e)) (do {
       js \<leftarrow> load_entries (ReadDir (cd_jobs d));
       ret (case js of Inl e \<Rightarrow> Inl e | Inr jobs \<Rightarrow> Inr (sort_key (\<lambda>j. - cj_CreatedAt j) jobs)) }) }"

definition RequestCancel :: "string \<Rightarrow> err option cop" where
  "RequestCancel jobID =
     or_return (ValidateJobID jobID) Some (do {
       r \<leftarrow> classic_Load jobID;
       case r of
         Inl e \<Rightarrow> ret (Some e)
       | Inr _ \<Rightarrow> do { _ \<leftarrow> time_Now; AtomicWriteJSON (put_entry (cancel_name jobID) CancelMarker) } })"

definition Cancelled :: "string \<Rightarrow> (bool \<times> err option) cop" where
  "Cancelled jobID =
     or_return (ValidateJobID jobID) (\<lambda>e. (False, Some e)) (do {
       r \<leftarrow> lstat (cancel_name jobID);
       ret (case r of
              None \<Rightarrow> (True, None)
            | Some e \<Rightarrow>
                if errors_Is e ErrNotExist then (False, None)
                else (False, Some (Wrap ''inspect cancellation request: %w'' e))) })"

definition AppendEvent :: "ClassicEvent \<Rightarrow> err option cop" where
  "AppendEvent event =
     or_return (ValidateJobID (ce_JobID event)) Some (do {
       r \<leftarrow> calls [''create %s: %w'', ''secure %s: %w'', ''inspect %s: %w'', ''%s must be owner controlled: %w'',
         ''open %s: %w'', ''secure %s: %w'', ''inspect %s: %w'', ''%s must be owner controlled: %w'',
         ''inspect opened %s: %w''];
       or_return r (\<lambda>e. Some (Wrap ''open job event log: %w'' e)) (do {
         encodeErr \<leftarrow> call;
         flushErr \<leftarrow> call;
         (if encodeErr = None \<and> flushErr = None then change_disk (append_classic event) else ret ());
         syncErr \<leftarrow> call;
         closeErr \<leftarrow> call;
         ret (first_err (map_option (Wrap ''write job event log: %w'')) [encodeErr, flushErr, syncErr, closeErr]) }) })"

definition ArtifactDir :: "string \<Rightarrow> string \<Rightarrow> (err + string) cop" where
  "ArtifactDir root jobID =
     or_return (ValidateJobID jobID) Inl (do {
       r \<leftarrow> ensure_directory (\<lambda>d. d\<lparr>cd_tmp := List.insert jobID (cd_tmp d)\<rparr>);
       ret (case r of Some e \<Rightarrow> Inl e | None \<Rightarrow> Inr (filepath_Join [tmpDir root, jobID])) })"

definition RemoveArtifacts :: "string \<Rightarrow> err option cop" where
  "RemoveArtifacts jobID =
     or_return (ValidateJobID jobID) Some (do {
       r \<leftarrow> call;
       or_return r Some (do { change_disk (\<lambda>d. d\<lparr>cd_tmp := removeAll jobID (cd_tmp d)\<rparr>); ret None }) })"

definition active_power :: "ClassicJob \<Rightarrow> bool" where
  "active_power job \<longleftrightarrow> \<not> cj_DryRun job \<and> IsUnresolvedPowerState (cj_State job)"

definition ActivePowerJobs :: "(err + ClassicJob list) cop" where
  "ActivePowerJobs = do {
     r \<leftarrow> classic_List;
     ret (case r of Inl e \<Rightarrow> Inl e | Inr jobs \<Rightarrow> Inr (filter active_power jobs)) }"

definition orphan_event :: "ClassicState \<Rightarrow> ClassicJob \<Rightarrow> time \<Rightarrow> ClassicEvent" where
  "orphan_event old job t = \<lparr>ce_Timestamp = t, ce_JobID = cj_JobID job, ce_OldState = Some old,
     ce_NewState = cj_State job, ce_Reason = cj_ReasonCode job, ce_ExitCode = None, ce_Duration = 0\<rparr>"

fun recover_jobs :: "ClassicJob list \<Rightarrow> err option cop" where
  "recover_jobs [] = ret None"
| "recover_jobs (job # jobs) =
     (if cj_DryRun job \<or> \<not> IsPreActionActive (cj_State job) then recover_jobs jobs
      else or_return (Transition (cj_State job) ClassicOrphaned) Some (do {
        t \<leftarrow> time_Now;
        let old = cj_State job;
        let job = job\<lparr>cj_State := ClassicOrphaned, cj_ReasonCode := ''supervisor_recovery_orphaned'', cj_UpdatedAt := t\<rparr>;
        r \<leftarrow> classic_Save job;
        or_return r Some (do {
          t \<leftarrow> time_Now;
          _ \<leftarrow> AppendEvent (orphan_event old job t);
          recover_jobs jobs }) }))"

definition RecoverPreActionJobs :: "err option cop" where
  "RecoverPreActionJobs = do {
     r \<leftarrow> classic_List;
     case r of Inl e \<Rightarrow> ret (Some e) | Inr jobs \<Rightarrow> recover_jobs jobs }"

subsection \<open>Loading and saving\<close>

lemma migrateJob_Inr: "migrateJob job = Inr j \<Longrightarrow> cj_SchemaVersion j = ''2'' \<and> cj_JobID j = cj_JobID job \<and> cj_State j = cj_State job \<and>
    cj_DryRun j = cj_DryRun job"
  by (auto simp: migrateJob_def Let_def split: if_splits option.splits)

lemma migrateJob_current [simp]: "cj_SchemaVersion j = ''2'' \<Longrightarrow> migrateJob j = Inr j"
  by (simp add: migrateJob_def)

lemma validateJob_schema: "validateJob j = None \<Longrightarrow> cj_SchemaVersion j = ''2''"
  by (simp add: validateJob_def Let_def)

lemma checked_job_Inr: "checked_job job = Inr j \<longleftrightarrow> migrateJob job = Inr j \<and> ValidateJobID (cj_JobID j) = None \<and> validateJob j = None"
  by (cases "migrateJob job") (auto simp: checked_job_def option.case_eq_if)

lemma record_node_Parsed: "record_node e = File (Parsed j) \<longleftrightarrow> e = JobRecord (File (Parsed j))"
  by (cases e) (simp_all add: record_node_def)

lemma record_node_job [simp]: "record_node (JobRecord n) = n"
  by (simp add: record_node_def)

lemma load_record_Inr:
  "load_record d i = Inr j \<longleftrightarrow>
     (\<exists>j0. jobs_entry d (json_name i) = Some (JobRecord (File (Parsed j0))) \<and> cj_JobID j0 = i \<and> migrateJob j0 = Inr j \<and>
       validateJob j = None)"
  by (auto simp: load_record_def record_node_Parsed option.case_eq_if split: sum.splits body.splits)

lemma load_record_valid: "load_record d i = Inr j \<Longrightarrow> validateJob j = None \<and> cj_JobID j = i"
  by (auto simp: load_record_Inr dest: migrateJob_Inr)

lemma load_record_put: "validateJob j = None \<Longrightarrow> load_record (put_classic j d) (cj_JobID j) = Inr j"
  by (simp add: load_record_Inr put_classic_def validateJob_schema)

lemma load_record_put_other: "i \<noteq> cj_JobID j \<Longrightarrow> load_record (put_classic j d) i = load_record d i"
  by (simp add: load_record_def put_classic_def)

lemma load_record_frame [simp]: "load_record (append_classic e d) i = load_record d i"
  by (simp add: load_record_def)

lemma load_record_cong: "cd_jobs d' = cd_jobs d \<Longrightarrow> load_record d' = load_record d"
  by (simp add: load_record_def jobs_entry_def fun_eq_iff)

lemma wp_lstat:
  "(\<And>r k n. (r = None \<Longrightarrow> jobs_entry (others w k (disk w)) name \<noteq> None) \<Longrightarrow> Q r (at w (others w k (disk w)) n)) \<Longrightarrow>
     wp (lstat name) Q w"
  unfolding lstat_def wp_bind by (intro wp_observe wp_call) (auto split: option.split)

lemma wp_classic_Save:
  assumes "\<And>e d n. may_see w d \<Longrightarrow> Q (Some e) (at w d n)"
    and "\<And>r j d n. may_see w d \<Longrightarrow> checked_job job = Inr j \<Longrightarrow> jobs_entry d (json_name (cj_JobID j)) \<noteq> None \<Longrightarrow>
       Q r (at w (put_classic j d) n)"
  shows "wp (classic_Save job) Q w"
  unfolding classic_Save_def
proof (intro wp_sumI wp_retI)
  fix e show "Q (Some e) w" using assms(1) [of "disk w" e "tick w"] by simp
next
  fix j assume j: "checked_job job = Inr j"
  show "wp (do { r \<leftarrow> lstat (json_name (cj_JobID j));
      or_return r (\<lambda>e. Some (Wrap ''job record does not exist: %w'' e)) (AtomicWriteJSON (put_classic j)) }) Q w"
    unfolding wp_bind by (intro wp_lstat) (auto intro!: wp_AtomicWriteJSON assms j)
qed

lemma wp_classic_Load:
  "(\<And>e. ValidateJobID jobID = Some e \<Longrightarrow> Q (Inl e) w) \<Longrightarrow>
   (\<And>k n. ValidateJobID jobID = None \<Longrightarrow> Q (load_record (others w k (disk w)) jobID) (at w (others w k (disk w)) n)) \<Longrightarrow>
     wp (classic_Load jobID) Q w"
  unfolding classic_Load_def by (intro wp_or_returnI wp_bindI wp_observe wp_retI)

text \<open>
  Whatever the other processes do, \<open>Load\<close> hands out only a valid job of the current schema that
  has the requested identity.
\<close>

theorem classic_load_valid:
  "wp (classic_Load jobID) (\<lambda>r _. case r of Inl _ \<Rightarrow> True
      | Inr j \<Rightarrow> validateJob j = None \<and> cj_JobID j = jobID \<and> cj_SchemaVersion j = ''2'' \<and> ValidateJobID jobID = None) w"
  by (rule wp_classic_Load) (auto split: sum.split dest: load_record_valid validateJob_schema)

text \<open>
  A job that was saved without an error is loaded back as it was after its migration, as long
  as nobody else writes its record.
\<close>

definition holds_record :: "ClassicJob \<Rightarrow> classic_disk \<Rightarrow> bool" where
  "holds_record job d \<longleftrightarrow>
     (case migrateJob job of Inl _ \<Rightarrow> True | Inr j \<Rightarrow> jobs_entry d (json_name (cj_JobID j)) = Some (JobRecord (File (Parsed j))))"

theorem save_load:
  assumes "stable (holds_record job) w"
  shows "wp (do { e \<leftarrow> classic_Save job; r \<leftarrow> classic_Load (cj_JobID job); ret (e, r) })
     (\<lambda>(e, r) _. case e of Some _ \<Rightarrow> True | None \<Rightarrow> r = checked_job job \<and> r = migrateJob job) w"
  unfolding wp_bind
proof (intro wp_classic_Save)
  fix r :: "err option" and j d n
  assume j: "checked_job job = Inr j"
  then have m: "migrateJob job = Inr j" "validateJob j = None" "cj_JobID job = cj_JobID j" "ValidateJobID (cj_JobID j) = None"
    by (auto simp: checked_job_Inr dest: migrateJob_Inr)
  let ?w = "at w (put_classic j d) n"
  have "load_record (others w k (disk ?w)) (cj_JobID j) = Inr j" for k
  proof -
    have "holds_record job (others w k (disk ?w))"
      using assms by (auto simp: stable_def holds_record_def m put_classic_def)
    then show ?thesis using m(2) by (simp add: holds_record_def m(1) load_record_Inr validateJob_schema)
  qed
  then show "wp (classic_Load (cj_JobID job)) (\<lambda>x. wp (ret (r, x)) (\<lambda>(e, r) _. case e of Some _ \<Rightarrow> True
      | None \<Rightarrow> r = checked_job job \<and> r = migrateJob job)) ?w"
    by (intro wp_classic_Load) (simp_all add: j m split: option.split)
qed (simp add: wp_any)

subsection \<open>Listing\<close>

text \<open>Other processes that leave the directory of the jobs alone.\<close>

definition undisturbed :: "classic_disk world \<Rightarrow> bool" where
  "undisturbed w \<longleftrightarrow> (\<forall>k d. cd_jobs (others w k d) = cd_jobs d)"

lemma undisturbed_at [simp]: "undisturbed (at w d n) = undisturbed w"
  by (simp add: undisturbed_def)

lemma undisturbed_load: "undisturbed w \<Longrightarrow> load_record (others w k d) = load_record d"
  by (rule load_record_cong) (simp add: undisturbed_def)

text \<open>The jobs that the directory holds.\<close>

definition loadable :: "classic_disk \<Rightarrow> ClassicJob set" where
  "loadable d = {j. ValidateJobID (cj_JobID j) = None \<and> load_record d (cj_JobID j) = Inr j}"

definition entry_id :: "string \<times> jobs_entry \<Rightarrow> string" where
  "entry_id e = TrimSuffix (fst e) ''.json''"

definition same_jobs :: "classic_disk world \<Rightarrow> classic_disk world \<Rightarrow> bool" where
  "same_jobs w w' \<longleftrightarrow> undisturbed w' \<and> cd_jobs (disk w') = cd_jobs (disk w)"

lemma same_jobs_load: "same_jobs w w' \<Longrightarrow> load_record (disk w') = load_record (disk w)"
  by (rule load_record_cong) (simp add: same_jobs_def)

lemma wp_load_entries:
  assumes "undisturbed w"
  shows "wp (load_entries es) (\<lambda>r w'. same_jobs w w' \<and>
     (case r of Inl _ \<Rightarrow> True | Inr js \<Rightarrow> set js \<subseteq> loadable (disk w) \<and>
        (\<forall>e \<in> set es. skip_entry e \<or> (\<exists>j \<in> set js. load_record (disk w) (entry_id e) = Inr j)))) w"
  using assms
proof (induction es arbitrary: w)
  case Nil
  then show ?case by (simp add: same_jobs_def)
next
  case (Cons e es)
  show ?case
  proof (cases "skip_entry e")
    case True
    then show ?thesis
      using Cons.IH [OF Cons.prems] by (auto elim!: wp_mono split: sum.splits)
  next
    case False
    have seen: "same_jobs w (at w (others w k (disk w)) n)" for k n
      using Cons.prems by (simp add: same_jobs_def undisturbed_def)
    have next_entries: "wp (load_entries es) (\<lambda>rs w'. same_jobs w w' \<and>
        (case rs of Inl _ \<Rightarrow> True | Inr js \<Rightarrow> set js \<subseteq> loadable (disk w) \<and>
          (\<forall>e \<in> set es. skip_entry e \<or> (\<exists>j \<in> set js. load_record (disk w) (entry_id e) = Inr j))))
        (at w (others w k (disk w)) n)" for k n
      using Cons.IH [of "at w (others w k (disk w)) n"] Cons.prems same_jobs_load [OF seen [of k n]]
      by (auto elim!: wp_mono simp: same_jobs_def loadable_def undisturbed_def split: sum.splits)
    show ?thesis
      using False unfolding load_entries.simps if_not_P [OF False] wp_bind entry_id_def [symmetric]
    proof (intro wp_classic_Load, goal_cases)
      case (1 x)
      then show ?case by (simp add: same_jobs_def Cons.prems)
    next
      case (2 k n)
      have load: "load_record (others w k (disk w)) = load_record (disk w)"
        by (rule undisturbed_load [OF Cons.prems])
      show ?case
      proof (cases "load_record (disk w) (entry_id e)")
        case (Inl x)
        then show ?thesis using seen by (simp add: load)
      next
        case (Inr j)
        then have j: "j \<in> loadable (disk w)"
          using 2 load_record_valid [OF Inr] by (simp add: loadable_def)
        show ?thesis
          unfolding load Inr sum.case wp_bind
          by (rule wp_mono [OF next_entries]) (use Inr j in \<open>auto split: sum.splits\<close>)
      qed
    qed
  qed
qed

text \<open>The record of a job is an entry that the listing does not skip.\<close>

lemma Ext_json_name [simp]: "filepath_Ext (json_name i) = ''.json''"
  by (simp add: filepath_Ext_def json_name_def Let_def)

lemma Trim_json_name [simp]: "entry_id (json_name i, e) = i"
  by (simp add: entry_id_def TrimSuffix_def json_name_def HasSuffix_def HasPrefix_def)

lemma loadable_entry:
  assumes "j \<in> loadable d"
  obtains n where "(json_name (cj_JobID j), JobRecord n) \<in> set (ReadDir (cd_jobs d))"
  using assms that by (auto simp: loadable_def load_record_Inr jobs_entry_def dest: map_of_SomeD)

lemma wp_classic_List:
  assumes "undisturbed w"
  shows "wp classic_List (\<lambda>r w'. same_jobs w w' \<and>
     (case r of Inl _ \<Rightarrow> True | Inr js \<Rightarrow> set js = loadable (disk w))) w"
proof -
  have listed: "wp (load_entries (ReadDir (cd_jobs (others w k (disk w))))) (\<lambda>r w'. same_jobs w w' \<and>
      (case r of Inl _ \<Rightarrow> True | Inr js \<Rightarrow> set js = loadable (disk w))) (at w d n)"
    if d: "d = others w k (disk w)" for k d n
  proof (rule wp_mono [OF wp_load_entries])
    show "undisturbed (at w d n)" using assms by simp
    fix r w'
    have same: "cd_jobs d = cd_jobs (disk w)" "load_record d = load_record (disk w)" "loadable d = loadable (disk w)"
      using assms undisturbed_load [OF assms] d by (simp_all add: undisturbed_def loadable_def)
    assume *: "same_jobs (at w d n) w' \<and> (case r of Inl _ \<Rightarrow> True | Inr js \<Rightarrow> set js \<subseteq> loadable (disk (at w d n)) \<and>
        (\<forall>e \<in> set (ReadDir (cd_jobs (others w k (disk w)))).
           skip_entry e \<or> (\<exists>j \<in> set js. load_record (disk (at w d n)) (entry_id e) = Inr j)))"
    have "loadable (disk w) \<subseteq> set js" if "r = Inr js" for js
    proof
      fix j assume "j \<in> loadable (disk w)"
      moreover from this obtain m where "(json_name (cj_JobID j), JobRecord m) \<in> set (ReadDir (cd_jobs (disk w)))"
        by (rule loadable_entry)
      ultimately show "j \<in> set js"
        using * that d same by (fastforce simp: skip_entry_def loadable_def)
    qed
    then show "same_jobs w w' \<and> (case r of Inl _ \<Rightarrow> True | Inr js \<Rightarrow> set js = loadable (disk w))"
      using * same by (cases r) (auto simp: same_jobs_def)
  qed
  show ?thesis
    unfolding classic_List_def wp_bind
  proof (intro wp_observe wp_call wp_or_returnI)
    fix k n and r :: "err option" and m e
    show "same_jobs w (at (at w (others w k (disk w)) n) (disk (at w (others w k (disk w)) n)) m) \<and>
        (case Inl (Wrap ''list jobs: %w'' e) of Inl _ \<Rightarrow> True | Inr js \<Rightarrow> set js = loadable (disk w))"
      using assms by (simp add: same_jobs_def undisturbed_def)
  next
    fix k n m
    show "wp (do { js \<leftarrow> load_entries (ReadDir (cd_jobs (others w k (disk w))));
        ret (case js of Inl e \<Rightarrow> Inl e | Inr jobs \<Rightarrow> Inr (sort_key (\<lambda>j. - cj_CreatedAt j) jobs)) })
        (\<lambda>r w'. same_jobs w w' \<and> (case r of Inl _ \<Rightarrow> True | Inr js \<Rightarrow> set js = loadable (disk w)))
        (at (at w (others w k (disk w)) n) (disk (at w (others w k (disk w)) n)) m)"
      unfolding wp_bind at_simps by (rule wp_mono [OF listed [OF refl]]) (auto split: sum.splits)
  qed
qed

text \<open>
  While nobody else changes the directory, \<open>ActivePowerJobs\<close> misses no unresolved power action: a
  list that it returns has exactly the real jobs on disk whose action is recorded or scheduled.
\<close>

theorem active_complete:
  assumes "undisturbed w"
  shows "wp ActivePowerJobs (\<lambda>r _. case r of Inl _ \<Rightarrow> True | Inr js \<Rightarrow> set js = {j \<in> loadable (disk w). active_power j}) w"
  unfolding ActivePowerJobs_def wp_bind
  by (rule wp_mono [OF wp_classic_List [OF assms]]) (auto split: sum.splits)

subsection \<open>Recovery\<close>

definition pre_action :: "ClassicJob \<Rightarrow> bool" where
  "pre_action j \<longleftrightarrow> \<not> cj_DryRun j \<and> IsPreActionActive (cj_State j)"

definition orphaned :: "ClassicJob \<Rightarrow> time \<Rightarrow> ClassicJob" where
  "orphaned j t = j\<lparr>cj_State := ClassicOrphaned, cj_ReasonCode := ''supervisor_recovery_orphaned'', cj_UpdatedAt := t\<rparr>"

text \<open>What a recovery may have done to the directory: jobs that had not reached their action are orphaned.\<close>

definition recovered :: "classic_disk \<Rightarrow> classic_disk \<Rightarrow> bool" where
  "recovered d d' \<longleftrightarrow> (\<forall>i. load_record d' i = load_record d i \<or>
     (\<exists>j t. load_record d i = Inr j \<and> pre_action j \<and> load_record d' i = Inr (orphaned j t)))"

definition orphaned_on :: "classic_disk \<Rightarrow> ClassicJob \<Rightarrow> bool" where
  "orphaned_on d j \<longleftrightarrow> (\<exists>t. load_record d (cj_JobID j) = Inr (orphaned j t))"

definition pending_jobs :: "classic_disk \<Rightarrow> ClassicJob set" where
  "pending_jobs d = {j \<in> loadable d. pre_action j}"

lemma recovered_refl: "recovered d d"
  by (simp add: recovered_def)

lemma orphaned_simps [simp]:
  "cj_JobID (orphaned j t) = cj_JobID j" "cj_SchemaVersion (orphaned j t) = cj_SchemaVersion j"
  "\<not> pre_action (orphaned j t)" "orphaned (orphaned j t) u = orphaned j u"
  by (simp_all add: orphaned_def pre_action_def)

lemma recovered_put:
  assumes "recovered d d'" "load_record d (cj_JobID j) = Inr j" "pre_action j" "validateJob (orphaned j t) = None"
  shows "recovered d (put_classic (orphaned j t) d')"
  unfolding recovered_def
proof
  fix i
  show "load_record (put_classic (orphaned j t) d') i = load_record d i \<or>
      (\<exists>j0 t0. load_record d i = Inr j0 \<and> pre_action j0 \<and> load_record (put_classic (orphaned j t) d') i = Inr (orphaned j0 t0))"
  proof (cases "i = cj_JobID j")
    case True
    then show ?thesis using assms load_record_put [OF assms(4), of d'] by auto
  next
    case False
    then show ?thesis using assms(1) by (simp add: recovered_def load_record_put_other)
  qed
qed

lemma orphaned_on_put:
  assumes "validateJob (orphaned j t) = None" "j \<in> loadable d0" "i \<in> loadable d0"
  shows "orphaned_on (put_classic (orphaned j t) d) j"
    and "orphaned_on d i \<Longrightarrow> orphaned_on (put_classic (orphaned j t) d) i"
proof -
  show stored: "orphaned_on (put_classic (orphaned j t) d) j"
    using load_record_put [OF assms(1), of d] by (auto simp: orphaned_on_def)
  have "i = j" if "cj_JobID i = cj_JobID j"
    using assms(2,3) that by (auto simp: loadable_def)
  then show "orphaned_on (put_classic (orphaned j t) d) i" if "orphaned_on d i"
    using stored that by (cases "cj_JobID i = cj_JobID j") (auto simp: orphaned_on_def load_record_put_other)
qed

lemma wp_AppendEvent:
  assumes "\<And>r d n. cd_jobs d = cd_jobs (disk w) \<Longrightarrow> Q r (at w d n)"
  shows "wp (AppendEvent e) Q w"
proof -
  have stay: "Q r w" "Q r (at w (disk w) n)" "Q r (at w (append_classic e (disk w)) n)" for r n
    using assms [of "disk w" r "tick w"] by (simp_all add: assms append_classic_def)
  show ?thesis
    unfolding AppendEvent_def wp_bind
    by (auto simp del: calls.simps simp: wp_if first_err.simps stay split: option.splits intro!: wp_call wp_calls_seq)
qed

text \<open>Saving an orphaned job either leaves the directory alone or replaces the record.\<close>

lemma wp_save_orphaned:
  assumes "undisturbed w" "validateJob j = None" "ValidateJobID (cj_JobID j) = None"
    and "\<And>e d n. cd_jobs d = cd_jobs (disk w) \<Longrightarrow> Q (Some e) (at w d n)"
    and "\<And>r d n. cd_jobs d = cd_jobs (disk w) \<Longrightarrow> validateJob (orphaned j t) = None \<Longrightarrow> Q r (at w (put_classic (orphaned j t) d) n)"
  shows "wp (classic_Save (orphaned j t)) Q w"
proof (rule wp_classic_Save)
  have jobs: "may_see w d \<Longrightarrow> cd_jobs d = cd_jobs (disk w)" for d
    using assms(1) by (auto simp: may_see_def undisturbed_def)
  show "Q (Some e) (at w d n)" if "may_see w d" for e d n
    by (rule assms(4) [OF jobs [OF that]])
  have current: "migrateJob (orphaned j t) = Inr (orphaned j t)"
    using validateJob_schema [OF assms(2)] by simp
  show "Q r (at w (put_classic j' d) n)" if "may_see w d" "checked_job (orphaned j t) = Inr j'" for r j' d n
    using that(2) assms(5) [OF jobs [OF that(1)]] by (simp add: checked_job_Inr current)
qed

definition recovering :: "classic_disk \<Rightarrow> classic_disk world \<Rightarrow> ClassicJob list \<Rightarrow> err option \<Rightarrow> classic_disk world \<Rightarrow> bool" where
  "recovering d0 w js e w' \<longleftrightarrow> undisturbed w' \<and> recovered d0 (disk w') \<and>
     (\<forall>i \<in> loadable d0. orphaned_on (disk w) i \<longrightarrow> orphaned_on (disk w') i) \<and>
     (e = None \<longrightarrow> (\<forall>i \<in> set js. pre_action i \<longrightarrow> orphaned_on (disk w') i))"

lemma same_jobs_facts:
  assumes "cd_jobs d' = cd_jobs d"
  shows "recovered d0 d' = recovered d0 d" "orphaned_on d' = orphaned_on d"
  using load_record_cong [OF assms] by (simp_all add: recovered_def orphaned_on_def fun_eq_iff)

lemma wp_recover_jobs:
  assumes "undisturbed w" "recovered d0 (disk w)" "set js \<subseteq> loadable d0"
  shows "wp (recover_jobs js) (recovering d0 w js) w"
  using assms
proof (induction js arbitrary: w)
  case Nil
  then show ?case by (simp add: recovering_def)
next
  case (Cons j js)
  have j: "load_record d0 (cj_JobID j) = Inr j" "validateJob j = None" "ValidateJobID (cj_JobID j) = None" "j \<in> loadable d0"
    using Cons.prems(3) load_record_valid by (auto simp: loadable_def)
  show ?case
  proof (cases "pre_action j")
    case False
    then have "cj_DryRun j \<or> \<not> IsPreActionActive (cj_State j)" by (simp add: pre_action_def)
    then show ?thesis
      unfolding recover_jobs.simps
      by (subst if_P, assumption) (rule wp_mono [OF Cons.IH], use Cons.prems False in \<open>auto simp: recovering_def\<close>)
  next
    case True
    then have active: "\<not> (cj_DryRun j \<or> \<not> IsPreActionActive (cj_State j))" by (simp add: pre_action_def)
    have allowed: "Transition (cj_State j) ClassicOrphaned = None"
      using True by (auto simp: pre_action_def Transition_def)
    have rest: "wp (recover_jobs js) (recovering d0 w (j # js)) (at w d n)"
      if d: "cd_jobs d = cd_jobs (put_classic (orphaned j t) d1)" "cd_jobs d1 = cd_jobs (disk w)"
        "validateJob (orphaned j t) = None" for d d1 n t
    proof (rule wp_mono [OF Cons.IH])
      have put: "recovered d0 d" "orphaned_on d j" "\<And>i. i \<in> loadable d0 \<Longrightarrow> orphaned_on (disk w) i \<Longrightarrow> orphaned_on d i"
        using recovered_put [OF _ j(1) True d(3), of d1] orphaned_on_put [OF d(3) j(4)] Cons.prems(2) j(4)
        by (simp_all add: same_jobs_facts [OF d(1)] same_jobs_facts [OF d(2)])
      show "undisturbed (at w d n)" "recovered d0 (disk (at w d n))" "set js \<subseteq> loadable d0"
        using Cons.prems put by simp_all
      fix e w' assume "recovering d0 (at w d n) js e w'"
      then show "recovering d0 w (j # js) e w'"
        using put j(4) by (auto simp: recovering_def)
    qed
    show ?thesis
      unfolding recover_jobs.simps if_not_P [OF active] allowed or_return_def option.case Let_def wp_bind
        orphaned_def [symmetric]
    proof (intro wp_time_Now wp_save_orphaned [OF _ j(2,3)], goal_cases)
      case 1
      then show ?case using Cons.prems(1) by simp
    next
      case (2 k n e d m)
      then have same: "cd_jobs d = cd_jobs (disk w)" by simp
      show ?case using Cons.prems by (simp add: recovering_def same_jobs_facts [OF same])
    next
      case (3 k n r d m)
      then have same: "cd_jobs d = cd_jobs (disk w)" by simp
      have put: "recovered d0 (put_classic (orphaned j (clock w k)) d)"
          "\<And>i. i \<in> loadable d0 \<Longrightarrow> orphaned_on (disk w) i \<Longrightarrow> orphaned_on (put_classic (orphaned j (clock w k)) d) i"
        using recovered_put [OF _ j(1) True, of d] orphaned_on_put [OF _ j(4)] Cons.prems(2) 3 j(4)
        by (simp_all add: same_jobs_facts [OF same])
      show ?case
      proof (cases r)
        case None
        then show ?thesis
          unfolding None option.case wp_bind
          by (intro wp_time_Now wp_AppendEvent) (use 3 in \<open>auto intro: rest\<close>)
      next
        case (Some e)
        then show ?thesis
          using put Cons.prems(1) by (simp add: recovering_def)
      qed
    qed
  qed
qed

text \<open>
  C40: On a store whose jobs nobody else writes meanwhile (the recovery takes no lock, and saves the copies that it
  has listed), a recovery only orphans real jobs that had not reached their action; every other job, in particular
  an unresolved power action, keeps its record, also when the recovery fails half way. If it reports no error, no such
  job is left.
\<close>

theorem recovery_orphans:
  assumes "undisturbed w"
  shows "wp RecoverPreActionJobs (\<lambda>e w'. recovered (disk w) (disk w') \<and> (if e = None then pending_jobs (disk w') = {} else True)) w"
  unfolding RecoverPreActionJobs_def wp_bind
proof (rule wp_mono [OF wp_classic_List [OF assms]])
  fix r :: "err + ClassicJob list" and w1
  assume listed: "same_jobs w w1 \<and> (case r of Inl _ \<Rightarrow> True | Inr js \<Rightarrow> set js = loadable (disk w))"
  then have start: "undisturbed w1" "recovered (disk w) (disk w1)"
    using same_jobs_load [of w w1] by (simp_all add: same_jobs_def recovered_def)
  show "wp (case r of Inl e \<Rightarrow> ret (Some e) | Inr js \<Rightarrow> recover_jobs js)
      (\<lambda>e w'. recovered (disk w) (disk w') \<and> (if e = None then pending_jobs (disk w') = {} else True)) w1"
  proof (cases r)
    case (Inl e)
    then show ?thesis using start by simp
  next
    case (Inr js)
    then have js: "set js = loadable (disk w)" using listed by simp
    have none_left: "pending_jobs (disk w') = {}" if *: "recovering (disk w) w1 js None w'" for w'
    proof -
      have "\<not> pre_action j" if j: "j \<in> loadable (disk w')" for j
      proof
        assume pre: "pre_action j"
        have now: "load_record (disk w') (cj_JobID j) = Inr j" "ValidateJobID (cj_JobID j) = None"
          using j by (simp_all add: loadable_def)
        have "recovered (disk w) (disk w')" using * by (simp add: recovering_def)
        then have "load_record (disk w) (cj_JobID j) = Inr j"
          using now(1) pre orphaned_simps(3) unfolding recovered_def by (metis sum.inject(2))
        then have "orphaned_on (disk w') j"
          using * js pre now(2) by (simp add: recovering_def loadable_def)
        then show False
          using now(1) pre orphaned_simps(3) unfolding orphaned_on_def by (metis sum.inject(2))
      qed
      then show ?thesis by (auto simp: pending_jobs_def)
    qed
    show ?thesis
      unfolding Inr sum.case
      by (rule wp_mono [OF wp_recover_jobs [OF start]]) (use js none_left in \<open>auto simp: recovering_def\<close>)
  qed
qed

subsection \<open>Paths stay in the data root\<close>

lemma job_id_plain:
  assumes "ValidateJobID i = None"
  shows "slash \<notin> set i" "i \<noteq> []"
  using assms by (auto simp: ValidateJobID_None list_all_iff job_id_char_def is_lower_def is_upper_def is_digit_def
      char_between_def char_code_def)

lemma file_name_plain:
  assumes "ValidateJobID i = None" "slash \<notin> set ext" "length ext > 1"
  shows "plain_elem (i @ ext)" "i @ ext \<noteq> dotdot"
  using job_id_plain [OF assms(1)] assms(2,3) by (auto simp: plain_elem_def Cons_eq_append_conv append_eq_Cons_conv)

text \<open>
  The files of a valid job identity lie directly in the directories of the store, whatever the
  identity spells: its path is the directory, a slash and a name without a slash.
\<close>

definition file_in :: "string \<Rightarrow> string \<Rightarrow> string \<Rightarrow> bool" where
  "file_in dir name path \<longleftrightarrow> path = dir @ slash # name \<and> slash \<notin> set name"

theorem paths_confined:
  assumes "ValidateJobID i = None" "path_IsAbs root"
  shows "file_in (jobsDir root) (i @ ''.json'') (jobPath root i) \<and> file_in (jobsDir root) (i @ ''.cancel'') (cancelPath root i) \<and>
     file_in (logsDir root) (i @ ''.jsonl'') (logPath root i)"
proof -
  have dirs: "plain_elem ''jobs''" "plain_elem ''logs''"
    by (simp_all add: plain_elem_def)
  have "filepath_Join [filepath_Join [root, m], i @ ext] = filepath_Join [root, m] @ slash # i @ ext"
    if "plain_elem m" "m \<noteq> dotdot" "slash \<notin> set ext" "length ext > 1" for m ext
    by (rule Join_below [OF assms(2) that(1,2) file_name_plain [OF assms(1) that(3,4)]])
  then show ?thesis
    using dirs job_id_plain [OF assms(1)]
    by (simp add: file_in_def jobPath_def cancelPath_def logPath_def jobsDir_def logsDir_def json_name_def cancel_name_def)
qed

subsection \<open>Jobs of the old schema\<close>

text \<open>What a scheduled real job of schema 1 has to have to be taken over.\<close>

definition legacy_complete :: "ClassicJob \<Rightarrow> bool" where
  "legacy_complete j \<longleftrightarrow> cj_Action j = ''shutdown'' \<and> 30 \<le> cj_DelaySeconds j \<and> cj_DelaySeconds j \<le> 3600 \<and>
     ValidateJobID (cj_JobID j) = None \<and>
     (case (cj_ActionIntentAt j, cj_ScheduledFor j) of
        (Some intent, Some deadline) \<Rightarrow> \<not> IsZero intent \<and> \<not> IsZero deadline \<and> cj_UpdatedAt j \<le> deadline
      | _ \<Rightarrow> False) \<and> \<not> IsZero (cj_CreatedAt j) \<and> \<not> IsZero (cj_UpdatedAt j)"

definition legacy_scheduled :: "ClassicJob \<Rightarrow> bool" where
  "legacy_scheduled j \<longleftrightarrow> cj_SchemaVersion j = ''1'' \<and> \<not> cj_DryRun j \<and> cj_State j = ClassicActionScheduled"

text \<open>
  A scheduled job of schema 1 is taken over exactly when it is complete; its receipt is then valid,
  names the job, and has the recorded deadline, so that the action can still be cancelled.
\<close>

theorem legacy_taken_over:
  assumes "legacy_scheduled job"
  shows "(case migrateJob job of Inl _ \<Rightarrow> False | Inr j \<Rightarrow> validateJob j = None \<and> ValidateJobID (cj_JobID j) = None) \<longleftrightarrow> legacy_complete job"
proof -
  have v1: "cj_SchemaVersion job = ''1''" "\<not> cj_DryRun job" "cj_State job = ClassicActionScheduled"
    using assms by (simp_all add: legacy_scheduled_def)
  show ?thesis
    using v1 by (cases "cj_ScheduledFor job"; cases "cj_ActionIntentAt job")
      (auto simp: migrateJob_def validateJob_def Let_def legacy_complete_def legacy_receipt_def ValidateReceipt_Seal IsZero_def)
qed

subsection \<open>Examples\<close>

definition armed_job :: ClassicJob where
  "armed_job = \<lparr>cj_SchemaVersion = ''2'', cj_JobID = ''dt_job_1'', cj_NonceHash = ''n'', cj_State = ClassicArmed,
     cj_ReasonCode = ''job_armed'', cj_DryRun = False, cj_Action = ''shutdown'', cj_DelaySeconds = 60, cj_CreatedAt = 1,
     cj_UpdatedAt = 2, cj_SupervisorPID = 7, cj_CodexPID = 0, cj_CodexCWD = [], cj_PromptSHA256 = [], cj_CompletionStatus = None,
     cj_VerifierExitCode = None, cj_ActionExitCode = None, cj_ActionIntentAt = None, cj_ScheduledFor = None,
     cj_PowerCapabilities = None, cj_PowerReceipt = None, cj_CancelResult = None, cj_ReconcileResult = None,
     cj_CancelRequested = False\<rparr>"

definition legacy_job :: ClassicJob where
  "legacy_job = armed_job\<lparr>cj_SchemaVersion := ''1'', cj_State := ClassicActionScheduled, cj_ActionIntentAt := Some 1,
     cj_ScheduledFor := Some (2 + 60 * Second)\<rparr>"

definition armed_disk :: classic_disk where
  "armed_disk = \<lparr>cd_jobs = [(json_name ''dt_job_1'', JobRecord (File (Parsed armed_job)))], cd_logs = [], cd_tmp = []\<rparr>"

lemma quiet_undisturbed [simp]: "undisturbed (quiet_world d)"
  by (simp add: undisturbed_def quiet_world_def)

lemma sample_id [simp]: "ValidateJobID ''dt_job_1'' = None"
  by (simp add: ValidateJobID_None HasPrefix_def job_id_char_def is_lower_def is_digit_def char_between_def char_code_def)

theorem save_load_witness:
  "wp (do { e \<leftarrow> classic_Save armed_job; r \<leftarrow> classic_Load (cj_JobID armed_job); ret (e, r) })
     (\<lambda>(e, r) _. case e of Some _ \<Rightarrow> True | None \<Rightarrow> r = checked_job armed_job \<and> r = migrateJob armed_job) (quiet_world armed_disk)"
  by (rule save_load) simp

theorem active_complete_witness:
  "wp ActivePowerJobs (\<lambda>r _. case r of Inl _ \<Rightarrow> True
      | Inr js \<Rightarrow> set js = {j \<in> loadable (disk (quiet_world armed_disk)). active_power j}) (quiet_world armed_disk)"
  by (rule active_complete) simp

theorem recovery_orphans_witness:
  "wp RecoverPreActionJobs (\<lambda>e w'. recovered (disk (quiet_world armed_disk)) (disk w') \<and>
     (if e = None then pending_jobs (disk w') = {} else True)) (quiet_world armed_disk)"
  by (rule recovery_orphans) simp

theorem paths_confined_witness:
  "file_in (jobsDir ''/data/x'') (''dt_job_1'' @ ''.json'') (jobPath ''/data/x'' ''dt_job_1'') \<and>
     file_in (jobsDir ''/data/x'') (''dt_job_1'' @ ''.cancel'') (cancelPath ''/data/x'' ''dt_job_1'') \<and>
     file_in (logsDir ''/data/x'') (''dt_job_1'' @ ''.jsonl'') (logPath ''/data/x'' ''dt_job_1'')"
  by (rule paths_confined) simp_all

theorem legacy_taken_over_witness:
  "legacy_complete legacy_job \<and> (case migrateJob legacy_job of Inl _ \<Rightarrow> False
     | Inr j \<Rightarrow> validateJob j = None \<and> ValidateJobID (cj_JobID j) = None)"
proof -
  have "legacy_complete legacy_job"
    by (simp add: legacy_complete_def legacy_job_def armed_job_def IsZero_def)
  then show ?thesis
    using legacy_taken_over [of legacy_job] by (simp add: legacy_scheduled_def legacy_job_def armed_job_def)
qed

end
