(* ===== verification/Go_JSON.thy ===== *)
theory Go_JSON
  imports Go_Encoding "HOL-Library.Monad_Syntax"
begin

text \<open>
  \<open>encoding/json\<close> as the program reads with it: the text of a value, with white space and escapes, the keys of
  an object in order and with duplicates, and the rule by which \<open>Decode\<close> finds the field of a key. The
  theorem of this theory is that the parser reads back what \<open>json.Marshal\<close> writes.
\<close>

subsection \<open>Text\<close>

datatype jval =
    VNull
  | VBool bool
  | VNum string
  | VStr string
  | VArr "jval list"
  | VObj "(string \<times> jval) list"

definition json_space :: "char \<Rightarrow> bool" where
  "json_space c \<longleftrightarrow> c \<in> {CHR '' '', CHR 0x09, CHR 0x0A, CHR 0x0D}"

definition skip_ws :: "string \<Rightarrow> string" where
  "skip_ws = dropWhile json_space"

definition hex_val :: "char \<Rightarrow> nat option" where
  "hex_val c =
     (let n = char_code c in
      if 48 \<le> n \<and> n \<le> 57 then Some (n - 48)
      else if 97 \<le> n \<and> n \<le> 102 then Some (n - 87)
      else if 65 \<le> n \<and> n \<le> 70 then Some (n - 55)
      else None)"

text \<open>Four hexadecimal digits.\<close>

fun hex4 :: "string \<Rightarrow> (nat \<times> string) option" where
  "hex4 (a # b # c # d # r) =
     (case (hex_val a, hex_val b, hex_val c, hex_val d) of
        (Some a, Some b, Some c, Some d) \<Rightarrow> Some (((a * 16 + b) * 16 + c) * 16 + d, r)
      | _ \<Rightarrow> None)"
| "hex4 _ = None"

text \<open>\<open>utf8.EncodeRune\<close>; a code point that is no character becomes U+FFFD.\<close>

definition utf8_encode :: "nat \<Rightarrow> string" where
  "utf8_encode n =
     map char_of
     (if n < 0x80 then [n]
      else if n < 0x800 then [0xC0 + n div 64, 0x80 + n mod 64]
      else if (0xD800 \<le> n \<and> n < 0xE000) \<or> 0x110000 \<le> n then [0xEF, 0xBF, 0xBD]
      else if n < 0x10000 then [0xE0 + n div 4096, 0x80 + n div 64 mod 64, 0x80 + n mod 64]
      else [0xF0 + n div 262144, 0x80 + n div 4096 mod 64, 0x80 + n div 64 mod 64, 0x80 + n mod 64])"

text \<open>The escapes of one character.\<close>

definition simple_escape :: "char \<Rightarrow> char option" where
  "simple_escape c =
     (if c = dquote \<or> c = backslash \<or> c = CHR ''/'' then Some c
      else if c = CHR ''b'' then Some (CHR 0x08)
      else if c = CHR ''f'' then Some (CHR 0x0C)
      else if c = CHR ''n'' then Some (CHR 0x0A)
      else if c = CHR ''r'' then Some (CHR 0x0D)
      else if c = CHR ''t'' then Some (CHR 0x09)
      else None)"

text \<open>
  A \<open>backslash u\<close> escape: two halves of a surrogate pair are one character, a half alone is U+FFFD.
\<close>

definition unicode_escape :: "string \<Rightarrow> (string \<times> string) option" where
  "unicode_escape s =
     (case hex4 s of
        None \<Rightarrow> None
      | Some (n, r) \<Rightarrow>
          (if 0xD800 \<le> n \<and> n < 0xDC00 then
             (case r of
                b # u # r' \<Rightarrow>
                  (if b = backslash \<and> u = CHR ''u'' then
                     (case hex4 r' of
                        Some (m, r'') \<Rightarrow>
                          if 0xDC00 \<le> m \<and> m < 0xE000
                          then Some (utf8_encode (0x10000 + (n - 0xD800) * 1024 + (m - 0xDC00)), r'')
                          else Some (utf8_encode 0xFFFD, r)
                      | None \<Rightarrow> Some (utf8_encode 0xFFFD, r))
                   else Some (utf8_encode 0xFFFD, r))
              | _ \<Rightarrow> Some (utf8_encode 0xFFFD, r))
           else Some (utf8_encode n, r)))"

lemma hex4_shorter: "hex4 s = Some (n, r) \<Longrightarrow> length r < length s"
  by (cases s rule: hex4.cases) (auto split: option.splits)

lemma unicode_escape_shorter: "unicode_escape s = Some (t, r) \<Longrightarrow> length r < length s"
  unfolding unicode_escape_def
  by (auto split: option.splits if_splits list.splits prod.splits dest!: hex4_shorter)

text \<open>
  The rest of a string after its opening quote: its content and what follows the closing quote. A byte
  that is no valid UTF-8 is read as U+FFFD; a control character ends the parse.
\<close>

function string_rest :: "string \<Rightarrow> (string \<times> string) option" where
  "string_rest [] = None"
| "string_rest (c # cs) =
     (if c = dquote then Some ([], cs)
      else if c = backslash then
        (case cs of
           [] \<Rightarrow> None
         | d # ds \<Rightarrow>
             (if d = CHR ''u'' then
                (case unicode_escape ds of
                   None \<Rightarrow> None
                 | Some (t, r) \<Rightarrow> map_option (map_prod ((@) t) id) (string_rest r))
              else
                (case simple_escape d of
                   None \<Rightarrow> None
                 | Some t \<Rightarrow> map_option (map_prod ((#) t) id) (string_rest ds))))
      else if char_code c < 32 then None
      else
        (let n = rune_size (string_codes (c # cs)) in
         if n = 0 then map_option (map_prod ((@) (utf8_encode 0xFFFD)) id) (string_rest cs)
         else map_option (map_prod ((@) (take n (c # cs))) id) (string_rest (drop (n - 1) cs))))"
  by pat_completeness auto
termination
  by (relation "measure length") (auto dest: unicode_escape_shorter)

text \<open>Numbers keep their text.\<close>

definition digits_of :: "string \<Rightarrow> (string \<times> string) option" where
  "digits_of s = (if takeWhile is_digit s = [] then None else Some (takeWhile is_digit s, dropWhile is_digit s))"

definition int_part :: "string \<Rightarrow> (string \<times> string) option" where
  "int_part s =
     (case s of
        [] \<Rightarrow> None
      | c # cs \<Rightarrow> if c = CHR ''0'' then Some ([c], cs) else digits_of s)"

definition frac_part :: "string \<Rightarrow> (string \<times> string) option" where
  "frac_part s =
     (case s of
        c # cs \<Rightarrow> if c = CHR ''.'' then map_option (map_prod ((#) c) id) (digits_of cs) else Some ([], s)
      | [] \<Rightarrow> Some ([], []))"

definition exp_part :: "string \<Rightarrow> (string \<times> string) option" where
  "exp_part s =
     (case s of
        c # cs \<Rightarrow>
          if c = CHR ''e'' \<or> c = CHR ''E'' then
            (case cs of
               d # ds \<Rightarrow>
                 if d = CHR ''+'' \<or> d = CHR ''-'' then map_option (map_prod (\<lambda>t. c # d # t) id) (digits_of ds)
                 else map_option (map_prod ((#) c) id) (digits_of cs)
             | [] \<Rightarrow> None)
          else Some ([], s)
      | [] \<Rightarrow> Some ([], []))"

definition parse_number :: "string \<Rightarrow> (jval \<times> string) option" where
  "parse_number s =
     (let (sign, body) = (case s of c # cs \<Rightarrow> if c = CHR ''-'' then ([c], cs) else ([], s) | [] \<Rightarrow> ([], s))
      in do {
        (i, s) \<leftarrow> int_part body;
        (f, s) \<leftarrow> frac_part s;
        (e, s) \<leftarrow> exp_part s;
        Some (VNum (sign @ i @ f @ e), s) })"

definition parse_literal :: "string \<Rightarrow> (jval \<times> string) option" where
  "parse_literal s =
     (if take 4 s = ''true'' then Some (VBool True, drop 4 s)
      else if take 5 s = ''false'' then Some (VBool False, drop 5 s)
      else if take 4 s = ''null'' then Some (VNull, drop 4 s)
      else parse_number s)"

text \<open>
  One value, and the members of an object or an array after its opening bracket. The fuel bounds the
  nesting and the number of values still to be read; \<open>json_text\<close> gives two units per byte.
\<close>

fun parse_value :: "nat \<Rightarrow> string \<Rightarrow> (jval \<times> string) option"
  and parse_members :: "nat \<Rightarrow> string \<Rightarrow> ((string \<times> jval) list \<times> string) option"
  and parse_items :: "nat \<Rightarrow> string \<Rightarrow> (jval list \<times> string) option" where
  "parse_value 0 s = None"
| "parse_value (Suc n) s =
     (case skip_ws s of
        [] \<Rightarrow> None
      | c # cs \<Rightarrow>
          (if c = CHR ''{'' then
             (case skip_ws cs of
                [] \<Rightarrow> None
              | d # ds \<Rightarrow> if d = CHR ''}'' then Some (VObj [], ds) else map_option (map_prod VObj id) (parse_members n cs))
           else if c = CHR ''['' then
             (case skip_ws cs of
                [] \<Rightarrow> None
              | d # ds \<Rightarrow> if d = CHR '']'' then Some (VArr [], ds) else map_option (map_prod VArr id) (parse_items n cs))
           else if c = dquote then map_option (map_prod VStr id) (string_rest cs)
           else parse_literal (c # cs)))"
| "parse_members 0 s = None"
| "parse_members (Suc n) s =
     (case skip_ws s of
        [] \<Rightarrow> None
      | c # cs \<Rightarrow>
          if c \<noteq> dquote then None
          else do {
            (k, r) \<leftarrow> string_rest cs;
            case skip_ws r of
              [] \<Rightarrow> None
            | c # r \<Rightarrow>
                if c \<noteq> CHR '':'' then None
                else do {
                  (v, r) \<leftarrow> parse_value n r;
                  case skip_ws r of
                    [] \<Rightarrow> None
                  | c # r \<Rightarrow>
                      if c = CHR '','' then map_option (map_prod ((#) (k, v)) id) (parse_members n r)
                      else if c = CHR ''}'' then Some ([(k, v)], r)
                      else None } })"
| "parse_items 0 s = None"
| "parse_items (Suc n) s = do {
     (v, r) \<leftarrow> parse_value n s;
     case skip_ws r of
       [] \<Rightarrow> None
     | c # r \<Rightarrow>
         if c = CHR '','' then map_option (map_prod ((#) v) id) (parse_items n r)
         else if c = CHR '']'' then Some ([v], r)
         else None }"

text \<open>A text with one value and nothing else.\<close>

definition json_text :: "string \<Rightarrow> jval option" where
  "json_text s =
     (case parse_value (2 * length s + 2) s of
        Some (v, r) \<Rightarrow> if skip_ws r = [] then Some v else None
      | None \<Rightarrow> None)"

subsection \<open>Reading back what was written\<close>

text \<open>The size of a rune is decided by its own bytes.\<close>

lemma bytes_cases:
  obtains "bs = []" | b where "bs = [b]" | b c where "bs = [b, c]" | b c d where "bs = [b, c, d]"
    | b c d e fs where "bs = b # c # d # e # fs"
  by (metis list.exhaust)

lemma rune_size_le: "rune_size bs \<le> length bs"
  by (cases bs rule: bytes_cases) (simp_all add: rune_size.simps Let_def)

lemma rune_size_own:
  assumes "rune_size bs = n" "n > 0"
  shows "rune_size (take n bs @ xs) = n"
  using assms
  by (cases bs rule: bytes_cases) (auto simp: rune_size.simps Let_def split: if_splits)

lemma rune_size_one: "rune_size (b # bs) = 1 \<longleftrightarrow> b < 0x80"
  by (auto simp: rune_size.simps Let_def)

lemma rune_size_many: "rune_size (b # bs) > 1 \<Longrightarrow> 0xC2 \<le> b"
  by (auto simp: rune_size.simps Let_def split: if_splits)

text \<open>The strings of a JSON text.\<close>

lemma append_one: "(@) [x] = (#) x"
  by (rule ext) simp

lemma short_escapes: "map char_of [8, 9, 10, 12, 13 :: nat] = [CHR 0x08, CHR 0x09, CHR 0x0A, CHR 0x0C, CHR 0x0D]"
  by code_simp

lemma hex_val_nibble: "hex_val (nibble w) = Some (unat (w AND 15))"
proof -
  have "unat (w AND 15) \<le> unat (15 :: u8)"
    by (rule word_and_le1 [THEN word_le_nat_alt [THEN iffD1]])
  then have "unat (w AND 15) \<in> set [0..<16]" by simp
  then show ?thesis
    by (auto simp: nibble_def hex_val_def char_code_def upt_rec)
qed

lemma char_of_code [simp]: "char_of (char_code c) = c"
  by (simp add: char_code_def)

lemma char_code_less: "char_code c < 256"
  by (simp add: char_code_def)

lemma byte_nibbles: "n < 256 \<Longrightarrow> unat (drop_bit 4 (of_nat n :: u8) AND 15) * 16 + unat ((of_nat n :: u8) AND 15) = n"
proof -
  assume n: "n < 256"
  have fifteen: "w AND 15 = take_bit 4 w" for w :: u8
    by (simp add: take_bit_eq_mask mask_eq_decr_exp)
  have "unat (of_nat n :: u8) = n"
    using n by (simp add: unat_of_nat)
  then show ?thesis
    using n unfolding fifteen by (simp add: unsigned_take_bit_eq unsigned_drop_bit_eq take_bit_eq_mod drop_bit_eq_div unat_div unat_mod)
qed

lemma string_rest_u00:
  assumes "n < 0x80"
  shows "string_rest (backslash # CHR ''u'' # CHR ''0'' # CHR ''0'' # nibble (drop_bit 4 (of_nat n)) # nibble (of_nat n) # xs)
    = map_option (map_prod ((#) (char_of n)) id) (string_rest xs)"
proof -
  have zero: "hex_val (CHR ''0'') = Some 0"
    by (simp add: hex_val_def char_code_def)
  have "hex4 (CHR ''0'' # CHR ''0'' # nibble (drop_bit 4 (of_nat n)) # nibble (of_nat n) # xs) = Some (n, xs)"
    using byte_nibbles [of n] assms by (simp add: hex_val_nibble zero)
  moreover have "utf8_encode n = [char_of n]"
    using assms by (simp add: utf8_encode_def)
  ultimately show ?thesis
    using assms by (simp add: unicode_escape_def append_one del: hex4.simps)
qed

lemma string_rest_ascii:
  assumes "char_code c < 0x80"
  shows "string_rest (json_ascii c @ xs) = map_option (map_prod ((#) c) id) (string_rest xs)"
proof -
  let ?n = "char_code c"
  consider "c = dquote \<or> c = backslash" | "?n \<in> {8, 9, 10, 12, 13}"
    | "\<not> (c = dquote \<or> c = backslash)" "?n \<notin> {8, 9, 10, 12, 13}" "?n < 32 \<or> ?n = 60 \<or> ?n = 62 \<or> ?n = 38"
    | "\<not> (c = dquote \<or> c = backslash)" "\<not> ?n < 32" "json_ascii c = [c]"
    by (cases "?n < 32 \<or> ?n = 60 \<or> ?n = 62 \<or> ?n = 38") (auto simp: json_ascii_def Let_def)
  then show ?thesis
  proof cases
    case 1 then show ?thesis by (auto simp: json_ascii_def simple_escape_def)
  next
    case 2
    then have "c \<in> char_of ` {8, 9, 10, 12, 13 :: nat}" using char_of_code [of c] by (metis image_eqI)
    then show ?thesis
      using short_escapes by (auto simp: json_ascii_def simple_escape_def char_code_def)
  next
    case 3
    then have "json_ascii c = backslash # CHR ''u'' # CHR ''0'' # CHR ''0'' # nibble (drop_bit 4 (of_nat ?n)) # [nibble (of_nat ?n)]"
      by (auto simp: json_ascii_def Let_def)
    then show ?thesis using string_rest_u00 [OF assms] by simp
  next
    case 4
    then show ?thesis
      using assms rune_size_one [of ?n] by (simp add: string_codes_def append_one)
  qed
qed

lemma string_codes_simps [simp]:
  "string_codes [] = []" "string_codes (c # cs) = char_code c # string_codes cs"
  "string_codes (s @ t) = string_codes s @ string_codes t" "string_codes (take n s) = take n (string_codes s)"
  "string_codes (drop n s) = drop n (string_codes s)" "length (string_codes s) = length s"
  "map char_of (string_codes s) = s"
  by (simp_all add: string_codes_def take_map drop_map map_idI)

lemma string_rest_raw:
  assumes "rune_size (string_codes s) = n" "1 < n"
  shows "string_rest (take n s @ xs) = map_option (map_prod ((@) (take n s)) id) (string_rest xs)"
proof -
  obtain c cs where s: "s = c # cs" using assms by (cases s) (auto simp: rune_size.simps)
  obtain m where m: "n = Suc m" using assms by (cases n) auto
  have len: "m \<le> length cs" using rune_size_le [of "string_codes s"] assms s m by simp
  have code: "0xC2 \<le> char_code c" using rune_size_many [of "char_code c" "string_codes cs"] assms s by simp
  then have plain: "c \<noteq> dquote" "c \<noteq> backslash" "\<not> char_code c < 32" by (auto simp: char_code_def)
  have "rune_size (take n (string_codes s) @ string_codes xs) = n"
    using assms by (intro rune_size_own) auto
  then have size: "rune_size (char_code c # take m (string_codes cs) @ string_codes xs) = Suc m"
    using s m by simp
  show ?thesis
    using plain len by (simp add: s m size)
qed

lemma string_rest_line_separators:
  "string_rest ([backslash] @ ''u2028'' @ xs) = map_option (map_prod ((@) (map char_of [0xE2, 0x80, 0xA8 :: nat])) id) (string_rest xs)"
  "string_rest ([backslash] @ ''u2029'' @ xs) = map_option (map_prod ((@) (map char_of [0xE2, 0x80, 0xA9 :: nat])) id) (string_rest xs)"
  by (simp_all add: unicode_escape_def hex_val_def char_code_def utf8_encode_def)

lemma string_rest_escape:
  "utf8_Valid s \<Longrightarrow> string_rest (json_escape s @ dquote # r) = Some (s, r)"
proof (induction s rule: measure_induct_rule [where f = length])
  case (less s)
  show ?case
  proof (cases s)
    case (Cons c cs)
    let ?n = "rune_size (string_codes s)"
    have valid: "?n \<noteq> 0" "utf8_Valid (drop (?n - 1) cs)"
      using less.prems Cons by (auto simp: utf8_Valid_def split: if_splits)
    have IH: "string_rest (json_escape (drop (?n - 1) cs) @ dquote # r) = Some (drop (?n - 1) cs, r)"
      by (rule less.IH) (use Cons valid in auto)
    have parts: "take ?n s @ drop (?n - 1) cs = s"
      using Cons valid(1) by (cases ?n) auto
    show ?thesis
    proof (cases "?n = 1")
      case True
      then have "char_code c < 0x80" using Cons rune_size_one by simp
      then show ?thesis using string_rest_ascii IH True Cons by simp
    next
      case False
      then have many: "1 < ?n" using valid(1) by simp
      let ?t = "take ?n s"
      have esc: "json_escape s =
          (if string_codes ?t = [0xE2, 0x80, 0xA8] then [backslash] @ ''u2028''
           else if string_codes ?t = [0xE2, 0x80, 0xA9] then [backslash] @ ''u2029'' else ?t) @ json_escape (drop (?n - 1) cs)"
        unfolding Cons json_escape.simps(2) Let_def using many by (simp del: string_codes_simps add: Cons)
      have t: "?t = map char_of ns" if "string_codes ?t = ns" for ns
        using arg_cong [OF that, of "map char_of"] by (simp only: string_codes_simps(7))
      show ?thesis
      proof (cases "string_codes ?t = [0xE2, 0x80, 0xA8] \<or> string_codes ?t = [0xE2, 0x80, 0xA9]")
        case True
        then show ?thesis
          using string_rest_line_separators [of "json_escape (drop (?n - 1) cs) @ dquote # r"] esc IH parts t
          by (auto simp del: string_codes_simps string_rest.simps)
      next
        case False
        then show ?thesis
          using string_rest_raw [OF refl many] IH parts esc by (simp del: string_codes_simps)
      qed
    qed
  qed simp
qed

text \<open>Numbers and times.\<close>

lemma digit_char_code: "char_code (digit_char n) = 48 + n mod 10"
  by (simp add: digit_char_def char_code_def)

lemma is_digit_char [simp]: "is_digit (digit_char n)"
  by (simp add: is_digit_def char_between_def digit_char_code)

lemma nat_str_digits: "list_all is_digit (nat_str n) \<and> nat_str n \<noteq> [] \<and> (n \<noteq> 0 \<longrightarrow> hd (nat_str n) \<noteq> CHR ''0'')"
proof (induction n rule: nat_str.induct)
  case (1 n)
  have "digit_char n \<noteq> CHR ''0''" if "n < 10" "n \<noteq> 0"
    using that digit_char_code [of n] by (auto simp: char_code_def)
  then show ?case
    using 1 by (auto simp: nat_str.simps [of n] hd_append)
qed

lemma fixed_str_digits: "list_all is_digit (fixed_str k n)"
  by (induction k n rule: fixed_str.induct) simp_all

lemma digits_of_digits:
  assumes "list_all is_digit ds" "ds \<noteq> []" "r = [] \<or> \<not> is_digit (hd r)"
  shows "digits_of (ds @ r) = Some (ds, r)"
proof -
  have "takeWhile is_digit (ds @ r) = ds" "dropWhile is_digit (ds @ r) = r"
    using assms(1,3) by (induction ds) (auto simp: takeWhile_eq_Nil_iff dropWhile_eq_self_iff)
  then show ?thesis
    using assms by (simp add: digits_of_def)
qed

text \<open>What may follow a number: no digit, no fraction, no exponent.\<close>

definition number_end :: "string \<Rightarrow> bool" where
  "number_end r \<longleftrightarrow> (case r of [] \<Rightarrow> True | c # _ \<Rightarrow> \<not> is_digit c \<and> c \<notin> {CHR ''.'', CHR ''e'', CHR ''E''})"

lemma nat_str_0: "nat_str 0 = ''0''"
  by (simp add: nat_str.simps [of 0] digit_char_def, code_simp)

lemma int_part_nat:
  assumes "number_end r"
  shows "int_part (nat_str n @ r) = Some (nat_str n, r)"
proof (cases "n = 0")
  case True
  then show ?thesis by (simp add: nat_str_0 int_part_def)
next
  case False
  then obtain c cs where c: "nat_str n = c # cs" "c \<noteq> CHR ''0''"
    using nat_str_digits [of n] by (cases "nat_str n") auto
  then show ?thesis
    using digits_of_digits [of "nat_str n" r] nat_str_digits [of n] assms
    by (auto simp: int_part_def number_end_def split: list.splits)
qed

lemma parse_number_int:
  assumes "number_end r"
  shows "parse_number (int_str i @ r) = Some (VNum (int_str i), r)"
proof -
  have "frac_part r = Some ([], r)" "exp_part r = Some ([], r)"
    using assms by (auto simp: frac_part_def exp_part_def number_end_def split: list.splits)
  moreover have "(case nat_str n @ r of c # cs \<Rightarrow> if c = CHR ''-'' then ([c], cs) else ([], nat_str n @ r)
      | [] \<Rightarrow> ([], nat_str n @ r)) = ([], nat_str n @ r)" for n
    using nat_str_digits [of n] by (cases "nat_str n") (auto simp: is_digit_def char_between_def char_code_def)
  ultimately show ?thesis
    using int_part_nat [OF assms] by (simp add: parse_number_def int_str_def)
qed

lemma parse_literal_int:
  assumes "number_end r"
  shows "parse_literal (int_str i @ r) = Some (VNum (int_str i), r)"
proof -
  have "hd (int_str i @ r) \<in> insert (CHR ''-'') {c. is_digit c}"
    using nat_str_digits [of "nat i"] by (cases "nat_str (nat i)") (auto simp: int_str_def)
  then have "take 4 (int_str i @ r) \<noteq> ''true''" "take 5 (int_str i @ r) \<noteq> ''false''" "take 4 (int_str i @ r) \<noteq> ''null''"
    by (cases "int_str i @ r"; auto simp: is_digit_def char_between_def char_code_def)+
  then show ?thesis
    using parse_number_int [OF assms] by (simp add: parse_literal_def)
qed

definition plain_char :: "char \<Rightarrow> bool" where
  "plain_char c \<longleftrightarrow> char_between 32 127 c \<and> c \<noteq> dquote \<and> c \<noteq> backslash"

lemma string_rest_plain: "list_all plain_char s \<Longrightarrow> string_rest (s @ dquote # r) = Some (s, r)"
proof (induction s)
  case (Cons c cs)
  have "char_code c < 0x80" "\<not> char_code c < 32" using Cons.prems by (auto simp: plain_char_def char_between_def)
  then have "rune_size (char_code c # ns) = Suc 0" for ns using rune_size_one [of "char_code c" ns] by simp
  then show ?case using Cons by (auto simp: plain_char_def char_between_def)
qed simp

lemma digit_plain: "is_digit c \<Longrightarrow> plain_char c"
  by (auto simp: is_digit_def plain_char_def char_between_def char_code_def)

lemma time_plain: "list_all plain_char (Format_RFC3339Nano t)"
proof -
  have "list_all plain_char (fixed_str k n)" for k n
    using fixed_str_digits [of k n] digit_plain by (auto simp: list_all_iff)
  moreover have "list_all plain_char (rev (dropWhile P (rev (fixed_str k n))))" for P k n
    using fixed_str_digits [of k n] digit_plain by (auto simp: list_all_iff dest!: set_dropWhileD)
  moreover have "list_all plain_char ''-T:.Z''"
    by (simp add: plain_char_def char_between_def char_code_def)
  ultimately show ?thesis
    by (simp add: Format_RFC3339Nano_def rfc3339_seconds_def rfc3339_frac_def Let_def split: prod.splits)
qed

text \<open>Values.\<close>

fun jval_of :: "json \<Rightarrow> jval"
  and items_of :: "json list \<Rightarrow> jval list"
  and members_of :: "(string \<times> json) list \<Rightarrow> (string \<times> jval) list" where
  "jval_of (JStr s) = VStr s"
| "jval_of (JInt i) = VNum (int_str i)"
| "jval_of (JBool b) = VBool b"
| "jval_of (JTime t) = VStr (Format_RFC3339Nano t)"
| "jval_of JNull = VNull"
| "jval_of (JArr js) = VArr (items_of js)"
| "jval_of (JObj fs) = VObj (members_of fs)"
| "items_of [] = []"
| "items_of (j # js) = jval_of j # items_of js"
| "members_of [] = []"
| "members_of ((n, j) # fs) = (n, jval_of j) # members_of fs"

fun json_utf8 :: "json \<Rightarrow> bool"
  and items_utf8 :: "json list \<Rightarrow> bool"
  and members_utf8 :: "(string \<times> json) list \<Rightarrow> bool" where
  "json_utf8 (JStr s) = utf8_Valid s"
| "json_utf8 (JArr js) = items_utf8 js"
| "json_utf8 (JObj fs) = members_utf8 fs"
| "json_utf8 _ = True"
| "items_utf8 [] = True"
| "items_utf8 (j # js) = (json_utf8 j \<and> items_utf8 js)"
| "members_utf8 [] = True"
| "members_utf8 ((n, j) # fs) = (utf8_Valid n \<and> json_utf8 j \<and> members_utf8 fs)"

lemma skip_ws_Cons: "\<not> json_space c \<Longrightarrow> skip_ws (c # cs) = c # cs"
  by (simp add: skip_ws_def)

lemma no_spaces [simp]:
  "\<not> json_space (CHR ''{'')" "\<not> json_space (CHR ''}'')" "\<not> json_space (CHR ''['')" "\<not> json_space (CHR '']'')"
  "\<not> json_space (CHR '','')" "\<not> json_space (CHR '':'')" "\<not> json_space dquote" "\<not> json_space (CHR ''t'')"
  "\<not> json_space (CHR ''f'')" "\<not> json_space (CHR ''n'')"
  by (simp_all add: json_space_def)

lemma number_ends [simp]: "number_end (CHR '','' # r)" "number_end (CHR ''}'' # r)" "number_end (CHR '']'' # r)" "number_end []"
  by (simp_all add: number_end_def is_digit_def char_between_def char_code_def)

lemma int_head: "int_str i \<noteq> [] \<and> (hd (int_str i) = CHR ''-'' \<or> is_digit (hd (int_str i)))"
  using nat_str_digits [of "nat i"] by (cases "nat_str (nat i)") (auto simp: int_str_def)

lemma parse_int:
  assumes "number_end r"
  shows "parse_value (Suc n) (int_str i @ r) = Some (VNum (int_str i), r)"
proof -
  obtain c cs where c: "int_str i @ r = c # cs" "c = CHR ''-'' \<or> is_digit c"
    using int_head [of i] by (cases "int_str i") auto
  then have "\<not> json_space c" "c \<noteq> CHR ''{''" "c \<noteq> CHR ''[''" "c \<noteq> dquote"
    by (auto simp: is_digit_def char_between_def char_code_def json_space_def)
  then show ?thesis
    using parse_literal_int [OF assms, of i] c by (simp add: skip_ws_Cons)
qed

lemma render_head: "json_render j @ r \<noteq> [] \<and> hd (json_render j @ r) \<notin> {CHR ''}'', CHR '']''} \<and> \<not> json_space (hd (json_render j @ r))"
proof (cases j)
  case (JInt i)
  then show ?thesis
    using nat_str_digits [of "nat i"]
    by (cases "nat_str (nat i)") (auto simp: int_str_def is_digit_def char_between_def char_code_def json_space_def)
qed (simp_all add: json_string_def)

lemma length_render_pos: "0 < length (json_render j)"
  using render_head [of j "[]"] by simp

lemma parse_render:
  "json_utf8 j \<Longrightarrow> 2 * length (json_render j) \<le> n \<Longrightarrow> number_end r \<Longrightarrow>
     parse_value n (json_render j @ r) = Some (jval_of j, r)"
  "items_utf8 js \<Longrightarrow> js \<noteq> [] \<Longrightarrow> 2 * length (json_items js) < n \<Longrightarrow>
     parse_items n (json_items js @ CHR '']'' # r) = Some (items_of js, r)"
  "members_utf8 fs \<Longrightarrow> fs \<noteq> [] \<Longrightarrow> 2 * length (json_fields fs) < n \<Longrightarrow>
     parse_members n (json_fields fs @ CHR ''}'' # r) = Some (members_of fs, r)"
proof (induction j and js and fs arbitrary: n r and n r and n r rule: json_render_json_items_json_fields.induct)
  case (1 s)
  then obtain m where "n = Suc m" by (cases n) (auto simp: json_string_def)
  then show ?case using 1 by (simp add: json_string_def skip_ws_Cons string_rest_escape)
next
  case (2 i)
  then obtain m where "n = Suc m" using length_render_pos [of "JInt i"] by (cases n) auto
  then show ?case using 2 parse_int [of r m i] by (simp del: parse_value.simps)
next
  case (3 b)
  then obtain m where "n = Suc m" by (cases n; cases b) auto
  then show ?case by (simp add: skip_ws_Cons parse_literal_def)
next
  case (4 t)
  then obtain m where "n = Suc m" by (cases n) auto
  then show ?case using time_plain [of t] by (simp add: skip_ws_Cons string_rest_plain)
next
  case 5
  then obtain m where "n = Suc m" by (cases n) auto
  then show ?case by (simp add: skip_ws_Cons parse_literal_def)
next
  case (6 js)
  then obtain m where m: "n = Suc m" by (cases n) auto
  show ?case
  proof (cases js)
    case Nil
    then show ?thesis using m by (simp add: skip_ws_Cons)
  next
    case (Cons k ks)
    have "json_items js @ CHR '']'' # r \<noteq> [] \<and> \<not> json_space (hd (json_items js @ CHR '']'' # r)) \<and> hd (json_items js @ CHR '']'' # r) \<noteq> CHR '']''"
      using render_head [of k] Cons by (cases ks) auto
    then obtain d ds where d: "json_items js @ CHR '']'' # r = d # ds" "\<not> json_space d" "d \<noteq> CHR '']''"
      by (cases "json_items js @ CHR '']'' # r") auto
    have "parse_items m (json_items js @ CHR '']'' # r) = Some (items_of js, r)"
      using 6 m Cons by simp
    then show ?thesis using m d by (simp add: skip_ws_Cons)
  qed
next
  case (7 fs)
  then obtain m where m: "n = Suc m" by (cases n) auto
  show ?case
  proof (cases fs)
    case Nil
    then show ?thesis using m by (simp add: skip_ws_Cons)
  next
    case (Cons k ks)
    obtain d ds where "json_fields fs @ CHR ''}'' # r = dquote # ds"
      using Cons by (cases k; cases ks) (auto simp: json_string_def)
    moreover have "parse_members m (json_fields fs @ CHR ''}'' # r) = Some (members_of fs, r)"
      using 7 m Cons by simp
    ultimately show ?thesis using m by (simp add: skip_ws_Cons)
  qed
next
  case 8 then show ?case by simp
next
  case (9 j)
  then obtain m where "n = Suc m" by (cases n) auto
  then show ?case using 9 by (simp add: skip_ws_Cons)
next
  case (10 j k js)
  then obtain m where "n = Suc m" by (cases n) auto
  then show ?case using 10 by (simp add: skip_ws_Cons)
next
  case 11 then show ?case by simp
next
  case (12 s j)
  then obtain m where "n = Suc m" by (cases n) auto
  then show ?case using 12 by (simp add: skip_ws_Cons json_string_def string_rest_escape)
next
  case (13 s j f fs)
  then obtain m where "n = Suc m" by (cases n) auto
  then show ?case using 13 by (cases f) (simp add: skip_ws_Cons json_string_def string_rest_escape)
qed

theorem json_round_trip: "json_utf8 j \<Longrightarrow> json_text (json_render j) = Some (jval_of j)"
  using parse_render(1) [of j "2 * length (json_render j) + 2" "[]"] by (simp add: json_text_def skip_ws_def)

subsection \<open>The text is valid UTF-8\<close>

lemma utf8_Valid_Nil [simp]: "utf8_Valid []"
  by (simp add: utf8_Valid_def)

lemma utf8_Valid_rune:
  assumes "rune_size (string_codes s) = n" "n > 0"
  shows "utf8_Valid s = utf8_Valid (drop n s)"
  using assms by (cases s; cases n) (auto simp: utf8_Valid_def rune_size.simps)

lemma utf8_Valid_append: "utf8_Valid s \<Longrightarrow> utf8_Valid t \<Longrightarrow> utf8_Valid (s @ t)"
proof (induction s rule: measure_induct_rule [where f = length])
  case (less s)
  show ?case
  proof (cases s)
    case (Cons c cs)
    let ?n = "rune_size (string_codes s)"
    have n: "?n > 0" using less.prems(1) Cons by (auto simp: utf8_Valid_def split: if_splits)
    have le: "?n \<le> length s" using rune_size_le [of "string_codes s"] by simp
    have "utf8_Valid (drop ?n s @ t)"
      using less utf8_Valid_rune [OF refl n] n Cons by simp
    moreover have "rune_size (take ?n (string_codes s) @ drop ?n (string_codes s) @ string_codes t) = ?n"
      by (rule rune_size_own [OF refl n])
    then have "rune_size (string_codes (s @ t)) = ?n"
      by (simp only: string_codes_simps(3) append_assoc [symmetric] append_take_drop_id)
    ultimately show ?thesis
      using utf8_Valid_rune [of "s @ t" ?n] n le by simp
  qed (use less in simp)
qed

lemma utf8_Valid_ascii: "list_all (\<lambda>c. char_code c < 0x80) s \<Longrightarrow> utf8_Valid s"
proof (induction s)
  case (Cons c cs)
  then show ?case using rune_size_one [of "char_code c"] by (simp add: utf8_Valid_def)
qed (simp add: utf8_Valid_def)

lemma utf8_Valid_Cons: "char_code c < 0x80 \<Longrightarrow> utf8_Valid s \<Longrightarrow> utf8_Valid (c # s)"
  using utf8_Valid_append [of "[c]" s] utf8_Valid_ascii [of "[c]"] by simp

lemma nibble_ascii: "char_code (nibble w) < 0x80"
  using nibble_hex [of w] by (auto simp: hex_char_def is_digit_def char_between_def)

lemma json_escape_valid: "utf8_Valid (json_escape s)"
proof (induction s rule: json_escape.induct)
  case (2 c cs)
  let ?n = "rune_size (string_codes (c # cs))" and ?t = "take (rune_size (string_codes (c # cs))) (c # cs)"
  have ascii: "utf8_Valid (json_ascii c)" if "char_code c < 0x80"
    using that nibble_ascii by (intro utf8_Valid_ascii) (auto simp: json_ascii_def Let_def char_code_def)
  have rune: "utf8_Valid ?t" if "?n > 0"
  proof -
    have "rune_size (string_codes ?t) = ?n"
      using rune_size_own [OF refl that, of "[]"] by (simp del: string_codes_simps(2))
    then show ?thesis
      using utf8_Valid_rune [of ?t ?n] that by (simp add: utf8_Valid_def)
  qed
  have fixed: "utf8_Valid [backslash]" "utf8_Valid ''ufffd''" "utf8_Valid ''u2028''" "utf8_Valid ''u2029''"
    by (rule utf8_Valid_ascii, simp add: char_code_def)+
  consider "?n = 0" | "?n = 1" "char_code c < 0x80" | "?n > 1"
    using rune_size_one [of "char_code c" "string_codes cs"] by (cases "?n = 0"; cases "?n = 1") auto
  then show ?case
  proof cases
    case 1 then show ?thesis using 2 fixed by (auto intro!: utf8_Valid_append simp: Let_def simp del: append_Cons)
  next
    case x: 2 then show ?thesis using 2 ascii by (auto intro!: utf8_Valid_append simp: Let_def)
  next
    case 3 then show ?thesis using 2 fixed rune
      unfolding json_escape.simps(2) Let_def by (auto intro!: utf8_Valid_append simp del: append_Cons string_codes_simps)
  qed
qed (simp add: utf8_Valid_def)

lemma int_str_ascii: "list_all (\<lambda>c. char_code c < 0x80) (int_str i)"
proof -
  have "list_all (\<lambda>c. char_code c < 0x80) (nat_str n)" for n
    using nat_str_digits [of n] by (auto simp: list_all_iff is_digit_def char_between_def)
  then show ?thesis by (simp add: int_str_def char_code_def)
qed

lemma json_string_valid: "utf8_Valid (json_string s)"
  unfolding json_string_def
  by (intro utf8_Valid_append json_escape_valid utf8_Valid_ascii) (simp_all add: char_code_def)

lemma utf8_Valid_punct:
  "utf8_Valid s \<Longrightarrow> utf8_Valid (CHR ''{'' # s)" "utf8_Valid s \<Longrightarrow> utf8_Valid (CHR ''}'' # s)"
  "utf8_Valid s \<Longrightarrow> utf8_Valid (CHR ''['' # s)" "utf8_Valid s \<Longrightarrow> utf8_Valid (CHR '']'' # s)"
  "utf8_Valid s \<Longrightarrow> utf8_Valid (CHR '','' # s)" "utf8_Valid s \<Longrightarrow> utf8_Valid (CHR '':'' # s)"
  "utf8_Valid s \<Longrightarrow> utf8_Valid (dquote # s)"
  by (rule utf8_Valid_Cons; simp add: char_code_def)+

lemma utf8_Valid_words: "utf8_Valid ''true''" "utf8_Valid ''false''" "utf8_Valid ''null''"
  by (rule utf8_Valid_ascii, simp add: char_code_def)+

lemma json_render_valid: "utf8_Valid (json_render j)" "utf8_Valid (json_items js)" "utf8_Valid (json_fields fs)"
proof (induction j and js and fs rule: json_render_json_items_json_fields.induct)
  case (4 t)
  have "list_all (\<lambda>c. char_code c < 0x80) (Format_RFC3339Nano t)"
    by (rule list.pred_mono_strong [OF time_plain]) (simp add: plain_char_def char_between_def)
  then have "utf8_Valid (Format_RFC3339Nano t)" by (rule utf8_Valid_ascii)
  then show ?case by (simp add: utf8_Valid_punct utf8_Valid_append)
qed (simp_all add: json_string_valid utf8_Valid_append utf8_Valid_punct utf8_Valid_words utf8_Valid_ascii [OF int_str_ascii])

subsection \<open>The field of a key\<close>

text \<open>
  \<open>Decode\<close> looks for a field of exactly the name, then for one whose name is equal after folding. Of the
  runes that are no ASCII letters only the long s and the Kelvin sign fold to one; every other rune
  folds to a rune outside ASCII, so that its text is kept here.
\<close>

definition upper_ascii :: "char \<Rightarrow> char" where
  "upper_ascii c = (if is_lower c then char_of (char_code c - 32) else c)"

fun fold_name :: "string \<Rightarrow> string" where
  "fold_name [] = []"
| "fold_name (c # cs) =
     (if char_code c < 0x80 then upper_ascii c # fold_name cs
      else if string_codes (take 2 (c # cs)) = [0xC5, 0xBF] then CHR ''S'' # fold_name (drop 1 cs)
      else if string_codes (take 3 (c # cs)) = [0xE2, 0x84, 0xAA] then CHR ''K'' # fold_name (drop 2 cs)
      else c # fold_name cs)"

definition find_field :: "string list \<Rightarrow> string \<Rightarrow> string option" where
  "find_field names k =
     (if k \<in> set names then Some k else find (\<lambda>n. fold_name n = fold_name k) names)"

lemma find_field_exact [simp]: "k \<in> set names \<Longrightarrow> find_field names k = Some k"
  by (simp add: find_field_def)

text \<open>
  A slice that is decoded twice: the elements of the first are the starting points of the second. The
  buffer keeps those beyond the new length.
\<close>

fun decode_elems :: "('a \<Rightarrow> jval \<Rightarrow> 'a option) \<Rightarrow> 'a \<Rightarrow> 'a list \<Rightarrow> jval list \<Rightarrow> 'a list option" where
  "decode_elems f z buf [] = Some buf"
| "decode_elems f z [] (v # vs) = do { x \<leftarrow> f z v; xs \<leftarrow> decode_elems f z [] vs; Some (x # xs) }"
| "decode_elems f z (b # bs) (v # vs) = do { x \<leftarrow> f b v; xs \<leftarrow> decode_elems f z bs vs; Some (x # xs) }"

type_synonym 'a slice = "('a list \<times> nat) option"

definition decode_slice :: "('a \<Rightarrow> jval \<Rightarrow> 'a option) \<Rightarrow> 'a \<Rightarrow> 'a slice \<Rightarrow> jval \<Rightarrow> 'a slice option" where
  "decode_slice f z old v =
     (case v of
        VNull \<Rightarrow> Some None
      | VArr [] \<Rightarrow> Some (Some ([], 0))
      | VArr vs \<Rightarrow> map_option (\<lambda>b. Some (b, length vs)) (decode_elems f z (case old of None \<Rightarrow> [] | Some (b, _) \<Rightarrow> b) vs)
      | _ \<Rightarrow> None)"

definition slice_items :: "'a list \<times> nat \<Rightarrow> 'a list" where
  "slice_items = (\<lambda>(b, n). take n b)"

definition decode_string :: "string \<Rightarrow> jval \<Rightarrow> string option" where
  "decode_string old v = (case v of VStr s \<Rightarrow> Some s | VNull \<Rightarrow> Some old | _ \<Rightarrow> None)"

text \<open>Through a pointer, \<open>null\<close> is \<open>nil\<close>.\<close>

definition decode_string_ptr :: "jval \<Rightarrow> string option option" where
  "decode_string_ptr v = (case v of VStr s \<Rightarrow> Some (Some s) | VNull \<Rightarrow> Some None | _ \<Rightarrow> None)"

definition decode_bool_ptr :: "jval \<Rightarrow> bool option option" where
  "decode_bool_ptr v = (case v of VBool b \<Rightarrow> Some (Some b) | VNull \<Rightarrow> Some None | _ \<Rightarrow> None)"

text \<open>The members of an object, one after the other; with unknown fields disallowed.\<close>

fun decode_members :: "string list \<Rightarrow> ('a \<Rightarrow> string \<Rightarrow> jval \<Rightarrow> 'a option) \<Rightarrow> 'a \<Rightarrow> (string \<times> jval) list \<Rightarrow> 'a option" where
  "decode_members names put x [] = Some x"
| "decode_members names put x ((k, v) # ms) =
     (case find_field names k of
        None \<Rightarrow> None
      | Some n \<Rightarrow> (case put x n v of None \<Rightarrow> None | Some x \<Rightarrow> decode_members names put x ms))"

end
