(* ===== verification/Completion.thy ===== *)
theory Completion
  imports Go_JSON
begin

text \<open>
  \<open>internal/completion\<close>: the completion envelope that the agent reports, its strict parser and the
  decision that it carries. A report decides about a shutdown, so that what is accepted matters: the
  bounds of an accepted envelope, the exact policy of the decision, and that a valid envelope is read
  back as it was written. The last section shows a document that the duplicate check lets pass.
\<close>

subsection \<open>Envelopes\<close>

abbreviation MaxResponseBytes :: nat where "MaxResponseBytes \<equiv> 1048576"
abbreviation MaxSummaryRunes :: nat where "MaxSummaryRunes \<equiv> 4096"
abbreviation MaxChecks :: nat where "MaxChecks \<equiv> 64"
abbreviation MaxCheckName :: nat where "MaxCheckName \<equiv> 256"
abbreviation MaxEvidence :: nat where "MaxEvidence \<equiv> 4096"
abbreviation MaxRemainingWork :: nat where "MaxRemainingWork \<equiv> 64"
abbreviation MaxRemainingItem :: nat where "MaxRemainingItem \<equiv> 1024"

datatype Status = StatusDone | StatusPartial | StatusBlocked | StatusFailed | StatusOther string

fun status_of :: "string \<Rightarrow> Status" where
  "status_of s =
     (if s = ''done'' then StatusDone else if s = ''partial'' then StatusPartial
      else if s = ''blocked'' then StatusBlocked else if s = ''failed'' then StatusFailed else StatusOther s)"

fun status_text :: "Status \<Rightarrow> string" where
  "status_text StatusDone = ''done''"
| "status_text StatusPartial = ''partial''"
| "status_text StatusBlocked = ''blocked''"
| "status_text StatusFailed = ''failed''"
| "status_text (StatusOther s) = s"

datatype CheckStatus = CheckPassed | CheckFailed | CheckNotRun | CheckOther string

fun check_status_of :: "string \<Rightarrow> CheckStatus" where
  "check_status_of s =
     (if s = ''passed'' then CheckPassed else if s = ''failed'' then CheckFailed
      else if s = ''not_run'' then CheckNotRun else CheckOther s)"

fun check_status_text :: "CheckStatus \<Rightarrow> string" where
  "check_status_text CheckPassed = ''passed''"
| "check_status_text CheckFailed = ''failed''"
| "check_status_text CheckNotRun = ''not_run''"
| "check_status_text (CheckOther s) = s"

record Check =
  ck_Name :: string
  ck_Status :: CheckStatus
  ck_Evidence :: string

record Envelope =
  en_SchemaVersion :: string
  en_Status :: Status
  en_Summary :: string
  en_Checks :: "Check list"
  en_RemainingWork :: "string list"
  en_ApprovalRequired :: bool

text \<open>\<open>Validate\<close>: the checks and the remaining items, in the order of the loops.\<close>

definition check_error :: "Check \<Rightarrow> err option" where
  "check_error c =
     (if RuneCountInString (ck_Name c) < 1 \<or> RuneCountInString (ck_Name c) > MaxCheckName then
        Some (Err ''check %d name must contain between 1 and %d characters'')
      else if (case ck_Status c of CheckOther _ \<Rightarrow> True | _ \<Rightarrow> False) then Some (Err ''check %d has invalid status %q'')
      else if RuneCountInString (ck_Evidence c) > MaxEvidence then Some (Err ''check %d evidence exceeds %d characters'')
      else None)"

definition item_error :: "string \<Rightarrow> err option" where
  "item_error s =
     (if RuneCountInString s < 1 \<or> RuneCountInString s > MaxRemainingItem then
        Some (Err ''remaining_work item %d must contain between 1 and %d characters'')
      else None)"

fun first_error :: "('a \<Rightarrow> err option) \<Rightarrow> 'a list \<Rightarrow> err option" where
  "first_error f [] = None"
| "first_error f (x # xs) = (case f x of Some e \<Rightarrow> Some e | None \<Rightarrow> first_error f xs)"

definition envelope_Validate :: "Envelope \<Rightarrow> err option" where
  "envelope_Validate e =
     (if en_SchemaVersion e \<noteq> ''1'' then Some (Err ''unsupported schema_version %q'')
      else if (case en_Status e of StatusOther _ \<Rightarrow> True | _ \<Rightarrow> False) then Some (Err ''invalid completion status %q'')
      else if RuneCountInString (en_Summary e) < 1 \<or> RuneCountInString (en_Summary e) > MaxSummaryRunes then
        Some (Err ''summary must contain between 1 and %d characters'')
      else if length (en_Checks e) > MaxChecks then Some (Err ''checks exceeds %d items'')
      else (case first_error check_error (en_Checks e) of
              Some x \<Rightarrow> Some x
            | None \<Rightarrow>
                if length (en_RemainingWork e) > MaxRemainingWork then Some (Err ''remaining_work exceeds %d items'')
                else first_error item_error (en_RemainingWork e)))"

subsection \<open>Parsing\<close>

record wireCheck =
  wc_Name :: "string option"
  wc_Status :: "CheckStatus option"
  wc_Evidence :: "string option"

record wireEnvelope =
  we_SchemaVersion :: "string option"
  we_Status :: "Status option"
  we_Summary :: "string option"
  we_Checks :: "wireCheck slice"
  we_RemainingWork :: "string slice"
  we_ApprovalRequired :: "bool option"

definition no_check :: wireCheck where
  "no_check = \<lparr>wc_Name = None, wc_Status = None, wc_Evidence = None\<rparr>"

definition no_envelope :: wireEnvelope where
  "no_envelope = \<lparr>we_SchemaVersion = None, we_Status = None, we_Summary = None, we_Checks = None,
     we_RemainingWork = None, we_ApprovalRequired = None\<rparr>"

definition check_fields :: "string list" where
  "check_fields = [''name'', ''status'', ''evidence'']"

definition put_check :: "wireCheck \<Rightarrow> string \<Rightarrow> jval \<Rightarrow> wireCheck option" where
  "put_check w n v =
     (if n = ''name'' then map_option (\<lambda>s. w\<lparr>wc_Name := s\<rparr>) (decode_string_ptr v)
      else if n = ''status'' then map_option (\<lambda>s. w\<lparr>wc_Status := map_option check_status_of s\<rparr>) (decode_string_ptr v)
      else map_option (\<lambda>s. w\<lparr>wc_Evidence := s\<rparr>) (decode_string_ptr v))"

definition decode_check :: "wireCheck \<Rightarrow> jval \<Rightarrow> wireCheck option" where
  "decode_check w v =
     (case v of VNull \<Rightarrow> Some w | VObj ms \<Rightarrow> decode_members check_fields put_check w ms | _ \<Rightarrow> None)"

definition envelope_fields :: "string list" where
  "envelope_fields = [''schema_version'', ''status'', ''summary'', ''checks'', ''remaining_work'', ''approval_required'']"

definition put_envelope :: "wireEnvelope \<Rightarrow> string \<Rightarrow> jval \<Rightarrow> wireEnvelope option" where
  "put_envelope w n v =
     (if n = ''schema_version'' then map_option (\<lambda>s. w\<lparr>we_SchemaVersion := s\<rparr>) (decode_string_ptr v)
      else if n = ''status'' then map_option (\<lambda>s. w\<lparr>we_Status := map_option status_of s\<rparr>) (decode_string_ptr v)
      else if n = ''summary'' then map_option (\<lambda>s. w\<lparr>we_Summary := s\<rparr>) (decode_string_ptr v)
      else if n = ''checks'' then
        map_option (\<lambda>s. w\<lparr>we_Checks := s\<rparr>) (decode_slice decode_check no_check (we_Checks w) v)
      else if n = ''remaining_work'' then
        map_option (\<lambda>s. w\<lparr>we_RemainingWork := s\<rparr>) (decode_slice decode_string [] (we_RemainingWork w) v)
      else map_option (\<lambda>b. w\<lparr>we_ApprovalRequired := b\<rparr>) (decode_bool_ptr v))"

definition decode_envelope :: "jval \<Rightarrow> wireEnvelope option" where
  "decode_envelope v =
     (case v of VNull \<Rightarrow> Some no_envelope | VObj ms \<Rightarrow> decode_members envelope_fields put_envelope no_envelope ms | _ \<Rightarrow> None)"

text \<open>
  \<open>rejectDuplicateKeys\<close> walks over the tokens of the first value. On a text that \<open>Decode\<close> accepts it fails
  exactly when an object repeats a key.
\<close>

fun no_duplicates :: "jval \<Rightarrow> bool" where
  "no_duplicates (VObj ms) = (distinct (map fst ms) \<and> list_all no_duplicates (map snd ms))"
| "no_duplicates (VArr vs) = list_all no_duplicates vs"
| "no_duplicates _ = True"

definition check_of :: "wireCheck \<Rightarrow> Check option" where
  "check_of w =
     (case (wc_Name w, wc_Status w, wc_Evidence w) of
        (Some n, Some s, Some x) \<Rightarrow> Some \<lparr>ck_Name = n, ck_Status = s, ck_Evidence = x\<rparr>
      | _ \<Rightarrow> None)"

fun checks_of :: "wireCheck list \<Rightarrow> Check list option" where
  "checks_of [] = Some []"
| "checks_of (w # ws) = do { c \<leftarrow> check_of w; cs \<leftarrow> checks_of ws; Some (c # cs) }"

definition envelope_of :: "wireEnvelope \<Rightarrow> err + Envelope" where
  "envelope_of w =
     (case (we_SchemaVersion w, we_Status w, we_Summary w, we_Checks w, we_RemainingWork w, we_ApprovalRequired w) of
        (Some v, Some st, Some su, Some cs, Some rs, Some a) \<Rightarrow>
          (case checks_of (slice_items cs) of
             None \<Rightarrow> Inl (Err ''check %d is missing a required field'')
           | Some cs \<Rightarrow>
               (let e = \<lparr>en_SchemaVersion = v, en_Status = st, en_Summary = su, en_Checks = cs,
                         en_RemainingWork = slice_items rs, en_ApprovalRequired = a\<rparr>
                in case envelope_Validate e of Some x \<Rightarrow> Inl x | None \<Rightarrow> Inr e))
      | _ \<Rightarrow> Inl (Err ''completion envelope is missing a required field''))"

definition Parse :: "string \<Rightarrow> err + Envelope" where
  "Parse s =
     (if s = [] then Inl (Err ''completion envelope is empty'')
      else if length s > MaxResponseBytes then Inl (Err ''completion envelope exceeds %d bytes'')
      else if \<not> utf8_Valid s then Inl (Err ''completion envelope is not valid UTF-8'')
      else
        (case json_text s of
           None \<Rightarrow> Inl (Err ''decode completion envelope: %w'')
         | Some v \<Rightarrow>
             if \<not> no_duplicates v then Inl (Err ''inspect completion envelope keys: %w'')
             else (case decode_envelope v of
                     None \<Rightarrow> Inl (Err ''decode completion envelope: %w'')
                   | Some w \<Rightarrow> envelope_of w)))"

subsection \<open>The decision\<close>

record Decision =
  dc_Done :: bool
  dc_Reason :: string

fun first_unpassed :: "Check list \<Rightarrow> Check option" where
  "first_unpassed [] = None"
| "first_unpassed (c # cs) = (if ck_Status c \<noteq> CheckPassed then Some c else first_unpassed cs)"

definition Evaluate :: "Envelope \<Rightarrow> Decision" where
  "Evaluate e =
     (let no = (\<lambda>r. \<lparr>dc_Done = False, dc_Reason = r\<rparr>) in
      if en_SchemaVersion e \<noteq> ''1'' then no ''unsupported completion schema''
      else if en_Status e \<noteq> StatusDone then no (''Codex reported status='' @ status_text (en_Status e))
      else if en_ApprovalRequired e then no ''Codex reported that approval is required''
      else if en_RemainingWork e \<noteq> [] then no ''Codex reported remaining work''
      else (case first_unpassed (en_Checks e) of
              Some c \<Rightarrow> no (''check %q reported status='' @ check_status_text (ck_Status c))
            | None \<Rightarrow> \<lparr>dc_Done = True, dc_Reason = ''completion policy passed''\<rparr>))"

subsection \<open>What an accepted envelope satisfies\<close>

definition runes_between :: "nat \<Rightarrow> nat \<Rightarrow> string \<Rightarrow> bool" where
  "runes_between lo hi s \<longleftrightarrow> lo \<le> RuneCountInString s \<and> RuneCountInString s \<le> hi"

definition check_within :: "Check \<Rightarrow> bool" where
  "check_within c \<longleftrightarrow> runes_between 1 MaxCheckName (ck_Name c) \<and> runes_between 0 MaxEvidence (ck_Evidence c) \<and>
     ck_Status c \<in> {CheckPassed, CheckFailed, CheckNotRun}"

definition envelope_within :: "Envelope \<Rightarrow> bool" where
  "envelope_within e \<longleftrightarrow> en_SchemaVersion e = ''1'' \<and>
     en_Status e \<in> {StatusDone, StatusPartial, StatusBlocked, StatusFailed} \<and>
     runes_between 1 MaxSummaryRunes (en_Summary e) \<and>
     length (en_Checks e) \<le> MaxChecks \<and> list_all check_within (en_Checks e) \<and>
     length (en_RemainingWork e) \<le> MaxRemainingWork \<and> list_all (runes_between 1 MaxRemainingItem) (en_RemainingWork e)"

lemma first_error_None: "first_error f xs = None \<longleftrightarrow> list_all (\<lambda>x. f x = None) xs"
  by (induction xs) (auto split: option.split)

lemma runes_outside: "RuneCountInString s < 1 \<or> RuneCountInString s > k \<longleftrightarrow> \<not> runes_between 1 k s"
  unfolding runes_between_def by linarith

lemma check_error_None: "check_error c = None \<longleftrightarrow> check_within c"
  unfolding check_error_def check_within_def runes_outside
  by (cases "ck_Status c") (auto simp: runes_between_def)

lemma item_error_None: "item_error s = None \<longleftrightarrow> runes_between 1 MaxRemainingItem s"
  unfolding item_error_def runes_outside by simp

lemma or_error_None: "(case x of Some y \<Rightarrow> Some y | None \<Rightarrow> k) = None \<longleftrightarrow> x = None \<and> k = None"
  by (cases x) simp_all

lemma envelope_Validate_None: "envelope_Validate e = None \<longleftrightarrow> envelope_within e"
  unfolding envelope_Validate_def envelope_within_def runes_outside
  by (cases "en_Status e") (auto simp: first_error_None check_error_None item_error_None or_error_None)

text \<open>
  C36: Whatever text the agent sends, an accepted envelope has the current schema, a known status, and
  texts and lists within the documented bounds, and its text has at most a megabyte.
\<close>

theorem accepted_within_bounds:
  "case Parse s of Inl _ \<Rightarrow> True | Inr e \<Rightarrow> envelope_within e \<and> length s \<le> MaxResponseBytes \<and> utf8_Valid s"
  by (auto simp: Parse_def envelope_of_def Let_def envelope_Validate_None [symmetric]
      split: sum.splits option.splits if_splits)

lemma first_unpassed_None: "first_unpassed cs = None \<longleftrightarrow> list_all (\<lambda>c. ck_Status c = CheckPassed) cs"
  by (induction cs) auto

text \<open>
  C29: The decision is done exactly for an envelope of the current schema that says done, asks for no
  approval, leaves no work and has only passed checks.
\<close>

theorem done_iff_policy:
  "dc_Done (Evaluate e) \<longleftrightarrow> en_SchemaVersion e = ''1'' \<and> en_Status e = StatusDone \<and> \<not> en_ApprovalRequired e \<and>
     en_RemainingWork e = [] \<and> list_all (\<lambda>c. ck_Status c = CheckPassed) (en_Checks e)"
  by (auto simp: Evaluate_def Let_def first_unpassed_None split: option.splits dest!: first_unpassed_None [THEN iffD2])

subsection \<open>Round trip\<close>

text \<open>The document of an envelope, as \<open>json.Marshal\<close> writes it.\<close>

definition check_json :: "Check \<Rightarrow> json" where
  "check_json c = JObj [(''name'', JStr (ck_Name c)), (''status'', JStr (check_status_text (ck_Status c))),
     (''evidence'', JStr (ck_Evidence c))]"

definition envelope_json :: "Envelope \<Rightarrow> json" where
  "envelope_json e = JObj [(''schema_version'', JStr (en_SchemaVersion e)), (''status'', JStr (status_text (en_Status e))),
     (''summary'', JStr (en_Summary e)), (''checks'', JArr (map check_json (en_Checks e))),
     (''remaining_work'', JArr (map JStr (en_RemainingWork e))), (''approval_required'', JBool (en_ApprovalRequired e))]"

text \<open>A valid envelope of UTF-8 texts that fits into a response.\<close>

definition sendable :: "Envelope \<Rightarrow> bool" where
  "sendable e \<longleftrightarrow> envelope_Validate e = None \<and> utf8_Valid (en_Summary e) \<and>
     list_all (\<lambda>c. utf8_Valid (ck_Name c) \<and> utf8_Valid (ck_Evidence c)) (en_Checks e) \<and>
     list_all utf8_Valid (en_RemainingWork e) \<and> length (json_render (envelope_json e)) \<le> MaxResponseBytes"

lemma utf8_names: "list_all utf8_Valid (envelope_fields @ check_fields @ [''1'', ''done'', ''partial'', ''blocked'', ''failed'', ''passed'', ''not_run''])"
  unfolding envelope_fields_def check_fields_def
  by (simp, intro conjI; rule utf8_Valid_ascii, simp add: char_code_def)

lemma items_utf8_iff: "items_utf8 js = list_all json_utf8 js"
  by (induction js) auto

lemma items_of_map: "items_of js = map jval_of js"
  by (induction js) auto

lemma envelope_json_utf8: "sendable e \<Longrightarrow> json_utf8 (envelope_json e)"
  using utf8_names
  unfolding sendable_def envelope_json_def envelope_Validate_None envelope_within_def check_within_def
  by (auto simp: items_utf8_iff list_all_iff check_json_def envelope_fields_def check_fields_def)

lemma decode_check_json:
  "check_within c \<Longrightarrow> decode_check no_check (jval_of (check_json c)) =
     Some \<lparr>wc_Name = Some (ck_Name c), wc_Status = Some (ck_Status c), wc_Evidence = Some (ck_Evidence c)\<rparr>"
  by (auto simp: decode_check_def check_json_def check_fields_def put_check_def decode_string_ptr_def no_check_def check_within_def)

lemma decode_checks_json:
  "list_all check_within cs \<Longrightarrow> \<exists>ws. decode_elems decode_check no_check [] (map (jval_of \<circ> check_json) cs) = Some ws \<and>
     checks_of ws = Some cs \<and> length ws = length cs"
  by (induction cs) (auto simp: decode_check_json check_of_def)

lemma decode_items_json: "decode_elems decode_string [] [] (map (jval_of \<circ> JStr) ss) = Some ss"
  by (induction ss) (simp_all add: decode_string_def)

lemma decode_slice_new:
  "decode_elems f z [] vs = Some xs \<Longrightarrow> length xs = length vs \<Longrightarrow>
     \<exists>sl. decode_slice f z None (VArr vs) = Some (Some sl) \<and> slice_items sl = xs"
  by (cases vs) (auto simp: decode_slice_def slice_items_def)

lemma check_no_duplicates: "no_duplicates (jval_of (check_json c))"
  by (simp add: check_json_def)

lemma envelope_no_duplicates: "no_duplicates (jval_of (envelope_json e))"
  using check_no_duplicates by (auto simp: envelope_json_def items_of_map list_all_iff)

text \<open>The fields that the decoder finds in the document of an envelope.\<close>

lemma envelope_wire:
  assumes "sendable e"
  obtains sc sr where
    "decode_slice decode_check no_check None (VArr (map (jval_of \<circ> check_json) (en_Checks e))) = Some (Some sc)"
    "decode_slice decode_string [] None (VArr (map (jval_of \<circ> JStr) (en_RemainingWork e))) = Some (Some sr)"
    "status_of (status_text (en_Status e)) = en_Status e"
    "envelope_of \<lparr>we_SchemaVersion = Some (en_SchemaVersion e), we_Status = Some (en_Status e), we_Summary = Some (en_Summary e),
        we_Checks = Some sc, we_RemainingWork = Some sr, we_ApprovalRequired = Some (en_ApprovalRequired e)\<rparr> = Inr e"
proof -
  have valid: "envelope_Validate e = None" "envelope_within e"
    using assms by (simp_all add: sendable_def envelope_Validate_None)
  then obtain ws where ws: "decode_elems decode_check no_check [] (map (jval_of \<circ> check_json) (en_Checks e)) = Some ws"
      "checks_of ws = Some (en_Checks e)" "length ws = length (en_Checks e)"
    using decode_checks_json by (auto simp: envelope_within_def)
  obtain sc where sc: "decode_slice decode_check no_check None (VArr (map (jval_of \<circ> check_json) (en_Checks e))) = Some (Some sc)"
      "slice_items sc = ws"
    using decode_slice_new [OF ws(1)] ws(3) by auto
  obtain sr where sr: "decode_slice decode_string [] None (VArr (map (jval_of \<circ> JStr) (en_RemainingWork e))) = Some (Some sr)"
      "slice_items sr = en_RemainingWork e"
    using decode_slice_new [OF decode_items_json [of "en_RemainingWork e"]] by auto
  have "status_of (status_text (en_Status e)) = en_Status e"
    using valid(2) by (auto simp: envelope_within_def)
  then show thesis
    using that [OF sc(1) sr(1)] sc(2) sr(2) ws(2) valid(1) by (cases e) (simp add: envelope_of_def Let_def)
qed

text \<open>
  C37: An envelope that can be sent is read back as it was written: the parser accepts every valid
  envelope and changes nothing in it.
\<close>

theorem envelope_round_trip:
  assumes "sendable e"
  shows "Parse (json_render (envelope_json e)) = Inr e"
proof -
  obtain sc sr where wire:
    "decode_slice decode_check no_check None (VArr (map (jval_of \<circ> check_json) (en_Checks e))) = Some (Some sc)"
    "decode_slice decode_string [] None (VArr (map (jval_of \<circ> JStr) (en_RemainingWork e))) = Some (Some sr)"
    "status_of (status_text (en_Status e)) = en_Status e"
    "envelope_of \<lparr>we_SchemaVersion = Some (en_SchemaVersion e), we_Status = Some (en_Status e), we_Summary = Some (en_Summary e),
        we_Checks = Some sc, we_RemainingWork = Some sr, we_ApprovalRequired = Some (en_ApprovalRequired e)\<rparr> = Inr e"
    using envelope_wire [OF assms] .
  have "decode_envelope (jval_of (envelope_json e)) =
      Some \<lparr>we_SchemaVersion = Some (en_SchemaVersion e), we_Status = Some (en_Status e), we_Summary = Some (en_Summary e),
        we_Checks = Some sc, we_RemainingWork = Some sr, we_ApprovalRequired = Some (en_ApprovalRequired e)\<rparr>"
    using wire(1-3)
    by (simp add: decode_envelope_def envelope_json_def envelope_fields_def put_envelope_def no_envelope_def items_of_map
        decode_string_ptr_def decode_bool_ptr_def del: status_of.simps)
  then show ?thesis
    using assms wire(4) json_round_trip [OF envelope_json_utf8 [OF assms]] envelope_no_duplicates [of e]
      length_render_pos [of "envelope_json e"]
    by (simp add: Parse_def sendable_def json_render_valid)
qed

definition sample_envelope :: Envelope where
  "sample_envelope = \<lparr>en_SchemaVersion = ''1'', en_Status = StatusDone, en_Summary = ''tests pass'',
     en_Checks = [\<lparr>ck_Name = ''go test'', ck_Status = CheckPassed, ck_Evidence = ''ok <all>''\<rparr>],
     en_RemainingWork = [], en_ApprovalRequired = False\<rparr>"

lemma sample_sendable: "sendable sample_envelope"
proof -
  have runes: "runes_between 1 16 ''tests pass''" "runes_between 1 16 ''go test''" "runes_between 0 16 ''ok <all>''"
    by (simp_all add: runes_between_def RuneCountInString_def char_code_def rune_size.simps)
  have valid: "utf8_Valid ''tests pass''" "utf8_Valid ''go test''" "utf8_Valid ''ok <all>''"
    by (rule utf8_Valid_ascii, simp add: char_code_def)+
  have "length (json_render (envelope_json sample_envelope)) \<le> 1000"
    by (simp add: envelope_json_def check_json_def sample_envelope_def json_string_def Let_def json_ascii_def char_code_def rune_size.simps)
  then show ?thesis
    using runes valid
    by (auto simp: sendable_def envelope_Validate_None envelope_within_def sample_envelope_def check_within_def runes_between_def)
qed

theorem envelope_round_trip_witness: "Parse (json_render (envelope_json sample_envelope)) = Inr sample_envelope"
  by (rule envelope_round_trip) (rule sample_sendable)

subsection \<open>Keys that differ in case\<close>

text \<open>
  The duplicate check compares the names of the keys, the decoder folds them: a report that says
  \<open>"status":"failed"\<close> and then \<open>"STATUS":"done"\<close> has no duplicate key, but fills the same field twice.
\<close>

text \<open>The report \<open>e\<close>, with another status before its own, which is repeated under the name \<open>again\<close>.\<close>

definition status_twice :: "string \<Rightarrow> string \<Rightarrow> Envelope \<Rightarrow> json" where
  "status_twice again first e = JObj [(''status'', JStr first), (''schema_version'', JStr (en_SchemaVersion e)),
     (again, JStr (status_text (en_Status e))), (''summary'', JStr (en_Summary e)), (''checks'', JArr (map check_json (en_Checks e))),
     (''remaining_work'', JArr (map JStr (en_RemainingWork e))), (''approval_required'', JBool (en_ApprovalRequired e))]"

lemma status_twice_utf8:
  assumes "sendable e" "utf8_Valid again" "utf8_Valid first"
  shows "json_utf8 (status_twice again first e)"
  using envelope_json_utf8 [OF assms(1)] assms(2,3) by (simp add: envelope_json_def status_twice_def)

lemma folded_status:
  assumes "fold_name again = ''STATUS''" "again \<notin> set envelope_fields"
  shows "find_field envelope_fields again = Some ''status''"
proof -
  have "fold_name ''schema_version'' \<noteq> ''STATUS''" "fold_name ''status'' = ''STATUS''"
    by (simp_all add: upper_ascii_def is_lower_def char_between_def char_code_def) code_simp+
  then show ?thesis
    using assms by (simp add: find_field_def envelope_fields_def)
qed

text \<open>
  C38: A status is overwritten by a later one under a name in another case. Put any text as the \<open>status\<close> before a
  report, say \<open>failed\<close>, and let the report repeat its own status under a name such as \<open>STATUS\<close>, which folds
  to the same field: as long as the document fits into a response, it is accepted and read exactly as the report, so
  that its decision is the one of the second status. The same document with the exact name repeated is rejected.
\<close>

theorem shadowed_status_accepted:
  assumes "sendable e" "utf8_Valid again" "utf8_Valid first"
    and "fold_name again = ''STATUS''" "again \<noteq> ''status''"
    and "length (json_render (status_twice again first e)) \<le> MaxResponseBytes"
  shows "Parse (json_render (status_twice again first e)) = Inr e \<and> isl (Parse (json_render (status_twice ''status'' first e)))"
proof -
  have others: "again \<notin> set envelope_fields"
  proof
    assume "again \<in> set envelope_fields"
    moreover have "list_all (\<lambda>n. n = ''status'' \<or> fold_name n \<noteq> ''STATUS'') envelope_fields"
      unfolding envelope_fields_def by code_simp
    ultimately show False using assms(4,5) by (auto simp: list_all_iff)
  qed
  obtain sc sr where wire:
    "decode_slice decode_check no_check None (VArr (map (jval_of \<circ> check_json) (en_Checks e))) = Some (Some sc)"
    "decode_slice decode_string [] None (VArr (map (jval_of \<circ> JStr) (en_RemainingWork e))) = Some (Some sr)"
    "status_of (status_text (en_Status e)) = en_Status e"
    "envelope_of \<lparr>we_SchemaVersion = Some (en_SchemaVersion e), we_Status = Some (en_Status e), we_Summary = Some (en_Summary e),
        we_Checks = Some sc, we_RemainingWork = Some sr, we_ApprovalRequired = Some (en_ApprovalRequired e)\<rparr> = Inr e"
    using envelope_wire [OF assms(1)] .
  have read: "json_text (json_render (status_twice k first e)) = Some (jval_of (status_twice k first e))" if "utf8_Valid k" for k
    using json_round_trip [OF status_twice_utf8 [OF assms(1) that assms(3)]] .
  have "decode_envelope (jval_of (status_twice again first e)) =
      Some \<lparr>we_SchemaVersion = Some (en_SchemaVersion e), we_Status = Some (en_Status e), we_Summary = Some (en_Summary e),
        we_Checks = Some sc, we_RemainingWork = Some sr, we_ApprovalRequired = Some (en_ApprovalRequired e)\<rparr>"
    using wire(1-3) folded_status [OF assms(4) others]
    by (simp add: decode_envelope_def status_twice_def envelope_fields_def put_envelope_def no_envelope_def items_of_map
        decode_string_ptr_def decode_bool_ptr_def del: status_of.simps)
  moreover have "no_duplicates (jval_of (status_twice again first e))"
    using envelope_no_duplicates [of e] others by (auto simp: envelope_json_def status_twice_def envelope_fields_def)
  ultimately have "Parse (json_render (status_twice again first e)) = Inr e"
    using wire(4) read [OF assms(2)] assms(6) length_render_pos [of "status_twice again first e"] by (simp add: Parse_def json_render_valid)
  moreover have "\<not> no_duplicates (jval_of (status_twice ''status'' first e))"
    by (simp add: status_twice_def)
  then have "isl (Parse (json_render (status_twice ''status'' first e)))"
    using read [of "''status''"] utf8_names by (simp add: Parse_def envelope_fields_def)
  ultimately show ?thesis by simp
qed

theorem shadowed_status_accepted_witness:
  "Parse (json_render (status_twice ''STATUS'' ''failed'' sample_envelope)) = Inr sample_envelope \<and>
   isl (Parse (json_render (status_twice ''status'' ''failed'' sample_envelope)))"
proof (rule shadowed_status_accepted)
  show "utf8_Valid ''STATUS''" "utf8_Valid ''failed''"
    by (rule utf8_Valid_ascii, simp add: char_code_def)+
  show "fold_name ''STATUS'' = ''STATUS''"
    by code_simp
  have "length (json_render (status_twice ''STATUS'' ''failed'' sample_envelope)) \<le> 1000"
    by (simp add: status_twice_def check_json_def sample_envelope_def json_string_def Let_def json_ascii_def char_code_def rune_size.simps)
  then show "length (json_render (status_twice ''STATUS'' ''failed'' sample_envelope)) \<le> MaxResponseBytes"
    by simp
qed (simp_all add: sample_sendable)

end
