(* ===== verification/Classic_Coordinator.thy ===== *)
theory Classic_Coordinator
  imports Classic_Store Completion Go_Trace
begin

text \<open>
  \<open>internal/supervisor/coordinator.go\<close>: a foreground run. It records the job, runs the agent, judges its
  report, runs the verifier, and only then asks the power backend for the countdown. Its store is the one
  of \<open>Classic_Store\<close>; agent, verifier, backend and context are parameters whose \<open>n\<close>-th answer may depend
  on everything before it. The log has every call of an interface with its answer.
\<close>

subsection \<open>Configuration and outcome\<close>

abbreviation ExitOK :: int where "ExitOK \<equiv> 0"
abbreviation ExitNotDone :: int where "ExitNotDone \<equiv> 10"
abbreviation ExitAgentFailed :: int where "ExitAgentFailed \<equiv> 11"
abbreviation ExitInvalidCompletion :: int where "ExitInvalidCompletion \<equiv> 12"
abbreviation ExitVerificationFailed :: int where "ExitVerificationFailed \<equiv> 13"
abbreviation ExitActionFailed :: int where "ExitActionFailed \<equiv> 14"
abbreviation ExitCancelled :: int where "ExitCancelled \<equiv> 15"
abbreviation ExitStateError :: int where "ExitStateError \<equiv> 17"
abbreviation ExitInterrupted :: int where "ExitInterrupted \<equiv> 130"

record AgentResult =
  ar_ExitCode :: int
  ar_PID :: int
  ar_Completion :: string
  ar_CompletionErr :: "err option"
  ar_Duration :: duration

text \<open>The part of \<open>verifier.Result\<close> that the coordinator reads.\<close>

record VerifierResult =
  vr_ExitCode :: int
  vr_Duration :: duration

datatype coord_effect =
    JobCreated ClassicJob "err option"
  | JobSaved ClassicJob "err option"
  | CancelRead bool "err option"
  | AgentRan AgentResult "err option"
  | VerifierRan VerifierResult "err option"
  | ContextChecked bool
  | PreflightAsked PowerRequest Capabilities "err option"
  | ScheduleCalled PowerRequest Receipt "err option"
  | CancelCalled Receipt CancelResult "err option"

type_synonym 'a coord = "(classic_disk, coord_effect, 'a) tprog"

record CoordConfig =
  cc_JobID :: string
  cc_NonceHash :: string
  cc_DryRun :: bool
  cc_Action :: string
  cc_Delay :: duration
  cc_CodexCWD :: string
  cc_PromptSHA256 :: string
  cc_PID :: int
  cc_Agent :: "nat \<Rightarrow> AgentResult \<times> err option"
  cc_Verifier :: "(nat \<Rightarrow> VerifierResult \<times> err option) option"
  cc_Interrupted :: "nat \<Rightarrow> bool"
  cc_Preflight :: "nat \<Rightarrow> PowerRequest \<Rightarrow> Capabilities \<times> err option"
  cc_Schedule :: "nat \<Rightarrow> PowerRequest \<Rightarrow> Receipt \<times> err option"
  cc_Cancel :: "nat \<Rightarrow> Receipt \<Rightarrow> CancelResult \<times> err option"

text \<open>The reason of an outcome is kept as the message that it formats, with the error that it quotes.\<close>

record Outcome =
  oc_JobID :: string
  oc_State :: ClassicState
  oc_Reason :: err
  oc_ExitCode :: int
  oc_ActionMayBeScheduled :: bool
  oc_CompletionSummaryOnly :: string

text \<open>\<open>New\<close>: \<open>agent_store\<close> and \<open>backend\<close> say that these interfaces are given.\<close>

definition NewCoordinator :: "bool \<Rightarrow> bool \<Rightarrow> CoordConfig \<Rightarrow> err + CoordConfig" where
  "NewCoordinator agent_store backend c =
     (if cc_JobID c = [] \<or> cc_NonceHash c = [] then Inl (Err ''job identity is required'')
      else if cc_Action c \<noteq> ''shutdown'' then Inl (Err ''unsupported action %q'')
      else if cc_Delay c < 30 * Second \<or> cc_Delay c > 3600 * Second then
        Inl (Err ''shutdown delay must be between 30s and 1h'')
      else if cc_Delay c mod Second \<noteq> 0 then Inl (Err ''shutdown delay must use whole seconds'')
      else if \<not> agent_store then Inl (Err ''agent and store are required'')
      else if \<not> cc_DryRun c \<and> \<not> backend then Inl (Err ''action backend is required in execute mode'')
      else Inr c)"

definition storageOutcome :: "ClassicJob \<Rightarrow> string \<Rightarrow> err \<Rightarrow> bool \<Rightarrow> Outcome" where
  "storageOutcome job operation e may =
     \<lparr>oc_JobID = cj_JobID job, oc_State = cj_State job, oc_Reason = Wrap operation e, oc_ExitCode = ExitStateError,
      oc_ActionMayBeScheduled = may, oc_CompletionSummaryOnly = []\<rparr>"

definition outcome :: "ClassicJob \<Rightarrow> err \<Rightarrow> int \<Rightarrow> bool \<Rightarrow> Outcome" where
  "outcome job reason code may =
     \<lparr>oc_JobID = cj_JobID job, oc_State = cj_State job, oc_Reason = reason, oc_ExitCode = code,
      oc_ActionMayBeScheduled = may, oc_CompletionSummaryOnly = []\<rparr>"

subsection \<open>The interfaces\<close>

definition coord_now :: "time coord" where "coord_now = store time_Now"

definition coord_create :: "ClassicJob \<Rightarrow> err option coord" where
  "coord_create job = noted (JobCreated job) (classic_Create job)"

definition coord_save :: "ClassicJob \<Rightarrow> err option coord" where
  "coord_save job = noted (JobSaved job) (classic_Save job)"

definition read_cancel :: "string \<Rightarrow> (bool \<times> err option) coord" where
  "read_cancel jobID = noted (\<lambda>(b, e). CancelRead b e) (Cancelled jobID)"

definition context_done :: "CoordConfig \<Rightarrow> bool coord" where
  "context_done c = ask ContextChecked (cc_Interrupted c)"

definition send_cancel :: "CoordConfig \<Rightarrow> Receipt \<Rightarrow> (CancelResult \<times> err option) coord" where
  "send_cancel c receipt = ask (\<lambda>(r, e). CancelCalled receipt r e) (\<lambda>n. cc_Cancel c n receipt)"

text \<open>\<open>cancelErr == nil || errors.Is(cancelErr, actions.ErrNoShutdownInProgress)\<close>: nothing is scheduled any more.\<close>

definition cancel_inert :: "err option \<Rightarrow> bool" where
  "cancel_inert e \<longleftrightarrow> e = None \<or> err_is e ErrNoShutdownInProgress"

subsection \<open>Moves\<close>

definition round_ms :: "duration \<Rightarrow> duration" where
  "round_ms d = (d + 500000) div 1000000 * 1000000"

definition logTransition :: "ClassicState option \<Rightarrow> ClassicJob \<Rightarrow> string \<Rightarrow> int option \<Rightarrow> duration \<Rightarrow> unit coord" where
  "logTransition old job reason exitCode d = do {
     t \<leftarrow> coord_now;
     _ \<leftarrow> store (AppendEvent \<lparr>ce_Timestamp = t, ce_JobID = cj_JobID job, ce_OldState = old, ce_NewState = cj_State job,
       ce_Reason = reason, ce_ExitCode = exitCode, ce_Duration = (if d > 0 then round_ms d else 0)\<rparr>);
     ret () }"

definition moved :: "ClassicJob \<Rightarrow> ClassicState \<Rightarrow> string \<Rightarrow> time \<Rightarrow> ClassicJob" where
  "moved job next_state reason t = job\<lparr>cj_State := next_state, cj_ReasonCode := reason, cj_UpdatedAt := t\<rparr>"

text \<open>\<open>move\<close> leaves the job behind that it changed through its pointer, also when saving it failed.\<close>

definition coord_move :: "ClassicJob \<Rightarrow> ClassicState \<Rightarrow> string \<Rightarrow> int option \<Rightarrow> duration \<Rightarrow> (ClassicJob \<times> Outcome option) coord" where
  "coord_move job next_state reason exitCode d =
     (let scheduling = (next_state = ClassicActionScheduled); old = cj_State job in
      case Transition old next_state of
        Some e \<Rightarrow> ret (job, Some (storageOutcome job ''apply state transition'' e scheduling))
      | None \<Rightarrow> do {
          t \<leftarrow> coord_now;
          let job = moved job next_state reason t;
          e \<leftarrow> coord_save job;
          case e of
            Some e \<Rightarrow> ret (job, Some (storageOutcome job ''persist state transition'' e scheduling))
          | None \<Rightarrow> do { logTransition (Some old) job reason exitCode d; ret (job, None) } })"

text \<open>\<open>if outcome := c.move(...); outcome != nil { return *outcome }\<close>.\<close>

definition moving :: "ClassicJob \<Rightarrow> ClassicState \<Rightarrow> string \<Rightarrow> int option \<Rightarrow> duration \<Rightarrow> (ClassicJob \<Rightarrow> Outcome coord) \<Rightarrow> Outcome coord" where
  "moving job next_state reason exitCode d k = do {
     (job, r) \<leftarrow> coord_move job next_state reason exitCode d;
     case r of Some x \<Rightarrow> ret x | None \<Rightarrow> k job }"

definition coord_cancelled :: "ClassicJob \<Rightarrow> string \<Rightarrow> Outcome option coord" where
  "coord_cancelled job reason = do {
     (cancelled, e) \<leftarrow> read_cancel (cj_JobID job);
     case e of
       Some x \<Rightarrow> ret (Some (storageOutcome job ''read cancellation state'' x False))
     | None \<Rightarrow>
         if \<not> cancelled then ret None
         else do {
           (job, r) \<leftarrow> coord_move (job\<lparr>cj_CancelRequested := True\<rparr>) ClassicCancelled reason None 0;
           ret (Some (case r of Some x \<Rightarrow> x
                      | None \<Rightarrow> outcome job (Err ''action was cancelled by the user'') ExitCancelled False)) } }"

text \<open>\<open>if cancelled, outcome := c.cancelled(...); cancelled { return outcome }\<close>.\<close>

definition unless_cancelled :: "ClassicJob \<Rightarrow> string \<Rightarrow> Outcome coord \<Rightarrow> Outcome coord" where
  "unless_cancelled job reason k = do {
     r \<leftarrow> coord_cancelled job reason;
     case r of Some x \<Rightarrow> ret x | None \<Rightarrow> k }"

subsection \<open>After the call of the backend\<close>

text \<open>The call ended in an error: the countdown may run or not.\<close>

definition schedule_unknown :: "CoordConfig \<Rightarrow> ClassicJob \<Rightarrow> Receipt \<Rightarrow> err \<Rightarrow> Outcome coord" where
  "schedule_unknown c job intentReceipt e = do {
     let job = job\<lparr>cj_ReasonCode := ''power_schedule_outcome_unknown''\<rparr>;
     saveErr \<leftarrow> coord_save job;
     case saveErr of
       Some x \<Rightarrow> ret (storageOutcome job ''persist unresolved schedule outcome'' x True)
     | None \<Rightarrow> do {
         (cancelRequested, cancelReadErr) \<leftarrow> read_cancel (cj_JobID job);
         if \<not> (cancelRequested \<or> cancelReadErr \<noteq> None) then
           ret (outcome job (Wrap ''%w; cancel or reconcile the unresolved action intent'' e) ExitActionFailed True)
         else do {
           (cancelResult, cancelErr) \<leftarrow> send_cancel c intentReceipt;
           let job = job\<lparr>cj_CancelResult := Some cancelResult\<rparr>;
           if cancel_inert cancelErr then do {
             let job = job\<lparr>cj_CancelRequested := True\<rparr>;
             let unreadable = (cancelReadErr \<noteq> None);
             (job, r) \<leftarrow> coord_move job ClassicCancelled
               (if unreadable then ''cancel_state_unreadable_unknown_action_rolled_back'' else ''cancelled_after_unknown_schedule_outcome'') None 0;
             ret (case r of
                    Some x \<Rightarrow> x\<lparr>oc_ActionMayBeScheduled := False\<rparr>
                  | None \<Rightarrow>
                      if unreadable then outcome job
                        (Err ''cancellation state was unreadable, so the unknown action was conservatively rolled back'') ExitStateError False
                      else outcome job
                        (Err ''the schedule result was unknown, but the requested cancellation was confirmed'') ExitCancelled False) }
           else do {
             let job = job\<lparr>cj_ReasonCode := ''unknown_schedule_cancel_unconfirmed''\<rparr>;
             saveErr \<leftarrow> coord_save job;
             ret (case saveErr of
                    Some x \<Rightarrow> storageOutcome job ''persist unconfirmed cancellation after unknown schedule outcome'' x True
                  | None \<Rightarrow> outcome job
                      (Wrap ''schedule outcome is unknown and cancellation was not confirmed: schedule: %v; cancel: %v'' e) ExitActionFailed True) } } } }"

text \<open>The backend returned a receipt that does not match the request.\<close>

definition receipt_invalid :: "CoordConfig \<Rightarrow> ClassicJob \<Rightarrow> Receipt \<Rightarrow> err \<Rightarrow> Outcome coord" where
  "receipt_invalid c job intentReceipt e = do {
     let reason = Wrap ''backend returned an invalid power receipt: %v'' e;
     (cancelResult, cancelErr) \<leftarrow> send_cancel c intentReceipt;
     let job = job\<lparr>cj_CancelResult := Some cancelResult\<rparr>;
     if cancel_inert cancelErr then
       moving job ClassicActionFailed ''invalid_receipt_action_rolled_back'' (Some 1) 0 (\<lambda>job.
         ret (outcome job (Wrap ''%s; recovery cancellation completed'' reason) ExitStateError False))
     else do {
       let job = job\<lparr>cj_ReasonCode := ''invalid_receipt_cancel_unconfirmed''\<rparr>;
       saveErr \<leftarrow> coord_save job;
       ret (case saveErr of
              Some x \<Rightarrow> storageOutcome job ''persist unconfirmed recovery cancellation'' x True
            | None \<Rightarrow> outcome job (Wrap ''%s; recovery cancellation was not confirmed'' reason) ExitStateError True) } }"

text \<open>The countdown was accepted, but the state could not be saved.\<close>

definition persist_failed :: "CoordConfig \<Rightarrow> ClassicJob \<Rightarrow> Receipt \<Rightarrow> Outcome \<Rightarrow> Outcome coord" where
  "persist_failed c job receipt failed = do {
     (cancelResult, cancelErr) \<leftarrow> send_cancel c receipt;
     let job = job\<lparr>cj_CancelResult := Some cancelResult\<rparr>;
     if cancel_inert cancelErr then do {
       (job, r) \<leftarrow> coord_move job ClassicCancelled ''scheduled_state_persist_failed_rolled_back'' None 0;
       ret (case r of
              Some x \<Rightarrow> x\<lparr>oc_ActionMayBeScheduled := True, oc_Reason :=
                Err ''the platform accepted shutdown and rollback ran, but the cancelled state could not be persisted; run donethen cancel ''\<rparr>
            | None \<Rightarrow> outcome job
                (Err ''the scheduled state could not be persisted; the platform action was rolled back'') ExitStateError False) }
     else ret (failed\<lparr>oc_ActionMayBeScheduled := True, oc_Reason :=
       Err ''the platform accepted shutdown, but neither scheduled-state persistence nor rollback was confirmed; run donethen cancel ''\<rparr>) }"

text \<open>The countdown runs, but the cancellation request cannot be read.\<close>

definition recheck_failed :: "CoordConfig \<Rightarrow> ClassicJob \<Rightarrow> Receipt \<Rightarrow> err \<Rightarrow> Outcome coord" where
  "recheck_failed c job receipt e = do {
     (cancelResult, rollbackErr) \<leftarrow> send_cancel c receipt;
     let job = job\<lparr>cj_CancelResult := Some cancelResult\<rparr>;
     if cancel_inert rollbackErr then do {
       let job = job\<lparr>cj_CancelRequested := True\<rparr>;
       (job, r) \<leftarrow> coord_move job ClassicCancelled ''cancel_state_unreadable_action_rolled_back'' None 0;
       ret (case r of
              Some x \<Rightarrow> x\<lparr>oc_ActionMayBeScheduled := False, oc_Reason :=
                Wrap ''cancellation state could not be rechecked, but backend rollback completed; persist cancelled state: %v'' (oc_Reason x)\<rparr>
            | None \<Rightarrow> outcome job
                (Wrap ''cancellation state could not be rechecked, so the accepted shutdown was rolled back: %v'' e) ExitStateError False) }
     else ret (outcome job
       (Wrap ''the platform accepted shutdown, but cancellation state could not be rechecked and rollback was not confirmed: %v; rollback: %v'' e)
       ExitStateError True) }"

text \<open>The countdown runs, and its cancellation has been requested.\<close>

definition cancel_countdown :: "CoordConfig \<Rightarrow> ClassicJob \<Rightarrow> Receipt \<Rightarrow> Outcome coord" where
  "cancel_countdown c job receipt = do {
     (cancelResult, cancelErr) \<leftarrow> send_cancel c receipt;
     let job = job\<lparr>cj_CancelResult := Some cancelResult\<rparr>;
     if \<not> cancel_inert cancelErr then
       ret (outcome job (Err ''cancellation was requested after scheduling, but backend cancellation failed: %v'') ExitActionFailed True)
     else do {
       let job = job\<lparr>cj_CancelRequested := True\<rparr>;
       (job, r) \<leftarrow> coord_move job ClassicCancelled ''cancelled_after_schedule'' None 0;
       ret (case r of
              Some x \<Rightarrow> x\<lparr>oc_ActionMayBeScheduled := True\<rparr>
            | None \<Rightarrow> outcome job (Err ''shutdown countdown was cancelled'') ExitCancelled False) } }"

definition receipt_accepted :: "CoordConfig \<Rightarrow> ClassicJob \<Rightarrow> Receipt \<Rightarrow> string \<Rightarrow> Outcome coord" where
  "receipt_accepted c job receipt summary = do {
     let job = job\<lparr>cj_ActionExitCode := Some 0, cj_PowerReceipt := Some receipt, cj_ScheduledFor := Some (rcp_Deadline receipt)\<rparr>;
     (job, r) \<leftarrow> coord_move job ClassicActionScheduled ''action_scheduled'' (Some 0) 0;
     case r of
       Some failed \<Rightarrow> persist_failed c job receipt failed
     | None \<Rightarrow> do {
         (cancelled, e) \<leftarrow> read_cancel (cj_JobID job);
         case e of
           Some x \<Rightarrow> recheck_failed c job receipt x
         | None \<Rightarrow>
             if cancelled then cancel_countdown c job receipt
             else ret ((outcome job (Err ''shutdown scheduled by %s for %s'') ExitOK True)\<lparr>oc_CompletionSummaryOnly := summary\<rparr>) } }"

subsection \<open>The run\<close>

definition call_schedule :: "CoordConfig \<Rightarrow> ClassicJob \<Rightarrow> PowerRequest \<Rightarrow> Capabilities \<Rightarrow> Receipt \<Rightarrow> string \<Rightarrow> Outcome coord" where
  "call_schedule c job request capabilities intentReceipt summary = do {
     (receipt, e) \<leftarrow> ask (\<lambda>(r, e). ScheduleCalled request r e) (\<lambda>n. cc_Schedule c n request);
     case e of
       Some x \<Rightarrow> schedule_unknown c job intentReceipt x
     | None \<Rightarrow>
         (case ValidateReceiptForRequest receipt request capabilities of
            Some x \<Rightarrow> receipt_invalid c job intentReceipt x
          | None \<Rightarrow> receipt_accepted c job receipt summary) }"

text \<open>The intent is recorded before the backend is called.\<close>

definition record_coord_intent :: "CoordConfig \<Rightarrow> ClassicJob \<Rightarrow> PowerRequest \<Rightarrow> Capabilities \<Rightarrow> string \<Rightarrow> Outcome coord" where
  "record_coord_intent c job request capabilities summary =
     (let job = job\<lparr>cj_PowerCapabilities := Some capabilities, cj_ActionIntentAt := Some (req_RequestedAt request)\<rparr> in
      case BuildIntentReceipt (cj_JobID job) (cj_Action job) (req_RequestedAt request) (req_Delay request) capabilities of
        Inl e \<Rightarrow> moving job ClassicActionFailed ''intent_recovery_receipt_failed'' (Some 1) 0 (\<lambda>job.
          ret (outcome job e ExitStateError False))
      | Inr intentReceipt \<Rightarrow>
          moving (job\<lparr>cj_PowerReceipt := Some intentReceipt, cj_ScheduledFor := Some (rcp_Deadline intentReceipt)\<rparr>)
            ClassicActionIntentRecorded ''completion_policy_passed'' None 0 (\<lambda>job.
          unless_cancelled job ''cancelled_at_action_boundary''
            (call_schedule c job request capabilities intentReceipt summary)))"

definition coord_request :: "CoordConfig \<Rightarrow> ClassicJob \<Rightarrow> time \<Rightarrow> PowerRequest" where
  "coord_request c job t = \<lparr>req_JobID = cj_JobID job, req_Action = cj_Action job, req_Delay = cc_Delay c,
     req_Comment = ClassicPowerComment (cj_JobID job), req_RequestedAt = t\<rparr>"

definition act :: "CoordConfig \<Rightarrow> ClassicJob \<Rightarrow> string \<Rightarrow> Outcome coord" where
  "act c job summary =
     (if cc_DryRun c then
        moving job ClassicDryRunComplete ''dry_run_complete'' None 0 (\<lambda>job.
          ret ((outcome job (Err ''all completion gates passed; dry-run performed no action'') ExitOK False)
            \<lparr>oc_CompletionSummaryOnly := summary\<rparr>))
      else unless_cancelled job ''cancelled_before_action'' (do {
        t \<leftarrow> coord_now;
        let request = coord_request c job t;
        (capabilities, e) \<leftarrow> ask (\<lambda>(r, e). PreflightAsked request r e) (\<lambda>n. cc_Preflight c n request);
        if e \<noteq> None \<or> \<not> cap_ExecuteSupported capabilities then
          moving (job\<lparr>cj_PowerCapabilities := Some capabilities\<rparr>) ClassicActionFailed ''platform_preflight_failed'' (Some 1) 0 (\<lambda>job.
            ret (outcome job
              (case e of
                 Some x \<Rightarrow> x
               | None \<Rightarrow> if cap_Reason capabilities \<noteq> [] then Err (cap_Reason capabilities)
                         else Err ''platform action preflight rejected shutdown'')
              ExitActionFailed False))
        else record_coord_intent c job request capabilities summary }))"

definition verify :: "CoordConfig \<Rightarrow> ClassicJob \<Rightarrow> string \<Rightarrow> Outcome coord" where
  "verify c job summary =
     (case cc_Verifier c of
        None \<Rightarrow> act c job summary
      | Some run \<Rightarrow>
          moving job ClassicVerifying ''verifier_started'' None 0 (\<lambda>job.
          unless_cancelled job ''cancelled_before_verifier'' (do {
            (result, e) \<leftarrow> ask (\<lambda>(r, e). VerifierRan r e) run;
            let job = job\<lparr>cj_VerifierExitCode := Some (vr_ExitCode result)\<rparr>;
            interrupted \<leftarrow> context_done c;
            if interrupted then
              moving job ClassicCancelled ''foreground_interrupted'' None (vr_Duration result) (\<lambda>job.
                ret (outcome job (Err ''foreground process was interrupted'') ExitInterrupted False))
            else if e \<noteq> None \<or> vr_ExitCode result \<noteq> 0 then
              moving job ClassicVerificationFailed ''verifier_failed'' (Some (vr_ExitCode result)) (vr_Duration result) (\<lambda>job.
                ret (outcome job (case e of Some x \<Rightarrow> x | None \<Rightarrow> Err ''verifier exited with code %d'') ExitVerificationFailed False))
            else unless_cancelled job ''cancelled_after_verifier'' (act c job summary) })))"

definition judge :: "CoordConfig \<Rightarrow> ClassicJob \<Rightarrow> AgentResult \<Rightarrow> Outcome coord" where
  "judge c job result =
     (case ar_CompletionErr result of
        Some e \<Rightarrow> moving job ClassicInvalidCompletion ''invalid_completion'' None 0 (\<lambda>job.
          ret (outcome job e ExitInvalidCompletion False))
      | None \<Rightarrow>
          (case Parse (ar_Completion result) of
             Inl e \<Rightarrow> moving job ClassicInvalidCompletion ''invalid_completion'' None 0 (\<lambda>job.
               ret (outcome job e ExitInvalidCompletion False))
           | Inr envelope \<Rightarrow>
               (let job = job\<lparr>cj_CompletionStatus := Some (status_text (en_Status envelope))\<rparr>; decision = Evaluate envelope in
                if \<not> dc_Done decision then
                  moving job ClassicNotDone ''completion_not_done'' None 0 (\<lambda>job.
                    ret ((outcome job (Err (dc_Reason decision)) ExitNotDone False)\<lparr>oc_CompletionSummaryOnly := en_Summary envelope\<rparr>))
                else verify c job (en_Summary envelope))))"

definition run_agent :: "CoordConfig \<Rightarrow> ClassicJob \<Rightarrow> Outcome coord" where
  "run_agent c job = do {
     (result, agentErr) \<leftarrow> ask (\<lambda>(r, e). AgentRan r e) (cc_Agent c);
     let job = job\<lparr>cj_CodexPID := ar_PID result\<rparr>;
     interrupted \<leftarrow> context_done c;
     if interrupted then
       moving job ClassicCancelled ''foreground_interrupted'' None (ar_Duration result) (\<lambda>job.
         ret (outcome job (Err ''foreground process was interrupted'') ExitInterrupted False))
     else if agentErr \<noteq> None \<or> ar_ExitCode result \<noteq> 0 then
       moving job ClassicAgentFailed ''agent_failed'' (Some (ar_ExitCode result)) (ar_Duration result) (\<lambda>job.
         ret (outcome job (case agentErr of Some x \<Rightarrow> x | None \<Rightarrow> Err ''Codex exited with code %d'') ExitAgentFailed False))
     else
       unless_cancelled job ''cancelled_after_agent''
         (moving job ClassicEvaluating ''agent_completed'' None (ar_Duration result) (\<lambda>job. judge c job result)) }"

definition armed :: "CoordConfig \<Rightarrow> time \<Rightarrow> ClassicJob" where
  "armed c t = \<lparr>cj_SchemaVersion = ''2'', cj_JobID = cc_JobID c, cj_NonceHash = cc_NonceHash c, cj_State = ClassicArmed,
     cj_ReasonCode = ''job_armed'', cj_DryRun = cc_DryRun c, cj_Action = cc_Action c, cj_DelaySeconds = cc_Delay c div Second,
     cj_CreatedAt = t, cj_UpdatedAt = t, cj_SupervisorPID = cc_PID c, cj_CodexPID = 0, cj_CodexCWD = cc_CodexCWD c,
     cj_PromptSHA256 = cc_PromptSHA256 c, cj_CompletionStatus = None, cj_VerifierExitCode = None, cj_ActionExitCode = None,
     cj_ActionIntentAt = None, cj_ScheduledFor = None, cj_PowerCapabilities = None, cj_PowerReceipt = None,
     cj_CancelResult = None, cj_ReconcileResult = None, cj_CancelRequested = False\<rparr>"

definition coord_Run :: "CoordConfig \<Rightarrow> Outcome coord" where
  "coord_Run c = do {
     t \<leftarrow> coord_now;
     let job = armed c t;
     e \<leftarrow> coord_create job;
     case e of
       Some x \<Rightarrow> ret (storageOutcome job ''create job record'' x False)
     | None \<Rightarrow> do {
         logTransition None job ''job_armed'' None 0;
         unless_cancelled job ''cancelled_before_agent''
           (moving job ClassicAgentRunning ''agent_started'' None 0 (\<lambda>job. run_agent c job)) } }"

end
