(* ===== verification/Classic_Laws.thy ===== *)
theory Classic_Laws
  imports Classic_Coordinator
begin

text \<open>
  What a foreground run guarantees, stated over the log of its calls: the countdown is asked for once and only
  after every gate, the outcome tells whether it may still run, the states that are saved follow the
  machine, and a dry run leaves the backend alone.
\<close>

subsection \<open>Reading the log\<close>

fun is_schedule :: "coord_effect \<Rightarrow> bool" where
  "is_schedule (ScheduleCalled _ _ _) = True"
| "is_schedule _ = False"

fun is_backend :: "coord_effect \<Rightarrow> bool" where
  "is_backend (PreflightAsked _ _ _) = True"
| "is_backend (ScheduleCalled _ _ _) = True"
| "is_backend (CancelCalled _ _ _) = True"
| "is_backend _ = False"

fun inert_cancel :: "CoordConfig \<Rightarrow> coord_effect \<Rightarrow> bool" where
  "inert_cancel c (CancelCalled r _ e) \<longleftrightarrow> cancel_inert e \<and> rcp_JobID r = cc_JobID c"
| "inert_cancel c _ = False"

fun saved_scheduled :: "coord_effect \<Rightarrow> bool" where
  "saved_scheduled (JobSaved j None) \<longleftrightarrow> cj_State j = ClassicActionScheduled"
| "saved_scheduled _ = False"

definition no_call :: "coord_effect list \<Rightarrow> bool" where
  "no_call l \<longleftrightarrow> \<not> list_ex is_schedule l"

text \<open>The countdown was asked for, and its cancellation was confirmed later.\<close>

fun rolled_back :: "CoordConfig \<Rightarrow> coord_effect list \<Rightarrow> bool" where
  "rolled_back c [] = False"
| "rolled_back c (e # l) = (if is_schedule e then list_ex (inert_cancel c) l else rolled_back c l)"

fun coord_states :: "coord_effect list \<Rightarrow> ClassicState list" where
  "coord_states [] = []"
| "coord_states (JobCreated j _ # l) = cj_State j # coord_states l"
| "coord_states (JobSaved j _ # l) = cj_State j # coord_states l"
| "coord_states (_ # l) = coord_states l"

fun state_path :: "ClassicState \<Rightarrow> ClassicState list \<Rightarrow> bool" where
  "state_path s [] = True"
| "state_path s (t # ts) = ((t = s \<or> Transition s t = None) \<and> state_path t ts)"

subsection \<open>Gates\<close>

fun agent_finished :: "coord_effect \<Rightarrow> bool" where
  "agent_finished (AgentRan r None) =
     (ar_ExitCode r = 0 \<and> ar_CompletionErr r = None \<and>
      (case Parse (ar_Completion r) of Inl _ \<Rightarrow> False | Inr en \<Rightarrow> dc_Done (Evaluate en)))"
| "agent_finished _ = False"

fun verifier_passed :: "coord_effect \<Rightarrow> bool" where
  "verifier_passed (VerifierRan r None) = (vr_ExitCode r = 0)"
| "verifier_passed _ = False"

definition intent_recorded :: "ClassicJob \<Rightarrow> PowerRequest \<Rightarrow> Capabilities \<Rightarrow> bool" where
  "intent_recorded j q caps \<longleftrightarrow> cj_State j = ClassicActionIntentRecorded \<and> cj_JobID j = req_JobID q \<and>
     (case cj_PowerReceipt j of
        None \<Rightarrow> False
      | Some r \<Rightarrow> BuildIntentReceipt (req_JobID q) (req_Action q) (req_RequestedAt q) (req_Delay q) caps = Inr r)"

text \<open>The last three calls: a successful preflight, the saved intent, and no cancellation.\<close>

fun at_boundary :: "coord_effect list \<Rightarrow> PowerRequest \<Rightarrow> bool" where
  "at_boundary (CancelRead False None # JobSaved j None # PreflightAsked q' caps None # _) q =
     (q' = q \<and> cap_ExecuteSupported caps \<and> intent_recorded j q caps)"
| "at_boundary _ _ = False"

definition gates_passed :: "CoordConfig \<Rightarrow> coord_effect list \<Rightarrow> bool" where
  "gates_passed c pre \<longleftrightarrow> list_ex agent_finished pre \<and> (cc_Verifier c = None \<or> list_ex verifier_passed pre)"

definition call_justified :: "CoordConfig \<Rightarrow> coord_effect list \<Rightarrow> PowerRequest \<Rightarrow> bool" where
  "call_justified c pre q \<longleftrightarrow> \<not> cc_DryRun c \<and> req_JobID q = cc_JobID c \<and> gates_passed c pre \<and> at_boundary (rev pre) q"

text \<open>Every call in \<open>l\<close>, after the calls \<open>pre\<close>, is justified and the last one.\<close>

fun calls_ok :: "CoordConfig \<Rightarrow> coord_effect list \<Rightarrow> coord_effect list \<Rightarrow> bool" where
  "calls_ok c pre [] = True"
| "calls_ok c pre (e # l) =
     ((case e of ScheduleCalled q _ _ \<Rightarrow> call_justified c pre q \<and> no_call l | _ \<Rightarrow> True) \<and> calls_ok c (pre @ [e]) l)"

lemma no_call_simps [simp]: "no_call []" "no_call (e # l) \<longleftrightarrow> \<not> is_schedule e \<and> no_call l"
  by (simp_all add: no_call_def)

lemma calls_ok_none: "no_call l \<Longrightarrow> calls_ok c pre l"
  by (induction l arbitrary: pre) (auto split: coord_effect.splits)

subsection \<open>The contract of a phase\<close>

text \<open>What a phase that starts with the job \<open>j\<close> after the calls \<open>pre\<close> promises about its outcome and calls.\<close>

definition good :: "CoordConfig \<Rightarrow> coord_effect list \<Rightarrow> ClassicJob \<Rightarrow> Outcome \<Rightarrow> coord_effect list \<Rightarrow> bool" where
  "good c pre j o' l \<longleftrightarrow> calls_ok c pre l \<and>
     (if oc_ActionMayBeScheduled o' then \<not> no_call l else no_call l \<or> rolled_back c l) \<and>
     state_path (cj_State j) (coord_states l) \<and>
     (if cc_DryRun c then \<not> list_ex is_backend l
      else oc_ExitCode o' = ExitOK \<longrightarrow> oc_ActionMayBeScheduled o' \<and> list_ex saved_scheduled l)"

text \<open>The promise after the call of the backend.\<close>

definition settles_call :: "CoordConfig \<Rightarrow> ClassicJob \<Rightarrow> Outcome \<Rightarrow> coord_effect list \<Rightarrow> bool" where
  "settles_call c j o' l \<longleftrightarrow> no_call l \<and> (oc_ActionMayBeScheduled o' \<or> list_ex (inert_cancel c) l) \<and>
     state_path (cj_State j) (coord_states l) \<and>
     (oc_ExitCode o' = ExitOK \<longrightarrow> oc_ActionMayBeScheduled o' \<and> list_ex saved_scheduled l)"

lemma outcome_simps [simp]:
  "oc_ActionMayBeScheduled (storageOutcome j op e may) = may" "oc_ExitCode (storageOutcome j op e may) = ExitStateError"
  "oc_ActionMayBeScheduled (outcome j r code may) = may" "oc_ExitCode (outcome j r code may) = code"
  by (simp_all add: storageOutcome_def outcome_def)

lemma moved_simps [simp]: "cj_State (moved j n r t) = n" "cj_JobID (moved j n r t) = cj_JobID j"
  "cj_PowerReceipt (moved j n r t) = cj_PowerReceipt j" "cj_Action (moved j n r t) = cj_Action j"
  by (simp_all add: moved_def)

text \<open>A move: either nothing, or the job is saved, with or without success.\<close>

lemma emits_move:
  assumes "Transition (cj_State j) n = None"
    and "\<And>t. P (moved j n reason t, None) [JobSaved (moved j n reason t) None]"
    and "\<And>t e. P (moved j n reason t, Some (storageOutcome (moved j n reason t) ''persist state transition'' e (n = ClassicActionScheduled)))
        [JobSaved (moved j n reason t) (Some e)]"
  shows "emits (coord_move j n reason x d) P"
  unfolding coord_move_def Let_def assms(1) option.case coord_now_def coord_save_def logTransition_def State_Monad.bind_assoc
  by (intro emit_rules) (simp_all add: assms)

lemma emits_move_then:
  assumes "Transition (cj_State j) n = None"
    and "\<And>t. emits (k (moved j n reason t) None) (\<lambda>o' l. P o' (JobSaved (moved j n reason t) None # l))"
    and "\<And>t e. emits (k (moved j n reason t) (Some (storageOutcome (moved j n reason t) ''persist state transition'' e (n = ClassicActionScheduled))))
        (\<lambda>o' l. P o' (JobSaved (moved j n reason t) (Some e) # l))"
  shows "emits (coord_move j n reason x d \<bind> (\<lambda>(job, r). k job r)) P"
  by (rule emits_bind, rule emits_move) (simp_all add: assms)

text \<open>The same when every failure is passed on.\<close>

lemma emits_moving:
  assumes "Transition (cj_State j) n = None"
    and "\<And>t. emits (k (moved j n reason t)) (\<lambda>o' l. P o' (JobSaved (moved j n reason t) None # l))"
    and "\<And>t e. P (storageOutcome (moved j n reason t) ''persist state transition'' e (n = ClassicActionScheduled))
        [JobSaved (moved j n reason t) (Some e)]"
  shows "emits (moving j n reason x d k) P"
  unfolding moving_def by (rule emits_move_then) (simp_all add: assms)

lemmas interface_defs = coord_now_def coord_create_def coord_save_def read_cancel_def context_done_def send_cancel_def

subsection \<open>After the call\<close>

lemma unknown_settles:
  assumes "cj_State j = ClassicActionIntentRecorded" "rcp_JobID intent = cc_JobID c"
  shows "emits (schedule_unknown c j intent e) (settles_call c j)"
  unfolding schedule_unknown_def interface_defs
  by (intro emit_rules emits_move_then) (simp_all add: settles_call_def assms Transition_def split: prod.splits option.splits)

lemma invalid_settles:
  assumes "cj_State j = ClassicActionIntentRecorded" "rcp_JobID intent = cc_JobID c"
  shows "emits (receipt_invalid c j intent e) (settles_call c j)"
  unfolding receipt_invalid_def interface_defs
  by (intro emit_rules emits_moving) (simp_all add: settles_call_def assms Transition_def split: prod.splits option.splits)

lemma accepted_settles:
  assumes "cj_State j = ClassicActionIntentRecorded" "rcp_JobID receipt = cc_JobID c"
  shows "emits (receipt_accepted c j receipt summary) (settles_call c j)"
  unfolding receipt_accepted_def persist_failed_def recheck_failed_def cancel_countdown_def interface_defs
  by (intro emit_rules emits_move_then)
    (auto simp: settles_call_def assms Transition_def split: prod.splits option.splits)

lemma good_call:
  assumes "call_justified c pre q" "settles_call c j o' l"
  shows "good c pre j o' (ScheduleCalled q r e # l)"
  using assms calls_ok_none by (auto simp: good_def settles_call_def call_justified_def)

lemma call_schedule_good:
  assumes "call_justified c pre q" "cj_State j = ClassicActionIntentRecorded" "rcp_JobID intent = cc_JobID c"
  shows "emits (call_schedule c j q caps intent summary) (good c pre j)"
proof -
  have q: "req_JobID q = cc_JobID c" using assms(1) by (simp add: call_justified_def)
  have tail: "emits m (\<lambda>o' l. good c pre j o' (ScheduleCalled q r e # l))" if "emits m (settles_call c j)" for m r e
    by (rule emits_mono [OF that]) (rule good_call [OF assms(1)])
  show ?thesis
    unfolding call_schedule_def
    by (intro emit_rules) (auto simp: q ValidateReceiptForRequest_None assms
        intro!: tail unknown_settles invalid_settles accepted_settles)
qed

subsection \<open>Before the call\<close>

text \<open>Steps of the log that leave the contract to the rest of the run.\<close>

lemma good_step:
  assumes "\<not> is_schedule e" "is_backend e \<Longrightarrow> \<not> cc_DryRun c" "coord_states [e] = []" "good c (pre @ [e]) j o' l"
  shows "good c pre j o' (e # l)"
  using assms by (cases e) (auto simp: good_def)

lemma good_saved:
  assumes "cj_State j' = cj_State j \<or> Transition (cj_State j) (cj_State j') = None" "good c (pre @ [JobSaved j' r]) j' o' l"
  shows "good c pre j o' (JobSaved j' r # l)"
  using assms by (auto simp: good_def)

lemma good_state: "good c pre j' o' l \<Longrightarrow> cj_State j' = cj_State j \<Longrightarrow> good c pre j o' l"
  by (simp add: good_def)

text \<open>A phase may end without a call when it reports a failure.\<close>

definition plain_end :: "CoordConfig \<Rightarrow> Outcome \<Rightarrow> bool" where
  "plain_end c o' \<longleftrightarrow> \<not> oc_ActionMayBeScheduled o' \<and> (cc_DryRun c \<or> oc_ExitCode o' \<noteq> ExitOK)"

lemma good_end: "plain_end c o' \<Longrightarrow> good c pre j o' []"
  by (auto simp: good_def plain_end_def)

lemma moving_good:
  assumes "Transition (cj_State j) n = None" "n \<noteq> ClassicActionScheduled"
    and "\<And>t. emits (k (moved j n reason t)) (good c (pre @ [JobSaved (moved j n reason t) None]) (moved j n reason t))"
    and "cj_State j0 = cj_State j"
  shows "emits (moving j n reason x d k) (good c pre j0)"
proof (rule emits_moving)
  show "Transition (cj_State j) n = None" by fact
  show "emits (k (moved j n reason t)) (\<lambda>o' l. good c pre j0 o' (JobSaved (moved j n reason t) None # l))" for t
    by (rule emits_mono [OF assms(3)], rule good_saved) (simp_all add: assms)
  show "good c pre j0 (storageOutcome (moved j n reason t) ''persist state transition'' e (n = ClassicActionScheduled))
      [JobSaved (moved j n reason t) (Some e)]" for t e
    by (rule good_saved) (simp_all add: assms good_end plain_end_def)
qed

lemma unless_cancelled_good:
  assumes "Transition (cj_State j) ClassicCancelled = None" "emits k (good c (pre @ [CancelRead False None]) j)"
  shows "emits (unless_cancelled j reason k) (good c pre j)"
proof -
  have rest: "emits k (\<lambda>o' l. good c pre j o' (CancelRead False None # l))"
    by (rule emits_mono [OF assms(2)], rule good_step) simp_all
  have first_read: "emits (coord_cancelled j reason) (\<lambda>r l. case r of None \<Rightarrow> l = [CancelRead False None] | Some x \<Rightarrow> good c pre j x l)"
    unfolding coord_cancelled_def interface_defs
    by (intro emit_rules emits_move_then) (auto simp: assms(1) good_def plain_end_def split: prod.splits)
  show ?thesis
    unfolding unless_cancelled_def
    by (rule emits_bind, rule emits_mono [OF first_read]) (use rest in \<open>auto split: option.splits\<close>)
qed

lemma leaf_good [emit_rules]: "plain_end c o' \<Longrightarrow> emits (ret o') (good c pre j)"
  by (simp add: good_end)

lemma gates_passed_append: "gates_passed c pre \<Longrightarrow> gates_passed c (pre @ l)"
  by (auto simp: gates_passed_def)

lemma BuildIntentReceipt_JobID: "BuildIntentReceipt i a t d caps = Inr r \<Longrightarrow> rcp_JobID r = i"
  by (auto simp: BuildIntentReceipt_def Let_def split: option.splits if_splits)

definition judged :: "ClassicJob \<Rightarrow> bool" where
  "judged j \<longleftrightarrow> cj_State j = ClassicEvaluating \<or> cj_State j = ClassicVerifying"

lemma judged_Transition:
  assumes "judged j"
  shows "Transition (cj_State j) ClassicActionFailed = None" "Transition (cj_State j) ClassicCancelled = None"
    "Transition (cj_State j) ClassicDryRunComplete = None" "Transition (cj_State j) ClassicActionIntentRecorded = None"
  using assms by (auto simp: judged_def Transition_def)

lemma plain_end_outcome [simp]: "plain_end c (outcome j r code False) \<longleftrightarrow> cc_DryRun c \<or> code \<noteq> ExitOK"
  "plain_end c (o'\<lparr>oc_CompletionSummaryOnly := s\<rparr>) = plain_end c o'"
  by (simp_all add: plain_end_def)

lemma record_intent_good:
  assumes "judged j" "cj_JobID j = cc_JobID c" "cap_ExecuteSupported caps" "\<not> cc_DryRun c" "gates_passed c pre0"
    and "req_JobID q = cc_JobID c" "cj_Action j = req_Action q"
  shows "emits (record_coord_intent c j q caps summary) (good c (pre0 @ [PreflightAsked q caps None]) j)"
proof -
  let ?j = "j\<lparr>cj_PowerCapabilities := Some caps, cj_ActionIntentAt := Some (req_RequestedAt q)\<rparr>"
  let ?pre = "pre0 @ [PreflightAsked q caps None]"
  have call: "emits (call_schedule c jm q caps intent summary) (good c ((?pre @ [JobSaved jm None]) @ [CancelRead False None]) jm)"
    if "BuildIntentReceipt (cc_JobID c) (req_Action q) (req_RequestedAt q) (req_Delay q) caps = Inr intent"
      "jm = moved (?j\<lparr>cj_PowerReceipt := Some intent, cj_ScheduledFor := Some (rcp_Deadline intent)\<rparr>)
        ClassicActionIntentRecorded ''completion_policy_passed'' t" for intent t jm
  proof (rule call_schedule_good)
    have "intent_recorded jm q caps"
      using that assms by (simp add: intent_recorded_def)
    then show "call_justified c ((?pre @ [JobSaved jm None]) @ [CancelRead False None]) q"
      using assms gates_passed_append [OF assms(5)] by (simp add: call_justified_def)
    show "cj_State jm = ClassicActionIntentRecorded" "rcp_JobID intent = cc_JobID c"
      using that BuildIntentReceipt_JobID by simp_all
  qed
  have transitions: "Transition (cj_State ?j) ClassicActionFailed = None" "Transition (cj_State ?j) ClassicActionIntentRecorded = None"
    using judged_Transition [OF assms(1)] by simp_all
  show ?thesis
    unfolding record_coord_intent_def Let_def
    by (intro emits_sum moving_good unless_cancelled_good emits_ret good_end call)
      (use transitions assms in \<open>simp_all add: Transition_def\<close>)
qed

lemma act_good:
  assumes "judged j" "cj_JobID j = cc_JobID c" "gates_passed c pre"
  shows "emits (act c j summary) (good c pre j)"
proof -
  note to_state = judged_Transition [OF assms(1)]
  have refused: "emits (moving (j\<lparr>cj_PowerCapabilities := Some caps\<rparr>) ClassicActionFailed ''platform_preflight_failed'' (Some 1) 0 (\<lambda>job.
      ret (outcome job reason ExitActionFailed False)))
      (\<lambda>o' l. good c (pre @ [CancelRead False None]) j o' (PreflightAsked q caps e # l))"
    if "\<not> cc_DryRun c" for e caps q reason
    by (rule emits_mono [OF moving_good [where pre = "(pre @ [CancelRead False None]) @ [PreflightAsked q caps e]"]])
      (use to_state that in \<open>auto intro: good_end good_step\<close>)
  have granted: "emits (record_coord_intent c j (coord_request c j t) caps summary)
      (\<lambda>o' l. good c (pre @ [CancelRead False None]) j o' (PreflightAsked (coord_request c j t) caps None # l))"
    if "\<not> cc_DryRun c" "cap_ExecuteSupported caps" for caps t
    by (rule emits_mono [OF record_intent_good [where ?pre0.0 = "pre @ [CancelRead False None]"]])
      (use assms that gates_passed_append in \<open>auto simp: coord_request_def intro: good_step\<close>)
  show ?thesis
    unfolding act_def Let_def coord_now_def
    by (intro emits_if moving_good unless_cancelled_good emits_store_then emits_ask_then emits_ret good_end emits_prod)
      (use to_state in \<open>auto intro!: refused granted split: prod.splits\<close>)
qed

lemma verify_good:
  assumes "cj_State j = ClassicEvaluating" "cj_JobID j = cc_JobID c" "list_ex agent_finished pre"
  shows "emits (verify c j summary) (good c pre j)"
proof (cases "cc_Verifier c")
  case None
  then show ?thesis
    using assms by (auto simp: verify_def gates_passed_def judged_def intro: act_good)
next
  case (Some run)
  show ?thesis
    unfolding verify_def Some option.case
  proof (intro moving_good unless_cancelled_good)
    fix t
    let ?j = "moved j ClassicVerifying ''verifier_started'' t"
    let ?pre = "(pre @ [JobSaved ?j None]) @ [CancelRead False None]"
    have after: "emits k (\<lambda>o' l. good c ?pre ?j o' (VerifierRan r e # ContextChecked b # l))"
      if "cj_State j1 = ClassicVerifying" "emits k (good c ((?pre @ [VerifierRan r e]) @ [ContextChecked b]) j1)" for j1 r e b and k :: "Outcome coord"
      by (rule emits_mono [OF that(2)]) (intro good_step good_state [of _ _ j1 _ _ ?j]; simp add: that(1))
    have act: "emits (act c (?j\<lparr>cj_VerifierExitCode := Some x\<rparr>) summary)
        (good c (((?pre @ [VerifierRan r None]) @ [ContextChecked False]) @ [CancelRead False None]) (?j\<lparr>cj_VerifierExitCode := Some x\<rparr>))"
      if "vr_ExitCode r = 0" for r x
      by (rule act_good) (use assms that in \<open>simp_all add: judged_def gates_passed_def\<close>)
    show "emits (do {
        (result, e) \<leftarrow> ask (\<lambda>(r, e). VerifierRan r e) run;
        let job = ?j\<lparr>cj_VerifierExitCode := Some (vr_ExitCode result)\<rparr>;
        interrupted \<leftarrow> context_done c;
        if interrupted then
          moving job ClassicCancelled ''foreground_interrupted'' None (vr_Duration result) (\<lambda>job.
            ret (outcome job (Err ''foreground process was interrupted'') ExitInterrupted False))
        else if e \<noteq> None \<or> vr_ExitCode result \<noteq> 0 then
          moving job ClassicVerificationFailed ''verifier_failed'' (Some (vr_ExitCode result)) (vr_Duration result) (\<lambda>job.
            ret (outcome job (case e of Some x \<Rightarrow> x | None \<Rightarrow> Err ''verifier exited with code %d'') ExitVerificationFailed False))
        else unless_cancelled job ''cancelled_after_verifier'' (act c job summary) })
        (good c ?pre ?j)"
      unfolding Let_def context_done_def
    proof (intro emits_ask_then emits_prod, hypsubst, unfold prod.case, goal_cases)
      case (1 _ r e b)
      let ?j' = "?j\<lparr>cj_VerifierExitCode := Some (vr_ExitCode r)\<rparr>"
      show ?case
        by (rule after [of ?j'], simp, intro emits_if moving_good unless_cancelled_good emits_ret good_end)
          (use act in \<open>auto simp: Transition_def\<close>)
    qed
  qed (use assms in \<open>simp_all add: Transition_def\<close>)
qed

lemma judge_good:
  assumes "cj_State j = ClassicEvaluating" "cj_JobID j = cc_JobID c" "AgentRan result None \<in> set pre" "ar_ExitCode result = 0"
  shows "emits (judge c j result) (good c pre j)"
proof -
  have finished: "list_ex agent_finished pre"
    if "ar_CompletionErr result = None" "Parse (ar_Completion result) = Inr en" "dc_Done (Evaluate en)" for en
    unfolding list_ex_iff using that assms(3,4) by (intro bexI [of _ "AgentRan result None"]) simp_all
  have verified: "emits (verify c (j\<lparr>cj_CompletionStatus := Some s\<rparr>) summary) (good c pre j)" if "list_ex agent_finished pre" for s summary
    by (rule emits_mono [OF verify_good]) (use assms that in \<open>auto intro: good_state\<close>)
  show ?thesis
    unfolding judge_def Let_def
    by (intro emits_option emits_sum emits_if moving_good emits_ret good_end) (use assms finished verified in \<open>auto simp: Transition_def\<close>)
qed

lemma run_agent_good:
  assumes "cj_State j = ClassicAgentRunning" "cj_JobID j = cc_JobID c"
  shows "emits (run_agent c j) (good c pre j)"
proof -
  have after: "emits k (\<lambda>o' l. good c pre j o' (AgentRan r e # ContextChecked b # l))"
    if "cj_State j1 = cj_State j" "emits k (good c ((pre @ [AgentRan r e]) @ [ContextChecked b]) j1)" for j1 r e b and k :: "Outcome coord"
    by (rule emits_mono [OF that(2)]) (intro good_step good_state [of _ _ j1 _ _ j]; simp add: that(1))
  show ?thesis
    unfolding run_agent_def Let_def context_done_def
  proof (intro emits_ask_then emits_prod, hypsubst, unfold prod.case, goal_cases)
    case (1 _ r e b)
    let ?j = "j\<lparr>cj_CodexPID := ar_PID r\<rparr>"
    show ?case
      by (rule after [of ?j], simp, intro emits_if moving_good unless_cancelled_good emits_ret good_end judge_good)
        (use assms in \<open>auto simp: Transition_def\<close>)
  qed
qed

text \<open>The contract of a whole run; it starts before anything is saved.\<close>

lemma run_good: "emits (coord_Run c) (\<lambda>o' l. \<exists>t. good c [] (armed c t) o' l)"
proof -
  have armed: "cj_State (armed c t) = ClassicArmed" "cj_JobID (armed c t) = cc_JobID c" for t
    by (simp_all add: armed_def)
  have created: "emits k (\<lambda>o' l. \<exists>t. good c [] (armed c t) o' (JobCreated (armed c t') e # l))"
    if "emits k (good c [JobCreated (armed c t') e] (armed c t'))" for t' e and k :: "Outcome coord"
    by (rule emits_mono [OF that]) (auto simp: good_def intro!: exI [of _ t'])
  show ?thesis
    unfolding coord_Run_def Let_def interface_defs logTransition_def State_Monad.bind_assoc State_Monad.bind_left_identity
    by (intro emits_store_then emits_noted_then, rule created,
        intro emits_option emits_store_then emits_ret moving_good unless_cancelled_good run_agent_good good_end)
      (simp_all add: armed plain_end_def Transition_def)
qed

subsection \<open>The promises of a run\<close>

text \<open>
  C4: A foreground run asks the backend for the countdown at most once, never in a dry run, and only after
  an agent that exited with zero and reported a done envelope, after the verifier passed when there is
  one, and right after a successful preflight of the same request, the saved intent with its recovery
  receipt, and a look at the cancellation marker that found none.
\<close>

theorem run_calls_justified: "emits (coord_Run c) (\<lambda>_ l. calls_ok c [] l)"
  by (rule emits_mono [OF run_good]) (auto simp: good_def)

text \<open>
  C23: The outcome is honest: it says that the action may be scheduled only when the backend was asked,
  and when it says that it is not, the backend was not asked or a cancellation for this job was
  confirmed afterwards, on every error path.
\<close>

theorem run_outcome_honest:
  "emits (coord_Run c) (\<lambda>o' l. if oc_ActionMayBeScheduled o' then \<not> no_call l else no_call l \<or> rolled_back c l)"
  by (rule emits_mono [OF run_good]) (auto simp: good_def)

text \<open>C28: The states that a run saves follow the table of transitions, from the armed state on.\<close>

theorem run_follows_machine: "emits (coord_Run c) (\<lambda>_ l. state_path ClassicArmed (coord_states l))"
  by (rule emits_mono [OF run_good]) (auto simp: good_def armed_def)

text \<open>
  A dry run never talks to the backend. A real run that exits with zero has saved the scheduled state
  and says that the action may be scheduled.
\<close>

theorem run_exit_ok:
  "emits (coord_Run c) (\<lambda>o' l. if cc_DryRun c then \<not> list_ex is_backend l
     else if oc_ExitCode o' = ExitOK then oc_ActionMayBeScheduled o' \<and> list_ex saved_scheduled l else True)"
  by (rule emits_mono [OF run_good]) (auto simp: good_def)

end
