(* ===== verification/Power_Daemon.thy ===== *)
theory Power_Daemon
  imports Actions Go_Files Go_Path Go_Trace "HOL-Library.Word"
begin

text \<open>
  \<open>internal/powerdaemon/server_linux.go\<close>: the privileged helper on Linux. It keeps one record of the active
  power job, asks systemd for a transient timer, and is called back by that timer to power off. The
  record is the disk of this theory; systemd (the runner of commands), the host check and the boot
  identity are parameters, and the log has every call with its answer. A connection is one request of a
  peer whose user id the kernel vouches for.
\<close>

subsection \<open>Requests, responses and the active record\<close>

type_synonym uid = "32 word"

record daemonRequest =
  dr_SchemaVersion :: int
  dr_Operation :: string
  dr_Request :: "PowerRequest option"
  dr_Receipt :: "Receipt option"

record daemonResponse =
  ds_SchemaVersion :: int
  ds_OK :: bool
  ds_ErrorCode :: string
  ds_Message :: string
  ds_Capabilities :: "Capabilities option"
  ds_Receipt :: "Receipt option"
  ds_CancelResult :: "CancelResult option"
  ds_Reconcile :: "ReconcileResult option"

record activeState =
  as_SchemaVersion :: int
  as_OwnerUID :: uid
  as_Phase :: string
  as_Receipt :: Receipt

text \<open>The file of the active record, as its reader can tell it apart.\<close>

datatype helper_file = Inaccessible | NotOwned | UnsafeMetadata | Garbled | Decoded activeState

record daemon_disk =
  hd_active :: "helper_file option"

record DaemonConfig =
  dc_SocketPath :: string
  dc_StateDirectory :: string
  dc_GroupName :: string
  dc_HelperPath :: string
  dc_SystemdRunPath :: string
  dc_SystemctlPath :: string
  dc_MaxFireLateness :: duration
  dc_Runner :: "nat \<Rightarrow> string list \<Rightarrow> int \<times> string \<times> err option"
  dc_HostCheck :: "nat \<Rightarrow> err option"
  dc_BootID :: "nat \<Rightarrow> string"

datatype daemon_effect =
    HostChecked "err option"
  | BootRead string
  | ClockRead time
  | ActiveLoaded "activeState option" "err option"
  | ActiveSaved activeState "err option"
  | ActiveRemoved "err option"
  | Ran "string list" int string "err option"

type_synonym 'a dop = "(daemon_disk, daemon_effect, 'a) tprog"

abbreviation daemonProtocolVersion :: int where "daemonProtocolVersion \<equiv> 1"

definition withDefaults :: "DaemonConfig \<Rightarrow> DaemonConfig" where
  "withDefaults c =
     (let given = (\<lambda>v d. if v = [] then d else v) in
      c\<lparr>dc_SocketPath := given (dc_SocketPath c) ''/run/donethen/powerd.sock'',
        dc_StateDirectory := given (dc_StateDirectory c) ''/var/lib/donethen'',
        dc_GroupName := given (dc_GroupName c) ''donethen'',
        dc_SystemdRunPath := given (dc_SystemdRunPath c) ''/usr/bin/systemd-run'',
        dc_SystemctlPath := given (dc_SystemctlPath c) ''/usr/bin/systemctl'',
        dc_HelperPath := given (dc_HelperPath c) ''/usr/local/libexec/donethen/donethen-powerd'',
        dc_MaxFireLateness := (if dc_MaxFireLateness c \<le> 0 then 30 * Second else dc_MaxFireLateness c)\<rparr>)"

definition blank_response :: daemonResponse where
  "blank_response = \<lparr>ds_SchemaVersion = daemonProtocolVersion, ds_OK = False, ds_ErrorCode = [], ds_Message = [],
     ds_Capabilities = None, ds_Receipt = None, ds_CancelResult = None, ds_Reconcile = None\<rparr>"

definition daemon_failure :: "string \<Rightarrow> string \<Rightarrow> daemonResponse" where
  "daemon_failure code message = blank_response\<lparr>ds_ErrorCode := code, ds_Message := take 256 message\<rparr>"

definition daemon_ok :: daemonResponse where
  "daemon_ok = blank_response\<lparr>ds_OK := True\<rparr>"

definition helperCapabilities :: Capabilities where
  "helperCapabilities = \<lparr>cap_Platform = ''linux-systemd'', cap_BackendID = ''linux-systemd-helper'', cap_ExecuteSupported = False,
     cap_CancelScope = CancelScopeJob, cap_MinimumDelay = 30 * Second, cap_MaximumDelay = 3600 * Second,
     cap_ReconcileSupported = True, cap_Reason = ''helper preflight has not completed''\<rparr>"

definition validateHelperRequest :: "PowerRequest \<Rightarrow> err option" where
  "validateHelperRequest q = checks [
     ValidateRequest q (30 * Second) (3600 * Second),
     reject (\<not> IsFixedPowerComment (req_JobID q) (req_Comment q)) ''power comment is not a fixed DoneThen comment'']"

definition validateSystemdReceipt :: "Receipt \<Rightarrow> err option" where
  "validateSystemdReceipt r = checks [
     ValidateReceipt r,
     reject (rcp_Platform r \<noteq> ''linux-systemd'' \<or> rcp_BackendID r \<noteq> ''linux-systemd-helper'' \<or>
         rcp_CancelScope r \<noteq> CancelScopeJob \<or> rcp_ExternalToken r \<noteq> SystemdUnitToken (rcp_JobID r))
       ''receipt is not owned by the Linux helper'']"

definition validActivePhase :: "string \<Rightarrow> bool" where
  "validActivePhase phase \<longleftrightarrow>
     phase \<in> {''intent'', ''schedule_unverified'', ''scheduled'', ''firing'', ''fire_unverified'', ''expired''}"

subsection \<open>The interfaces\<close>

definition read_active :: "helper_file option \<Rightarrow> activeState option \<times> err option" where
  "read_active f =
     (case f of
        None \<Rightarrow> (None, None)
      | Some Inaccessible \<Rightarrow> (None, Some (Wrap ''inspect %s: %w'' (Err ''input/output error'')))
      | Some NotOwned \<Rightarrow> (None, Some (Err ''%s must be owned by the current user''))
      | Some UnsafeMetadata \<Rightarrow> (None, Some (Err ''active helper state has unsafe metadata''))
      | Some Garbled \<Rightarrow> (None, Some (Err ''unexpected EOF''))
      | Some (Decoded s) \<Rightarrow>
          if as_SchemaVersion s \<noteq> 1 \<or> \<not> validActivePhase (as_Phase s) \<or> validateSystemdReceipt (as_Receipt s) \<noteq> None then
            (None, Some (Err ''active helper state is invalid''))
          else (Some s, None))"

definition loadActive :: "(activeState option \<times> err option) dop" where
  "loadActive = noted (\<lambda>(s, e). ActiveLoaded s e) (gets (\<lambda>w. read_active (hd_active (disk w))))"

definition saveActive :: "activeState \<Rightarrow> err option dop" where
  "saveActive s = noted (ActiveSaved s) (AtomicWriteJSON (\<lambda>d. d\<lparr>hd_active := Some (Decoded s)\<rparr>))"

text \<open>\<open>os.Remove\<close> of the record; a record that is gone already is no error.\<close>

definition remove_active :: "(daemon_disk world, err option) state" where
  "remove_active = do {
     r \<leftarrow> call;
     case r of
       None \<Rightarrow> do { change_disk (\<lambda>d. d\<lparr>hd_active := None\<rparr>); ret None }
     | Some e \<Rightarrow>
         if errors_Is e ErrNotExist then do { change_disk (\<lambda>d. d\<lparr>hd_active := None\<rparr>); ret None } else ret (Some e) }"

definition removeActive :: "err option dop" where
  "removeActive = noted ActiveRemoved remove_active"

definition daemon_now :: "time dop" where
  "daemon_now = noted ClockRead time_Now"

definition linuxBootID :: "DaemonConfig \<Rightarrow> string dop" where
  "linuxBootID c = ask BootRead (dc_BootID c)"

definition run_command :: "DaemonConfig \<Rightarrow> string list \<Rightarrow> (int \<times> string \<times> err option) dop" where
  "run_command c argv = ask (\<lambda>(x, out, e). Ran argv x out e) (\<lambda>n. dc_Runner c n argv)"

text \<open>
  \<open>acquireActiveStateLock\<close>: the lock file is inspected, opened and narrowed, then \<open>flock\<close> is polled every
  10 ms until the deadline. The fuel covers the polls of a clock that follows the sleeps; without fuel
  the deadline has passed.
\<close>

fun poll_active_lock :: "nat \<Rightarrow> time \<Rightarrow> ('d world, err option) state" where
  "poll_active_lock 0 deadline = ret (Some (Err ''helper active-state lock timed out''))"
| "poll_active_lock (Suc fuel) deadline = do {
     r \<leftarrow> call;
     case r of
       None \<Rightarrow> do { sync; ret None }
     | Some e \<Rightarrow>
         if \<not> errors_Is e ErrWouldBlock then ret (Some e)
         else do {
           t \<leftarrow> time_Now;
           if \<not> t < deadline then ret (Some (Err ''helper active-state lock timed out'')) else poll_active_lock fuel deadline } }"

definition acquireActiveStateLock :: "duration \<Rightarrow> ('d world, err option) state" where
  "acquireActiveStateLock timeout = do {
     r \<leftarrow> calls [''inspect helper active-state lock: %w'', ''helper active-state lock: %w'', ''open helper active-state lock: %w'',
       ''secure helper active-state lock: %w''];
     or_return r Some (do {
       t \<leftarrow> time_Now;
       poll_active_lock (Suc (nat (timeout div (10 * Millisecond)))) (t + timeout) }) }"

subsection \<open>Preflight and schedule\<close>

definition daemon_preflight :: "DaemonConfig \<Rightarrow> PowerRequest option \<Rightarrow> daemonResponse dop" where
  "daemon_preflight c request =
     (case request of
        None \<Rightarrow> ret (daemon_failure ''invalid_request'' ''preflight requires a power request'')
      | Some q \<Rightarrow>
          if validateHelperRequest q \<noteq> None then ret (daemon_failure ''policy_rejected'' ''%s'')
          else do {
            e \<leftarrow> ask HostChecked (dc_HostCheck c);
            if e \<noteq> None then ret (daemon_failure ''platform_unsupported'' ''%s'')
            else do {
              (active, e) \<leftarrow> loadActive;
              if e \<noteq> None then ret (daemon_failure ''state_error'' ''helper state is unreadable'')
              else if active \<noteq> None then
                ret (daemon_failure ''active_job_conflict'' ''another machine power job is unresolved'')
              else ret (daemon_ok\<lparr>ds_Capabilities := Some (helperCapabilities\<lparr>cap_ExecuteSupported := True, cap_Reason := []\<rparr>)\<rparr>) } })"

definition timer_command :: "DaemonConfig \<Rightarrow> PowerRequest \<Rightarrow> string list" where
  "timer_command c q =
     [dc_SystemdRunPath c, ''--quiet'', ''--collect'', ''--unit='' @ SystemdUnitToken (req_JobID q),
      ''--on-active='' @ int_str (req_Delay q div Second) @ ''s'',
      ''--timer-property=AccuracySec=1s'', ''--property=Type=oneshot'', ''--property=NoNewPrivileges=yes'',
      ''--property=PrivateTmp=yes'', ''--property=ProtectHome=yes'', ''--property=RestrictAddressFamilies=AF_UNIX'',
      dc_HelperPath c, ''--fire-job='' @ req_JobID q, ''--state-dir='' @ dc_StateDirectory c]"

definition stop_command :: "DaemonConfig \<Rightarrow> string \<Rightarrow> string list" where
  "stop_command c token = [dc_SystemctlPath c, ''stop'', token @ ''.timer'', token @ ''.service'']"

definition daemon_intent :: "uid \<Rightarrow> PowerRequest \<Rightarrow> time \<Rightarrow> string \<Rightarrow> activeState" where
  "daemon_intent uid q now boot =
     \<lparr>as_SchemaVersion = 1, as_OwnerUID = uid, as_Phase = ''intent'',
      as_Receipt = SealReceipt (zero_Receipt\<lparr>rcp_Platform := ''linux-systemd'', rcp_BackendID := ''linux-systemd-helper'',
        rcp_BackendVersion := ''1'', rcp_JobID := req_JobID q, rcp_Action := req_Action q,
        rcp_RequestedAt := req_RequestedAt q, rcp_ScheduledAt := now, rcp_Deadline := now + req_Delay q,
        rcp_ExternalToken := SystemdUnitToken (req_JobID q), rcp_CancelScope := CancelScopeJob, rcp_BootID := boot,
        rcp_ResultSummary := ''helper intent persisted before systemd scheduling''\<rparr>)\<rparr>"

definition accepted_of :: "activeState \<Rightarrow> activeState" where
  "accepted_of s = s\<lparr>as_Phase := ''scheduled'', as_Receipt := SealReceipt ((as_Receipt s)\<lparr>rcp_ResultCode := 0,
     rcp_ResultSummary := ''systemd accepted a job-specific transient shutdown timer''\<rparr>)\<rparr>"

text \<open>What \<open>schedule\<close> does with the intent: save it, call systemd, save the outcome.\<close>

definition start_timer :: "DaemonConfig \<Rightarrow> PowerRequest \<Rightarrow> activeState \<Rightarrow> daemonResponse dop" where
  "start_timer c q intent = do {
     e \<leftarrow> saveActive intent;
     if e \<noteq> None then ret (daemon_failure ''state_error'' ''could not persist helper action intent'')
     else do {
       (exitCode, _, runErr) \<leftarrow> run_command c (timer_command c q);
       if runErr \<noteq> None \<or> exitCode \<noteq> 0 then do {
         e \<leftarrow> saveActive (intent\<lparr>as_Phase := ''schedule_unverified''\<rparr>);
         ret (if e \<noteq> None then daemon_failure ''state_error'' ''systemd outcome and helper recovery state are both uncertain''
              else daemon_failure ''schedule_failed'' ''systemd scheduling outcome is unknown; cancel or reconcile this job'') }
       else do {
         let accepted = accepted_of intent;
         e \<leftarrow> saveActive accepted;
         if e \<noteq> None then do {
           _ \<leftarrow> run_command c (stop_command c (SystemdUnitToken (req_JobID q)));
           ret (daemon_failure ''state_error'' ''timer accepted but receipt persistence failed; rollback was attempted'') }
         else ret (daemon_ok\<lparr>ds_Receipt := Some (as_Receipt accepted)\<rparr>) } } }"

definition daemon_schedule :: "DaemonConfig \<Rightarrow> uid \<Rightarrow> PowerRequest option \<Rightarrow> daemonResponse dop" where
  "daemon_schedule c uid request =
     (case request of
        None \<Rightarrow> ret (daemon_failure ''invalid_request'' ''schedule requires a power request'')
      | Some q \<Rightarrow> do {
          response \<leftarrow> daemon_preflight c (Some q);
          if \<not> ds_OK response then ret response
          else do {
            now \<leftarrow> daemon_now;
            boot \<leftarrow> linuxBootID c;
            start_timer c q (daemon_intent uid q now boot) } })"

subsection \<open>Cancel and reconcile\<close>

definition busy_status :: "string \<Rightarrow> bool" where
  "busy_status s \<longleftrightarrow> s \<in> {''active'', ''activating'', ''reloading'', ''deactivating''}"

fun units_inactive :: "DaemonConfig \<Rightarrow> string list \<Rightarrow> (bool \<times> err option) dop" where
  "units_inactive c [] = ret (True, None)"
| "units_inactive c (unit # units) = do {
     (exitCode, output, runErr) \<leftarrow> run_command c [dc_SystemctlPath c, ''is-active'', unit];
     let status = ToLower (TrimSpace output);
     if exitCode = 0 \<or> busy_status status then ret (False, None)
     else if status \<noteq> ''inactive'' \<and> status \<noteq> ''failed'' \<and> status \<noteq> ''unknown'' then
       ret (False, Some (case runErr of Some e \<Rightarrow> e | None \<Rightarrow> Err ''unexpected systemd unit state %q''))
     else units_inactive c units }"

definition unitsInactive :: "DaemonConfig \<Rightarrow> string \<Rightarrow> (bool \<times> err option) dop" where
  "unitsInactive c token = units_inactive c [token @ ''.timer'', token @ ''.service'']"

definition foreign :: "activeState \<Rightarrow> uid \<Rightarrow> Receipt \<Rightarrow> bool" where
  "foreign active uid receipt \<longleftrightarrow> as_OwnerUID active \<noteq> uid \<or> rcp_JobID (as_Receipt active) \<noteq> rcp_JobID receipt \<or>
     rcp_ExternalToken (as_Receipt active) \<noteq> rcp_ExternalToken receipt"

definition clear_timer :: "DaemonConfig \<Rightarrow> string \<Rightarrow> int \<Rightarrow> daemonResponse dop" where
  "clear_timer c token exitCode = do {
     _ \<leftarrow> run_command c [dc_SystemctlPath c, ''reset-failed'', token @ ''.timer'', token @ ''.service''];
     e \<leftarrow> removeActive;
     ret (if e \<noteq> None then daemon_failure ''state_error'' ''timer stopped but helper state cleanup failed''
          else daemon_ok\<lparr>ds_CancelResult := Some \<lparr>cr_Cancelled = True, cr_NoActionInProgress = False, cr_Scope = CancelScopeJob,
            cr_ResultCode = exitCode, cr_ResultSummary = ''job-specific systemd timer stopped''\<rparr>\<rparr>) }"

definition daemon_cancel :: "DaemonConfig \<Rightarrow> uid \<Rightarrow> Receipt option \<Rightarrow> daemonResponse dop" where
  "daemon_cancel c uid request =
     (case request of
        None \<Rightarrow> ret (daemon_failure ''invalid_request'' ''cancel requires a valid Linux helper receipt'')
      | Some receipt \<Rightarrow>
          if validateSystemdReceipt receipt \<noteq> None then
            ret (daemon_failure ''invalid_request'' ''cancel requires a valid Linux helper receipt'')
          else do {
            (found, e) \<leftarrow> loadActive;
            if e \<noteq> None then ret (daemon_failure ''state_error'' ''helper state is unreadable'')
            else (case found of
              None \<Rightarrow> ret ((daemon_failure ''no_action_in_progress'' ''no DoneThen timer is active'')\<lparr>ds_CancelResult :=
                Some \<lparr>cr_Cancelled = False, cr_NoActionInProgress = True, cr_Scope = CancelScopeJob, cr_ResultCode = 0,
                  cr_ResultSummary = ''helper has no active DoneThen job''\<rparr>\<rparr>)
            | Some active \<Rightarrow>
                if foreign active uid receipt then
                  ret (daemon_failure ''peer_rejected'' ''receipt does not belong to this peer'')
                else do {
                  let token = rcp_ExternalToken (as_Receipt active);
                  (exitCode, _, runErr) \<leftarrow> run_command c (stop_command c token);
                  if runErr \<noteq> None \<or> exitCode \<noteq> 0 then do {
                    (inactive, verifyErr) \<leftarrow> unitsInactive c token;
                    if verifyErr \<noteq> None \<or> \<not> inactive then
                      ret (daemon_failure ''cancel_failed'' ''systemd did not confirm timer cancellation'')
                    else clear_timer c token exitCode }
                  else clear_timer c token exitCode }) })"

definition reconciled :: "ReconcileState \<Rightarrow> time \<Rightarrow> string \<Rightarrow> string \<Rightarrow> daemonResponse" where
  "reconciled state now boot evidence = daemon_ok\<lparr>ds_Reconcile :=
     Some \<lparr>rr_State = state, rr_CheckedAt = now, rr_CurrentBootID = boot, rr_Evidence = evidence\<rparr>\<rparr>"

definition daemon_reconcile :: "DaemonConfig \<Rightarrow> uid \<Rightarrow> Receipt option \<Rightarrow> daemonResponse dop" where
  "daemon_reconcile c uid request =
     (case request of
        None \<Rightarrow> ret (daemon_failure ''invalid_request'' ''reconcile requires a valid Linux helper receipt'')
      | Some receipt \<Rightarrow>
          if validateSystemdReceipt receipt \<noteq> None then
            ret (daemon_failure ''invalid_request'' ''reconcile requires a valid Linux helper receipt'')
          else do {
            (found, e) \<leftarrow> loadActive;
            if e \<noteq> None then ret (daemon_failure ''state_error'' ''helper state is unreadable'')
            else do {
              now \<leftarrow> daemon_now;
              boot \<leftarrow> linuxBootID c;
              case found of
                None \<Rightarrow> ret (reconciled ReconcileUnverified now boot
                  ''helper has no matching active state and cannot independently prove poweroff'')
              | Some active \<Rightarrow>
                  if foreign active uid receipt then
                    ret (daemon_failure ''peer_rejected'' ''receipt does not belong to this peer'')
                  else do {
                    (inactive, unitErr) \<leftarrow> unitsInactive c (rcp_ExternalToken (as_Receipt active));
                    if as_Phase active = ''scheduled'' \<and> now < rcp_Deadline (as_Receipt active) \<and>
                       rcp_BootID (as_Receipt active) = boot \<and> unitErr = None \<and> \<not> inactive then
                      ret (reconciled ReconcileScheduled now boot
                        ''helper state and an active job-specific systemd unit match before the recorded deadline'')
                    else if unitErr \<noteq> None \<or> \<not> inactive then
                      ret (reconciled ReconcileUnverified now boot
                        ''helper cannot prove execution and the matching systemd units are not confirmed inactive'')
                    else do {
                      e \<leftarrow> removeActive;
                      ret (if e \<noteq> None then
                             daemon_failure ''state_error'' ''matching systemd units are inactive but helper state cleanup failed''
                           else reconciled ReconcileUnverified now boot
                             ''matching systemd units are inactive; helper recovery state was released without scheduling another action'') } } } })"

subsection \<open>Serving a peer\<close>

definition process :: "DaemonConfig \<Rightarrow> uid \<Rightarrow> daemonRequest \<Rightarrow> daemonResponse dop" where
  "process c uid request = do {
     e \<leftarrow> store (acquireActiveStateLock (2 * Second));
     if e \<noteq> None then ret (daemon_failure ''state_busy'' ''helper state is busy; retry without scheduling another action'')
     else if dr_SchemaVersion request \<noteq> daemonProtocolVersion then
       ret (daemon_failure ''invalid_request'' ''unsupported helper protocol'')
     else if dr_Operation request = ''preflight'' then daemon_preflight c (dr_Request request)
     else if dr_Operation request = ''schedule'' then daemon_schedule c uid (dr_Request request)
     else if dr_Operation request = ''cancel'' then daemon_cancel c uid (dr_Receipt request)
     else if dr_Operation request = ''reconcile'' \<or> dr_Operation request = ''status'' then daemon_reconcile c uid (dr_Receipt request)
     else ret (daemon_failure ''invalid_request'' ''unsupported helper operation'') }"

text \<open>\<open>serveConnection\<close>, from the peer credentials and the decoded request, to the response it encodes.\<close>

definition serveConnection :: "DaemonConfig \<Rightarrow> err + uid \<Rightarrow> err + daemonRequest \<Rightarrow> daemonResponse dop" where
  "serveConnection c peer request =
     (case peer of
        Inl _ \<Rightarrow> ret (daemon_failure ''peer_rejected'' ''peer credentials are unavailable'')
      | Inr uid \<Rightarrow>
          (case request of
             Inl _ \<Rightarrow> ret (daemon_failure ''invalid_request'' ''%s'')
           | Inr r \<Rightarrow> process c uid r))"

subsection \<open>The timer callback\<close>

definition poweroff_command :: "DaemonConfig \<Rightarrow> string list" where
  "poweroff_command c = [dc_SystemctlPath c, ''poweroff'']"

text \<open>The record after a refusal; an error of saving it is ignored.\<close>

definition refuse_fire :: "activeState \<Rightarrow> string \<Rightarrow> err option dop" where
  "refuse_fire active message = do {
     _ \<leftarrow> saveActive (active\<lparr>as_Phase := ''fire_unverified''\<rparr>);
     ret (Some (Err message)) }"

definition power_off :: "DaemonConfig \<Rightarrow> activeState \<Rightarrow> err option dop" where
  "power_off c active = do {
     let active = active\<lparr>as_Phase := ''firing''\<rparr>;
     e \<leftarrow> saveActive active;
     if e \<noteq> None then ret e
     else do {
       (exitCode, _, runErr) \<leftarrow> run_command c (poweroff_command c);
       if runErr \<noteq> None \<or> exitCode \<noteq> 0 then do {
         _ \<leftarrow> saveActive (active\<lparr>as_Phase := ''fire_unverified''\<rparr>);
         ret (Some (Wrap ''request system poweroff: %w''
           (case runErr of Some e \<Rightarrow> e | None \<Rightarrow> Err ''systemctl exited with code %d''))) }
       else ret None } }"

definition fire_loaded :: "DaemonConfig \<Rightarrow> string \<Rightarrow> activeState \<Rightarrow> err option dop" where
  "fire_loaded c jobID active =
     (if as_Phase active \<noteq> ''scheduled'' \<or> rcp_JobID (as_Receipt active) \<noteq> jobID \<or>
         rcp_ExternalToken (as_Receipt active) \<noteq> SystemdUnitToken jobID then
        ret (Some (Err ''timer callback does not match the scheduled DoneThen job''))
      else do {
        boot \<leftarrow> linuxBootID c;
        if boot = [] \<or> rcp_BootID (as_Receipt active) = [] \<or> boot \<noteq> rcp_BootID (as_Receipt active) then
          refuse_fire active ''timer callback boot identity changed; keeping the machine on''
        else do {
          now \<leftarrow> daemon_now;
          if now < rcp_Deadline (as_Receipt active) then
            refuse_fire active ''timer callback arrived before its persisted deadline''
          else if time_Sub now (rcp_Deadline (as_Receipt active)) > dc_MaxFireLateness c then do {
            e \<leftarrow> saveActive (active\<lparr>as_Phase := ''expired''\<rparr>);
            ret (case e of Some x \<Rightarrow> Some x
                 | None \<Rightarrow> Some (Err ''timer callback exceeded maximum lateness; keeping the machine on'')) }
          else power_off c active } })"

definition firePrepared :: "DaemonConfig \<Rightarrow> string \<Rightarrow> err option dop" where
  "firePrepared config jobID =
     or_return (ValidateJobID jobID) Some (
       let c = withDefaults config in
       if dc_MaxFireLateness c > 5 * Minute then
         ret (Some (Err ''maximum timer lateness exceeds the helper safety limit''))
       else do {
         e \<leftarrow> store (acquireActiveStateLock (10 * Second));
         or_return e Some (do {
           (found, e) \<leftarrow> loadActive;
           case e of
             Some x \<Rightarrow> ret (Some x)
           | None \<Rightarrow>
               (case found of
                  None \<Rightarrow> ret (Some (Err ''timer callback has no active DoneThen job''))
                | Some active \<Rightarrow> fire_loaded c jobID active) }) })"

text \<open>\<open>prepareRootDirectory\<close>: the directory is made, inspected and has to be owned by root alone.\<close>

definition prepareRootDirectory :: "string \<Rightarrow> ('d world, err option) state" where
  "prepareRootDirectory path =
     (if \<not> path_IsAbs path then ret (Some (Err ''helper state directory must be absolute''))
      else calls [''%w'', ''helper state directory has unsafe metadata: %w'', ''helper state directory must be root-owned: %w''])"

definition Fire :: "DaemonConfig \<Rightarrow> uid \<Rightarrow> string \<Rightarrow> err option dop" where
  "Fire config euid jobID =
     (if euid \<noteq> 0 then ret (Some (Err ''the Linux timer callback must run as root''))
      else (let c = withDefaults config in do {
        e \<leftarrow> store (prepareRootDirectory (dc_StateDirectory c));
        or_return e Some (firePrepared c jobID) }))"

end
