(* ===== verification/Daemon_Laws.thy ===== *)
theory Daemon_Laws
  imports Power_Daemon
begin

text \<open>
  What the privileged helper guarantees: the life cycle of its record, when it powers off and how often, and
  that a peer cannot touch the action of another user.
\<close>

subsection \<open>Reading the log\<close>

fun is_poweroff :: "DaemonConfig \<Rightarrow> daemon_effect \<Rightarrow> bool" where
  "is_poweroff c (Ran argv _ _ _) \<longleftrightarrow> argv = poweroff_command c"
| "is_poweroff c _ = False"

text \<open>A timer that systemd accepted.\<close>

fun is_accepted :: "daemon_effect \<Rightarrow> bool" where
  "is_accepted (Ran (_ # opt # _) x _ e) \<longleftrightarrow> opt = ''--quiet'' \<and> x = 0 \<and> e = None"
| "is_accepted _ = False"

fun is_command :: "daemon_effect \<Rightarrow> bool" where
  "is_command (Ran _ _ _ _) = True"
| "is_command _ = False"

fun is_write :: "daemon_effect \<Rightarrow> bool" where
  "is_write (ActiveSaved _ _) = True"
| "is_write (ActiveRemoved _) = True"
| "is_write _ = False"

lemmas daemon_calls = loadActive_def saveActive_def removeActive_def daemon_now_def linuxBootID_def run_command_def

lemma commands_differ [simp]:
  "poweroff_command c \<noteq> timer_command c' q" "poweroff_command c \<noteq> stop_command c' t"
  "timer_command c' q \<noteq> poweroff_command c" "stop_command c' t \<noteq> poweroff_command c"
  "[p, o', u] \<noteq> poweroff_command c" "[p, o', u, v] \<noteq> poweroff_command c"
  by (simp_all add: poweroff_command_def timer_command_def stop_command_def)

subsection \<open>When the machine is powered off\<close>

fun fire_ok :: "DaemonConfig \<Rightarrow> string \<Rightarrow> daemon_effect list \<Rightarrow> bool" where
  "fire_ok c jobID (ActiveLoaded (Some a) None # BootRead boot # ClockRead now # ActiveSaved a' None # Ran argv _ _ _ # l) =
     (argv = poweroff_command c \<and> \<not> list_ex (is_poweroff c) l \<and> a' = a\<lparr>as_Phase := ''firing''\<rparr> \<and>
      as_Phase a = ''scheduled'' \<and> rcp_JobID (as_Receipt a) = jobID \<and>
      rcp_ExternalToken (as_Receipt a) = SystemdUnitToken jobID \<and> boot \<noteq> [] \<and> rcp_BootID (as_Receipt a) = boot \<and>
      rcp_Deadline (as_Receipt a) \<le> now \<and> time_Sub now (rcp_Deadline (as_Receipt a)) \<le> dc_MaxFireLateness c \<and>
      dc_MaxFireLateness c \<le> 5 * Minute)"
| "fire_ok c jobID l = (\<not> list_ex (is_poweroff c) l)"

subsection \<open>The life cycle of the record\<close>

text \<open>No record, or a record in a phase.\<close>

inductive life :: "string option \<Rightarrow> string option \<Rightarrow> bool" where
  announce: "life None (Some ''intent'')"
| accept: "life (Some ''intent'') (Some ''scheduled'')"
| doubt: "life (Some ''intent'') (Some ''schedule_unverified'')"
| fire: "life (Some ''scheduled'') (Some ''firing'')"
| refuse: "life (Some ''scheduled'') (Some ''fire_unverified'')"
| expire: "life (Some ''scheduled'') (Some ''expired'')"
| failed: "life (Some ''firing'') (Some ''fire_unverified'')"
| settle: "life (Some p) None"

inductive_simps life_simps [simp]: "life p (Some q)" "life p None"



text \<open>Every change of the record that a log shows is a step from what was read or written last.\<close>

fun life_path :: "string option \<Rightarrow> daemon_effect list \<Rightarrow> bool" where
  "life_path p [] = True"
| "life_path p (ActiveLoaded s e # l) = life_path (if e = None then map_option as_Phase s else p) l"
| "life_path p (ActiveSaved s _ # l) = (life p (Some (as_Phase s)) \<and> life_path (Some (as_Phase s)) l)"
| "life_path p (ActiveRemoved _ # l) = (life p None \<and> life_path None l)"
| "life_path p (_ # l) = life_path p l"

text \<open>After reading a record of another user nothing is run, saved or removed.\<close>

fun honours :: "uid \<Rightarrow> daemon_effect list \<Rightarrow> bool" where
  "honours uid [] = True"
| "honours uid (e # l) =
     ((case e of
         ActiveLoaded (Some a) None \<Rightarrow> as_OwnerUID a = uid \<or> \<not> list_ex is_command l \<and> \<not> list_ex is_write l
       | _ \<Rightarrow> True) \<and> honours uid l)"

subsection \<open>Connections\<close>

definition served :: "DaemonConfig \<Rightarrow> uid \<Rightarrow> string option \<Rightarrow> daemon_effect list \<Rightarrow> bool" where
  "served c uid p l \<longleftrightarrow> \<not> list_ex (is_poweroff c) l \<and> life_path p l \<and> honours uid l"

text \<open>Commands that ask systemd for the state of units.\<close>

definition asking :: "daemon_effect list \<Rightarrow> bool" where
  "asking l \<longleftrightarrow> list_all (\<lambda>e. case e of Ran argv _ _ _ \<Rightarrow> length argv = 3 | _ \<Rightarrow> False) l"

lemma asking_simps [simp]: "asking []" "asking (Ran argv x out e # l) \<longleftrightarrow> length argv = 3 \<and> asking l"
  by (simp_all add: asking_def)

lemma asking_served:
  assumes "asking l'"
  shows "list_ex (is_poweroff c) (l' @ l) = list_ex (is_poweroff c) l" "life_path p (l' @ l) = life_path p l"
    "honours uid (l' @ l) = honours uid l"
  using assms by (induction l') (auto simp: asking_def poweroff_command_def split: daemon_effect.splits)

lemma asking_alone:
  assumes "asking l'"
  shows "\<not> list_ex (is_poweroff c) l'" "life_path p l'" "honours uid l'"
  using asking_served [OF assms, where l = "[]"] by simp_all

lemma units_inactive_asking: "emits (units_inactive c us) (\<lambda>_ l. asking l)"
proof (induction us)
  case (Cons u us)
  show ?case
    unfolding units_inactive.simps Let_def daemon_calls
    by (intro emit_rules) (auto intro!: emits_mono [OF Cons])
qed simp

lemma unitsInactive_then:
  assumes "\<And>r l'. asking l' \<Longrightarrow> emits (k r) (\<lambda>x l. P x (l' @ l))"
  shows "emits (unitsInactive c t \<bind> k) P"
  unfolding unitsInactive_def
  by (rule emits_bind, rule emits_mono [OF units_inactive_asking]) (rule assms)

text \<open>A successful preflight has found no record.\<close>

lemma preflight_emits:
  "emits (daemon_preflight c request)
     (\<lambda>response l. if ds_OK response then l = [HostChecked None, ActiveLoaded None None] else served c uid p l)"
  unfolding daemon_preflight_def daemon_calls
  by (intro emit_rules) (auto simp: served_def daemon_ok_def daemon_failure_def blank_response_def split: option.splits)

lemma schedule_served: "emits (daemon_schedule c uid request) (\<lambda>_. served c uid p)"
proof -
  have timer: "emits (start_timer c q (daemon_intent uid q now boot))
      (\<lambda>_ l. served c uid p (HostChecked None # ActiveLoaded None None # ClockRead now # BootRead boot # l))" for q now boot
    unfolding start_timer_def daemon_calls Let_def
    by (intro emit_rules) (simp_all add: served_def daemon_intent_def accepted_of_def split: prod.splits)
  show ?thesis
    unfolding daemon_schedule_def daemon_calls
    by (intro emits_option emits_ret, simp add: served_def, rule emits_bind, rule emits_mono [OF preflight_emits [where uid = uid and p = p]])
      (auto intro!: emits_noted_then emits_ask_then timer)
qed

lemma cancel_served: "emits (daemon_cancel c uid request) (\<lambda>_. served c uid p)"
  unfolding daemon_cancel_def clear_timer_def Let_def daemon_calls
  by (intro emit_rules unitsInactive_then)
    (auto simp: served_def asking_served asking_alone foreign_def split: option.splits)

lemma reconcile_served: "emits (daemon_reconcile c uid request) (\<lambda>_. served c uid p)"
  unfolding daemon_reconcile_def Let_def daemon_calls
  by (intro emit_rules unitsInactive_then)
    (auto simp: served_def asking_served asking_alone foreign_def split: option.splits)

lemma process_served: "emits (process c uid request) (\<lambda>_. served c uid p)"
proof -
  have preflight: "emits (daemon_preflight c request) (\<lambda>_. served c uid p)" for request
    by (rule emits_mono [OF preflight_emits [where uid = uid and p = p]]) (auto simp: served_def split: if_splits)
  have none: "served c uid p []" by (simp add: served_def)
  show ?thesis
    unfolding process_def
    by (intro emit_rules preflight schedule_served cancel_served reconcile_served none)
qed

subsection \<open>The timer callback\<close>

text \<open>
  C3: The helper powers off only in the timer callback, as its last command before it may note a
  failure, and only for the scheduled record of the called job: the boot identity is the recorded one,
  the recorded deadline has come and is at most the configured lateness (five minutes at most) ago, and
  the phase \<open>firing\<close> has been saved. No request of a peer powers off.
\<close>

theorem poweroff_justified:
  "emits (firePrepared c jobID) (\<lambda>_ l. fire_ok (withDefaults c) jobID l) \<and>
   emits (serveConnection c peer request) (\<lambda>_ l. \<not> list_ex (is_poweroff c) l)"
proof
  show "emits (firePrepared c jobID) (\<lambda>_ l. fire_ok (withDefaults c) jobID l)"
    unfolding firePrepared_def fire_loaded_def refuse_fire_def power_off_def or_return_def Let_def daemon_calls
    by (intro emit_rules) (auto split: prod.splits)
  show "emits (serveConnection c peer request) (\<lambda>_ l. \<not> list_ex (is_poweroff c) l)"
    unfolding serveConnection_def
    by (intro emit_rules) (auto simp: served_def intro: emits_mono [OF process_served])
qed

lemma fire_life: "emits (firePrepared c jobID) (\<lambda>_ l. life_path p l)"
  unfolding firePrepared_def fire_loaded_def refuse_fire_def power_off_def or_return_def Let_def daemon_calls
  by (intro emit_rules) (simp_all split: prod.splits)

text \<open>
  C8: Requests and timer callbacks refine the life cycle of the record: every phase that they save, and
  every removal, is a step of the cycle from what they read or wrote last.
\<close>

theorem operations_refine_life_cycle:
  "emits (process c uid request) (\<lambda>_ l. life_path p l) \<and> emits (Fire c' euid jobID) (\<lambda>_ l. life_path p l)"
proof
  show "emits (process c uid request) (\<lambda>_ l. life_path p l)"
    by (rule emits_mono [OF process_served [where p = p]]) (simp add: served_def)
  show "emits (Fire c' euid jobID) (\<lambda>_ l. life_path p l)"
    unfolding Fire_def Let_def or_return_def by (intro emit_rules fire_life) simp_all
qed

text \<open>
  C21: A peer cannot touch the action of another user: once a request has read a record of another owner,
  it runs no command, saves nothing and removes nothing.
\<close>

theorem peer_isolated: "emits (process c uid request) (\<lambda>_ l. honours uid l)"
  by (rule emits_mono [OF process_served [where p = None]]) (simp add: served_def)

subsection \<open>One poweroff for each timer\<close>

definition scheduled_on :: "daemon_disk \<Rightarrow> bool" where
  "scheduled_on d \<longleftrightarrow> (case hd_active d of Some (Decoded s) \<Rightarrow> as_Phase s = ''scheduled'' | _ \<Rightarrow> False)"

definition held :: "(daemon_disk, daemon_effect) traced \<Rightarrow> nat" where
  "held s = (if scheduled_on (disk (pw_world s)) then 1 else 0)"

definition poweroffs :: "DaemonConfig \<Rightarrow> daemon_effect list \<Rightarrow> nat" where
  "poweroffs c l = length (filter (is_poweroff c) l)"

definition accepted_timers :: "daemon_effect list \<Rightarrow> nat" where
  "accepted_timers l = length (filter is_accepted l)"

text \<open>No other process writes the record: it is owned by root and changed under its lock.\<close>

definition helper_owned :: "(daemon_disk, daemon_effect) traced \<Rightarrow> bool" where
  "helper_owned s \<longleftrightarrow> (\<forall>k d. hd_active (others (pw_world s) k d) = hd_active d)"

text \<open>The poweroffs of a step, and a scheduled record that it leaves, are paid by accepted timers.\<close>

definition funded :: "DaemonConfig \<Rightarrow> (daemon_disk, daemon_effect) traced \<Rightarrow> (daemon_disk, daemon_effect) traced \<Rightarrow> bool" where
  "funded c s s' \<longleftrightarrow> (helper_owned s \<longrightarrow> helper_owned s' \<and>
     (\<exists>new. pw_log s' = pw_log s @ new \<and> poweroffs c new + held s' \<le> accepted_timers new + held s))"

lemma counts_append [simp]: "poweroffs c (l @ m) = poweroffs c l + poweroffs c m" "accepted_timers (l @ m) = accepted_timers l + accepted_timers m"
  "poweroffs c [] = 0" "accepted_timers [] = 0"
  by (simp_all add: poweroffs_def accepted_timers_def)

lemma counts_Cons [simp]: "poweroffs c (e # l) = (if is_poweroff c e then 1 else 0) + poweroffs c l"
  "accepted_timers (e # l) = (if is_accepted e then 1 else 0) + accepted_timers l"
  by (simp_all add: poweroffs_def accepted_timers_def)

lemma funded_trans:
  assumes "funded c s s'" "funded c s' s''"
  shows "funded c s s''"
  unfolding funded_def
proof (intro impI)
  assume "helper_owned s"
  then obtain l m where l: "helper_owned s'" "pw_log s' = pw_log s @ l" "poweroffs c l + held s' \<le> accepted_timers l + held s"
      and m: "helper_owned s''" "pw_log s'' = pw_log s' @ m" "poweroffs c m + held s'' \<le> accepted_timers m + held s'"
    using assms unfolding funded_def by blast
  then show "helper_owned s'' \<and> (\<exists>new. pw_log s'' = pw_log s @ new \<and> poweroffs c new + held s'' \<le> accepted_timers new + held s)"
    by (intro conjI exI [of _ "l @ m"]) simp_all
qed

interpretation fund: journey "funded c" for c
  by unfold_locales (simp add: funded_def, rule funded_trans)

text \<open>Programs on the disk that schedule nothing.\<close>

definition owned :: "daemon_disk world \<Rightarrow> bool" where
  "owned w \<longleftrightarrow> (\<forall>k d. hd_active (others w k d) = hd_active d)"

definition kept :: "daemon_disk world \<Rightarrow> daemon_disk world \<Rightarrow> bool" where
  "kept w w' \<longleftrightarrow> others w' = others w \<and> (scheduled_on (disk w') \<longrightarrow> scheduled_on (disk w))"

definition tame :: "(daemon_disk world, 'a) state \<Rightarrow> bool" where
  "tame m \<longleftrightarrow> (\<forall>w. owned w \<longrightarrow> wp m (\<lambda>_. kept w) w)"

lemma tameD: "tame m \<Longrightarrow> owned w \<Longrightarrow> wp m (\<lambda>_. kept w) w"
  by (simp add: tame_def)

lemma kept_at [simp]: "owned (at w d n) = owned w" "kept (at w (disk w) n) = kept w"
  "kept w (at w d n) \<longleftrightarrow> (scheduled_on d \<longrightarrow> scheduled_on (disk w))"
  by (simp_all add: owned_def kept_def fun_eq_iff)

lemma kept_refl [simp]: "kept w w"
  by (simp add: kept_def)

lemma kept_others [simp]: "owned w \<Longrightarrow> scheduled_on (others w k d) = scheduled_on d"
  by (simp add: owned_def scheduled_on_def)

lemma kept_funded:
  assumes "owned (pw_world s)" "kept (pw_world s) w" "\<not> list_ex (is_poweroff c) l"
  shows "funded c s (s\<lparr>pw_world := w, pw_log := pw_log s @ l\<rparr>)"
proof -
  have "poweroffs c l = 0"
    using assms(3) by (induction l) (simp_all add: poweroffs_def)
  then show ?thesis
    using assms by (auto simp: funded_def held_def kept_def owned_def helper_owned_def)
qed

lemma disowned_funded: "\<not> owned (pw_world s) \<Longrightarrow> funded c s s'"
  by (auto simp: funded_def helper_owned_def owned_def)

lemma tame_funded:
  assumes "tame m"
  shows "steps (funded c) (store m)" and "(\<And>r. \<not> is_poweroff c (ev r)) \<Longrightarrow> steps (funded c) (noted ev m)"
proof -
  have step: "wp m (\<lambda>r w. funded c s (s\<lparr>pw_world := w, pw_log := pw_log s @ f r\<rparr>)) (pw_world s)"
    if "\<And>r. \<not> list_ex (is_poweroff c) (f r)" for s f
  proof (cases "owned (pw_world s)")
    case True
    show ?thesis
      by (rule wp_mono [OF tameD [OF assms True]]) (rule kept_funded [OF True _ that])
  next
    case False
    show ?thesis by (rule wp_any) (rule disowned_funded [OF False])
  qed
  show "steps (funded c) (store m)"
    using step [of "\<lambda>_. []"] by (simp add: steps_def)
  show "steps (funded c) (noted ev m)" if "\<And>r. \<not> is_poweroff c (ev r)"
    using step [of "\<lambda>r. [ev r]"] that by (simp add: steps_def noted_def)
qed

lemma tame_poll: "tame (poll_active_lock fuel d)"
proof (induction fuel)
  case 0
  then show ?case by (simp add: tame_def kept_def)
next
  case (Suc fuel)
  have rest: "owned w \<Longrightarrow> wp (poll_active_lock fuel d) (\<lambda>_. kept w) (at w (disk w) n)" for w n
    using tameD [OF Suc, of "at w (disk w) n"] by simp
  show ?case
    unfolding tame_def poll_active_lock.simps wp_bind
    by (auto simp: wp_case_option wp_if intro!: wp_call wp_sync wp_time_Now rest)
qed

lemma tame_lock: "tame (acquireActiveStateLock t)"
proof -
  have rest: "owned w \<Longrightarrow> wp (poll_active_lock fuel d) (\<lambda>_. kept w) (at w (disk w) n)" for w n fuel d
    using tameD [OF tame_poll, of "at w (disk w) n"] by simp
  show ?thesis
    unfolding tame_def acquireActiveStateLock_def wp_bind
    by (auto simp del: calls.simps poll_active_lock.simps intro!: wp_calls_seq wp_time_Now rest)
qed

lemma tame_reads: "tame (gets f)" "tame time_Now" "tame (prepareRootDirectory path)" "tame remove_active"
  by (auto simp: tame_def prepareRootDirectory_def remove_active_def scheduled_on_def wp_case_option wp_if simp del: calls.simps
      intro!: wp_call wp_time_Now wp_calls_seq)

lemma tame_save: "as_Phase s \<noteq> ''scheduled'' \<Longrightarrow> tame (AtomicWriteJSON (\<lambda>d. d\<lparr>hd_active := Some (Decoded s)\<rparr>))"
  by (auto simp: tame_def scheduled_on_def intro!: wp_AtomicWriteJSON)

lemma ask_funded: "(\<And>r. \<not> is_poweroff c (ev r)) \<Longrightarrow> steps (funded c) (ask ev f)"
  by (simp add: steps_def funded_def held_def helper_owned_def)

lemma call_funded [quiet_rules]:
  "steps (funded c) (store (acquireActiveStateLock t))" "steps (funded c) (store (prepareRootDirectory path))"
  "steps (funded c) loadActive" "steps (funded c) daemon_now" "steps (funded c) removeActive"
  "steps (funded c) (linuxBootID c')" "steps (funded c) (ask HostChecked g)"
  "as_Phase s \<noteq> ''scheduled'' \<Longrightarrow> steps (funded c) (saveActive s)"
  "argv \<noteq> poweroff_command c \<Longrightarrow> steps (funded c) (run_command c' argv)"
  unfolding daemon_calls
  by (intro tame_funded ask_funded tame_lock tame_reads tame_save; auto split: prod.splits)+

text \<open>The state after a call that is kept in the log.\<close>

abbreviation logs :: "(daemon_disk, daemon_effect) traced \<Rightarrow> daemon_disk world \<Rightarrow> daemon_effect list \<Rightarrow> (daemon_disk, daemon_effect) traced" where
  "logs s w l \<equiv> s\<lparr>pw_world := w, pw_log := pw_log s @ l\<rparr>"

lemma wp_saveActive:
  assumes "\<And>e n. Q (Some e) (logs s (at (pw_world s) (disk (pw_world s)) n) [ActiveSaved a (Some e)])"
    and "\<And>r n. Q r (logs s (at (pw_world s) ((disk (pw_world s))\<lparr>hd_active := Some (Decoded a)\<rparr>) n) [ActiveSaved a r])"
  shows "wp (saveActive a) Q s"
  unfolding saveActive_def noted_def wp_bind wp_store wp_get wp_set wp_return
  using assms by (auto intro!: wp_AtomicWriteJSON)

lemma funded_rest:
  assumes "steps (funded c) m" "funded c s s'"
  shows "wp m (\<lambda>_. funded c s) s'"
  by (rule wp_mono [OF stepsD [OF assms(1)]]) (rule funded_trans [OF assms(2)])

lemma wp_run_command:
  "(\<And>x out e. dc_Runner c (length (pw_log s)) argv = (x, out, e) \<Longrightarrow> Q (x, out, e) (s\<lparr>pw_log := pw_log s @ [Ran argv x out e]\<rparr>)) \<Longrightarrow>
     wp (run_command c argv) Q s"
  by (cases "dc_Runner c (length (pw_log s)) argv") (simp add: run_command_def)

lemma timer_accepted [simp]: "is_accepted (Ran (timer_command c q) 0 out None)"
  by (simp add: timer_command_def)

lemma start_timer_funded:
  assumes "as_Phase intent = ''intent''"
  shows "steps (funded c) (start_timer c' q intent)"
proof -
  have accepted: "wp (do {
        e \<leftarrow> saveActive (accepted_of intent);
        if e \<noteq> None then do {
          _ \<leftarrow> run_command c' (stop_command c' token);
          ret (daemon_failure ''state_error'' ''timer accepted but receipt persistence failed; rollback was attempted'') }
        else ret (daemon_ok\<lparr>ds_Receipt := Some (as_Receipt (accepted_of intent))\<rparr>) }) (\<lambda>_. funded c s)
      (s\<lparr>pw_log := pw_log s @ [Ran (timer_command c' q) 0 out None]\<rparr>)" for s token out
  proof -
    have saved: "funded c s (logs s (at (pw_world s) d n) [Ran (timer_command c' q) 0 out None, ActiveSaved (accepted_of intent) r])"
      if "d = disk (pw_world s) \<or> d = (disk (pw_world s))\<lparr>hd_active := Some (Decoded (accepted_of intent))\<rparr>" for d n r
      using that by (auto simp: funded_def held_def helper_owned_def)
    show ?thesis
      unfolding wp_bind
      by (intro wp_saveActive) (auto simp: saved intro!: funded_rest [OF call_funded(9)])
  qed
  have outcome: "steps (funded c) (do {
      (exitCode, out, runErr) \<leftarrow> run_command c' (timer_command c' q);
      if runErr \<noteq> None \<or> exitCode \<noteq> 0 then do {
        e \<leftarrow> saveActive (intent\<lparr>as_Phase := ''schedule_unverified''\<rparr>);
        ret (if e \<noteq> None then daemon_failure ''state_error'' ''systemd outcome and helper recovery state are both uncertain''
             else daemon_failure ''schedule_failed'' ''systemd scheduling outcome is unknown; cancel or reconcile this job'') }
      else do {
        e \<leftarrow> saveActive (accepted_of intent);
        if e \<noteq> None then do {
          _ \<leftarrow> run_command c' (stop_command c' (SystemdUnitToken (req_JobID q)));
          ret (daemon_failure ''state_error'' ''timer accepted but receipt persistence failed; rollback was attempted'') }
        else ret (daemon_ok\<lparr>ds_Receipt := Some (as_Receipt (accepted_of intent))\<rparr>) } })"
    unfolding steps_def wp_bind
  proof (intro allI wp_run_command, unfold prod.case wp_if, intro conjI impI, goal_cases)
    case (1 s x out e)
    have "funded c s (s\<lparr>pw_log := pw_log s @ [Ran (timer_command c' q) x out e]\<rparr>)"
      by (auto simp: funded_def held_def helper_owned_def)
    then show ?case
      by (auto intro!: funded_rest [OF call_funded(8)])
  next
    case (2 s x out e)
    then show ?case using accepted [of "SystemdUnitToken (req_JobID q)" s out] by simp
  qed
  show ?thesis
    unfolding start_timer_def Let_def by (intro quiet_rules outcome) (use assms in simp_all)
qed

lemma power_off_funded:
  assumes "scheduled_on (disk (pw_world s))"
  shows "wp (power_off c active) (\<lambda>_. funded c s) s"
proof -
  let ?firing = "active\<lparr>as_Phase := ''firing''\<rparr>"
  let ?saved = "\<lambda>n. logs s (at (pw_world s) ((disk (pw_world s))\<lparr>hd_active := Some (Decoded ?firing)\<rparr>) n) [ActiveSaved ?firing None]"
  have paid: "funded c s (?saved n\<lparr>pw_log := pw_log (?saved n) @ [Ran argv x out e]\<rparr>)" for n argv x out e
    using assms by (auto simp: funded_def held_def helper_owned_def scheduled_on_def)
  have unsaved: "funded c s (logs s (at (pw_world s) d n) [ActiveSaved ?firing r])"
    if "d = disk (pw_world s) \<or> d = (disk (pw_world s))\<lparr>hd_active := Some (Decoded ?firing)\<rparr>" for d n r
    using that by (auto simp: funded_def held_def helper_owned_def scheduled_on_def)
  show ?thesis
    unfolding power_off_def Let_def run_command_def wp_bind
    by (intro wp_saveActive)
      (auto simp: unsaved wp_if split: prod.splits intro!: paid [simplified] funded_rest [OF call_funded(8) paid [simplified]])
qed

lemma fire_loaded_funded:
  assumes "as_Phase active = ''scheduled'' \<Longrightarrow> scheduled_on (disk (pw_world s))"
  shows "wp (fire_loaded c jobID active) (\<lambda>_. funded c s) s"
proof -
  have quiet: "funded c s (s\<lparr>pw_log := pw_log s @ l\<rparr>)" "funded c s (logs s (at (pw_world s) (disk (pw_world s)) n) l)"
    if "\<not> list_ex (is_poweroff c) l" for l n
    using that kept_funded [of s "pw_world s" c l] kept_funded [of s "at (pw_world s) (disk (pw_world s)) n" c l] disowned_funded
    by (cases "owned (pw_world s)"; simp)+
  have refused: "wp (refuse_fire active m) (\<lambda>_. funded c s) s'" if "funded c s s'" for m s'
    unfolding refuse_fire_def by (rule funded_rest [OF _ that]) (intro quiet_rules; simp)
  have expired: "wp (saveActive (active\<lparr>as_Phase := ''expired''\<rparr>)) (\<lambda>_. funded c s) s'" if "funded c s s'" for s'
    by (rule funded_rest [OF call_funded(8) that]) simp
  have fired: "wp (power_off c active) (\<lambda>_. funded c s) s'" if "funded c s s'" "scheduled_on (disk (pw_world s'))" for s'
    by (rule wp_mono [OF power_off_funded [OF that(2)]]) (rule funded_trans [OF that(1)])
  show ?thesis
    unfolding fire_loaded_def linuxBootID_def daemon_now_def noted_def
    by (auto simp: wp_if quiet fund.stay assms intro!: refused wp_time_Now expired fired)
qed

lemma fire_funded: "steps (funded (withDefaults c)) (firePrepared c jobID)"
proof -
  let ?c = "withDefaults c"
  have loaded: "wp loadActive (\<lambda>r s'. case r of (found, e) \<Rightarrow> funded ?c s s' \<and>
      (\<forall>a. found = Some a \<longrightarrow> as_Phase a = ''scheduled'' \<longrightarrow> scheduled_on (disk (pw_world s')))) s" for s
  proof (rule wp_mono [OF wp_conj [OF stepsD [OF call_funded(3) [of ?c]]]])
    show "wp loadActive (\<lambda>r s'. \<forall>a. fst r = Some a \<longrightarrow> as_Phase a = ''scheduled'' \<longrightarrow> scheduled_on (disk (pw_world s'))) s"
      by (auto simp: loadActive_def noted_def read_active_def scheduled_on_def split: option.splits helper_file.splits if_splits)
  qed auto
  have after: "steps (funded ?c) (do {
      (found, e) \<leftarrow> loadActive;
      case e of
        Some x \<Rightarrow> ret (Some x)
      | None \<Rightarrow> (case found of
          None \<Rightarrow> ret (Some (Err ''timer callback has no active DoneThen job''))
        | Some active \<Rightarrow> fire_loaded ?c jobID active) })"
    unfolding steps_def wp_bind
  proof (intro allI, rule wp_mono [OF loaded], clarsimp simp: wp_case_option)
    fix s s' and a :: activeState
    assume "funded ?c s s'" "as_Phase a = ''scheduled'' \<longrightarrow> scheduled_on (disk (pw_world s'))"
    then show "wp (fire_loaded ?c jobID a) (\<lambda>r. funded ?c s) s'"
      by (intro wp_mono [OF fire_loaded_funded]) (auto intro: funded_trans)
  qed
  show ?thesis
    unfolding firePrepared_def Let_def by (intro quiet_rules after)
qed

lemma connection_funded: "steps (funded c) (serveConnection c peer request)"
proof -
  have units: "steps (funded c) (units_inactive c us)" for us
    by (induction us) (simp_all add: fund.steps_ret Let_def, intro quiet_rules, simp_all)
  show ?thesis
    unfolding serveConnection_def process_def daemon_preflight_def daemon_schedule_def daemon_cancel_def daemon_reconcile_def
      clear_timer_def unitsInactive_def Let_def
    by (intro quiet_rules units start_timer_funded) (simp_all add: daemon_intent_def)
qed

text \<open>The helper's life: requests of peers and callbacks of timers, in any order.\<close>

datatype daemon_op = Connection "err + uid" "err + daemonRequest" | TimerFired uid string

fun run_ops :: "DaemonConfig \<Rightarrow> daemon_op list \<Rightarrow> unit dop" where
  "run_ops c [] = ret ()"
| "run_ops c (Connection peer request # ops) = do { _ \<leftarrow> serveConnection (withDefaults c) peer request; run_ops c ops }"
| "run_ops c (TimerFired euid jobID # ops) = do { _ \<leftarrow> Fire c euid jobID; run_ops c ops }"

lemma withDefaults_idem [simp]: "withDefaults (withDefaults c) = withDefaults c"
  by (cases c) (simp add: withDefaults_def Let_def)

lemma run_ops_funded: "steps (funded (withDefaults c)) (run_ops c ops)"
proof (induction ops)
  case (Cons op ops)
  have fire: "steps (funded (withDefaults c)) (Fire c euid jobID)" for euid jobID
    unfolding Fire_def Let_def using fire_funded [of "withDefaults c"] by (intro quiet_rules) simp
  show ?case
    by (cases op) (simp_all, (intro quiet_rules Cons connection_funded fire)+)
qed (simp add: fund.steps_ret)

text \<open>
  C20: Over any sequence of requests and timer callbacks, with every failure of a save or a command, the
  helper powers off at most as often as systemd has accepted a timer, when no timer was scheduled before.
\<close>

theorem poweroff_at_most_once:
  assumes "helper_owned s" "\<not> scheduled_on (disk (pw_world s))"
  shows "wp (run_ops c ops) (\<lambda>_ s'. poweroffs (withDefaults c) (since s s') \<le> accepted_timers (since s s')) s"
  by (rule wp_mono [OF stepsD [OF run_ops_funded]])
    (use assms in \<open>auto simp: funded_def held_def since_def\<close>)

definition idle_helper :: "(daemon_disk, daemon_effect) traced" where
  "idle_helper = \<lparr>pw_world = quiet_world \<lparr>hd_active = None\<rparr>, pw_log = []\<rparr>"

definition plain_config :: DaemonConfig where
  "plain_config = \<lparr>dc_SocketPath = [], dc_StateDirectory = [], dc_GroupName = [], dc_HelperPath = [], dc_SystemdRunPath = [],
     dc_SystemctlPath = [], dc_MaxFireLateness = 0, dc_Runner = (\<lambda>_ _. (0, [], None)), dc_HostCheck = (\<lambda>_. None),
     dc_BootID = (\<lambda>_. ''boot'')\<rparr>"

theorem poweroff_at_most_once_witness:
  "wp (run_ops plain_config [TimerFired 0 ''dt_job_1'']) (\<lambda>_ s'. poweroffs (withDefaults plain_config) (since idle_helper s') \<le>
     accepted_timers (since idle_helper s')) idle_helper"
  by (rule poweroff_at_most_once) (simp_all add: idle_helper_def helper_owned_def quiet_world_def scheduled_on_def)

end
