(* ===== verification/Power_Backends.thy ===== *)
theory Power_Backends
  imports Power_Daemon
begin

text \<open>
  \<open>internal/actions\<close>: the power backends. The Linux backend talks to the privileged helper, the Windows one
  runs \<open>shutdown.exe\<close>, macOS and other systems refuse. What a backend asks for (a call of the helper, a
  process, the clock, the boot identity) is a program of its own, so that a backend can run against answers
  from outside or against the helper of \<open>Power_Daemon\<close>. A locale states the contract that the coordinators
  rely on; every backend is shown to keep it.
\<close>

subsection \<open>The helper client\<close>

type_synonym helperResponse = daemonResponse

definition no_response :: helperResponse where
  "no_response = blank_response\<lparr>ds_SchemaVersion := 0\<rparr>"

definition safeHelperMessage :: "string \<Rightarrow> string" where
  "safeHelperMessage value = take 256 (TrimSpace value)"

text \<open>\<open>unixHelperClient.Call\<close> on what the connection delivered: an error, or a decoded response.\<close>

definition helper_answer :: "err + helperResponse \<Rightarrow> helperResponse \<times> err option" where
  "helper_answer a =
     (case a of
        Inl e \<Rightarrow> (no_response, Some e)
      | Inr response \<Rightarrow>
          if ds_SchemaVersion response \<noteq> 1 then (no_response, Some (Err ''unsupported power helper protocol %d''))
          else if ds_OK response then (response, None)
          else (response, Some
            (if ds_ErrorCode response = ''no_action_in_progress'' then ErrNoShutdownInProgress
             else if ds_ErrorCode response = ''platform_unsupported'' then ErrPlatformUnsupported
             else if ds_ErrorCode response \<in> {''privilege_unavailable'', ''peer_rejected'', ''policy_rejected''} then ErrPrivilegeUnavailable
             else if ds_ErrorCode response = ''active_job_conflict'' then ErrPowerActionConflict
             else Wrap ''power helper rejected %s: %s'' (Err (safeHelperMessage (ds_Message response))))))"

definition helperRequest :: "string \<Rightarrow> PowerRequest option \<Rightarrow> Receipt option \<Rightarrow> daemonRequest" where
  "helperRequest operation request receipt =
     \<lparr>dr_SchemaVersion = 1, dr_Operation = operation, dr_Request = request, dr_Receipt = receipt\<rparr>"

text \<open>A connection: the request is sent and the answer awaited.\<close>

type_synonym 's transport = "daemonRequest \<Rightarrow> ('s, err + helperResponse) state"

definition client_Call :: "'s transport \<Rightarrow> string \<Rightarrow> PowerRequest option \<Rightarrow> Receipt option \<Rightarrow> ('s, helperResponse \<times> err option) state" where
  "client_Call send operation request receipt = do {
     a \<leftarrow> send (helperRequest operation request receipt);
     ret (helper_answer a) }"

subsection \<open>Linux\<close>

definition linuxCapabilities :: Capabilities where
  "linuxCapabilities = \<lparr>cap_Platform = ''linux-systemd'', cap_BackendID = ''linux-systemd-helper'', cap_ExecuteSupported = False,
     cap_CancelScope = CancelScopeJob, cap_MinimumDelay = 30 * Second, cap_MaximumDelay = 3600 * Second,
     cap_ReconcileSupported = True, cap_Reason = ''systemd power helper preflight has not completed''\<rparr>"

definition validateLinuxReceipt :: "Receipt \<Rightarrow> err option" where
  "validateLinuxReceipt r = checks [
     ValidateReceipt r,
     reject (rcp_Platform r \<noteq> ''linux-systemd'' \<or> rcp_BackendID r \<noteq> ''linux-systemd-helper'' \<or> rcp_CancelScope r \<noteq> CancelScopeJob)
       ''power receipt does not belong to the Linux systemd helper'',
     reject (TrimSpace (rcp_ExternalToken r) = []) ''Linux power receipt is missing its systemd unit token'']"

text \<open>
  \<open>validateLinuxHost\<close> on what the system says: the two files of \<open>/proc\<close>, whether the markers of a container
  exist, and the mode and the owner of the helper's socket (bit 1 of the mode lets others write).
\<close>

definition strings_Contains :: "string \<Rightarrow> string \<Rightarrow> bool" where
  "strings_Contains s part \<longleftrightarrow> list_ex (\<lambda>i. HasPrefix (drop i s) part) [0..<Suc (length s)]"

record linux_host =
  lh_Comm :: "err + string"
  lh_Release :: "err + string"
  lh_Markers :: "bool list"
  lh_Socket :: "err + (bool \<times> bool \<times> (nat \<times> nat) option)"

definition validateLinuxHost :: "linux_host \<Rightarrow> err option" where
  "validateLinuxHost h =
     (let unsupported = (\<lambda>m. Some (Wrap m ErrPlatformUnsupported)); unsafe = (\<lambda>m. Some (Wrap m ErrPrivilegeUnavailable)) in
      if (case lh_Comm h of Inl _ \<Rightarrow> True | Inr comm \<Rightarrow> TrimSpace comm \<noteq> ''systemd'') then unsupported ''%w: PID 1 is not systemd''
      else if (case lh_Release h of Inl _ \<Rightarrow> False | Inr release \<Rightarrow> strings_Contains (ToLower release) ''microsoft'') then
        unsupported ''%w: WSL is outside the Linux power profile''
      else if list_ex id (lh_Markers h) then unsupported ''%w: containers are outside the Linux power profile''
      else
        (case lh_Socket h of
           Inl _ \<Rightarrow> unsafe ''%w: Linux power helper socket is unavailable''
         | Inr (symlink, socket, owner) \<Rightarrow>
             if symlink \<or> \<not> socket then unsafe ''%w: Linux power helper endpoint is not a Unix socket''
             else (case owner of
                     None \<Rightarrow> unsafe ''%w: Linux power helper socket ownership or mode is unsafe''
                   | Some (uid, perm) \<Rightarrow>
                       if uid \<noteq> 0 \<or> bit perm 1 then unsafe ''%w: Linux power helper socket ownership or mode is unsafe''
                       else None)))"

text \<open>\<open>platform\<close> is the check of the host.\<close>

definition linux_Preflight :: "('s, err option) state \<Rightarrow> 's transport \<Rightarrow> PowerRequest \<Rightarrow> ('s, Capabilities \<times> err option) state" where
  "linux_Preflight platform send q =
     (let caps = linuxCapabilities in
      case ValidateRequest q (cap_MinimumDelay caps) (cap_MaximumDelay caps) of
        Some e \<Rightarrow> ret (caps, Some e)
      | None \<Rightarrow> do {
          p \<leftarrow> platform;
          case p of
            Some e \<Rightarrow> ret (caps\<lparr>cap_Reason := ''%s''\<rparr>, Some e)
          | None \<Rightarrow> do {
              (response, e) \<leftarrow> client_Call send ''preflight'' (Some q) None;
              ret (case e of
                     Some x \<Rightarrow> (caps\<lparr>cap_Reason := ''the installed Linux power helper did not pass preflight''\<rparr>, Some x)
                   | None \<Rightarrow>
                       (case ds_Capabilities response of
                          None \<Rightarrow> (caps, Some (Err ''Linux power helper returned incompatible capabilities''))
                        | Some given \<Rightarrow>
                            if cap_Platform given \<noteq> cap_Platform caps \<or> cap_BackendID given \<noteq> cap_BackendID caps \<or>
                               \<not> cap_ExecuteSupported given then
                              (caps, Some (Err ''Linux power helper returned incompatible capabilities''))
                            else (given, None))) } })"

definition linux_Schedule :: "('s, err option) state \<Rightarrow> 's transport \<Rightarrow> PowerRequest \<Rightarrow> ('s, Receipt \<times> err option) state" where
  "linux_Schedule platform send q = do {
     (caps, e) \<leftarrow> linux_Preflight platform send q;
     or_return e (\<lambda>x. (zero_Receipt, Some x)) (do {
       (response, e) \<leftarrow> client_Call send ''schedule'' (Some q) None;
       ret (case e of
              Some x \<Rightarrow> (zero_Receipt, Some x)
            | None \<Rightarrow>
                (case ds_Receipt response of
                   None \<Rightarrow> (zero_Receipt, Some (Err ''Linux power helper returned no receipt''))
                 | Some receipt \<Rightarrow>
                     (case validateLinuxReceipt receipt of
                        Some x \<Rightarrow> (zero_Receipt, Some x)
                      | None \<Rightarrow>
                          (case ValidateReceiptForRequest receipt q caps of
                             Some x \<Rightarrow> (zero_Receipt, Some (Wrap ''validate Linux power helper receipt: %w'' x))
                           | None \<Rightarrow> (receipt, None))))) }) }"

definition linux_Cancel :: "'s transport \<Rightarrow> Receipt \<Rightarrow> ('s, CancelResult \<times> err option) state" where
  "linux_Cancel send receipt =
     or_return (validateLinuxReceipt receipt) (\<lambda>x. (zero_CancelResult, Some x)) (do {
       (response, e) \<leftarrow> client_Call send ''cancel'' None (Some receipt);
       ret (case (e, ds_CancelResult response) of
              (Some x, Some r) \<Rightarrow> if errors_Is x ErrNoShutdownInProgress then (r, Some x) else (zero_CancelResult, Some x)
            | (Some x, None) \<Rightarrow> (zero_CancelResult, Some x)
            | (None, Some r) \<Rightarrow>
                if cr_Scope r \<noteq> CancelScopeJob then
                  (zero_CancelResult, Some (Err ''Linux power helper returned an invalid cancellation result''))
                else (r, None)
            | (None, None) \<Rightarrow> (zero_CancelResult, Some (Err ''Linux power helper returned an invalid cancellation result''))) })"

definition linux_Reconcile :: "'s transport \<Rightarrow> Receipt \<Rightarrow> ('s, ReconcileResult \<times> err option) state" where
  "linux_Reconcile send receipt =
     or_return (validateLinuxReceipt receipt) (\<lambda>x. (zero_ReconcileResult, Some x)) (do {
       (response, e) \<leftarrow> client_Call send ''reconcile'' None (Some receipt);
       ret (case e of
              Some x \<Rightarrow> (zero_ReconcileResult, Some x)
            | None \<Rightarrow>
                (case ds_Reconcile response of
                   None \<Rightarrow> (zero_ReconcileResult, Some (Err ''Linux power helper returned no reconciliation result''))
                 | Some r \<Rightarrow> (r, None))) })"

subsection \<open>Windows\<close>

text \<open>
  The parts of the Windows backend: a runner of processes, the clock, the boot identity and two checks. Both
  constructors of the code provide the parts; only the check of the environment may be missing.
\<close>

record 's windows =
  wb_Run :: "string list \<Rightarrow> ('s, int \<times> string \<times> err option) state"
  wb_Now :: "('s, time) state"
  wb_BootID :: "('s, string) state"
  wb_Executable :: "('s, err + string) state"
  wb_Environment :: "(('s, err option) state) option"

definition windowsCapabilities :: Capabilities where
  "windowsCapabilities = \<lparr>cap_Platform = ''windows'', cap_BackendID = ''windows-shutdown-exe'', cap_ExecuteSupported = True,
     cap_CancelScope = CancelScopeSystemGlobal, cap_MinimumDelay = 30 * Second, cap_MaximumDelay = 3600 * Second,
     cap_ReconcileSupported = True, cap_Reason = []\<rparr>"

definition cleanOutput :: "string \<Rightarrow> string" where
  "cleanOutput output = take 512 output"

definition validateWindowsReceipt :: "Receipt \<Rightarrow> err option" where
  "validateWindowsReceipt r = checks [
     ValidateReceipt r,
     reject (rcp_Platform r \<noteq> ''windows'' \<or> rcp_BackendID r \<noteq> ''windows-shutdown-exe'')
       ''power receipt does not belong to the Windows shutdown backend'']"

text \<open>\<open>validateWindowsExecutionEnvironment\<close>: the values of \<open>CI\<close>, \<open>GITHUB_ACTIONS\<close> and \<open>TF_BUILD\<close>.\<close>

definition validateWindowsExecutionEnvironment :: "string list \<Rightarrow> err option" where
  "validateWindowsExecutionEnvironment values =
     first_err (\<lambda>v. if ToLower (TrimSpace v) \<in> {''1'', ''true'', ''yes''}
       then Some (Wrap ''%w: Windows power actions are disabled in CI environments'' ErrPlatformUnsupported) else None) values"

definition windows_Preflight :: "'s windows \<Rightarrow> PowerRequest \<Rightarrow> ('s, Capabilities \<times> err option) state" where
  "windows_Preflight b q =
     (let caps = windowsCapabilities; refused = caps\<lparr>cap_ExecuteSupported := False, cap_Reason := ''%s''\<rparr> in
      case ValidateRequest q (cap_MinimumDelay caps) (cap_MaximumDelay caps) of
        Some e \<Rightarrow> ret (caps, Some e)
      | None \<Rightarrow> do {
          e \<leftarrow> (case wb_Environment b of None \<Rightarrow> ret None | Some check \<Rightarrow> check);
          or_return e (\<lambda>x. (refused, Some x)) (do {
            x \<leftarrow> wb_Executable b;
            ret (case x of Inl e \<Rightarrow> (refused, Some e) | Inr _ \<Rightarrow> (caps, None)) }) })"

definition windows_receipt :: "PowerRequest \<Rightarrow> time \<Rightarrow> string \<Rightarrow> Receipt" where
  "windows_receipt q now boot = SealReceipt (zero_Receipt\<lparr>
     rcp_SchemaVersion := ReceiptSchemaVersion, rcp_Platform := ''windows'', rcp_BackendID := ''windows-shutdown-exe'',
     rcp_BackendVersion := ''1'', rcp_JobID := req_JobID q, rcp_Action := req_Action q, rcp_RequestedAt := req_RequestedAt q,
     rcp_ScheduledAt := now, rcp_Deadline := now + req_Delay q, rcp_CancelScope := CancelScopeSystemGlobal,
     rcp_BootID := boot, rcp_ResultCode := 0, rcp_ResultSummary := ''Windows accepted shutdown.exe countdown''\<rparr>)"

definition exit_error :: "string \<Rightarrow> string \<Rightarrow> err option \<Rightarrow> err" where
  "exit_error message output e =
     Wrap message (Wrap (cleanOutput output) (case e of Some x \<Rightarrow> x | None \<Rightarrow> Err ''shutdown.exe exited with code %d''))"

definition windows_Schedule :: "'s windows \<Rightarrow> PowerRequest \<Rightarrow> ('s, Receipt \<times> err option) state" where
  "windows_Schedule b q = do {
     (caps, e) \<leftarrow> windows_Preflight b q;
     or_return e (\<lambda>x. (zero_Receipt, Some x)) (do {
       x \<leftarrow> wb_Executable b;
       case x of
         Inl e \<Rightarrow> ret (zero_Receipt, Some e)
       | Inr executable \<Rightarrow> do {
           (exitCode, output, e) \<leftarrow> wb_Run b [executable, ''/s'', ''/t'', int_str (req_Delay q div Second), ''/c'', req_Comment q];
           if e \<noteq> None \<or> exitCode \<noteq> 0 then ret (zero_Receipt, Some (exit_error ''schedule Windows shutdown: %w (%s)'' output e))
           else do {
             now \<leftarrow> wb_Now b;
             boot \<leftarrow> wb_BootID b;
             ret (windows_receipt q now boot, None) } } }) }"

definition windows_Cancel :: "'s windows \<Rightarrow> Receipt \<Rightarrow> ('s, CancelResult \<times> err option) state" where
  "windows_Cancel b receipt =
     or_return (validateWindowsReceipt receipt) (\<lambda>x. (zero_CancelResult, Some x)) (do {
       x \<leftarrow> wb_Executable b;
       case x of
         Inl e \<Rightarrow> ret (zero_CancelResult, Some e)
       | Inr executable \<Rightarrow> do {
           (exitCode, output, e) \<leftarrow> wb_Run b [executable, ''/a''];
           let result = zero_CancelResult\<lparr>cr_Scope := CancelScopeSystemGlobal, cr_ResultCode := exitCode\<rparr>;
           ret (if e \<noteq> None \<or> exitCode \<noteq> 0 then
                  (if exitCode = 1116 then
                     (result\<lparr>cr_NoActionInProgress := True, cr_ResultSummary := ''Windows reported no shutdown in progress''\<rparr>,
                      Some (Wrap (cleanOutput output) ErrNoShutdownInProgress))
                   else (result, Some (exit_error ''abort Windows shutdown: %w (%s)'' output e)))
                else (result\<lparr>cr_Cancelled := True, cr_ResultSummary := ''Windows accepted shutdown.exe /a''\<rparr>, None)) } })"

definition windows_Reconcile :: "'s windows \<Rightarrow> Receipt \<Rightarrow> ('s, ReconcileResult \<times> err option) state" where
  "windows_Reconcile b receipt =
     or_return (validateWindowsReceipt receipt) (\<lambda>x. (zero_ReconcileResult, Some x)) (do {
       now \<leftarrow> wb_Now b;
       boot \<leftarrow> wb_BootID b;
       let result = zero_ReconcileResult\<lparr>rr_CheckedAt := now, rr_CurrentBootID := boot\<rparr>;
       ret (if now < rcp_Deadline receipt \<and> (rcp_BootID receipt = [] \<or> rcp_BootID receipt = boot) then
              (result\<lparr>rr_State := ReconcileScheduled,
                 rr_Evidence := ''countdown deadline has not elapsed on the recorded boot''\<rparr>, None)
            else (result\<lparr>rr_State := ReconcileUnverified, rr_Evidence :=
                (if rcp_BootID receipt \<noteq> [] \<and> rcp_BootID receipt \<noteq> boot then
                   ''Windows boot identity changed after scheduling; causation is not independently proven''
                 else ''countdown deadline elapsed without sufficient evidence to confirm poweroff'')\<rparr>, None)) })"

subsection \<open>Systems without a backend\<close>

definition darwin_Preflight :: "PowerRequest \<Rightarrow> ('s, Capabilities \<times> err option) state" where
  "darwin_Preflight q =
     (let caps = \<lparr>cap_Platform = ''darwin'', cap_BackendID = ''macos-signed-helper'', cap_ExecuteSupported = False,
            cap_CancelScope = CancelScopeJob, cap_MinimumDelay = 30 * Second, cap_MaximumDelay = 3600 * Second,
            cap_ReconcileSupported = False,
            cap_Reason = ''the signed and notarized macOS helper is not included in this source build''\<rparr>
      in ret (caps, Some (case ValidateRequest q (cap_MinimumDelay caps) (cap_MaximumDelay caps) of
            Some e \<Rightarrow> e | None \<Rightarrow> ErrPlatformUnsupported)))"

definition unsupported_Preflight :: "PowerRequest \<Rightarrow> ('s, Capabilities \<times> err option) state" where
  "unsupported_Preflight q = ret (\<lparr>cap_Platform = ''unsupported'', cap_BackendID = ''unsupported'', cap_ExecuteSupported = False,
     cap_CancelScope = CancelScopeOther [], cap_MinimumDelay = 30 * Second, cap_MaximumDelay = 3600 * Second,
     cap_ReconcileSupported = False, cap_Reason = ''DoneThen power actions are not implemented on this platform''\<rparr>,
     Some ErrPlatformUnsupported)"

definition unsupported_Schedule :: "PowerRequest \<Rightarrow> ('s, Receipt \<times> err option) state" where
  "unsupported_Schedule q = ret (zero_Receipt, Some ErrPlatformUnsupported)"

definition unsupported_Cancel :: "Receipt \<Rightarrow> ('s, CancelResult \<times> err option) state" where
  "unsupported_Cancel r = ret (zero_CancelResult, Some ErrPlatformUnsupported)"

definition unsupported_Reconcile :: "Receipt \<Rightarrow> ('s, ReconcileResult \<times> err option) state" where
  "unsupported_Reconcile r = ret (zero_ReconcileResult, Some ErrPlatformUnsupported)"

subsection \<open>The fake backend\<close>

record FakeBackend =
  fb_PreflightCalls :: nat
  fb_ScheduleCalls :: nat
  fb_CancelCalls :: nat
  fb_ReconcileCalls :: nat
  fb_LastDelay :: duration
  fb_LastComment :: string
  fb_LastRequest :: PowerRequest
  fb_LastReceipt :: Receipt
  fb_Capabilities :: Capabilities
  fb_Receipt :: Receipt
  fb_CancelResult :: CancelResult
  fb_ReconcileResult :: ReconcileResult
  fb_PreflightErr :: "err option"
  fb_ScheduleErr :: "err option"
  fb_CancelErr :: "err option"
  fb_ReconcileErr :: "err option"

definition fakeCapabilities :: Capabilities where
  "fakeCapabilities = \<lparr>cap_Platform = ''fake'', cap_BackendID = ''fake'', cap_ExecuteSupported = True, cap_CancelScope = CancelScopeJob,
     cap_MinimumDelay = 30 * Second, cap_MaximumDelay = 3600 * Second, cap_ReconcileSupported = True, cap_Reason = []\<rparr>"

definition fake_Preflight :: "PowerRequest \<Rightarrow> (FakeBackend, Capabilities \<times> err option) state" where
  "fake_Preflight q = do {
     f \<leftarrow> State_Monad.get;
     State_Monad.set (f\<lparr>fb_PreflightCalls := fb_PreflightCalls f + 1, fb_LastRequest := q\<rparr>);
     ret (if cap_Platform (fb_Capabilities f) = [] then fakeCapabilities else fb_Capabilities f, fb_PreflightErr f) }"

definition fake_receipt :: "Receipt \<Rightarrow> PowerRequest \<Rightarrow> Receipt" where
  "fake_receipt r q =
     (if rcp_SchemaVersion r = [] then
        SealReceipt (zero_Receipt\<lparr>rcp_SchemaVersion := ReceiptSchemaVersion, rcp_Platform := ''fake'', rcp_BackendID := ''fake'',
          rcp_BackendVersion := ''1'', rcp_JobID := req_JobID q, rcp_Action := req_Action q, rcp_RequestedAt := req_RequestedAt q,
          rcp_ScheduledAt := req_RequestedAt q, rcp_Deadline := req_RequestedAt q + req_Delay q, rcp_ExternalToken := req_JobID q,
          rcp_CancelScope := CancelScopeJob\<rparr>)
      else if rcp_SchemaVersion r = ReceiptSchemaVersion \<and> rcp_Checksum r = [] then SealReceipt r
      else r)"

definition fake_Schedule :: "PowerRequest \<Rightarrow> (FakeBackend, Receipt \<times> err option) state" where
  "fake_Schedule q = do {
     f \<leftarrow> State_Monad.get;
     let receipt = fake_receipt (fb_Receipt f) q;
     State_Monad.set (f\<lparr>fb_ScheduleCalls := fb_ScheduleCalls f + 1, fb_LastRequest := q, fb_LastDelay := req_Delay q,
       fb_LastComment := req_Comment q, fb_LastReceipt := receipt\<rparr>);
     ret (receipt, fb_ScheduleErr f) }"

definition fake_Cancel :: "Receipt \<Rightarrow> (FakeBackend, CancelResult \<times> err option) state" where
  "fake_Cancel receipt = do {
     f \<leftarrow> State_Monad.get;
     State_Monad.set (f\<lparr>fb_CancelCalls := fb_CancelCalls f + 1, fb_LastReceipt := receipt\<rparr>);
     ret (if cr_Scope (fb_CancelResult f) = CancelScopeOther [] then
            zero_CancelResult\<lparr>cr_Cancelled := True, cr_Scope := rcp_CancelScope receipt\<rparr>
          else fb_CancelResult f, fb_CancelErr f) }"

definition fake_Reconcile :: "time \<Rightarrow> Receipt \<Rightarrow> (FakeBackend, ReconcileResult \<times> err option) state" where
  "fake_Reconcile now receipt = do {
     f \<leftarrow> State_Monad.get;
     State_Monad.set (f\<lparr>fb_ReconcileCalls := fb_ReconcileCalls f + 1, fb_LastReceipt := receipt\<rparr>);
     ret (if rr_State (fb_ReconcileResult f) = ReconcileOther [] then
            zero_ReconcileResult\<lparr>rr_State := ReconcileScheduled, rr_CheckedAt := now\<rparr>
          else fb_ReconcileResult f, fb_ReconcileErr f) }"

definition fake_Snapshot :: "(FakeBackend, nat \<times> nat \<times> duration \<times> string) state" where
  "fake_Snapshot = do {
     f \<leftarrow> State_Monad.get;
     ret (fb_ScheduleCalls f, fb_CancelCalls f, fb_LastDelay f, fb_LastComment f) }"

subsection \<open>The contract of a backend\<close>

text \<open>
  What a coordinator relies on: a preflight without an error has validated the request, an accepted
  schedule comes with a receipt that matches the request, and only a valid receipt is ever cancelled.
  \<open>sane\<close> is what a backend needs of its environment.
\<close>

text \<open>An accepted schedule comes with a receipt that matches the request.\<close>

definition matched :: "PowerRequest \<Rightarrow> Receipt \<times> err option \<Rightarrow> bool" where
  "matched q = (\<lambda>(r, e). e = None \<longrightarrow> (\<exists>caps. cap_ExecuteSupported caps \<and> ValidateReceiptForRequest r q caps = None))"

locale power_backend =
  fixes preflight :: "PowerRequest \<Rightarrow> ('s, Capabilities \<times> err option) state"
    and schedule :: "PowerRequest \<Rightarrow> ('s, Receipt \<times> err option) state"
    and cancel :: "Receipt \<Rightarrow> ('s, CancelResult \<times> err option) state"
    and sane :: bool
  assumes preflight_ready: "wp (preflight q) (\<lambda>(caps, e) _. e = None \<longrightarrow>
      cap_ExecuteSupported caps \<and> ValidateRequest q (30 * Second) (3600 * Second) = None) s"
    and schedule_receipt: "sane \<Longrightarrow> wp (schedule q) (\<lambda>x _. matched q x) s"
    and cancel_valid: "wp (cancel r) (\<lambda>(_, e) _. e = None \<longrightarrow> ValidateReceipt r = None) s"
begin

text \<open>An accepted countdown lasts as long as was asked for, and its receipt can be cancelled by its name.\<close>

lemma schedule_matches:
  assumes sane
  shows "wp (schedule q) (\<lambda>(r, e) _. e = None \<longrightarrow> rcp_JobID r = req_JobID q \<and> rcp_RequestedAt r = req_RequestedAt q \<and>
     time_Sub (rcp_Deadline r) (rcp_ScheduledAt r) = req_Delay q \<and> ValidateReceipt r = None) s"
  by (rule wp_mono [OF schedule_receipt [OF assms]]) (auto simp: matched_def ValidateReceiptForRequest_None)

text \<open>A preflight that passes leaves a request for which the intent receipt can be built.\<close>

lemma preflight_then_intent:
  "wp (preflight q) (\<lambda>(caps, e) _. e = None \<longrightarrow> ValidateJobID (req_JobID q) = None \<and> req_Action q = ''shutdown'' \<and>
     req_RequestedAt q \<noteq> 0 \<and> 0 < req_Delay q \<and> req_Delay q mod Second = 0) s"
  by (rule wp_mono [OF preflight_ready]) (auto simp: ValidateRequest_None)

end

lemma linux_preflight_wp:
  "wp (linux_Preflight platform send q) (\<lambda>(caps, e) _. e = None \<longrightarrow>
     cap_ExecuteSupported caps \<and> ValidateRequest q (30 * Second) (3600 * Second) = None) s"
  unfolding linux_Preflight_def Let_def
  by (intro wp_branches wp_all) (auto simp: linuxCapabilities_def split: option.splits if_splits)

lemma linux_schedule_wp:
  "wp (linux_Schedule platform send q) (\<lambda>x _. matched q x) s"
  unfolding linux_Schedule_def
  by (rule wp_bindI, rule wp_mono [OF linux_preflight_wp], intro wp_branches wp_all)
    (auto simp: matched_def split: option.splits)

lemma linux_cancel_wp: "wp (linux_Cancel send r) (\<lambda>(_, e) _. e = None \<longrightarrow> ValidateReceipt r = None) s"
  unfolding linux_Cancel_def
  by (intro wp_branches wp_all) (auto simp: validateLinuxReceipt_def split: option.splits)

interpretation linux: power_backend "linux_Preflight platform send" "linux_Schedule platform send" "linux_Cancel send" True
  for platform send
  by unfold_locales (rule linux_preflight_wp linux_schedule_wp linux_cancel_wp)+

text \<open>The clock of the machine is past the zero time.\<close>

definition sane_clock :: "'s windows \<Rightarrow> bool" where
  "sane_clock b \<longleftrightarrow> (\<forall>s. wp (wb_Now b) (\<lambda>t _. 0 < t) s)"

lemma windows_receipt_valid:
  assumes "ValidateRequest q (30 * Second) (3600 * Second) = None" "0 < now"
  shows "ValidateReceiptForRequest (windows_receipt q now boot) q windowsCapabilities = None"
  using assms
  by (auto simp: ValidateReceiptForRequest_None windows_receipt_def ValidateReceipt_Seal windowsCapabilities_def ValidateRequest_None
      time_Sub_def)

lemma windows_preflight_wp:
  "wp (windows_Preflight b q) (\<lambda>(caps, e) _. e = None \<longrightarrow>
     caps = windowsCapabilities \<and> ValidateRequest q (30 * Second) (3600 * Second) = None) s"
  unfolding windows_Preflight_def Let_def
  by (intro wp_branches wp_all) (auto simp: windowsCapabilities_def split: sum.splits)

lemma windows_preflight_ready:
  "wp (windows_Preflight b q) (\<lambda>(caps, e) _. e = None \<longrightarrow>
     cap_ExecuteSupported caps \<and> ValidateRequest q (30 * Second) (3600 * Second) = None) s"
  by (rule wp_mono [OF windows_preflight_wp]) (auto simp: windowsCapabilities_def)

lemma windows_accepted_wp:
  assumes "sane_clock b" "ValidateRequest q (30 * Second) (3600 * Second) = None"
  shows "wp (wb_Now b \<bind> (\<lambda>now. wb_BootID b \<bind> (\<lambda>boot. ret (windows_receipt q now boot, None)))) (\<lambda>x _. matched q x) s"
proof -
  have "wp (wb_Now b) (\<lambda>t _. 0 < t) s"
    using assms(1) by (simp add: sane_clock_def)
  then show ?thesis
    unfolding wp_bind
    by (rule wp_mono) (auto simp: matched_def windowsCapabilities_def
        intro!: wp_any exI [of _ windowsCapabilities] windows_receipt_valid [OF assms(2)])
qed

lemma windows_schedule_wp:
  assumes "sane_clock b"
  shows "wp (windows_Schedule b q) (\<lambda>x _. matched q x) s"
  unfolding windows_Schedule_def
  by (rule wp_bindI, rule wp_mono [OF windows_preflight_wp], intro wp_branches, simp add: matched_def,
      rule wp_all, intro wp_branches, simp add: matched_def,
      rule wp_all, intro wp_branches, simp add: matched_def, rule windows_accepted_wp [OF assms]) simp

lemma windows_cancel_wp: "wp (windows_Cancel b r) (\<lambda>(_, e) _. e = None \<longrightarrow> ValidateReceipt r = None) s"
  unfolding windows_Cancel_def Let_def
  by (intro wp_branches wp_all) (auto simp: validateWindowsReceipt_def)

interpretation windows: power_backend "windows_Preflight b" "windows_Schedule b" "windows_Cancel b" "sane_clock b"
  for b
  by unfold_locales (rule windows_preflight_ready windows_schedule_wp windows_cancel_wp, assumption?)+

interpretation darwin: power_backend darwin_Preflight unsupported_Schedule unsupported_Cancel True
  by unfold_locales (simp_all add: darwin_Preflight_def unsupported_Schedule_def unsupported_Cancel_def matched_def Let_def)

interpretation unsupported: power_backend unsupported_Preflight unsupported_Schedule unsupported_Cancel True
  by unfold_locales (simp_all add: unsupported_Preflight_def unsupported_Schedule_def unsupported_Cancel_def matched_def)

end
