(* ===== verification/Backend_Laws.thy ===== *)
theory Backend_Laws
  imports Power_Backends Daemon_Laws Go_Live
begin

text \<open>
  The Linux backend and the helper together. A client that is told that its request was scheduled has a timer
  that systemd accepted, and the helper's record of it is on disk with the very receipt that the client
  got. The receipt that the supervisor builds before the call is enough to cancel the helper's action after a crash.
\<close>

subsection \<open>A client of the helper\<close>

text \<open>The connection of a peer that runs as \<open>uid\<close>.\<close>

definition helper_transport :: "DaemonConfig \<Rightarrow> uid \<Rightarrow> (daemon_disk, daemon_effect) traced transport" where
  "helper_transport c uid request = do {
     response \<leftarrow> serveConnection (withDefaults c) (Inr uid) (Inr request);
     ret (Inr response) }"

definition only_reads :: "daemon_effect list \<Rightarrow> bool" where
  "only_reads l \<longleftrightarrow> \<not> list_ex is_command l \<and> \<not> list_ex is_write l"

lemma only_reads_simps [simp]:
  "only_reads []" "only_reads (l @ l') \<longleftrightarrow> only_reads l \<and> only_reads l'"
  "only_reads (e # l) \<longleftrightarrow> \<not> is_command e \<and> \<not> is_write e \<and> only_reads l"
  by (auto simp: only_reads_def)

text \<open>The log of an accepted schedule: checks that change nothing, then the intent, the timer and the record.\<close>

definition scheduled_log :: "DaemonConfig \<Rightarrow> uid \<Rightarrow> PowerRequest \<Rightarrow> Receipt \<Rightarrow> daemon_effect list \<Rightarrow> bool" where
  "scheduled_log c uid q r l \<longleftrightarrow> (\<exists>checks now boot out. only_reads checks \<and>
     (let intent = daemon_intent uid q now boot in
      r = as_Receipt (accepted_of intent) \<and>
      l = checks @ [ActiveSaved intent None, Ran (timer_command c q) 0 out None, ActiveSaved (accepted_of intent) None]))"

lemma scheduled_log_after: "only_reads l \<Longrightarrow> scheduled_log c uid q r l' \<Longrightarrow> scheduled_log c uid q r (l @ l')"
  unfolding scheduled_log_def Let_def by (metis append.assoc only_reads_simps(2))

lemma preflight_only_reads: "emits (daemon_preflight c request) (\<lambda>_. only_reads)"
  unfolding daemon_preflight_def daemon_calls by (intro emit_rules) auto

lemma start_timer_log:
  "emits (start_timer c q (daemon_intent uid q now boot)) (\<lambda>r l. ds_OK r \<longrightarrow>
     (\<exists>x. ds_Receipt r = Some x \<and> scheduled_log c uid q x l))"
  unfolding start_timer_def daemon_calls Let_def
  by (intro emit_rules) (auto simp: scheduled_log_def Let_def daemon_failure_def daemon_ok_def blank_response_def
      intro!: exI [of _ "[]"] exI [of _ now] exI [of _ boot])

lemma schedule_log:
  "emits (daemon_schedule c uid (Some q)) (\<lambda>r l. ds_OK r \<longrightarrow> (\<exists>x. ds_Receipt r = Some x \<and> scheduled_log c uid q x l))"
proof -
  have start: "emits (start_timer c q (daemon_intent uid q now boot)) (\<lambda>r l'. ds_OK r \<longrightarrow>
      (\<exists>x. ds_Receipt r = Some x \<and> scheduled_log c uid q x (l @ l')))" if "only_reads l" for l now boot
    by (rule emits_mono [OF start_timer_log]) (use that scheduled_log_after in blast)
  have preflight: "emits (daemon_preflight c (Some q)) (\<lambda>r l. only_reads l \<and>
     emits (if \<not> ds_OK r then ret r else do {
            now \<leftarrow> daemon_now;
            boot \<leftarrow> linuxBootID c;
            start_timer c q (daemon_intent uid q now boot) })
       (\<lambda>r l'. ds_OK r \<longrightarrow> (\<exists>x. ds_Receipt r = Some x \<and> scheduled_log c uid q x (l @ l'))))"
  proof (rule emits_mono [OF preflight_only_reads], intro conjI emit_rules, assumption, simp, unfold daemon_calls, intro emit_rules)
    fix l now boot
    assume "only_reads l"
    then have "only_reads (l @ [ClockRead now, BootRead boot])" by simp
    from start [OF this] show "emits (start_timer c q (daemon_intent uid q now boot)) (\<lambda>r l'. ds_OK r \<longrightarrow>
       (\<exists>x. ds_Receipt r = Some x \<and> scheduled_log c uid q x (l @ ClockRead now # BootRead boot # l')))" by simp
  qed
  show ?thesis
    unfolding daemon_schedule_def option.case by (rule emits_bind, rule emits_mono [OF preflight]) simp
qed

lemma emits_ret_then: "emits (k r) Q \<Longrightarrow> emits (ret r \<bind> k) Q"
  by (rule emits_bind) simp

lemma emits_then_prod: "emits m (\<lambda>(a, b) l. Q (k a b) l) \<Longrightarrow> emits (m \<bind> (\<lambda>(a, b). ret (k a b))) Q"
  by (rule emits_bind) (auto elim!: emits_mono)

lemma helper_answer_OK: "helper_answer (Inr r) = (r', None) \<Longrightarrow> ds_OK r \<and> r' = r"
  by (auto simp: helper_answer_def split: if_splits)

lemma process_operations:
  "emits (process c uid (helperRequest ''preflight'' (Some q) None)) (\<lambda>_. only_reads)"
  "emits (process c uid (helperRequest ''schedule'' (Some q) None)) (\<lambda>r l. ds_OK r \<longrightarrow>
     (\<exists>x. ds_Receipt r = Some x \<and> scheduled_log c uid q x l))"
  unfolding process_def helperRequest_def
  by (intro emit_rules; simp add: preflight_only_reads schedule_log daemon_failure_def blank_response_def)+

lemma call_preflight: "emits (client_Call (helper_transport c uid) ''preflight'' (Some q) None) (\<lambda>_. only_reads)"
  unfolding client_Call_def helper_transport_def serveConnection_def sum.case
  by (intro emits_bind emits_mono [OF process_operations(1)]) simp

lemma call_schedule:
  "emits (client_Call (helper_transport c uid) ''schedule'' (Some q) None) (\<lambda>(response, e) l. e = None \<longrightarrow>
     (\<exists>x. ds_Receipt response = Some x \<and> scheduled_log (withDefaults c) uid q x l))"
proof -
  have answered: "\<exists>x. ds_Receipt r' = Some x \<and> scheduled_log (withDefaults c) uid q x l"
    if "ds_OK r \<longrightarrow> (\<exists>x. ds_Receipt r = Some x \<and> scheduled_log (withDefaults c) uid q x l)" "helper_answer (Inr r) = (r', None)"
    for r r' l
    using that helper_answer_OK [OF that(2)] by auto
  show ?thesis
    unfolding client_Call_def helper_transport_def serveConnection_def sum.case
    by (intro emits_bind emits_mono [OF process_operations(2)]) (auto split: prod.split intro: answered)
qed

lemma preflight_log: "emits (linux_Preflight (ret p) (helper_transport c uid) q) (\<lambda>_. only_reads)"
proof -
  have call: "emits (client_Call (helper_transport c uid) ''preflight'' (Some q) None \<bind> (\<lambda>(response, e). ret (k response e))) (\<lambda>_. only_reads)"
    for k :: "helperResponse \<Rightarrow> err option \<Rightarrow> Capabilities \<times> err option"
    by (rule emits_then_prod, rule emits_mono [OF call_preflight]) auto
  show ?thesis
    unfolding linux_Preflight_def Let_def by (intro emit_rules emits_ret_then call) auto
qed

text \<open>
  C9: When the Linux backend reports success over the helper's connection, the log of the helper ends with the
  intent saved, the timer of exactly this request accepted by systemd, and the record saved; before that it only
  read. The record is owned by the peer and carries the receipt that the caller got, which matches the request.
\<close>

theorem linux_schedule_recorded:
  "emits (linux_Schedule (ret p) (helper_transport c uid) q) (\<lambda>(r, e) l. case e of Some _ \<Rightarrow> True
     | None \<Rightarrow> scheduled_log (withDefaults c) uid q r l \<and> matched q (r, None))"
proof -
  let ?done = "\<lambda>l0 x l. snd x = None \<longrightarrow> scheduled_log (withDefaults c) uid q (fst x) (l0 @ l)"
  have call: "emits (client_Call (helper_transport c uid) ''schedule'' (Some q) None \<bind> (\<lambda>(response, e). ret (k response e))) (?done l0)"
    if l0: "only_reads l0" and received: "\<And>response e r. k response e = (r, None) \<Longrightarrow> e = None \<and> ds_Receipt response = Some r"
    for k :: "helperResponse \<Rightarrow> err option \<Rightarrow> Receipt \<times> err option" and l0
  proof (rule emits_then_prod, rule emits_mono [OF call_schedule], goal_cases)
    case (1 x l)
    then show ?case
      using received [of "fst x" "snd x"] scheduled_log_after [OF l0]
      by (cases x; cases "k (fst x) (snd x)") (auto split: option.split)
  qed
  have recorded: "emits (linux_Schedule (ret p) (helper_transport c uid) q) (?done [])"
    unfolding linux_Schedule_def
  proof (rule emits_bind, rule emits_mono [OF preflight_log], clarify)
    fix caps and e :: "err option" and l
    assume l: "only_reads l"
    show "emits (or_return e (\<lambda>x. (zero_Receipt, Some x)) (do {
       (response, e) \<leftarrow> client_Call (helper_transport c uid) ''schedule'' (Some q) None;
       ret (case e of
              Some x \<Rightarrow> (zero_Receipt, Some x)
            | None \<Rightarrow>
                (case ds_Receipt response of
                   None \<Rightarrow> (zero_Receipt, Some (Err ''Linux power helper returned no receipt''))
                 | Some receipt \<Rightarrow>
                     (case validateLinuxReceipt receipt of
                        Some x \<Rightarrow> (zero_Receipt, Some x)
                      | None \<Rightarrow>
                          (case ValidateReceiptForRequest receipt q caps of
                             Some x \<Rightarrow> (zero_Receipt, Some (Wrap ''validate Linux power helper receipt: %w'' x))
                           | None \<Rightarrow> (receipt, None))))) })) (\<lambda>x l'. ?done [] x (l @ l'))"
      unfolding append_Nil by (cases e) (auto simp: or_return_def intro!: call [OF l] split: option.splits)
  qed
  show ?thesis
    unfolding emits_def
  proof (intro allI, goal_cases)
    case (1 s)
    from wp_conj [OF recorded [unfolded emits_def, rule_format, of s] linux_schedule_wp]
    show ?case by (rule wp_mono) (auto split: option.splits)
  qed
qed

subsection \<open>Cancelling after a crash\<close>

lemma helper_capabilities [simp]:
  "cap_Platform helperCapabilities = ''linux-systemd''" "cap_BackendID helperCapabilities = ''linux-systemd-helper''"
  "cap_CancelScope helperCapabilities = CancelScopeJob"
  by (simp_all add: helperCapabilities_def)

text \<open>
  The receipt that is built for the intent from the helper's capabilities passes the validation of the client and
  of the helper, and the helper finds its own record in it, whatever instant and boot the record names.
\<close>

theorem intent_receipt_cancels:
  "case BuildIntentReceipt (req_JobID q) (req_Action q) (req_RequestedAt q) (req_Delay q) helperCapabilities of
     Inl _ \<Rightarrow> True
   | Inr r \<Rightarrow> req_RequestedAt q + req_Delay q = 0 \<or>
       (validateLinuxReceipt r = None \<and> validateSystemdReceipt r = None \<and>
        \<not> foreign (daemon_intent uid q now boot) uid r \<and> \<not> foreign (accepted_of (daemon_intent uid q now boot)) uid r)"
proof (cases "BuildIntentReceipt (req_JobID q) (req_Action q) (req_RequestedAt q) (req_Delay q) helperCapabilities")
  case (Inr r)
  note facts = BuildIntentReceipt_Inr [OF Inr]
  have token: "rcp_ExternalToken r = SystemdUnitToken (req_JobID q)"
    using Inr unfolding BuildIntentReceipt_eq by (auto simp: intent_receipt_body_def)
  have "TrimSpace (SystemdUnitToken (req_JobID q)) \<noteq> []"
    unfolding SystemdUnitToken_def using facts(14)
    by (simp add: TrimSpace_lower is_lower_def char_between_def char_code_def)
  then show ?thesis
    using facts token Inr
    by (auto simp: validateLinuxReceipt_def validateSystemdReceipt_def foreign_def daemon_intent_def accepted_of_def)
qed simp

subsection \<open>Schedule, then cancel\<close>

text \<open>
  When nothing fails: the host passes, systemd answers every command with success, no system call fails and
  nobody else touches the state directory.
\<close>

definition easy :: "DaemonConfig \<Rightarrow> bool" where
  "easy c \<longleftrightarrow> (\<forall>n. dc_HostCheck c n = None) \<and> (\<forall>n argv. dc_Runner c n argv = (0, [], None))"

definition easy_world :: "(daemon_disk, daemon_effect) traced \<Rightarrow> bool" where
  "easy_world s \<longleftrightarrow> calm (pw_world s) \<and> (\<forall>k. 0 < clock (pw_world s) k)"

lemma easy_withDefaults [simp]: "easy (withDefaults c) = easy c"
  by (simp add: easy_def withDefaults_def Let_def)

lemma easy_world_simps [simp]:
  "easy_world (s\<lparr>pw_log := l\<rparr>) = easy_world s"
  "pw_world s = w \<Longrightarrow> easy_world (s\<lparr>pw_world := at w d n\<rparr>) = easy_world s"
  "easy_world (s\<lparr>pw_world := at (pw_world s) d n, pw_log := l\<rparr>) = easy_world s"
  by (auto simp: easy_world_def)

named_theorems easy_calls

lemma easy_lock [easy_calls]:
  "easy_world s \<Longrightarrow> (\<And>n. Q None (s\<lparr>pw_world := at (pw_world s) (disk (pw_world s)) n\<rparr>)) \<Longrightarrow>
     wp (store (acquireActiveStateLock t)) Q s"
  unfolding acquireActiveStateLock_def wp_store wp_bind easy_world_def
  by (auto simp del: calls.simps intro!: live_calls_seq wp_time_Now live_call live_sync)

lemma easy_save [easy_calls]:
  "easy_world s \<Longrightarrow>
     (\<And>n l. Q None (s\<lparr>pw_world := at (pw_world s) ((disk (pw_world s))\<lparr>hd_active := Some (Decoded a)\<rparr>) n, pw_log := l\<rparr>)) \<Longrightarrow>
     wp (saveActive a) Q s"
  unfolding saveActive_def noted_def wp_bind wp_store easy_world_def
  by (auto intro!: live_atomic)

lemma easy_remove [easy_calls]:
  "easy_world s \<Longrightarrow>
     (\<And>n l. Q None (s\<lparr>pw_world := at (pw_world s) ((disk (pw_world s))\<lparr>hd_active := None\<rparr>) n, pw_log := l\<rparr>)) \<Longrightarrow>
     wp removeActive Q s"
  unfolding removeActive_def remove_active_def noted_def wp_bind wp_store easy_world_def
  by (auto intro!: live_call)

lemma easy_load [easy_calls]:
  "(\<And>l. Q (read_active (hd_active (disk (pw_world s)))) (s\<lparr>pw_log := l\<rparr>)) \<Longrightarrow> wp loadActive Q s"
  by (simp add: loadActive_def noted_def)

lemma easy_now [easy_calls]:
  "easy_world s \<Longrightarrow> (\<And>t n l. 0 < t \<Longrightarrow> Q t (s\<lparr>pw_world := at (pw_world s) (disk (pw_world s)) n, pw_log := l\<rparr>)) \<Longrightarrow>
     wp daemon_now Q s"
  unfolding daemon_now_def noted_def wp_bind wp_store easy_world_def
  by (auto intro!: wp_time_Now)

lemma easy_boot [easy_calls]: "(\<And>b l. Q b (s\<lparr>pw_log := l\<rparr>)) \<Longrightarrow> wp (linuxBootID c) Q s"
  by (simp add: linuxBootID_def)

lemma easy_run [easy_calls]: "easy c \<Longrightarrow> (\<And>l. Q (0, [], None) (s\<lparr>pw_log := l\<rparr>)) \<Longrightarrow> wp (run_command c argv) Q s"
  by (simp add: run_command_def easy_def)

lemma easy_check [easy_calls]: "easy c \<Longrightarrow> (\<And>l. Q None (s\<lparr>pw_log := l\<rparr>)) \<Longrightarrow> wp (ask HostChecked (dc_HostCheck c)) Q s"
  by (simp add: easy_def)

lemma read_none [simp]: "read_active None = (None, None)"
  by (simp add: read_active_def)

abbreviation the_record :: "uid \<Rightarrow> PowerRequest \<Rightarrow> time \<Rightarrow> string \<Rightarrow> activeState" where
  "the_record uid q now boot \<equiv> accepted_of (daemon_intent uid q now boot)"

lemma easy_preflight:
  assumes "easy c" "easy_world s" "validateHelperRequest q = None" "hd_active (disk (pw_world s)) = None"
    and "\<And>l. Q (daemon_ok\<lparr>ds_Capabilities := Some (helperCapabilities\<lparr>cap_ExecuteSupported := True, cap_Reason := []\<rparr>)\<rparr>) (s\<lparr>pw_log := l\<rparr>)"
  shows "wp (daemon_preflight c (Some q)) Q s"
  unfolding daemon_preflight_def using assms by (auto simp: easy_def intro!: easy_load)

lemma easy_schedule:
  assumes "easy c" "easy_world s" "validateHelperRequest q = None" "hd_active (disk (pw_world s)) = None"
    and "\<And>now boot n l. 0 < now \<Longrightarrow> Q (daemon_ok\<lparr>ds_Receipt := Some (as_Receipt (the_record uid q now boot))\<rparr>)
       (s\<lparr>pw_world := at (pw_world s) ((disk (pw_world s))\<lparr>hd_active := Some (Decoded (the_record uid q now boot))\<rparr>) n, pw_log := l\<rparr>)"
  shows "wp (daemon_schedule c uid (Some q)) Q s"
  unfolding daemon_schedule_def start_timer_def option.case wp_bind
  by (rule easy_preflight) (use assms in \<open>auto simp: wp_if daemon_ok_def Let_def intro!: easy_calls\<close>)

lemma accepted_receipt:
  assumes "validateHelperRequest q = None" "0 < now"
  shows "validateSystemdReceipt (as_Receipt (the_record uid q now boot)) = None"
    "validateLinuxReceipt (as_Receipt (the_record uid q now boot)) = None"
    "ValidateReceiptForRequest (as_Receipt (the_record uid q now boot)) q (helperCapabilities\<lparr>cap_ExecuteSupported := True, cap_Reason := []\<rparr>) = None"
proof -
  have q: "ValidateJobID (req_JobID q) = None" "req_Action q = ''shutdown''" "0 < req_Delay q" "req_Delay q \<le> 3600 * Second" "req_RequestedAt q \<noteq> 0"
      "ValidateRequest q (30 * Second) (3600 * Second) = None"
    using assms(1) by (auto simp: validateHelperRequest_def ValidateRequest_None)
  have token: "TrimSpace (SystemdUnitToken (req_JobID q)) \<noteq> []"
    unfolding SystemdUnitToken_def using q(1)
    by (simp add: TrimSpace_lower is_lower_def char_between_def char_code_def)
  have valid: "ValidateReceipt (as_Receipt (the_record uid q now boot)) = None"
    using q assms(2) by (simp add: accepted_of_def ValidateReceipt_Seal daemon_intent_def)
  show "validateSystemdReceipt (as_Receipt (the_record uid q now boot)) = None"
    "validateLinuxReceipt (as_Receipt (the_record uid q now boot)) = None"
    "ValidateReceiptForRequest (as_Receipt (the_record uid q now boot)) q (helperCapabilities\<lparr>cap_ExecuteSupported := True, cap_Reason := []\<rparr>) = None"
    using valid token q assms(2)
    by (auto simp: validateSystemdReceipt_def validateLinuxReceipt_def ValidateReceiptForRequest_None accepted_of_def
        daemon_intent_def helperCapabilities_def time_Sub_def)
qed

text \<open>The record is read back as it was written.\<close>

lemma read_record:
  assumes "validateHelperRequest q = None" "0 < now"
  shows "read_active (Some (Decoded (the_record uid q now boot))) = (Some (the_record uid q now boot), None)"
  using accepted_receipt(1) [OF assms]
  by (simp add: read_active_def accepted_of_def daemon_intent_def validActivePhase_def)

definition cancelled :: CancelResult where
  "cancelled = \<lparr>cr_Cancelled = True, cr_NoActionInProgress = False, cr_Scope = CancelScopeJob, cr_ResultCode = 0,
     cr_ResultSummary = ''job-specific systemd timer stopped''\<rparr>"

lemma easy_cancel:
  assumes "easy c" "easy_world s" "validateHelperRequest q = None" "0 < now"
    and "hd_active (disk (pw_world s)) = Some (Decoded (the_record uid q now boot))"
    and "\<And>n l. Q (daemon_ok\<lparr>ds_CancelResult := Some cancelled\<rparr>)
       (s\<lparr>pw_world := at (pw_world s) ((disk (pw_world s))\<lparr>hd_active := None\<rparr>) n, pw_log := l\<rparr>)"
  shows "wp (daemon_cancel c uid (Some (as_Receipt (the_record uid q now boot)))) Q s"
proof -
  have mine: "\<not> foreign (the_record uid q now boot) uid (as_Receipt (the_record uid q now boot))"
    by (simp add: foreign_def accepted_of_def daemon_intent_def)
  show ?thesis
    unfolding daemon_cancel_def clear_timer_def option.case Let_def
    using assms mine accepted_receipt(1) [OF assms(3,4)] read_record [OF assms(3,4)]
    by (auto simp: wp_if cancelled_def [symmetric] intro!: easy_calls)
qed

text \<open>A call over the connection, when the helper's lock is free.\<close>

lemma easy_process:
  assumes "easy_world s"
  shows "(\<And>n. wp (daemon_preflight c q) Q (s\<lparr>pw_world := at (pw_world s) (disk (pw_world s)) n\<rparr>)) \<Longrightarrow>
      wp (process c uid (helperRequest ''preflight'' q r)) Q s"
    and "(\<And>n. wp (daemon_schedule c uid q) Q (s\<lparr>pw_world := at (pw_world s) (disk (pw_world s)) n\<rparr>)) \<Longrightarrow>
      wp (process c uid (helperRequest ''schedule'' q r)) Q s"
    and "(\<And>n. wp (daemon_cancel c uid r) Q (s\<lparr>pw_world := at (pw_world s) (disk (pw_world s)) n\<rparr>)) \<Longrightarrow>
      wp (process c uid (helperRequest ''cancel'' q r)) Q s"
  unfolding process_def wp_bind by (rule easy_lock [OF assms]; simp add: helperRequest_def)+

lemma easy_call:
  assumes "wp (process (withDefaults c) uid (helperRequest operation q r)) (\<lambda>a s'. ds_OK a \<and> ds_SchemaVersion a = 1 \<and> Q (a, None) s') s"
  shows "wp (client_Call (helper_transport c uid) operation q r) Q s"
  unfolding client_Call_def helper_transport_def serveConnection_def sum.case wp_bind
  by (rule wp_mono [OF assms]) (simp add: helper_answer_def)

lemma linux_schedule_live:
  assumes "easy c" "easy_world s" "validateHelperRequest q = None" "hd_active (disk (pw_world s)) = None"
    and "\<And>now boot n l. 0 < now \<Longrightarrow> Q (as_Receipt (the_record uid q now boot), None)
       (s\<lparr>pw_world := at (pw_world s) ((disk (pw_world s))\<lparr>hd_active := Some (Decoded (the_record uid q now boot))\<rparr>) n, pw_log := l\<rparr>)"
  shows "wp (linux_Schedule (ret None) (helper_transport c uid) q) Q s"
proof -
  have q: "ValidateRequest q (30 * Second) (3600 * Second) = None"
    using assms(3) by (auto simp: validateHelperRequest_def)
  let ?caps = "helperCapabilities\<lparr>cap_ExecuteSupported := True, cap_Reason := []\<rparr>"
  have preflight: "wp (linux_Preflight (ret None) (helper_transport c uid) q) Q' s"
    if ready: "\<And>n l. Q' (?caps, None) (s\<lparr>pw_world := at (pw_world s) (disk (pw_world s)) n, pw_log := l\<rparr>)" for Q'
  proof -
    have "wp (client_Call (helper_transport c uid) ''preflight'' (Some q) None) (\<lambda>(response, e) s'. e = None \<and>
        response = daemon_ok\<lparr>ds_Capabilities := Some ?caps\<rparr> \<and> Q' (?caps, None) s') s"
      by (intro easy_call easy_process assms easy_preflight) (use assms ready in \<open>auto simp: daemon_ok_def blank_response_def\<close>)
    then show ?thesis
      unfolding linux_Preflight_def Let_def
      using q by (auto simp: linuxCapabilities_def helperCapabilities_def elim!: wp_mono)
  qed
  have accepted: "wp (client_Call (helper_transport c uid) ''schedule'' (Some q) None) (\<lambda>(response, e) s'. e = None \<and>
      (\<exists>now boot. 0 < now \<and> response = daemon_ok\<lparr>ds_Receipt := Some (as_Receipt (the_record uid q now boot))\<rparr> \<and>
         Q (as_Receipt (the_record uid q now boot), None) s')) (s\<lparr>pw_world := at (pw_world s) (disk (pw_world s)) n, pw_log := l\<rparr>)"
    for n l
    by (intro easy_call easy_process easy_schedule) (use assms in \<open>auto simp: daemon_ok_def blank_response_def, blast\<close>)
  show ?thesis
    unfolding linux_Schedule_def wp_bind
    by (rule preflight, unfold prod.case wp_or_return, simp, rule wp_mono [OF accepted])
      (use assms accepted_receipt in \<open>auto\<close>)
qed

lemma linux_cancel_live:
  assumes "easy c" "easy_world s" "validateHelperRequest q = None" "0 < now"
    and "hd_active (disk (pw_world s)) = Some (Decoded (the_record uid q now boot))"
    and "\<And>n l. Q (cancelled, None) (s\<lparr>pw_world := at (pw_world s) ((disk (pw_world s))\<lparr>hd_active := None\<rparr>) n, pw_log := l\<rparr>)"
  shows "wp (linux_Cancel (helper_transport c uid) (as_Receipt (the_record uid q now boot))) Q s"
proof -
  have "wp (client_Call (helper_transport c uid) ''cancel'' None (Some (as_Receipt (the_record uid q now boot))))
     (\<lambda>(response, e) s'. e = None \<and> response = daemon_ok\<lparr>ds_CancelResult := Some cancelled\<rparr> \<and> Q (cancelled, None) s') s"
    by (intro easy_call easy_process easy_cancel) (use assms in \<open>auto simp: daemon_ok_def blank_response_def\<close>)
  then show ?thesis
    unfolding linux_Cancel_def using accepted_receipt(2) [OF assms(3,4)]
    by (auto simp: cancelled_def elim!: wp_mono)
qed

text \<open>
  C10: When nothing fails, a request within the helper's policy is scheduled through the Linux backend, and
  the receipt that it returns cancels the action again: both calls succeed and the helper is left without a
  record, whatever the rest of the state is.
\<close>

theorem schedule_cancel_round_trip:
  assumes "easy c" "easy_world s" "validateHelperRequest q = None" "hd_active (disk (pw_world s)) = None"
  shows "wp (do {
      (receipt, e) \<leftarrow> linux_Schedule (ret None) (helper_transport c uid) q;
      (result, e') \<leftarrow> linux_Cancel (helper_transport c uid) receipt;
      ret (e, result, e') }) (\<lambda>r s'. r = (None, cancelled, None) \<and> hd_active (disk (pw_world s')) = None) s"
  unfolding wp_bind
  by (rule linux_schedule_live [OF assms], unfold prod.case wp_bind, rule linux_cancel_live)
    (use assms in \<open>auto\<close>)

definition sample_request :: PowerRequest where
  "sample_request = \<lparr>req_JobID = ''dt_job_1'', req_Action = ''shutdown'', req_Delay = 120 * Second,
     req_Comment = AfterStopPowerComment ''dt_job_1'', req_RequestedAt = 5\<rparr>"

theorem schedule_cancel_round_trip_witness:
  "wp (do {
      (receipt, e) \<leftarrow> linux_Schedule (ret None) (helper_transport plain_config 1000) sample_request;
      (result, e') \<leftarrow> linux_Cancel (helper_transport plain_config 1000) receipt;
      ret (e, result, e') }) (\<lambda>r s'. r = (None, cancelled, None) \<and> hd_active (disk (pw_world s')) = None) idle_helper"
proof (rule schedule_cancel_round_trip)
  show "easy plain_config"
    by (simp add: easy_def plain_config_def)
  show "easy_world idle_helper" "hd_active (disk (pw_world idle_helper)) = None"
    by (simp_all add: easy_world_def calm_def idle_helper_def quiet_world_def)
  note comment = fixed_comment_trim [OF comments_fixed(3)] fixed_comment_length [OF comments_fixed(3)]
  show "validateHelperRequest sample_request = None"
    by (simp add: validateHelperRequest_def ValidateRequest_None sample_request_def comment ValidateJobID_None job_id_char_def
        HasPrefix_def is_lower_def is_digit_def is_upper_def char_between_def char_code_def)
qed

end
