(* ===== verification/Plugin_Service.thy ===== *)
theory Plugin_Service
  imports Completion Go_Trace Plugin_Status Plugin_Recovery
begin

text \<open>
  \<open>internal/pluginapi/service.go\<close>: the tools of the plugin. Arming a job checks its arguments, asks the backend,
  creates the job and starts its supervisor; finishing judges a completion report and runs the verifier;
  pausing and cancelling close what was armed; the status only reads. The backend, the launcher, the
  verifier profiles and the randomness are parameters whose answers are kept in the log; so are the loads and
  updates of \<open>cancel\<close>, which decide what it may forget.
\<close>

subsection \<open>The service\<close>

text \<open>A profile as the service uses it: its fingerprint, and a run in a workspace (\<open>-1\<close> when no runner can be built).\<close>

record loadedProfile =
  lp_Fingerprint :: string
  lp_Run :: "string \<Rightarrow> nat \<Rightarrow> int \<times> err option"

record PolicyCapability =
  pc_BuildSupported :: bool
  pc_BackendSupported :: bool
  pc_BackendPreflightPassed :: bool
  pc_ExecuteReady :: bool
  pc_UnavailableReason :: string

definition zero_capability :: PolicyCapability where
  "zero_capability = \<lparr>pc_BuildSupported = False, pc_BackendSupported = False, pc_BackendPreflightPassed = False,
     pc_ExecuteReady = False, pc_UnavailableReason = []\<rparr>"

record service_backend =
  bk_Preflight :: "nat \<Rightarrow> PowerRequest \<Rightarrow> Capabilities \<times> err option"
  bk_Cancel :: "nat \<Rightarrow> Receipt \<Rightarrow> CancelResult \<times> err option"

text \<open>A launcher may be able to start cancel workers as well.\<close>

record service_launcher =
  la_Launch :: "nat \<Rightarrow> string \<Rightarrow> err + int"
  la_EnsureCancelWorker :: "(nat \<Rightarrow> string \<Rightarrow> string \<Rightarrow> string \<Rightarrow> err + int) option"

record Options =
  op_AfterStopExecuteAvailable :: bool
  op_AfterStopExecuteUnavailableReason :: string
  op_ExecuteAvailable :: bool
  op_ExecuteUnavailableReason :: string
  op_Workspace :: string
  op_Profiles :: "(nat \<Rightarrow> string \<Rightarrow> err + loadedProfile) option"
  op_Launcher :: "service_launcher option"
  op_Backend :: "service_backend option"
  op_PowerPolicyFingerprint :: string
  op_AllowAgentOnlySuccess :: bool
  op_PolicyCapabilities :: "TriggerPolicy \<Rightarrow> PolicyCapability option"

text \<open>\<open>sv_Random\<close> gives the two reads of \<open>crypto/rand\<close> of an identity.\<close>

record Service =
  sv_Workspace :: string
  sv_Profiles :: "(nat \<Rightarrow> string \<Rightarrow> err + loadedProfile) option"
  sv_Launcher :: "service_launcher option"
  sv_Backend :: "service_backend option"
  sv_PowerPolicyFingerprint :: string
  sv_AllowAgentOnlySuccess :: bool
  sv_PolicyCapabilities :: "TriggerPolicy \<Rightarrow> PolicyCapability option"
  sv_Random :: "nat \<Rightarrow> u8 list option \<times> u8 list option"

definition normalizedPolicyCapabilities :: "Options \<Rightarrow> TriggerPolicy \<Rightarrow> PolicyCapability option" where
  "normalizedPolicyCapabilities options =
     (let given = op_PolicyCapabilities options;
          all = (\<lambda>b reason. \<lparr>pc_BuildSupported = b, pc_BackendSupported = b, pc_BackendPreflightPassed = b, pc_ExecuteReady = b,
            pc_UnavailableReason = reason\<rparr>);
          after_stop = (case given TriggerAfterStop of Some c \<Rightarrow> c
            | None \<Rightarrow> all (op_AfterStopExecuteAvailable options) (op_AfterStopExecuteUnavailableReason options))
      in (\<lambda>_. None)(
        TriggerAfterStop \<mapsto> after_stop,
        TriggerAfterAllStop \<mapsto> (case given TriggerAfterAllStop of Some c \<Rightarrow> c | None \<Rightarrow> after_stop),
        TriggerVerifiedSuccess \<mapsto> (case given TriggerVerifiedSuccess of Some c \<Rightarrow> c
          | None \<Rightarrow> all (op_ExecuteAvailable options) (op_ExecuteUnavailableReason options))))"

definition capability_of :: "(TriggerPolicy \<Rightarrow> PolicyCapability option) \<Rightarrow> TriggerPolicy \<Rightarrow> PolicyCapability" where
  "capability_of caps policy = (case caps policy of Some c \<Rightarrow> c | None \<Rightarrow> zero_capability)"

definition anyExecuteReady :: "(TriggerPolicy \<Rightarrow> PolicyCapability option) \<Rightarrow> bool" where
  "anyExecuteReady caps \<longleftrightarrow>
     list_ex (\<lambda>p. pc_ExecuteReady (capability_of caps p)) [TriggerAfterStop, TriggerAfterAllStop, TriggerVerifiedSuccess]"

text \<open>\<open>present\<close> says that a state store is given.\<close>

definition NewWithOptions :: "bool \<Rightarrow> Options \<Rightarrow> (nat \<Rightarrow> u8 list option \<times> u8 list option) \<Rightarrow> err + Service" where
  "NewWithOptions present options random =
     (let caps = normalizedPolicyCapabilities options in
      if \<not> present then Inl (Err ''plugin state store is required'')
      else if anyExecuteReady caps \<and> \<not> path_IsAbs (op_Workspace options) then
        Inl (Err ''plugin execute requires an absolute workspace'')
      else if anyExecuteReady caps \<and> (op_Launcher options = None \<or> op_Backend options = None) then
        Inl (Err ''plugin execute requires a launcher and power backend'')
      else if pc_ExecuteReady (capability_of caps TriggerVerifiedSuccess) \<and>
          (op_Profiles options = None \<or> op_PowerPolicyFingerprint options = []) then
        Inl (Err ''verified-success execute requires profiles and a fixed power policy'')
      else Inr \<lparr>sv_Workspace = op_Workspace options, sv_Profiles = op_Profiles options, sv_Launcher = op_Launcher options,
        sv_Backend = op_Backend options, sv_PowerPolicyFingerprint = op_PowerPolicyFingerprint options,
        sv_AllowAgentOnlySuccess = op_AllowAgentOnlySuccess options, sv_PolicyCapabilities = caps, sv_Random = random\<rparr>)"

definition capability :: "Service \<Rightarrow> TriggerPolicy \<Rightarrow> PolicyCapability" where
  "capability s policy = capability_of (sv_PolicyCapabilities s) policy"

subsection \<open>Results\<close>

datatype structured =
    OBool bool
  | OText string
  | OState State
  | OPolicy TriggerPolicy
  | OGeneration u64
  | OStatus Plugin_Status.Status
  | OStatuses "Plugin_Status.Status list"
  | ORecovery RecoveryStatus
  | OBools "string \<Rightarrow> bool option"
  | OTexts "string \<Rightarrow> string option"

record Result =
  res_Text :: string
  res_Structured :: "string \<Rightarrow> structured option"
  res_IsError :: bool

definition service_failure :: "string \<Rightarrow> string \<Rightarrow> string \<Rightarrow> Result" where
  "service_failure tool code message = \<lparr>res_Text = message,
     res_Structured = [''ok'' \<mapsto> OBool False, ''tool'' \<mapsto> OText tool, ''reason_code'' \<mapsto> OText code,
       ''execute_available'' \<mapsto> OBool False, ''power_action_called'' \<mapsto> OBool False],
     res_IsError = True\<rparr>"

definition failureWithJob :: "string \<Rightarrow> string \<Rightarrow> string \<Rightarrow> Job \<Rightarrow> Result" where
  "failureWithJob tool code message job =
     (let result = service_failure tool code message in
      result\<lparr>res_Structured := (res_Structured result)(''job_id'' \<mapsto> OText (JobID job), ''state'' \<mapsto> OState (State job),
        ''trigger_policy'' \<mapsto> OPolicy (TriggerPolicy job), ''generation'' \<mapsto> OGeneration (Generation job))\<rparr>)"

definition service_success :: "string \<Rightarrow> Job \<Rightarrow> string \<Rightarrow> Result" where
  "service_success tool job message = \<lparr>res_Text = message,
     res_Structured = [''ok'' \<mapsto> OBool True, ''tool'' \<mapsto> OText tool, ''job_id'' \<mapsto> OText (JobID job),
       ''state'' \<mapsto> OState (State job), ''reason_code'' \<mapsto> OText (ReasonCode job),
       ''trigger_policy'' \<mapsto> OPolicy (TriggerPolicy job), ''generation'' \<mapsto> OGeneration (Generation job),
       ''execute_available'' \<mapsto> OBool False, ''power_action_called'' \<mapsto> OBool False],
     res_IsError = False\<rparr>"

subsection \<open>Arguments\<close>

text \<open>\<open>strconv.ParseInt\<close> on the text of a JSON number, within 64 bits.\<close>

definition digits_value :: "string \<Rightarrow> int" where
  "digits_value = foldl (\<lambda>n c. n * 10 + (int (char_code c) - 48)) 0"

definition decode_int64 :: "int \<Rightarrow> jval \<Rightarrow> int option" where
  "decode_int64 old v =
     (case v of
        VNull \<Rightarrow> Some old
      | VNum t \<Rightarrow>
          (let (sign, digits) = (case t of c # cs \<Rightarrow> if c = CHR ''-'' then (-1, cs) else (1, t) | [] \<Rightarrow> (1, t));
               n = sign * digits_value digits
           in if list_all is_digit digits \<and> - (2 ^ 63) \<le> n \<and> n < 2 ^ 63 then Some n else None)
      | _ \<Rightarrow> None)"

definition decode_bool :: "bool \<Rightarrow> jval \<Rightarrow> bool option" where
  "decode_bool old v = (case v of VBool b \<Rightarrow> Some b | VNull \<Rightarrow> Some old | _ \<Rightarrow> None)"

text \<open>
  \<open>decodeArguments\<close>: nothing or \<open>null\<close> is the empty object; \<open>decode\<close> fills the destination from the first
  value (a value of the wrong type or an unknown field is an error), and only white space may follow.
\<close>

definition or_empty :: "string \<Rightarrow> string" where
  "or_empty raw = (if TrimSpace raw = [] \<or> TrimSpace raw = ''null'' then ''{}'' else raw)"

definition decodeArguments :: "(jval \<Rightarrow> 'a option) \<Rightarrow> string \<Rightarrow> err + 'a" where
  "decodeArguments decode raw =
     (let text = or_empty raw in
      case parse_value (2 * length text + 2) text of
        None \<Rightarrow> Inl (Err ''decode arguments: %w'')
      | Some (v, rest) \<Rightarrow>
          (case decode v of
             None \<Rightarrow> Inl (Err ''decode arguments: %w'')
           | Some a \<Rightarrow> if skip_ws rest \<noteq> [] then Inl (Err ''arguments contain trailing JSON'') else Inr a))"

definition decode_struct :: "string list \<Rightarrow> ('a \<Rightarrow> string \<Rightarrow> jval \<Rightarrow> 'a option) \<Rightarrow> 'a \<Rightarrow> jval \<Rightarrow> 'a option" where
  "decode_struct names put zero v =
     (case v of VNull \<Rightarrow> Some zero | VObj ms \<Rightarrow> decode_members names put zero ms | _ \<Rightarrow> None)"

record armArguments =
  aa_Action :: string
  aa_TriggerPolicy :: string
  aa_AcknowledgeStopWithoutSuccess :: bool
  aa_AcknowledgeBarrierAcrossTurns :: bool
  aa_TargetSessionIDs :: "string slice"
  aa_DelaySeconds :: int
  aa_ExpiresInSeconds :: int
  aa_Mode :: string
  aa_VerifierProfile :: string
  aa_AllowAgentOnlySuccess :: bool

definition zero_armArguments :: armArguments where
  "zero_armArguments = \<lparr>aa_Action = [], aa_TriggerPolicy = [], aa_AcknowledgeStopWithoutSuccess = False,
     aa_AcknowledgeBarrierAcrossTurns = False, aa_TargetSessionIDs = None, aa_DelaySeconds = 0, aa_ExpiresInSeconds = 0,
     aa_Mode = [], aa_VerifierProfile = [], aa_AllowAgentOnlySuccess = False\<rparr>"

definition arm_fields :: "string list" where
  "arm_fields = [''action'', ''trigger_policy'', ''acknowledge_stop_without_success'', ''acknowledge_barrier_across_turns'',
     ''target_session_ids'', ''delay_seconds'', ''expires_in_seconds'', ''mode'', ''verifier_profile'', ''allow_agent_only_success'']"

definition put_arm :: "armArguments \<Rightarrow> string \<Rightarrow> jval \<Rightarrow> armArguments option" where
  "put_arm a n v =
     (if n = ''action'' then map_option (\<lambda>x. a\<lparr>aa_Action := x\<rparr>) (decode_string (aa_Action a) v)
      else if n = ''trigger_policy'' then map_option (\<lambda>x. a\<lparr>aa_TriggerPolicy := x\<rparr>) (decode_string (aa_TriggerPolicy a) v)
      else if n = ''acknowledge_stop_without_success'' then
        map_option (\<lambda>x. a\<lparr>aa_AcknowledgeStopWithoutSuccess := x\<rparr>) (decode_bool (aa_AcknowledgeStopWithoutSuccess a) v)
      else if n = ''acknowledge_barrier_across_turns'' then
        map_option (\<lambda>x. a\<lparr>aa_AcknowledgeBarrierAcrossTurns := x\<rparr>) (decode_bool (aa_AcknowledgeBarrierAcrossTurns a) v)
      else if n = ''target_session_ids'' then
        map_option (\<lambda>x. a\<lparr>aa_TargetSessionIDs := x\<rparr>) (decode_slice decode_string [] (aa_TargetSessionIDs a) v)
      else if n = ''delay_seconds'' then map_option (\<lambda>x. a\<lparr>aa_DelaySeconds := x\<rparr>) (decode_int64 (aa_DelaySeconds a) v)
      else if n = ''expires_in_seconds'' then
        map_option (\<lambda>x. a\<lparr>aa_ExpiresInSeconds := x\<rparr>) (decode_int64 (aa_ExpiresInSeconds a) v)
      else if n = ''mode'' then map_option (\<lambda>x. a\<lparr>aa_Mode := x\<rparr>) (decode_string (aa_Mode a) v)
      else if n = ''verifier_profile'' then map_option (\<lambda>x. a\<lparr>aa_VerifierProfile := x\<rparr>) (decode_string (aa_VerifierProfile a) v)
      else map_option (\<lambda>x. a\<lparr>aa_AllowAgentOnlySuccess := x\<rparr>) (decode_bool (aa_AllowAgentOnlySuccess a) v))"

definition decode_arm :: "jval \<Rightarrow> armArguments option" where
  "decode_arm = decode_struct arm_fields put_arm zero_armArguments"

definition target_ids :: "armArguments \<Rightarrow> string list" where
  "target_ids a = (case aa_TargetSessionIDs a of None \<Rightarrow> [] | Some s \<Rightarrow> slice_items s)"

subsection \<open>Arming\<close>

datatype service_effect =
    Randomness "u8 list option" "u8 list option"
  | ProfileLoaded string "err + string"
  | BackendAsked PowerRequest Capabilities "err option"
  | SupervisorLaunched string "err + int"
  | VerifierRan int "err option"
  | JobLoaded "err + Job"
  | JobUpdated string "Job \<times> bool \<times> err option"
  | AuthorityLoaded "err + RecoveryAuthority"
  | CancelAsked Receipt CancelResult "err option"
  | WorkerStarted string "err + int"

type_synonym service_world = "(plugin_disk, service_effect) traced"
type_synonym 'a vop = "(service_world, 'a) state"

text \<open>The first of a list of conditions that holds, with its code and message.\<close>

fun refusal :: "string \<Rightarrow> (bool \<times> string \<times> string) list \<Rightarrow> Result option" where
  "refusal tool [] = None"
| "refusal tool ((b, code, message) # rest) = (if b then Some (service_failure tool code message) else refusal tool rest)"

text \<open>The targets of a barrier: exact, non-empty session ids, each only once.\<close>

fun target_sessions :: "string list \<Rightarrow> string list \<Rightarrow> string list \<Rightarrow> Result + StopTarget list" where
  "target_sessions seenRaw seenHashes [] = Inr []"
| "target_sessions seenRaw seenHashes (sessionID # ids) =
     (let sessionHash = SHA256 sessionID in
      case refusal ''arm'' [
        (sessionID = [] \<or> length sessionID > 1024 \<or> TrimSpace sessionID \<noteq> sessionID, ''invalid_target_sessions'',
          ''target session ids must be non-empty exact values without leading or trailing whitespace''),
        (sessionID \<in> set seenRaw, ''duplicate_target_session'', ''target_session_ids must not contain duplicates''),
        (sessionHash \<in> set seenHashes, ''target_identity_collision'', ''target session identities collide after hashing'')]
      of Some r \<Rightarrow> Inl r
       | None \<Rightarrow>
           (case target_sessions (sessionID # seenRaw) (sessionHash # seenHashes) ids of
              Inl r \<Rightarrow> Inl r
            | Inr ts \<Rightarrow> Inr (zero_StopTarget\<lparr>tg_SessionHash := sessionHash\<rparr> # ts)))"

text \<open>The text that a service without a reason of its own gives for refusing to execute.\<close>

definition unavailable_reason :: "Service \<Rightarrow> TriggerPolicy \<Rightarrow> string" where
  "unavailable_reason s policy =
     (let reason = pc_UnavailableReason (capability s policy) in
      if reason \<noteq> [] then reason
      else if policy \<noteq> TriggerVerifiedSuccess then ''observable Stop execute is unavailable on this platform''
      else ''verified-success execute requires validated local policy and same-host authority'')"

definition arm_targets :: "TriggerPolicy \<Rightarrow> armArguments \<Rightarrow> Result + StopTarget list" where
  "arm_targets policy a =
     (if policy = TriggerAfterAllStop then
        (if length (target_ids a) < MinimumStopTargets \<or> length (target_ids a) > MaximumStopTargets then
           Inl (service_failure ''arm'' ''invalid_target_sessions'' ''after_all_stop requires between 2 and 16 target_session_ids'')
         else target_sessions [] [] (target_ids a))
      else if target_ids a \<noteq> [] \<or> aa_AcknowledgeBarrierAcrossTurns a then
        Inl (service_failure ''arm'' ''barrier_arguments_not_applicable''
          ''target_session_ids and acknowledge_barrier_across_turns are only valid for after_all_stop'')
      else Inr [])"

definition arm_first_checks :: "TriggerPolicy \<Rightarrow> armArguments \<Rightarrow> Result option" where
  "arm_first_checks policy a = refusal ''arm'' [
     (\<not> policy_Valid policy, ''invalid_trigger_policy'', ''trigger_policy must be after_stop, after_all_stop, or verified_success''),
     (aa_Action a \<noteq> ''shutdown'', ''unsupported_action'', ''action must be shutdown''),
     (aa_DelaySeconds a < 30 \<or> aa_DelaySeconds a > 3600, ''invalid_delay'', ''delay_seconds must be between 30 and 3600''),
     (aa_Mode a = ''execute'' \<and> aa_DelaySeconds a < 120, ''invalid_delay'', ''execute mode requires delay_seconds between 120 and 3600''),
     (aa_ExpiresInSeconds a < 60 \<or> aa_ExpiresInSeconds a > 24 * 60 * 60, ''invalid_expiry'',
       ''expires_in_seconds must be between 60 and 86400'')]"

definition arm_last_checks :: "Service \<Rightarrow> TriggerPolicy \<Rightarrow> armArguments \<Rightarrow> Result option" where
  "arm_last_checks s policy a =
     (let stop = stop_policy policy; execute = aa_Mode a \<noteq> ''dry_run''; reason = unavailable_reason s policy in
      refusal ''arm'' [
        (stop \<and> (aa_VerifierProfile a \<noteq> ''none'' \<or> aa_AllowAgentOnlySuccess a), ''semantic_verification_not_applicable'',
          ''observable Stop policies must use verifier_profile=none and allow_agent_only_success=false''),
        (\<not> stop \<and> aa_AcknowledgeStopWithoutSuccess a, ''invalid_acknowledgement'',
          ''verified_success cannot acknowledge after-stop semantics''),
        (execute \<and> aa_Mode a \<noteq> ''execute'', ''invalid_mode'', ''mode must be dry_run or execute''),
        (execute \<and> \<not> pc_ExecuteReady (capability s policy),
          (if HasPrefix reason ''stop_arbitration_unavailable'' then ''stop_arbitration_unavailable'' else ''execute_unavailable''), reason),
        (execute \<and> stop \<and> \<not> aa_AcknowledgeStopWithoutSuccess a, ''stop_without_success_acknowledgement_required'',
          ''observable Stop execute requires explicit acknowledgement that a normal Stop can trigger shutdown regardless of task success''),
        (execute \<and> policy = TriggerAfterAllStop \<and> \<not> aa_AcknowledgeBarrierAcrossTurns a, ''barrier_across_turns_acknowledgement_required'',
          ''after_all_stop execute requires acknowledgement that a target which resumes before countdown remains in the barrier until a later Stop''),
        (policy = TriggerVerifiedSuccess \<and> aa_Mode a = ''dry_run'' \<and> aa_VerifierProfile a \<noteq> ''none'', ''verifier_profile_unavailable'',
          ''this build only supports verifier_profile=none in plugin dry-run mode'')])"

text \<open>
  All checks of the arguments, in the order of the code. An accepted request has its policy, its targets, and
  arguments in which the verifier of a stop policy is \<open>none\<close>.
\<close>

definition arm_policy :: "armArguments \<Rightarrow> TriggerPolicy" where
  "arm_policy a = (if policy_of (aa_TriggerPolicy a) = TriggerOther [] then TriggerAfterStop else policy_of (aa_TriggerPolicy a))"

definition arm_request :: "Service \<Rightarrow> armArguments \<Rightarrow> Result + TriggerPolicy \<times> StopTarget list \<times> armArguments" where
  "arm_request s a =
     (let policy = arm_policy a in
      case arm_first_checks policy a of
        Some r \<Rightarrow> Inl r
      | None \<Rightarrow>
          (case arm_targets policy a of
             Inl r \<Rightarrow> Inl r
           | Inr targets \<Rightarrow>
               (let a = (if stop_policy policy \<and> aa_VerifierProfile a = [] then a\<lparr>aa_VerifierProfile := ''none''\<rparr> else a)
                in case arm_last_checks s policy a of Some r \<Rightarrow> Inl r | None \<Rightarrow> Inr (policy, targets, a))))"

definition load_verifier :: "Service \<Rightarrow> string \<Rightarrow> (err + loadedProfile) vop" where
  "load_verifier s name =
     (case sv_Profiles s of
        None \<Rightarrow> ret (Inl (Err ''runtime error: invalid memory address or nil pointer dereference''))
      | Some f \<Rightarrow>
          ask (\<lambda>r. ProfileLoaded name (case r of Inl e \<Rightarrow> Inl e | Inr p \<Rightarrow> Inr (lp_Fingerprint p))) (\<lambda>n. f n name))"

definition new_identity :: "Service \<Rightarrow> (err + JobIdentity) vop" where
  "new_identity s = do {
     (job, nonce) \<leftarrow> ask (\<lambda>(a, b). Randomness a b) (sv_Random s);
     ret (identity_New job nonce) }"

definition service_now :: "time vop" where
  "service_now = store time_Now"

text \<open>The verifier of a verified-success job: its fingerprint, which is empty for a job without a profile.\<close>

definition arm_verifier :: "Service \<Rightarrow> TriggerPolicy \<Rightarrow> armArguments \<Rightarrow> (Result + string) vop" where
  "arm_verifier s policy a =
     (if policy = TriggerVerifiedSuccess \<and> aa_Mode a = ''execute'' then
        (if aa_VerifierProfile a = ''none'' then
           ret (if \<not> aa_AllowAgentOnlySuccess a \<or> \<not> sv_AllowAgentOnlySuccess s then
                  Inl (service_failure ''arm'' ''independent_evidence_required''
                    ''execute requires a registered verifier profile or explicit allow_agent_only_success'')
                else Inr [])
         else do {
           r \<leftarrow> load_verifier s (aa_VerifierProfile a);
           ret (case r of
                  Inl _ \<Rightarrow> Inl (service_failure ''arm'' ''verifier_profile_unavailable''
                    ''the registered verifier profile is unavailable or invalid'')
                | Inr p \<Rightarrow> Inr (lp_Fingerprint p)) })
      else ret (Inr []))"

definition arm_power_request :: "armArguments \<Rightarrow> string \<Rightarrow> time \<Rightarrow> PowerRequest" where
  "arm_power_request a jobID now =
     \<lparr>req_JobID = jobID, req_Action = aa_Action a, req_Delay = aa_DelaySeconds a * Second,
      req_Comment = AfterStopPowerComment jobID, req_RequestedAt = now\<rparr>"

definition arm_preflight :: "Service \<Rightarrow> TriggerPolicy \<Rightarrow> armArguments \<Rightarrow> string \<Rightarrow> time \<Rightarrow> Result option vop" where
  "arm_preflight s policy a jobID now =
     (let refused = Some (service_failure ''arm'' ''power_unavailable'' ''the local power backend did not pass after-stop preflight'') in
      if stop_policy policy \<and> aa_Mode a = ''execute'' then
        (case sv_Backend s of
           None \<Rightarrow> ret refused
         | Some b \<Rightarrow> do {
             let request = arm_power_request a jobID now;
             (capabilities, e) \<leftarrow> ask (\<lambda>(c, e). BackendAsked request c e) (\<lambda>n. bk_Preflight b n request);
             ret (if e \<noteq> None \<or> \<not> cap_ExecuteSupported capabilities then refused else None) })
      else ret None)"

definition arm_binding :: "Service \<Rightarrow> TriggerPolicy \<Rightarrow> (Result + string) vop" where
  "arm_binding s policy =
     (if policy = TriggerAfterAllStop then do {
        r \<leftarrow> new_identity s;
        ret (case r of
               Inl _ \<Rightarrow> Inl (service_failure ''arm'' ''state_error'' ''could not create a barrier binding identity'')
             | Inr i \<Rightarrow> Inr (ji_JobID i)) }
      else ret (Inr []))"

definition arm_job :: "Service \<Rightarrow> TriggerPolicy \<Rightarrow> StopTarget list \<Rightarrow> armArguments \<Rightarrow> string \<Rightarrow> JobIdentity \<Rightarrow> string \<Rightarrow> time \<Rightarrow> Job" where
  "arm_job s policy targets a fingerprint identity binding now = zero_Job\<lparr>
     SchemaVersion := CurrentSchemaVersion, JobID := ji_JobID identity, NonceHash := ji_NonceHash identity,
     State := StateArmPendingBind, ReasonCode := ''awaiting_post_tool_hook'', DryRun := (aa_Mode a = ''dry_run''),
     Action := aa_Action a, TriggerPolicy := policy, StopWithoutSuccessAck := aa_AcknowledgeStopWithoutSuccess a,
     DelaySeconds := aa_DelaySeconds a, ExpiresAt := now + aa_ExpiresInSeconds a * Second, CreatedAt := now, UpdatedAt := now,
     Generation := 1, VerifierProfile := aa_VerifierProfile a, AllowAgentOnlySuccess := aa_AllowAgentOnlySuccess a,
     HookCompatibility := ''not_evaluated'', WorkspaceCWD := sv_Workspace s, VerifierFingerprint := fingerprint,
     PowerPolicyFingerprint := (if policy = TriggerVerifiedSuccess then sv_PowerPolicyFingerprint s else []),
     StopTargets := targets, TargetBindingID := binding, BarrierAcrossTurnsAck := aa_AcknowledgeBarrierAcrossTurns a\<rparr>"

text \<open>A job that could not be created or started.\<close>

definition create_failure :: "err \<Rightarrow> Result" where
  "create_failure e =
     (if errors_Is e ErrTargetReservationConflict then
        service_failure ''arm'' ''target_session_conflict'' ''at least one target session already belongs to an active DoneThen job''
      else service_failure ''arm'' ''state_error'' ''could not persist the DoneThen job'')"

definition launch_failed_rule :: "Job \<Rightarrow> time \<Rightarrow> err option \<times> Job" where
  "launch_failed_rule job now = (None, (bump job)\<lparr>State := StateOrphaned, ReasonCode := ''supervisor_launch_failed''\<rparr>)"

definition launched_rule :: "int \<Rightarrow> Job \<Rightarrow> time \<Rightarrow> err option \<times> Job" where
  "launched_rule pid job now = (None, job\<lparr>SupervisorPID := pid\<rparr>)"

definition launch_supervisor :: "Service \<Rightarrow> string \<Rightarrow> (err + int) vop" where
  "launch_supervisor s jobID =
     (case sv_Launcher s of
        None \<Rightarrow> ret (Inl (Err ''runtime error: invalid memory address or nil pointer dereference''))
      | Some l \<Rightarrow> ask (SupervisorLaunched jobID) (\<lambda>n. la_Launch l n jobID))"

definition arm_start :: "Service \<Rightarrow> TriggerPolicy \<Rightarrow> Job \<Rightarrow> Result vop" where
  "arm_start s policy job = do {
     r \<leftarrow> launch_supervisor s (JobID job);
     case r of
       Inl _ \<Rightarrow> do {
         (failed, _, _) \<leftarrow> store (UpdateJob (JobID job) ''supervisor.launch_failed'' [] launch_failed_rule);
         ret (failureWithJob ''arm'' ''supervisor_unavailable'' ''the one-shot supervisor could not be started'' failed) }
     | Inr pid \<Rightarrow> do {
         (job, _, e) \<leftarrow> store (UpdateJob (JobID job) ''supervisor.launched'' [] (launched_rule pid));
         ret (if e \<noteq> None then
                failureWithJob ''arm'' ''state_error'' ''the supervisor started but its identity could not be persisted; cancel this job'' job
              else if policy = TriggerAfterStop then
                service_success ''arm'' job ''After-stop shutdown armed; the normal matching Stop can start the cancellable countdown''
              else if policy = TriggerAfterAllStop then
                service_success ''arm'' job ''Multi-session Stop barrier reserved; shutdown remains impossible until the controller hook binds and every target has stopped''
              else service_success ''arm'' job ''Verified-success job armed; the supervisor is waiting for hook binding and host evidence'') } }"

definition arm_create :: "Service \<Rightarrow> TriggerPolicy \<Rightarrow> string list \<Rightarrow> Job \<Rightarrow> Result vop" where
  "arm_create s policy ids job = do {
     (job, e) \<leftarrow> store (if policy = TriggerAfterAllStop then CreateBarrierReservations job ids
       else do { e \<leftarrow> store_Create job; ret (job, e) });
     case e of
       Some x \<Rightarrow> ret (create_failure x)
     | None \<Rightarrow>
         if \<not> DryRun job then arm_start s policy job
         else ret (service_success ''arm'' job
           (if policy = TriggerAfterStop then ''After-stop dry-run armed; the normal matching Stop will be recorded without scheduling power''
            else if policy = TriggerAfterAllStop then ''Multi-session Stop barrier dry-run reserved; waiting for controller binding and every target Stop''
            else ''Verified-success dry-run armed; waiting for completion evidence'')) }"

definition service_arm :: "Service \<Rightarrow> string \<Rightarrow> Result vop" where
  "service_arm s raw =
     (case decodeArguments decode_arm raw of
        Inl e \<Rightarrow> ret (service_failure ''arm'' ''invalid_arguments'' ''%s'')
      | Inr args \<Rightarrow>
          (case arm_request s args of
             Inl r \<Rightarrow> ret r
           | Inr (policy, targets, a) \<Rightarrow> do {
               v \<leftarrow> arm_verifier s policy a;
               case v of
                 Inl r \<Rightarrow> ret r
               | Inr fingerprint \<Rightarrow> do {
                   i \<leftarrow> new_identity s;
                   case i of
                     Inl _ \<Rightarrow> ret (service_failure ''arm'' ''state_error'' ''could not create a one-shot job identity'')
                   | Inr identity \<Rightarrow> do {
                       now \<leftarrow> service_now;
                       p \<leftarrow> arm_preflight s policy a (ji_JobID identity) now;
                       case p of
                         Some r \<Rightarrow> ret r
                       | None \<Rightarrow> do {
                           b \<leftarrow> arm_binding s policy;
                           case b of
                             Inl r \<Rightarrow> ret r
                           | Inr binding \<Rightarrow>
                               arm_create s policy (target_ids a) (arm_job s policy targets a fingerprint identity binding now) } } } }))"

subsection \<open>Changes shared by the tools\<close>

definition service_clearCompletion :: "Job \<Rightarrow> Job" where
  "service_clearCompletion job = job\<lparr>CompletionStatus := [], CompletionEvidenceHash := [], ReadyTurnID := [],
     StopTurnID := [], FinishObserved := False, VerifierPassed := False, VerifierExitCode := None,
     HookFingerprintH1 := [], HookFingerprintH2 := [], HookFingerprintH3 := [], HookCompatibility := ''not_evaluated'',
     HostSnapshotReason := [], HostInstanceID := []\<rparr>"

definition service_expire :: "Job \<Rightarrow> time \<Rightarrow> bool \<times> Job" where
  "service_expire job now =
     (if IsActive (State job) \<and> State job \<noteq> StateActionIntent \<and> State job \<noteq> StateActionScheduled \<and> Expired job now
      then (True, service_clearCompletion ((bump job)\<lparr>State := StateExpired, ReasonCode := ''arm_expired''\<rparr>))
      else (False, job))"

subsection \<open>Finishing\<close>

text \<open>
  The arguments of \<open>finish\<close> keep the bytes of the completion (\<open>json.RawMessage\<close>), so that the members of the object
  are read with the text of their values. Like the reader of \<open>Go_JSON\<close>, with two units of fuel per byte.
\<close>

fun raw_members :: "nat \<Rightarrow> string \<Rightarrow> ((string \<times> string) list \<times> string) option" where
  "raw_members 0 s = None"
| "raw_members (Suc n) s =
     (case skip_ws s of
        [] \<Rightarrow> None
      | c # cs \<Rightarrow>
          if c \<noteq> dquote then None
          else do {
            (k, r) \<leftarrow> string_rest cs;
            case skip_ws r of
              [] \<Rightarrow> None
            | c # r \<Rightarrow>
                if c \<noteq> CHR '':'' then None
                else do {
                  let text = skip_ws r;
                  (_, rest) \<leftarrow> parse_value n text;
                  let raw = take (length text - length rest) text;
                  case skip_ws rest of
                    [] \<Rightarrow> None
                  | c # rest \<Rightarrow>
                      if c = CHR '','' then map_option (map_prod ((#) (k, raw)) id) (raw_members n rest)
                      else if c = CHR ''}'' then Some ([(k, raw)], rest)
                      else None } })"

definition raw_object :: "string \<Rightarrow> ((string \<times> string) list \<times> string) option" where
  "raw_object s =
     (case skip_ws s of
        [] \<Rightarrow> None
      | c # cs \<Rightarrow>
          if c \<noteq> CHR ''{'' then None
          else (case skip_ws cs of
                  [] \<Rightarrow> None
                | d # ds \<Rightarrow> if d = CHR ''}'' then Some ([], ds) else raw_members (2 * length s + 2) cs))"

record finishArguments =
  fa_JobID :: string
  fa_Completion :: string

fun decode_finish :: "finishArguments \<Rightarrow> (string \<times> string) list \<Rightarrow> finishArguments option" where
  "decode_finish a [] = Some a"
| "decode_finish a ((k, raw) # ms) =
     (case find_field [''job_id'', ''completion''] k of
        None \<Rightarrow> None
      | Some n \<Rightarrow>
          if n = ''job_id'' then do {
            v \<leftarrow> json_text raw;
            id \<leftarrow> decode_string (fa_JobID a) v;
            decode_finish (a\<lparr>fa_JobID := id\<rparr>) ms }
          else decode_finish (a\<lparr>fa_Completion := raw\<rparr>) ms)"

definition finish_arguments :: "string \<Rightarrow> err + finishArguments" where
  "finish_arguments raw =
     (case raw_object (or_empty raw) of
        None \<Rightarrow> Inl (Err ''decode arguments: %w'')
      | Some (ms, rest) \<Rightarrow>
          (case decode_finish \<lparr>fa_JobID = [], fa_Completion = []\<rparr> ms of
             None \<Rightarrow> Inl (Err ''decode arguments: %w'')
           | Some a \<Rightarrow> if skip_ws rest \<noteq> [] then Inl (Err ''arguments contain trailing JSON'') else Inr a))"

text \<open>The update of \<open>finish\<close>. The job is \<open>VERIFYING\<close> afterwards exactly when the verifier has to run.\<close>

definition finish_rule :: "Envelope \<Rightarrow> bool \<Rightarrow> string \<Rightarrow> Job \<Rightarrow> time \<Rightarrow> err option \<times> Job" where
  "finish_rule envelope is_done evidenceHash job now =
     (case service_expire job now of
        (True, job) \<Rightarrow> (None, job)
      | (False, _) \<Rightarrow>
          if State job \<noteq> StateArmed \<and> State job \<noteq> StateHostMonitoring then
            (Some (Err ''job is in state %s; finish requires ARMED or HOST_MONITORING''), job)
          else
            (None,
             let job = (bump job)\<lparr>CompletionStatus := status_text (en_Status envelope), VerifierPassed := False,
                   VerifierExitCode := None\<rparr> in
             if \<not> is_done then
               job\<lparr>State := StateNotDone, ReasonCode := ''completion_policy_rejected'', CompletionEvidenceHash := [], ReadyTurnID := []\<rparr>
             else if VerifierProfile job = ''none'' \<and> \<not> AllowAgentOnlySuccess job then
               job\<lparr>State := StateVerificationFailed, ReasonCode := ''independent_evidence_required'', CompletionEvidenceHash := [],
                 ReadyTurnID := [], StopTurnID := [], FinishObserved := False\<rparr>
             else
               (let job = job\<lparr>CompletionEvidenceHash := evidenceHash, ReadyTurnID := CurrentTurnID job, StopTurnID := [],
                      FinishObserved := False, HookFingerprintH2 := [], HookFingerprintH3 := []\<rparr> in
                if VerifierProfile job = ''none'' then
                  job\<lparr>State := StateReadyPendingStop, ReasonCode := ''completion_policy_passed_agent_only''\<rparr>
                else job\<lparr>State := StateVerifying, ReasonCode := ''verifier_started''\<rparr>)))"

definition verifier_rule :: "u64 \<Rightarrow> int \<Rightarrow> bool \<Rightarrow> Job \<Rightarrow> time \<Rightarrow> err option \<times> Job" where
  "verifier_rule expectedGeneration verifyExit passed job now =
     (case service_expire job now of
        (True, job) \<Rightarrow> (None, job)
      | (False, _) \<Rightarrow>
          if State job = StateCancelled then (None, job)
          else if State job \<noteq> StateVerifying \<or> Generation job \<noteq> expectedGeneration then
            (Some (Err ''job changed while the verifier was running''), job)
          else
            (None,
             let job = job\<lparr>VerifierExitCode := Some verifyExit\<rparr> in
             if \<not> passed \<or> verifyExit \<noteq> 0 then
               job\<lparr>State := StateVerificationFailed, ReasonCode := ''verifier_failed'', VerifierPassed := False,
                 CompletionEvidenceHash := [], ReadyTurnID := []\<rparr>
             else job\<lparr>VerifierPassed := True, State := StateReadyPendingStop, ReasonCode := ''completion_and_verifier_passed''\<rparr>))"

text \<open>The verifier runs only when its profile is still the one of the arm; the exit code is \<open>-1\<close> without a run.\<close>

definition run_verifier :: "Service \<Rightarrow> Job \<Rightarrow> (int \<times> err option) vop" where
  "run_verifier s job = do {
     r \<leftarrow> load_verifier s (VerifierProfile job);
     case r of
       Inl e \<Rightarrow> ret (-1, Some e)
     | Inr p \<Rightarrow>
         if lp_Fingerprint p \<noteq> VerifierFingerprint job then
           ret (-1, Some (Err ''registered verifier profile changed after arm''))
         else ask (\<lambda>(x, e). VerifierRan x e) (lp_Run p (WorkspaceCWD job)) }"

definition finish_message :: string where
  "finish_message = ''Completion policy passed; waiting for the matching Stop observer; no action was scheduled''"

definition finish_verified :: "Service \<Rightarrow> string \<Rightarrow> Job \<Rightarrow> Result vop" where
  "finish_verified s jobID job = do {
     (verifyExit, verifyErr) \<leftarrow> run_verifier s job;
     (job, _, e) \<leftarrow> store (UpdateJob jobID ''mcp.finish.verifier'' [] (verifier_rule (Generation job) verifyExit (verifyErr = None)));
     ret (if e \<noteq> None then service_failure ''finish'' ''state_error'' ''%s''
          else if State job = StateVerificationFailed then
            failureWithJob ''finish'' ''verification_failed'' ''the registered verifier did not pass; no action can run'' job
          else if State job = StateCancelled \<or> State job = StateExpired then
            failureWithJob ''finish'' ''job_inactive'' ''the job became inactive while verification was running'' job
          else service_success ''finish'' job finish_message) }"

definition service_finish :: "Service \<Rightarrow> string \<Rightarrow> Result vop" where
  "service_finish s raw =
     (case finish_arguments raw of
        Inl _ \<Rightarrow> ret (service_failure ''finish'' ''invalid_arguments'' ''%s'')
      | Inr args \<Rightarrow>
          if ValidateJobID (fa_JobID args) \<noteq> None then ret (service_failure ''finish'' ''invalid_job_id'' ''job_id is invalid'')
          else do {
            l \<leftarrow> store (store_Load (fa_JobID args));
            case l of
              Inl _ \<Rightarrow> ret (service_failure ''finish'' ''state_error'' ''could not load the DoneThen job'')
            | Inr current \<Rightarrow>
                if TriggerPolicy current \<noteq> TriggerVerifiedSuccess then
                  ret (failureWithJob ''finish'' ''finish_not_required''
                    ''observable Stop policies are driven only by Stop hooks; semantic completion is not evaluated'' current)
                else (case Parse (fa_Completion args) of
                  Inl _ \<Rightarrow> ret (service_failure ''finish'' ''invalid_completion'' ''%s'')
                | Inr envelope \<Rightarrow> do {
                    let decision = Evaluate envelope;
                    (job, _, e) \<leftarrow> store (UpdateJob (fa_JobID args) ''mcp.finish'' []
                      (finish_rule envelope (dc_Done decision) (SHA256 (fa_Completion args))));
                    if e \<noteq> None then ret (service_failure ''finish'' ''state_error'' ''%s'')
                    else if State job = StateExpired then
                      ret (failureWithJob ''finish'' ''job_expired'' ''the one-shot arm has expired'' job)
                    else if \<not> dc_Done decision then ret (failureWithJob ''finish'' ''not_done'' (dc_Reason decision) job)
                    else if State job = StateVerificationFailed then
                      ret (failureWithJob ''finish'' ''independent_evidence_required''
                        ''verifier_profile=none requires explicit allow_agent_only_success'' job)
                    else if State job = StateVerifying then finish_verified s (fa_JobID args) job
                    else ret (service_success ''finish'' job finish_message) }) })"

subsection \<open>Pausing\<close>

record pauseArguments =
  pa_JobID :: string
  pa_Reason :: string

definition put_pause :: "pauseArguments \<Rightarrow> string \<Rightarrow> jval \<Rightarrow> pauseArguments option" where
  "put_pause a n v =
     (if n = ''job_id'' then map_option (\<lambda>x. a\<lparr>pa_JobID := x\<rparr>) (decode_string (pa_JobID a) v)
      else map_option (\<lambda>x. a\<lparr>pa_Reason := x\<rparr>) (decode_string (pa_Reason a) v))"

definition allowedPauseReason :: "string \<Rightarrow> bool" where
  "allowedPauseReason reason \<longleftrightarrow> reason \<in> {''blocked'', ''approval_required'', ''waiting_for_user'', ''external_state''}"

definition pause_rule :: "string \<Rightarrow> Job \<Rightarrow> time \<Rightarrow> err option \<times> Job" where
  "pause_rule reason job now =
     (case service_expire job now of
        (True, job) \<Rightarrow> (None, job)
      | (False, _) \<Rightarrow>
          if State job \<notin> {StateArmed, StateHostMonitoring, StateReadyPendingStop, StateStopObserved} then
            (Some (Err ''job is in state %s and cannot be paused''), job)
          else (None, service_clearCompletion ((bump job)\<lparr>State := StateWaiting, ReasonCode := reason\<rparr>)))"

definition service_pause :: "string \<Rightarrow> Result vop" where
  "service_pause raw =
     (case decodeArguments (decode_struct [''job_id'', ''reason''] put_pause \<lparr>pa_JobID = [], pa_Reason = []\<rparr>) raw of
        Inl _ \<Rightarrow> ret (service_failure ''pause'' ''invalid_arguments'' ''%s'')
      | Inr args \<Rightarrow>
          if \<not> allowedPauseReason (pa_Reason args) then
            ret (service_failure ''pause'' ''invalid_reason'' ''reason must be blocked, approval_required, waiting_for_user, or external_state'')
          else do {
            l \<leftarrow> store (store_Load (pa_JobID args));
            case l of
              Inl _ \<Rightarrow> ret (service_failure ''pause'' ''state_error'' ''could not load the DoneThen job'')
            | Inr current \<Rightarrow>
                if TriggerPolicy current \<noteq> TriggerVerifiedSuccess then
                  ret (failureWithJob ''pause'' ''pause_not_applicable''
                    ''observable Stop policies have no semantic waiting state; cancel them instead'' current)
                else do {
                  (job, _, e) \<leftarrow> store (UpdateJob (pa_JobID args) ''mcp.pause'' [] (pause_rule (pa_Reason args)));
                  ret (if e \<noteq> None then service_failure ''pause'' ''state_error'' ''%s''
                       else if State job = StateExpired then failureWithJob ''pause'' ''job_expired'' ''the one-shot arm has expired'' job
                       else service_success ''pause'' job ''Job paused; no action can run while it is waiting'') } })"

subsection \<open>Cancelling\<close>

type_synonym jobArguments = string

definition job_arguments :: "string \<Rightarrow> err + jobArguments" where
  "job_arguments raw = decodeArguments (decode_struct [''job_id''] (\<lambda>a n v. decode_string a v) []) raw"

definition request_rule :: "Job \<Rightarrow> time \<Rightarrow> err option \<times> Job" where
  "request_rule job now =
     (None,
      if \<not> HasUnresolvedPowerAction job then job
      else (bump job)\<lparr>CancelRequested := True, CancelReason := ''mcp_cancelled_by_user'', ReasonCode := ''power_cancel_requested''\<rparr>)"

definition cancel_rule :: "CancelResult option \<Rightarrow> Job \<Rightarrow> time \<Rightarrow> err option \<times> Job" where
  "cancel_rule cancelResult job now =
     (None,
      if State job = StateCancelled then job
      else if IsTerminal (State job) \<and> \<not> HasUnresolvedPowerAction job then job
      else service_clearCompletion ((bump job)\<lparr>State := StateCancelled, ReasonCode := ''cancelled_by_user'', CancelRequested := True,
        CancelReason := ''mcp_cancelled_by_user'', JobCancelResult := cancelResult\<rparr>))"

definition update_noted :: "string \<Rightarrow> string \<Rightarrow> (Job \<Rightarrow> time \<Rightarrow> err option \<times> Job) \<Rightarrow> (Job \<times> bool \<times> err option) vop" where
  "update_noted jobID name rule = noted (JobUpdated name) (UpdateJob jobID name [] rule)"

text \<open>Starting the cancel worker, when the launcher can.\<close>

definition start_worker :: "Service \<Rightarrow> Job \<Rightarrow> Result vop" where
  "start_worker s current =
     (case Option.bind (sv_Launcher s) la_EnsureCancelWorker of
        None \<Rightarrow> ret (failureWithJob ''cancel'' ''cancel_worker_unavailable''
          ''the cancellation request is durable, but this service cannot start the machine-fenced recovery worker; use the CLI cancellation path'' current)
      | Some f \<Rightarrow> do {
          r \<leftarrow> ask (WorkerStarted (JobID current)) (\<lambda>n. f n (JobID current) (ObservedBindingID current) ''mcp_cancelled_by_user'');
          ret (case r of
                 Inl _ \<Rightarrow> failureWithJob ''cancel'' ''cancel_worker_unavailable''
                   ''the cancellation request is durable, but the machine-fenced recovery worker could not start; use the CLI cancellation path'' current
               | Inr _ \<Rightarrow> service_success ''cancel'' current
                   ''Cancellation is durable; a machine-fenced cancel-only worker is settling the scheduler boundary'') })"

text \<open>
  A job without recovery records: its action may have been scheduled, so that the backend is asked to cancel
  the receipt that the job still gives.
\<close>

definition cancel_legacy :: "Service \<Rightarrow> Job \<Rightarrow> (Result + CancelResult option) vop" where
  "cancel_legacy s current =
     (case sv_Backend s of
        None \<Rightarrow> ret (Inl (failureWithJob ''cancel'' ''power_backend_unavailable''
          ''a legacy power action may be active but the backend is unavailable; use the CLI cancellation path'' current))
      | Some b \<Rightarrow>
          (case RecoveryReceipt current of
             Inl _ \<Rightarrow> ret (Inl (failureWithJob ''cancel'' ''power_receipt_unavailable''
               ''the unresolved power action has no valid recovery receipt; use the CLI recovery path'' current))
           | Inr receipt \<Rightarrow> do {
               (result, cancelErr) \<leftarrow> ask (\<lambda>(x, e). CancelAsked receipt x e) (\<lambda>n. bk_Cancel b n receipt);
               ret (if cancelErr \<noteq> None \<and> \<not> err_is cancelErr ErrNoShutdownInProgress then
                      Inl (failureWithJob ''cancel'' ''power_cancel_failed''
                        ''the power backend did not confirm cancellation; retry immediately'' current)
                    else Inr (Some result)) }))"

text \<open>What is done about an unresolved power action before the job may be closed.\<close>

definition settle_power :: "Service \<Rightarrow> string \<Rightarrow> (Result + CancelResult option) vop" where
  "settle_power s jobID = do {
     (current, _, e) \<leftarrow> update_noted jobID ''mcp.cancel.requested'' request_rule;
     if e \<noteq> None then
       ret (Inl (failureWithJob ''cancel'' ''state_error'' ''could not persist the power cancellation request'' current))
     else do {
       r \<leftarrow> noted AuthorityLoaded (LoadRecoveryAuthority (JobID current));
       case r of
         Inr authority \<Rightarrow>
           (case ra_Resolution authority of
              Some resolution \<Rightarrow> ret (Inr (rr_CancelResult resolution))
            | None \<Rightarrow> do { x \<leftarrow> start_worker s current; ret (Inl x) })
       | Inl recoveryErr \<Rightarrow>
           if \<not> errors_Is recoveryErr ErrNotExist then
             ret (Inl (failureWithJob ''cancel'' ''recovery_authority_unavailable''
               ''the cancellation request is durable, but independent recovery authority is unreadable; use the CLI cancellation path'' current))
           else cancel_legacy s current } }"

definition close_job :: "string \<Rightarrow> CancelResult option \<Rightarrow> Result vop" where
  "close_job jobID cancelResult = do {
     (job, _, e) \<leftarrow> update_noted jobID ''mcp.cancel'' (cancel_rule cancelResult);
     ret (if e \<noteq> None then service_failure ''cancel'' ''state_error'' ''%s''
          else if State job \<noteq> StateCancelled then
            service_success ''cancel'' job ''Job was already terminal; no power action is active''
          else (case cancelResult of
            Some r \<Rightarrow> service_success ''cancel'' job
              (''Job cancelled; the power countdown cancellation scope was '' @ scope_string (cr_Scope r))
          | None \<Rightarrow> service_success ''cancel'' job ''Job cancelled before any power action was scheduled'')) }"

definition service_cancel :: "Service \<Rightarrow> string \<Rightarrow> Result vop" where
  "service_cancel s raw =
     (case job_arguments raw of
        Inl _ \<Rightarrow> ret (service_failure ''cancel'' ''invalid_arguments'' ''%s'')
      | Inr jobID \<Rightarrow> do {
          l \<leftarrow> noted JobLoaded (store_Load jobID);
          case l of
            Inl _ \<Rightarrow> ret (service_failure ''cancel'' ''state_error'' ''could not load the DoneThen job'')
          | Inr current \<Rightarrow>
              if HasUnresolvedPowerAction current then do {
                x \<leftarrow> settle_power s jobID;
                case x of Inl r \<Rightarrow> ret r | Inr cancelResult \<Rightarrow> close_job jobID cancelResult }
              else close_job jobID None })"

subsection \<open>Status\<close>

definition status_result :: "string \<Rightarrow> (string \<Rightarrow> structured option) \<Rightarrow> Result" where
  "status_result message extra = \<lparr>res_Text = message,
     res_Structured = [''ok'' \<mapsto> OBool True, ''tool'' \<mapsto> OText ''status'', ''execute_available'' \<mapsto> OBool False] ++ extra,
     res_IsError = False\<rparr>"

definition service_refresh :: "Job \<Rightarrow> (Job \<times> err option) vop" where
  "service_refresh job =
     (if IsActive (State job) then do {
        now \<leftarrow> service_now;
        if Expired job now then store (RefreshExpiry (JobID job)) else ret (job, None) }
      else ret (job, None))"

fun service_statuses :: "Job list \<Rightarrow> Plugin_Status.Status list vop" where
  "service_statuses [] = ret []"
| "service_statuses (job # jobs) = do {
     (refreshed, e) \<leftarrow> service_refresh job;
     rest \<leftarrow> service_statuses jobs;
     ret (store_Status (if e = None then refreshed else job) # rest) }"

definition service_status :: "string \<Rightarrow> Result vop" where
  "service_status raw =
     (case job_arguments raw of
        Inl _ \<Rightarrow> ret (service_failure ''status'' ''invalid_arguments'' ''%s'')
      | Inr jobID \<Rightarrow>
          if jobID \<noteq> [] then do {
            l \<leftarrow> store (store_Load jobID);
            case l of
              Inl _ \<Rightarrow> do {
                r \<leftarrow> store (LoadRecoveryAuthority jobID);
                ret (case r of
                       Inr authority \<Rightarrow> status_result ''DoneThen recovery status returned; the mutable job projection is unavailable''
                         [''recovery'' \<mapsto> ORecovery (recovery_status authority), ''job_projection_available'' \<mapsto> OBool False]
                     | Inl _ \<Rightarrow> service_failure ''status'' ''state_error'' ''could not load the DoneThen job'') }
            | Inr job \<Rightarrow> do {
                (job, e) \<leftarrow> service_refresh job;
                ret (if e \<noteq> None then service_failure ''status'' ''state_error'' ''could not refresh the DoneThen job''
                     else status_result ''DoneThen job status returned'' [''job'' \<mapsto> OStatus (store_Status job)]) } }
          else do {
            l \<leftarrow> store store_List;
            case l of
              Inl _ \<Rightarrow> ret (service_failure ''status'' ''state_error'' ''could not list DoneThen jobs'')
            | Inr jobs \<Rightarrow> do {
                statuses \<leftarrow> service_statuses jobs;
                ret (status_result ''DoneThen plugin jobs returned'' [''jobs'' \<mapsto> OStatuses statuses]) } })"

subsection \<open>Calls\<close>

text \<open>A map of the code is keyed by the text of a policy.\<close>

definition policyCapabilityBools :: "(TriggerPolicy \<Rightarrow> PolicyCapability option) \<Rightarrow> (PolicyCapability \<Rightarrow> bool) \<Rightarrow> string \<Rightarrow> bool option" where
  "policyCapabilityBools caps select = (\<lambda>k. map_option select (caps (policy_of k)))"

definition policyCapabilityReasons :: "(TriggerPolicy \<Rightarrow> PolicyCapability option) \<Rightarrow> string \<Rightarrow> string option" where
  "policyCapabilityReasons caps = (\<lambda>k. map_option pc_UnavailableReason (caps (policy_of k)))"

definition with_capabilities :: "Service \<Rightarrow> Result \<Rightarrow> Result" where
  "with_capabilities s result =
     (let caps = sv_PolicyCapabilities s; ready = (\<lambda>p. pc_ExecuteReady (capability s p)) in
      result\<lparr>res_Structured := (res_Structured result)(
        ''execute_available'' \<mapsto> OBool (ready TriggerAfterStop \<or> ready TriggerAfterAllStop \<or> ready TriggerVerifiedSuccess),
        ''after_stop_execute_available'' \<mapsto> OBool (ready TriggerAfterStop),
        ''after_all_stop_execute_available'' \<mapsto> OBool (ready TriggerAfterAllStop),
        ''verified_success_execute_available'' \<mapsto> OBool (ready TriggerVerifiedSuccess),
        ''build_supported_by_policy'' \<mapsto> OBools (policyCapabilityBools caps pc_BuildSupported),
        ''backend_supported_by_policy'' \<mapsto> OBools (policyCapabilityBools caps pc_BackendSupported),
        ''backend_preflight_passed_by_policy'' \<mapsto> OBools (policyCapabilityBools caps pc_BackendPreflightPassed),
        ''execute_ready_by_policy'' \<mapsto> OBools (policyCapabilityBools caps pc_ExecuteReady),
        ''execute_unavailable_reasons_by_policy'' \<mapsto> OTexts (policyCapabilityReasons caps))\<rparr>)"

definition service_Call :: "Service \<Rightarrow> string \<Rightarrow> string \<Rightarrow> Result vop" where
  "service_Call s name raw = do {
     result \<leftarrow> (if name = ''arm'' then service_arm s raw
       else if name = ''finish'' then service_finish s raw
       else if name = ''pause'' then service_pause raw
       else if name = ''cancel'' then service_cancel s raw
       else if name = ''status'' then service_status raw
       else ret (service_failure name ''unknown_tool'' ''DoneThen does not provide that tool''));
     ret (with_capabilities s result) }"

text \<open>\<open>SanitizeError\<close>, on the text of the error.\<close>

definition SanitizeError :: "string option \<Rightarrow> string" where
  "SanitizeError e = (case e of None \<Rightarrow> [] | Some text \<Rightarrow> take 512 (TrimSpace text))"

end
