(* ===== verification/Service_Keeps.thy ===== *)
theory Service_Keeps
  imports Plugin_Service Hook_Observer
begin

text \<open>
  Invariants of one stored job through the tools of the plugin. The locale \<open>kept_by_service\<close> adds the rules of
  the tools to what an invariant has to survive in the store; creating a job never touches a job that is there.
\<close>

subsection \<open>Programs that talk to interfaces\<close>

text \<open>The disk keeps an invariant that the other processes keep.\<close>

definition retains :: "('d \<Rightarrow> bool) \<Rightarrow> ('d, 'e) traced \<Rightarrow> ('d, 'e) traced \<Rightarrow> bool" where
  "retains P s s' \<longleftrightarrow> (stable P (pw_world s) \<and> P (disk (pw_world s)) \<longrightarrow>
     P (disk (pw_world s')) \<and> evolves (pw_world s) (pw_world s'))"

interpretation retained: journey "retains P" for P
  by unfold_locales (auto simp: retains_def dest: evolves_trans stable_evolves)

lemma retains_store [quiet_rules]:
  assumes "keeps P m"
  shows "steps (retains P :: ('d, 'e) traced \<Rightarrow> _) (store m)"
  unfolding steps_def wp_store
proof
  fix s :: "('d, 'e) traced"
  show "wp m (\<lambda>_ w. retains P s (s\<lparr>pw_world := w\<rparr>)) (pw_world s)"
  proof (cases "stable P (pw_world s) \<and> P (disk (pw_world s))")
    case True
    then have "wp m (\<lambda>_ w. P (disk w) \<and> evolves (pw_world s) w) (pw_world s)"
      using assms by (simp add: keeps_def)
    then show ?thesis
      by (rule wp_mono) (simp add: retains_def)
  next
    case False
    then have "retains P s s'" for s' :: "('d, 'e) traced"
      by (auto simp: retains_def)
    then show ?thesis
      by (simp add: wp_any)
  qed
qed

lemma retains_ask [quiet_rules]: "steps (retains P) (ask ev f)"
  by (simp add: steps_def retains_def)

lemma retains_note:
  "steps (retains P) (State_Monad.get \<bind> (\<lambda>s. State_Monad.set (s\<lparr>pw_log := pw_log s @ [e]\<rparr>) \<bind> (\<lambda>_. ret r)))"
  by (simp add: steps_def retains_def)

lemma retains_noted [quiet_rules]:
  assumes "keeps P m"
  shows "steps (retains P) (noted ev m)"
  unfolding noted_def by (rule retained.steps_bind [OF retains_store [OF assms] retains_note])

subsection \<open>New jobs\<close>

lemma absent_other: "job_absent d i = None \<Longrightarrow> \<not> holds i K d"
  by (auto simp: holds_def job_absent_def)

lemma keeps_store_Create [keeps_rules]: "keeps (holds i K) (store_Create job)"
  unfolding store_Create_def
  by (intro keeps_rules holds_put) (auto dest: absent_other)

lemma keeps_write_indexes [keeps_rules]: "keeps (holds i K) (write_indexes job held ts)"
  by (induction ts arbitrary: held) (auto simp: writeSessionIndexHashUnlocked_def intro!: keeps_rules)

lemma keeps_remove_written [keeps_rules]: "keeps (holds i K) (remove_written job hs)"
  by (induction hs) (auto intro!: keeps_rules)

lemma keeps_claim [keeps_rules]: "keeps (holds i K) (claim_targets ts)"
  by (induction ts) (auto intro!: keeps_rules)

lemma partial_JobID [simp]: "JobID (partial_reservation job now) = JobID job"
  by (simp add: partial_reservation_def bump_def)

lemma keeps_fail_reservation [keeps_rules]:
  "JobID job \<noteq> i \<Longrightarrow> keeps (holds i K) (failBarrierReservationUnlocked job hs)"
  unfolding failBarrierReservationUnlocked_def by (intro keeps_rules holds_put) simp_all

lemma keeps_log_reservation [keeps_rules]: "JobID job \<noteq> i \<Longrightarrow> keeps (holds i K) (log_reservation job)"
  unfolding log_reservation_def releaseBarrierIndexesUnlocked_def by (intro keeps_rules holds_put) simp_all

lemma keeps_commit [keeps_rules]: "JobID job \<noteq> i \<Longrightarrow> keeps (holds i K) (commit_reservations job hs)"
  unfolding commit_reservations_def by (intro keeps_rules holds_put) simp_all

lemma keeps_reserve [keeps_rules]: "keeps (holds i K) (CreateBarrierReservations job ids)"
  unfolding CreateBarrierReservations_def reserve_locked_def
  by (intro keeps_rules holds_put) (auto dest: absent_other)

subsection \<open>Reading\<close>

lemma keeps_store_Load [keeps_rules]: "keeps P (store_Load jobID)"
  unfolding store_Load_def by (intro keeps_rules)

lemma keeps_store_List [keeps_rules]: "keeps P store_List"
  unfolding store_List_def by (intro keeps_rules)

lemma keeps_read_optional [keeps_rules]: "keeps P (read_optional f jobID)"
  unfolding read_optional_def by (intro keeps_rules)

lemma keeps_load_authority [keeps_rules]: "keeps P (LoadRecoveryAuthority jobID)"
  unfolding LoadRecoveryAuthority_def by (intro keeps_rules)

subsection \<open>The tools\<close>

locale kept_by_service = kept +
  assumes expired: "K j \<Longrightarrow> K (snd (expire j now))"
    and finish: "K j \<Longrightarrow> K (snd (finish_rule envelope is_done h j now))"
    and verified: "K j \<Longrightarrow> K (snd (verifier_rule g x ok j now))"
    and paused: "K j \<Longrightarrow> K (snd (pause_rule r j now))"
    and requested: "K j \<Longrightarrow> K (snd (request_rule j now))"
    and cancelled: "K j \<Longrightarrow> K (snd (cancel_rule c j now))"
    and no_start: "K j \<Longrightarrow> K (snd (launch_failed_rule j now))"
    and started: "K j \<Longrightarrow> K (snd (launched_rule pid j now))"
begin

lemma keeps_expiry [keeps_rules]: "keeps (holds i K) (RefreshExpiry i')"
  unfolding RefreshExpiry_def store_Load_def by (intro keeps_rules keeps_UpdateJob) (simp add: expired)

lemma arm_retains [quiet_rules]: "steps (retains (holds i K)) (service_arm s raw)"
  unfolding service_arm_def arm_verifier_def load_verifier_def new_identity_def service_now_def arm_preflight_def
    arm_binding_def arm_create_def arm_start_def launch_supervisor_def
  by (intro quiet_rules retained.steps_ret retained.steps_bind keeps_rules keeps_UpdateJob no_start started)

lemma finish_retains [quiet_rules]: "steps (retains (holds i K)) (service_finish s raw)"
  unfolding service_finish_def finish_verified_def run_verifier_def load_verifier_def
  by (intro quiet_rules retained.steps_ret retained.steps_bind keeps_rules keeps_UpdateJob finish verified)

lemma pause_retains [quiet_rules]: "steps (retains (holds i K)) (service_pause raw)"
  unfolding service_pause_def
  by (intro quiet_rules retained.steps_ret retained.steps_bind keeps_rules keeps_UpdateJob paused)

lemma cancel_retains [quiet_rules]: "steps (retains (holds i K)) (service_cancel s raw)"
  unfolding service_cancel_def settle_power_def close_job_def update_noted_def start_worker_def cancel_legacy_def
  by (intro quiet_rules retained.steps_ret retained.steps_bind keeps_rules keeps_UpdateJob requested cancelled)

lemma refresh_retains [quiet_rules]: "steps (retains (holds i K)) (service_refresh job)"
  unfolding service_refresh_def service_now_def
  by (intro quiet_rules retained.steps_ret retained.steps_bind keeps_rules keeps_expiry)

lemma statuses_retains [quiet_rules]: "steps (retains (holds i K)) (service_statuses jobs)"
  by (induction jobs) (auto intro!: quiet_rules retained.steps_ret retained.steps_bind)

lemma status_retains [quiet_rules]: "steps (retains (holds i K)) (service_status raw)"
  unfolding service_status_def
  by (intro quiet_rules retained.steps_ret retained.steps_bind keeps_rules)

lemma call_retains: "steps (retains (holds i K)) (service_Call s name raw)"
  unfolding service_Call_def by (intro quiet_rules retained.steps_ret retained.steps_bind)

end

subsection \<open>Terminal jobs\<close>

lemma terminal_rules:
  assumes "IsTerminal (State j)"
  shows "expire j now = (False, j)" "service_expire j now = (False, j)"
  using assms by (auto simp: expire_def service_expire_def)

interpretation terminal_jobs: kept_by_service "\<lambda>j. IsTerminal (State j)"
proof (unfold_locales, goal_cases)
  case (6 d s t ws j now j')
  then show ?case
    by (auto simp: bind_session_def terminal_rules split: if_splits)
next
  case (7 d ch th ws j now j')
  then show ?case
    by (auto simp: bind_controller_def terminal_rules split: if_splits)
next
  case (9 j e i h now)
  then show ?case by (auto simp: finish_rule_def terminal_rules)
next
  case (10 j g x ok now)
  then show ?case by (auto simp: verifier_rule_def terminal_rules)
next
  case (11 j r now)
  then show ?case by (auto simp: pause_rule_def terminal_rules)
qed (auto simp: fail_observer_job_def capacity_exhausted_def request_rule_def cancel_rule_def launch_failed_rule_def
    launched_rule_def service_clearCompletion_def bump_def terminal_rules dest: migrate_unresolved)

text \<open>
  C15: No tool brings a terminal job back. Whatever tool a client calls, with whatever arguments, and however
  the backend, the launcher, the profiles, the system calls and the locks behave, a job whose file holds a terminal state
  holds a terminal state when the call ends, provided that the other processes leave it terminal as well.
\<close>

theorem tools_keep_terminal:
  assumes "stable (holds i (\<lambda>j. IsTerminal (State j))) (pw_world s)"
    and "holds i (\<lambda>j. IsTerminal (State j)) (disk (pw_world s))"
  shows "wp (service_Call sv name raw) (\<lambda>_ s'. holds i (\<lambda>j. IsTerminal (State j)) (disk (pw_world s'))) s"
  by (rule wp_mono [OF stepsD [OF terminal_jobs.call_retains [of i]]]) (use assms in \<open>simp add: retains_def\<close>)

text \<open>A service that cannot execute anything.\<close>

definition plain_options :: Options where
  "plain_options = \<lparr>op_AfterStopExecuteAvailable = False, op_AfterStopExecuteUnavailableReason = [], op_ExecuteAvailable = False,
     op_ExecuteUnavailableReason = [], op_Workspace = [], op_Profiles = None, op_Launcher = None, op_Backend = None,
     op_PowerPolicyFingerprint = [], op_AllowAgentOnlySuccess = False, op_PolicyCapabilities = \<lambda>_. None\<rparr>"

definition plain_service :: Service where
  "plain_service = \<lparr>sv_Workspace = [], sv_Profiles = None, sv_Launcher = None, sv_Backend = None,
     sv_PowerPolicyFingerprint = [], sv_AllowAgentOnlySuccess = False,
     sv_PolicyCapabilities = normalizedPolicyCapabilities plain_options, sv_Random = \<lambda>_. (Some (replicate 10 0), Some [])\<rparr>"

theorem tools_keep_terminal_witness:
  "wp (service_Call plain_service ''cancel'' ''{}'')
     (\<lambda>_ s'. holds (id_of CHR ''a'') (\<lambda>j. IsTerminal (State j)) (disk (pw_world s')))
     \<lparr>pw_world = quiet_world (put_job cancelled_job empty_disk), pw_log = []\<rparr>"
  by (rule tools_keep_terminal) (simp_all add: holds_def cancelled_job_def)

end
