(* ===== verification/Service_Laws.thy ===== *)
theory Service_Laws
  imports Service_Keeps
begin

text \<open>
  What the tools of the plugin promise: a supervisor is only started for a request that grants execution in
  every respect, and the job that an accepted request creates is one that the store accepts.
\<close>

subsection \<open>Starting a supervisor\<close>

fun is_launch :: "service_effect \<Rightarrow> bool" where
  "is_launch (SupervisorLaunched _ _) = True"
| "is_launch _ = False"

text \<open>A request that asks for execution, with everything that the policy wants to be acknowledged.\<close>

definition execute_grant :: "Service \<Rightarrow> armArguments \<Rightarrow> bool" where
  "execute_grant s a \<longleftrightarrow> aa_Mode a = ''execute'' \<and> aa_Action a = ''shutdown'' \<and>
     120 \<le> aa_DelaySeconds a \<and> aa_DelaySeconds a \<le> 3600 \<and> 60 \<le> aa_ExpiresInSeconds a \<and> aa_ExpiresInSeconds a \<le> 86400 \<and>
     policy_Valid (arm_policy a) \<and> pc_ExecuteReady (capability s (arm_policy a)) \<and>
     (stop_policy (arm_policy a) \<longrightarrow> aa_AcknowledgeStopWithoutSuccess a \<and> \<not> aa_AllowAgentOnlySuccess a \<and>
        aa_VerifierProfile a \<in> {[], ''none''}) \<and>
     (arm_policy a = TriggerAfterAllStop \<longrightarrow> aa_AcknowledgeBarrierAcrossTurns a \<and> distinct (target_ids a) \<and>
        MinimumStopTargets \<le> length (target_ids a) \<and> length (target_ids a) \<le> MaximumStopTargets)"

text \<open>
  What a verified success rests on: the profile that the request names was loaded, or both the request and the
  service allow to do without one.
\<close>

definition evidence_granted :: "Service \<Rightarrow> armArguments \<Rightarrow> service_effect list \<Rightarrow> bool" where
  "evidence_granted s a l \<longleftrightarrow>
     (if aa_VerifierProfile a = ''none'' then aa_AllowAgentOnlySuccess a \<and> sv_AllowAgentOnlySuccess s
      else \<exists>fp. ProfileLoaded (aa_VerifierProfile a) (Inr fp) \<in> set l)"

text \<open>
  Nothing is started, or one supervisor at the very end, for a granted request. Before it the backend has passed
  the power request when the policy is an observable stop, and there is evidence when it is a verified success.
\<close>

definition launch_ok :: "Service \<Rightarrow> armArguments \<Rightarrow> service_effect list \<Rightarrow> bool" where
  "launch_ok s a l \<longleftrightarrow> \<not> list_ex is_launch l \<or>
     (\<exists>pre jobID r. l = pre @ [SupervisorLaunched jobID r] \<and> \<not> list_ex is_launch pre \<and> execute_grant s a \<and>
        (stop_policy (arm_policy a) \<longrightarrow>
           (\<exists>c now. BackendAsked (arm_power_request a jobID now) c None \<in> set pre \<and> cap_ExecuteSupported c)) \<and>
        (arm_policy a = TriggerVerifiedSuccess \<longrightarrow> evidence_granted s a pre))"

lemma evidence_later: "evidence_granted s a l \<Longrightarrow> evidence_granted s a (l @ l')"
  by (auto simp: evidence_granted_def)

lemma refusal_None [simp]: "refusal tool xs = None \<longleftrightarrow> list_all (\<lambda>(b, _). \<not> b) xs"
  by (induction tool xs rule: refusal.induct) auto

lemma target_sessions_Inr:
  "target_sessions raw hashes ids = Inr ts \<Longrightarrow> distinct ids \<and> set ids \<inter> set raw = {} \<and>
     map tg_SessionHash ts = map SHA256 ids \<and> distinct (map SHA256 ids) \<and> set (map SHA256 ids) \<inter> set hashes = {} \<and>
     list_all (\<lambda>t. t = zero_StopTarget\<lparr>tg_SessionHash := tg_SessionHash t\<rparr>) ts"
proof (induction ids arbitrary: raw hashes ts)
  case (Cons i rest)
  obtain us where us: "target_sessions (i # raw) (SHA256 i # hashes) rest = Inr us"
      "ts = zero_StopTarget\<lparr>tg_SessionHash := SHA256 i\<rparr> # us" "i \<notin> set raw" "SHA256 i \<notin> set hashes"
    using Cons.prems by (auto simp: Let_def split: option.splits sum.splits if_splits)
  from Cons.IH [OF us(1)] show ?case
    using us by auto
qed simp

text \<open>What an accepted request satisfies.\<close>

lemma arm_request_facts:
  assumes "arm_request s args = Inr (policy, targets, a)"
  shows "policy = arm_policy args" "arm_policy a = policy" "a = args\<lparr>aa_VerifierProfile := aa_VerifierProfile a\<rparr>"
    "target_ids a = target_ids args" "policy_Valid policy" "aa_Action a = ''shutdown''"
    "30 \<le> aa_DelaySeconds a" "aa_DelaySeconds a \<le> 3600" "60 \<le> aa_ExpiresInSeconds a" "aa_ExpiresInSeconds a \<le> 86400"
    "aa_Mode a = ''dry_run'' \<or> aa_Mode a = ''execute'' \<and> execute_grant s args"
    "stop_policy policy \<Longrightarrow> aa_VerifierProfile a = ''none'' \<and> \<not> aa_AllowAgentOnlySuccess a"
    "\<not> stop_policy policy \<Longrightarrow> a = args \<and> \<not> aa_AcknowledgeStopWithoutSuccess a"
    "policy = TriggerAfterAllStop \<Longrightarrow> map tg_SessionHash targets = map SHA256 (target_ids a) \<and> distinct (map SHA256 (target_ids a)) \<and>
       list_all (\<lambda>t. t = zero_StopTarget\<lparr>tg_SessionHash := tg_SessionHash t\<rparr>) targets \<and>
       MinimumStopTargets \<le> length targets \<and> length targets \<le> MaximumStopTargets"
    "policy \<noteq> TriggerAfterAllStop \<Longrightarrow> targets = [] \<and> \<not> aa_AcknowledgeBarrierAcrossTurns a"
    "policy = TriggerVerifiedSuccess \<Longrightarrow> aa_Mode a = ''dry_run'' \<Longrightarrow> aa_VerifierProfile a = ''none''"
proof -
  let ?a = "if stop_policy (arm_policy args) \<and> aa_VerifierProfile args = [] then args\<lparr>aa_VerifierProfile := ''none''\<rparr> else args"
  have parts: "policy = arm_policy args" "arm_first_checks policy args = None" "arm_targets policy args = Inr targets" "a = ?a"
      "arm_last_checks s policy a = None"
    using assms unfolding arm_request_def Let_def by (auto split: option.splits sum.splits)
  have same: "arm_policy a = policy" "target_ids a = target_ids args" "aa_Action a = aa_Action args" "aa_DelaySeconds a = aa_DelaySeconds args"
      "aa_ExpiresInSeconds a = aa_ExpiresInSeconds args" "aa_Mode a = aa_Mode args"
      "aa_AcknowledgeStopWithoutSuccess a = aa_AcknowledgeStopWithoutSuccess args"
      "aa_AcknowledgeBarrierAcrossTurns a = aa_AcknowledgeBarrierAcrossTurns args" "aa_AllowAgentOnlySuccess a = aa_AllowAgentOnlySuccess args"
    unfolding parts(4) by (simp_all add: arm_policy_def target_ids_def parts(1))
  note first = parts(2) [unfolded arm_first_checks_def refusal_None, simplified]
    and last = parts(5) [unfolded arm_last_checks_def Let_def refusal_None, simplified]
  show "policy = arm_policy args" "arm_policy a = policy" "a = args\<lparr>aa_VerifierProfile := aa_VerifierProfile a\<rparr>"
    "target_ids a = target_ids args"
    using parts(1,4) same by auto
  show "policy_Valid policy" "aa_Action a = ''shutdown''" "30 \<le> aa_DelaySeconds a" "aa_DelaySeconds a \<le> 3600"
    "60 \<le> aa_ExpiresInSeconds a" "aa_ExpiresInSeconds a \<le> 86400"
    using first same by simp_all
  show barrier: "policy = TriggerAfterAllStop \<Longrightarrow> map tg_SessionHash targets = map SHA256 (target_ids a) \<and> distinct (map SHA256 (target_ids a)) \<and>
       list_all (\<lambda>t. t = zero_StopTarget\<lparr>tg_SessionHash := tg_SessionHash t\<rparr>) targets \<and>
       MinimumStopTargets \<le> length targets \<and> length targets \<le> MaximumStopTargets"
  proof goal_cases
    case 1
    then have ts: "target_sessions [] [] (target_ids args) = Inr targets"
        "MinimumStopTargets \<le> length (target_ids args)" "length (target_ids args) \<le> MaximumStopTargets"
      using parts(3) by (auto simp: arm_targets_def split: if_splits)
    note facts = target_sessions_Inr [OF ts(1)]
    have "length targets = length (target_ids args)"
      using facts arg_cong [of _ _ length] by (metis length_map)
    then show ?case
      using facts ts same by simp
  qed
  show "policy \<noteq> TriggerAfterAllStop \<Longrightarrow> targets = [] \<and> \<not> aa_AcknowledgeBarrierAcrossTurns a"
    using parts(3) same by (auto simp: arm_targets_def split: if_splits)
  show stop: "stop_policy policy \<Longrightarrow> aa_VerifierProfile a = ''none'' \<and> \<not> aa_AllowAgentOnlySuccess a"
    using last by blast
  show "\<not> stop_policy policy \<Longrightarrow> a = args \<and> \<not> aa_AcknowledgeStopWithoutSuccess a"
    using last parts(1,4) by auto
  show "policy = TriggerVerifiedSuccess \<Longrightarrow> aa_Mode a = ''dry_run'' \<Longrightarrow> aa_VerifierProfile a = ''none''"
    using last by blast
  have "execute_grant s args" if "aa_Mode a = ''execute''"
  proof -
    have "distinct (target_ids args) \<and> MinimumStopTargets \<le> length (target_ids args) \<and> length (target_ids args) \<le> MaximumStopTargets"
      if "policy = TriggerAfterAllStop"
      using barrier [OF that] same by (metis distinct_map length_map)
    moreover have "aa_VerifierProfile args \<in> {[], ''none''}" if "stop_policy policy"
      using stop [OF that] parts(1,4) that by (auto split: if_splits)
    ultimately show ?thesis
      using first last same that parts(1) by (auto simp: execute_grant_def)
  qed
  then show "aa_Mode a = ''dry_run'' \<or> aa_Mode a = ''execute'' \<and> execute_grant s args"
    using last by blast
qed

lemma emits_store_wp: "(\<And>w. wp m (\<lambda>r _. Q r) w) \<Longrightarrow> emits (store m) (\<lambda>r l. l = [] \<and> Q r)"
  by (simp add: emits_def)

text \<open>The job that is handed on is the one that was asked for.\<close>

definition same_job :: "Job \<Rightarrow> Job \<times> err option \<Rightarrow> bool" where
  "same_job job = (\<lambda>(j, e). e = None \<longrightarrow> JobID j = JobID job \<and> DryRun j = DryRun job)"

lemma reserved_job:
  assumes "SchemaVersion job = CurrentSchemaVersion"
  shows "wp (CreateBarrierReservations job ids) (\<lambda>x _. same_job job x) w"
proof -
  have "migrate job = (None, job)"
    using assms by (simp add: migrate_def)
  then show ?thesis
    unfolding CreateBarrierReservations_def reserve_locked_def commit_reservations_def log_reservation_def
    by (simp only: prod.case option.case) (intro wp_branches wp_all; simp add: same_job_def)
qed

lemma emits_created:
  assumes "SchemaVersion job = CurrentSchemaVersion"
  shows "emits (store (if policy = TriggerAfterAllStop then CreateBarrierReservations job ids
       else do { e \<leftarrow> store_Create job; ret (job, e) })) (\<lambda>x l. l = [] \<and> same_job job x)"
  by (rule emits_store_wp) (use reserved_job [OF assms] in \<open>auto simp: same_job_def intro!: wp_any\<close>)

lemma arm_start_log: "emits (arm_start s policy job) (\<lambda>_ l. l = [] \<or> (\<exists>r. l = [SupervisorLaunched (JobID job) r]))"
  unfolding arm_start_def launch_supervisor_def
  by (intro emit_rules emits_bind) auto

lemma arm_create_log:
  assumes "SchemaVersion job = CurrentSchemaVersion"
  shows "emits (arm_create s policy ids job) (\<lambda>_ l. l = [] \<or> (\<exists>r. l = [SupervisorLaunched (JobID job) r] \<and> \<not> DryRun job))"
  unfolding arm_create_def
proof (rule emits_bind, rule emits_mono [OF emits_created [OF assms]], clarify)
  fix j :: Job and e :: "err option"
  assume "same_job job (j, e)"
  then have j: "e = None \<longrightarrow> JobID j = JobID job \<and> DryRun j = DryRun job" by (simp add: same_job_def)
  show "emits (case e of Some x \<Rightarrow> ret (create_failure x) | None \<Rightarrow>
         if \<not> DryRun j then arm_start s policy j
         else ret (service_success ''arm'' j
           (if policy = TriggerAfterStop then ''After-stop dry-run armed; the normal matching Stop will be recorded without scheduling power''
            else if policy = TriggerAfterAllStop then ''Multi-session Stop barrier dry-run reserved; waiting for controller binding and every target Stop''
            else ''Verified-success dry-run armed; waiting for completion evidence'')))
     (\<lambda>x l'. [] @ l' = [] \<or> (\<exists>r. [] @ l' = [SupervisorLaunched (JobID job) r] \<and> \<not> DryRun job))"
    using j by (intro emit_rules) (auto intro: emits_mono [OF arm_start_log])
qed

lemma quiet_parts:
  "emits (new_identity s) (\<lambda>_ l. \<not> list_ex is_launch l)"
  "emits (arm_binding s policy) (\<lambda>_ l. \<not> list_ex is_launch l)"
  "emits service_now (\<lambda>_ l. \<not> list_ex is_launch l)"
  unfolding arm_binding_def new_identity_def service_now_def
  by (intro emit_rules emits_bind; simp)+

lemma arm_verifier_log:
  "emits (arm_verifier s policy a) (\<lambda>r l. \<not> list_ex is_launch l \<and>
     (\<not> isl r \<longrightarrow> policy = TriggerVerifiedSuccess \<longrightarrow> aa_Mode a = ''execute'' \<longrightarrow> evidence_granted s a l))"
  unfolding arm_verifier_def load_verifier_def
  by (intro emit_rules emits_bind) (auto simp: evidence_granted_def split: sum.splits)

lemma arm_preflight_log:
  "emits (arm_preflight s policy a jobID now) (\<lambda>r l. \<not> list_ex is_launch l \<and>
     (r = None \<longrightarrow> stop_policy policy \<longrightarrow> aa_Mode a = ''execute'' \<longrightarrow>
        (\<exists>c. BackendAsked (arm_power_request a jobID now) c None \<in> set l \<and> cap_ExecuteSupported c)))"
  unfolding arm_preflight_def Let_def by (intro emit_rules emits_bind) auto

lemma launch_free: "\<not> list_ex is_launch l \<Longrightarrow> launch_ok s a l"
  by (simp add: launch_ok_def)

lemma quiet_then:
  assumes "emits m (\<lambda>r l. \<not> list_ex is_launch l \<and> A r l)" "\<not> list_ex is_launch pre"
    and "\<And>r l. \<not> list_ex is_launch (pre @ l) \<Longrightarrow> A r l \<Longrightarrow> emits (f r) (\<lambda>_ l'. launch_ok s a ((pre @ l) @ l'))"
  shows "emits (m \<bind> f) (\<lambda>_ l. launch_ok s a (pre @ l))"
proof (rule emits_bind, rule emits_mono [OF assms(1)])
  fix r l assume "\<not> list_ex is_launch l \<and> A r l"
  then have "\<not> list_ex is_launch (pre @ l)" "A r l"
    using assms(2) by auto
  from assms(3) [OF this] show "emits (f r) (\<lambda>_ l'. launch_ok s a (pre @ l @ l'))"
    by simp
qed

lemma quiet_part_then:
  assumes "emits m (\<lambda>_ l. \<not> list_ex is_launch l)" "\<not> list_ex is_launch pre"
    and "\<And>r l. \<not> list_ex is_launch (pre @ l) \<Longrightarrow> emits (f r) (\<lambda>_ l'. launch_ok s a ((pre @ l) @ l'))"
  shows "emits (m \<bind> f) (\<lambda>_ l. launch_ok s a (pre @ l))"
  by (rule quiet_then [where A = "\<lambda>_ _. True"]) (use assms in auto)

lemma arm_job_fields [simp]:
  "SchemaVersion (arm_job s policy targets a fp i b now) = CurrentSchemaVersion"
  "JobID (arm_job s policy targets a fp i b now) = ji_JobID i"
  "DryRun (arm_job s policy targets a fp i b now) = (aa_Mode a = ''dry_run'')"
  by (simp_all add: arm_job_def)

lemma arm_create_ok:
  assumes "arm_request s args = Inr (policy, targets, a)" "\<not> list_ex is_launch pre"
    and "stop_policy policy \<Longrightarrow> aa_Mode a = ''execute'' \<Longrightarrow>
      \<exists>c. BackendAsked (arm_power_request a (ji_JobID i) now) c None \<in> set pre \<and> cap_ExecuteSupported c"
    and "policy = TriggerVerifiedSuccess \<Longrightarrow> aa_Mode a = ''execute'' \<Longrightarrow> evidence_granted s a pre"
  shows "emits (arm_create s policy ids (arm_job s policy targets a fp i b now)) (\<lambda>_ l. launch_ok s args (pre @ l))"
proof (rule emits_mono [OF arm_create_log], simp, elim disjE exE conjE, goal_cases)
  case 1
  then show ?case using assms(2) by (simp add: launch_free)
next
  case (2 r l x)
  have granted: "aa_Mode a = ''execute''" "execute_grant s args"
    using arm_request_facts(11) [OF assms(1)] 2 by auto
  have "arm_power_request a j t = arm_power_request args j t" for j t
    by (subst arm_request_facts(3) [OF assms(1)]) (simp add: arm_power_request_def)
  moreover have "evidence_granted s args pre" if "policy = TriggerVerifiedSuccess"
  proof -
    have "a = args"
      using arm_request_facts(13) [OF assms(1)] that by (simp add: stop_policy_def)
    then show ?thesis using assms(4) [OF that granted(1)] by simp
  qed
  ultimately show ?case
    using 2 granted assms(2,3) arm_request_facts(1) [OF assms(1)] by (fastforce simp: launch_ok_def)
qed

text \<open>
  C5: Arming starts at most one supervisor, as the last thing it does, and only for a decoded request that grants
  execution: it asks for \<open>execute\<close>, the service is ready for its policy, its delays are in range, and it carries
  every acknowledgement of that policy (a barrier also 2 to 16 distinct sessions). For an observable stop the
  backend has passed the preflight of exactly this job's power request before. For a verified success, which has no
  preflight here, the verifier profile that the request names was loaded before, or the request and the service
  both allow success without a verifier.
\<close>

theorem arm_launch_justified:
  "emits (service_arm s raw) (\<lambda>_ l. case decodeArguments decode_arm raw of Inl _ \<Rightarrow> l = [] | Inr args \<Rightarrow> launch_ok s args l)"
proof (cases "decodeArguments decode_arm raw")
  case (Inr args)
  have "emits (service_arm s raw) (\<lambda>_ l. launch_ok s args ([] @ l))"
  proof (cases "arm_request s args")
    case (Inr x)
    obtain policy targets a where x: "x = (policy, targets, a)" by (cases x)
    note request = Inr [unfolded x]
    show ?thesis
      unfolding service_arm_def \<open>decodeArguments decode_arm raw = Inr args\<close> request sum.case prod.case
    proof (rule quiet_then [OF arm_verifier_log])
      fix v :: "Result + string" and l
      assume l: "\<not> list_ex is_launch ([] @ l)"
        and verified: "\<not> isl v \<longrightarrow> policy = TriggerVerifiedSuccess \<longrightarrow> aa_Mode a = ''execute'' \<longrightarrow> evidence_granted s a l"
      show "emits (case v of Inl r \<Rightarrow> ret r | Inr fp \<Rightarrow> new_identity s \<bind> (\<lambda>i. case i of
          Inl _ \<Rightarrow> ret (service_failure ''arm'' ''state_error'' ''could not create a one-shot job identity'')
        | Inr identity \<Rightarrow> service_now \<bind> (\<lambda>now. arm_preflight s policy a (ji_JobID identity) now \<bind> (\<lambda>p. case p of
            Some r \<Rightarrow> ret r
          | None \<Rightarrow> arm_binding s policy \<bind> (\<lambda>b. case b of Inl r \<Rightarrow> ret r | Inr binding \<Rightarrow>
              arm_create s policy (target_ids a) (arm_job s policy targets a fp identity binding now))))))
        (\<lambda>_ l'. launch_ok s args (([] @ l) @ l'))"
      proof (intro emits_sum, goal_cases)
        case (2 fp)
        then have evidence: "policy = TriggerVerifiedSuccess \<Longrightarrow> aa_Mode a = ''execute'' \<Longrightarrow> evidence_granted s a l"
          using verified by simp
        show ?case
        proof (rule quiet_part_then [OF quiet_parts(1) l], intro emits_sum, goal_cases)
          case (2 i li identity)
          show ?case
          proof (rule quiet_part_then [OF quiet_parts(3) 2(1)], rule quiet_then [OF arm_preflight_log], assumption,
              intro emits_option, goal_cases)
            case (1 now ln p lp)
            show ?case
            proof (rule quiet_part_then [OF quiet_parts(2) 1(2)], intro emits_sum, goal_cases)
              case (2 b lb binding)
              show ?case
                by (rule arm_create_ok [OF request 2(1)]) (use 1 evidence evidence_later in auto)
            qed (simp add: launch_free)
          qed (simp add: launch_free)
        qed (simp add: launch_free)
      qed (use l in \<open>simp add: launch_free\<close>)
    qed simp
  qed (simp add: service_arm_def Inr launch_free)
  then show ?thesis
    by (simp add: Inr)
qed (simp add: service_arm_def)

subsection \<open>The job of an accepted request\<close>

lemma unseen_target_ok: "t = zero_StopTarget\<lparr>tg_SessionHash := tg_SessionHash t\<rparr> \<Longrightarrow> ValidIdentityHash (tg_SessionHash t) \<Longrightarrow> target_ok t"
  unfolding target_ok_iff by (erule ssubst [where P = "\<lambda>t. ValidIdentityHash (tg_SessionHash t) \<longrightarrow> _ t", rule_format])
    (simp_all add: zero_StopTarget_def)

lemma service_facts:
  assumes "NewWithOptions present options random = Inr s" "pc_ExecuteReady (capability s policy)" "policy_Valid policy"
  shows "path_IsAbs (sv_Workspace s)" "policy = TriggerVerifiedSuccess \<Longrightarrow> sv_PowerPolicyFingerprint s \<noteq> []"
proof -
  have s: "sv_PolicyCapabilities s = normalizedPolicyCapabilities options" "sv_Workspace s = op_Workspace options"
      "sv_PowerPolicyFingerprint s = op_PowerPolicyFingerprint options"
    using assms(1) by (auto simp: NewWithOptions_def Let_def split: if_splits)
  have "anyExecuteReady (normalizedPolicyCapabilities options)"
    using assms(2,3) s by (auto simp: anyExecuteReady_def policy_Valid_def capability_def)
  then show "path_IsAbs (sv_Workspace s)"
    using assms(1) s by (auto simp: NewWithOptions_def Let_def split: if_splits)
  show "policy = TriggerVerifiedSuccess \<Longrightarrow> sv_PowerPolicyFingerprint s \<noteq> []"
    using assms(1,2) s by (auto simp: NewWithOptions_def Let_def capability_def split: if_splits)
qed

text \<open>
  C30: The checks of \<open>arm\<close> are complete: for a service that \<open>NewWithOptions\<close> accepts, the job of an accepted
  request is one that the store validates, with fresh identities, a time after the zero time, and (for a
  verified job that executes) a verifier profile by name or the permission to do without.
\<close>

theorem armed_job_valid:
  assumes "NewWithOptions True options random = Inr s" "arm_request s args = Inr (policy, targets, a)"
    and "identity_New (Some jb) (Some n) = Inr i" "length jb = 10" "0 < now"
    and "b = (if policy = TriggerAfterAllStop then ji_JobID i' else [])" "identity_New (Some jb') (Some n') = Inr i'" "length jb' = 10"
    and "aa_VerifierProfile a \<noteq> []" "aa_VerifierProfile a \<noteq> ''none'' \<or> stop_policy policy \<or> aa_Mode a = ''dry_run'' \<or> aa_AllowAgentOnlySuccess a"
  shows "Validate (arm_job s policy targets a fingerprint i b now) = None"
proof (rule Validate_NoneI)
  let ?j = "arm_job s policy targets a fingerprint i b now"
  note request = arm_request_facts [OF assms(2)]
  note id = identity_New_valid [OF assms(3,4)] identity_New_valid [OF assms(7,8)]
  have nonce: "HasPrefix (ji_NonceHash i) ''sha256:''" "length (ji_NonceHash i) = 71"
    using assms(3) by (auto simp: identity_New_def HasPrefix_def hex_props length_Sum256)
  have ready: "path_IsAbs (sv_Workspace s)" "policy = TriggerVerifiedSuccess \<Longrightarrow> sv_PowerPolicyFingerprint s \<noteq> []"
    if "aa_Mode a \<noteq> ''dry_run''"
  proof -
    have "execute_grant s args" using request(11) that by blast
    then have "pc_ExecuteReady (capability s policy)" "policy_Valid policy"
      using request(1) by (simp_all add: execute_grant_def)
    then show "path_IsAbs (sv_Workspace s)" "policy = TriggerVerifiedSuccess \<Longrightarrow> sv_PowerPolicyFingerprint s \<noteq> []"
      using service_facts [OF assms(1)] by blast+
  qed
  have granted: "aa_Mode a \<noteq> ''dry_run'' \<Longrightarrow> stop_policy policy \<Longrightarrow> aa_AcknowledgeStopWithoutSuccess a"
      "aa_Mode a \<noteq> ''dry_run'' \<Longrightarrow> policy = TriggerAfterAllStop \<Longrightarrow> aa_AcknowledgeBarrierAcrossTurns a"
    using request(1,3,11) by (metis execute_grant_def armArguments.select_convs(3,4) armArguments.surjective armArguments.update_convs(9))+
  have clock: "now + aa_ExpiresInSeconds a * Second > now"
    using request(9) by simp
  have verified: "\<not> stop_policy policy \<longleftrightarrow> policy = TriggerVerifiedSuccess"
    using request(5) by (auto simp: policy_Valid_def stop_policy_def)
  show "job_fixed ?j"
    unfolding job_fixed_def arm_job_def zero_Job_def
    using request(5-10,12,13,15) id nonce granted ready(2) clock verified assms(5,6,9,10) by (auto split: if_splits)
  show "job_clock ?j"
    using assms(5) ready by (auto simp: job_clock_def arm_job_def zero_Job_def)
  have "list_all target_ok targets \<and> distinct (map tg_SessionHash targets)" if "policy = TriggerAfterAllStop"
  proof -
    note facts = request(14) [OF that]
    have "ValidIdentityHash (tg_SessionHash t)" if "t \<in> set targets" for t
      using facts that by (metis (no_types, opaque_lifting) ValidIdentityHash_SHA256 imageE image_eqI list.set_map)
    then show ?thesis
      using facts unseen_target_ok by (simp add: list_all_iff)
  qed
  then show "job_binding ?j"
    using request(14,15) by (auto simp: job_binding_def arm_job_def zero_Job_def)
  show "job_evidence ?j"
    by (simp add: job_evidence_def arm_job_def zero_Job_def)
  show "job_keys ?j"
    by (simp add: job_keys_def arm_job_def zero_Job_def)
qed

definition plain_arm :: armArguments where
  "plain_arm = zero_armArguments\<lparr>aa_Action := ''shutdown'', aa_DelaySeconds := 60, aa_ExpiresInSeconds := 600, aa_Mode := ''dry_run''\<rparr>"

lemma plain_accepted: "NewWithOptions True plain_options (\<lambda>_. (Some (replicate 10 0), Some [])) = Inr plain_service"
  by (simp add: NewWithOptions_def plain_options_def plain_service_def normalizedPolicyCapabilities_def anyExecuteReady_def
      capability_of_def Let_def)

lemma plain_requested:
  "arm_request plain_service plain_arm = Inr (TriggerAfterStop, [], plain_arm\<lparr>aa_VerifierProfile := ''none''\<rparr>)"
  by (simp add: arm_request_def plain_arm_def zero_armArguments_def arm_policy_def policy_of_def arm_first_checks_def
      arm_targets_def target_ids_def arm_last_checks_def policy_Valid_def stop_policy_def Let_def)

theorem armed_job_valid_witness:
  "case identity_New (Some (replicate 10 0)) (Some []) of
     Inl _ \<Rightarrow> False
   | Inr i \<Rightarrow> Validate (arm_job plain_service TriggerAfterStop [] (plain_arm\<lparr>aa_VerifierProfile := ''none''\<rparr>) [] i [] 5) = None"
proof (cases "identity_New (Some (replicate 10 0)) (Some [])")
  case (Inr i)
  show ?thesis
    using armed_job_valid [OF plain_accepted plain_requested Inr _ _ _ Inr, of 5 "[]" "[]"] Inr
    by (simp add: stop_policy_def)
qed (simp add: identity_New_def)

end
