(* ===== verification/Cancel_Laws.thy ===== *)
theory Cancel_Laws
  imports Service_Keeps Recovery_Laws Power_Supervisor
begin

text \<open>
  What \<open>cancel\<close> promises about power actions: a job that was seen with an unresolved action is closed only after
  the action was settled. The second part is about the gap in this: the check and the update are two steps, and
  a countdown that starts in between is forgotten.
\<close>

subsection \<open>Closing after settling\<close>

fun closes :: "service_effect \<Rightarrow> bool" where
  "closes (JobUpdated name _) = (name = ''mcp.cancel'')"
| "closes _ = False"

text \<open>The action is settled: by a recorded resolution, or, without records, by the backend.\<close>

definition action_settled :: "service_effect list \<Rightarrow> bool" where
  "action_settled l \<longleftrightarrow> (\<exists>a. AuthorityLoaded (Inr a) \<in> set l \<and> ra_Resolution a \<noteq> None) \<or>
     (\<exists>x. AuthorityLoaded (Inl x) \<in> set l \<and> errors_Is x ErrNotExist) \<and>
     (\<exists>receipt c e. CancelAsked receipt c e \<in> set l \<and> (e = None \<or> err_is e ErrNoShutdownInProgress))"

definition power_settled :: "service_effect list \<Rightarrow> bool" where
  "power_settled l \<longleftrightarrow> (\<exists>j. JobLoaded (Inr j) \<in> set l \<and> (\<not> HasUnresolvedPowerAction j \<or> action_settled l))"

text \<open>Nothing is closed, or one job at the end, after the settlement.\<close>

definition closes_settled :: "service_effect list \<Rightarrow> bool" where
  "closes_settled l \<longleftrightarrow> \<not> list_ex closes l \<or>
     (\<exists>pre x. l = pre @ [JobUpdated ''mcp.cancel'' x] \<and> \<not> list_ex closes pre \<and> power_settled pre)"

lemma action_settled_more: "action_settled l \<Longrightarrow> action_settled (x # l)"
  by (auto simp: action_settled_def)

lemma start_worker_log: "emits (start_worker s current) (\<lambda>_ l. \<not> list_ex closes l)"
  unfolding start_worker_def by (intro emit_rules) simp_all

lemma cancel_legacy_log:
  "emits (cancel_legacy s current) (\<lambda>r l. \<not> list_ex closes l \<and>
     (isl r \<or> (\<exists>receipt c e. CancelAsked receipt c e \<in> set l \<and> (e = None \<or> err_is e ErrNoShutdownInProgress))))"
  unfolding cancel_legacy_def by (intro emit_rules) auto

lemma settle_log: "emits (settle_power s i) (\<lambda>r l. \<not> list_ex closes l \<and> (isl r \<or> action_settled l))"
  unfolding settle_power_def update_noted_def
  by (intro emit_rules emits_bind [OF emits_mono [OF start_worker_log]] emits_mono [OF cancel_legacy_log])
     (auto simp: action_settled_def)

lemma close_log: "emits (close_job i c) (\<lambda>_ l. \<exists>x. l = [JobUpdated ''mcp.cancel'' x])"
  unfolding close_job_def update_noted_def by (intro emit_rules) auto

text \<open>
  C11: \<open>cancel\<close> writes a job off at most once, as the last thing it does, and only for a job that it loaded
  without an unresolved power action, or after its independent authority showed a resolution, or (for a job without
  such records) after the backend confirmed the cancellation of its receipt or that there is nothing to cancel.
\<close>

theorem cancel_settles: "emits (service_cancel s raw) (\<lambda>_ l. closes_settled l)"
  unfolding service_cancel_def
proof (intro emit_rules, goal_cases)
  case (3 i r j)
  show ?case
    by (rule emits_bind, rule emits_mono [OF settle_log])
      (auto intro!: emit_rules emits_mono [OF close_log] simp: closes_settled_def power_settled_def 3 action_settled_more split: sum.splits)
next
  case (4 i r j)
  show ?case
    by (rule emits_mono [OF close_log]) (use 4 in \<open>auto simp: closes_settled_def power_settled_def Cons_eq_append_conv\<close>)
qed (simp_all add: closes_settled_def)

subsection \<open>The countdown that starts in between\<close>

text \<open>A world without failing calls, whatever the other processes do.\<close>

definition swift :: "'d world \<Rightarrow> bool" where
  "swift w \<longleftrightarrow> (\<forall>k. io w k = None)"

lemma swift_at [simp]: "swift (at w d n) = swift w"
  by (simp add: swift_def)

lemma swift_call: "swift w \<Longrightarrow> (\<And>n. tick w \<le> n \<Longrightarrow> Q None (at w (disk w) n)) \<Longrightarrow> wp call Q w"
  by (simp add: call_def swift_def)

lemma swift_calls: "swift w \<Longrightarrow> (\<And>n. tick w \<le> n \<Longrightarrow> Q None (at w (disk w) n)) \<Longrightarrow> wp (calls ms) Q w"
proof (induction ms arbitrary: w)
  case Nil
  from Nil(2) [of "tick w"] show ?case by simp
next
  case (Cons m ms)
  have "wp (calls ms) Q (at w (disk w) n)" if "tick w \<le> n" for n
    by (rule Cons.IH) (use that in \<open>simp_all add: Cons.prems\<close>)
  then show ?case
    by (auto intro!: swift_call Cons.prems)
qed

lemma swift_acquire:
  "swift w \<Longrightarrow> (\<And>k n. tick w \<le> k \<Longrightarrow> Q None (at w (others w k (disk w)) n)) \<Longrightarrow> wp (acquireStateLock t) Q w"
  unfolding acquireStateLock_def wp_bind
  by (intro swift_calls) (auto simp: time_Now_def sync_def intro!: swift_call)

lemma swift_atomic: "swift w \<Longrightarrow> (\<And>n. Q None (at w (put (disk w)) n)) \<Longrightarrow> wp (AtomicWriteJSON put) Q w"
  unfolding AtomicWriteJSON_def wp_bind
  by (intro swift_calls) (auto simp del: calls.simps intro!: swift_calls)

lemma swift_append:
  "swift w \<Longrightarrow> (\<And>e n. Q None (at w (append_event e (disk w)) n)) \<Longrightarrow> wp (appendEventUnlocked job name key sh th old) Q w"
  unfolding appendEventUnlocked_def wp_bind
  by (rule wp_time_Now, rule swift_calls) (auto simp: first_err.simps intro!: swift_call)

lemma swift_update:
  assumes "swift w" "ValidateJobID i = None"
    and "\<And>k. tick w \<le> k \<Longrightarrow> loadPath (others w k (disk w)) i = Inr job"
    and "\<And>k. mutate job (clock w k) = (None, changed k) \<and> Validate (changed k\<lparr>UpdatedAt := clock w k\<rparr>) = None \<and> TriggerPolicy (changed k) \<noteq> TriggerAfterAllStop"
    and "\<And>k d e n. Q (changed k\<lparr>UpdatedAt := clock w k\<rparr>, True, None) (at w (append_event e (put_job_at i (changed k\<lparr>UpdatedAt := clock w k\<rparr>) d)) n)"
  shows "wp (UpdateJob i name [] mutate) Q w"
proof -
  have locked: "wp (UpdateJob_locked i name [] mutate) Q (at w d n)" if "loadPath d i = Inr job" for d n
    unfolding UpdateJob_locked_def wp_bind wp_read_disk
    using that assms(4)
    by (auto simp: record_event_key_def write_update_def release_if_done_def shouldReleaseBarrierIndexes_def
        intro!: wp_time_Now swift_atomic swift_append assms(1) assms(5))
  show ?thesis
    using assms(2) unfolding UpdateJob_def
    by (auto simp: validateEventKey_def reject_def assms(1) intro!: swift_acquire locked assms(3))
qed

text \<open>The world of the race: once the tool has looked at the job, another process writes the disk \<open>d'\<close>.\<close>

definition raced :: "plugin_disk \<Rightarrow> plugin_disk \<Rightarrow> plugin_disk world" where
  "raced d d' = \<lparr>disk = d, tick = 0, io = (\<lambda>_. None), clock = (\<lambda>k. 20 + int k),
     others = (\<lambda>k x. if k = 0 then x else if x = d then d' else x)\<rparr>"

lemma raced_simps [simp]:
  "swift (raced d d')" "disk (raced d d') = d" "tick (raced d d') = 0" "clock (raced d d') k = 20 + int k"
  "others (raced d d') k d = (if k = 0 then d else d')"
  by (simp_all add: raced_def swift_def)

definition written_off :: "Job \<Rightarrow> time \<Rightarrow> Job" where
  "written_off j now = (snd (cancel_rule None j now))\<lparr>UpdatedAt := now\<rparr>"

lemma written_off_eq:
  assumes "State j = StateActionScheduled"
  shows "written_off j now = (service_clearCompletion (j\<lparr>Generation := Generation j + 1, State := StateCancelled,
    ReasonCode := ''cancelled_by_user'', CancelRequested := True, CancelReason := ''mcp_cancelled_by_user'',
    JobCancelResult := None\<rparr>))\<lparr>UpdatedAt := now\<rparr>"
  using assms by (simp add: written_off_def cancel_rule_def bump_def)

lemma reason_text: "TrimSpace ''mcp_cancelled_by_user'' \<noteq> []"
  by (rule TrimSpace_lower) (simp add: is_lower_def char_between_def char_code_def)

lemma cancel_sound:
  assumes "Validate j = None" "State j = StateActionScheduled" "TriggerPolicy j \<noteq> TriggerAfterAllStop" "can_bump j" "now \<noteq> 0"
  shows "Validate (written_off j now) = None"
proof (rule Validate_NoneI)
  note valid = Validate_NoneD [OF assms(1)]
  show "job_fixed (written_off j now)"
    using valid(1) by (simp add: written_off_eq [OF assms(2)] service_clearCompletion_def)
  show "job_clock (written_off j now)"
    using valid(2) assms by (simp add: written_off_eq [OF assms(2)] service_clearCompletion_def job_clock_def state_known_def can_bump_def)
  show "job_binding (written_off j now)"
    using valid(3) assms by (simp add: written_off_eq [OF assms(2)] service_clearCompletion_def job_binding_def)
  show "job_evidence (written_off j now)"
    using valid(4) assms by (simp add: written_off_eq [OF assms(2)] service_clearCompletion_def job_evidence_def reason_text)
  show "job_keys (written_off j now)"
    using valid(5) assms by (simp add: written_off_eq [OF assms(2)] service_clearCompletion_def job_keys_def)
qed

fun cancel_asked :: "service_effect \<Rightarrow> bool" where
  "cancel_asked (CancelAsked _ _ _) = True"
| "cancel_asked _ = False"

text \<open>
  C22: \<open>cancel\<close> can miss a countdown that starts while it runs. The tool loads the job before the supervisor
  records the scheduled action, and its update comes afterwards: it closes the job, reports that no power action
  was scheduled, and the backend is not asked to cancel anything. The closed job keeps the receipt of the
  countdown, counts as resolved, and makes the supervisor's monitor leave without cancelling either.
\<close>

theorem cancel_misses_countdown:
  assumes "job_arguments raw = Inr i" and "loadPath d i = Inr before" and "\<not> HasUnresolvedPowerAction before"
    and "loadPath d' i = Inr scheduled" and "State scheduled = StateActionScheduled"
    and "TriggerPolicy scheduled \<noteq> TriggerAfterAllStop" and "can_bump scheduled"
  shows "wp (service_cancel sv raw)
     (\<lambda>r s'. \<not> res_IsError r \<and> res_Text r = ''Job cancelled before any power action was scheduled'' \<and>
        \<not> list_ex cancel_asked (pw_log s') \<and>
        (\<exists>j. loadPath (disk (pw_world s')) i = Inr j \<and> State j = StateCancelled \<and> \<not> HasUnresolvedPowerAction j \<and>
           PowerReceipt j = PowerReceipt scheduled \<and> JobCancelResult j = None) \<and>
        wp (monitor_round c scheduled receipt deadline) (\<lambda>m t. m = Some None \<and> pw_log t = log)
          \<lparr>pw_world = quiet_world (disk (pw_world s')), pw_log = log\<rparr>)
     \<lparr>pw_world = raced d d', pw_log = []\<rparr>"
proof -
  have id: "ValidateJobID i = None" "JobID scheduled = i" "Validate scheduled = None"
    using loadPath_valid [OF assms(4)] by (auto dest!: Validate_NoneD(1) simp: job_fixed_def)
  let ?off = "\<lambda>now. written_off scheduled now"
  have off: "State (?off now) = StateCancelled" "JobCancelResult (?off now) = None" "JobID (?off now) = i"
      "PowerReceipt (?off now) = PowerReceipt scheduled" "\<not> HasUnresolvedPowerAction (?off now)"
      "TriggerPolicy (?off now) = TriggerPolicy scheduled" for now
    by (simp_all add: written_off_eq [OF assms(5)] service_clearCompletion_def HasUnresolvedPowerAction_def id)
  have valid: "0 < now \<Longrightarrow> Validate (?off now) = None" for now
    by (rule cancel_sound) (use id assms in auto)
  have loads: "0 < now \<Longrightarrow> loadPath (append_event e (put_job_at i (?off now) x)) i = Inr (?off now)" for now e x
    using loadPath_put [OF valid] off(3) by (metis loadPath_frame(1))
  have rule_result: "cancel_rule None scheduled now = (None, snd (cancel_rule None scheduled now))" for now
    by (simp add: cancel_rule_def)
  have policy: "TriggerPolicy (snd (cancel_rule None scheduled now)) \<noteq> TriggerAfterAllStop" for now
    using off(6) [of now] assms(6) by (simp add: written_off_def)
  let ?Q = "\<lambda>r s'. \<not> res_IsError r \<and> res_Text r = ''Job cancelled before any power action was scheduled'' \<and>
        \<not> list_ex cancel_asked (pw_log s') \<and>
        (\<exists>j. loadPath (disk (pw_world s')) i = Inr j \<and> State j = StateCancelled \<and> \<not> HasUnresolvedPowerAction j \<and>
           PowerReceipt j = PowerReceipt scheduled \<and> JobCancelResult j = None) \<and>
        wp (monitor_round c scheduled receipt deadline) (\<lambda>m t. m = Some None \<and> pw_log t = log)
          \<lparr>pw_world = quiet_world (disk (pw_world s')), pw_log = log\<rparr>"
  have monitor: "wp (monitor_round c scheduled receipt deadline) (\<lambda>m t. m = Some None \<and> pw_log t = log)
      \<lparr>pw_world = quiet_world x, pw_log = log\<rparr>"
    if "loadPath x i = Inr j" "State j = StateCancelled" for x j
    using that by (simp add: monitor_round_def store_Load_def id observe_def sync_def quiet_world_def)
  have close: "wp (close_job i None) ?Q \<lparr>pw_world = at (raced d d') d 1, pw_log = [JobLoaded (Inr before)]\<rparr>"
    unfolding close_job_def update_noted_def noted_def wp_bind wp_store
    by (rule swift_update [where job = scheduled and changed = "\<lambda>k. snd (cancel_rule None scheduled (clock (raced d d') k))"])
       (use id assms(4) policy rule_result valid off loads monitor in \<open>auto simp: written_off_def [symmetric] service_success_def\<close>)
  show ?thesis
    unfolding service_cancel_def assms(1) sum.case noted_def wp_bind wp_store
    using close assms(2,3) by (simp add: store_Load_def id observe_def sync_def)
qed

definition counting_job :: Job where
  "counting_job = stopped_job\<lparr>State := StateActionScheduled, ActionIntentAt := Some 20, ScheduledFor := Some (20 + 60 * Second),
     PowerReceipt := Some sample_receipt\<rparr>"

lemma counting_job_fields [simp]:
  "State counting_job = StateActionScheduled" "TriggerPolicy counting_job = TriggerAfterStop" "JobID counting_job = id_of CHR ''a''"
  "can_bump counting_job" "PowerReceipt counting_job = Some sample_receipt"
  by (simp_all add: counting_job_def stopped_job_def can_bump_def)

lemma counting_job_valid: "Validate counting_job = None"
proof (rule Validate_NoneI)
  note valid = Validate_NoneD [OF stopped_job_valid]
  show "job_fixed counting_job" using valid(1) by (simp add: counting_job_def)
  show "job_clock counting_job" using valid(2) by (simp add: counting_job_def job_clock_def state_known_def)
  show "job_binding counting_job" by (simp add: counting_job_def job_binding_def stopped_job_def sample_defs)
  show "job_evidence counting_job"
    using intent_envelope(3-5) [OF stopped_job_intent] by (simp add: counting_job_def job_evidence_def stopped_job_def sample_defs)
  show "job_keys counting_job" using valid(5) by (simp add: counting_job_def job_keys_def)
qed

lemma object_trimmed: "TrimSpace (CHR ''{'' # s @ ''}'') = CHR ''{'' # s @ ''}''"
proof -
  have "\<forall>w \<in> set space_runes. w \<noteq> [] \<and> char_code (hd w) \<noteq> 123" "\<forall>w \<in> set (map rev space_runes). w \<noteq> [] \<and> char_code (hd w) \<noteq> 125"
    by (simp_all add: space_runes_def char_code_def)
  moreover have "char_code CHR ''{'' = 123" "char_code CHR ''}'' = 125"
    by (simp_all add: char_code_def)
  ultimately have open_brace: "\<forall>w \<in> set space_runes. w \<noteq> [] \<and> hd w \<noteq> CHR ''{''"
    and close_brace: "\<forall>w \<in> set (map rev space_runes). w \<noteq> [] \<and> hd w \<noteq> CHR ''}''"
    by metis+
  show ?thesis
    using strip_left_keep [OF open_brace] strip_left_keep [OF close_brace] by (simp add: TrimSpace_def)
qed

definition cancel_raw :: string where
  "cancel_raw = CHR ''{'' # ''\"job_id\":\"dt_aaaaaaaaaaaaaaaaaaaaaaaaaa\"'' @ ''}''"

lemma cancel_call: "job_arguments cancel_raw = Inr (id_of CHR ''a'')"
proof -
  have trimmed: "or_empty cancel_raw = cancel_raw"
    unfolding or_empty_def cancel_raw_def object_trimmed by simp
  have fuel: "2 * length cancel_raw + 2 = 86"
    by (simp add: cancel_raw_def)
  have parsed: "parse_value 86 cancel_raw = Some (VObj [(''job_id'', VStr (id_of CHR ''a''))], [])"
    by code_simp
  have decoded: "decode_struct [''job_id''] (\<lambda>a n v. decode_string a v) [] (VObj [(''job_id'', VStr (id_of CHR ''a''))]) = Some (id_of CHR ''a'')"
    by code_simp
  show ?thesis
    unfolding job_arguments_def decodeArguments_def trimmed Let_def fuel parsed option.case prod.case decoded by (simp add: skip_ws_def)
qed

theorem cancel_misses_countdown_witness:
  "wp (service_cancel plain_service cancel_raw)
     (\<lambda>r s'. \<not> res_IsError r \<and> res_Text r = ''Job cancelled before any power action was scheduled'' \<and>
        \<not> list_ex cancel_asked (pw_log s') \<and>
        (\<exists>j. loadPath (disk (pw_world s')) (id_of CHR ''a'') = Inr j \<and> State j = StateCancelled \<and> \<not> HasUnresolvedPowerAction j \<and>
           PowerReceipt j = Some sample_receipt \<and> JobCancelResult j = None))
     \<lparr>pw_world = raced (put_job stopped_job empty_disk) (put_job counting_job empty_disk), pw_log = []\<rparr>"
proof -
  have loads: "loadPath (put_job stopped_job empty_disk) (id_of CHR ''a'') = Inr stopped_job"
      "loadPath (put_job counting_job empty_disk) (id_of CHR ''a'') = Inr counting_job"
    using loadPath_put [OF stopped_job_valid] loadPath_put [OF counting_job_valid] by (simp_all add: stopped_job_def)
  have facts: "\<not> HasUnresolvedPowerAction stopped_job" "TriggerPolicy counting_job \<noteq> TriggerAfterAllStop"
    by (simp_all add: stopped_job_def HasUnresolvedPowerAction_def)
  from cancel_misses_countdown [OF cancel_call loads(1) facts(1) loads(2) counting_job_fields(1) facts(2) counting_job_fields(4)]
  show ?thesis
    unfolding counting_job_fields by (rule wp_mono) (elim conjE, intro conjI)
qed

end
