(* ===== verification/Cli_Plugin.thy ===== *)
theory Cli_Plugin
  imports Go_Trace Plugin_Recovery Plugin_Observed
begin

text \<open>
  \<open>internal/cli/plugin_cancel.go\<close>, \<open>cancel_worker.go\<close> and the plugin halves of \<open>cancel.go\<close> and
  \<open>reconcile.go\<close>: settling an unresolved power
  action from the command line, or by the detached worker. The machine lock, the backend and the waits (which end early
  with the error of a cancelled context) are parameters; their answers, and the reads and updates that decide
  about the action, are kept in the log. Printing is the text of the result.
\<close>

record cli_deps =
  dp_Lock :: "nat \<Rightarrow> err option"
  dp_Release :: "nat \<Rightarrow> err option"
  dp_Cancel :: "nat \<Rightarrow> Receipt \<Rightarrow> CancelResult \<times> err option"
  dp_Reconcile :: "nat \<Rightarrow> Receipt \<Rightarrow> ReconcileResult \<times> err option"
  dp_Wait :: "nat \<Rightarrow> err option"

datatype cli_effect =
    LockTried "err option"
  | LockReleased "err option"
  | AuthorityRead "err + RecoveryAuthority"
  | ResolutionStored string "err + RecoveryResolution"
  | CancelTried Receipt CancelResult "err option"
  | ReconcileTried Receipt ReconcileResult "err option"
  | JobRead "err + Job"
  | JobChanged string "Job \<times> bool \<times> err option"
  | Waited "err option"

type_synonym cli_world = "(plugin_disk, cli_effect) traced"
type_synonym 'a pcli = "(cli_world, 'a) state"

subsection \<open>Ends of a command\<close>

text \<open>The exit code, the line that was printed, and the error in it.\<close>

type_synonym cli_end = "int \<times> string \<times> err option"

definition cli_ok :: "string \<Rightarrow> cli_end" where
  "cli_ok text = (0, text, None)"

definition runtimeError :: "int \<Rightarrow> string \<Rightarrow> err \<Rightarrow> cli_end" where
  "runtimeError code operation e = (code, operation, Some e)"

definition usageError :: "err \<Rightarrow> cli_end" where
  "usageError e = (2, [], Some e)"

subsection \<open>Settling a power action\<close>

record pluginPowerSettlement =
  st_Outcome :: string
  st_Result :: "CancelResult option"

abbreviation no_settlement :: pluginPowerSettlement where
  "no_settlement \<equiv> \<lparr>st_Outcome = [], st_Result = None\<rparr>"

definition read_authority :: "string \<Rightarrow> (err + RecoveryAuthority) pcli" where
  "read_authority jobID = noted AuthorityRead (LoadRecoveryAuthority jobID)"

definition store_resolution :: "string \<Rightarrow> string \<Rightarrow> string \<Rightarrow> CancelResult option \<Rightarrow> (err + RecoveryResolution) pcli" where
  "store_resolution jobID outcome reason result = do {
     now \<leftarrow> store time_Now;
     noted (ResolutionStored outcome) (PersistRecoveryResolution jobID outcome reason result now) }"

definition try_cancel :: "cli_deps \<Rightarrow> Receipt \<Rightarrow> (CancelResult \<times> err option) pcli" where
  "try_cancel d receipt = ask (\<lambda>(x, e). CancelTried receipt x e) (\<lambda>n. dp_Cancel d n receipt)"

text \<open>The backend has cancelled, or there was nothing to cancel.\<close>

definition confirmed :: "err option \<Rightarrow> bool" where
  "confirmed e \<longleftrightarrow> e = None \<or> err_is e ErrNoShutdownInProgress"

definition settle_receipt :: "cli_deps \<Rightarrow> Job \<Rightarrow> string \<Rightarrow> Receipt \<Rightarrow> err option \<Rightarrow> (pluginPowerSettlement \<times> err option) pcli" where
  "settle_receipt d job reason receipt authorityErr = do {
     (result, cancelErr) \<leftarrow> try_cancel d receipt;
     if \<not> confirmed cancelErr then ret (\<lparr>st_Outcome = [], st_Result = Some result\<rparr>, cancelErr)
     else (case authorityErr of
       None \<Rightarrow> do {
         r \<leftarrow> store_resolution (JobID job) ''cancelled'' reason (Some result);
         ret (case r of
                Inl e \<Rightarrow> (\<lparr>st_Outcome = ''cancelled'', st_Result = Some result\<rparr>, Some e)
              | Inr resolution \<Rightarrow> (\<lparr>st_Outcome = rr_Outcome resolution, st_Result = rr_CancelResult resolution\<rparr>, None)) }
     | Some e \<Rightarrow>
         ret (\<lparr>st_Outcome = ''cancelled'', st_Result = Some result\<rparr>,
              if errors_Is e ErrNotExist then None
              else Some (Wrap ''power cancellation was confirmed but recovery authority is unreadable: %w'' e))) }"

definition same_binding :: "Job \<Rightarrow> RecoveryAuthority \<Rightarrow> bool" where
  "same_binding job authority \<longleftrightarrow> re_BindingID (ra_Envelope authority) = ObservedBindingID job \<and>
     re_Action (ra_Envelope authority) = Action job \<and> re_TriggerPolicy (ra_Envelope authority) = TriggerPolicy job"

definition settlePluginPowerLocked :: "cli_deps \<Rightarrow> Job \<Rightarrow> string \<Rightarrow> (pluginPowerSettlement \<times> err option) pcli" where
  "settlePluginPowerLocked d job reason = do {
     a \<leftarrow> read_authority (JobID job);
     case a of
       Inl e \<Rightarrow>
         (case RecoveryReceipt job of
            Inl x \<Rightarrow> ret (no_settlement, Some x)
          | Inr receipt \<Rightarrow> settle_receipt d job reason receipt (Some e))
     | Inr authority \<Rightarrow>
         if \<not> same_binding job authority then
           ret (no_settlement, Some (Err ''recovery authority does not match the mutable job binding''))
         else (case ra_Resolution authority of
           Some r \<Rightarrow> ret (\<lparr>st_Outcome = rr_Outcome r, st_Result = rr_CancelResult r\<rparr>, None)
         | None \<Rightarrow>
             if ra_Call authority = None then do {
               r \<leftarrow> store_resolution (JobID job) ''no_action'' reason None;
               ret (case r of
                      Inl e \<Rightarrow> (no_settlement, Some e)
                    | Inr resolution \<Rightarrow> (\<lparr>st_Outcome = rr_Outcome resolution, st_Result = None\<rparr>, None)) }
             else settle_receipt d job reason (CancellationReceipt authority) None) }"

definition settlement_rule :: "string \<Rightarrow> pluginPowerSettlement \<Rightarrow> Job \<Rightarrow> time \<Rightarrow> err option \<times> Job" where
  "settlement_rule reason settlement current now =
     (if IsTerminal (State current) \<and> \<not> HasUnresolvedPowerAction current then (None, current)
      else if \<not> HasUnresolvedPowerAction current then (Some (Err ''plugin power action is no longer unresolved''), current)
      else (None, (bump current)\<lparr>CancelRequested := True, CancelReason := reason, JobCancelResult := st_Result settlement,
        State := StateCancelled,
        ReasonCode := (if st_Outcome settlement = ''no_action'' then ''pre_schedule_intent_cancelled:'' @ reason
                       else ''countdown_cancelled:'' @ reason)\<rparr>))"

definition change_job :: "string \<Rightarrow> string \<Rightarrow> (Job \<Rightarrow> time \<Rightarrow> err option \<times> Job) \<Rightarrow> (Job \<times> bool \<times> err option) pcli" where
  "change_job jobID name rule = noted (JobChanged name) (UpdateJob jobID name [] rule)"

definition persistPluginPowerSettlement :: "string \<Rightarrow> string \<Rightarrow> string \<Rightarrow> pluginPowerSettlement \<Rightarrow> (Job \<times> err option) pcli" where
  "persistPluginPowerSettlement jobID eventName reason settlement =
     (if st_Outcome settlement \<noteq> ''no_action'' \<and> st_Outcome settlement \<noteq> ''cancelled'' then
        ret (zero_Job, Some (Err ''power settlement is not terminal''))
      else do {
        (updated, _, e) \<leftarrow> change_job jobID eventName (settlement_rule reason settlement);
        ret (updated, e) })"

definition try_lock :: "cli_deps \<Rightarrow> err option pcli" where
  "try_lock d = ask LockTried (dp_Lock d)"

definition release_lock :: "cli_deps \<Rightarrow> err option pcli" where
  "release_lock d = ask LockReleased (dp_Release d)"

subsection \<open>Cancelling a plugin job\<close>

definition cli_request_rule :: "Job \<Rightarrow> time \<Rightarrow> err option \<times> Job" where
  "cli_request_rule current now =
     (None,
      if \<not> HasUnresolvedPowerAction current then current
      else (bump current)\<lparr>CancelRequested := True, CancelReason := ''cli_cancelled_by_user'', ReasonCode := ''power_cancel_requested''\<rparr>)"

definition cli_cancel_rule :: "Job \<Rightarrow> time \<Rightarrow> err option \<times> Job" where
  "cli_cancel_rule job now =
     (None,
      if IsTerminal (State job) \<and> \<not> HasUnresolvedPowerAction job then job
      else (bump job)\<lparr>State := StateCancelled, ReasonCode := ''cancelled_by_user'', CancelRequested := True,
        CancelReason := ''cli_cancelled_by_user'', JobCancelResult := None, CompletionStatus := [], CompletionEvidenceHash := [],
        ReadyTurnID := [], StopTurnID := [], FinishObserved := False\<rparr>)"

definition cancel_unresolved :: "cli_deps \<Rightarrow> Job \<Rightarrow> cli_end pcli" where
  "cancel_unresolved d job = do {
     (job, _, e) \<leftarrow> change_job (JobID job) ''cli.cancel.requested'' cli_request_rule;
     case e of
       Some x \<Rightarrow> ret (runtimeError 17 ''persist plugin cancellation request'' x)
     | None \<Rightarrow> do {
         lockErr \<leftarrow> try_lock d;
         case lockErr of
           Some x \<Rightarrow> ret (runtimeError 17 ''acquire plugin cancellation fence after persisting the request'' x)
         | None \<Rightarrow> do {
             (settlement, settleErr) \<leftarrow> settlePluginPowerLocked d job ''cli_cancelled_by_user'';
             case settleErr of
               Some x \<Rightarrow> do {
                 release_lock d;
                 ret (14, ''[DoneThen] Plugin cancellation remains recovery-required: %v. Retry immediately.'', Some x) }
             | None \<Rightarrow> do {
                 (updated, persistErr) \<leftarrow> persistPluginPowerSettlement (JobID job) ''cli.cancel.settled'' ''cli_cancelled_by_user'' settlement;
                 releaseErr \<leftarrow> release_lock d;
                 ret (case (persistErr, releaseErr) of
                        (Some x, _) \<Rightarrow> runtimeError 17 ''persist settled plugin cancellation'' x
                      | (None, Some x) \<Rightarrow> runtimeError 17 ''release plugin cancellation fence'' x
                      | _ \<Rightarrow> cli_ok (if st_Outcome settlement = ''no_action''
                             then ''[DoneThen] Plugin job %s cancelled before the power backend was called.''
                             else ''[DoneThen] Plugin job %s cancelled; the countdown was confirmed inert (scope=%s).'')) } } } }"

definition cancelPluginJob :: "cli_deps \<Rightarrow> Job \<Rightarrow> cli_end pcli" where
  "cancelPluginJob d job =
     (if State job = StateCancelled then ret (cli_ok ''[DoneThen] Plugin job %s is already cancelled.'')
      else if IsTerminal (State job) \<and> \<not> HasUnresolvedPowerAction job then
        ret (cli_ok ''[DoneThen] Plugin job %s is already in terminal state %s; no action is active.'')
      else if HasUnresolvedPowerAction job then cancel_unresolved d job
      else do {
        (updated, _, e) \<leftarrow> change_job (JobID job) ''cli.cancel'' cli_cancel_rule;
        ret (case e of
               Some x \<Rightarrow> runtimeError 17 ''cancel plugin job'' x
             | None \<Rightarrow> cli_ok
                 (if State updated \<noteq> StateCancelled then ''[DoneThen] Plugin job %s became terminal in state %s; no action is active.''
                  else if DryRun updated then ''[DoneThen] Plugin job %s cancelled. Observe-only plugin mode had not scheduled a power action.''
                  else ''[DoneThen] Plugin job %s cancelled before a power action was scheduled.'')) })"

text \<open>Cancelling from the recovery records, when the job itself cannot be read.\<close>

definition recover_authority :: "cli_deps \<Rightarrow> string \<Rightarrow> cli_end pcli" where
  "recover_authority d jobID = do {
     a \<leftarrow> read_authority jobID;
     case a of
       Inl e \<Rightarrow> ret (runtimeError 17 ''reload plugin recovery authority'' e)
     | Inr authority \<Rightarrow>
         if ra_Resolution authority \<noteq> None then
           ret (cli_ok ''[DoneThen] Recovery authority for plugin job %s is already resolved as %s.'')
         else if ra_Call authority = None then do {
           r \<leftarrow> store_resolution (re_JobID (ra_Envelope authority)) ''no_action'' ''cli_recovered_before_schedule_call'' None;
           ret (case r of
                  Inl e \<Rightarrow> runtimeError 17 ''persist pre-call recovery resolution'' e
                | Inr _ \<Rightarrow> cli_ok ''[DoneThen] Plugin job %s had no durable schedule-call start; it was resolved without calling the power backend.'') }
         else do {
           (result, cancelErr) \<leftarrow> try_cancel d (CancellationReceipt authority);
           if \<not> confirmed cancelErr then ret (14, ''cancel from plugin recovery authority'', cancelErr)
           else do {
             r \<leftarrow> store_resolution (re_JobID (ra_Envelope authority)) ''cancelled'' ''cli_recovered_without_job_projection'' (Some result);
             ret (case r of
                    Inl e \<Rightarrow> runtimeError 17 ''persist recovery cancellation resolution'' e
                  | Inr _ \<Rightarrow> cli_ok ''[DoneThen] Plugin job %s cancellation was confirmed from its independent recovery authority (scope=%s).'') } } }"

definition cancelPluginRecoveryAuthority :: "cli_deps \<Rightarrow> RecoveryAuthority \<Rightarrow> cli_end pcli" where
  "cancelPluginRecoveryAuthority d authority = do {
     lockErr \<leftarrow> try_lock d;
     case lockErr of
       Some x \<Rightarrow> ret (runtimeError 17 ''acquire recovery cancellation fence'' x)
     | None \<Rightarrow> do {
         r \<leftarrow> recover_authority d (re_JobID (ra_Envelope authority));
         release_lock d;
         ret r } }"

subsection \<open>The cancel worker\<close>

text \<open>A job that the worker still has something to do for.\<close>

definition worker_live :: "string \<Rightarrow> Job \<Rightarrow> bool" where
  "worker_live bindingID job \<longleftrightarrow>
     ObservedBindingID job = bindingID \<and> (\<not> IsTerminal (State job) \<or> HasUnresolvedPowerAction job)"

definition lock_unavailable_rule :: "string \<Rightarrow> string \<Rightarrow> Job \<Rightarrow> time \<Rightarrow> err option \<times> Job" where
  "lock_unavailable_rule bindingID reason current now =
     (None,
      if worker_live bindingID current then
        (bump current)\<lparr>CancelRequested := True, CancelReason := reason,
          ReasonCode := ''cancel_worker_unavailable:machine_power_lock_held''\<rparr>
      else current)"

text \<open>Until when the worker waits for the lock: the countdown of an unresolved action, the expiry of an armed job.\<close>

definition retry_until :: "Job \<Rightarrow> time \<Rightarrow> time" where
  "retry_until job until =
     (if HasUnresolvedPowerAction job then
        (case RecoveryReceipt job of Inl _ \<Rightarrow> until | Inr receipt \<Rightarrow> rcp_Deadline receipt + 300 * Second)
      else if until < ExpiresAt job then ExpiresAt job else until)"

definition note_lock_held :: "string \<Rightarrow> string \<Rightarrow> string \<Rightarrow> time pcli" where
  "note_lock_held jobID bindingID reason = do {
     l \<leftarrow> noted JobRead (store_Load jobID);
     now \<leftarrow> store time_Now;
     let until = now + 30 * Second;
     until \<leftarrow> (case l of
       Inl _ \<Rightarrow> ret until
     | Inr job \<Rightarrow>
         if worker_live bindingID job then do {
           change_job jobID ''cancel_worker.lock_unavailable'' (lock_unavailable_rule bindingID reason);
           ret (retry_until job until) }
         else ret until);
     now \<leftarrow> store time_Now;
     ret (min until (now + 3900 * Second)) }"

text \<open>
  The lock is tried again every 250 ms. A clock that follows the waits reaches the longest deadline of 65 minutes
  within the 15600 rounds of the fuel; running out of it is the deadline as well.
\<close>

abbreviation lock_rounds :: nat where "lock_rounds \<equiv> 15600"

fun retry_lock_until :: "nat \<Rightarrow> cli_deps \<Rightarrow> time \<Rightarrow> err \<Rightarrow> cli_end option pcli" where
  "retry_lock_until 0 d until e = ret (Some (runtimeError 17 ''acquire cancel-worker power fence'' e))"
| "retry_lock_until (Suc n) d until e = do {
     now \<leftarrow> store time_Now;
     if \<not> now < until then ret (Some (runtimeError 17 ''acquire cancel-worker power fence'' e))
     else do {
       w \<leftarrow> ask Waited (dp_Wait d);
       case w of
         Some x \<Rightarrow> ret (Some (runtimeError 17 ''wait for cancel-worker power fence'' x))
       | None \<Rightarrow> do {
           lockErr \<leftarrow> try_lock d;
           case lockErr of None \<Rightarrow> ret None | Some e \<Rightarrow> retry_lock_until n d until e } } }"

text \<open>\<open>None\<close> when the worker holds the lock.\<close>

definition worker_lock :: "cli_deps \<Rightarrow> string \<Rightarrow> string \<Rightarrow> string \<Rightarrow> cli_end option pcli" where
  "worker_lock d jobID bindingID reason = do {
     lockErr \<leftarrow> try_lock d;
     case lockErr of
       None \<Rightarrow> ret None
     | Some e \<Rightarrow> do {
         until \<leftarrow> note_lock_held jobID bindingID reason;
         retry_lock_until lock_rounds d until e } }"

text \<open>Without a readable job, the worker settles its recovery records.\<close>

definition worker_records :: "cli_deps \<Rightarrow> string \<Rightarrow> string \<Rightarrow> string \<Rightarrow> err \<Rightarrow> cli_end pcli" where
  "worker_records d jobID bindingID reason loadErr = do {
     let failed = runtimeError 17 ''settle cancel-worker recovery authority'';
     let stored = (\<lambda>r. case r of Inl e \<Rightarrow> failed e | Inr _ \<Rightarrow> cli_ok []);
     a \<leftarrow> read_authority jobID;
     case a of
       Inl _ \<Rightarrow> ret (runtimeError 17 ''load revocation job'' loadErr)
     | Inr authority \<Rightarrow>
         if re_BindingID (ra_Envelope authority) \<noteq> bindingID then ret (runtimeError 17 ''load revocation job'' loadErr)
         else if ra_Resolution authority \<noteq> None then ret (cli_ok [])
         else if ra_Call authority = None then do {
           r \<leftarrow> store_resolution jobID ''no_action'' reason None;
           ret (stored r) }
         else do {
           (result, cancelErr) \<leftarrow> try_cancel d (CancellationReceipt authority);
           if confirmed cancelErr then do {
             r \<leftarrow> store_resolution jobID ''cancelled'' reason (Some result);
             ret (stored r) }
           else ret (17, ''settle cancel-worker recovery authority'', cancelErr) } }"

text \<open>
  The fence of a job whose power action has not been recorded: it is closed while the lock is held. The loop goes on
  while the store cannot be written, until the job expires; its fuel is an argument, \<open>None\<close> is running out.
\<close>

definition fence_rule :: "string \<Rightarrow> string \<Rightarrow> Job \<Rightarrow> time \<Rightarrow> err option \<times> Job" where
  "fence_rule bindingID reason current now =
     (if ObservedBindingID current \<noteq> bindingID then (Some (Err ''cancel-worker binding no longer matches''), current)
      else if IsTerminal (State current) \<and> \<not> HasUnresolvedPowerAction current then (None, current)
      else if HasUnresolvedPowerAction current then
        (Some (Err ''barrier crossed the power-intent boundary while fenced''), current)
      else (None, (bump current)\<lparr>CancelRequested := True, CancelReason := reason, State := StateCancelled,
        ReasonCode := ''revocation_channel_unavailable:'' @ reason\<rparr>))"

definition fenced :: "Job \<Rightarrow> bool" where
  "fenced job \<longleftrightarrow> IsTerminal (State job) \<and> \<not> HasUnresolvedPowerAction job"

fun persistPreIntentRevocationFence ::
    "nat \<Rightarrow> cli_deps \<Rightarrow> string \<Rightarrow> string \<Rightarrow> string \<Rightarrow> time \<Rightarrow> err option option pcli" where
  "persistPreIntentRevocationFence 0 d jobID bindingID reason expiresAt = ret None"
| "persistPreIntentRevocationFence (Suc n) d jobID bindingID reason expiresAt = do {
     (updated, _, updateErr) \<leftarrow> change_job jobID ''cancel_worker.fence'' (fence_rule bindingID reason);
     if updateErr = None \<and> fenced updated then ret (Some None)
     else do {
       l \<leftarrow> noted JobRead (store_Load jobID);
       let changed = (case l of Inl _ \<Rightarrow> False | Inr current \<Rightarrow> ObservedBindingID current \<noteq> bindingID);
       let expiresAt = (case l of Inl _ \<Rightarrow> expiresAt | Inr current \<Rightarrow> ExpiresAt current);
       if changed then ret (Some (Some (Err ''cancel-worker binding changed while fenced'')))
       else if (case l of Inl _ \<Rightarrow> False | Inr current \<Rightarrow> fenced current) then ret (Some None)
       else do {
         now \<leftarrow> store time_Now;
         if expiresAt \<noteq> 0 \<and> \<not> now < expiresAt then
           ret (Some (Some (Err ''barrier expired while its fail-closed fence could not be persisted'')))
         else do {
           w \<leftarrow> ask Waited (dp_Wait d);
           case w of
             Some x \<Rightarrow> ret (Some (Some x))
           | None \<Rightarrow> persistPreIntentRevocationFence n d jobID bindingID reason expiresAt } } } }"

definition unconfirmed_rule :: "string \<Rightarrow> pluginPowerSettlement \<Rightarrow> Job \<Rightarrow> time \<Rightarrow> err option \<times> Job" where
  "unconfirmed_rule reason settlement current now =
     (None,
      if HasUnresolvedPowerAction current then
        current\<lparr>CancelRequested := True, CancelReason := reason, ReasonCode := ''countdown_cancel_unconfirmed:'' @ reason,
          JobCancelResult := st_Result settlement\<rparr>
      else current)"

definition complete_revocations :: "string \<Rightarrow> string \<Rightarrow> cli_end pcli" where
  "complete_revocations jobID bindingID = do {
     e \<leftarrow> store (CompletePendingRevocations jobID bindingID);
     ret (case e of Some x \<Rightarrow> runtimeError 17 ''complete revocation requests'' x | None \<Rightarrow> cli_ok []) }"

definition worker_settles :: "cli_deps \<Rightarrow> Job \<Rightarrow> string \<Rightarrow> string \<Rightarrow> cli_end pcli" where
  "worker_settles d job bindingID reason = do {
     (settlement, settleErr) \<leftarrow> settlePluginPowerLocked d job reason;
     case settleErr of
       Some x \<Rightarrow> do {
         change_job (JobID job) ''cancel_worker.receipt_unavailable'' (unconfirmed_rule reason settlement);
         ret (14, ''[DoneThen cancel-worker %d] cancellation remains unconfirmed: %v.'', Some x) }
     | None \<Rightarrow> do {
         (_, stateErr) \<leftarrow> persistPluginPowerSettlement (JobID job) ''cancel_worker.cancel'' reason settlement;
         case stateErr of
           Some x \<Rightarrow> ret (runtimeError 17 ''persist cancel-worker result'' x)
         | None \<Rightarrow> complete_revocations (JobID job) bindingID } }"

text \<open>What the worker does with the lock. The outer \<open>None\<close> is running out of fuel.\<close>

definition worker_locked :: "nat \<Rightarrow> cli_deps \<Rightarrow> string \<Rightarrow> string \<Rightarrow> string \<Rightarrow> cli_end option pcli" where
  "worker_locked fuel d jobID bindingID reason = do {
     l \<leftarrow> noted JobRead (store_Load jobID);
     case l of
       Inl e \<Rightarrow> do { r \<leftarrow> worker_records d jobID bindingID reason e; ret (Some r) }
     | Inr job \<Rightarrow>
         if ObservedBindingID job \<noteq> bindingID then
           ret (Some (runtimeError 17 ''validate revocation binding'' (Err ''cancel-worker binding no longer matches'')))
         else if IsTerminal (State job) \<and> \<not> HasUnresolvedPowerAction job then ret (Some (cli_ok []))
         else if \<not> HasUnresolvedPowerAction job then do {
           f \<leftarrow> persistPreIntentRevocationFence fuel d jobID bindingID reason (ExpiresAt job);
           case f of
             None \<Rightarrow> ret None
           | Some (Some x) \<Rightarrow> ret (Some (runtimeError 17 ''persist cancel-worker fence'' x))
           | Some None \<Rightarrow> do { r \<leftarrow> complete_revocations jobID bindingID; ret (Some r) } }
         else do { r \<leftarrow> worker_settles d job bindingID reason; ret (Some r) } }"

definition cancelWorkerCommand :: "nat \<Rightarrow> cli_deps \<Rightarrow> string list \<Rightarrow> cli_end option pcli" where
  "cancelWorkerCommand fuel d args =
     (case args of
        [jobID, bindingID, reason] \<Rightarrow>
          (case ValidateJobID jobID of
             Some e \<Rightarrow> ret (Some (usageError e))
           | None \<Rightarrow>
               if ValidateJobID bindingID \<noteq> None then
                 ret (Some (usageError (Err ''invalid revocation binding identity'')))
               else if TrimSpace reason = [] \<or> length reason > 256 then
                 ret (Some (usageError (Err ''invalid cancel-worker reason'')))
               else do {
                 stopped \<leftarrow> worker_lock d jobID bindingID reason;
                 case stopped of
                   Some r \<Rightarrow> ret (Some r)
                 | None \<Rightarrow> do {
                     r \<leftarrow> worker_locked fuel d jobID bindingID reason;
                     release_lock d;
                     ret r } })
      | _ \<Rightarrow> ret (Some (usageError (Err ''cancel-worker requires job id, binding id, and reason''))))"

subsection \<open>Reconciling a plugin job\<close>

definition reconcile_rule :: "Receipt \<Rightarrow> ReconcileResult \<Rightarrow> Job \<Rightarrow> time \<Rightarrow> err option \<times> Job" where
  "reconcile_rule receipt result current now =
     (if (case RecoveryReceipt current of Inl _ \<Rightarrow> True | Inr r \<Rightarrow> rcp_Checksum r \<noteq> rcp_Checksum receipt) then
        (Some (Err ''plugin power receipt changed during reconciliation''), current)
      else
        (let current = current\<lparr>PowerReceipt := (case PowerReceipt current of None \<Rightarrow> Some receipt | Some r \<Rightarrow> Some r),
               ScheduledFor := (case ScheduledFor current of None \<Rightarrow> Some (rcp_Deadline receipt) | Some t \<Rightarrow> Some t)\<rparr>;
             unresolved = (HasUnresolvedPowerAction current \<or> State current = StateActionScheduled);
             settle = (\<lambda>j. (None, j\<lparr>JobReconcileResult := Some result, ReasonCode := reconcile_string (rr_State result)\<rparr>))
         in case rr_State result of
              ReconcileScheduled \<Rightarrow>
                if \<not> unresolved then (Some (Err ''backend cannot report an unrelated plugin job as scheduled''), current)
                else settle current
            | ReconcileUnverified \<Rightarrow>
                if unresolved \<and> rr_CheckedAt result < rcp_Deadline receipt then
                  (None, current\<lparr>ReasonCode := ''execution_unverified_before_deadline'', JobReconcileResult := Some result\<rparr>)
                else if unresolved then settle (current\<lparr>State := StateActionExecutionUnverified\<rparr>)
                else settle current
            | ReconcileConfirmed \<Rightarrow> settle (current\<lparr>State := StateActionExecutedConfirmed\<rparr>)
            | ReconcileOther s \<Rightarrow> (Some (Err ''backend returned unknown reconcile state %q''), current)))"

definition reconcilePluginJob :: "cli_deps \<Rightarrow> Job \<Rightarrow> cli_end pcli" where
  "reconcilePluginJob d job =
     (if \<not> HasUnresolvedPowerAction job \<and> State job \<noteq> StateActionExecutionUnverified \<and> State job \<noteq> StateActionExecutedConfirmed then
        ret (runtimeError 2 ''reconcile plugin job'' (Err ''state %s has no scheduled power action to reconcile''))
      else (case RecoveryReceipt job of
        Inl e \<Rightarrow> ret (runtimeError 17 ''recover plugin reconciliation receipt'' e)
      | Inr receipt \<Rightarrow> do {
          (result, e) \<leftarrow> ask (\<lambda>(x, e). ReconcileTried receipt x e) (\<lambda>n. dp_Reconcile d n receipt);
          case e of
            Some x \<Rightarrow> ret (runtimeError 14 ''reconcile plugin power receipt'' x)
          | None \<Rightarrow> do {
              now \<leftarrow> (if rr_CheckedAt result = 0 then store time_Now else ret (rr_CheckedAt result));
              let result = result\<lparr>rr_CheckedAt := now\<rparr>;
              (updated, _, e) \<leftarrow> change_job (JobID job) ''power.reconcile'' (reconcile_rule receipt result);
              ret (case e of
                     Some x \<Rightarrow> runtimeError 17 ''persist plugin reconciliation'' x
                   | None \<Rightarrow> cli_ok ''[DoneThen] Plugin job %s reconcile=%s state=%s.'') } }))"

end
