(* ===== verification/Cli_Laws.thy ===== *)
theory Cli_Laws
  imports Cli_Plugin Cancel_Laws
begin

text \<open>
  What the command line promises about power actions. Every command only reduces authority: a cancellation
  is sent under the machine lock and with the receipt of an action that may have been started; a resolution is stored,
  and a job is closed, only after the action is known to be inert.
\<close>

subsection \<open>A log that is checked step by step\<close>

fun releases :: "cli_effect \<Rightarrow> bool" where
  "releases (LockReleased _) = True"
| "releases _ = False"

text \<open>The lock was taken and not given back.\<close>

definition lock_held :: "cli_effect list \<Rightarrow> bool" where
  "lock_held l \<longleftrightarrow> LockTried None \<in> set l \<and> \<not> list_ex releases l"

text \<open>The job was read, or was the answer of an update.\<close>

fun shows_job :: "Job \<Rightarrow> cli_effect \<Rightarrow> bool" where
  "shows_job job (JobRead (Inr j)) = (j = job)"
| "shows_job job (JobChanged _ (j, _, e)) = (j = job \<and> e = None)"
| "shows_job job _ = False"

text \<open>The records are unreadable, or absent, or show an action that may have been started, or one that was not.\<close>

fun unreadable :: "cli_effect \<Rightarrow> bool" where
  "unreadable (AuthorityRead (Inl _)) = True"
| "unreadable _ = False"

fun absent :: "cli_effect \<Rightarrow> bool" where
  "absent (AuthorityRead (Inl e)) = errors_Is e ErrNotExist"
| "absent _ = False"

fun opened :: "Receipt \<Rightarrow> cli_effect \<Rightarrow> bool" where
  "opened receipt (AuthorityRead (Inr a)) = (ra_Resolution a = None \<and> ra_Call a \<noteq> None \<and> receipt = CancellationReceipt a)"
| "opened receipt _ = False"

fun uncalled :: "cli_effect \<Rightarrow> bool" where
  "uncalled (AuthorityRead (Inr a)) = (ra_Resolution a = None \<and> ra_Call a = None)"
| "uncalled _ = False"

text \<open>The records hold a resolution, or the backend has confirmed.\<close>

fun resolved :: "cli_effect \<Rightarrow> bool" where
  "resolved (AuthorityRead (Inr a)) = (ra_Resolution a \<noteq> None)"
| "resolved (ResolutionStored _ r) = (\<not> isl r)"
| "resolved _ = False"

fun confirms :: "cli_effect \<Rightarrow> bool" where
  "confirms (CancelTried _ _ e) = confirmed e"
| "confirms _ = False"

definition started_unresolved :: "cli_effect list \<Rightarrow> Receipt \<Rightarrow> bool" where
  "started_unresolved l receipt \<longleftrightarrow> list_ex (opened receipt) l \<or>
     list_ex unreadable l \<and> (\<exists>job. list_ex (shows_job job) l \<and> RecoveryReceipt job = Inr receipt)"

definition known_inert :: "cli_effect list \<Rightarrow> bool" where
  "known_inert l \<longleftrightarrow> list_ex resolved l \<or> list_ex absent l \<and> list_ex confirms l"

text \<open>The job was seen, and its record had no power action to resolve.\<close>

fun shows_idle :: "cli_effect \<Rightarrow> bool" where
  "shows_idle (JobRead (Inr j)) = (\<not> HasUnresolvedPowerAction j)"
| "shows_idle _ = False"

text \<open>
  What the log before a step has to show. The updates that close a job are all there: the ones after a settlement, the
  fence of the worker, and \<open>cli.cancel\<close>, which is the only step of its command.
\<close>

fun step_ok :: "cli_effect list \<Rightarrow> cli_effect \<Rightarrow> bool" where
  "step_ok pre (CancelTried receipt _ _) = (lock_held pre \<and> started_unresolved pre receipt)"
| "step_ok pre (ResolutionStored outcome _) =
     (lock_held pre \<and> (outcome = ''no_action'' \<and> list_ex uncalled pre \<or> outcome = ''cancelled'' \<and> list_ex confirms pre))"
| "step_ok pre (JobChanged name _) =
     (if name \<in> {''cli.cancel.settled'', ''cancel_worker.cancel''} then lock_held pre \<and> known_inert pre
      else if name = ''cancel_worker.fence'' then lock_held pre \<and> list_ex shows_idle pre
      else if name = ''cli.cancel'' then pre = []
      else name \<in> {''cli.cancel.requested'', ''cancel_worker.lock_unavailable'', ''cancel_worker.receipt_unavailable''})"
| "step_ok pre _ = True"

fun guarded :: "cli_effect list \<Rightarrow> cli_effect list \<Rightarrow> bool" where
  "guarded pre [] = True"
| "guarded pre (e # es) = (step_ok pre e \<and> guarded (pre @ [e]) es)"

lemma guarded_append [simp]: "guarded pre (xs @ ys) = (guarded pre xs \<and> guarded (pre @ xs) ys)"
  by (induction xs arbitrary: pre) simp_all

text \<open>A program after the log \<open>pre\<close>: its steps are allowed, and its answer and the log satisfy \<open>Q\<close>.\<close>

definition secure :: "cli_effect list \<Rightarrow> 'a pcli \<Rightarrow> ('a \<Rightarrow> cli_effect list \<Rightarrow> bool) \<Rightarrow> bool" where
  "secure pre m Q \<longleftrightarrow> emits m (\<lambda>r l. guarded pre l \<and> Q r (pre @ l))"

named_theorems secure_rules

lemma secure_mono: "secure pre m Q \<Longrightarrow> (\<And>r l. Q r l \<Longrightarrow> P r l) \<Longrightarrow> secure pre m P"
  unfolding secure_def by (erule emits_mono) auto

lemma secure_bind:
  assumes "secure pre m R" "\<And>r l. R r l \<Longrightarrow> secure l (f r) Q"
  shows "secure pre (m \<bind> f) Q"
  unfolding secure_def
proof (rule emits_bind, rule emits_mono [OF assms(1) [unfolded secure_def]])
  fix r l
  assume "guarded pre l \<and> R r (pre @ l)"
  then show "emits (f r) (\<lambda>x l'. guarded pre (l @ l') \<and> Q x (pre @ l @ l'))"
    using assms(2) [of r "pre @ l"] by (auto simp: secure_def elim!: emits_mono)
qed

lemma secure_parts [secure_rules]:
  "Q r pre \<Longrightarrow> secure pre (ret r) Q"
  "(b \<Longrightarrow> secure pre m Q) \<Longrightarrow> (\<not> b \<Longrightarrow> secure pre k Q) \<Longrightarrow> secure pre (if b then m else k) Q"
  "(x = None \<Longrightarrow> secure pre m Q) \<Longrightarrow> (\<And>y. x = Some y \<Longrightarrow> secure pre (k' y) Q) \<Longrightarrow> secure pre (case x of None \<Rightarrow> m | Some y \<Rightarrow> k' y) Q"
  "(\<And>e. z = Inl e \<Longrightarrow> secure pre (m' e) Q) \<Longrightarrow> (\<And>y. z = Inr y \<Longrightarrow> secure pre (k'' y) Q) \<Longrightarrow>
     secure pre (case z of Inl e \<Rightarrow> m' e | Inr y \<Rightarrow> k'' y) Q"
  "(\<And>a b. p = (a, b) \<Longrightarrow> secure pre (h a b) Q) \<Longrightarrow> secure pre (case p of (a, b) \<Rightarrow> h a b) Q"
  "secure pre (g v) Q \<Longrightarrow> secure pre (let y = v in g y) Q"
  by (auto simp: secure_def split: option.split sum.split prod.split)

lemma secure_calls:
  "(\<And>r. step_ok pre (ev r) \<and> Q r (pre @ [ev r])) \<Longrightarrow> secure pre (ask ev f) Q"
  "(\<And>r. step_ok pre (ev r) \<and> Q r (pre @ [ev r])) \<Longrightarrow> secure pre (noted ev m) Q"
  "(\<And>r. Q r pre) \<Longrightarrow> secure pre (store m) Q"
  unfolding secure_def by (auto intro!: emits_ask emits_noted emits_store)

lemma secure_ask_then [secure_rules]:
  "(\<And>r. step_ok pre (ev r) \<and> secure (pre @ [ev r]) (k r) Q) \<Longrightarrow> secure pre (ask ev f \<bind> k) Q"
  by (rule secure_bind [where R = "\<lambda>r l. l = pre @ [ev r]"]) (auto intro: secure_calls)

lemma secure_noted_then [secure_rules]:
  "(\<And>r. step_ok pre (ev r) \<and> secure (pre @ [ev r]) (k r) Q) \<Longrightarrow> secure pre (noted ev m \<bind> k) Q"
  by (rule secure_bind [where R = "\<lambda>r l. l = pre @ [ev r]"]) (auto intro: secure_calls)

lemma secure_store_then [secure_rules]: "(\<And>r. secure pre (k r) Q) \<Longrightarrow> secure pre (store m \<bind> k) Q"
  by (rule secure_bind [where R = "\<lambda>r l. l = pre"]) (auto intro: secure_calls)

subsection \<open>Settling\<close>

text \<open>After a settlement without an error the action is known to be inert, and the lock is still held.\<close>

abbreviation settled_log :: "pluginPowerSettlement \<times> err option \<Rightarrow> cli_effect list \<Rightarrow> bool" where
  "settled_log \<equiv> \<lambda>(_, e) l. lock_held l \<and> (e = None \<longrightarrow> known_inert l)"

lemma confirmed_None [simp]: "confirmed None"
  by (simp add: confirmed_def)

lemmas log_simps = lock_held_def known_inert_def started_unresolved_def

lemma secure_receipt:
  assumes "lock_held pre" "started_unresolved pre receipt"
    and "\<And>e. authorityErr = Some e \<Longrightarrow> errors_Is e ErrNotExist \<Longrightarrow> list_ex absent pre"
  shows "secure pre (settle_receipt d job reason receipt authorityErr) settled_log"
  unfolding settle_receipt_def try_cancel_def store_resolution_def bind_assoc
  by (intro secure_rules conjI) (use assms in \<open>auto simp: log_simps split: sum.splits if_splits\<close>)

lemma secure_settle:
  assumes "lock_held pre" "list_ex (shows_job job) pre"
  shows "secure pre (settlePluginPowerLocked d job reason) settled_log"
  unfolding settlePluginPowerLocked_def read_authority_def store_resolution_def bind_assoc
  by (intro secure_rules secure_receipt conjI) (use assms in \<open>auto simp: log_simps split: sum.splits\<close>)

lemma secure_persist:
  assumes "lock_held pre" "known_inert pre" "name \<in> {''cli.cancel.settled'', ''cancel_worker.cancel''}"
  shows "secure pre (persistPluginPowerSettlement jobID name reason settlement) (\<lambda>_ l. lock_held l \<and> known_inert l)"
  unfolding persistPluginPowerSettlement_def change_job_def
  by (intro secure_rules conjI) (use assms in \<open>auto simp: log_simps\<close>)






subsection \<open>The worker\<close>

text \<open>The worker ends well.\<close>

definition ended_well :: "cli_end \<Rightarrow> bool" where
  "ended_well r \<longleftrightarrow> fst r = 0"

lemma ended_simps [simp]:
  "ended_well (cli_ok text)" "\<not> ended_well (usageError e)" "ended_well (runtimeError code text e) = (code = 0)"
  "ended_well (code, text, x) = (code = 0)"
  by (simp_all add: ended_well_def cli_ok_def usageError_def runtimeError_def)

text \<open>The lock is held, or the worker ends with an error.\<close>

abbreviation lock_post :: "cli_end option \<Rightarrow> cli_effect list \<Rightarrow> bool" where
  "lock_post \<equiv> \<lambda>r l. case r of None \<Rightarrow> lock_held l | Some e \<Rightarrow> \<not> ended_well e"

lemma secure_retry_lock:
  "\<not> list_ex releases pre \<Longrightarrow> secure pre (retry_lock_until n d until e) lock_post"
proof (induction n arbitrary: pre e)
  case (Suc n)
  show ?case
    unfolding retry_lock_until.simps try_lock_def
    by (intro secure_rules conjI Suc.IH) (use Suc.prems in \<open>auto simp: log_simps\<close>)
qed (simp add: secure_parts)

lemma secure_note_lock:
  "\<not> list_ex releases pre \<Longrightarrow> secure pre (note_lock_held jobID bindingID reason) (\<lambda>_ l. \<not> list_ex releases l)"
  unfolding note_lock_held_def change_job_def Let_def
  by (intro secure_rules conjI secure_bind [where m = "case_sum f g x" and R = "\<lambda>_ l. \<not> list_ex releases l" for f g x]) auto

lemma secure_worker_lock:
  "\<not> list_ex releases pre \<Longrightarrow> secure pre (worker_lock d jobID bindingID reason) lock_post"
  unfolding worker_lock_def try_lock_def
  by (intro secure_rules conjI secure_bind [OF secure_note_lock] secure_retry_lock) (auto simp: log_simps)

text \<open>The job was seen closed with nothing left to resolve, or its action is known to be inert.\<close>

fun shows_fenced :: "cli_effect \<Rightarrow> bool" where
  "shows_fenced (JobRead (Inr j)) = fenced j"
| "shows_fenced (JobChanged _ (j, _, e)) = (e = None \<and> fenced j)"
| "shows_fenced _ = False"

definition powerless :: "cli_effect list \<Rightarrow> bool" where
  "powerless l \<longleftrightarrow> list_ex shows_fenced l \<or> known_inert l"

abbreviation worker_post :: "cli_end \<Rightarrow> cli_effect list \<Rightarrow> bool" where
  "worker_post \<equiv> \<lambda>r l. ended_well r \<longrightarrow> powerless l"

lemma secure_complete: "powerless pre \<Longrightarrow> secure pre (complete_revocations jobID bindingID) worker_post"
  unfolding complete_revocations_def by (intro secure_rules) auto

lemma secure_records: "lock_held pre \<Longrightarrow> secure pre (worker_records d jobID bindingID reason e) worker_post"
  unfolding worker_records_def read_authority_def store_resolution_def try_cancel_def bind_assoc Let_def
  by (intro secure_rules conjI) (auto simp: log_simps powerless_def split: sum.splits)

lemma secure_fence:
  "lock_held pre \<Longrightarrow> list_ex shows_idle pre \<Longrightarrow> secure pre (persistPreIntentRevocationFence n d jobID bindingID reason expiresAt)
     (\<lambda>r l. r = Some None \<longrightarrow> powerless l)"
proof (induction n arbitrary: pre expiresAt)
  case (Suc n)
  show ?case
    unfolding persistPreIntentRevocationFence.simps change_job_def Let_def
    by (intro secure_rules conjI Suc.IH) (use Suc.prems in \<open>auto simp: log_simps powerless_def split: sum.splits\<close>)
qed (simp add: secure_parts)

lemma secure_worker_settles:
  assumes "lock_held pre" "list_ex (shows_job job) pre"
  shows "secure pre (worker_settles d job bindingID reason) worker_post"
  unfolding worker_settles_def change_job_def
  by (intro secure_rules conjI secure_bind [OF secure_settle] secure_bind [OF secure_persist] secure_mono [OF secure_complete])
     (use assms in \<open>auto simp: powerless_def\<close>)

lemma secure_worker:
  assumes "lock_held pre"
  shows "secure pre (worker_locked fuel d jobID bindingID reason) (\<lambda>r l. case r of None \<Rightarrow> True | Some r \<Rightarrow> worker_post r l)"
  unfolding worker_locked_def
  by (intro secure_rules conjI secure_bind [OF secure_records] secure_bind [OF secure_fence] secure_bind [OF secure_complete]
      secure_bind [OF secure_worker_settles])
     (use assms in \<open>auto simp: log_simps powerless_def fenced_def\<close>)

subsection \<open>The commands\<close>

lemma three_arguments:
  "(\<exists>i b r. args = [i, b, r]) \<or> cancelWorkerCommand fuel d args =
     ret (Some (usageError (Err ''cancel-worker requires job id, binding id, and reason'')))"
  by (auto simp: cancelWorkerCommand_def split: list.split)

lemma secure_command:
  "secure [] (cancelWorkerCommand fuel d args) (\<lambda>r l. case r of None \<Rightarrow> True | Some r \<Rightarrow> worker_post r l)"
proof -
  have fence: "secure pre (release_lock d \<bind> (\<lambda>_. ret r)) (\<lambda>r l. case r of None \<Rightarrow> True | Some r \<Rightarrow> worker_post r l)"
    if "case r of None \<Rightarrow> True | Some r \<Rightarrow> worker_post r pre" for r pre
    unfolding release_lock_def
    by (intro secure_rules conjI) (use that in \<open>auto simp: powerless_def known_inert_def split: option.splits\<close>)
  consider (three) i b r where "args = [i, b, r]"
    | (other) "cancelWorkerCommand fuel d args = ret (Some (usageError (Err ''cancel-worker requires job id, binding id, and reason'')))"
    using three_arguments by blast
  then show ?thesis
  proof cases
    case three
    show ?thesis
      unfolding three cancelWorkerCommand_def list.case
      by (intro secure_rules secure_bind [OF secure_worker_lock] secure_bind [OF secure_worker] fence) auto
  qed (simp add: secure_parts)
qed









text \<open>
  The cancel worker ends well only when it has seen the record of the job closed with no power action to resolve, or
  knows that the action is inert, from a stored resolution or from the backend. What it has seen is the record: a job
  that was closed before its countdown was recorded looks the same (\<open>cli_cancel_misses_countdown\<close>).
\<close>

definition worker_honest :: "cli_end option \<Rightarrow> cli_effect list \<Rightarrow> bool" where
  "worker_honest r l \<longleftrightarrow> (case r of None \<Rightarrow> True | Some e \<Rightarrow> fst e \<noteq> 0 \<or> powerless l)"

lemma worker_success_seen: "emits (cancelWorkerCommand fuel d args) worker_honest"
  by (rule emits_mono [OF secure_command [unfolded secure_def]]) (auto simp: worker_honest_def ended_well_def split: option.splits)

subsection \<open>Terminal jobs\<close>

lemma keeps_write_record: "keeps (holds i K) (writeRecoveryCreateOnce get put enc j x)"
proof -
  have "holds i K (change_files j f d) = holds i K d" for f :: "recovery_files \<Rightarrow> recovery_files" and d
    by (simp add: holds_def job_file_def change_files_def)
  then show ?thesis
    unfolding writeRecoveryCreateOnce_def by (intro keeps_rules) auto
qed

lemma keeps_resolution: "keeps (holds i K) (PersistRecoveryResolution j outcome reason result t)"
  unfolding PersistRecoveryResolution_def by (intro keeps_rules keeps_write_record)

lemma keeps_pending_revocations: "keeps (holds i K) (CompletePendingRevocations j b)"
proof -
  have "keeps (holds i K) (complete_entries j b es)" for es
    by (induction j b es rule: complete_entries.induct) (auto intro!: keeps_rules)
  then show ?thesis
    unfolding CompletePendingRevocations_def by (intro keeps_rules)
qed

lemma retainsD:
  "steps (retains P) m \<Longrightarrow> stable P (pw_world s) \<Longrightarrow> P (disk (pw_world s)) \<Longrightarrow> wp m (\<lambda>_ s'. P (disk (pw_world s'))) s"
  by (rule wp_mono [OF stepsD [where R = "retains P"]]) (auto simp: retains_def)

locale kept_by_cli = kept +
  assumes cli_settled: "K j \<Longrightarrow> K (snd (settlement_rule r s j now))"
    and cli_requested: "K j \<Longrightarrow> K (snd (cli_request_rule j now))"
    and cli_cancelled: "K j \<Longrightarrow> K (snd (cli_cancel_rule j now))"
    and cli_waiting: "K j \<Longrightarrow> K (snd (lock_unavailable_rule b r j now))"
    and cli_fenced: "K j \<Longrightarrow> K (snd (fence_rule b r j now))"
    and cli_unconfirmed: "K j \<Longrightarrow> K (snd (unconfirmed_rule r s j now))"
    and cli_reconciled: "K j \<Longrightarrow> K (snd (reconcile_rule rc x j now))"
begin

lemma change_retains [quiet_rules]:
  "(\<And>j now. K j \<Longrightarrow> K (snd (rule j now))) \<Longrightarrow> steps (retains (holds i K)) (change_job i' name rule)"
  unfolding change_job_def by (intro quiet_rules keeps_UpdateJob)

lemma resolution_retains [quiet_rules]:
  "steps (retains (holds i K)) (store_resolution jobID outcome reason result)"
  "steps (retains (holds i K)) (read_authority jobID)" "steps (retains (holds i K)) (try_cancel d receipt)"
  "steps (retains (holds i K)) (try_lock d)" "steps (retains (holds i K)) (release_lock d)"
  unfolding store_resolution_def read_authority_def try_cancel_def try_lock_def release_lock_def
  by (intro quiet_rules retained.steps_ret retained.steps_bind keeps_rules keeps_resolution)+

lemma settle_retains [quiet_rules]: "steps (retains (holds i K)) (settlePluginPowerLocked d job reason)"
  unfolding settlePluginPowerLocked_def settle_receipt_def
  by (intro quiet_rules retained.steps_ret retained.steps_bind)

lemma persist_retains [quiet_rules]:
  "steps (retains (holds i K)) (persistPluginPowerSettlement jobID name reason settlement)"
  unfolding persistPluginPowerSettlement_def
  by (intro quiet_rules retained.steps_ret retained.steps_bind change_retains cli_settled)

lemma cli_cancel_retains: "steps (retains (holds i K)) (cancelPluginJob d job)"
  unfolding cancelPluginJob_def cancel_unresolved_def
  by (intro quiet_rules retained.steps_ret retained.steps_bind change_retains cli_cancelled cli_requested)

lemma recovery_retains: "steps (retains (holds i K)) (cancelPluginRecoveryAuthority d a)"
  unfolding cancelPluginRecoveryAuthority_def recover_authority_def
  by (intro quiet_rules retained.steps_ret retained.steps_bind)

lemma reconcile_retains: "steps (retains (holds i K)) (reconcilePluginJob d job)"
  unfolding reconcilePluginJob_def
  by (intro quiet_rules retained.steps_ret retained.steps_bind change_retains cli_reconciled keeps_rules)

lemma retry_retains [quiet_rules]: "steps (retains (holds i K)) (retry_lock_until n d until e)"
  by (induction n arbitrary: e) (auto intro!: quiet_rules retained.steps_ret retained.steps_bind keeps_rules)

lemma fence_retains [quiet_rules]:
  "steps (retains (holds i K)) (persistPreIntentRevocationFence n d jobID bindingID reason expiresAt)"
  by (induction n arbitrary: expiresAt)
     (auto intro!: quiet_rules retained.steps_ret retained.steps_bind change_retains cli_fenced keeps_rules)

lemma worker_retains: "steps (retains (holds i K)) (cancelWorkerCommand fuel d args)"
proof -
  have "steps (retains (holds i K)) (worker_lock d a b r)" for a b r
    unfolding worker_lock_def note_lock_held_def
    by (intro quiet_rules retained.steps_ret retained.steps_bind change_retains cli_waiting keeps_rules)
  moreover have "steps (retains (holds i K)) (worker_locked fuel d a b r)" for a b r
    unfolding worker_locked_def worker_records_def worker_settles_def complete_revocations_def
    by (intro quiet_rules retained.steps_ret retained.steps_bind change_retains cli_unconfirmed keeps_rules keeps_pending_revocations)
  ultimately show ?thesis
    unfolding cancelWorkerCommand_def
    by (auto split: list.split option.split intro!: quiet_rules retained.steps_ret retained.steps_bind)
qed

end

interpretation terminal_cli: kept_by_cli "\<lambda>j. IsTerminal (State j)"
proof (unfold_locales, goal_cases)
  case (7 j rc x now)
  then show ?case
    by (auto simp: reconcile_rule_def Let_def split: ReconcileState.split sum.splits)
qed (auto simp: settlement_rule_def cli_request_rule_def cli_cancel_rule_def lock_unavailable_rule_def fence_rule_def
    unconfirmed_rule_def bump_def)

text \<open>
  C16: No command brings a terminal job back: whatever \<open>cancel\<close>, the recovery without a job, the cancel worker or
  \<open>reconcile\<close> find, and however their calls end, a job whose file holds a terminal state holds a terminal state
  afterwards, provided that the other processes leave it terminal as well.
\<close>

theorem commands_keep_terminal:
  assumes "stable (holds i (\<lambda>j. IsTerminal (State j))) (pw_world s)"
    and "holds i (\<lambda>j. IsTerminal (State j)) (disk (pw_world s))"
  shows "wp (cancelPluginJob d job) (\<lambda>_ s'. holds i (\<lambda>j. IsTerminal (State j)) (disk (pw_world s'))) s \<and>
    wp (cancelPluginRecoveryAuthority d a) (\<lambda>_ s'. holds i (\<lambda>j. IsTerminal (State j)) (disk (pw_world s'))) s \<and>
    wp (cancelWorkerCommand fuel d args) (\<lambda>_ s'. holds i (\<lambda>j. IsTerminal (State j)) (disk (pw_world s'))) s \<and>
    wp (reconcilePluginJob d job) (\<lambda>_ s'. holds i (\<lambda>j. IsTerminal (State j)) (disk (pw_world s'))) s"
  using retainsD [OF terminal_cli.cli_cancel_retains assms] retainsD [OF terminal_cli.recovery_retains assms]
    retainsD [OF terminal_cli.worker_retains assms] retainsD [OF terminal_cli.reconcile_retains assms]
  by blast

text \<open>Parameters for the examples: a backend that cancels everything, and a lock that is always free.\<close>

definition easy_deps :: cli_deps where
  "easy_deps = \<lparr>dp_Lock = \<lambda>_. None, dp_Release = \<lambda>_. None,
     dp_Cancel = \<lambda>_ _. (\<lparr>cr_Cancelled = True, cr_NoActionInProgress = False, cr_Scope = CancelScopeJob, cr_ResultCode = 0, cr_ResultSummary = []\<rparr>, None),
     dp_Reconcile = \<lambda>_ _. (\<lparr>rr_State = ReconcileConfirmed, rr_CheckedAt = 5, rr_CurrentBootID = [], rr_Evidence = []\<rparr>, None),
     dp_Wait = \<lambda>_. None\<rparr>"

definition sample_authority :: RecoveryAuthority where
  "sample_authority = \<lparr>ra_Envelope = new_envelope stopped_job sample_receipt 20, ra_Call = None, ra_Receipt = None, ra_Resolution = None\<rparr>"

theorem commands_keep_terminal_witness:
  "wp (cancelPluginJob easy_deps cancelled_job) (\<lambda>_ s'. holds (id_of CHR ''a'') (\<lambda>j. IsTerminal (State j)) (disk (pw_world s')))
     \<lparr>pw_world = quiet_world (put_job cancelled_job empty_disk), pw_log = []\<rparr> \<and>
   wp (cancelPluginRecoveryAuthority easy_deps sample_authority)
     (\<lambda>_ s'. holds (id_of CHR ''a'') (\<lambda>j. IsTerminal (State j)) (disk (pw_world s')))
     \<lparr>pw_world = quiet_world (put_job cancelled_job empty_disk), pw_log = []\<rparr> \<and>
   wp (cancelWorkerCommand 3 easy_deps [id_of CHR ''a'', id_of CHR ''a'', ''reason''])
     (\<lambda>_ s'. holds (id_of CHR ''a'') (\<lambda>j. IsTerminal (State j)) (disk (pw_world s')))
     \<lparr>pw_world = quiet_world (put_job cancelled_job empty_disk), pw_log = []\<rparr> \<and>
   wp (reconcilePluginJob easy_deps cancelled_job) (\<lambda>_ s'. holds (id_of CHR ''a'') (\<lambda>j. IsTerminal (State j)) (disk (pw_world s')))
     \<lparr>pw_world = quiet_world (put_job cancelled_job empty_disk), pw_log = []\<rparr>"
  by (rule commands_keep_terminal) (simp_all add: holds_def cancelled_job_def)

subsection \<open>The countdown that starts in between\<close>

text \<open>
  The command line has the gap of the tool (\<open>Cancel_Laws\<close>): a job that was loaded without an action is closed
  without asking the backend, also when the action is scheduled by then.
\<close>

lemma cli_cancel_valid:
  assumes "Validate j = None" "State j = StateActionScheduled" "TriggerPolicy j \<noteq> TriggerAfterAllStop" "can_bump j" "now \<noteq> 0"
  shows "Validate ((snd (cli_cancel_rule j now))\<lparr>UpdatedAt := now\<rparr>) = None"
proof (rule Validate_NoneI)
  note valid = Validate_NoneD [OF assms(1)]
  have closed: "snd (cli_cancel_rule j now) = j\<lparr>Generation := Generation j + 1, State := StateCancelled,
      ReasonCode := ''cancelled_by_user'', CancelRequested := True, CancelReason := ''cli_cancelled_by_user'',
      JobCancelResult := None, CompletionStatus := [], CompletionEvidenceHash := [], ReadyTurnID := [], StopTurnID := [],
      FinishObserved := False\<rparr>"
    using assms(2) by (simp add: cli_cancel_rule_def bump_def)
  have "TrimSpace ''cli_cancelled_by_user'' \<noteq> []"
    by (rule TrimSpace_lower) (simp add: is_lower_def char_between_def char_code_def)
  then show "job_evidence ((snd (cli_cancel_rule j now))\<lparr>UpdatedAt := now\<rparr>)"
    using valid(4) assms by (simp add: closed job_evidence_def)
  show "job_fixed ((snd (cli_cancel_rule j now))\<lparr>UpdatedAt := now\<rparr>)"
    using valid(1) by (simp add: closed)
  show "job_clock ((snd (cli_cancel_rule j now))\<lparr>UpdatedAt := now\<rparr>)"
    using valid(2) assms by (simp add: closed job_clock_def state_known_def can_bump_def)
  show "job_binding ((snd (cli_cancel_rule j now))\<lparr>UpdatedAt := now\<rparr>)"
    using valid(3) assms by (simp add: closed job_binding_def)
  show "job_keys ((snd (cli_cancel_rule j now))\<lparr>UpdatedAt := now\<rparr>)"
    using valid(5) assms by (simp add: closed job_keys_def)
qed

lemma cli_cancel_misses_countdown:
  assumes "JobID before = i" "\<not> IsTerminal (State before)" "\<not> HasUnresolvedPowerAction before"
    and "loadPath d i = Inr scheduled" "State scheduled = StateActionScheduled"
    and "TriggerPolicy scheduled \<noteq> TriggerAfterAllStop" "can_bump scheduled"
  shows "wp (cancelPluginJob deps before)
     (\<lambda>r s'. fst r = 0 \<and> \<not> list_ex confirms (pw_log s') \<and>
        (\<exists>j. loadPath (disk (pw_world s')) i = Inr j \<and> State j = StateCancelled \<and> PowerReceipt j = PowerReceipt scheduled))
     \<lparr>pw_world = quiet_world d, pw_log = []\<rparr>"
proof -
  have id: "ValidateJobID i = None" "JobID scheduled = i" "Validate scheduled = None"
    using loadPath_valid [OF assms(4)] by (auto dest!: Validate_NoneD(1) simp: job_fixed_def)
  let ?off = "\<lambda>now. (snd (cli_cancel_rule scheduled now))\<lparr>UpdatedAt := now\<rparr>"
  have off: "State (?off now) = StateCancelled" "JobID (?off now) = i" "PowerReceipt (?off now) = PowerReceipt scheduled" for now
    using assms(5) id by (simp_all add: cli_cancel_rule_def bump_def)
  have valid: "0 < now \<Longrightarrow> Validate (?off now) = None" for now
    by (rule cli_cancel_valid) (use id assms in auto)
  have loads: "0 < now \<Longrightarrow> loadPath (append_event e (put_job_at i (?off now) x)) i = Inr (?off now)" for now e x
    using loadPath_put [OF valid] off(2) by (metis loadPath_frame(1))
  have policy: "TriggerPolicy (snd (cli_cancel_rule scheduled now)) \<noteq> TriggerAfterAllStop" for now
    using assms(5,6) by (simp add: cli_cancel_rule_def bump_def)
  have rule_result: "cli_cancel_rule scheduled now = (None, snd (cli_cancel_rule scheduled now))" for now
    by (simp add: cli_cancel_rule_def)
  have world: "swift (quiet_world d)" "others (quiet_world d) k x = x" "clock (quiet_world d) k = 20 + int k" "tick (quiet_world d) = 0" for k x
    by (simp_all add: swift_def quiet_world_def)
  have "State before \<noteq> StateCancelled" using assms(2) by auto
  then show ?thesis
    unfolding cancelPluginJob_def change_job_def noted_def
    using assms(1-3)
    by (simp, intro swift_update [where job = scheduled and changed = "\<lambda>k. snd (cli_cancel_rule scheduled (clock (quiet_world d) k))"])
       (use id assms(4) policy rule_result valid off loads world in \<open>auto simp: cli_ok_def\<close>)
qed

end
