(* ===== verification/Cli_Classic.thy ===== *)
theory Cli_Classic
  imports Cli_Plugin Classic_Store
begin

text \<open>
  The foreground halves of \<open>internal/cli/cancel.go\<close> and \<open>reconcile.go\<close>, and how the commands pick the job that they are about. The
  two stores are loaded one after the other, so that the choice is a function of what was loaded.
\<close>

subsection \<open>The receipt to cancel\<close>

text \<open>The receipt of the job, or the one that its recorded intent gives.\<close>

definition intent_receipt :: "ClassicJob \<Rightarrow> Receipt" where
  "intent_receipt job =
     (let requestedAt = (case cj_ActionIntentAt job of None \<Rightarrow> cj_CreatedAt job | Some t \<Rightarrow> t);
          deadline = (case cj_ScheduledFor job of None \<Rightarrow> requestedAt + cj_DelaySeconds job * Second | Some t \<Rightarrow> t);
          (platformName, backendID, cancelScope) =
            (case cj_PowerCapabilities job of
               None \<Rightarrow> (''windows'', ''windows-shutdown-exe'', CancelScopeSystemGlobal)
             | Some c \<Rightarrow> (cap_Platform c, cap_BackendID c, cap_CancelScope c));
          externalToken = (if platformName = ''linux-systemd'' \<and> backendID = ''linux-systemd-helper''
            then SystemdUnitToken (cj_JobID job) else [])
      in SealReceipt (zero_Receipt\<lparr>rcp_SchemaVersion := ReceiptSchemaVersion, rcp_Platform := platformName,
           rcp_BackendID := backendID, rcp_BackendVersion := ''intent-recovery'', rcp_JobID := cj_JobID job,
           rcp_Action := cj_Action job, rcp_RequestedAt := requestedAt, rcp_ScheduledAt := requestedAt,
           rcp_Deadline := deadline, rcp_CancelScope := cancelScope, rcp_ExternalToken := externalToken,
           rcp_ResultSummary := ''reconstructed from unresolved action intent''\<rparr>))"

definition cancellationReceipt :: "ClassicJob \<Rightarrow> Receipt" where
  "cancellationReceipt job = (case cj_PowerReceipt job of Some r \<Rightarrow> r | None \<Rightarrow> intent_receipt job)"

subsection \<open>Cancelling a foreground job\<close>

datatype classic_effect =
    ClassicRead "err + ClassicJob"
  | CancelSentFor Receipt CancelResult "err option"
  | ReconcileSentFor Receipt ReconcileResult "err option"
  | ClassicSaved ClassicJob "err option"

type_synonym classic_cli_world = "(classic_disk, classic_effect) traced"
type_synonym 'a ccli = "(classic_cli_world, 'a) state"

definition cancelled_job_of :: "ClassicJob \<Rightarrow> CancelResult \<Rightarrow> time \<Rightarrow> ClassicJob" where
  "cancelled_job_of job result now = job\<lparr>cj_CancelResult := Some result, cj_State := ClassicCancelled, cj_CancelRequested := True,
     cj_ReasonCode := ''cancelled_by_user'', cj_UpdatedAt := now\<rparr>"

definition cli_event :: "ClassicState \<Rightarrow> ClassicJob \<Rightarrow> time \<Rightarrow> ClassicEvent" where
  "cli_event old job t = \<lparr>ce_Timestamp = t, ce_JobID = cj_JobID job, ce_OldState = Some old, ce_NewState = cj_State job,
     ce_Reason = cj_ReasonCode job, ce_ExitCode = None, ce_Duration = 0\<rparr>"

definition save_cancelled :: "ClassicJob \<Rightarrow> CancelResult \<Rightarrow> err option \<Rightarrow> cli_end ccli" where
  "save_cancelled job result cancelErr =
     (case Transition (cj_State job) ClassicCancelled of
        Some e \<Rightarrow> ret (runtimeError 17 ''transition cancelled job'' e)
      | None \<Rightarrow> do {
          now \<leftarrow> store time_Now;
          let cancelled = cancelled_job_of job result now;
          e \<leftarrow> noted (ClassicSaved cancelled) (classic_Save cancelled);
          case e of
            Some x \<Rightarrow> ret (runtimeError 17 ''persist cancelled job'' x)
          | None \<Rightarrow> do {
              t \<leftarrow> store time_Now;
              store (AppendEvent (cli_event (cj_State job) cancelled t));
              ret (cli_ok (if err_is cancelErr ErrNoShutdownInProgress \<or> cr_NoActionInProgress result
                then ''[DoneThen] Job %s cancelled; the backend reported no shutdown currently in progress.''
                else ''[DoneThen] Job %s cancelled and the shutdown countdown was aborted (scope=%s).'')) } })"

definition cancelSupervisorJob :: "cli_deps \<Rightarrow> ClassicJob \<Rightarrow> cli_end ccli" where
  "cancelSupervisorJob d job =
     (if cj_State job = ClassicCancelled then ret (cli_ok ''[DoneThen] Job %s is already cancelled.'')
      else if classic_IsTerminal (cj_State job) then
        ret (cli_ok ''[DoneThen] Job %s is already in terminal state %s; no action is active.'')
      else do {
        e \<leftarrow> store (RequestCancel (cj_JobID job));
        case e of
          Some x \<Rightarrow> ret (runtimeError 17 ''record cancellation'' x)
        | None \<Rightarrow> do {
            l \<leftarrow> noted ClassicRead (classic_Load (cj_JobID job));
            case l of
              Inl x \<Rightarrow> ret (runtimeError 17 ''reload job after cancellation request'' x)
            | Inr job \<Rightarrow>
                if \<not> IsUnresolvedPowerState (cj_State job) then
                  ret (cli_ok ''[DoneThen] Job %s disarmed. Its Codex process is not terminated.'')
                else do {
                  (result, cancelErr) \<leftarrow> ask (\<lambda>(x, e). CancelSentFor (cancellationReceipt job) x e)
                    (\<lambda>n. dp_Cancel d n (cancellationReceipt job));
                  if \<not> confirmed cancelErr then
                    ret (14, ''[DoneThen] Cancellation recorded, but the power backend could not cancel the countdown: %v.'', cancelErr)
                  else if cj_State job = ClassicActionIntentRecorded then
                    ret (cli_ok ''[DoneThen] Job %s has a persisted cancellation request at an unresolved scheduler boundary; retry status/cancel until the coordinator settles it.'')
                  else save_cancelled job result cancelErr } } })"

subsection \<open>Reconciling a foreground job\<close>

text \<open>The state and the reason of the answer; an error for an answer that the machine does not allow.\<close>

definition reconciled_state :: "ClassicJob \<Rightarrow> Receipt \<Rightarrow> ReconcileResult \<Rightarrow> err + ClassicState \<times> string" where
  "reconciled_state job receipt result =
     (let reason = reconcile_string (rr_State result); s = cj_State job in
      case rr_State result of
        ReconcileScheduled \<Rightarrow> Inr (s, reason)
      | ReconcileUnverified \<Rightarrow>
          if IsUnresolvedPowerState s \<and> rr_CheckedAt result < rcp_Deadline receipt then
            Inr (s, ''execution_unverified_before_deadline'')
          else if IsUnresolvedPowerState s then
            (case Transition s ClassicActionExecutionUnverified of
               Some e \<Rightarrow> Inl e | None \<Rightarrow> Inr (ClassicActionExecutionUnverified, reason))
          else Inr (s, reason)
      | ReconcileConfirmed \<Rightarrow>
          if s \<noteq> ClassicActionExecutedConfirmed then
            (case Transition s ClassicActionExecutedConfirmed of
               Some e \<Rightarrow> Inl e | None \<Rightarrow> Inr (ClassicActionExecutedConfirmed, reason))
          else Inr (s, reason)
      | ReconcileOther _ \<Rightarrow> Inl (Err ''backend returned unknown reconcile state %q''))"

definition reconciled_job :: "ClassicJob \<Rightarrow> Receipt \<Rightarrow> ReconcileResult \<Rightarrow> ClassicState \<Rightarrow> string \<Rightarrow> ClassicJob" where
  "reconciled_job job receipt result s reason = job\<lparr>cj_State := s,
     cj_PowerReceipt := (case cj_PowerReceipt job of None \<Rightarrow> Some receipt | Some r \<Rightarrow> Some r),
     cj_ScheduledFor := (case cj_ScheduledFor job of None \<Rightarrow> Some (rcp_Deadline receipt) | Some t \<Rightarrow> Some t),
     cj_ReconcileResult := Some result, cj_ReasonCode := reason, cj_UpdatedAt := rr_CheckedAt result\<rparr>"

definition save_reconciled :: "ClassicJob \<Rightarrow> ClassicJob \<Rightarrow> cli_end ccli" where
  "save_reconciled old job = do {
     e \<leftarrow> noted (ClassicSaved job) (classic_Save job);
     case e of
       Some x \<Rightarrow> ret (runtimeError 17 ''persist reconciliation'' x)
     | None \<Rightarrow> do {
         (if cj_State old \<noteq> cj_State job then store (AppendEvent (cli_event (cj_State old) job (cj_UpdatedAt job))) else ret None);
         ret (cli_ok ''[DoneThen] Job %s reconcile=%s state=%s.'') } }"

definition reconcileSupervisorJob :: "cli_deps \<Rightarrow> ClassicJob \<Rightarrow> cli_end ccli" where
  "reconcileSupervisorJob d job =
     (if cj_State job \<notin> {ClassicActionIntentRecorded, ClassicActionScheduled, ClassicActionExecutionUnverified,
          ClassicActionExecutedConfirmed} then
        ret (runtimeError 2 ''reconcile job'' (Err ''state %s has no scheduled power action to reconcile''))
      else do {
        let receipt = cancellationReceipt job;
        (result, e) \<leftarrow> ask (\<lambda>(x, e). ReconcileSentFor receipt x e) (\<lambda>n. dp_Reconcile d n receipt);
        case e of
          Some x \<Rightarrow> ret (runtimeError 14 ''reconcile power receipt'' x)
        | None \<Rightarrow> do {
            now \<leftarrow> (if rr_CheckedAt result = 0 then store time_Now else ret (rr_CheckedAt result));
            let result = result\<lparr>rr_CheckedAt := now\<rparr>;
            case reconciled_state job receipt result of
              Inl x \<Rightarrow> ret (runtimeError 17 (case rr_State result of ReconcileOther _ \<Rightarrow> ''reconcile power receipt''
                | _ \<Rightarrow> ''transition reconciled job'') x)
            | Inr (s, reason) \<Rightarrow> save_reconciled job (reconciled_job job receipt result s reason) } })"

subsection \<open>Which job\<close>

datatype cancel_choice =
    ChooseClassic ClassicJob
  | ChoosePlugin Job
  | ChooseRecovery RecoveryAuthority
  | ChooseNothing cli_end

text \<open>With a job identity: what the stores give for it.\<close>

definition choose_named :: "(err + ClassicJob) \<Rightarrow> (err + Job) \<Rightarrow> (err + RecoveryAuthority) \<Rightarrow> cancel_choice" where
  "choose_named classic plugin authority =
     (let recover = (\<lambda>e. case authority of Inr a \<Rightarrow> ChooseRecovery a | Inl _ \<Rightarrow> ChooseNothing (runtimeError 17 ''load job'' e)) in
      case classic of
        Inr job \<Rightarrow> ChooseClassic job
      | Inl e \<Rightarrow>
          if \<not> errors_Is e ErrNotExist then recover e
          else (case plugin of Inl x \<Rightarrow> recover x | Inr job \<Rightarrow> ChoosePlugin job))"

text \<open>\<open>reconcile\<close> looks no further than the two stores.\<close>

definition choose_reconciled :: "(err + ClassicJob) \<Rightarrow> (err + Job) \<Rightarrow> cancel_choice" where
  "choose_reconciled classic plugin =
     (case classic of
        Inr job \<Rightarrow> ChooseClassic job
      | Inl e \<Rightarrow>
          if \<not> errors_Is e ErrNotExist then ChooseNothing (runtimeError 17 ''load job'' e)
          else (case plugin of Inl x \<Rightarrow> ChooseNothing (runtimeError 17 ''load job'' x) | Inr job \<Rightarrow> ChoosePlugin job))"

text \<open>Without one: the only job that may still do something.\<close>

definition choose_only :: "(err + ClassicJob list) \<Rightarrow> (err + Job list) \<Rightarrow> cancel_choice" where
  "choose_only classic plugin =
     (case classic of
        Inl e \<Rightarrow> ChooseNothing (runtimeError 17 ''list jobs'' e)
      | Inr jobs \<Rightarrow>
          (case plugin of
             Inl e \<Rightarrow> ChooseNothing (runtimeError 17 ''list plugin jobs'' e)
           | Inr pluginJobs \<Rightarrow>
               (case (filter (\<lambda>j. \<not> classic_IsTerminal (cj_State j)) jobs,
                      filter (\<lambda>j. IsActive (State j) \<or> HasUnresolvedPowerAction j) pluginJobs) of
                  ([], []) \<Rightarrow> ChooseNothing (runtimeError 2 ''select job'' (Err ''no active job; provide a job id to inspect a completed job''))
                | ([job], []) \<Rightarrow> ChooseClassic job
                | ([], [job]) \<Rightarrow> ChoosePlugin job
                | _ \<Rightarrow> ChooseNothing (runtimeError 2 ''select job'' (Err ''multiple active jobs; specify one of: %s'')))))"

subsection \<open>What they may do\<close>

text \<open>The log of a cancellation: the reloaded job, the backend when its action is unresolved, and one save when that is settled.\<close>

definition cancel_log :: "classic_effect list \<Rightarrow> bool" where
  "cancel_log l \<longleftrightarrow> l = [] \<or> (\<exists>r. l = [ClassicRead r]) \<or>
     (\<exists>job x e. IsUnresolvedPowerState (cj_State job) \<and>
        (l = [ClassicRead (Inr job), CancelSentFor (cancellationReceipt job) x e] \<or>
         (\<exists>t r. confirmed e \<and> cj_State job = ClassicActionScheduled \<and>
            l = [ClassicRead (Inr job), CancelSentFor (cancellationReceipt job) x e, ClassicSaved (cancelled_job_of job x t) r])))"

lemma cancel_logged: "emits (cancelSupervisorJob d job) (\<lambda>_ l. cancel_log l)"
  unfolding cancelSupervisorJob_def save_cancelled_def
  by (intro emit_rules) (auto simp: cancel_log_def)

text \<open>The log of a reconciliation: the backend is only asked, and what is saved follows the machine and the answer.\<close>

definition reconcile_log :: "ClassicJob \<Rightarrow> classic_effect list \<Rightarrow> bool" where
  "reconcile_log job l \<longleftrightarrow> l = [] \<or>
     (\<exists>x e. l = [ReconcileSentFor (cancellationReceipt job) x e] \<or>
        (\<exists>j r. e = None \<and> l = [ReconcileSentFor (cancellationReceipt job) x e, ClassicSaved j r] \<and>
           (cj_State j = cj_State job \<or> Transition (cj_State job) (cj_State j) = None \<and>
              (rr_State x = ReconcileConfirmed \<and> cj_State j = ClassicActionExecutedConfirmed \<or>
               rr_State x = ReconcileUnverified \<and> cj_State j = ClassicActionExecutionUnverified \<and>
                 rcp_Deadline (cancellationReceipt job) \<le> cj_UpdatedAt j))))"

lemma reconciled_moves:
  assumes "reconciled_state job receipt x = Inr (s, reason)"
  shows "s = cj_State job \<or> Transition (cj_State job) s = None \<and>
    (rr_State x = ReconcileConfirmed \<and> s = ClassicActionExecutedConfirmed \<or>
     rr_State x = ReconcileUnverified \<and> s = ClassicActionExecutionUnverified \<and> rcp_Deadline receipt \<le> rr_CheckedAt x)"
  using assms by (auto simp: reconciled_state_def Let_def split: ReconcileState.splits if_splits option.splits)

text \<open>The backend may leave the time of its answer to the clock.\<close>

lemma emits_checked: "(\<And>now. emits (k now) Q) \<Longrightarrow> emits ((if b then store m else ret v) \<bind> k) Q"
  by (cases b) (auto intro: emits_store_then)

lemma reconcile_log_parts:
  "reconcile_log job []" "reconcile_log job [ReconcileSentFor (cancellationReceipt job) x e]"
  by (auto simp: reconcile_log_def)

lemma reconcile_log_saved:
  assumes "reconciled_state job (cancellationReceipt job) (x\<lparr>rr_CheckedAt := now\<rparr>) = Inr (s, reason)"
  shows "reconcile_log job [ReconcileSentFor (cancellationReceipt job) x None,
    ClassicSaved (reconciled_job job (cancellationReceipt job) (x\<lparr>rr_CheckedAt := now\<rparr>) s reason) r]"
  using reconciled_moves [OF assms] by (auto simp: reconcile_log_def reconciled_job_def)

lemma reconcile_logged: "emits (reconcileSupervisorJob d job) (\<lambda>_ l. reconcile_log job l)"
  unfolding reconcileSupervisorJob_def save_reconciled_def Let_def
  by (intro emits_checked emit_rules) (auto intro: reconcile_log_parts reconcile_log_saved)

text \<open>
  C25: The foreground halves of \<open>cancel\<close> and \<open>reconcile\<close> act on the machine of the job and on nothing else. \<open>cancel\<close>
  asks the backend only about a job that it reloaded with an unresolved action, with the receipt of that job, and
  saves it as cancelled only when it was scheduled and the backend confirmed. \<open>reconcile\<close> never cancels; what
  it saves is the old state, or a move of the machine that the answer of the backend gives, and no action is called
  unverified before its deadline.
\<close>

theorem foreground_commands_follow_machine:
  "emits (cancelSupervisorJob d job) (\<lambda>_ l. cancel_log l) \<and> emits (reconcileSupervisorJob d job) (\<lambda>_ l. reconcile_log job l)"
  by (simp add: cancel_logged reconcile_logged)

text \<open>The receipt that is built from the intent of a valid job is one that a backend accepts.\<close>

lemma intent_receipt_valid:
  assumes "validateJob job = None" "ValidateJobID (cj_JobID job) = None" "IsUnresolvedPowerState (cj_State job)"
    and "cj_PowerCapabilities job = Some c" "cap_Platform c \<noteq> []" "cap_BackendID c \<noteq> []"
    and "cap_CancelScope c = CancelScopeJob \<or> cap_CancelScope c = CancelScopeSystemGlobal"
    and "cj_ActionIntentAt job = Some t" "0 < t"
    and "\<And>s. cj_ScheduledFor job = Some s \<Longrightarrow> t \<le> s"
  shows "ValidateReceipt (cancellationReceipt job) = None \<and> rcp_JobID (cancellationReceipt job) = cj_JobID job"
proof (cases "cj_PowerReceipt job")
  case (Some r)
  then show ?thesis
    using assms(1) by (auto simp: cancellationReceipt_def validateJob_def Let_def checks_None reject_None)
next
  case None
  have "cj_Action job = ''shutdown''" "30 \<le> cj_DelaySeconds job"
    using assms(1) by (simp_all add: validateJob_def Let_def checks_None reject_None)
  then show ?thesis
    using None assms(2-) by (auto simp: cancellationReceipt_def intent_receipt_def Let_def ValidateReceipt_Seal zero_Receipt_def
        split: option.splits)
qed

end
