(* ===== verification/Mcp_Server.thy ===== *)
theory Mcp_Server
  imports Service_Laws Cli_Plugin
begin

text \<open>
  \<open>internal/mcpserver/server.go\<close> and \<open>internal/cli/mcp.go\<close>: the JSON-RPC session in which a client calls the
  tools of the plugin, one message per line. The stream of the client, the writes of the replies and the
  cancellation of the context are parameters. A \<open>json.RawMessage\<close> is its text, empty when it is absent.
\<close>

subsection \<open>Reading messages\<close>

abbreviation maxMessageBytes :: nat where "maxMessageBytes \<equiv> 2 ^ 20"

abbreviation newline :: char where "newline \<equiv> CHR 0x0A"

definition drop_cr :: "string \<Rightarrow> string" where
  "drop_cr line = (if line \<noteq> [] \<and> last line = CHR 0x0D then butlast line else line)"

text \<open>
  \<open>bufio.Scanner\<close> over lines: a line that does not fit into its buffer ends the scan. The last line needs no
  end of line, and nothing follows the last one.
\<close>

function scan_lines :: "string \<Rightarrow> string list \<times> bool" where
  "scan_lines text =
     (if text = [] then ([], False)
      else
        (let line = takeWhile (\<lambda>c. c \<noteq> newline) text; rest = drop (length line + 1) text in
         if maxMessageBytes \<le> length line then ([], True)
         else (let (ls, long) = scan_lines rest in (drop_cr line # ls, long))))"
  by pat_completeness auto
termination
  by (relation "measure length") auto

declare scan_lines.simps [simp del]

text \<open>
  A value that goes into an \<open>any\<close>: its numbers become \<open>float64\<close>, and \<open>strconv.ParseFloat\<close> refuses one that
  rounds to infinity. It stops reading an exponent once it has reached 10000.
\<close>

definition exponent_value :: "string \<Rightarrow> int" where
  "exponent_value s =
     (let (sign, digits) = (case s of c # cs \<Rightarrow> if c = CHR ''-'' then (-1, cs) else if c = CHR ''+'' then (1, cs) else (1, s) | [] \<Rightarrow> (1, s))
      in sign * foldl (\<lambda>n c. if n < 10000 then n * 10 + (int (char_code c) - 48) else n) 0 digits)"

definition float_fits :: "string \<Rightarrow> bool" where
  "float_fits t =
     (let unsigned = (case t of c # cs \<Rightarrow> if c = CHR ''-'' then cs else t | [] \<Rightarrow> t);
          is_exp = (\<lambda>c. c = CHR ''e'' \<or> c = CHR ''E'');
          mantissa = takeWhile (\<lambda>c. \<not> is_exp c) unsigned;
          whole = takeWhile (\<lambda>c. c \<noteq> CHR ''.'') mantissa;
          frac = drop (length whole + 1) mantissa;
          m = digits_value (whole @ frac);
          e = exponent_value (drop (length mantissa + 1) unsigned) - int (length frac);
          infinite = 2 ^ 1024 - 2 ^ 970
      in if 0 \<le> e then m * 10 ^ nat e < infinite else m < infinite * 10 ^ nat (- e))"

fun any_ok :: "jval \<Rightarrow> bool" where
  "any_ok (VNum t) = float_fits t"
| "any_ok (VArr vs) = list_all any_ok vs"
| "any_ok (VObj ms) = list_all (\<lambda>(_, v). any_ok v) ms"
| "any_ok _ = True"

text \<open>How deep a value is nested; the scanner of \<open>encoding/json\<close> refuses more than 10000 levels.\<close>

fun nesting :: "jval \<Rightarrow> nat" where
  "nesting (VArr vs) = Suc (foldr max (map nesting vs) 0)"
| "nesting (VObj ms) = Suc (foldr max (map (\<lambda>(_, v). nesting v) ms) 0)"
| "nesting _ = 0"

fun decode_raw_members :: "string list \<Rightarrow> ('a \<Rightarrow> string \<Rightarrow> string \<Rightarrow> 'a option) \<Rightarrow> 'a \<Rightarrow> (string \<times> string) list \<Rightarrow> 'a option" where
  "decode_raw_members names put a [] = Some a"
| "decode_raw_members names put a ((k, raw) # ms) =
     (case find_field names k of
        None \<Rightarrow> None
      | Some n \<Rightarrow> (case put a n raw of None \<Rightarrow> None | Some a \<Rightarrow> decode_raw_members names put a ms))"

text \<open>\<open>decodeStrict\<close>: one value, no unknown field, and nothing after it. The text of every field is kept.\<close>

definition decodeStrict :: "string list \<Rightarrow> ('a \<Rightarrow> string \<Rightarrow> string \<Rightarrow> 'a option) \<Rightarrow> 'a \<Rightarrow> string \<Rightarrow> 'a option" where
  "decodeStrict names put zero text =
     (case parse_value (2 * length text + 2) text of
        None \<Rightarrow> None
      | Some (v, rest) \<Rightarrow>
          if skip_ws rest \<noteq> [] \<or> 10000 < nesting v then None
          else (case v of
            VNull \<Rightarrow> Some zero
          | VObj _ \<Rightarrow> (case raw_object text of None \<Rightarrow> None | Some (ms, _) \<Rightarrow> decode_raw_members names put zero ms)
          | _ \<Rightarrow> None))"

definition raw_string :: "string \<Rightarrow> string \<Rightarrow> string option" where
  "raw_string old raw = Option.bind (json_text raw) (decode_string old)"

definition raw_any :: "string \<Rightarrow> bool" where
  "raw_any raw = (case json_text raw of None \<Rightarrow> False | Some v \<Rightarrow> any_ok v)"

subsection \<open>Messages\<close>

record request =
  rq_JSONRPC :: string
  rq_ID :: string
  rq_Method :: string
  rq_Params :: string

definition put_request :: "request \<Rightarrow> string \<Rightarrow> string \<Rightarrow> request option" where
  "put_request r n raw =
     (if n = ''jsonrpc'' then map_option (\<lambda>x. r\<lparr>rq_JSONRPC := x\<rparr>) (raw_string (rq_JSONRPC r) raw)
      else if n = ''id'' then Some (r\<lparr>rq_ID := raw\<rparr>)
      else if n = ''method'' then map_option (\<lambda>x. r\<lparr>rq_Method := x\<rparr>) (raw_string (rq_Method r) raw)
      else Some (r\<lparr>rq_Params := raw\<rparr>))"

definition decode_request :: "string \<Rightarrow> request option" where
  "decode_request = decodeStrict [''jsonrpc'', ''id'', ''method'', ''params''] put_request
     \<lparr>rq_JSONRPC = [], rq_ID = [], rq_Method = [], rq_Params = []\<rparr>"

definition defaultObject :: "string \<Rightarrow> string" where
  "defaultObject raw = (if TrimSpace raw = [] \<or> TrimSpace raw = ''null'' then ''{}'' else raw)"

record tool =
  tl_Name :: string
  tl_Title :: string
  tl_Description :: string
  tl_InputSchema :: json

record rpcError =
  er_Code :: int
  er_Message :: string

record callResult =
  ca_Content :: "(string \<times> string) list"
  ca_StructuredContent :: "string \<Rightarrow> Plugin_Service.structured option"
  ca_IsError :: bool

record initializeResult =
  in_ProtocolVersion :: string
  in_ListChanged :: bool
  in_Name :: string
  in_Version :: string
  in_Instructions :: string

datatype mcp_result =
    ResultInitialize initializeResult
  | ResultPing
  | ResultTools "tool list"
  | ResultCall callResult

record response =
  rp_JSONRPC :: string
  rp_ID :: string
  rp_Reply :: "rpcError + mcp_result"

definition successResponse :: "string \<Rightarrow> mcp_result \<Rightarrow> response" where
  "successResponse i result = \<lparr>rp_JSONRPC = ''2.0'', rp_ID = i, rp_Reply = Inr result\<rparr>"

definition errorResponse :: "string \<Rightarrow> int \<Rightarrow> string \<Rightarrow> response" where
  "errorResponse i code message = \<lparr>rp_JSONRPC = ''2.0'', rp_ID = i, rp_Reply = Inl \<lparr>er_Code = code, er_Message = message\<rparr>\<rparr>"

subsection \<open>The catalogue of tools\<close>

definition stringProperty :: "string \<Rightarrow> json" where
  "stringProperty description = JObj [(''type'', JStr ''string''), (''description'', JStr description)]"

definition object_schema :: "string list \<Rightarrow> (string \<times> json) list \<Rightarrow> json" where
  "object_schema required properties = JObj [(''type'', JStr ''object''), (''additionalProperties'', JBool False),
     (''required'', JArr (map JStr required)), (''properties'', JObj properties)]"

definition bounded_string :: "int \<Rightarrow> int \<Rightarrow> json" where
  "bounded_string low high = JObj [(''type'', JStr ''string''), (''minLength'', JInt low), (''maxLength'', JInt high)]"

definition string_enum :: "string list \<Rightarrow> json" where
  "string_enum values = JObj [(''type'', JStr ''string''), (''enum'', JArr (map JStr values))]"

definition described :: "string \<Rightarrow> string \<Rightarrow> json" where
  "described type description = JObj [(''type'', JStr type), (''description'', JStr description)]"

definition between :: "int \<Rightarrow> int \<Rightarrow> json" where
  "between low high = JObj [(''type'', JStr ''integer''), (''minimum'', JInt low), (''maximum'', JInt high)]"

definition completionSchema :: json where
  "completionSchema = object_schema
     [''schema_version'', ''status'', ''summary'', ''checks'', ''remaining_work'', ''approval_required'']
     [(''schema_version'', JObj [(''type'', JStr ''string''), (''const'', JStr ''1'')]),
      (''status'', string_enum [''done'', ''partial'', ''blocked'', ''failed'']),
      (''summary'', bounded_string 1 4096),
      (''checks'', JObj [(''type'', JStr ''array''), (''maxItems'', JInt 64), (''items'', object_schema
         [''name'', ''status'', ''evidence'']
         [(''name'', bounded_string 1 256),
          (''status'', string_enum [''passed'', ''failed'', ''not_run'']),
          (''evidence'', JObj [(''type'', JStr ''string''), (''maxLength'', JInt 4096)])])]),
      (''remaining_work'', JObj [(''type'', JStr ''array''), (''maxItems'', JInt 64), (''items'', bounded_string 1 1024)]),
      (''approval_required'', JObj [(''type'', JStr ''boolean'')])]"

definition jobIDSchema :: "bool \<Rightarrow> json" where
  "jobIDSchema required = JObj ([(''type'', JStr ''object''), (''additionalProperties'', JBool False),
     (''properties'', JObj [(''job_id'', described ''string'' ''DoneThen one-shot job id'')])]
     @ (if required then [(''required'', JArr [JStr ''job_id''])] else []))"

definition arm_tool :: tool where
  "arm_tool = \<lparr>tl_Name = ''arm'', tl_Title = ''Arm DoneThen'',
     tl_Description = ''Create a time-limited one-shot lifecycle grant. after_stop observes one session; after_all_stop waits for every explicitly listed target session. Stop intentionally does not mean task success. Dry-run is available; execute is accepted only when the returned per-policy readiness says a trusted authority path is ready.'',
     tl_InputSchema = object_schema
       [''action'', ''trigger_policy'', ''acknowledge_stop_without_success'', ''delay_seconds'', ''expires_in_seconds'', ''mode'',
        ''verifier_profile'', ''allow_agent_only_success'']
       [(''action'', JObj [(''type'', JStr ''string''), (''const'', JStr ''shutdown'')]),
        (''trigger_policy'', JObj [(''type'', JStr ''string''),
           (''enum'', JArr (map JStr [''after_stop'', ''after_all_stop'', ''verified_success''])),
           (''description'', JStr ''Use after_all_stop only when the user explicitly supplies 2-16 target session ids; neither Stop policy proves success'')]),
        (''acknowledge_stop_without_success'', described ''boolean''
           ''Must be true for after_stop or after_all_stop execute; acknowledges that a normal Stop after partial, blocked, or question-ending work can trigger the countdown''),
        (''target_session_ids'', JObj [(''type'', JStr ''array''), (''minItems'', JInt 2), (''maxItems'', JInt 16),
           (''uniqueItems'', JBool True), (''items'', bounded_string 1 1024),
           (''description'', JStr ''after_all_stop only: exact opaque Codex session ids in user-supplied order'')]),
        (''acknowledge_barrier_across_turns'', described ''boolean''
           ''after_all_stop execute only: acknowledges that a target which resumes before countdown remains pending until a later Stop''),
        (''delay_seconds'', between 30 3600),
        (''expires_in_seconds'', between 60 86400),
        (''mode'', string_enum [''dry_run'', ''execute'']),
        (''verifier_profile'', stringProperty ''Use none for after_stop; a pre-registered verifier id is only for verified_success''),
        (''allow_agent_only_success'', described ''boolean''
           ''verified_success only: explicitly accept structured agent self-report when verifier_profile is none'')]\<rparr>"

definition mcp_tools :: "tool list" where
  "mcp_tools =
     [arm_tool,
      \<lparr>tl_Name = ''finish'', tl_Title = ''Report DoneThen completion'',
        tl_Description = ''verified_success only: validate structured completion and run the fixed registered verifier. after_stop never calls this tool.'',
        tl_InputSchema = object_schema [''job_id'', ''completion'']
          [(''job_id'', stringProperty ''DoneThen one-shot job id''), (''completion'', completionSchema)]\<rparr>,
      \<lparr>tl_Name = ''pause'', tl_Title = ''Pause DoneThen'',
        tl_Description = ''verified_success only: invalidate completion evidence while the task waits. Cancel after_stop instead of pausing it.'',
        tl_InputSchema = object_schema [''job_id'', ''reason'']
          [(''job_id'', stringProperty ''DoneThen one-shot job id''),
           (''reason'', string_enum [''blocked'', ''approval_required'', ''waiting_for_user'', ''external_state''])]\<rparr>,
      \<lparr>tl_Name = ''cancel'', tl_Title = ''Cancel DoneThen'',
        tl_Description = ''Idempotently disarm a DoneThen job and, when a receipt exists, cancel only through the receipt-bound platform backend.'',
        tl_InputSchema = jobIDSchema True\<rparr>,
      \<lparr>tl_Name = ''status'', tl_Title = ''Read DoneThen status'',
        tl_Description = ''Return redacted plugin job state, hook compatibility, expiry, and cancellation guidance.'',
        tl_InputSchema = jobIDSchema False\<rparr>]"

subsection \<open>The session\<close>

record Server =
  ms_Service :: Service
  ms_Version :: string

text \<open>The service is a value here; a version that is missing is \<open>dev\<close>.\<close>

definition New_server :: "Service \<Rightarrow> string \<Rightarrow> Server" where
  "New_server service version = \<lparr>ms_Service = service, ms_Version = (if version = [] then ''dev'' else version)\<rparr>"

definition supportedProtocolVersions :: "string list" where
  "supportedProtocolVersions = [''2025-11-25'', ''2025-06-18'', ''2025-03-26'']"

definition put_initialize :: "string \<Rightarrow> string \<Rightarrow> string \<Rightarrow> string option" where
  "put_initialize a n raw =
     (if n = ''protocolVersion'' then raw_string a raw else if raw_any raw then Some a else None)"

text \<open>An error is its text.\<close>

definition mcp_initialize :: "Server \<Rightarrow> string \<Rightarrow> string + initializeResult" where
  "mcp_initialize sv raw =
     (case decodeStrict [''protocolVersion'', ''capabilities'', ''clientInfo'', ''_meta''] put_initialize [] (defaultObject raw) of
        None \<Rightarrow> Inl ''invalid initialize parameters''
      | Some given \<Rightarrow>
          if given = [] then Inl ''initialize requires protocolVersion''
          else Inr \<lparr>in_ProtocolVersion = (if given \<in> set supportedProtocolVersions then given else ''2025-11-25''),
            in_ListChanged = False, in_Name = ''done-then'', in_Version = ms_Version sv,
            in_Instructions = ''DoneThen defaults to after_stop dry-run. after_all_stop creates one fail-closed observation barrier across 2-16 explicit session ids. Neither Stop policy claims task success, and public Stop-based execute remains unavailable until trusted final Hook arbitration exists. verified_success is separate and also unavailable for public execute.''\<rparr>)"

record callParams =
  cp_Name :: string
  cp_Arguments :: string

definition put_call :: "callParams \<Rightarrow> string \<Rightarrow> string \<Rightarrow> callParams option" where
  "put_call a n raw =
     (if n = ''name'' then map_option (\<lambda>x. a\<lparr>cp_Name := x\<rparr>) (raw_string (cp_Name a) raw)
      else if n = ''arguments'' then Some (a\<lparr>cp_Arguments := raw\<rparr>)
      else if raw_any raw then Some a else None)"

definition mcp_call :: "Server \<Rightarrow> string \<Rightarrow> string \<Rightarrow> response vop" where
  "mcp_call sv i raw =
     (let invalid = errorResponse i (-32602) ''Invalid tools/call parameters'' in
      case decodeStrict [''name'', ''arguments'', ''_meta''] put_call \<lparr>cp_Name = [], cp_Arguments = []\<rparr> (defaultObject raw) of
        None \<Rightarrow> ret invalid
      | Some params \<Rightarrow>
          if cp_Name params = [] then ret invalid
          else do {
            result \<leftarrow> service_Call (ms_Service sv) (cp_Name params) (defaultObject (cp_Arguments params));
            ret (successResponse i (ResultCall \<lparr>ca_Content = [(''text'', res_Text result)],
              ca_StructuredContent = res_Structured result, ca_IsError = res_IsError result\<rparr>)) })"

text \<open>The reply to a request, and whether the session is initialized after it.\<close>

definition serve_request :: "Server \<Rightarrow> bool \<Rightarrow> request \<Rightarrow> (bool \<times> response) vop" where
  "serve_request sv initialized message =
     (let i = rq_ID message; m = rq_Method message;
          uninitialized = errorResponse i (-32002) ''Server is not initialized''
      in if m = ''initialize'' then
           ret (case mcp_initialize sv (rq_Params message) of
                  Inl e \<Rightarrow> (initialized, errorResponse i (-32602) e)
                | Inr result \<Rightarrow> (True, successResponse i (ResultInitialize result)))
         else if m = ''ping'' then ret (initialized, successResponse i ResultPing)
         else if m = ''tools/list'' then
           ret (initialized, if \<not> initialized then uninitialized else successResponse i (ResultTools mcp_tools))
         else if m = ''tools/call'' then
           (if \<not> initialized then ret (initialized, uninitialized)
            else do { reply \<leftarrow> mcp_call sv i (rq_Params message); ret (initialized, reply) })
         else ret (initialized, errorResponse i (-32601) ''Method not found''))"

text \<open>One line: the reply, if there is one, with the text of the error when it cannot be written.\<close>

definition serve_line :: "Server \<Rightarrow> bool \<Rightarrow> string \<Rightarrow> (bool \<times> (string \<times> response) option) vop" where
  "serve_line sv initialized line =
     (if TrimSpace line = [] then ret (initialized, None)
      else (case decode_request (TrimSpace line) of
        None \<Rightarrow> ret (initialized, Some (''write MCP parse error: %w'', errorResponse ''null'' (-32700) ''Parse error''))
      | Some message \<Rightarrow>
          if rq_JSONRPC message \<noteq> ''2.0'' \<or> rq_Method message = [] then
            ret (initialized, if rq_ID message = [] then None
              else Some (''write MCP invalid-request error: %w'', errorResponse (rq_ID message) (-32600) ''Invalid Request''))
          else if rq_ID message = [] then ret (initialized \<or> rq_Method message = ''notifications/initialized'', None)
          else do {
            (initialized, reply) \<leftarrow> serve_request sv initialized message;
            ret (initialized, Some (''write MCP response: %w'', reply)) }))"

record mcp_io =
  io_Cancelled :: "nat \<Rightarrow> bool"
  io_Write :: "nat \<Rightarrow> err option"
  io_ReadError :: "err option"

text \<open>\<open>k\<close> counts the lines; \<open>readErr\<close> is the error of the scanner after the last one.\<close>

fun serve_lines :: "Server \<Rightarrow> mcp_io \<Rightarrow> err option \<Rightarrow> nat \<Rightarrow> bool \<Rightarrow> string list \<Rightarrow> (response list \<times> err option) vop" where
  "serve_lines sv ch readErr k initialized [] = ret ([], readErr)"
| "serve_lines sv ch readErr k initialized (line # ls) =
     (if io_Cancelled ch k then ret ([], None)
      else do {
        (initialized, reply) \<leftarrow> serve_line sv initialized line;
        case reply of
          None \<Rightarrow> serve_lines sv ch readErr (Suc k) initialized ls
        | Some (unwritten, r) \<Rightarrow>
            (case io_Write ch k of
               Some e \<Rightarrow> ret ([], Some (Wrap unwritten e))
             | None \<Rightarrow> do {
                 (rs, e) \<leftarrow> serve_lines sv ch readErr (Suc k) initialized ls;
                 ret (r # rs, e) }) })"

definition scan_error :: "mcp_io \<Rightarrow> bool \<Rightarrow> err option" where
  "scan_error ch long =
     (if long then Some (Wrap ''read MCP message: %w'' (Err ''bufio.Scanner: token too long''))
      else map_option (Wrap ''read MCP message: %w'') (io_ReadError ch))"

definition Serve :: "Server \<Rightarrow> mcp_io \<Rightarrow> string \<Rightarrow> (response list \<times> err option) vop" where
  "Serve sv ch text = (let (ls, long) = scan_lines text in serve_lines sv ch (scan_error ch long) 0 False ls)"

subsection \<open>The command\<close>

text \<open>
  \<open>mcpCommand\<close> probes the backend on the platforms that have one and never says that a policy is ready to
  execute. The data directory is opened before; the version is the one of the build.
\<close>

record mcp_env =
  me_Workspace :: "err + string"
  me_Supported :: bool
  me_Backend :: service_backend
  me_Launcher :: service_launcher
  me_Random :: "nat \<Rightarrow> u8 list option \<times> u8 list option"
  me_Version :: string
  me_IO :: mcp_io
  me_Input :: string

definition mcp_probe :: "mcp_env \<Rightarrow> bool vop" where
  "mcp_probe env =
     (if \<not> me_Supported env then ret False
      else do {
        now \<leftarrow> service_now;
        let probe = \<lparr>req_JobID = ''dt_mcp_capability_probe'', req_Action = ''shutdown'', req_Delay = 120 * Second,
          req_Comment = ''DoneThen capability probe'', req_RequestedAt = now\<rparr>;
        (capabilities, e) \<leftarrow> ask (\<lambda>(c, e). BackendAsked probe c e) (\<lambda>n. bk_Preflight (me_Backend env) n probe);
        ret (e = None \<and> cap_ExecuteSupported capabilities) })"

definition mcp_options :: "mcp_env \<Rightarrow> string \<Rightarrow> bool \<Rightarrow> Options" where
  "mcp_options env workspace passed =
     (let cap = (\<lambda>reason. \<lparr>pc_BuildSupported = True, pc_BackendSupported = me_Supported env, pc_BackendPreflightPassed = passed,
            pc_ExecuteReady = False, pc_UnavailableReason = reason\<rparr>);
          stop = ''stop_arbitration_unavailable: Codex Stop observation is not a final global hook-arbitration receipt; Stop-based execute remains disabled'';
          verified = ''verified_success_authority_unavailable: verified-success execute requires validated local policy and a trusted same-host authority attachment''
      in \<lparr>op_AfterStopExecuteAvailable = False, op_AfterStopExecuteUnavailableReason = [], op_ExecuteAvailable = False,
           op_ExecuteUnavailableReason = [], op_Workspace = workspace, op_Profiles = None, op_Launcher = Some (me_Launcher env),
           op_Backend = Some (me_Backend env), op_PowerPolicyFingerprint = [], op_AllowAgentOnlySuccess = False,
           op_PolicyCapabilities = (\<lambda>_. None)(TriggerAfterStop \<mapsto> cap stop, TriggerAfterAllStop \<mapsto> cap stop,
             TriggerVerifiedSuccess \<mapsto> cap verified)\<rparr>)"

definition mcp_session :: "mcp_env \<Rightarrow> string \<Rightarrow> bool \<Rightarrow> (response list \<times> cli_end) vop" where
  "mcp_session env workspace passed =
     (case NewWithOptions True (mcp_options env workspace passed) (me_Random env) of
        Inl e \<Rightarrow> ret ([], runtimeError 17 ''initialize plugin service'' e)
      | Inr service \<Rightarrow> do {
          (replies, e) \<leftarrow> Serve (New_server service (me_Version env)) (me_IO env) (me_Input env);
          ret (replies, case e of Some x \<Rightarrow> runtimeError 17 ''serve MCP'' x | None \<Rightarrow> cli_ok []) })"

definition mcpCommand :: "mcp_env \<Rightarrow> string list \<Rightarrow> (response list \<times> cli_end) vop" where
  "mcpCommand env args =
     (if args = [''--help''] \<or> args = [''-h''] then ret ([], cli_ok ''usage'')
      else if args \<noteq> [] then ret ([], usageError (Err ''mcp accepts no arguments''))
      else (case me_Workspace env of
        Inl e \<Rightarrow> ret ([], runtimeError 17 ''resolve plugin workspace'' e)
      | Inr workspace \<Rightarrow> do {
          passed \<leftarrow> mcp_probe env;
          mcp_session env workspace passed }))"

end
