(* ===== verification/Mcp_Laws.thy ===== *)
theory Mcp_Laws
  imports Mcp_Server
begin

text \<open>
  What an MCP session promises: every request has exactly one reply, in order; nothing is called before the
  session is initialized; the published schemas are the arguments that the service reads; and the server that the
  command line starts never starts a supervisor.
\<close>

subsection \<open>Requests and replies\<close>

text \<open>The identities that a line wants to be answered: one for a request, none for a notification or a blank line.\<close>

definition answers :: "string \<Rightarrow> string list" where
  "answers line =
     (if TrimSpace line = [] then []
      else (case decode_request (TrimSpace line) of
        None \<Rightarrow> [''null'']
      | Some message \<Rightarrow> if rq_ID message = [] then [] else [rq_ID message]))"

text \<open>The replies to the lines up to the end of the session, which comes early only when it is cancelled or a write fails.\<close>

definition answered :: "mcp_io \<Rightarrow> err option \<Rightarrow> string list \<Rightarrow> response list \<Rightarrow> err option \<Rightarrow> bool" where
  "answered ch readErr ls replies e \<longleftrightarrow>
     (\<exists>k \<le> length ls. map rp_ID replies = concat (map answers (take k ls)) \<and>
        (k = length ls \<and> e = readErr \<or> (\<exists>n. io_Cancelled ch n) \<or> (\<exists>n. io_Write ch n \<noteq> None)))"

lemma response_ids [simp]: "rp_ID (successResponse i r) = i" "rp_ID (errorResponse i c m) = i"
  by (simp_all add: successResponse_def errorResponse_def)

lemma call_id: "wp (mcp_call sv i raw) (\<lambda>r _. rp_ID r = i) s"
  unfolding mcp_call_def Let_def by (intro wp_branches wp_all) auto

lemma request_id: "wp (serve_request sv b message) (\<lambda>(_, r) _. rp_ID r = rq_ID message) s"
  unfolding serve_request_def Let_def
  by (intro wp_branches) (auto split: sum.split intro: wp_mono [OF call_id])

lemma line_answer:
  "wp (serve_line sv b line) (\<lambda>(_, reply) _. answers line = (case reply of None \<Rightarrow> [] | Some (_, r) \<Rightarrow> [rp_ID r])) s"
  unfolding serve_line_def
  by (intro wp_branches) (auto simp: answers_def split: option.split intro!: wp_mono [OF request_id])

lemma answered_Cons:
  assumes "answered ch readErr ls rs e" "answers line = map rp_ID r"
  shows "answered ch readErr (line # ls) (r @ rs) e"
proof -
  obtain k where k: "k \<le> length ls" "map rp_ID rs = concat (map answers (take k ls))"
      "k = length ls \<and> e = readErr \<or> (\<exists>n. io_Cancelled ch n) \<or> (\<exists>n. io_Write ch n \<noteq> None)"
    using assms(1) by (auto simp: answered_def)
  show ?thesis
    unfolding answered_def by (rule exI [of _ "Suc k"]) (use k assms(2) in auto)
qed

lemma answered_stop: "io_Cancelled ch n \<or> io_Write ch n \<noteq> None \<Longrightarrow> answered ch readErr ls [] e"
  unfolding answered_def by (rule exI [of _ 0]) auto

lemma lines_answered: "wp (serve_lines sv ch readErr k b ls) (\<lambda>(replies, e) _. answered ch readErr ls replies e) s"
proof (induction ls arbitrary: k b s)
  case Nil
  then show ?case by (simp add: answered_def)
next
  case (Cons line ls k b s)
  show ?case
  proof (cases "io_Cancelled ch k")
    case False
    have "wp (serve_line sv b line \<bind> (\<lambda>(b, reply). case reply of
          None \<Rightarrow> serve_lines sv ch readErr (Suc k) b ls
        | Some (unwritten, r) \<Rightarrow> (case io_Write ch k of
            Some e \<Rightarrow> ret ([], Some (Wrap unwritten e))
          | None \<Rightarrow> serve_lines sv ch readErr (Suc k) b ls \<bind> (\<lambda>(rs, e). ret (r # rs, e)))))
        (\<lambda>(replies, e) _. answered ch readErr (line # ls) replies e) s"
      unfolding wp_bind
    proof (rule wp_mono [OF line_answer], clarify, intro wp_branches, goal_cases)
      case (1 s b reply)
      then show ?case
        by (auto intro!: wp_mono [OF Cons.IH] dest: answered_Cons [of _ _ _ _ _ line "[]"])
    next
      case (2 s b reply x unwritten r)
      then show ?case
        by (auto intro!: wp_mono [OF Cons.IH] dest: answered_Cons [of _ _ _ _ _ line "[r]"])
    next
      case (3 s b reply x unwritten r e)
      then show ?case
        by (auto intro: answered_stop)
    qed
    with False show ?thesis by simp
  qed (auto intro: answered_stop)
qed

text \<open>
  Every request of a session is answered once, in the order of the stream and with its own identity; a
  notification and a blank line are not answered, and what cannot be parsed is answered with \<open>null\<close>. The session
  ends before the last line only when its context is cancelled or a reply cannot be written; otherwise its error is the
  one of reading the stream.
\<close>

lemma requests_answered:
  "wp (Serve sv ch text) (\<lambda>(replies, e) _. answered ch (scan_error ch (snd (scan_lines text))) (fst (scan_lines text)) replies e) s"
  unfolding Serve_def by (simp add: lines_answered split: prod.split)

subsection \<open>Before the initialization\<close>

text \<open>A line that initializes the session: an \<open>initialize\<close> that is accepted, or the notification.\<close>

definition initializes :: "Server \<Rightarrow> string \<Rightarrow> bool" where
  "initializes sv line \<longleftrightarrow> TrimSpace line \<noteq> [] \<and>
     (case decode_request (TrimSpace line) of
        None \<Rightarrow> False
      | Some m \<Rightarrow> rq_JSONRPC m = ''2.0'' \<and>
          (if rq_ID m = [] then rq_Method m = ''notifications/initialized''
           else rq_Method m = ''initialize'' \<and> \<not> isl (mcp_initialize sv (rq_Params m))))"

text \<open>A reply that shows a tool, or the result of one.\<close>

fun tool_reply :: "response \<Rightarrow> bool" where
  "tool_reply r = (case rp_Reply r of Inr (ResultTools _) \<Rightarrow> True | Inr (ResultCall _) \<Rightarrow> True | _ \<Rightarrow> False)"

lemma uninitialized_line:
  assumes "\<not> initializes sv line"
  shows "wp (serve_line sv False line) (\<lambda>(b, reply) s'. \<not> b \<and> s' = s \<and> (case reply of None \<Rightarrow> True | Some (_, r) \<Rightarrow> \<not> tool_reply r)) s"
  using assms unfolding serve_line_def serve_request_def Let_def
  by (intro wp_branches) (auto simp: initializes_def successResponse_def errorResponse_def split: option.split sum.split)

text \<open>
  Nothing happens before the session is initialized: while no line has initialized it, no tool is called, so
  that the jobs and the world stay as they are, and no reply shows a tool or the result of one.
\<close>

lemma tools_need_initialization:
  assumes "list_all (\<lambda>line. \<not> initializes sv line) ls"
  shows "wp (serve_lines sv ch readErr k False ls) (\<lambda>(replies, _) s'. s' = s \<and> list_all (\<lambda>r. \<not> tool_reply r) replies) s"
  using assms
proof (induction ls arbitrary: k)
  case (Cons line ls k)
  show ?case
  proof (cases "io_Cancelled ch k")
    case False
    have "wp (serve_line sv False line \<bind> (\<lambda>(b, reply). case reply of
          None \<Rightarrow> serve_lines sv ch readErr (Suc k) b ls
        | Some (unwritten, r) \<Rightarrow> (case io_Write ch k of
            Some e \<Rightarrow> ret ([], Some (Wrap unwritten e))
          | None \<Rightarrow> serve_lines sv ch readErr (Suc k) b ls \<bind> (\<lambda>(rs, e). ret (r # rs, e)))))
        (\<lambda>(replies, _) s'. s' = s \<and> list_all (\<lambda>r. \<not> tool_reply r) replies) s"
      unfolding wp_bind
      by (rule wp_mono [OF uninitialized_line [where s = s]])
         (use Cons in \<open>auto intro!: wp_branches wp_mono [OF Cons.IH] split: option.splits\<close>)
    with False show ?thesis by simp
  qed simp
qed simp

subsection \<open>The catalogue\<close>

text \<open>The properties of an object schema, in order, when it allows no others.\<close>

fun schema_properties :: "json \<Rightarrow> string list option" where
  "schema_properties (JObj fs) =
     (case (map_of fs ''additionalProperties'', map_of fs ''properties'') of
        (Some (JBool False), Some (JObj ps)) \<Rightarrow> Some (map fst ps)
      | _ \<Rightarrow> None)"
| "schema_properties _ = None"

definition published :: "(string \<times> string set option) list" where
  "published = map (\<lambda>t. (tl_Name t, map_option set (schema_properties (tl_InputSchema t)))) mcp_tools"

text \<open>
  The published catalogue is what the service reads: the schemas of the five tools are closed, and their
  properties are exactly the fields that the decoders of their arguments know; the schema of a completion report is
  the one of the envelope.
\<close>

lemma catalogue_is_decoded:
  "published = [(''arm'', Some (set arm_fields)), (''finish'', Some {''job_id'', ''completion''}),
     (''pause'', Some {''job_id'', ''reason''}), (''cancel'', Some {''job_id''}), (''status'', Some {''job_id''})] \<and>
   map_option set (schema_properties completionSchema) = Some (set envelope_fields)"
  by (auto simp: published_def mcp_tools_def arm_tool_def object_schema_def jobIDSchema_def arm_fields_def completionSchema_def
      envelope_fields_def)

subsection \<open>The command never starts a supervisor\<close>

text \<open>Effects that lead to a power action: a supervisor that is started, and a preflight of a job's own request.\<close>

fun leads_to_power :: "service_effect \<Rightarrow> bool" where
  "leads_to_power (SupervisorLaunched _ _) = True"
| "leads_to_power (BackendAsked request _ _) = (req_JobID request \<noteq> ''dt_mcp_capability_probe'')"
| "leads_to_power _ = False"

abbreviation powerless_log :: "'a \<Rightarrow> service_effect list \<Rightarrow> bool" where
  "powerless_log \<equiv> \<lambda>_ l. \<not> list_ex leads_to_power l"

lemma other_tools_powerless:
  "emits (service_finish s raw) powerless_log" "emits (service_pause raw) powerless_log" "emits (service_cancel s raw) powerless_log"
  unfolding service_finish_def finish_verified_def run_verifier_def load_verifier_def service_pause_def service_cancel_def
    settle_power_def close_job_def update_noted_def start_worker_def cancel_legacy_def
  by (intro emit_rules emits_bind; simp)+

lemma refresh_powerless: "emits (service_refresh job) powerless_log"
  unfolding service_refresh_def service_now_def by (intro emit_rules; simp)

lemma powerless_bind: "emits m powerless_log \<Longrightarrow> (\<And>r. emits (f r) powerless_log) \<Longrightarrow> emits (m \<bind> f) powerless_log"
  by (rule emits_bind, rule emits_mono, assumption) (auto elim!: emits_mono)

lemma statuses_powerless: "emits (service_statuses jobs) powerless_log"
  by (induction jobs) (auto intro!: powerless_bind refresh_powerless emits_prod)

lemma status_powerless: "emits (service_status raw) powerless_log"
  unfolding service_status_def
  by (intro emit_rules powerless_bind statuses_powerless refresh_powerless; simp)

text \<open>Without readiness an accepted request is a dry run, and a dry run asks nobody and starts nothing.\<close>

definition never_ready :: "Service \<Rightarrow> bool" where
  "never_ready s \<longleftrightarrow> (\<forall>policy. \<not> pc_ExecuteReady (capability s policy))"

lemma never_ready_dry:
  "never_ready s \<Longrightarrow> arm_request s args = Inr (policy, targets, a) \<Longrightarrow> aa_Mode a = ''dry_run''"
  by (drule arm_request_facts(11)) (auto simp: never_ready_def execute_grant_def)

lemma arm_powerless:
  assumes "never_ready s"
  shows "emits (service_arm s raw) powerless_log"
proof -
  have create: "emits (arm_create s policy ids (arm_job s policy targets a fp i b now)) powerless_log"
    if "aa_Mode a = ''dry_run''" for policy ids targets a fp i b now
    by (rule emits_mono [OF arm_create_log]) (use that in auto)
  show ?thesis
    unfolding service_arm_def
  proof (intro emits_sum emits_prod, goal_cases)
    case (3 args x policy targets' targets a)
    then have "aa_Mode a = ''dry_run''"
      using never_ready_dry [OF assms] by simp
    then show ?case
      unfolding arm_verifier_def arm_preflight_def new_identity_def service_now_def arm_binding_def
      by (intro emit_rules powerless_bind create; simp)
  qed simp_all
qed

lemma call_powerless: "never_ready s \<Longrightarrow> emits (service_Call s name raw) powerless_log"
  unfolding service_Call_def
  by (intro powerless_bind emit_rules arm_powerless other_tools_powerless status_powerless; simp)

lemma serve_powerless: "never_ready (ms_Service sv) \<Longrightarrow> emits (serve_lines sv ch readErr k b ls) powerless_log"
proof (induction ls arbitrary: k b)
  case (Cons line ls)
  have "emits (serve_line sv b line) powerless_log" for b
    unfolding serve_line_def serve_request_def mcp_call_def Let_def
    by (intro emit_rules powerless_bind call_powerless Cons.prems; simp)
  then show ?case
    using Cons by (auto intro!: emit_rules powerless_bind)
qed simp

lemma mcp_service_never_ready:
  "NewWithOptions True (mcp_options env workspace passed) random = Inr s \<Longrightarrow> never_ready s"
  by (auto simp: NewWithOptions_def mcp_options_def never_ready_def capability_def capability_of_def normalizedPolicyCapabilities_def
      zero_capability_def Let_def split: if_splits)

text \<open>
  C13: The server that \<open>donethen mcp\<close> starts never starts a power action: whatever a client sends, and however the
  platform, the backend and the store answer, no supervisor is started, and no power request of a job is put to the
  backend. Besides the probe of its capabilities, the backend is only ever asked to cancel.
\<close>

theorem mcp_never_leads_to_power: "emits (mcpCommand env args) (\<lambda>_ l. \<not> list_ex leads_to_power l)"
proof -
  have "emits (mcp_probe env) powerless_log"
    unfolding mcp_probe_def service_now_def Let_def by (intro emit_rules; simp)
  moreover have "emits (mcp_session env workspace passed) powerless_log" for workspace passed
    unfolding mcp_session_def Serve_def New_server_def
    by (intro emit_rules powerless_bind serve_powerless) (auto dest: mcp_service_never_ready)
  ultimately show ?thesis
    unfolding mcpCommand_def by (intro emit_rules powerless_bind; simp)
qed

text \<open>A session keeps what every tool keeps; in particular it never brings a terminal job back.\<close>

context kept_by_service
begin

lemma serve_retains: "steps (retains (holds i K)) (serve_lines sv ch readErr k b ls)"
proof (induction ls arbitrary: k b)
  case (Cons line ls)
  have "steps (retains (holds i K)) (serve_line sv b line)" for b
    unfolding serve_line_def serve_request_def mcp_call_def Let_def
    by (intro quiet_rules retained.steps_ret retained.steps_bind call_retains)
  then show ?case
    using Cons by (auto intro!: quiet_rules retained.steps_ret retained.steps_bind)
qed (simp add: retained.steps_ret)

end

lemma session_keeps_terminal:
  assumes "stable (holds i (\<lambda>j. IsTerminal (State j))) (pw_world s)"
    and "holds i (\<lambda>j. IsTerminal (State j)) (disk (pw_world s))"
  shows "wp (Serve sv ch text) (\<lambda>_ s'. holds i (\<lambda>j. IsTerminal (State j)) (disk (pw_world s'))) s"
  unfolding Serve_def
  by (simp split: prod.split, intro allI impI, rule wp_mono [OF stepsD [OF terminal_jobs.serve_retains [of i]]])
     (use assms in \<open>simp add: retains_def\<close>)

end
