(* ===== verification/Spec2Isabelle.thy ===== *)
theory Spec2Isabelle
  imports Plugin_Status Plugin_Update Hook_Observer Recovery_Laws Host_Laws Power_Promises Classic_Laws Daemon_Laws Backend_Laws Service_Laws Cancel_Laws Cli_Laws Cli_Classic Mcp_Laws
begin

text \<open>
  DoneThen powers a machine off after a Codex task has stopped. A false shutdown loses work and a second one
  may hit whatever runs after the first was cancelled, so that nearly everything the program does is a reason
  not to power off. This library models the Go code under \<open>src/internal\<close> and proves what its layers promise each
  other and the user. Each theory opens with the files it models; definitions keep the names of the code.

  \<^bold>\<open>The program.\<close> A job is armed through the MCP tools (\<open>pluginapi\<close>) and stored (\<open>pluginstate\<close>). Lifecycle hooks
  (\<open>hookobserver\<close>) bind it to a session and move it on. A one-shot supervisor process (\<open>pluginpower\<close>) waits for the
  stop, consults the host (\<open>hostauthority\<close>), crosses the durable boundary of one schedule call (\<open>pluginstate/recovery.go\<close>),
  calls a power backend (\<open>actions\<close>) and watches the countdown. On Linux the backend talks to a privileged helper
  (\<open>powerdaemon\<close>). The older foreground mode (\<open>supervisor\<close>, \<open>store\<close>, \<open>completion\<close>) runs the agent itself.

  \<^bold>\<open>The prelude.\<close>
  \<^item> \<open>Go_Base\<close>, \<open>Go_Path\<close>, \<open>Go_Encoding\<close>, \<open>Go_JSON\<close>: Go's values as the program uses them. A string is its list of bytes,
    an \<open>error\<close> an \<open>err option\<close> (\<open>errors_Is\<close> follows \<open>Wrap\<close>), a \<open>uint64\<close> generation a \<open>64 word\<close>, a time the nanoseconds since
    the zero time, a slice that may be \<open>nil\<close> an option. SHA-256 is computed; JSON is written and read.
  \<^item> \<open>Go_World\<close>: a stateful function is a program of the state monad over a world: the typed disk, a script that says
    which system calls fail, a clock, and the other processes (\<open>others\<close>), which may change the disk before every
    call. \<open>wp\<close> is its weakest precondition; the rules of \<open>wp_intros\<close> follow the program.
  \<^item> \<open>Go_Keeps\<close>, \<open>Go_Live\<close>, \<open>Go_Trace\<close>: invariants at every step whatever fails; the successful path of a world without
    failures; and programs that also call parameters (a backend, a peer, a lock), whose answers are kept in
    a log. \<open>steps\<close> and \<open>emits\<close> reason about that log; the locale \<open>journey\<close> is what a preorder of states needs.
  \<^item> \<open>Go_Files\<close>: a file as a trusted reader sees it (\<open>filetrust/filetrust.go\<close>).

  \<^bold>\<open>The plugin.\<close>
  \<^item> \<open>Actions\<close> (\<open>actions/backend.go\<close>): requests, receipts and their seals. \<open>Plugin_Job\<close> (\<open>job.go\<close>): the job and \<open>Validate\<close>.
  \<^item> \<open>Plugin_Disk\<close>, \<open>Plugin_Store\<close>, \<open>Plugin_Bind\<close>, \<open>Plugin_Observed\<close>, \<open>Plugin_Status\<close> (\<open>store.go\<close>, \<open>lock.go\<close>): loading, creating,
    updating, binding, reserving, observing and printing jobs. \<open>Plugin_Update\<close> has the promises of the store (an
    update is committed whole, and among 128 updates once per event key; a barrier is authorised only complete and reserved);
    \<open>Plugin_Keeps\<close> the locale \<open>kept\<close>: an invariant of one stored job survives every operation.
  \<^item> \<open>Plugin_Recovery\<close>, \<open>Recovery_Laws\<close> (\<open>recovery.go\<close>): four create-once records. A call is started at most once, a
    record never changes, and a loaded authority is a consistent chain. The locales \<open>slot\<close> and \<open>two_slots\<close> are the
    fields of the recovery directory.
  \<^item> \<open>Hook_Rules\<close>, \<open>Hook_Observer\<close> (\<open>observer.go\<close>): no hook revives a finished job, or forgets a power action except
    where a property says so.
  \<^item> \<open>Plugin_Service\<close> (\<open>pluginapi/service.go\<close>): the tools \<open>arm\<close>, \<open>finish\<close>, \<open>pause\<close>, \<open>cancel\<close> and \<open>status\<close>.
    \<open>Service_Keeps\<close>: they keep an invariant of a stored job, such as being terminal (\<open>kept_by_service\<close>). \<open>Service_Laws\<close>:
    what a started supervisor was granted, and that an accepted request makes a valid job. \<open>Cancel_Laws\<close>: \<open>cancel\<close> settles
    a power action that it has seen, and misses one that is recorded after it looked.

  \<^item> \<open>Cli_Plugin\<close>, \<open>Cli_Laws\<close> (\<open>cli/cancel.go\<close>, \<open>plugin_cancel.go\<close>, \<open>cancel_worker.go\<close>, \<open>reconcile.go\<close>): settling a power action
    from the command line and from the detached worker. \<open>step_ok\<close> says which steps the log before them allows;
    \<open>kept_by_cli\<close> is the invariant of a stored job.

  \<^item> \<open>Mcp_Server\<close>, \<open>Mcp_Laws\<close> (\<open>mcpserver/server.go\<close>, \<open>cli/mcp.go\<close>): the session of a client, line by line. Every request
    has one reply; nothing is called before the initialization; the catalogue is what the service decodes; the server
    that is shipped never starts a supervisor.

  \<^bold>\<open>The host and the power action.\<close>
  \<^item> \<open>Host_Types\<close>, \<open>Host_Adapter\<close>, \<open>Host_Laws\<close> (\<open>hostauthority\<close>): the snapshot of the host and the final gate.
  \<^item> \<open>Power_World\<close>, \<open>Power_Supervisor\<close>, \<open>Power_Laws\<close>, \<open>Power_Promises\<close> (\<open>supervisor.go\<close>): the supervisor, its log, and the
    promises about its schedule call.
  \<^item> \<open>Power_Daemon\<close>, \<open>Daemon_Laws\<close> (\<open>server_linux.go\<close>): the helper refines a life cycle of its one record and powers
    off only for the action that it recorded, in time and on the same boot.
  \<^item> \<open>Power_Backends\<close> (\<open>linux.go\<close>, \<open>helper_unix.go\<close>, \<open>windows.go\<close>, \<open>darwin.go\<close>, \<open>other.go\<close>, \<open>fake.go\<close>): the backends. The locale
    \<open>power_backend\<close> is what a coordinator relies on; each backend interprets it. \<open>Backend_Laws\<close> runs the Linux
    backend against the helper.

  \<^bold>\<open>The foreground mode.\<close> \<open>Completion\<close> (\<open>completion\<close>), \<open>Classic_Job\<close> (\<open>job.go\<close>, \<open>machine.go\<close>), \<open>Classic_Store\<close>
  (\<open>store/store.go\<close>), \<open>Classic_Coordinator\<close> and \<open>Classic_Laws\<close> (\<open>coordinator.go\<close>),
  \<open>Cli_Classic\<close> (the foreground halves of \<open>cli/cancel.go\<close> and \<open>reconcile.go\<close>).

  \<^bold>\<open>Bounds and fuel.\<close> The poll of a lock is bounded by its deadline: 101 polls of 5 ms cover the 500 ms of the store's
  lock, and the helper's poll has fuel for its timeout at 10 ms each; running out is the timeout itself. The cancel
  worker tries the machine lock 15600 times 250 ms apart, its longest wait of 65 minutes. The
  JSON reader has two units of fuel per byte, enough by \<open>json_text\<close>'s round trip. The fence of the cancel worker and
  the loops of the supervisor wait for the outside and may run for ever: their fuel is an argument, the safety
  properties hold for every value of it, and running out is a value of its own. All other recursion is on data.

  \<^bold>\<open>Not modelled.\<close> Starting processes and reading their pipes (\<open>codexexec\<close>, \<open>processgroup\<close>, the launcher), sockets,
  peer credentials and the JSON-RPC transport, ownership and access lists of files (\<open>filetrust_unix.go\<close>,
  \<open>filetrust_windows.go\<close>), named mutexes, flag parsing and printing (the rest of \<open>cli\<close>), the manifest and the SBOM:
  they wrap system calls or are static data. Local policies and verifier profiles (\<open>powerpolicy\<close>, \<open>verifierprofile\<close>) are
  read through parameters. Where modelled code calls them they are parameters.
\<close>

end
